(* ===== verification/Prelude.thy ===== *)
theory Prelude
  imports Main "HOL-Library.Word" "HOL-Library.AList"
begin

text \<open>
  The shared vocabulary of the development.

  A Rust \<open>String\<close> or \<open>&str\<close> is modelled by the list of its UTF-8 bytes.  Everywhere but in the
  terminal input crate a byte is a HOL \<open>char\<close>, so that string literals read as in the source; the
  terminal crate works on \<open>u8\<close> words.  The functions below are the parts of \<open>core::str\<close> and
  \<open>core::num\<close> the sources use: searching, splitting, stripping, trimming, lower-casing, and
  saturating arithmetic.  A \<open>HashMap\<close> is an association list with distinct keys, read by
  \<open>map_of\<close> and written by \<open>AList.update\<close> and \<open>AList.delete\<close>.
\<close>

named_theorems str_simps \<open>characterisations of the string primitives\<close>
named_theorems sat_simps \<open>saturating arithmetic read through unat\<close>

section \<open>Machine integers\<close>

type_synonym u8 = "8 word"
type_synonym u16 = "16 word"
type_synonym u32 = "32 word"
type_synonym u64 = "64 word"

text \<open>\<open>saturating_add\<close>, \<open>saturating_mul\<close> and \<open>saturating_sub\<close> at any width.\<close>

definition sat_add :: "'a::len word \<Rightarrow> 'a word \<Rightarrow> 'a word" where
  "sat_add a b = (if unat a + unat b < 2 ^ LENGTH('a) then a + b else - 1)"

definition sat_mul :: "'a::len word \<Rightarrow> 'a word \<Rightarrow> 'a word" where
  "sat_mul a b = (if unat a * unat b < 2 ^ LENGTH('a) then a * b else - 1)"

definition sat_sub :: "'a::len word \<Rightarrow> 'a word \<Rightarrow> 'a word" where
  "sat_sub a b = (if b \<le> a then a - b else 0)"

lemma unat_minus_one_word_full: "unat (- 1 :: 'a::len word) = 2 ^ LENGTH('a) - 1"
  by (simp add: unsigned_minus_1_eq_mask mask_eq_exp_minus_1)

lemma unat_sat_add [sat_simps]:
  "unat (sat_add a b :: 'a::len word) = min (2 ^ LENGTH('a) - 1) (unat a + unat b)"
  by (auto simp: sat_add_def unat_minus_one_word_full unat_word_ariths)

lemma unat_sat_mul [sat_simps]:
  "unat (sat_mul a b :: 'a::len word) = min (2 ^ LENGTH('a) - 1) (unat a * unat b)"
  by (auto simp: sat_mul_def unat_minus_one_word_full unat_word_ariths)

lemma unat_sat_sub [sat_simps]: "unat (sat_sub a b) = unat a - unat b"
  by (auto simp: sat_sub_def unat_sub word_le_nat_alt)

section \<open>Slices and strings\<close>

text \<open>\<open>str::strip_prefix\<close> and \<open>str::starts_with\<close>.\<close>

fun strip_prefix :: "'a list \<Rightarrow> 'a list \<Rightarrow> 'a list option" where
  "strip_prefix [] s = Some s"
| "strip_prefix (p # ps) [] = None"
| "strip_prefix (p # ps) (x # xs) = (if p = x then strip_prefix ps xs else None)"

lemma strip_prefix_Some_iff [str_simps]: "strip_prefix p s = Some r \<longleftrightarrow> s = p @ r"
  by (induction p s rule: strip_prefix.induct) auto

lemma strip_prefix_append [simp]: "strip_prefix p (p @ r) = Some r"
  by (simp add: strip_prefix_Some_iff)

lemma strip_prefix_None_iff [str_simps]: "strip_prefix p s = None \<longleftrightarrow> (\<forall>r. s \<noteq> p @ r)"
  using strip_prefix_Some_iff by (metis not_None_eq)

definition str_starts :: "'a list \<Rightarrow> 'a list \<Rightarrow> bool" where
  "str_starts p s = (case strip_prefix p s of None \<Rightarrow> False | Some _ \<Rightarrow> True)"

lemma str_starts_iff [str_simps]: "str_starts p s \<longleftrightarrow> (\<exists>r. s = p @ r)"
  by (auto simp: str_starts_def str_simps split: option.splits)

lemma str_starts_append [simp]: "str_starts p (p @ r)"
  by (auto simp: str_starts_iff)

text \<open>\<open>str::find\<close> with a string pattern: the byte offset of the first occurrence.\<close>

fun str_find :: "'a list \<Rightarrow> 'a list \<Rightarrow> nat option" where
  "str_find pat [] = (if pat = [] then Some 0 else None)"
| "str_find pat (x # xs) =
     (if str_starts pat (x # xs) then Some 0 else map_option Suc (str_find pat xs))"

definition str_contains :: "'a list \<Rightarrow> 'a list \<Rightarrow> bool" where
  "str_contains pat s = (case str_find pat s of None \<Rightarrow> False | Some _ \<Rightarrow> True)"

lemma str_find_SomeD:
  "str_find pat s = Some i \<Longrightarrow> s = take i s @ pat @ drop (i + length pat) s"
proof (induction pat s arbitrary: i rule: str_find.induct)
  case (1 pat)
  then show ?case by (auto split: if_splits)
next
  case (2 pat x xs)
  then show ?case by (auto simp: str_starts_iff split: if_splits)
qed

lemma str_find_len: "str_find pat s = Some i \<Longrightarrow> i + length pat \<le> length s"
proof (induction pat s arbitrary: i rule: str_find.induct)
  case (1 pat)
  then show ?case by (auto split: if_splits)
next
  case (2 pat x xs)
  show ?case
  proof (cases "str_starts pat (x # xs)")
    case True
    then obtain r where "x # xs = pat @ r" by (auto simp: str_starts_iff)
    then have "length pat \<le> length (x # xs)" by (metis length_append le_add1)
    then show ?thesis using 2(2) True by simp
  next
    case False
    with 2(2) obtain k where "str_find pat xs = Some k" "i = Suc k" by auto
    with 2(1)[OF False] show ?thesis by simp
  qed
qed

lemma str_find_None_iff: "str_find pat s = None \<longleftrightarrow> (\<forall>a b. s \<noteq> a @ pat @ b)"
proof (induction pat s rule: str_find.induct)
  case (1 pat)
  then show ?case by auto
next
  case (2 pat x xs)
  show ?case
  proof (cases "str_starts pat (x # xs)")
    case True
    then obtain r where "x # xs = [] @ pat @ r" by (auto simp: str_starts_iff)
    then show ?thesis using True by (metis option.distinct(1) str_find.simps(2))
  next
    case False
    have "(\<exists>a b. x # xs = a @ pat @ b) \<longleftrightarrow> (\<exists>a b. xs = a @ pat @ b)"
    proof
      assume "\<exists>a b. x # xs = a @ pat @ b"
      then obtain a b where ab: "x # xs = a @ pat @ b" by blast
      with False have "a \<noteq> []" by (auto simp: str_starts_iff)
      with ab show "\<exists>a b. xs = a @ pat @ b" by (cases a) auto
    next
      assume "\<exists>a b. xs = a @ pat @ b"
      then show "\<exists>a b. x # xs = a @ pat @ b" by (metis append_Cons)
    qed
    with False 2 show ?thesis by auto
  qed
qed

lemma str_contains_iff [str_simps]: "str_contains pat s \<longleftrightarrow> (\<exists>a b. s = a @ pat @ b)"
  using str_find_None_iff[of pat s] by (auto simp: str_contains_def split: option.splits)

text \<open>The first occurrence is found where nothing before it lets one start earlier.\<close>

lemma str_find_at:
  assumes "\<And>j. j < length a \<Longrightarrow> \<not> str_starts pat (drop j (a @ pat @ b))"
  shows "str_find pat (a @ pat @ b) = Some (length a)"
  using assms
proof (induction a)
  case Nil
  have "str_starts pat (pat @ b)" by simp
  then show ?case by (cases "pat @ b") auto
next
  case (Cons x xs)
  have "\<not> str_starts pat ((x # xs) @ pat @ b)" using Cons.prems[of 0] by simp
  moreover have "str_find pat (xs @ pat @ b) = Some (length xs)"
  proof (rule Cons.IH)
    fix j assume "j < length xs"
    then show "\<not> str_starts pat (drop j (xs @ pat @ b))" using Cons.prems[of "Suc j"] by simp
  qed
  ultimately show ?case by simp
qed

lemma str_find_fresh_head:
  assumes "h \<notin> set a"
  shows "str_find (h # t) (a @ (h # t) @ b) = Some (length a)"
proof (rule str_find_at)
  fix j assume "j < length a"
  then have "drop j (a @ (h # t) @ b) = a ! j # drop (Suc j) (a @ (h # t) @ b)"
    by (simp add: Cons_nth_drop_Suc nth_append flip: append_assoc)
  moreover have "a ! j \<noteq> h" using \<open>j < length a\<close> assms by auto
  ultimately show "\<not> str_starts (h # t) (drop j (a @ (h # t) @ b))"
    by (simp add: str_starts_iff)
qed

text \<open>\<open>str::split\<close> on a single character (or byte predicate): never an empty list.\<close>

fun split_on :: "('a \<Rightarrow> bool) \<Rightarrow> 'a list \<Rightarrow> 'a list list" where
  "split_on P [] = [[]]"
| "split_on P (x # xs) =
     (if P x then [] # split_on P xs
      else (case split_on P xs of [] \<Rightarrow> [[x]] | w # ws \<Rightarrow> (x # w) # ws))"

lemma split_on_nonempty [simp]: "split_on P xs \<noteq> []"
  by (induction xs) (auto split: list.splits)

lemma split_on_no_sep: "\<forall>x \<in> set xs. \<not> P x \<Longrightarrow> split_on P xs = [xs]"
  by (induction xs) auto

lemma split_on_append_sep:
  "\<forall>x \<in> set xs. \<not> P x \<Longrightarrow> P s \<Longrightarrow> split_on P (xs @ s # ys) = xs # split_on P ys"
  by (induction xs) (auto split: list.splits)

lemma split_on_parts: "w \<in> set (split_on P xs) \<Longrightarrow> x \<in> set w \<Longrightarrow> \<not> P x"
proof (induction xs arbitrary: w)
  case Nil
  then show ?case by simp
next
  case (Cons a as)
  obtain v vs where "split_on P as = v # vs" by (cases "split_on P as") auto
  with Cons show ?case by (fastforce split: if_splits)
qed

text \<open>\<open>[T]::join\<close> on strings.\<close>

fun str_join :: "'a list \<Rightarrow> 'a list list \<Rightarrow> 'a list" where
  "str_join sep [] = []"
| "str_join sep [w] = w"
| "str_join sep (w # ws) = w @ sep @ str_join sep ws"

lemma str_join_Cons: "ws \<noteq> [] \<Longrightarrow> str_join sep (w # ws) = w @ sep @ str_join sep ws"
  by (cases ws) auto

lemma str_join_split_on:
  "str_join [s] (split_on (\<lambda>c. c = s) xs) = xs"
proof (induction xs)
  case Nil
  then show ?case by simp
next
  case (Cons x xs)
  obtain w ws where w: "split_on (\<lambda>c. c = s) xs = w # ws"
    by (cases "split_on (\<lambda>c. c = s) xs") auto
  show ?case
  proof (cases "x = s")
    case True
    then show ?thesis using Cons w by simp
  next
    case False
    then show ?thesis using Cons w by (cases ws) auto
  qed
qed

section \<open>Characters: ASCII classes, case and white space\<close>

abbreviation code :: "char \<Rightarrow> nat" where
  "code c \<equiv> of_char c"

definition is_ascii_digit :: "char \<Rightarrow> bool" where
  "is_ascii_digit c \<longleftrightarrow> 48 \<le> code c \<and> code c \<le> 57"

definition is_ascii_hexdigit :: "char \<Rightarrow> bool" where
  "is_ascii_hexdigit c \<longleftrightarrow>
     is_ascii_digit c \<or> (65 \<le> code c \<and> code c \<le> 70) \<or> (97 \<le> code c \<and> code c \<le> 102)"

text \<open>Printable ASCII other than the space: no byte of a white-space character.\<close>

definition is_graphic :: "char \<Rightarrow> bool" where
  "is_graphic c \<longleftrightarrow> 33 \<le> code c \<and> code c \<le> 126"

definition ascii_lower :: "char \<Rightarrow> char" where
  "ascii_lower c = (if 65 \<le> code c \<and> code c \<le> 90 then char_of (code c + 32) else c)"

text \<open>
  \<open>str::to_lowercase\<close>, as far as a comparison with an ASCII literal can see it: ASCII letters, the
  Kelvin sign (whose lower case is the ASCII \<open>k\<close>) and the dotted capital I (whose lower case starts
  with the ASCII \<open>i\<close>).  Every other non-ASCII character has a non-ASCII lower case, so leaving its
  bytes alone does not change whether the result equals an ASCII literal.
\<close>

fun str_lower :: "string \<Rightarrow> string" where
  "str_lower [] = []"
| "str_lower (a # r) =
     (if code a = 0xE2 then
        (case r of
           b # c # r' \<Rightarrow> if code b = 0x84 \<and> code c = 0xAA then CHR ''k'' # str_lower r'
                        else a # str_lower r
         | _ \<Rightarrow> a # str_lower r)
      else if code a = 0xC4 then
        (case r of
           b # r' \<Rightarrow> if code b = 0xB0 then CHR ''i'' # char_of (0xCC::nat) # char_of (0x87::nat) # str_lower r'
                    else a # str_lower r
         | _ \<Rightarrow> a # str_lower r)
      else ascii_lower a # str_lower r)"

text \<open>
  The number of bytes of a leading white-space character (Unicode \<open>White_Space\<close>, in UTF-8); 0 when
  the text does not start with one.
\<close>

fun ws_len :: "string \<Rightarrow> nat" where
  "ws_len [] = 0"
| "ws_len (a # r) =
     (if (9 \<le> code a \<and> code a \<le> 13) \<or> code a = 32 then 1
      else if code a = 0xC2 then
        (case r of b # _ \<Rightarrow> if code b = 0x85 \<or> code b = 0xA0 then 2 else 0 | [] \<Rightarrow> 0)
      else if code a = 0xE1 then
        (case r of b # c # _ \<Rightarrow> if code b = 0x9A \<and> code c = 0x80 then 3 else 0 | _ \<Rightarrow> 0)
      else if code a = 0xE2 then
        (case r of b # c # _ \<Rightarrow>
           if code b = 0x80 \<and> (0x80 \<le> code c \<and> code c \<le> 0x8A \<or> code c = 0xA8 \<or> code c = 0xA9 \<or> code c = 0xAF)
              \<or> code b = 0x81 \<and> code c = 0x9F
           then 3 else 0 | _ \<Rightarrow> 0)
      else if code a = 0xE3 then
        (case r of b # c # _ \<Rightarrow> if code b = 0x80 \<and> code c = 0x80 then 3 else 0 | _ \<Rightarrow> 0)
      else 0)"

lemma ws_len_graphic [simp]: "is_graphic c \<Longrightarrow> ws_len (c # r) = 0"
  by (auto simp: is_graphic_def)

lemma ws_len_pos_nonempty: "0 < ws_len s \<Longrightarrow> 0 < length s"
  by (cases s) auto

lemma ws_len_last_graphic:
  assumes "is_graphic c"
  shows "ws_len [c] \<noteq> 1" "ws_len [b, c] \<noteq> 2" "ws_len [a, b, c] \<noteq> 3"
  using assms by (auto simp: is_graphic_def)

declare ws_len.simps(2) [simp del]

text \<open>\<open>str::trim_start\<close>, \<open>trim_end\<close> and \<open>trim\<close>.\<close>

function trim_start :: "string \<Rightarrow> string" where
  "trim_start s = (if ws_len s = 0 then s else trim_start (drop (ws_len s) s))"
  by pat_completeness auto
termination
  by (relation "measure length") (auto dest: ws_len_pos_nonempty intro: diff_less)

declare trim_start.simps [simp del]

definition ws_tail :: "string \<Rightarrow> nat \<Rightarrow> bool" where
  "ws_tail s k \<longleftrightarrow> k \<le> length s \<and> ws_len (drop (length s - k) s) = k"

definition ws_len_end :: "string \<Rightarrow> nat" where
  "ws_len_end s =
     (if ws_tail s 1 then 1 else if ws_tail s 2 then 2 else if ws_tail s 3 then 3 else 0)"

lemma ws_len_end_le: "ws_len_end s \<le> length s"
  by (auto simp: ws_len_end_def ws_tail_def)

function trim_end :: "string \<Rightarrow> string" where
  "trim_end s = (if ws_len_end s = 0 then s else trim_end (take (length s - ws_len_end s) s))"
  by pat_completeness auto
termination
proof (relation "measure length")
  fix s :: string
  assume "ws_len_end s \<noteq> 0"
  then show "(take (length s - ws_len_end s) s, s) \<in> measure length"
    using ws_len_end_le[of s] by simp
qed simp

declare trim_end.simps [simp del]

definition str_trim :: "string \<Rightarrow> string" where
  "str_trim s = trim_end (trim_start s)"

lemma trim_start_graphic [simp]: "is_graphic c \<Longrightarrow> trim_start (c # r) = c # r"
  by (subst trim_start.simps) simp

lemma trim_start_Nil [simp]: "trim_start [] = []"
  by (subst trim_start.simps) simp

lemma ws_len_end_Nil [simp]: "ws_len_end [] = 0"
  by (auto simp: ws_len_end_def ws_tail_def)

lemma trim_end_Nil [simp]: "trim_end [] = []"
  by (subst trim_end.simps) simp

lemma upto_two_elems:
  "k \<in> {1, 2, 3} \<Longrightarrow> length d = k - 1 \<Longrightarrow>
   d = [] \<and> k = 1 \<or> (\<exists>b. d = [b] \<and> k = 2) \<or> (\<exists>a b. d = [a, b] \<and> k = 3)"
  by (cases d; cases "tl d") auto

lemma ws_len_end_graphic:
  assumes "is_graphic c"
  shows "ws_len_end (r @ [c]) = 0"
proof -
  have "\<not> ws_tail (r @ [c]) k" if "k \<in> {1, 2, 3}" for k
  proof
    assume t: "ws_tail (r @ [c]) k"
    let ?d = "drop (length (r @ [c]) - k) (r @ [c])"
    have len: "length ?d = k" using t unfolding ws_tail_def length_drop by linarith
    have w: "ws_len ?d = k" using t by (simp only: ws_tail_def)
    have "?d \<noteq> []" using len that by auto
    moreover have "last ?d = c"
      using last_drop[of "length (r @ [c]) - k" "r @ [c]"] that by force
    ultimately have d: "?d = butlast ?d @ [c]" by (metis append_butlast_last_id)
    have "length (butlast ?d) = k - 1" using len by simp
    with that consider "butlast ?d = []" "k = 1" | b where "butlast ?d = [b]" "k = 2"
      | a b where "butlast ?d = [a, b]" "k = 3"
      using upto_two_elems[of k "butlast ?d"] by blast
    then show False
      using d w ws_len_last_graphic[OF assms] by cases (metis append_Nil append_Cons)+ 
  qed
  then show ?thesis by (simp add: ws_len_end_def)
qed

lemma trim_end_graphic [simp]: "is_graphic c \<Longrightarrow> trim_end (r @ [c]) = r @ [c]"
  by (subst trim_end.simps) (simp add: ws_len_end_graphic)

lemma trim_end_all_graphic [simp]: "\<forall>c \<in> set s. is_graphic c \<Longrightarrow> trim_end s = s"
  by (cases s rule: rev_cases) auto

lemma trim_start_all_graphic [simp]: "\<forall>c \<in> set s. is_graphic c \<Longrightarrow> trim_start s = s"
  by (cases s) auto

lemma str_trim_all_graphic: "\<forall>c \<in> set s. is_graphic c \<Longrightarrow> str_trim s = s"
  by (simp add: str_trim_def)

lemma trim_start_suffix: "\<exists>a. s = a @ trim_start s"
proof (induction s rule: trim_start.induct)
  case (1 s)
  show ?case
  proof (cases "ws_len s = 0")
    case True
    then show ?thesis by (simp add: trim_start.simps[of s])
  next
    case False
    then obtain a where "drop (ws_len s) s = a @ trim_start (drop (ws_len s) s)" using 1 by blast
    then have "s = (take (ws_len s) s @ a) @ trim_start (drop (ws_len s) s)"
      by (metis append_assoc append_take_drop_id)
    then show ?thesis using False by (metis trim_start.simps)
  qed
qed

lemma trim_end_prefix: "\<exists>b. s = trim_end s @ b"
proof (induction s rule: trim_end.induct)
  case (1 s)
  show ?case
  proof (cases "ws_len_end s = 0")
    case True
    then show ?thesis by (simp add: trim_end.simps[of s])
  next
    case False
    let ?t = "take (length s - ws_len_end s) s"
    obtain b where "?t = trim_end ?t @ b" using 1 False by blast
    then have "s = trim_end ?t @ (b @ drop (length s - ws_len_end s) s)"
      by (metis append_assoc append_take_drop_id)
    then show ?thesis using False by (metis trim_end.simps)
  qed
qed

section \<open>Association lists as hash maps\<close>

text \<open>
  \<open>HashMap::insert\<close> is \<open>AList.update\<close>, \<open>remove\<close> is \<open>AList.delete\<close>, \<open>get\<close> is \<open>map_of\<close>,
  \<open>retain\<close> is \<open>filter\<close>, \<open>len\<close> is \<open>length\<close>.  The invariant is that keys are distinct.  The
  iteration order, which Rust leaves open, is the list's order.
\<close>

definition hm_ok :: "('k \<times> 'v) list \<Rightarrow> bool" where
  "hm_ok m \<longleftrightarrow> distinct (map fst m)"

lemma hm_ok_Nil [simp]: "hm_ok []"
  by (simp add: hm_ok_def)

lemma hm_ok_update [intro]: "hm_ok m \<Longrightarrow> hm_ok (AList.update k v m)"
  by (simp add: hm_ok_def distinct_update)

lemma hm_ok_delete [intro]: "hm_ok m \<Longrightarrow> hm_ok (AList.delete k m)"
  by (simp add: hm_ok_def distinct_delete)

lemma hm_ok_filter [intro]: "hm_ok m \<Longrightarrow> hm_ok (filter P m)"
  by (simp add: hm_ok_def distinct_map_filter)

lemma hm_ok_map_val: "hm_ok (map (\<lambda>(k, v). (k, f k v)) m) \<longleftrightarrow> hm_ok m"
  by (simp add: hm_ok_def comp_def case_prod_unfold)

lemma hm_update [simp]: "map_of (AList.update k v m) = (map_of m)(k \<mapsto> v)"
  by (simp add: update_conv')

lemma hm_delete [simp]: "map_of (AList.delete k m) = (map_of m)(k := None)"
  by (simp add: delete_conv')

lemma hm_filter:
  "hm_ok m \<Longrightarrow>
   map_of (filter (\<lambda>(k, v). P k v) m) k =
     (case map_of m k of None \<Rightarrow> None | Some v \<Rightarrow> if P k v then Some v else None)"
proof (induction m)
  case Nil
  then show ?case by simp
next
  case (Cons a m)
  obtain k' v' where a: "a = (k', v')" by (cases a)
  have ok: "hm_ok m" and fresh: "k' \<notin> fst ` set m" using Cons.prems a by (auto simp: hm_ok_def)
  have none: "map_of m k' = None" using fresh by (simp add: map_of_eq_None_iff)
  show ?case using Cons.IH[OF ok] a none by (auto split: option.splits)
qed

lemma hm_map_val: "map_of (map (\<lambda>(k, v). (k, f k v)) m) k = map_option (f k) (map_of m k)"
  by (induction m) auto

lemma hm_in_set: "hm_ok m \<Longrightarrow> (k, v) \<in> set m \<longleftrightarrow> map_of m k = Some v"
  by (simp add: hm_ok_def)

text \<open>Decimal printing of unsigned numbers, as \<open>format!\<close> prints them.\<close>

definition digit_char :: "nat \<Rightarrow> char" where
  "digit_char d = char_of (48 + d)"

fun show_nat :: "nat \<Rightarrow> string" where
  "show_nat n = (if n < 10 then [digit_char n] else show_nat (n div 10) @ [digit_char (n mod 10)])"

declare show_nat.simps [simp del]

lemma digit_char_code: "k < 10 \<Longrightarrow> code (digit_char k) = 48 + k"
  by (simp add: digit_char_def)

lemma show_nat_all_digits: "c \<in> set (show_nat n) \<Longrightarrow> is_ascii_digit c"
proof (induction n rule: show_nat.induct)
  case (1 n)
  show ?case using 1 by (subst (asm) show_nat.simps) (auto simp: is_ascii_digit_def digit_char_code split: if_splits)
qed

section \<open>Keyed stores\<close>

text \<open>
  The interface of every keyed store of the program: what a lookup returns after an insertion and
  after a removal.  The clients rest on one consequence: operations on other keys are invisible.
\<close>

datatype ('k, 'v) store_op = OpInsert 'k 'v | OpDelete 'k

fun op_key :: "('k, 'v) store_op \<Rightarrow> 'k" where
  "op_key (OpInsert k v) = k"
| "op_key (OpDelete k) = k"

locale id_store =
  fixes insert_op :: "'k \<Rightarrow> 'v \<Rightarrow> 's \<Rightarrow> 's"
    and delete_op :: "'k \<Rightarrow> 's \<Rightarrow> 's"
    and look :: "'k \<Rightarrow> 's \<Rightarrow> 'v option"
  assumes look_insert: "look k (insert_op k' v s) = (if k = k' then Some v else look k s)"
    and look_delete: "look k (delete_op k' s) = (if k = k' then None else look k s)"
begin

fun run_op :: "('k, 'v) store_op \<Rightarrow> 's \<Rightarrow> 's" where
  "run_op (OpInsert k v) s = insert_op k v s"
| "run_op (OpDelete k) s = delete_op k s"

lemma look_other: "op_key c \<noteq> k \<Longrightarrow> look k (run_op c s) = look k s"
  by (cases c) (auto simp: look_insert look_delete)

lemma look_run_others: "\<forall>c \<in> set cs. op_key c \<noteq> k \<Longrightarrow> look k (fold run_op cs s) = look k s"
  by (induction cs arbitrary: s) (auto simp: look_other)

lemma look_last_write:
  "\<forall>c \<in> set cs. op_key c \<noteq> k \<Longrightarrow> look k (fold run_op cs (insert_op k v s)) = Some v"
  by (simp add: look_run_others look_insert)

end

interpretation assoc: id_store AList.update AList.delete "\<lambda>k m. map_of m k"
  by unfold_locales auto

section \<open>Folding a fallible step over an input\<close>

text \<open>
  Several components consume a list of inputs with a step that can fail (a panic, an error return)
  and stop at the first failure.  The interface: a step, its run over a list, and an invariant under
  which the step cannot fail.
\<close>

locale fallible_run =
  fixes stp :: "'b \<Rightarrow> 's \<Rightarrow> 'e + 's"
    and run :: "'b list \<Rightarrow> 's \<Rightarrow> 'e + 's"
    and inv :: "'s \<Rightarrow> bool"
  assumes run_Nil: "run [] s = Inr s"
    and run_Cons: "run (b # bs) s = (case stp b s of Inl e \<Rightarrow> Inl e | Inr s' \<Rightarrow> run bs s')"
    and stp_ok: "inv s \<Longrightarrow> \<exists>s'. stp b s = Inr s' \<and> inv s'"
begin

lemma run_append:
  "run (as @ bs) s = (case run as s of Inl e \<Rightarrow> Inl e | Inr s' \<Rightarrow> run bs s')"
proof (induction as arbitrary: s)
  case Nil
  then show ?case by (simp add: run_Nil)
next
  case (Cons a as)
  then show ?case by (simp add: run_Cons split: sum.splits)
qed

lemma run_ok: "inv s \<Longrightarrow> \<exists>s'. run bs s = Inr s' \<and> inv s'"
proof (induction bs arbitrary: s)
  case Nil
  then show ?case by (simp add: run_Nil)
next
  case (Cons b bs)
  then obtain s' where "stp b s = Inr s'" "inv s'" using stp_ok by blast
  with Cons.IH[of s'] show ?case by (simp add: run_Cons)
qed

lemma run_invariant:
  assumes "\<And>b s s'. R s \<Longrightarrow> stp b s = Inr s' \<Longrightarrow> R s'"
  shows "R s \<Longrightarrow> run bs s = Inr s' \<Longrightarrow> R s'"
proof (induction bs arbitrary: s)
  case Nil
  then show ?case by (simp add: run_Nil)
next
  case (Cons b bs)
  then show ?case using assms by (auto simp: run_Cons split: sum.splits)
qed

end

section \<open>Paths\<close>

text \<open>\<open>Path::join\<close>.\<close>

definition path_join :: "string \<Rightarrow> string \<Rightarrow> string" where
  "path_join base p =
     (if str_starts ''/'' p \<or> base = [] then p
      else if last base = CHR ''/'' then base @ p else base @ ''/'' @ p)"

end
