(* ===== verification/Utf8.thy ===== *)
theory Utf8
  imports Prelude
begin

text \<open>
  UTF-8 as \<open>core::str\<close> decodes it.  The decoder works on byte values (\<open>nat\<close>) and is shared by the
  terminal parser (\<open>u8\<close> words) and the string functions (\<open>char\<close> bytes).  \<open>utf8_step\<close> follows the table
  of \<open>run_utf8_validation\<close>: the code point and width of the first character, or the length of the
  maximal invalid part that \<open>from_utf8_lossy\<close> replaces by U+FFFD.
\<close>

section \<open>Decoding\<close>

abbreviation is_cont :: "nat \<Rightarrow> bool" where
  "is_cont b \<equiv> 128 \<le> b \<and> b \<le> 191"

definition second_of_three :: "nat \<Rightarrow> nat \<Rightarrow> bool" where
  "second_of_three a b \<longleftrightarrow>
     (if a = 0xE0 then 0xA0 \<le> b \<and> b \<le> 0xBF
      else if a = 0xED then 0x80 \<le> b \<and> b \<le> 0x9F
      else is_cont b)"

definition second_of_four :: "nat \<Rightarrow> nat \<Rightarrow> bool" where
  "second_of_four a b \<longleftrightarrow>
     (if a = 0xF0 then 0x90 \<le> b \<and> b \<le> 0xBF
      else if a = 0xF4 then 0x80 \<le> b \<and> b \<le> 0x8F
      else is_cont b)"

fun utf8_step :: "nat list \<Rightarrow> nat option \<times> nat" where
  "utf8_step [] = (None, 1)"
| "utf8_step (a # r) =
     (if a < 128 then (Some a, 1)
      else if 0xC2 \<le> a \<and> a \<le> 0xDF then
        (case r of
           b # _ \<Rightarrow> if is_cont b then (Some ((a - 0xC0) * 64 + (b - 128)), 2) else (None, 1)
         | [] \<Rightarrow> (None, 1))
      else if 0xE0 \<le> a \<and> a \<le> 0xEF then
        (case r of
           b # r' \<Rightarrow>
             if second_of_three a b then
               (case r' of
                  c # _ \<Rightarrow>
                    if is_cont c
                    then (Some ((a - 0xE0) * 4096 + (b - 128) * 64 + (c - 128)), 3) else (None, 2)
                | [] \<Rightarrow> (None, 2))
             else (None, 1)
         | [] \<Rightarrow> (None, 1))
      else if 0xF0 \<le> a \<and> a \<le> 0xF4 then
        (case r of
           b # r' \<Rightarrow>
             if second_of_four a b then
               (case r' of
                  c # r'' \<Rightarrow>
                    if is_cont c then
                      (case r'' of
                         d # _ \<Rightarrow>
                           if is_cont d
                           then (Some ((a - 0xF0) * 262144 + (b - 128) * 4096 + (c - 128) * 64 + (d - 128)), 4)
                           else (None, 3)
                       | [] \<Rightarrow> (None, 3))
                    else (None, 2)
                | [] \<Rightarrow> (None, 2))
             else (None, 1)
         | [] \<Rightarrow> (None, 1))
      else (None, 1))"

declare utf8_step.simps(2) [simp del]

fun utf8_chars :: "nat list \<Rightarrow> nat option list" where
  "utf8_chars [] = []"
| "utf8_chars (a # r) =
     (let (c, n) = utf8_step (a # r) in c # utf8_chars (drop (n - 1) r))"

definition utf8_valid :: "nat list \<Rightarrow> bool" where
  "utf8_valid bs \<longleftrightarrow> None \<notin> set (utf8_chars bs)"

text \<open>\<open>String::from_utf8_lossy\<close>: every maximal invalid part becomes U+FFFD (EF BF BD).\<close>

fun utf8_lossy :: "nat list \<Rightarrow> nat list" where
  "utf8_lossy [] = []"
| "utf8_lossy (a # r) =
     (let (c, n) = utf8_step (a # r) in
      (case c of Some _ \<Rightarrow> take n (a # r) | None \<Rightarrow> [0xEF, 0xBF, 0xBD])
      @ utf8_lossy (drop (n - 1) r))"

section \<open>One character at a time\<close>

lemma second_of_three_cont: "second_of_three a b \<Longrightarrow> is_cont b"
  by (auto simp: second_of_three_def split: if_splits)

lemma second_of_four_cont: "second_of_four a b \<Longrightarrow> is_cont b"
  by (auto simp: second_of_four_def split: if_splits)

text \<open>The four shapes of a well-formed sequence.\<close>

lemma utf8_step_Some_cases:
  assumes "utf8_step bs = (Some c, n)"
  obtains (one) a r where "bs = a # r" "n = 1" "a < 128" "c = a"
  | (two) a b r where "bs = a # b # r" "n = 2" "0xC2 \<le> a" "a \<le> 0xDF" "is_cont b"
  | (three) a b d r where "bs = a # b # d # r" "n = 3" "0xE0 \<le> a" "a \<le> 0xEF"
      "second_of_three a b" "is_cont d"
  | (four) a b d e r where "bs = a # b # d # e # r" "n = 4" "0xF0 \<le> a" "a \<le> 0xF4"
      "second_of_four a b" "is_cont d" "is_cont e"
proof (cases bs)
  case Nil
  then show ?thesis using assms by simp
next
  case (Cons a r)
  consider "a < 128" | "128 \<le> a" "0xC2 \<le> a" "a \<le> 0xDF" | "0xE0 \<le> a" "a \<le> 0xEF"
    | "0xF0 \<le> a" "a \<le> 0xF4" | "128 \<le> a" "a < 0xC2 \<or> 0xF4 < a" by linarith
  then show ?thesis
  proof cases
    case 1
    then show ?thesis using assms Cons one by (simp add: utf8_step.simps(2))
  next
    case 2
    then show ?thesis using assms Cons two
      by (simp add: utf8_step.simps(2) split: list.splits if_splits)
  next
    case 3
    then show ?thesis using assms Cons three
      by (simp add: utf8_step.simps(2) split: list.splits if_splits)
  next
    case 4
    then show ?thesis using assms Cons four
      by (simp add: utf8_step.simps(2) split: list.splits if_splits)
  next
    case 5
    then show ?thesis using assms Cons by (auto simp: utf8_step.simps(2))
  qed
qed

lemma below_by_index:
  "(\<forall>i. 0 < i \<and> i < (2::nat) \<longrightarrow> P i) \<longleftrightarrow> P 1"
  "(\<forall>i. 0 < i \<and> i < (3::nat) \<longrightarrow> P i) \<longleftrightarrow> P 1 \<and> P 2"
  "(\<forall>i. 0 < i \<and> i < (4::nat) \<longrightarrow> P i) \<longleftrightarrow> P 1 \<and> P 2 \<and> P 3"
  by (auto simp: less_Suc_eq numeral_eq_Suc)

lemma utf8_step_Some:
  assumes "utf8_step bs = (Some c, n)"
  shows "1 \<le> n \<and> n \<le> 4 \<and> n \<le> length bs \<and> \<not> is_cont (bs ! 0)
         \<and> (\<forall>i. 0 < i \<and> i < n \<longrightarrow> is_cont (bs ! i))"
  using assms
proof (cases rule: utf8_step_Some_cases)
  case (one a r)
  then show ?thesis by simp
next
  case (two a b r)
  then show ?thesis by (simp add: below_by_index)
next
  case (three a b d r)
  then show ?thesis using second_of_three_cont[of a b] by (simp add: below_by_index numeral_2_eq_2)
next
  case (four a b d e r)
  then show ?thesis using second_of_four_cont[of a b]
    by (simp add: below_by_index numeral_2_eq_2 numeral_3_eq_3)
qed

lemma utf8_step_take:
  assumes "utf8_step bs = (Some c, n)"
  shows "utf8_step (take n bs) = (Some c, n)"
  using assms
proof (cases rule: utf8_step_Some_cases)
  case (one a r)
  then show ?thesis using assms by (simp add: utf8_step.simps(2))
next
  case (two a b r)
  then show ?thesis using assms by (simp add: utf8_step.simps(2))
next
  case (three a b d r)
  then show ?thesis using assms by (simp add: utf8_step.simps(2))
next
  case (four a b d e r)
  then show ?thesis using assms by (simp add: utf8_step.simps(2))
qed

lemma utf8_step_extend:
  assumes "utf8_step w = (Some c, length w)"
  shows "utf8_step (w @ r) = (Some c, length w)"
  using assms
proof (cases rule: utf8_step_Some_cases)
  case (one a r)
  then show ?thesis using assms by (simp add: utf8_step.simps(2))
next
  case (two a b r)
  then show ?thesis using assms by (simp add: utf8_step.simps(2))
next
  case (three a b d r)
  then show ?thesis using assms by (simp add: utf8_step.simps(2))
next
  case (four a b d e r)
  then show ?thesis using assms by (simp add: utf8_step.simps(2))
qed

text \<open>A character: the bytes of one well-formed sequence.\<close>

definition utf8_one :: "nat list \<Rightarrow> bool" where
  "utf8_one w \<longleftrightarrow> (\<exists>c. utf8_step w = (Some c, length w))"

lemma utf8_one_bounds: "utf8_one w \<Longrightarrow> 1 \<le> length w \<and> length w \<le> 4"
  unfolding utf8_one_def using utf8_step_Some by blast

lemma utf8_chars_one:
  assumes "utf8_step w = (Some c, length w)"
  shows "utf8_chars (w @ r) = Some c # utf8_chars r"
proof -
  have "1 \<le> length w" using assms utf8_step_Some by blast
  then obtain a x where w: "w = a # x" by (cases w) auto
  then have "utf8_step (a # x @ r) = (Some c, Suc (length x))"
    using utf8_step_extend[OF assms, of r] by simp
  then show ?thesis using w by simp
qed

lemma utf8_valid_concat:
  "\<forall>w \<in> set ws. utf8_one w \<Longrightarrow> utf8_valid (concat ws)"
proof (induction ws)
  case Nil
  then show ?case by (simp add: utf8_valid_def)
next
  case (Cons w ws)
  then obtain c where "utf8_step w = (Some c, length w)" by (auto simp: utf8_one_def)
  then show ?case using Cons utf8_chars_one by (simp add: utf8_valid_def)
qed

lemma utf8_valid_split:
  "utf8_valid bs \<Longrightarrow> \<exists>ws. bs = concat ws \<and> (\<forall>w \<in> set ws. utf8_one w)"
proof (induction bs rule: length_induct)
  case (1 bs)
  show ?case
  proof (cases bs)
    case Nil
    then show ?thesis by (intro exI[of _ "[]"]) simp
  next
    case (Cons a r)
    obtain c n where s: "utf8_step bs = (c, n)" by (cases "utf8_step bs")
    with 1(2) Cons obtain c' where c: "c = Some c'" by (cases c) (auto simp: utf8_valid_def)
    have n: "1 \<le> n" "n \<le> length bs" "utf8_step (take n bs) = (Some c', n)"
      using utf8_step_Some[of bs c' n] utf8_step_take[of bs c' n] s c by auto
    have one: "utf8_one (take n bs)" using n by (auto simp: utf8_one_def)
    have tl: "drop (n - 1) r = drop n bs" using Cons n by (cases n) auto
    have "utf8_valid (drop n bs)" using 1(2) Cons s unfolding tl[symmetric] by (auto simp: utf8_valid_def)
    moreover have "length (drop n bs) < length bs" using n Cons by (simp add: diff_less)
    ultimately obtain ws where ws: "drop n bs = concat ws" "\<forall>w \<in> set ws. utf8_one w" using 1(1) by blast
    have "bs = concat (take n bs # ws)" using ws(1) by (metis append_take_drop_id concat.simps(2))
    with ws(2) one show ?thesis by (intro exI[of _ "take n bs # ws"]) auto
  qed
qed

lemma utf8_lossy_valid_id: "utf8_valid bs \<Longrightarrow> utf8_lossy bs = bs"
proof (induction bs rule: utf8_lossy.induct)
  case 1
  then show ?case by simp
next
  case (2 a r)
  obtain c n where s: "utf8_step (a # r) = (c, n)" by (cases "utf8_step (a # r)")
  with 2(2) obtain c' where c: "c = Some c'" by (cases c) (auto simp: utf8_valid_def)
  have n: "1 \<le> n" using utf8_step_Some s c by blast
  have "utf8_valid (drop (n - 1) r)" using 2(2) s by (auto simp: utf8_valid_def)
  then have "utf8_lossy (drop (n - 1) r) = drop (n - 1) r" using 2(1)[of "(c, n)" c n] s by simp
  moreover have "take n (a # r) @ drop (n - 1) r = a # r" using n by (cases n) auto
  ultimately show ?case using s c by simp
qed

section \<open>Encoding, as the specification of decoding\<close>

definition is_scalar :: "nat \<Rightarrow> bool" where
  "is_scalar c \<longleftrightarrow> c < 0xD800 \<or> (0xE000 \<le> c \<and> c < 0x110000)"

definition utf8_encode :: "nat \<Rightarrow> nat list" where
  "utf8_encode c =
     (if c < 0x80 then [c]
      else if c < 0x800 then [0xC0 + c div 64, 0x80 + c mod 64]
      else if c < 0x10000 then [0xE0 + c div 4096, 0x80 + c div 64 mod 64, 0x80 + c mod 64]
      else [0xF0 + c div 262144, 0x80 + c div 4096 mod 64, 0x80 + c div 64 mod 64, 0x80 + c mod 64])"

lemma utf8_step_encode:
  assumes "is_scalar c"
  shows "utf8_step (utf8_encode c) = (Some c, length (utf8_encode c))"
proof -
  define d0 y d1 z d2 u where d: "d0 = c mod 64" "y = c div 64" "d1 = y mod 64" "z = y div 64"
    "d2 = z mod 64" "u = z div 64"
  have eqs: "c div 4096 = z" "c div 262144 = u" "c div 64 mod 64 = d1" "c div 4096 mod 64 = d2"
    "c mod 64 = d0" "c div 64 = y"
    by (simp_all add: d div_mult2_eq[symmetric])
  have c: "c = 64 * y + d0" "y = 64 * z + d1" "z = 64 * u + d2" by (simp_all add: d)
  have lt: "d0 < 64" "d1 < 64" "d2 < 64" by (simp_all add: d)
  have enc: "utf8_encode c =
     (if c < 0x80 then [c]
      else if c < 0x800 then [0xC0 + y, 0x80 + d0]
      else if c < 0x10000 then [0xE0 + z, 0x80 + d1, 0x80 + d0]
      else [0xF0 + u, 0x80 + d2, 0x80 + d1, 0x80 + d0])"
    by (simp add: utf8_encode_def eqs d(3,5)[symmetric])
  consider "c < 0x80" | "0x80 \<le> c" "c < 0x800" | "0x800 \<le> c" "c < 0x10000" | "0x10000 \<le> c"
    by linarith
  then show ?thesis
  proof cases
    case 1
    then show ?thesis by (simp add: enc utf8_step.simps(2))
  next
    case 2
    then have "2 \<le> y" "y \<le> 31" using c lt by linarith+
    moreover have "utf8_encode c = [0xC0 + y, 0x80 + d0]" using enc 2 by simp
    moreover have "y * 64 + d0 = c" using c by simp
    ultimately show ?thesis using lt by (simp add: utf8_step.simps(2))
  next
    case 3
    have z: "z \<le> 15" using 3 c lt by linarith
    have zc: "c = z * 4096 + d1 * 64 + d0" using c by simp
    have "z = 0 \<Longrightarrow> 32 \<le> d1" using zc 3 lt by linarith
    moreover have "z = 13 \<Longrightarrow> d1 \<le> 31"
      using zc lt assms unfolding is_scalar_def by (elim disjE; linarith)
    ultimately have "second_of_three (0xE0 + z) (0x80 + d1)"
      using lt by (auto simp: second_of_three_def)
    moreover have "utf8_encode c = [0xE0 + z, 0x80 + d1, 0x80 + d0]" using enc 3 by simp
    moreover have "z * 4096 + d1 * 64 + d0 = c" using c by simp
    ultimately show ?thesis using z lt by (simp add: utf8_step.simps(2))
  next
    case 4
    then have u: "u \<le> 4" using assms c lt unfolding is_scalar_def by linarith
    have uc: "c = u * 262144 + d2 * 4096 + d1 * 64 + d0" using c by simp
    have "u = 0 \<Longrightarrow> 16 \<le> d2" using uc 4 lt by linarith
    moreover have "u = 4 \<Longrightarrow> d2 \<le> 15"
      using uc lt assms unfolding is_scalar_def by (elim disjE; linarith)
    ultimately have "second_of_four (0xF0 + u) (0x80 + d2)"
      using lt by (auto simp: second_of_four_def)
    moreover have "utf8_encode c = [0xF0 + u, 0x80 + d2, 0x80 + d1, 0x80 + d0]" using enc 4 by simp
    moreover have "u * 262144 + d2 * 4096 + d1 * 64 + d0 = c" using c by simp
    ultimately show ?thesis using u lt by (simp add: utf8_step.simps(2))
  qed
qed

lemma utf8_one_encode: "is_scalar c \<Longrightarrow> utf8_one (utf8_encode c)"
  using utf8_step_encode by (auto simp: utf8_one_def)

section \<open>Character boundaries\<close>

text \<open>\<open>str::is_char_boundary\<close>.\<close>

definition char_boundary :: "nat list \<Rightarrow> nat \<Rightarrow> bool" where
  "char_boundary bs i \<longleftrightarrow>
     i = 0 \<or> i = length bs \<or> (i < length bs \<and> \<not> is_cont (bs ! i))"

lemma utf8_one_inner:
  assumes "utf8_one w" "0 < i" "i < length w"
  shows "is_cont ((w @ r) ! i)"
  using assms utf8_step_Some by (fastforce simp: utf8_one_def nth_append)

text \<open>In valid text a boundary falls between two characters, so both halves are valid text.\<close>

lemma char_boundary_concat:
  assumes "\<forall>w \<in> set ws. utf8_one w" "char_boundary (concat ws) i" "i \<le> length (concat ws)"
  shows "\<exists>k. take i (concat ws) = concat (take k ws) \<and> drop i (concat ws) = concat (drop k ws)"
  using assms
proof (induction ws arbitrary: i)
  case Nil
  then show ?case by simp
next
  case (Cons w ws)
  show ?case
  proof (cases "i = 0")
    case True
    then show ?thesis by (intro exI[of _ 0]) simp
  next
    case pos: False
    have one: "utf8_one w" using Cons.prems by simp
    show ?thesis
    proof (cases "i < length w")
      case True
      then have "is_cont ((w @ concat ws) ! i)" using utf8_one_inner[OF one] pos by simp
      then have False using Cons.prems(2) True pos by (auto simp: char_boundary_def)
      then show ?thesis ..
    next
      case False
      let ?j = "i - length w"
      have "char_boundary (concat ws) ?j"
        using Cons.prems(2,3) False by (auto simp: char_boundary_def nth_append)
      then obtain k where "take ?j (concat ws) = concat (take k ws)" "drop ?j (concat ws) = concat (drop k ws)"
        using Cons.IH[of ?j] Cons.prems False by fastforce
      then show ?thesis using False by (intro exI[of _ "Suc k"]) simp
    qed
  qed
qed

lemma utf8_valid_cut:
  assumes "utf8_valid bs" "char_boundary bs i" "i \<le> length bs"
  shows "utf8_valid (take i bs)" "utf8_valid (drop i bs)"
proof -
  obtain ws where ws: "bs = concat ws" "\<forall>w \<in> set ws. utf8_one w"
    using utf8_valid_split[OF assms(1)] by blast
  then obtain k where k: "take i bs = concat (take k ws)" "drop i bs = concat (drop k ws)"
    using char_boundary_concat[OF ws(2), of i] assms by auto
  have "\<forall>w \<in> set (take k ws). utf8_one w" "\<forall>w \<in> set (drop k ws). utf8_one w"
    using ws(2) by (auto dest: in_set_takeD in_set_dropD)
  then show "utf8_valid (take i bs)" "utf8_valid (drop i bs)"
    using k utf8_valid_concat by metis+
qed

text \<open>Among four consecutive offsets of valid text one is a boundary.\<close>

lemma boundary_within_four:
  assumes "\<forall>w \<in> set ws. utf8_one w" "i \<le> length (concat ws)"
  shows "\<exists>j. j \<le> i \<and> i \<le> j + 3 \<and> char_boundary (concat ws) j"
  using assms
proof (induction ws arbitrary: i)
  case Nil
  then show ?case by (auto simp: char_boundary_def)
next
  case (Cons w ws)
  have w: "utf8_one w" "length w \<le> 4" using Cons.prems utf8_one_bounds by auto
  show ?case
  proof (cases "i < length w")
    case True
    then show ?thesis using w by (intro exI[of _ 0]) (auto simp: char_boundary_def)
  next
    case False
    then obtain j where j: "j \<le> i - length w" "i - length w \<le> j + 3" "char_boundary (concat ws) j"
      using Cons.IH[of "i - length w"] Cons.prems by fastforce
    have first: "char_boundary (w @ concat ws) (length w)"
    proof (cases ws)
      case Nil
      then show ?thesis by (simp add: char_boundary_def)
    next
      case (Cons v vs)
      then have v: "utf8_one v" using Cons.prems by simp
      then have "1 \<le> length v" "\<not> is_cont (v ! 0)"
        using utf8_one_bounds utf8_step_Some by (auto simp: utf8_one_def)
      then show ?thesis using Cons by (auto simp: char_boundary_def nth_append)
    qed
    have "char_boundary (w @ concat ws) (length w + j)"
      using j(3) first by (auto simp: char_boundary_def nth_append)
    then show ?thesis using j False by (intro exI[of _ "length w + j"]) auto
  qed
qed

end
