(* ===== verification/TermEvent.thy ===== *)
theory TermEvent
  imports Utf8
begin

text \<open>
  The event types of the terminal input crate (\<open>crates/term_input/src/event.rs\<close>): key, mouse and
  paste events, the X10 mouse encoder and the accessors of \<open>MouseEvent\<close>.  A Rust \<open>char\<close> is its code
  point, a \<open>String\<close> its UTF-8 bytes, coordinates are \<open>u16\<close> words.
\<close>

datatype direction = DirUp | DirDown | DirRight | DirLeft

datatype nav_key = NavHome | NavEnd | NavInsert | NavDelete | NavPageUp | NavPageDown

datatype mouse_button = BtnLeft | BtnMiddle | BtnRight

datatype key_kind =
    KeyChar nat
  | KeyControl nat
  | KeyEscape
  | KeyEnter
  | KeyTab
  | KeyBackspace
  | KeyArrow direction
  | KeyNav nav_key
  | KeyFunction u8
  | KeyAlt key_kind
  | KeyUnknown

record key_input =
  raw :: "u8 list"
  kind :: key_kind

datatype mouse_event =
    MouseDown mouse_button u16 u16
  | MouseUp u16 u16
  | MouseDrag mouse_button u16 u16
  | MouseMove u16 u16
  | MouseScrollUp u16 u16
  | MouseScrollDown u16 u16

datatype input_event =
    Key key_input
  | Mouse mouse_event
  | Paste "u8 list"

text \<open>
  \<open>MouseEvent::to_x10_bytes\<close>.  The button code is an \<open>i32\<close> literal; \<open>col + 33\<close> is a \<open>u16\<close> sum (it
  wraps in the release profile) truncated to its low byte.
\<close>

fun button_offset :: "mouse_button \<Rightarrow> nat" where
  "button_offset BtnLeft = 0"
| "button_offset BtnMiddle = 1"
| "button_offset BtnRight = 2"

fun x10_fields :: "mouse_event \<Rightarrow> nat \<times> u16 \<times> u16" where
  "x10_fields (MouseDown b col row) = (button_offset b, col, row)"
| "x10_fields (MouseUp col row) = (3, col, row)"
| "x10_fields (MouseDrag b col row) = (32 + button_offset b, col, row)"
| "x10_fields (MouseMove col row) = (35, col, row)"
| "x10_fields (MouseScrollUp col row) = (64, col, row)"
| "x10_fields (MouseScrollDown col row) = (65, col, row)"

definition to_x10_bytes :: "mouse_event \<Rightarrow> u8 list" where
  "to_x10_bytes e =
     (let (button_code, col, row) = x10_fields e
      in [0x1b, 0x5b, 0x4d, of_nat (button_code + 32), ucast (col + 33), ucast (row + 33)])"

fun is_scroll :: "mouse_event \<Rightarrow> bool" where
  "is_scroll (MouseScrollUp _ _) = True"
| "is_scroll (MouseScrollDown _ _) = True"
| "is_scroll _ = False"

fun position :: "mouse_event \<Rightarrow> u16 \<times> u16" where
  "position (MouseDown _ col row) = (col, row)"
| "position (MouseUp col row) = (col, row)"
| "position (MouseDrag _ col row) = (col, row)"
| "position (MouseMove col row) = (col, row)"
| "position (MouseScrollUp col row) = (col, row)"
| "position (MouseScrollDown col row) = (col, row)"

lemma length_to_x10_bytes [simp]: "length (to_x10_bytes e) = 6"
  by (simp add: to_x10_bytes_def split: prod.splits)

lemma x10_fields_position: "snd (x10_fields e) = position e"
  by (cases e) auto

lemma x10_button_range: "fst (x10_fields e) \<le> 65"
proof -
  have b: "button_offset c \<le> 2" for c by (cases c) auto
  show ?thesis
  proof (cases e)
    case (MouseDown c x y)
    then show ?thesis using b[of c] by simp
  next
    case (MouseDrag c x y)
    then show ?thesis using b[of c] by simp
  qed auto
qed

end
