(* ===== verification/InputParser.thy ===== *)
theory InputParser
  imports TermEvent
begin

text \<open>
  The terminal input parser (\<open>crates/term_input/src/parser.rs\<close>): a byte-fed state machine.  The
  record \<open>input_parser\<close> has the three fields of \<open>InputParser\<close>; each \<open>fn\<close> of the source that handles a
  byte in one state is one definition.  Where the Rust text can panic (the \<open>u8\<close> subtraction and
  addition of the UTF-8 and X10 counters, indexing the tail of the buffer, slicing the SGR
  parameters) the definition returns \<open>Inl\<close>; \<open>wf_parser\<close> is the invariant under which that never
  happens.
\<close>

datatype parser_panic = SubtractOverflow | AddOverflow | IndexOutOfBounds | SliceOutOfOrder

datatype pstate =
    Ground
  | EscReceived
  | CsiEntry
  | CsiParam
  | Ss3Pending
  | MouseX10 u8
  | SgrMouse
  | PasteBuf
  | Utf8Cont u8

record input_parser =
  pst :: pstate
  buf :: "u8 list"
  evq :: "input_event list"

definition new_parser :: input_parser where
  "new_parser = \<lparr>pst = Ground, buf = [], evq = []\<rparr>"

definition emit_key :: "u8 list \<Rightarrow> key_kind \<Rightarrow> input_parser \<Rightarrow> input_parser" where
  "emit_key r k p = p\<lparr>evq := evq p @ [Key \<lparr>raw = r, kind = k\<rparr>]\<rparr>"

text \<open>\<open>std::mem::take(&mut self.buf)\<close>, emit, back to ground: the ending of most handlers.\<close>

definition emit_buf :: "key_kind \<Rightarrow> input_parser \<Rightarrow> input_parser" where
  "emit_buf k p = (emit_key (buf p) k (p\<lparr>buf := []\<rparr>))\<lparr>pst := Ground\<rparr>"

definition push_byte :: "u8 \<Rightarrow> input_parser \<Rightarrow> input_parser" where
  "push_byte b p = p\<lparr>buf := buf p @ [b]\<rparr>"

definition start_utf8 :: "u8 \<Rightarrow> u8 \<Rightarrow> input_parser \<Rightarrow> input_parser" where
  "start_utf8 b n p = p\<lparr>buf := [b], pst := Utf8Cont n\<rparr>"

section \<open>Parameters and classification\<close>

definition is_digit_byte :: "u8 \<Rightarrow> bool" where
  "is_digit_byte b \<longleftrightarrow> 0x30 \<le> b \<and> b \<le> 0x39"

definition is_param_byte :: "u8 \<Rightarrow> bool" where
  "is_param_byte b \<longleftrightarrow> is_digit_byte b \<or> b = 0x3b"

text \<open>The fold that both parameter readers use: saturating decimal accumulation in \<open>u16\<close>.\<close>

definition parse_param :: "u8 list \<Rightarrow> u16" where
  "parse_param part =
     fold (\<lambda>b acc. if is_digit_byte b then sat_add (sat_mul acc 10) (ucast (b - 0x30)) else acc) part 0"

definition parse_params :: "u8 list \<Rightarrow> u16 list" where
  "parse_params s = map parse_param (split_on (\<lambda>b. b = 0x3b) s)"

definition extract_csi_params :: "u8 list \<Rightarrow> u16 list" where
  "extract_csi_params b =
     (let start = (if str_starts [0x1b, 0x5b] b then 2 else 0); stop = length b - 1
      in if stop \<le> start then [] else parse_params (take (stop - start) (drop start b)))"

definition wrap_modifier :: "key_kind \<Rightarrow> u16 \<Rightarrow> key_kind" where
  "wrap_modifier base m =
     (let bits = sat_sub m 1 in if and bits 2 \<noteq> 0 then KeyAlt base else base)"

definition with_modifier :: "key_kind \<Rightarrow> u16 list \<Rightarrow> key_kind" where
  "with_modifier base params = (if 2 \<le> length params then wrap_modifier base (params ! 1) else base)"

definition classify_csi_final :: "u8 \<Rightarrow> u16 list \<Rightarrow> key_kind" where
  "classify_csi_final f params =
     (if f = 0x41 then with_modifier (KeyArrow DirUp) params
      else if f = 0x42 then with_modifier (KeyArrow DirDown) params
      else if f = 0x43 then with_modifier (KeyArrow DirRight) params
      else if f = 0x44 then with_modifier (KeyArrow DirLeft) params
      else if f = 0x48 then with_modifier (KeyNav NavHome) params
      else if f = 0x46 then with_modifier (KeyNav NavEnd) params
      else KeyUnknown)"

definition tilde_base :: "u16 \<Rightarrow> key_kind option" where
  "tilde_base c =
     (if c = 2 then Some (KeyNav NavInsert)
      else if c = 3 then Some (KeyNav NavDelete)
      else if c = 5 then Some (KeyNav NavPageUp)
      else if c = 6 then Some (KeyNav NavPageDown)
      else if c = 15 then Some (KeyFunction 5)
      else if c = 17 then Some (KeyFunction 6)
      else if c = 18 then Some (KeyFunction 7)
      else if c = 19 then Some (KeyFunction 8)
      else if c = 20 then Some (KeyFunction 9)
      else if c = 21 then Some (KeyFunction 10)
      else if c = 23 then Some (KeyFunction 11)
      else if c = 24 then Some (KeyFunction 12)
      else None)"

definition classify_tilde_key :: "u16 list \<Rightarrow> key_kind" where
  "classify_tilde_key params =
     (case tilde_base (case params of [] \<Rightarrow> 0 | c # _ \<Rightarrow> c) of
        None \<Rightarrow> KeyUnknown
      | Some base \<Rightarrow> with_modifier base params)"

definition low_button :: "u8 \<Rightarrow> mouse_button" where
  "low_button low = (if low = 0 then BtnLeft else if low = 1 then BtnMiddle
                     else if low = 2 then BtnRight else BtnLeft)"

definition decode_x10_mouse :: "u8 \<Rightarrow> u16 \<Rightarrow> u16 \<Rightarrow> mouse_event" where
  "decode_x10_mouse c col row =
     (let low = and c 0x03; is_drag = (and c 32 \<noteq> 0); is_scrl = (and c 64 \<noteq> 0)
      in if is_scrl then (if low = 0 then MouseScrollUp col row else MouseScrollDown col row)
         else if is_drag then
           (if low = 3 then MouseMove col row else MouseDrag (low_button low) col row)
         else if low = 3 then MouseUp col row
         else MouseDown (low_button low) col row)"

text \<open>
  \<open>parse_sgr_mouse\<close>: \<open>None\<close> of the option is the source's \<open>None\<close>; the outer \<open>Inl\<close> is a panic of the
  slice \<open>buf[lt_pos + 1..buf.len() - 1]\<close>.
\<close>

fun position_of :: "('a \<Rightarrow> bool) \<Rightarrow> 'a list \<Rightarrow> nat option" where
  "position_of P [] = None"
| "position_of P (x # xs) = (if P x then Some 0 else map_option Suc (position_of P xs))"

definition sgr_event :: "u16 \<Rightarrow> u16 \<Rightarrow> u16 \<Rightarrow> bool \<Rightarrow> mouse_event" where
  "sgr_event c col row is_release =
     (let low = (ucast (and c 0x03) :: u8); is_drag = (and c 32 \<noteq> 0); is_scrl = (and c 64 \<noteq> 0)
      in if is_scrl then (if low = 0 then MouseScrollUp col row else MouseScrollDown col row)
         else if is_release then MouseUp col row
         else if is_drag then
           (if low = 3 then MouseMove col row else MouseDrag (low_button low) col row)
         else MouseDown (low_button low) col row)"

definition parse_sgr_mouse :: "u8 list \<Rightarrow> bool \<Rightarrow> parser_panic + mouse_event option" where
  "parse_sgr_mouse b is_release =
     (case position_of (\<lambda>x. x = 0x3c) b of
        None \<Rightarrow> Inr None
      | Some lt_pos \<Rightarrow>
          if length b = 0 then Inl SubtractOverflow
          else if length b - 1 < lt_pos + 1 then Inl SliceOutOfOrder
          else
            let parts = parse_params (take (length b - 1 - (lt_pos + 1)) (drop (lt_pos + 1) b))
            in if length parts < 3 then Inr None
               else Inr (Some (sgr_event (parts ! 0) (sat_sub (parts ! 1) 1) (sat_sub (parts ! 2) 1)
                                 is_release)))"

section \<open>The handlers, one per state\<close>

definition ground :: "u8 \<Rightarrow> input_parser \<Rightarrow> input_parser" where
  "ground b p =
     (if b = 0x1b then p\<lparr>buf := [0x1b], pst := EscReceived\<rparr>
      else if b = 0x0d then emit_key [b] KeyEnter p
      else if b = 0x09 then emit_key [b] KeyTab p
      else if b = 0x7f then emit_key [b] KeyBackspace p
      else if 0x01 \<le> b \<and> b \<le> 0x1a then emit_key [b] (KeyControl (unat (0x61 + b - 1))) p
      else if 0x20 \<le> b \<and> b \<le> 0x7e then emit_key [b] (KeyChar (unat b)) p
      else if 0xc0 \<le> b \<and> b \<le> 0xdf then start_utf8 b 1 p
      else if 0xe0 \<le> b \<and> b \<le> 0xef then start_utf8 b 2 p
      else if 0xf0 \<le> b \<and> b \<le> 0xf7 then start_utf8 b 3 p
      else emit_key [b] KeyUnknown p)"

text \<open>\<open>str::from_utf8\<close> on the collected bytes, and the first character of the result.\<close>

definition decode_kind :: "u8 list \<Rightarrow> key_kind" where
  "decode_kind r =
     (let cs = utf8_chars (map unat r)
      in if None \<in> set cs then KeyUnknown
         else (case cs of Some c # _ \<Rightarrow> KeyChar c | _ \<Rightarrow> KeyChar 0xFFFD))"

text \<open>On a byte that does not continue the character, \<open>self.step(byte)\<close> runs with the state already
  \<open>Ground\<close>, that is, \<open>ground\<close>.\<close>

definition utf8_cont :: "u8 \<Rightarrow> u8 \<Rightarrow> input_parser \<Rightarrow> parser_panic + input_parser" where
  "utf8_cont b remaining p =
     (if and b 0xC0 \<noteq> 0x80 then Inr (ground b (emit_buf KeyUnknown p))
      else let p1 = push_byte b p in
        if remaining = 0 then Inl SubtractOverflow
        else if 0 < remaining - 1 then Inr (p1\<lparr>pst := Utf8Cont (remaining - 1)\<rparr>)
        else Inr (emit_buf (decode_kind (buf p1)) p1))"

definition esc_received :: "u8 \<Rightarrow> input_parser \<Rightarrow> input_parser" where
  "esc_received b p =
     (if b = 0x5b then (push_byte b p)\<lparr>pst := CsiEntry\<rparr>
      else if b = 0x4f then (push_byte b p)\<lparr>pst := Ss3Pending\<rparr>
      else if b = 0x1b then (emit_key [0x1b] KeyEscape p)\<lparr>buf := [0x1b]\<rparr>
      else if b = 0x7f then emit_buf (KeyAlt KeyBackspace) (push_byte b p)
      else if 0x01 \<le> b \<and> b \<le> 0x1a then
        emit_buf (KeyAlt (KeyControl (unat (0x61 + b - 1)))) (push_byte b p)
      else if 0x20 \<le> b \<and> b \<le> 0x7e then emit_buf (KeyAlt (KeyChar (unat b))) (push_byte b p)
      else emit_buf KeyUnknown (push_byte b p))"

definition csi_entry :: "u8 \<Rightarrow> input_parser \<Rightarrow> input_parser" where
  "csi_entry b p =
     (if b = 0x4d then (push_byte b p)\<lparr>pst := MouseX10 0\<rparr>
      else if b = 0x3c then (push_byte b p)\<lparr>pst := SgrMouse\<rparr>
      else if (0x41 \<le> b \<and> b \<le> 0x44) \<or> b = 0x48 \<or> b = 0x46 then
        emit_buf (classify_csi_final b []) (push_byte b p)
      else if is_param_byte b then (push_byte b p)\<lparr>pst := CsiParam\<rparr>
      else emit_buf KeyUnknown (push_byte b p))"

definition csi_param :: "u8 \<Rightarrow> input_parser \<Rightarrow> input_parser" where
  "csi_param b p =
     (if is_param_byte b then push_byte b p
      else if b = 0x7e then
        (let p1 = push_byte b p; params = extract_csi_params (buf p1)
         in if params \<noteq> [] \<and> hd params = 200 then p1\<lparr>buf := [], pst := PasteBuf\<rparr>
            else emit_buf (classify_tilde_key params) p1)
      else if 0x40 \<le> b \<and> b \<le> 0x7e then
        (let p1 = push_byte b p
         in emit_buf (classify_csi_final b (extract_csi_params (buf p1))) p1)
      else emit_buf KeyUnknown (push_byte b p))"

definition ss3_kind :: "u8 \<Rightarrow> key_kind" where
  "ss3_kind b =
     (if b = 0x41 then KeyArrow DirUp
      else if b = 0x42 then KeyArrow DirDown
      else if b = 0x43 then KeyArrow DirRight
      else if b = 0x44 then KeyArrow DirLeft
      else if b = 0x48 then KeyNav NavHome
      else if b = 0x46 then KeyNav NavEnd
      else if b = 0x50 then KeyFunction 1
      else if b = 0x51 then KeyFunction 2
      else if b = 0x52 then KeyFunction 3
      else if b = 0x53 then KeyFunction 4
      else KeyUnknown)"

definition ss3_pending :: "u8 \<Rightarrow> input_parser \<Rightarrow> input_parser" where
  "ss3_pending b p = emit_buf (ss3_kind b) (push_byte b p)"

definition mouse_x10 :: "u8 \<Rightarrow> u8 \<Rightarrow> input_parser \<Rightarrow> parser_panic + input_parser" where
  "mouse_x10 b count p =
     (let p1 = push_byte b p in
      if count = 255 then Inl AddOverflow
      else if count + 1 < 3 then Inr (p1\<lparr>pst := MouseX10 (count + 1)\<rparr>)
      else if length (buf p1) < 3 then Inl IndexOutOfBounds
      else
        let n = length (buf p1);
            c = (buf p1 ! (n - 3)) - 32;
            col = ucast ((buf p1 ! (n - 2)) - 33);
            row = ucast ((buf p1 ! (n - 1)) - 33)
        in Inr (p1\<lparr>buf := [], evq := evq p1 @ [Mouse (decode_x10_mouse c col row)], pst := Ground\<rparr>))"

definition sgr_mouse :: "u8 \<Rightarrow> input_parser \<Rightarrow> parser_panic + input_parser" where
  "sgr_mouse b p =
     (let p1 = push_byte b p in
      if b = 0x4d \<or> b = 0x6d then
        (case parse_sgr_mouse (buf p1) (b = 0x6d) of
           Inl e \<Rightarrow> Inl e
         | Inr (Some ev) \<Rightarrow> Inr (p1\<lparr>buf := [], evq := evq p1 @ [Mouse ev], pst := Ground\<rparr>)
         | Inr None \<Rightarrow> Inr (emit_buf KeyUnknown p1))
      else if is_param_byte b then Inr p1
      else Inr (emit_buf KeyUnknown p1))"

definition end_marker :: "u8 list" where
  "end_marker = [0x1b, 0x5b, 0x32, 0x30, 0x31, 0x7e]"

text \<open>\<open>String::from_utf8_lossy\<close> on \<open>u8\<close> bytes.\<close>

definition lossy_bytes :: "u8 list \<Rightarrow> u8 list" where
  "lossy_bytes bs = map of_nat (utf8_lossy (map unat bs))"

definition in_paste :: "u8 \<Rightarrow> input_parser \<Rightarrow> input_parser" where
  "in_paste b p =
     (let p1 = push_byte b p; n = length (buf p1); m = length end_marker
      in if m \<le> n \<and> drop (n - m) (buf p1) = end_marker
         then p1\<lparr>evq := evq p1 @ [Paste (lossy_bytes (take (n - m) (buf p1)))], buf := [], pst := Ground\<rparr>
         else p1)"

definition step :: "u8 \<Rightarrow> input_parser \<Rightarrow> parser_panic + input_parser" where
  "step b p =
     (case pst p of
        Ground \<Rightarrow> Inr (ground b p)
      | EscReceived \<Rightarrow> Inr (esc_received b p)
      | CsiEntry \<Rightarrow> Inr (csi_entry b p)
      | CsiParam \<Rightarrow> Inr (csi_param b p)
      | Ss3Pending \<Rightarrow> Inr (ss3_pending b p)
      | MouseX10 count \<Rightarrow> mouse_x10 b count p
      | SgrMouse \<Rightarrow> sgr_mouse b p
      | PasteBuf \<Rightarrow> Inr (in_paste b p)
      | Utf8Cont remaining \<Rightarrow> utf8_cont b remaining p)"

fun steps :: "u8 list \<Rightarrow> input_parser \<Rightarrow> parser_panic + input_parser" where
  "steps [] p = Inr p"
| "steps (b # bs) p = (case step b p of Inl e \<Rightarrow> Inl e | Inr p' \<Rightarrow> steps bs p')"

text \<open>\<open>feed\<close> and \<open>flush\<close> hand the queued events out (\<open>self.out.drain(..).collect()\<close>).\<close>

definition feed :: "u8 list \<Rightarrow> input_parser \<Rightarrow> parser_panic + input_event list \<times> input_parser" where
  "feed data p = (case steps data p of Inl e \<Rightarrow> Inl e | Inr p' \<Rightarrow> Inr (evq p', p'\<lparr>evq := []\<rparr>))"

definition flush :: "input_parser \<Rightarrow> input_event list \<times> input_parser" where
  "flush p =
     (let p' = (case pst p of
          EscReceived \<Rightarrow> (emit_key [0x1b] KeyEscape p)\<lparr>pst := Ground, buf := []\<rparr>
        | CsiEntry \<Rightarrow> emit_buf KeyUnknown p
        | CsiParam \<Rightarrow> emit_buf KeyUnknown p
        | Ss3Pending \<Rightarrow> emit_buf KeyUnknown p
        | SgrMouse \<Rightarrow> emit_buf KeyUnknown p
        | MouseX10 _ \<Rightarrow> emit_buf KeyUnknown p
        | Utf8Cont _ \<Rightarrow> emit_buf KeyUnknown p
        | PasteBuf \<Rightarrow> p
        | Ground \<Rightarrow> p)
      in (evq p', p'\<lparr>evq := []\<rparr>))"

definition is_in_paste :: "input_parser \<Rightarrow> bool" where
  "is_in_paste p \<longleftrightarrow> pst p = PasteBuf"

definition has_pending :: "input_parser \<Rightarrow> bool" where
  "has_pending p \<longleftrightarrow> pst p \<noteq> Ground \<and> pst p \<noteq> PasteBuf"

end
