(* ===== verification/InputParserProps.thy ===== *)
theory InputParserProps
  imports InputParser
begin

text \<open>
  What the terminal parser guarantees: it never panics, the way the input is cut into reads does not
  matter, no byte of a key sequence is lost, mouse reports and UTF-8 characters and pastes survive
  the round trip, and numeric parameters saturate.
\<close>

section \<open>The parser invariant\<close>

text \<open>What the buffer holds in each state.\<close>

fun wf_buf :: "pstate \<Rightarrow> u8 list \<Rightarrow> bool" where
  "wf_buf Ground b \<longleftrightarrow> b = []"
| "wf_buf EscReceived b \<longleftrightarrow> b = [0x1b]"
| "wf_buf CsiEntry b \<longleftrightarrow> b = [0x1b, 0x5b]"
| "wf_buf CsiParam b \<longleftrightarrow> take 2 b = [0x1b, 0x5b] \<and> (\<forall>x \<in> set (drop 2 b). is_param_byte x)"
| "wf_buf Ss3Pending b \<longleftrightarrow> b = [0x1b, 0x4f]"
| "wf_buf (MouseX10 n) b \<longleftrightarrow> unat n < 3 \<and> length b = 3 + unat n"
| "wf_buf SgrMouse b \<longleftrightarrow> take 3 b = [0x1b, 0x5b, 0x3c] \<and> (\<forall>x \<in> set (drop 3 b). is_param_byte x)"
| "wf_buf PasteBuf b \<longleftrightarrow> True"
| "wf_buf (Utf8Cont n) b \<longleftrightarrow> 1 \<le> unat n \<and> unat n \<le> 3 \<and> b \<noteq> [] \<and> length b + unat n \<le> 4"

definition wf_parser :: "input_parser \<Rightarrow> bool" where
  "wf_parser p \<longleftrightarrow> wf_buf (pst p) (buf p)"

lemmas parser_updates = emit_key_def emit_buf_def push_byte_def start_utf8_def

lemma wf_new_parser: "wf_parser new_parser"
  by (simp add: wf_parser_def new_parser_def)

lemma wf_emit_buf [simp]: "wf_parser (emit_buf k p)"
  by (simp add: wf_parser_def parser_updates)

lemma wf_ground: "buf p = [] \<Longrightarrow> pst p = Ground \<Longrightarrow> wf_parser (ground b p)"
  by (simp add: ground_def wf_parser_def parser_updates)

lemma ground_after_emit: "wf_parser (ground b (emit_buf k p))"
  by (rule wf_ground) (simp_all add: parser_updates)

lemma wf_utf8_cont:
  assumes "pst p = Utf8Cont r" "wf_parser p"
  shows "\<exists>p'. utf8_cont b r p = Inr p' \<and> wf_parser p'"
proof -
  have r: "1 \<le> unat r" "unat r \<le> 3" "length (buf p) + unat r \<le> 4" using assms by (auto simp: wf_parser_def)
  then have "r \<noteq> 0" by auto
  moreover have "unat (r - 1) = unat r - 1" using r by (simp add: unat_sub word_le_nat_alt)
  moreover have "0 < r - 1 \<longleftrightarrow> 0 < unat (r - 1)" by (simp add: word_less_nat_alt)
  ultimately show ?thesis
    using r ground_after_emit
    by (simp add: utf8_cont_def Let_def) (auto simp: wf_parser_def push_byte_def)
qed

lemma wf_mouse_x10:
  assumes "pst p = MouseX10 n" "wf_parser p"
  shows "\<exists>p'. mouse_x10 b n p = Inr p' \<and> wf_parser p'"
proof -
  have n: "unat n < 3" "length (buf p) = 3 + unat n" using assms by (auto simp: wf_parser_def)
  then have "n \<noteq> 255" by auto
  moreover have "unat (n + 1) = unat n + 1" using n by (simp add: unat_word_ariths)
  moreover have "n + 1 < 3 \<longleftrightarrow> unat (n + 1) < 3" by (simp add: word_less_nat_alt)
  ultimately show ?thesis
    using n by (auto simp: mouse_x10_def Let_def wf_parser_def push_byte_def)
qed

lemma position_of_skip:
  "\<forall>x \<in> set a. \<not> P x \<Longrightarrow> P y \<Longrightarrow> position_of P (a @ y # r) = Some (length a)"
  by (induction a) auto

lemma wf_sgr_mouse:
  assumes "pst p = SgrMouse" "wf_parser p"
  shows "\<exists>p'. sgr_mouse b p = Inr p' \<and> wf_parser p'"
proof -
  have t: "take 3 (buf p) = [0x1b, 0x5b, 0x3c]" and d: "\<forall>x \<in> set (drop 3 (buf p)). is_param_byte x"
    using assms by (auto simp: wf_parser_def)
  define ps where "ps = drop 3 (buf p)"
  have bp: "buf p = [0x1b, 0x5b] @ 0x3c # ps"
    using append_take_drop_id[of 3 "buf p"] t by (simp add: ps_def)
  have "position_of (\<lambda>x. x = 0x3c) (buf p @ [b]) = Some 2"
    unfolding bp using position_of_skip[of "[0x1b, 0x5b]" "\<lambda>x. x = 0x3c" "0x3c" "ps @ [b]"] by simp
  moreover have "length (buf p @ [b]) = 4 + length ps" by (simp add: bp)
  ultimately have "\<exists>o'. parse_sgr_mouse (buf p @ [b]) rel = Inr o'" for rel
    by (simp add: parse_sgr_mouse_def Let_def)
  then obtain ev where ev: "parse_sgr_mouse (buf p @ [b]) (b = 0x6d) = Inr ev" by blast
  consider "b = 0x4d \<or> b = 0x6d" | "b \<noteq> 0x4d" "b \<noteq> 0x6d" "is_param_byte b"
    | "b \<noteq> 0x4d" "b \<noteq> 0x6d" "\<not> is_param_byte b" by blast
  then show ?thesis
  proof cases
    case 1
    then show ?thesis using ev
      by (cases ev) (simp_all add: sgr_mouse_def Let_def push_byte_def wf_parser_def parser_updates)
  next
    case 2
    then have "wf_parser (push_byte b p)" using bp d assms by (auto simp: wf_parser_def push_byte_def)
    with 2 show ?thesis by (simp add: sgr_mouse_def Let_def)
  next
    case 3
    then show ?thesis by (simp add: sgr_mouse_def Let_def)
  qed
qed

lemma wf_simple_handlers:
  "pst p = EscReceived \<Longrightarrow> wf_parser p \<Longrightarrow> wf_parser (esc_received b p)"
  "pst p = CsiEntry \<Longrightarrow> wf_parser p \<Longrightarrow> wf_parser (csi_entry b p)"
  "pst p = CsiParam \<Longrightarrow> wf_parser p \<Longrightarrow> wf_parser (csi_param b p)"
  "wf_parser (ss3_pending b p)"
  "pst p = PasteBuf \<Longrightarrow> wf_parser (in_paste b p)"
proof -
  show "wf_parser (esc_received b p)" if "pst p = EscReceived" "wf_parser p"
    using that by (auto simp: esc_received_def wf_parser_def parser_updates)
  show "wf_parser (csi_entry b p)" if "pst p = CsiEntry" "wf_parser p"
    using that by (auto simp: csi_entry_def wf_parser_def parser_updates)
  show "wf_parser (csi_param b p)" if c: "pst p = CsiParam" and w: "wf_parser p"
  proof -
    have "2 \<le> length (buf p)"
      using w c by (auto simp: wf_parser_def) (metis length_Cons length_take list.size(3) min.bounded_iff
          numeral_2_eq_2 order_refl)
    then show ?thesis
      using c w by (auto simp: csi_param_def Let_def wf_parser_def parser_updates)
  qed
  show "wf_parser (ss3_pending b p)" by (simp add: ss3_pending_def)
  show "wf_parser (in_paste b p)" if "pst p = PasteBuf"
    using that by (auto simp: in_paste_def Let_def wf_parser_def push_byte_def)
qed

lemma wf_step: "wf_parser p \<Longrightarrow> \<exists>p'. step b p = Inr p' \<and> wf_parser p'"
  using wf_simple_handlers wf_utf8_cont wf_mouse_x10 wf_sgr_mouse
  by (cases "pst p") (auto simp: step_def wf_parser_def intro: wf_ground[unfolded wf_parser_def])

interpretation parser_run: fallible_run step "\<lambda>bs p. steps bs p" wf_parser
  by unfold_locales (simp_all add: wf_step)

text \<open>C14: from a fresh parser, and from every state a parser can reach, feeding any bytes returns: no
  counter underflows or overflows, no index or slice of the buffer is out of range, and the parser is
  again in a state from which this holds.\<close>

theorem feed_never_panics:
  assumes "wf_parser p"
  shows "\<exists>evs p'. feed data p = Inr (evs, p') \<and> wf_parser p' \<and> evq p' = []"
  using parser_run.run_ok[OF assms, of data] by (auto simp: feed_def wf_parser_def)

theorem feed_never_panics_witness:
  "\<exists>evs p'. feed [0x1b, 0x5b, 0x4d, 0x20] new_parser = Inr (evs, p') \<and> wf_parser p' \<and> evq p' = []"
  by (rule feed_never_panics[OF wf_new_parser])

section \<open>Chunking\<close>

text \<open>
  Events already queued stay a prefix of the queue and do not influence the step: every handler
  commutes with prefixing the queue.
\<close>

definition prefixed :: "input_event list \<Rightarrow> input_parser \<Rightarrow> input_parser" where
  "prefixed q p = p\<lparr>evq := q @ evq p\<rparr>"

lemma prefixed_fields [simp]:
  "buf (prefixed q p) = buf p" "pst (prefixed q p) = pst p" "evq (prefixed q p) = q @ evq p"
  by (simp_all add: prefixed_def)

lemma prefixed_updates [simp]:
  "(prefixed q p)\<lparr>buf := b\<rparr> = prefixed q (p\<lparr>buf := b\<rparr>)"
  "(prefixed q p)\<lparr>pst := s\<rparr> = prefixed q (p\<lparr>pst := s\<rparr>)"
  "emit_key r k (prefixed q p) = prefixed q (emit_key r k p)"
  "emit_buf k (prefixed q p) = prefixed q (emit_buf k p)"
  "push_byte x (prefixed q p) = prefixed q (push_byte x p)"
  "start_utf8 x n (prefixed q p) = prefixed q (start_utf8 x n p)"
  "(prefixed q p)\<lparr>evq := (q @ evq p) @ es\<rparr> = prefixed q (p\<lparr>evq := evq p @ es\<rparr>)"
  by (simp_all add: prefixed_def parser_updates)

lemma prefixed_handlers:
  "ground b (prefixed q p) = prefixed q (ground b p)"
  "esc_received b (prefixed q p) = prefixed q (esc_received b p)"
  "csi_entry b (prefixed q p) = prefixed q (csi_entry b p)"
  "csi_param b (prefixed q p) = prefixed q (csi_param b p)"
  "ss3_pending b (prefixed q p) = prefixed q (ss3_pending b p)"
  "in_paste b (prefixed q p) = prefixed q (in_paste b p)"
  by (simp_all add: ground_def esc_received_def csi_entry_def csi_param_def ss3_pending_def
      in_paste_def Let_def)

lemma prefixed_fallible_handlers:
  "utf8_cont b r (prefixed q p) = map_sum id (prefixed q) (utf8_cont b r p)"
  "mouse_x10 b n (prefixed q p) = map_sum id (prefixed q) (mouse_x10 b n p)"
  "sgr_mouse b (prefixed q p) = map_sum id (prefixed q) (sgr_mouse b p)"
  by (simp_all add: utf8_cont_def mouse_x10_def sgr_mouse_def Let_def prefixed_handlers
      split: sum.splits option.splits)

lemma step_prefixed: "step b (prefixed q p) = map_sum id (prefixed q) (step b p)"
  by (simp add: step_def prefixed_handlers prefixed_fallible_handlers split: pstate.split)

lemma steps_prefixed: "steps bs (prefixed q p) = map_sum id (prefixed q) (steps bs p)"
  by (induction bs arbitrary: p) (auto simp: step_prefixed split: sum.splits)

text \<open>C29: reads may be cut anywhere: feeding two chunks yields the events of the first followed by
  those of the second, and the same final parser, as feeding them joined.\<close>

theorem feed_chunking:
  "feed (a @ b) p =
     (case feed a p of
        Inl e \<Rightarrow> Inl e
      | Inr (e1, p1) \<Rightarrow>
          (case feed b p1 of Inl e \<Rightarrow> Inl e | Inr (e2, p2) \<Rightarrow> Inr (e1 @ e2, p2)))"
proof (cases "steps a p")
  case (Inl e)
  then show ?thesis by (simp add: feed_def parser_run.run_append)
next
  case (Inr p1)
  have "p1 = prefixed (evq p1) (p1\<lparr>evq := []\<rparr>)" by (simp add: prefixed_def)
  then have "steps b p1 = map_sum id (prefixed (evq p1)) (steps b (p1\<lparr>evq := []\<rparr>))"
    using steps_prefixed by metis
  then show ?thesis using Inr
    by (cases "steps b (p1\<lparr>evq := []\<rparr>)") (simp_all add: feed_def parser_run.run_append prefixed_def)
qed

section \<open>No byte of a key is lost\<close>

fun is_key :: "input_event \<Rightarrow> bool" where
  "is_key (Key k) = True"
| "is_key _ = False"

fun event_raw :: "input_event \<Rightarrow> u8 list" where
  "event_raw (Key k) = raw k"
| "event_raw _ = []"

definition keys_raw :: "input_event list \<Rightarrow> u8 list" where
  "keys_raw es = concat (map event_raw es)"

lemma keys_raw_simps [simp]:
  "keys_raw [] = []" "keys_raw (e # es) = event_raw e @ keys_raw es"
  "keys_raw (es @ fs) = keys_raw es @ keys_raw fs"
  by (simp_all add: keys_raw_def)

definition held_bytes :: "input_parser \<Rightarrow> u8 list" where
  "held_bytes p = keys_raw (evq p) @ buf p"

lemma held_updates [simp]:
  "held_bytes (emit_buf k p) = held_bytes p"
  "held_bytes (push_byte b p) = held_bytes p @ [b]"
  "held_bytes (p\<lparr>pst := s\<rparr>) = held_bytes p"
  "buf p = [] \<Longrightarrow> held_bytes (emit_key r k p) = held_bytes p @ r"
  by (simp_all add: held_bytes_def parser_updates)

lemma held_ground: "buf p = [] \<Longrightarrow> held_bytes (ground b p) = held_bytes p @ [b]"
  by (simp add: ground_def) (auto simp: held_bytes_def start_utf8_def)

lemma held_emit_ground: "held_bytes (ground b (emit_buf k p)) = held_bytes p @ [b]"
proof -
  have "buf (emit_buf k p) = []" by (simp add: parser_updates)
  then show ?thesis using held_ground by simp
qed

lemma mouse_event_queued:
  "list_all is_key (evq p @ [Mouse m]) \<longleftrightarrow> False"
  by simp

lemma step_held:
  assumes "wf_parser p" "step b p = Inr p'" "list_all is_key (evq p')"
    and "\<not> is_in_paste p" "\<not> is_in_paste p'"
  shows "held_bytes p' = held_bytes p @ [b]"
proof (cases "pst p")
  case Ground
  then show ?thesis using assms by (auto simp: step_def held_ground wf_parser_def)
next
  case EscReceived
  then have "buf p = [0x1b]" using assms by (simp add: wf_parser_def)
  then show ?thesis using EscReceived assms
    by (auto simp: step_def esc_received_def held_bytes_def parser_updates)
next
  case CsiEntry
  then show ?thesis using assms by (auto simp: step_def csi_entry_def)
next
  case CsiParam
  then show ?thesis using assms
    by (auto simp: step_def csi_param_def Let_def is_in_paste_def split: if_splits)
next
  case Ss3Pending
  then show ?thesis using assms by (auto simp: step_def ss3_pending_def)
next
  case (MouseX10 n)
  then show ?thesis using assms
    by (auto simp: step_def mouse_x10_def Let_def split: if_splits)
next
  case SgrMouse
  then show ?thesis using assms
    by (auto simp: step_def sgr_mouse_def Let_def split: if_splits sum.splits option.splits)
next
  case PasteBuf
  then show ?thesis using assms by (simp add: is_in_paste_def)
next
  case (Utf8Cont r)
  then show ?thesis using assms
    by (auto simp: step_def utf8_cont_def Let_def held_emit_ground split: if_splits)
qed

text \<open>The queue only grows, and a paste ends only with a paste event.\<close>

lemma step_evq_grows: "step b p = Inr p' \<Longrightarrow> \<exists>es. evq p' = evq p @ es"
  by (cases "pst p")
    (auto simp: step_def ground_def esc_received_def csi_entry_def csi_param_def ss3_pending_def
      in_paste_def utf8_cont_def mouse_x10_def sgr_mouse_def parser_updates Let_def
      split: if_splits sum.splits option.splits)

lemma steps_evq_grows: "steps bs p = Inr p' \<Longrightarrow> \<exists>es. evq p' = evq p @ es"
proof (induction bs arbitrary: p)
  case Nil
  then show ?case by simp
next
  case (Cons b bs)
  then obtain q where q: "step b p = Inr q" "steps bs q = Inr p'" by (auto split: sum.splits)
  with Cons.IH step_evq_grows show ?case by (metis append_assoc)
qed

lemma paste_step:
  "pst p = PasteBuf \<Longrightarrow> step b p = Inr q \<Longrightarrow> pst q = PasteBuf \<or> \<not> list_all is_key (evq q)"
  by (auto simp: step_def in_paste_def Let_def push_byte_def split: if_splits)

lemma paste_steps:
  "pst p = PasteBuf \<Longrightarrow> steps bs p = Inr q \<Longrightarrow> pst q = PasteBuf \<or> \<not> list_all is_key (evq q)"
proof (induction bs arbitrary: p)
  case Nil
  then show ?case by simp
next
  case (Cons b bs)
  then obtain r where r: "step b p = Inr r" "steps bs r = Inr q" by (auto split: sum.splits)
  obtain es where "evq q = evq r @ es" using steps_evq_grows r by blast
  with paste_step[OF Cons.prems(1) r(1)] Cons.IH[of r] r(2) show ?case by auto
qed

lemma steps_held:
  "wf_parser p \<Longrightarrow> steps bs p = Inr q \<Longrightarrow> list_all is_key (evq q) \<Longrightarrow> \<not> is_in_paste p \<Longrightarrow>
   \<not> is_in_paste q \<Longrightarrow> held_bytes q = held_bytes p @ bs"
proof (induction bs arbitrary: p)
  case Nil
  then show ?case by simp
next
  case (Cons b bs)
  then obtain r where r: "step b p = Inr r" "steps bs r = Inr q" by (auto split: sum.splits)
  have wf: "wf_parser r" using wf_step[OF Cons.prems(1), of b] r(1) by auto
  have keys: "list_all is_key (evq r)" using steps_evq_grows[OF r(2)] Cons.prems(3) by auto
  have np: "\<not> is_in_paste r"
    using paste_steps[OF _ r(2)] Cons.prems(3,5) by (auto simp: is_in_paste_def)
  show ?case
    using step_held[OF Cons.prems(1) r(1) keys Cons.prems(4) np] Cons.IH[OF wf r(2) Cons.prems(3) np]
      Cons.prems(5) by simp
qed



section \<open>The ESC timeout\<close>

text \<open>\<open>flush\<close> resolves everything that waits for a timeout: afterwards nothing is pending, an
  unfinished paste is untouched, and otherwise the bytes held back come out as the raw bytes of the
  events, leaving a fresh parser.\<close>

theorem flush_resolves:
  assumes "wf_parser p" "evq p = []"
  shows "\<not> has_pending (snd (flush p))
    \<and> (if is_in_paste p then flush p = ([], p)
       else keys_raw (fst (flush p)) = buf p \<and> snd (flush p) = new_parser)"
  using assms
  by (cases p; cases "pst p")
    (auto simp: flush_def has_pending_def is_in_paste_def new_parser_def wf_parser_def parser_updates)

theorem flush_resolves_witness:
  "\<not> has_pending (snd (flush \<lparr>pst = EscReceived, buf = [0x1b], evq = []\<rparr>))"
  using flush_resolves[of "\<lparr>pst = EscReceived, buf = [0x1b], evq = []\<rparr>"] by (simp add: wf_parser_def)

section \<open>Numeric parameters saturate\<close>

definition decimal :: "u8 list \<Rightarrow> nat" where
  "decimal ds = fold (\<lambda>b acc. acc * 10 + (unat b - 48)) ds 0"

lemma digit_value:
  "is_digit_byte b \<Longrightarrow> unat (ucast (b - 0x30) :: u16) = unat b - 48"
  by (auto simp: is_digit_byte_def unat_sub word_le_nat_alt unsigned_ucast_eq
      take_bit_eq_mod)

lemma fold_param_saturates:
  assumes "\<forall>b \<in> set ds. is_digit_byte b" "unat (acc::u16) = min 65535 n"
  shows "unat (fold (\<lambda>b acc. if is_digit_byte b then sat_add (sat_mul acc 10) (ucast (b - 0x30))
                      else acc) ds acc)
       = min 65535 (fold (\<lambda>b acc. acc * 10 + (unat b - 48)) ds n)"
  using assms
proof (induction ds arbitrary: acc n)
  case Nil
  then show ?case by simp
next
  case (Cons b ds)
  have b: "is_digit_byte b" using Cons.prems by simp
  have "unat (sat_add (sat_mul acc 10) (ucast (b - 0x30)) :: u16)
      = min 65535 (n * 10 + (unat b - 48))"
    using Cons.prems(2) by (simp add: sat_simps digit_value[OF b])
  then show ?case using Cons b by simp
qed

text \<open>A parameter of digits is its decimal value, capped at the largest \<open>u16\<close>: no overlong
  sequence can wrap around to a small number.\<close>

theorem parse_param_saturates:
  assumes "\<forall>b \<in> set ds. is_digit_byte b"
  shows "unat (parse_param ds) = min 65535 (decimal ds)"
  using fold_param_saturates[OF assms, of 0 0] by (simp add: parse_param_def decimal_def)

theorem parse_param_saturates_witness: "unat (parse_param [0x36, 0x35, 0x35, 0x33, 0x37]) = 65535"
  using parse_param_saturates[of "[0x36, 0x35, 0x35, 0x33, 0x37]"]
  by (simp add: is_digit_byte_def decimal_def)

section \<open>Mouse reports\<close>

lemma shift_mod_256: "((u + 33) mod 65536 - 33) mod 256 = u mod (256::int)"
proof -
  have "(u + 33) mod 65536 - 33 = u + 256 * (- (256 * ((u + 33) div 65536)))"
    using div_mult_mod_eq[of "u + 33" 65536] by linarith
  then show ?thesis by (simp only: mod_mult_self2)
qed

lemma x10_coordinate:
  assumes "unat (x :: u16) < 256"
  shows "ucast ((ucast (x + 33) :: u8) - 33) = x"
proof -
  have "(ucast (x + 33) :: u8) - 33 = ucast x"
    by (simp add: word_uint_eq_iff uint_word_ariths unsigned_ucast_eq take_bit_eq_mod mod_simps shift_mod_256)
  then show ?thesis using assms by (simp add: word_unat_eq_iff unsigned_ucast_eq take_bit_eq_mod)
qed

lemma low_button_decode:
  "decode_x10_mouse (of_nat (fst (x10_fields e) + 32) - 32) (fst (position e)) (snd (position e)) = e"
proof -
  have b: "c = BtnLeft \<or> c = BtnMiddle \<or> c = BtnRight" for c by (cases c) auto
  show ?thesis
  proof (cases e)
    case (MouseDown c x y)
    then show ?thesis using b[of c] by (auto simp: decode_x10_mouse_def low_button_def Let_def)
  next
    case (MouseDrag c x y)
    then show ?thesis using b[of c] by (auto simp: decode_x10_mouse_def low_button_def Let_def)
  qed (auto simp: decode_x10_mouse_def Let_def)
qed

lemma steps_x10_report:
  "feed [0x1b, 0x5b, 0x4d, c, x, y] new_parser =
     Inr ([Mouse (decode_x10_mouse (c - 32) (ucast (x - 33)) (ucast (y - 33)))], new_parser)"
  by (simp add: feed_def new_parser_def step_def ground_def esc_received_def csi_entry_def
      mouse_x10_def push_byte_def Let_def)

text \<open>An encoded mouse event decodes to itself: writing \<open>to_x10_bytes\<close> to a terminal and reading
  the bytes back gives the same event, for coordinates that fit the protocol's single byte.\<close>

theorem x10_roundtrip:
  assumes "unat (fst (position e)) < 256" "unat (snd (position e)) < 256"
  shows "feed (to_x10_bytes e) new_parser = Inr ([Mouse e], new_parser)"
proof -
  obtain n col row where f: "x10_fields e = (n, col, row)" by (cases "x10_fields e") auto
  have pos: "position e = (col, row)" using x10_fields_position[of e] f by simp
  have "to_x10_bytes e = [0x1b, 0x5b, 0x4d, of_nat (n + 32), ucast (col + 33), ucast (row + 33)]"
    by (simp add: to_x10_bytes_def f)
  then show ?thesis
    using low_button_decode[of e] assms by (simp only: steps_x10_report) (simp add: f pos x10_coordinate)
qed

theorem x10_roundtrip_witness:
  "feed (to_x10_bytes (MouseDrag BtnRight 200 255)) new_parser
     = Inr ([Mouse (MouseDrag BtnRight 200 255)], new_parser)"
  by (rule x10_roundtrip) simp_all

section \<open>Characters\<close>

lemma cont_byte_table:
  "list_all (\<lambda>n. (and (of_nat n :: u8) 0xC0 = 0x80) = (128 \<le> n \<and> n \<le> 191)) [0..<256]"
  by code_simp

lemma cont_byte_iff: "and (b :: u8) 0xC0 = 0x80 \<longleftrightarrow> is_cont (unat b)"
proof -
  have "unat b \<in> set [0..<256]" using unsigned_less[of b] by simp
  then have "(and (of_nat (unat b) :: u8) 0xC0 = 0x80) = (128 \<le> unat b \<and> unat b \<le> 191)"
    using cont_byte_table unfolding list_all_iff by blast
  then show ?thesis by simp
qed

lemma steps_utf8_collect:
  assumes "cs \<noteq> []" "length cs \<le> 3" "\<forall>x \<in> set cs. is_cont (unat x)"
    and "pst p = Utf8Cont (of_nat (length cs))"
  shows "steps cs p = Inr (emit_buf (decode_kind (buf p @ cs)) (p\<lparr>buf := buf p @ cs\<rparr>))"
  using assms
proof (induction cs arbitrary: p)
  case Nil
  then show ?case by simp
next
  case (Cons c cs)
  let ?r = "of_nat (length (c # cs)) :: u8"
  have len: "unat ?r = Suc (length cs)" using Cons.prems(2) by (simp add: unat_of_nat del: of_nat_Suc)
  have nz: "?r \<noteq> 0" using len by (metis unat_0 Zero_not_Suc)
  have dec: "?r - 1 = of_nat (length cs)" by simp
  have cont: "and c 0xC0 = 0x80" using Cons.prems(3) by (simp add: cont_byte_iff)
  have st: "step c p = utf8_cont c ?r p" using Cons.prems(4) by (simp add: step_def)
  show ?case
  proof (cases cs)
    case Nil
    then show ?thesis using st cont nz
      by (simp add: utf8_cont_def Let_def push_byte_def parser_updates)
  next
    case (Cons d ds)
    have pos: "0 < (of_nat (length cs) :: u8)"
      using Cons \<open>length (c # cs) \<le> 3\<close> by (auto simp: word_less_nat_alt unat_of_nat simp del: of_nat_Suc)
    let ?q = "(push_byte c p)\<lparr>pst := Utf8Cont (of_nat (length cs))\<rparr>"
    have "step c p = Inr ?q" using st cont nz pos dec by (simp add: utf8_cont_def Let_def)
    moreover have "steps cs ?q = Inr (emit_buf (decode_kind (buf ?q @ cs)) (?q\<lparr>buf := buf ?q @ cs\<rparr>))"
      using Cons.IH[of ?q] Cons.prems Cons by simp
    ultimately show ?thesis by (simp add: push_byte_def parser_updates)
  qed
qed

definition bytes_of_char :: "nat \<Rightarrow> u8 list" where
  "bytes_of_char c = map of_nat (utf8_encode c)"

lemma utf8_encode_bytes: "is_scalar c \<Longrightarrow> \<forall>x \<in> set (utf8_encode c). x < 256"
  by (auto simp: utf8_encode_def is_scalar_def less_mult_imp_div_less split: if_splits)

lemma unat_bytes_of_char: "is_scalar c \<Longrightarrow> map unat (bytes_of_char c) = utf8_encode c"
  using utf8_encode_bytes[of c]
  by (auto simp: bytes_of_char_def unat_of_nat intro!: map_idI)

lemma decode_bytes_of_char: "is_scalar c \<Longrightarrow> decode_kind (bytes_of_char c) = KeyChar c"
  using utf8_chars_one[OF utf8_step_encode, of c "[]"]
  by (simp add: decode_kind_def unat_bytes_of_char Let_def)

text \<open>The lead byte of a multi-byte character selects the number of continuation bytes.\<close>

lemma bytes_of_char_shape:
  assumes "is_scalar c" "128 \<le> c"
  obtains l cs where "bytes_of_char c = l # cs" "cs \<noteq> []" "length cs \<le> 3"
    "\<forall>x \<in> set cs. is_cont (unat x)"
    "step l new_parser = Inr (start_utf8 l (of_nat (length cs)) new_parser)"
proof -
  have "bytes_of_char c \<noteq> []" by (simp add: bytes_of_char_def utf8_encode_def)
  then obtain l cs where e: "bytes_of_char c = l # cs" by (cases "bytes_of_char c") auto
  let ?e = "utf8_encode c"
  have ue: "?e = unat l # map unat cs" using unat_bytes_of_char[OF assms(1)] e by simp
  have st: "utf8_step ?e = (Some c, length ?e)" by (rule utf8_step_encode[OF assms(1)])
  then have inner: "\<forall>i. 0 < i \<and> i < length ?e \<longrightarrow> is_cont (?e ! i)" and four: "length ?e \<le> 4"
    using utf8_step_Some[OF st] by auto
  have cont: "\<forall>x \<in> set cs. is_cont (unat x)"
  proof
    fix x assume "x \<in> set cs"
    then obtain i where "i < length cs" "cs ! i = x" by (auto simp: in_set_conv_nth)
    then show "is_cont (unat x)" using inner[rule_format, of "Suc i"] ue by simp
  qed
  have lead: "step l new_parser = Inr (start_utf8 l (of_nat (length cs)) new_parser) \<and> cs \<noteq> []"
    using st
  proof (cases rule: utf8_step_Some_cases)
    case (one a r)
    then show ?thesis using assms(2) by simp
  next
    case (two a b r)
    then have "length cs = 1" "0xC2 \<le> unat l" "unat l \<le> 0xDF" using ue by (cases cs; auto)+
    then show ?thesis
      by (auto simp: step_def ground_def new_parser_def start_utf8_def word_le_nat_alt word_unat_eq_iff)
  next
    case (three a b d r)
    then have "length cs = 2" "0xE0 \<le> unat l" "unat l \<le> 0xEF" using ue by (cases cs; auto)+
    then show ?thesis
      by (auto simp: step_def ground_def new_parser_def start_utf8_def word_le_nat_alt word_unat_eq_iff)
  next
    case (four a b d x r)
    then have "length cs = 3" "0xF0 \<le> unat l" "unat l \<le> 0xF4" using ue by (cases cs; auto)+
    then show ?thesis
      by (auto simp: step_def ground_def new_parser_def start_utf8_def word_le_nat_alt word_unat_eq_iff)
  qed
  show ?thesis
  proof (rule that[OF e])
    show "length cs \<le> 3" using four ue by simp
  qed (use lead cont in auto)
qed

text \<open>Every character a terminal sends in UTF-8 arrives as that character: a non-ASCII scalar value
  encoded in two to four bytes gives one key event carrying the code point and its exact bytes.\<close>

theorem typed_char_roundtrip:
  assumes "is_scalar c" "128 \<le> c"
  shows "feed (bytes_of_char c) new_parser
       = Inr ([Key \<lparr>raw = bytes_of_char c, kind = KeyChar c\<rparr>], new_parser)"
proof -
  obtain l cs where s: "bytes_of_char c = l # cs" "cs \<noteq> []" "length cs \<le> 3"
    "\<forall>x \<in> set cs. is_cont (unat x)"
    "step l new_parser = Inr (start_utf8 l (of_nat (length cs)) new_parser)"
    using bytes_of_char_shape[OF assms] by blast
  let ?p = "start_utf8 l (of_nat (length cs)) new_parser"
  have "steps cs ?p = Inr (emit_buf (decode_kind (buf ?p @ cs)) (?p\<lparr>buf := buf ?p @ cs\<rparr>))"
    using steps_utf8_collect[OF s(2-4), of ?p] by (simp add: start_utf8_def)
  moreover have "buf ?p @ cs = bytes_of_char c" using s(1) by (simp add: start_utf8_def)
  ultimately have "steps (bytes_of_char c) new_parser
      = Inr (emit_buf (KeyChar c) (?p\<lparr>buf := bytes_of_char c\<rparr>))"
    using s(1,5) decode_bytes_of_char[OF assms(1)] by simp
  then show ?thesis by (simp add: feed_def parser_updates new_parser_def)
qed

theorem typed_char_roundtrip_witness:
  "feed (bytes_of_char 0x1F600) new_parser
     = Inr ([Key \<lparr>raw = bytes_of_char 0x1F600, kind = KeyChar 0x1F600\<rparr>], new_parser)"
  by (rule typed_char_roundtrip) (simp_all add: is_scalar_def)

section \<open>Bracketed paste\<close>

definition paste_start :: "u8 list" where
  "paste_start = [0x1b, 0x5b, 0x32, 0x30, 0x30, 0x7e]"

lemma steps_paste_start: "steps paste_start new_parser = Inr (new_parser\<lparr>pst := PasteBuf\<rparr>)"
  by (simp add: paste_start_def new_parser_def step_def ground_def esc_received_def csi_entry_def
      csi_param_def is_param_byte_def is_digit_byte_def push_byte_def Let_def extract_csi_params_def
      str_starts_def parse_params_def parse_param_def sat_add_def sat_mul_def)

definition ends_paste :: "u8 list \<Rightarrow> bool" where
  "ends_paste b \<longleftrightarrow> length end_marker \<le> length b \<and> drop (length b - length end_marker) b = end_marker"

lemma ends_paste_iff: "ends_paste b \<longleftrightarrow> (\<exists>a. b = a @ end_marker)"
  by (auto simp: ends_paste_def) (metis append_take_drop_id)

lemma step_in_paste_continue:
  "pst p = PasteBuf \<Longrightarrow> \<not> ends_paste (buf p @ [b]) \<Longrightarrow> step b p = Inr (push_byte b p)"
  by (simp add: step_def in_paste_def Let_def push_byte_def ends_paste_def)

lemma steps_in_paste:
  "pst p = PasteBuf \<Longrightarrow> (\<And>k. 0 < k \<Longrightarrow> k \<le> length xs \<Longrightarrow> \<not> ends_paste (buf p @ take k xs)) \<Longrightarrow>
   steps xs p = Inr (p\<lparr>buf := buf p @ xs\<rparr>)"
proof (induction xs arbitrary: p)
  case Nil
  then show ?case by simp
next
  case (Cons x xs)
  have "\<not> ends_paste (buf p @ [x])" using Cons.prems(2)[of 1] by simp
  then have st: "step x p = Inr (push_byte x p)" using Cons.prems(1) step_in_paste_continue by blast
  have "steps xs (push_byte x p) = Inr ((push_byte x p)\<lparr>buf := buf (push_byte x p) @ xs\<rparr>)"
  proof (rule Cons.IH)
    fix k assume "0 < k" "k \<le> length xs"
    then show "\<not> ends_paste (buf (push_byte x p) @ take k xs)"
      using Cons.prems(2)[of "Suc k"] by (simp add: push_byte_def)
  qed (simp add: Cons.prems(1) push_byte_def)
  then show ?case using st by (simp add: push_byte_def)
qed

text \<open>The end marker has no border, so it cannot end inside itself.\<close>

lemma end_marker_borderless:
  assumes "0 < k" "k < length end_marker" "a @ take k end_marker = c @ end_marker"
  shows False
proof -
  have k: "k \<in> {1, 2, 3, 4, 5}" using assms(1,2) by (auto simp: end_marker_def)
  have "last (take k end_marker) = last end_marker"
    using assms by (metis last_appendR length_greater_0_conv length_take less_imp_le_nat
        list.size(3) min.absorb_iff2 not_less0 take_eq_Nil2 gr0I)
  then show False using k by (auto simp: end_marker_def)
qed

text \<open>A bracketed paste delivers exactly the pasted text, whatever control bytes and escape
  sequences it holds, as long as it is UTF-8 and does not hold the end marker itself.\<close>

theorem paste_roundtrip:
  assumes "\<not> str_contains end_marker t" "utf8_valid (map unat t)"
  shows "feed (paste_start @ t @ end_marker) new_parser = Inr ([Paste t], new_parser)"
proof -
  let ?p = "new_parser\<lparr>pst := PasteBuf\<rparr>"
  let ?xs = "t @ butlast end_marker"
  have em: "end_marker = butlast end_marker @ [0x7e]" by (simp add: end_marker_def)
  have quiet: "\<not> ends_paste (buf ?p @ take k ?xs)" if "0 < k" "k \<le> length ?xs" for k
  proof
    assume "ends_paste (buf ?p @ take k ?xs)"
    then obtain c where c: "take k ?xs = c @ end_marker" by (auto simp: ends_paste_iff new_parser_def)
    show False
    proof (cases "k \<le> length t")
      case True
      then have "t = c @ end_marker @ drop k t" using c by (metis append.assoc append_take_drop_id
            diff_is_0_eq take0 take_append append_Nil2)
      then show False using assms(1) by (auto simp: str_contains_iff)
    next
      case False
      let ?j = "k - length t"
      have "?j < length end_marker" using that by (simp add: end_marker_def)
      moreover have "take k ?xs = t @ take ?j end_marker"
        using False \<open>?j < length end_marker\<close> by (simp add: take_butlast)
      ultimately show False using end_marker_borderless[of ?j t c] False c by simp
    qed
  qed
  have "steps ?xs ?p = Inr (?p\<lparr>buf := ?xs\<rparr>)"
    using steps_in_paste[of ?p ?xs, OF _ quiet] by (simp add: new_parser_def)
  moreover have "step 0x7e (?p\<lparr>buf := ?xs\<rparr>) = Inr (new_parser\<lparr>evq := [Paste (lossy_bytes t)]\<rparr>)"
  proof -
    have b: "?xs @ [0x7e] = t @ end_marker" using em by simp
    show ?thesis
      by (simp add: step_def in_paste_def Let_def push_byte_def b new_parser_def)
        (simp add: end_marker_def)
  qed
  moreover have "lossy_bytes t = t"
    by (simp add: lossy_bytes_def utf8_lossy_valid_id[OF assms(2)] comp_def)
  moreover have "paste_start @ t @ end_marker = (paste_start @ ?xs) @ [0x7e]" using em by simp
  ultimately have "steps (paste_start @ t @ end_marker) new_parser = Inr (new_parser\<lparr>evq := [Paste t]\<rparr>)"
    by (simp only: parser_run.run_append steps_paste_start sum.case steps.simps)
  then show ?thesis by (simp add: feed_def new_parser_def)
qed

theorem paste_roundtrip_witness:
  "feed (paste_start @ [0x68, 0x0d, 0x1b] @ end_marker) new_parser
     = Inr ([Paste [0x68, 0x0d, 0x1b]], new_parser)"
  by (rule paste_roundtrip)
    (simp_all add: end_marker_def str_contains_def str_starts_def utf8_valid_def utf8_step.simps(2))

end
