(* ===== verification/Json.thy ===== *)
theory Json
  imports Utf8
begin

text \<open>
  JSON documents as the program sees them (\<open>serde_json::Value\<close>): the datatype and the accessors the
  sources use on it (\<open>get\<close>, \<open>as_str\<close>, \<open>as_array\<close>, \<open>as_u64\<close>, \<open>as_bool\<close>, \<open>get_mut\<close>, insertion into an
  object, \<open>remove\<close>).  The text parser and printer belong to \<open>serde_json\<close>, which is not part of the
  repository: they are parameters wherever they are used.  An object is an association list with
  distinct keys; a float keeps its 64 bits.
\<close>

datatype jnum = PosInt u64 | NegInt u64 | FloatNum u64

datatype json =
    JNull
  | JBool bool
  | JNum jnum
  | JStr string
  | JArr "json list"
  | JObj "(string \<times> json) list"

fun as_str :: "json \<Rightarrow> string option" where
  "as_str (JStr s) = Some s"
| "as_str _ = None"

fun as_array :: "json \<Rightarrow> json list option" where
  "as_array (JArr xs) = Some xs"
| "as_array _ = None"

fun as_u64 :: "json \<Rightarrow> u64 option" where
  "as_u64 (JNum (PosInt n)) = Some n"
| "as_u64 _ = None"

fun as_bool :: "json \<Rightarrow> bool option" where
  "as_bool (JBool b) = Some b"
| "as_bool _ = None"

fun as_object :: "json \<Rightarrow> (string \<times> json) list option" where
  "as_object (JObj kvs) = Some kvs"
| "as_object _ = None"

text \<open>\<open>Value::get\<close> with a string key: \<open>None\<close> on anything that is not an object.\<close>

fun jget :: "string \<Rightarrow> json \<Rightarrow> json option" where
  "jget k (JObj kvs) = map_of kvs k"
| "jget _ _ = None"

text \<open>\<open>v.get(k).and_then(|x| x.as_str())\<close> and its siblings.\<close>

definition jget_str :: "string \<Rightarrow> json \<Rightarrow> string option" where
  "jget_str k j = Option.bind (jget k j) as_str"

definition jget_arr :: "string \<Rightarrow> json \<Rightarrow> json list option" where
  "jget_arr k j = Option.bind (jget k j) as_array"

definition jget_u64 :: "string \<Rightarrow> json \<Rightarrow> u64 option" where
  "jget_u64 k j = Option.bind (jget k j) as_u64"

text \<open>Writing through \<open>get_mut(k)\<close>: the function is applied in place where the key is present.\<close>

fun jadjust :: "string \<Rightarrow> (json \<Rightarrow> json) \<Rightarrow> json \<Rightarrow> json" where
  "jadjust k f (JObj kvs) =
     (case map_of kvs k of None \<Rightarrow> JObj kvs | Some v \<Rightarrow> JObj (AList.update k (f v) kvs))"
| "jadjust k f j = j"

text \<open>\<open>obj.insert(k, v)\<close> and \<open>obj.remove(k)\<close>, on a value known to be an object.\<close>

fun jinsert :: "string \<Rightarrow> json \<Rightarrow> json \<Rightarrow> json" where
  "jinsert k v (JObj kvs) = JObj (AList.update k v kvs)"
| "jinsert k v j = j"

fun jremove :: "string \<Rightarrow> json \<Rightarrow> json" where
  "jremove k (JObj kvs) = JObj (AList.delete k kvs)"
| "jremove k j = j"

fun is_object :: "json \<Rightarrow> bool" where
  "is_object (JObj _) = True"
| "is_object _ = False"

lemma jget_jinsert [simp]:
  "is_object j \<Longrightarrow> jget k (jinsert k' v j) = (if k = k' then Some v else jget k j)"
  by (cases j) auto

lemma jget_jremove [simp]: "jget k (jremove k' j) = (if k = k' then None else jget k j)"
  by (cases j) auto

lemma is_object_jinsert [simp]: "is_object (jinsert k v j) = is_object j"
  by (cases j) auto

lemma is_object_jremove [simp]: "is_object (jremove k j) = is_object j"
  by (cases j) auto

lemma jget_Some_object: "jget k j = Some v \<Longrightarrow> is_object j"
  by (cases j) auto

lemma jget_jadjust: "jget k (jadjust k' f j) = (if k = k' then map_option f (jget k j) else jget k j)"
  by (cases j) (auto split: option.splits)

lemma jadjust_cong: "(\<And>v. jget k j = Some v \<Longrightarrow> f v = g v) \<Longrightarrow> jadjust k f j = jadjust k g j"
  by (cases j) (auto split: option.splits)

lemma update_same: "map_of kvs k = Some v \<Longrightarrow> AList.update k v kvs = kvs"
  by (induction kvs) auto

lemma jadjust_id: "(\<And>v. jget k j = Some v \<Longrightarrow> f v = v) \<Longrightarrow> jadjust k f j = j"
  by (cases j) (auto simp: update_same split: option.splits)

lemma update_update: "AList.update k v (AList.update k w kvs) = AList.update k v kvs"
  by (induction kvs) auto

lemma jadjust_jadjust: "jadjust k f (jadjust k g j) = jadjust k (\<lambda>v. f (g v)) j"
  by (cases j) (auto simp: update_update split: option.splits)

section \<open>Slicing text at character boundaries\<close>

definition str_boundary :: "string \<Rightarrow> nat \<Rightarrow> bool" where
  "str_boundary s i = char_boundary (map code s) i"

definition str_valid :: "string \<Rightarrow> bool" where
  "str_valid s = utf8_valid (map code s)"

lemma str_boundary_0 [simp]: "str_boundary s 0"
  by (simp add: str_boundary_def char_boundary_def)

lemma str_boundary_len [simp]: "str_boundary s (length s)"
  by (simp add: str_boundary_def char_boundary_def)

lemma str_valid_cut:
  assumes "str_valid s" "str_boundary s i" "i \<le> length s"
  shows "str_valid (take i s)" "str_valid (drop i s)"
  using utf8_valid_cut[of "map code s" i] assms
  by (auto simp: str_valid_def str_boundary_def take_map drop_map)

lemma str_boundary_below:
  assumes "str_valid s" "i \<le> length s"
  shows "\<exists>j. j \<le> i \<and> i \<le> j + 3 \<and> str_boundary s j"
proof -
  obtain ws where "map code s = concat ws" "\<forall>w \<in> set ws. utf8_one w"
    using utf8_valid_split assms(1) unfolding str_valid_def by blast
  then show ?thesis
    using boundary_within_four[of ws i] assms(2) unfolding str_boundary_def by (metis length_map)
qed

lemma str_boundary_above:
  assumes "str_valid s" "i \<le> length s"
  shows "\<exists>j. i \<le> j \<and> j \<le> i + 3 \<and> j \<le> length s \<and> str_boundary s j"
proof (cases "i + 3 \<le> length s")
  case True
  then obtain j where "j \<le> i + 3" "i + 3 \<le> j + 3" "str_boundary s j"
    using str_boundary_below[OF assms(1) True] by blast
  then show ?thesis using True by (intro exI[of _ j]) auto
next
  case False
  then show ?thesis using assms(2) by (intro exI[of _ "length s"]) auto
qed

text \<open>\<open>str::lines\<close>: pieces ended by a line feed, with a carriage return before it removed; a last
  piece without a line feed is kept as it is, and an empty one is dropped.\<close>

definition strip_cr :: "string \<Rightarrow> string" where
  "strip_cr l = (if l \<noteq> [] \<and> last l = CHR 0x0D then butlast l else l)"

fun cut_lines :: "string list \<Rightarrow> string list" where
  "cut_lines [] = []"
| "cut_lines [l] = (if l = [] then [] else [l])"
| "cut_lines (l # ls) = strip_cr l # cut_lines ls"

definition str_lines :: "string \<Rightarrow> string list" where
  "str_lines s = cut_lines (split_on (\<lambda>c. c = CHR 0x0A) s)"

lemma str_lines_Nil [simp]: "str_lines [] = []"
  by (simp add: str_lines_def)

lemma str_lines_append:
  assumes "CHR 0x0A \<notin> set l"
  shows "str_lines (l @ CHR 0x0A # rest) = strip_cr l # str_lines rest"
proof -
  have "split_on (\<lambda>c. c = CHR 0x0A) (l @ CHR 0x0A # rest) = l # split_on (\<lambda>c. c = CHR 0x0A) rest"
    using assms by (intro split_on_append_sep) auto
  moreover obtain w ws where "split_on (\<lambda>c. c = CHR 0x0A) rest = w # ws"
    by (cases "split_on (\<lambda>c. c = CHR 0x0A) rest") auto
  ultimately show ?thesis by (simp add: str_lines_def)
qed

lemma str_lines_single: "CHR 0x0A \<notin> set l \<Longrightarrow> str_lines l = (if l = [] then [] else [l])"
  using split_on_no_sep[of l "\<lambda>c. c = CHR 0x0A"] by (cases "l = []") (fastforce simp: str_lines_def)+

text \<open>\<open>String::from_utf8_lossy\<close> on bytes kept as characters.\<close>

definition str_lossy :: "string \<Rightarrow> string" where
  "str_lossy bs = map char_of (utf8_lossy (map code bs))"

lemma str_lossy_valid: "str_valid s \<Longrightarrow> str_lossy s = s"
  by (simp add: str_lossy_def str_valid_def utf8_lossy_valid_id comp_def)

end
