(* ===== verification/Sse.thy ===== *)
theory Sse
  imports Json
begin

text \<open>
  The SSE parser and the two analyses of thinking events (\<open>src/sse.rs\<close>).  The JSON text parser is the
  parameter \<open>jparse\<close> (\<open>serde_json::from_str\<close>).
\<close>

record sse_event =
  event_type :: string
  event_data :: json

definition parse_sse_line :: "(string \<Rightarrow> json option) \<Rightarrow> string \<Rightarrow> sse_event option" where
  "parse_sse_line jparse raw_line =
     (let line = str_trim raw_line in
      if line = [] then None
      else
        let parsed = (case jparse line of
            Some j \<Rightarrow> Some j
          | None \<Rightarrow> (case strip_prefix ''data:'' line of
                None \<Rightarrow> None
              | Some d \<Rightarrow> jparse (trim_start d)))
        in (case parsed of
            None \<Rightarrow> None
          | Some j \<Rightarrow> (case jget_str ''type'' j of
                None \<Rightarrow> None
              | Some t \<Rightarrow> Some \<lparr>event_type = t, event_data = j\<rparr>)))"

definition parse_sse_events :: "(string \<Rightarrow> json option) \<Rightarrow> string \<Rightarrow> sse_event list" where
  "parse_sse_events jparse bytes = List.map_filter (parse_sse_line jparse) (str_lines (str_lossy bytes))"

text \<open>\<open>data.get(a).and_then(|b| b.get(b)).and_then(|t| t.as_str())\<close>.\<close>

definition nested_str :: "string \<Rightarrow> string \<Rightarrow> json \<Rightarrow> string option" where
  "nested_str a b j = Option.bind (jget a j) (jget_str b)"

definition is_thinking_event :: "sse_event \<Rightarrow> bool" where
  "is_thinking_event e =
     (if event_type e = ''content_block_start'' then
        nested_str ''content_block'' ''type'' (event_data e)
          \<in> {Some ''thinking'', Some ''redacted_thinking''}
      else if event_type e = ''content_block_delta'' then
        nested_str ''delta'' ''type'' (event_data e)
          \<in> {Some ''thinking_delta'', Some ''signature_delta''}
      else False)"

definition count_thinking_events :: "(string \<Rightarrow> json option) \<Rightarrow> string \<Rightarrow> nat" where
  "count_thinking_events jparse bytes = length (filter is_thinking_event (parse_sse_events jparse bytes))"

record thinking_stream_stats =
  thinking_blocks :: nat
  redacted_blocks :: nat
  thinking_deltas :: nat
  signature_deltas :: nat
  thinking_stops :: nat
  has_signatures :: bool

definition stats_zero :: thinking_stream_stats where
  "stats_zero = \<lparr>thinking_blocks = 0, redacted_blocks = 0, thinking_deltas = 0,
                 signature_deltas = 0, thinking_stops = 0, has_signatures = False\<rparr>"

definition stats_total :: "thinking_stream_stats \<Rightarrow> nat" where
  "stats_total s = thinking_blocks s + redacted_blocks s + thinking_deltas s + signature_deltas s
                   + thinking_stops s"

definition note_index :: "u64 option \<Rightarrow> u64 list \<Rightarrow> u64 list" where
  "note_index idx seen = (case idx of None \<Rightarrow> seen | Some i \<Rightarrow> List.insert i seen)"

definition nonempty_str :: "string option \<Rightarrow> bool" where
  "nonempty_str s = (case s of None \<Rightarrow> False | Some t \<Rightarrow> t \<noteq> [])"

text \<open>One turn of the loop of \<open>analyze_thinking_stream\<close>; the \<open>HashSet\<close> of indices is a list without
  repetitions.\<close>

definition analyze_step ::
  "sse_event \<Rightarrow> thinking_stream_stats \<times> u64 list \<Rightarrow> thinking_stream_stats \<times> u64 list" where
  "analyze_step e = (\<lambda>(st, seen).
     if event_type e = ''content_block_start'' then
       (let bt = nested_str ''content_block'' ''type'' (event_data e);
            idx = jget_u64 ''index'' (event_data e)
        in if bt = Some ''thinking'' then
             (let st1 = st\<lparr>thinking_blocks := thinking_blocks st + 1\<rparr>
              in (if nonempty_str (nested_str ''content_block'' ''signature'' (event_data e))
                  then st1\<lparr>has_signatures := True\<rparr> else st1, note_index idx seen))
           else if bt = Some ''redacted_thinking'' then
             (st\<lparr>redacted_blocks := redacted_blocks st + 1\<rparr>, note_index idx seen)
           else (st, seen))
     else if event_type e = ''content_block_delta'' then
       (let dt = nested_str ''delta'' ''type'' (event_data e)
        in if dt = Some ''thinking_delta'' then
             (st\<lparr>thinking_deltas := thinking_deltas st + 1\<rparr>, seen)
           else if dt = Some ''signature_delta'' then
             (let st1 = st\<lparr>signature_deltas := signature_deltas st + 1\<rparr>
              in (if nonempty_str (nested_str ''delta'' ''signature'' (event_data e))
                  then st1\<lparr>has_signatures := True\<rparr> else st1, seen))
           else (st, seen))
     else if event_type e = ''content_block_stop'' then
       (case jget_u64 ''index'' (event_data e) of
          None \<Rightarrow> (st, seen)
        | Some i \<Rightarrow> (if i \<in> set seen then st\<lparr>thinking_stops := thinking_stops st + 1\<rparr> else st, seen))
     else (st, seen))"

definition analyze_thinking_stream :: "sse_event list \<Rightarrow> thinking_stream_stats" where
  "analyze_thinking_stream es = fst (fold analyze_step es (stats_zero, []))"

section \<open>Properties\<close>

lemma analyze_step_counts:
  "stats_total (fst (analyze_step e (st, seen))) - thinking_stops (fst (analyze_step e (st, seen)))
     = stats_total st - thinking_stops st + (if is_thinking_event e then 1 else 0)"
  by (auto simp: analyze_step_def Let_def stats_total_def is_thinking_event_def split: option.splits)

lemma analyze_fold_counts:
  "stats_total (fst (fold analyze_step es a)) - thinking_stops (fst (fold analyze_step es a))
     = stats_total (fst a) - thinking_stops (fst a) + length (filter is_thinking_event es)"
proof (induction es arbitrary: a)
  case Nil
  then show ?case by simp
next
  case (Cons e es)
  then show ?case using analyze_step_counts[of e "fst a" "snd a"] by (simp add: prod.collapse)
qed

text \<open>The stateless classifier and the stateful analysis agree: the start and delta events that
  \<open>analyze_thinking_stream\<close> counts are exactly those \<open>count_thinking_events\<close> counts; the rest of its
  total are the stop events.\<close>

theorem thinking_counts_agree:
  "stats_total (analyze_thinking_stream (parse_sse_events jparse bytes))
     = count_thinking_events jparse bytes
       + thinking_stops (analyze_thinking_stream (parse_sse_events jparse bytes))"
proof -
  let ?a = "fold analyze_step (parse_sse_events jparse bytes) (stats_zero, [])"
  have "stats_total (fst ?a) - thinking_stops (fst ?a) = count_thinking_events jparse bytes"
    using analyze_fold_counts[of "parse_sse_events jparse bytes" "(stats_zero, [])"]
    by (simp add: stats_total_def stats_zero_def count_thinking_events_def)
  then show ?thesis
    by (simp add: analyze_thinking_stream_def stats_total_def)
qed

text \<open>Lines are independent: a stream is parsed line by line.\<close>

lemma parse_sse_events_lines:
  assumes "str_valid (concat (map (\<lambda>l. l @ [CHR 0x0A]) ls))" "\<forall>l \<in> set ls. CHR 0x0A \<notin> set l"
  shows "parse_sse_events jparse (concat (map (\<lambda>l. l @ [CHR 0x0A]) ls))
       = List.map_filter (\<lambda>l. parse_sse_line jparse (strip_cr l)) ls"
proof -
  have "str_lines (concat (map (\<lambda>l. l @ [CHR 0x0A]) ls)) = map strip_cr ls" if "\<forall>l \<in> set ls. CHR 0x0A \<notin> set l"
    for ls using that by (induction ls) (simp_all add: str_lines_append)
  then show ?thesis using assms by (simp add: parse_sse_events_def str_lossy_valid map_filter_def comp_def filter_map)
qed

text \<open>Both spellings of an SSE data line, with and without the space after the colon, give the same
  event, which carries the payload and its type, provided \<open>serde_json\<close> does not take the whole line
  for JSON (no JSON text starts with a bare word \<open>data:\<close>).\<close>

theorem data_line_variants:
  assumes "\<And>r. jparse (''data:'' @ r) = None"
    and "jparse p = Some j" "jget_str ''type'' j = Some t"
    and "p \<noteq> []" "is_graphic (hd p)" "is_graphic (last p)"
  shows "parse_sse_line jparse (''data:'' @ p) = Some \<lparr>event_type = t, event_data = j\<rparr>
    \<and> parse_sse_line jparse (''data: '' @ p) = Some \<lparr>event_type = t, event_data = j\<rparr>"
proof -
  obtain c r where p: "p = c # r" using assms(4) by (cases p) auto
  obtain a l where pl: "p = a @ [l]" using assms(4) by (cases p rule: rev_cases) auto
  have c: "is_graphic c" and l: "is_graphic l" using assms(5,6) p pl by (simp, metis last_snoc)
  have ts: "trim_start p = p" using p c by simp
  have d: "is_graphic CHR ''d''" by (simp add: is_graphic_def)
  have tr: "str_trim (''data:'' @ w @ p) = ''data:'' @ w @ p" for w
    using trim_start_graphic[OF d, of "''ata:'' @ w @ p"] trim_end_graphic[OF l, of "''data:'' @ w @ a"] pl
    by (simp add: str_trim_def)
  have sp: "trim_start (CHR '' '' # p) = p"
    using ts by (subst trim_start.simps) (simp add: ws_len.simps(2))
  show ?thesis
    using tr[of "[]"] tr[of "'' ''"] assms(1)[of p] assms(1)[of "CHR '' '' # p"] assms(2,3) ts sp
    by (simp add: parse_sse_line_def Let_def)
qed

definition toy_parse :: "string \<Rightarrow> json option" where
  "toy_parse s = (if s = ''{}'' then Some (JObj [(''type'', JStr ''ping'')]) else None)"

theorem data_line_variants_witness:
  "parse_sse_line toy_parse ''data:{}'' = parse_sse_line toy_parse ''data: {}''"
  using data_line_variants[of toy_parse "''{}''" "JObj [(''type'', JStr ''ping'')]" "''ping''"]
  by (simp add: toy_parse_def jget_str_def is_graphic_def)

end
