(* ===== verification/ThinkingRegistry.thy ===== *)
theory ThinkingRegistry
  imports Sse
begin

text \<open>
  The thinking-block registry (\<open>src/proxy/thinking/registry.rs\<close>) and its shared wrapper
  (\<open>src/proxy/thinking/mod.rs\<close>).  \<open>DefaultHasher\<close> belongs to the standard library and its algorithm
  is unspecified: it is the parameter \<open>h\<close>, applied to what \<open>fast_hash\<close> feeds it.  \<open>Instant::now()\<close>
  is a clock reading passed in; a loop that reads the clock once per registered block takes the
  sequence of readings \<open>clk\<close>.  Log output is left out.
\<close>

type_synonym hasher = "string \<times> string \<times> nat \<Rightarrow> u64"

fun bound_down :: "string \<Rightarrow> nat \<Rightarrow> nat" where
  "bound_down s 0 = 0"
| "bound_down s (Suc e) = (if str_boundary s (Suc e) then Suc e else bound_down s e)"

definition safe_truncate :: "string \<Rightarrow> nat \<Rightarrow> string" where
  "safe_truncate s max_bytes = (if length s \<le> max_bytes then s else take (bound_down s max_bytes) s)"

function bound_up :: "string \<Rightarrow> nat \<Rightarrow> nat" where
  "bound_up s b = (if b < length s \<and> \<not> str_boundary s b then bound_up s (b + 1) else b)"
  by pat_completeness auto
termination by (relation "measure (\<lambda>(s, b). length s - b)") auto

declare bound_up.simps [simp del]

definition safe_suffix :: "string \<Rightarrow> nat \<Rightarrow> string" where
  "safe_suffix s max_bytes =
     (if length s \<le> max_bytes then s else drop (bound_up s (length s - max_bytes)) s)"

definition fast_hash :: "hasher \<Rightarrow> string \<Rightarrow> u64" where
  "fast_hash h content = h (safe_truncate content 256, safe_suffix content 256, length content)"

record block_info =
  session :: u64
  confirmed :: bool
  registered_at :: nat

record registry =
  current_session :: u64
  current_backend :: string
  blocks :: "(u64 \<times> block_info) list"
  orphan_threshold :: nat

definition with_orphan_threshold :: "nat \<Rightarrow> registry" where
  "with_orphan_threshold t =
     \<lparr>current_session = 0, current_backend = [], blocks = [], orphan_threshold = t\<rparr>"

text \<open>Times are in seconds.\<close>

definition new_registry :: registry where
  "new_registry = with_orphan_threshold 300"

definition on_backend_switch :: "string \<Rightarrow> registry \<Rightarrow> registry" where
  "on_backend_switch new_backend r =
     (if current_backend r \<noteq> new_backend
      then r\<lparr>current_session := current_session r + 1, current_backend := new_backend\<rparr>
      else r)"

definition extract_thinking_content :: "json \<Rightarrow> string option" where
  "extract_thinking_content item =
     (case jget_str ''type'' item of
        None \<Rightarrow> None
      | Some t \<Rightarrow>
          if t = ''thinking'' then jget_str ''thinking'' item
          else if t = ''redacted_thinking'' then jget_str ''data'' item
          else None)"

definition register_block :: "hasher \<Rightarrow> nat \<Rightarrow> string \<Rightarrow> u64 \<Rightarrow> registry \<Rightarrow> registry" where
  "register_block h now content sid r =
     (let hash = fast_hash h content;
          fresh = r\<lparr>blocks := AList.update hash
                      \<lparr>session = sid, confirmed = False, registered_at = now\<rparr> (blocks r)\<rparr>
      in (case map_of (blocks r) hash of
            Some existing \<Rightarrow> if session existing = sid then r else fresh
          | None \<Rightarrow> fresh))"

fun register_list :: "hasher \<Rightarrow> (nat \<Rightarrow> nat) \<Rightarrow> nat \<Rightarrow> string list \<Rightarrow> u64 \<Rightarrow> registry \<Rightarrow> registry" where
  "register_list h clk n [] sid r = r"
| "register_list h clk n (c # cs) sid r =
     register_list h clk (Suc n) cs sid (register_block h (clk n) c sid r)"

definition register_from_response ::
  "hasher \<Rightarrow> (string \<Rightarrow> json option) \<Rightarrow> (nat \<Rightarrow> nat) \<Rightarrow> string \<Rightarrow> u64 \<Rightarrow> registry \<Rightarrow> registry" where
  "register_from_response h jparse clk body sid r =
     (case jparse body of
        None \<Rightarrow> r
      | Some j \<Rightarrow>
          (case jget_arr ''content'' j of
             None \<Rightarrow> r
           | Some content \<Rightarrow>
               register_list h clk 0 (List.map_filter extract_thinking_content content) sid r))"

text \<open>
  The streaming case: the loop state is the map of accumulators, the number of clock readings taken
  so far and the registry.
\<close>

type_synonym sse_acc = "(u64 \<times> string) list \<times> nat \<times> registry"

definition sse_start :: "hasher \<Rightarrow> (nat \<Rightarrow> nat) \<Rightarrow> u64 \<Rightarrow> json \<Rightarrow> sse_acc \<Rightarrow> sse_acc" where
  "sse_start h clk sid d = (\<lambda>(accs, n, r).
     case jget ''content_block'' d of
       None \<Rightarrow> (accs, n, r)
     | Some block \<Rightarrow>
         if jget_str ''type'' block = Some ''thinking'' then
           (case jget_u64 ''index'' d of
              None \<Rightarrow> (accs, n, r)
            | Some i \<Rightarrow>
                (AList.update i (case jget_str ''thinking'' block of None \<Rightarrow> [] | Some t \<Rightarrow> t) accs, n, r))
         else if jget_str ''type'' block = Some ''redacted_thinking'' then
           (case jget_str ''data'' block of
              None \<Rightarrow> (accs, n, r)
            | Some c \<Rightarrow> (accs, Suc n, register_block h (clk n) c sid r))
         else (accs, n, r))"

definition sse_delta :: "json \<Rightarrow> sse_acc \<Rightarrow> sse_acc" where
  "sse_delta d = (\<lambda>(accs, n, r).
     case jget ''delta'' d of
       None \<Rightarrow> (accs, n, r)
     | Some delta \<Rightarrow>
         if jget_str ''type'' delta = Some ''thinking_delta'' then
           (case (jget_u64 ''index'' d, jget_str ''thinking'' delta) of
              (Some i, Some t) \<Rightarrow>
                (case map_of accs i of
                   None \<Rightarrow> (accs, n, r)
                 | Some acc \<Rightarrow> (AList.update i (acc @ t) accs, n, r))
            | _ \<Rightarrow> (accs, n, r))
         else (accs, n, r))"

definition sse_stop :: "hasher \<Rightarrow> (nat \<Rightarrow> nat) \<Rightarrow> u64 \<Rightarrow> json \<Rightarrow> sse_acc \<Rightarrow> sse_acc" where
  "sse_stop h clk sid d = (\<lambda>(accs, n, r).
     case jget_u64 ''index'' d of
       None \<Rightarrow> (accs, n, r)
     | Some i \<Rightarrow>
         (case map_of accs i of
            None \<Rightarrow> (accs, n, r)
          | Some acc \<Rightarrow>
              if acc = [] then (AList.delete i accs, n, r)
              else (AList.delete i accs, Suc n, register_block h (clk n) acc sid r)))"

definition sse_step :: "hasher \<Rightarrow> (nat \<Rightarrow> nat) \<Rightarrow> u64 \<Rightarrow> sse_event \<Rightarrow> sse_acc \<Rightarrow> sse_acc" where
  "sse_step h clk sid e a =
     (if event_type e = ''content_block_start'' then sse_start h clk sid (event_data e) a
      else if event_type e = ''content_block_delta'' then sse_delta (event_data e) a
      else if event_type e = ''content_block_stop'' then sse_stop h clk sid (event_data e) a
      else a)"

definition register_from_sse_stream ::
  "hasher \<Rightarrow> (nat \<Rightarrow> nat) \<Rightarrow> sse_event list \<Rightarrow> u64 \<Rightarrow> registry \<Rightarrow> registry" where
  "register_from_sse_stream h clk events sid r =
     (case fold (sse_step h clk sid) events ([], 0, r) of
        (accs, n, r') \<Rightarrow> register_list h clk n (filter (\<lambda>c. c \<noteq> []) (map snd accs)) sid r')"

section \<open>Processing a request\<close>

definition messages_of :: "json \<Rightarrow> json list" where
  "messages_of body = (case jget_arr ''messages'' body of None \<Rightarrow> [] | Some ms \<Rightarrow> ms)"

definition content_of :: "json \<Rightarrow> json list" where
  "content_of message = (case jget_arr ''content'' message of None \<Rightarrow> [] | Some c \<Rightarrow> c)"

definition extract_request_hashes :: "hasher \<Rightarrow> json \<Rightarrow> u64 list" where
  "extract_request_hashes h body =
     remdups (map (fast_hash h)
       (List.map_filter extract_thinking_content (concat (map content_of (messages_of body)))))"

definition confirm_blocks :: "u64 list \<Rightarrow> registry \<Rightarrow> registry" where
  "confirm_blocks hashes r =
     r\<lparr>blocks := map (\<lambda>(k, info).
         (k, if k \<in> set hashes \<and> session info = current_session r
             then info\<lparr>confirmed := True\<rparr> else info)) (blocks r)\<rparr>"

definition keep_block :: "registry \<Rightarrow> u64 list \<Rightarrow> nat \<Rightarrow> u64 \<Rightarrow> block_info \<Rightarrow> bool" where
  "keep_block r hashes now hash info =
     (if session info \<noteq> current_session r then False
      else if confirmed info \<and> hash \<notin> set hashes then False
      else if \<not> confirmed info \<and> hash \<notin> set hashes \<and> orphan_threshold r < now - registered_at info
      then False
      else True)"

definition cleanup_old_sessions :: "registry \<Rightarrow> registry" where
  "cleanup_old_sessions r =
     r\<lparr>blocks := filter (\<lambda>(hash, info). session info = current_session r) (blocks r)\<rparr>"

definition cleanup_cache :: "u64 list \<Rightarrow> nat \<Rightarrow> registry \<Rightarrow> registry" where
  "cleanup_cache hashes now r =
     (if hashes = [] then cleanup_old_sessions r
      else r\<lparr>blocks := filter (\<lambda>(hash, info). keep_block r hashes now hash info) (blocks r)\<rparr>)"

definition has_history :: "json \<Rightarrow> bool" where
  "has_history body = (\<exists>m \<in> set (messages_of body). jget_str ''role'' m = Some ''assistant'')"

definition is_thinking_item :: "json \<Rightarrow> bool" where
  "is_thinking_item item \<longleftrightarrow>
     jget_str ''type'' item \<in> {Some ''thinking'', Some ''redacted_thinking''}"

definition keep_item :: "hasher \<Rightarrow> registry \<Rightarrow> json \<Rightarrow> bool" where
  "keep_item h r item =
     (if \<not> is_thinking_item item then True
      else (case extract_thinking_content item of
              None \<Rightarrow> False
            | Some thinking \<Rightarrow> map_of (blocks r) (fast_hash h thinking) \<noteq> None))"

fun retain_items :: "(json \<Rightarrow> bool) \<Rightarrow> json \<Rightarrow> json" where
  "retain_items P (JArr items) = JArr (filter P items)"
| "retain_items P j = j"

fun map_array :: "(json \<Rightarrow> json) \<Rightarrow> json \<Rightarrow> json" where
  "map_array f (JArr xs) = JArr (map f xs)"
| "map_array f j = j"

definition removed_in :: "(json \<Rightarrow> bool) \<Rightarrow> json \<Rightarrow> u32" where
  "removed_in P message =
     of_nat (length (content_of message) - length (filter P (content_of message)))"

text \<open>The new body and the number of items removed (a \<open>u32\<close> sum of \<open>as u32\<close> casts).\<close>

definition filter_request_body :: "hasher \<Rightarrow> registry \<Rightarrow> json \<Rightarrow> json \<times> u32" where
  "filter_request_body h r body =
     (jadjust ''messages'' (map_array (jadjust ''content'' (retain_items (keep_item h r)))) body,
      sum_list (map (removed_in (keep_item h r)) (messages_of body)))"

definition filter_request :: "hasher \<Rightarrow> nat \<Rightarrow> json \<Rightarrow> registry \<Rightarrow> json \<times> u32 \<times> registry" where
  "filter_request h now body r =
     (let hashes = extract_request_hashes h body;
          r1 = confirm_blocks hashes r;
          r2 = (if has_history body then cleanup_cache hashes now r1 else cleanup_old_sessions r1);
          (body', removed) = filter_request_body h r2 body
      in (body', removed, r2))"

record cache_stats =
  st_total :: nat
  st_confirmed :: nat
  st_unconfirmed :: nat
  st_current :: nat
  st_old :: nat

definition cache_stats_of :: "registry \<Rightarrow> cache_stats" where
  "cache_stats_of r =
     (let infos = map snd (blocks r) in
      \<lparr>st_total = length (blocks r),
       st_confirmed = length (filter confirmed infos),
       st_unconfirmed = length (filter (\<lambda>i. \<not> confirmed i) infos),
       st_current = length (filter (\<lambda>i. session i = current_session r) infos),
       st_old = length (filter (\<lambda>i. session i \<noteq> current_session r) infos)\<rparr>)"

section \<open>The shared wrapper and the per-request handle\<close>

text \<open>\<open>TransformerRegistry::begin_request\<close> switches and reads the session under one lock; a
  \<open>ThinkingSession\<close> is the captured session id.  Its \<open>filter\<close> uses the registry's current session,
  its registrations the captured one.\<close>

definition begin_request :: "string \<Rightarrow> registry \<Rightarrow> u64 \<times> registry" where
  "begin_request backend r = (let r' = on_backend_switch backend r in (current_session r', r'))"

definition notify_backend_switch :: "string \<Rightarrow> registry \<Rightarrow> registry" where
  "notify_backend_switch = on_backend_switch"

definition session_filter :: "hasher \<Rightarrow> nat \<Rightarrow> u64 \<Rightarrow> json \<Rightarrow> registry \<Rightarrow> json \<times> u32 \<times> registry" where
  "session_filter h now sid body r = filter_request h now body r"

definition session_register_sse ::
  "hasher \<Rightarrow> (nat \<Rightarrow> nat) \<Rightarrow> u64 \<Rightarrow> sse_event list \<Rightarrow> registry \<Rightarrow> registry" where
  "session_register_sse h clk sid events r = register_from_sse_stream h clk events sid r"

definition session_register_response ::
  "hasher \<Rightarrow> (string \<Rightarrow> json option) \<Rightarrow> (nat \<Rightarrow> nat) \<Rightarrow> u64 \<Rightarrow> string \<Rightarrow> registry \<Rightarrow> registry" where
  "session_register_response h jparse clk sid body r =
     (if body = [] then r
      else if jparse body = None then r
      else register_from_response h jparse clk body sid r)"

end
