(* ===== verification/ThinkingProps.thy ===== *)
theory ThinkingProps
  imports ThinkingRegistry
begin

text \<open>
  What the thinking registry guarantees: slices at character boundaries, the exact set of blocks a
  request may carry, the cache rules, and the agreement of the streaming and the non-streaming
  registration.
\<close>

section \<open>Slicing\<close>

lemma bound_down_le: "bound_down s e \<le> e"
  by (induction e) auto

lemma bound_down_boundary: "str_boundary s (bound_down s e)"
  by (induction e) auto

lemma bound_down_max: "j \<le> e \<Longrightarrow> str_boundary s j \<Longrightarrow> j \<le> bound_down s e"
  by (induction e) (auto simp: le_Suc_eq)

lemma bound_up_props:
  "b \<le> length s \<Longrightarrow> str_boundary s (bound_up s b) \<and> b \<le> bound_up s b \<and> bound_up s b \<le> length s
     \<and> (\<forall>j. b \<le> j \<and> str_boundary s j \<and> j \<le> length s \<longrightarrow> bound_up s b \<le> j)"
proof (induction s b rule: bound_up.induct)
  case (1 s b)
  show ?case
  proof (cases "b < length s \<and> \<not> str_boundary s b")
    case True
    moreover have "b + 1 \<le> j" if "b \<le> j" "str_boundary s j" for j
      using True that by (cases "b = j") auto
    ultimately show ?thesis
      using 1 by (subst (1 2 3 4) bound_up.simps) auto
  next
    case False
    then show ?thesis using 1 by (subst (1 2 3 4) bound_up.simps) (auto simp: nat_less_le)
  qed
qed

text \<open>\<open>safe_truncate\<close> cuts text at a character boundary: the result is a prefix, fits the limit, is
  valid UTF-8, and wastes at most three bytes.\<close>

theorem safe_truncate_spec:
  assumes "str_valid s"
  shows "\<exists>r. s = safe_truncate s m @ r \<and> length (safe_truncate s m) \<le> m
           \<and> str_valid (safe_truncate s m) \<and> (r \<noteq> [] \<longrightarrow> m \<le> length (safe_truncate s m) + 3)"
proof (cases "length s \<le> m")
  case True
  then show ?thesis using assms by (simp add: safe_truncate_def)
next
  case False
  let ?e = "bound_down s m"
  obtain j where j: "j \<le> m" "m \<le> j + 3" "str_boundary s j"
    using str_boundary_below[OF assms, of m] False by auto
  have e: "?e \<le> m" "m \<le> ?e + 3" "?e \<le> length s"
    using bound_down_le[of s m] bound_down_max[OF j(1,3)] j(2) False by auto
  have "str_valid (take ?e s)" using str_valid_cut[OF assms bound_down_boundary e(3)] by simp
  then show ?thesis using e False
    by (intro exI[of _ "drop ?e s"]) (simp add: safe_truncate_def min_def)
qed

theorem safe_truncate_spec_witness:
  "length (safe_truncate [CHR ''a'', char_of (0xC3::nat), char_of (0xA9::nat)] 2) \<le> 2"
proof -
  have "str_valid [CHR ''a'', char_of (0xC3::nat), char_of (0xA9::nat)]" by code_simp
  from safe_truncate_spec[OF this, of 2] show ?thesis by blast
qed

text \<open>\<open>safe_suffix\<close> is the mirror image: a suffix within the limit, valid UTF-8, at most three bytes
  short of it.\<close>

theorem safe_suffix_spec:
  assumes "str_valid s"
  shows "\<exists>r. s = r @ safe_suffix s m \<and> length (safe_suffix s m) \<le> m
           \<and> str_valid (safe_suffix s m) \<and> (r \<noteq> [] \<longrightarrow> m \<le> length (safe_suffix s m) + 3)"
proof (cases "length s \<le> m")
  case True
  then show ?thesis using assms by (simp add: safe_suffix_def)
next
  case False
  let ?k = "length s - m"
  let ?b = "bound_up s ?k"
  obtain j where j: "?k \<le> j" "j \<le> ?k + 3" "j \<le> length s" "str_boundary s j"
    using str_boundary_above[OF assms, of ?k] by auto
  have b: "str_boundary s ?b" "?k \<le> ?b" "?b \<le> length s" "?b \<le> j"
    using bound_up_props[of ?k s] j by auto
  have "str_valid (drop ?b s)" using str_valid_cut[OF assms b(1,3)] by simp
  then show ?thesis using b j False
    by (intro exI[of _ "take ?b s"]) (simp add: safe_suffix_def, linarith)
qed

theorem safe_suffix_spec_witness:
  "length (safe_suffix [char_of (0xC3::nat), char_of (0xA9::nat), CHR ''a''] 2) \<le> 2"
proof -
  have "str_valid [char_of (0xC3::nat), char_of (0xA9::nat), CHR ''a'']" by code_simp
  from safe_suffix_spec[OF this, of 2] show ?thesis by blast
qed

section \<open>The registry invariant\<close>

definition registry_ok :: "registry \<Rightarrow> bool" where
  "registry_ok r \<longleftrightarrow> hm_ok (blocks r)"

lemma registry_ok_new [simp]: "registry_ok new_registry"
  by (simp add: registry_ok_def new_registry_def with_orphan_threshold_def)

lemma new_registry_current [simp]: "current_session new_registry = 0"
  by (simp add: new_registry_def with_orphan_threshold_def)

lemma registry_ok_switch [simp]: "registry_ok (on_backend_switch b r) = registry_ok r"
  by (simp add: registry_ok_def on_backend_switch_def)

lemma registry_ok_block: "registry_ok r \<Longrightarrow> registry_ok (register_block h now c sid r)"
  by (auto simp: registry_ok_def register_block_def Let_def split: option.splits)

lemma registry_ok_list: "registry_ok r \<Longrightarrow> registry_ok (register_list h clk n cs sid r)"
  by (induction cs arbitrary: n r) (auto intro: registry_ok_block)

lemma registry_ok_confirm [simp]: "registry_ok (confirm_blocks hs r) = registry_ok r"
  by (simp add: registry_ok_def confirm_blocks_def hm_ok_map_val)

lemma registry_ok_old: "registry_ok r \<Longrightarrow> registry_ok (cleanup_old_sessions r)"
  by (auto simp: registry_ok_def cleanup_old_sessions_def)

lemma registry_ok_cleanup: "registry_ok r \<Longrightarrow> registry_ok (cleanup_cache hs now r)"
  using registry_ok_old by (auto simp: registry_ok_def cleanup_cache_def)

text \<open>The registry a request leaves behind.\<close>

definition cleaned :: "hasher \<Rightarrow> nat \<Rightarrow> json \<Rightarrow> registry \<Rightarrow> registry" where
  "cleaned h now body r =
     (let hashes = extract_request_hashes h body; r1 = confirm_blocks hashes r
      in if has_history body then cleanup_cache hashes now r1 else cleanup_old_sessions r1)"

lemma filter_request_eq:
  "filter_request h now body r =
     (fst (filter_request_body h (cleaned h now body r) body),
      snd (filter_request_body h (cleaned h now body r) body), cleaned h now body r)"
  by (simp add: filter_request_def cleaned_def Let_def split_beta)

lemma registry_ok_cleaned: "registry_ok r \<Longrightarrow> registry_ok (cleaned h now body r)"
  by (simp add: cleaned_def Let_def registry_ok_cleanup registry_ok_old)

lemma cleaned_session [simp]: "current_session (cleaned h now body r) = current_session r"
  by (simp add: cleaned_def Let_def cleanup_cache_def cleanup_old_sessions_def confirm_blocks_def)

lemma cleaned_backend [simp]: "current_backend (cleaned h now body r) = current_backend r"
  by (simp add: cleaned_def Let_def cleanup_cache_def cleanup_old_sessions_def confirm_blocks_def)

text \<open>The rules of the header comment of the source, as one predicate on a cached block.\<close>

definition survives :: "hasher \<Rightarrow> nat \<Rightarrow> json \<Rightarrow> registry \<Rightarrow> u64 \<Rightarrow> block_info \<Rightarrow> bool" where
  "survives h now body r k i \<longleftrightarrow>
     session i = current_session r \<and>
     (k \<in> set (extract_request_hashes h body)
      \<or> \<not> has_history body \<or> extract_request_hashes h body = []
      \<or> \<not> confirmed i \<and> now - registered_at i \<le> orphan_threshold r)"

definition confirm_if :: "bool \<Rightarrow> block_info \<Rightarrow> block_info" where
  "confirm_if b i = (if b then i\<lparr>confirmed := True\<rparr> else i)"

lemma confirm_if_simps [simp]:
  "session (confirm_if b i) = session i" "registered_at (confirm_if b i) = registered_at i"
  "confirmed (confirm_if b i) = (b \<or> confirmed i)"
  by (simp_all add: confirm_if_def)

lemma blocks_confirm:
  "map_of (blocks (confirm_blocks hs r)) k =
     map_option (\<lambda>i. confirm_if (k \<in> set hs \<and> session i = current_session r) i) (map_of (blocks r) k)"
proof -
  have "blocks (confirm_blocks hs r)
      = map (\<lambda>(k, i). (k, confirm_if (k \<in> set hs \<and> session i = current_session r) i)) (blocks r)"
    by (simp add: confirm_blocks_def confirm_if_def)
  then show ?thesis by (simp add: hm_map_val)
qed

lemma blocks_old:
  "registry_ok r \<Longrightarrow> map_of (blocks (cleanup_old_sessions r)) k =
     (case map_of (blocks r) k of None \<Rightarrow> None
      | Some i \<Rightarrow> if session i = current_session r then Some i else None)"
  by (simp add: cleanup_old_sessions_def registry_ok_def hm_filter)

lemma blocks_cleanup:
  "registry_ok r \<Longrightarrow> hs \<noteq> [] \<Longrightarrow> map_of (blocks (cleanup_cache hs now r)) k =
     (case map_of (blocks r) k of None \<Rightarrow> None
      | Some i \<Rightarrow> if keep_block r hs now k i then Some i else None)"
  by (simp add: cleanup_cache_def registry_ok_def hm_filter)

lemma cleaned_blocks:
  assumes "registry_ok r"
  shows "map_of (blocks (cleaned h now body r)) k =
     (case map_of (blocks r) k of None \<Rightarrow> None
      | Some i \<Rightarrow> if survives h now body r k i
                  then Some (confirm_if (k \<in> set (extract_request_hashes h body)) i) else None)"
proof -
  let ?hs = "extract_request_hashes h body"
  let ?r1 = "confirm_blocks ?hs r"
  have ok: "registry_ok ?r1" using assms by simp
  have [simp]: "current_session ?r1 = current_session r" "orphan_threshold ?r1 = orphan_threshold r"
    by (simp_all add: confirm_blocks_def)
  show ?thesis
  proof (cases "has_history body \<and> ?hs \<noteq> []")
    case True
    then show ?thesis
      using blocks_cleanup[OF ok, of ?hs now k]
      by (auto simp: cleaned_def Let_def blocks_confirm keep_block_def survives_def confirm_if_def
          split: option.splits)
  next
    case False
    then have "cleaned h now body r = cleanup_old_sessions ?r1"
      by (auto simp: cleaned_def Let_def cleanup_cache_def)
    then show ?thesis using False blocks_old[OF ok, of k]
      by (auto simp: blocks_confirm survives_def confirm_if_def split: option.splits)
  qed
qed

section \<open>What a request may carry\<close>

text \<open>A thinking block is admissible when its hash is registered under the current session; every
  other item is.\<close>

definition admissible :: "hasher \<Rightarrow> registry \<Rightarrow> json \<Rightarrow> bool" where
  "admissible h r item \<longleftrightarrow>
     \<not> is_thinking_item item \<or>
     (\<exists>c i. extract_thinking_content item = Some c \<and> map_of (blocks r) (fast_hash h c) = Some i
            \<and> session i = current_session r)"

definition items_of :: "json \<Rightarrow> json list" where
  "items_of body = concat (map content_of (messages_of body))"

definition with_items :: "(json \<Rightarrow> bool) \<Rightarrow> json \<Rightarrow> json" where
  "with_items P body = jadjust ''messages'' (map_array (jadjust ''content'' (retain_items P))) body"

lemma retain_items_cong:
  "(\<And>x. x \<in> set (case as_array v of None \<Rightarrow> [] | Some c \<Rightarrow> c) \<Longrightarrow> P x = Q x) \<Longrightarrow>
   retain_items P v = retain_items Q v"
  by (cases v) (auto intro: filter_cong)

lemma content_of_get:
  "jget ''content'' m = Some v \<Longrightarrow> content_of m = (case as_array v of None \<Rightarrow> [] | Some c \<Rightarrow> c)"
  by (simp add: content_of_def jget_arr_def)

lemma messages_of_get:
  "jget ''messages'' m = Some v \<Longrightarrow> messages_of m = (case as_array v of None \<Rightarrow> [] | Some c \<Rightarrow> c)"
  by (simp add: messages_of_def jget_arr_def)

lemma with_items_cong:
  assumes "\<And>x. x \<in> set (items_of body) \<Longrightarrow> P x = Q x"
  shows "with_items P body = with_items Q body"
  unfolding with_items_def
proof (rule jadjust_cong)
  fix v assume v: "jget ''messages'' body = Some v"
  show "map_array (jadjust ''content'' (retain_items P)) v = map_array (jadjust ''content'' (retain_items Q)) v"
  proof (cases v)
    case (JArr ms)
    have "jadjust ''content'' (retain_items P) m = jadjust ''content'' (retain_items Q) m" if "m \<in> set ms" for m
    proof (rule jadjust_cong, rule retain_items_cong)
      fix w x
      assume "jget ''content'' m = Some w" "x \<in> set (case as_array w of None \<Rightarrow> [] | Some c \<Rightarrow> c)"
      then have "x \<in> set (content_of m)" by (simp add: content_of_get)
      then have "x \<in> set (items_of body)" using that v JArr by (auto simp: items_of_def messages_of_get)
      then show "P x = Q x" by (rule assms)
    qed
    then show ?thesis using JArr by simp
  qed auto
qed

lemma thinking_item_hash:
  assumes "x \<in> set (items_of body)" "extract_thinking_content x = Some c"
  shows "fast_hash h c \<in> set (extract_request_hashes h body)"
  using assms by (force simp: extract_request_hashes_def items_of_def map_filter_def)

lemma keep_item_admissible:
  assumes "registry_ok r" "x \<in> set (items_of body)"
  shows "keep_item h (cleaned h now body r) x = admissible h r x"
  using thinking_item_hash[OF assms(2), of _ h]
  by (auto simp: keep_item_def admissible_def cleaned_blocks[OF assms(1)] survives_def split: option.splits)

lemma removed_cong:
  assumes "\<And>x. x \<in> set (items_of body) \<Longrightarrow> P x = Q x"
  shows "map (removed_in P) (messages_of body) = map (removed_in Q) (messages_of body)"
proof (rule map_cong[OF refl])
  fix m assume "m \<in> set (messages_of body)"
  then have "filter P (content_of m) = filter Q (content_of m)"
    using assms by (intro filter_cong) (auto simp: items_of_def)
  then show "removed_in P m = removed_in Q m" by (simp only: removed_in_def)
qed

lemma removed_total:
  "sum_list (map (removed_in P) (messages_of body)) = of_nat (length (filter (\<lambda>x. \<not> P x) (items_of body)))"
proof -
  have "length (content_of m) - length (filter P (content_of m))
      = length (filter (\<lambda>x. \<not> P x) (content_of m))" for m
    using sum_length_filter_compl[of P "content_of m"] by simp
  then have r: "removed_in P = (\<lambda>m. of_nat (length (filter (\<lambda>x. \<not> P x) (content_of m))))"
    unfolding removed_in_def by presburger
  have "sum_list (map (removed_in P) ms)
      = of_nat (length (filter (\<lambda>x. \<not> P x) (concat (map content_of ms))))" for ms
    unfolding r by (induction ms) simp_all
  then show ?thesis by (simp add: items_of_def)
qed

lemma filter_request_items:
  assumes "registry_ok r"
  shows "fst (filter_request h now body r) = with_items (admissible h r) body
       \<and> fst (snd (filter_request h now body r))
         = of_nat (length (filter (\<lambda>x. \<not> admissible h r x) (items_of body)))"
proof -
  let ?P = "keep_item h (cleaned h now body r)"
  have c: "?P x = admissible h r x" if "x \<in> set (items_of body)" for x
    by (rule keep_item_admissible[OF assms that])
  have f: "filter (\<lambda>x. \<not> ?P x) (items_of body) = filter (\<lambda>x. \<not> admissible h r x) (items_of body)"
    using c by (intro filter_cong) auto
  show ?thesis
    using with_items_cong[of body ?P "admissible h r", OF c] removed_total[of ?P body] f
    by (simp add: filter_request_eq filter_request_body_def with_items_def)
qed

text \<open>C8: a request keeps exactly the items it may carry, in their order: \<open>filter_request\<close> drops from each
  message the thinking blocks whose hash is not registered under the current session (and those with
  no readable content), touches nothing else of the body, and returns the number dropped.\<close>

theorem filter_request_exact:
  assumes "registry_ok r"
  shows "fst (filter_request h now body r) = with_items (admissible h r) body
       \<and> fst (snd (filter_request h now body r))
         = of_nat (length (filter (\<lambda>x. \<not> admissible h r x) (items_of body)))"
  by (rule filter_request_items[OF assms])

text \<open>A small world for the witnesses: a hash on the length, one request with one thinking block.\<close>

definition len_hash :: hasher where
  "len_hash x = of_nat (snd (snd x))"

definition think_item :: "string \<Rightarrow> json" where
  "think_item t = JObj [(''type'', JStr ''thinking''), (''thinking'', JStr t)]"

definition one_turn :: "json list \<Rightarrow> json" where
  "one_turn items = JObj [(''messages'', JArr [JObj [(''role'', JStr ''assistant''), (''content'', JArr items)]])]"

theorem filter_request_exact_witness:
  "fst (filter_request len_hash 0 (one_turn [think_item ''abc'']) new_registry)
     = with_items (admissible len_hash new_registry) (one_turn [think_item ''abc''])"
  using filter_request_exact[of new_registry len_hash 0 "one_turn [think_item ''abc'']"] by simp

text \<open>The cache rules of the registry, whole: after a request a block is cached exactly when it was
  cached under the current session and is in the request, or the request cannot tell (no history or
  no thinking block), or it is unconfirmed and within its grace period; a block seen in the request
  is confirmed, nothing else about it changes.\<close>

theorem filter_cache_rules:
  assumes "registry_ok r"
  shows "map_of (blocks (snd (snd (filter_request h now body r)))) k =
     (case map_of (blocks r) k of None \<Rightarrow> None
      | Some i \<Rightarrow> if survives h now body r k i
                  then Some (confirm_if (k \<in> set (extract_request_hashes h body)) i) else None)"
  using cleaned_blocks[OF assms] by (simp add: filter_request_eq)

theorem filter_cache_rules_witness:
  "map_of (blocks (snd (snd (filter_request len_hash 400 (one_turn [think_item ''abc''])
     (register_block len_hash 0 ''abcd'' 0 new_registry))))) 4 = None"
proof -
  let ?r = "register_block len_hash 0 ''abcd'' 0 new_registry"
  have "registry_ok ?r" by (rule registry_ok_block) simp
  note filter_cache_rules[OF this, of len_hash 400 "one_turn [think_item ''abc'']" 4]
  moreover have "map_of (blocks ?r) 4 = Some \<lparr>session = 0, confirmed = False, registered_at = 0\<rparr>"
    "\<not> survives len_hash 400 (one_turn [think_item ''abc'']) ?r 4
        \<lparr>session = 0, confirmed = False, registered_at = 0\<rparr>"
    by code_simp+
  ultimately show ?thesis by simp
qed

lemma cleaned_all_current:
  "registry_ok r \<Longrightarrow> (k, i) \<in> set (blocks (cleaned h now body r)) \<Longrightarrow> session i = current_session r"
  using registry_ok_cleaned[of r h now body] cleaned_blocks[of r h now body k]
  by (auto simp: registry_ok_def hm_in_set survives_def confirm_if_def split: option.splits if_splits)

lemma with_items_all: "(\<And>x. x \<in> set (items_of body) \<Longrightarrow> P x) \<Longrightarrow> with_items P body = body"
proof -
  assume all: "\<And>x. x \<in> set (items_of body) \<Longrightarrow> P x"
  have "with_items P body = with_items (\<lambda>_. True) body" by (rule with_items_cong) (simp add: all)
  also have "with_items (\<lambda>_. True) body = body"
  proof -
    have r: "retain_items (\<lambda>_. True) v = v" for v by (cases v) auto
    have m: "map_array (jadjust ''content'' (retain_items (\<lambda>_. True))) v = v" for v
      by (cases v) (simp_all add: jadjust_id[OF r] map_idI)
    show ?thesis unfolding with_items_def by (rule jadjust_id) (rule m)
  qed
  finally show ?thesis .
qed

lemma content_of_retain:
  "content_of (jadjust ''content'' (retain_items P) m) = filter P (content_of m)"
proof (cases "jget ''content'' m")
  case (Some v)
  then show ?thesis by (cases v) (simp_all add: content_of_def jget_arr_def jget_jadjust)
qed (simp add: content_of_def jget_arr_def jget_jadjust)

lemma messages_of_with_items:
  "messages_of (with_items P body) = map (jadjust ''content'' (retain_items P)) (messages_of body)"
proof (cases "jget ''messages'' body")
  case (Some v)
  then show ?thesis by (cases v) (simp_all add: messages_of_def jget_arr_def with_items_def jget_jadjust)
qed (simp add: messages_of_def jget_arr_def with_items_def jget_jadjust)

lemma items_of_with_items: "items_of (with_items P body) = filter P (items_of body)"
  by (simp add: items_of_def messages_of_with_items comp_def content_of_retain filter_concat)

text \<open>A backend switch invalidates all earlier thinking: the first request after it loses every
  thinking block and leaves an empty cache, whatever was registered before.  The session number must
  be fresh, which holds for fewer than \<open>2^64\<close> switches.\<close>

theorem switch_invalidates:
  assumes "registry_ok r" "current_backend r \<noteq> b"
    and "\<forall>(k, i) \<in> set (blocks r). session i \<noteq> current_session r + 1"
  shows "fst (filter_request h now body (on_backend_switch b r))
           = with_items (\<lambda>x. \<not> is_thinking_item x) body
       \<and> blocks (snd (snd (filter_request h now body (on_backend_switch b r)))) = []"
proof -
  let ?r = "on_backend_switch b r"
  have ok: "registry_ok ?r" using assms(1) by simp
  have b: "blocks ?r = blocks r" "current_session ?r = current_session r + 1"
    using assms(2) by (simp_all add: on_backend_switch_def)
  have "admissible h ?r = (\<lambda>x. \<not> is_thinking_item x)"
    using assms(3) by (fastforce simp: admissible_def b dest: map_of_SomeD)
  moreover have "blocks (cleaned h now body ?r) = []"
  proof -
    have "map_of (blocks (cleaned h now body ?r)) k = None" for k
      using cleaned_blocks[OF ok, of h now body k] assms(3)
      by (auto simp: b survives_def split: option.splits dest!: map_of_SomeD)
    then show ?thesis by (metis list.exhaust list.set_intros(1) map_of_eq_None_iff image_eqI empty_iff)
  qed
  ultimately show ?thesis
    using filter_request_items[OF ok, of h now body] by (simp add: filter_request_eq)
qed

theorem switch_invalidates_witness:
  "fst (filter_request len_hash 1 (one_turn [think_item ''abc''])
     (on_backend_switch ''b'' (register_block len_hash 0 ''abc'' 0 new_registry)))
   = with_items (\<lambda>x. \<not> is_thinking_item x) (one_turn [think_item ''abc''])"
proof -
  let ?r = "register_block len_hash 0 ''abc'' 0 new_registry"
  have "registry_ok ?r" by (rule registry_ok_block) simp
  moreover have "current_backend ?r \<noteq> ''b''" "\<forall>(k, i) \<in> set (blocks ?r). session i \<noteq> current_session ?r + 1"
    by code_simp+
  ultimately show ?thesis using switch_invalidates[of ?r "''b''" len_hash 1] by simp
qed

section \<open>Registration\<close>

definition registered :: "registry \<Rightarrow> u64 \<Rightarrow> u64 \<Rightarrow> bool" where
  "registered r sid k \<longleftrightarrow> (\<exists>i. map_of (blocks r) k = Some i \<and> session i = sid)"

lemma register_block_registers: "registered (register_block h now c sid r) sid (fast_hash h c)"
  by (auto simp: registered_def register_block_def Let_def split: option.splits)

lemma register_block_keeps:
  "registered r sid k \<Longrightarrow> registered (register_block h now c sid r) sid k"
  by (auto simp: registered_def register_block_def Let_def split: option.splits)

lemma register_block_current [simp]:
  "current_session (register_block h now c sid r) = current_session r"
  "current_backend (register_block h now c sid r) = current_backend r"
  by (auto simp: register_block_def Let_def split: option.splits)

lemma register_list_keeps: "registered r sid k \<Longrightarrow> registered (register_list h clk n cs sid r) sid k"
  by (induction cs arbitrary: n r) (auto intro: register_block_keeps)

lemma register_list_registers:
  "c \<in> set cs \<Longrightarrow> registered (register_list h clk n cs sid r) sid (fast_hash h c)"
proof (induction cs arbitrary: n r)
  case (Cons a cs)
  then show ?case using register_list_keeps[OF register_block_registers] by auto
qed simp

lemma register_list_current [simp]:
  "current_session (register_list h clk n cs sid r) = current_session r"
  "current_backend (register_list h clk n cs sid r) = current_backend r"
  by (induction cs arbitrary: n r) auto

lemma response_registers:
  assumes "jparse body = Some j" "jget_arr ''content'' j = Some items"
    and "x \<in> set items" "extract_thinking_content x = Some c"
  shows "registered (register_from_response h jparse clk body sid r) sid (fast_hash h c)"
  using assms by (force simp: register_from_response_def map_filter_def intro!: register_list_registers)

lemma registered_admissible:
  "registered r (current_session r) (fast_hash h c) \<Longrightarrow> extract_thinking_content x = Some c \<Longrightarrow> admissible h r x"
  by (auto simp: registered_def admissible_def)

lemma all_admissible_unchanged:
  assumes "registry_ok r" "\<And>x. x \<in> set (items_of body) \<Longrightarrow> admissible h r x"
  shows "fst (filter_request h now body r) = body \<and> fst (snd (filter_request h now body r)) = 0"
proof -
  have "filter (\<lambda>x. \<not> admissible h r x) (items_of body) = []" using assms(2) by (simp add: filter_empty_conv)
  then show ?thesis
    using filter_request_body_def[of h "cleaned h now body r" body] with_items_all[of body "admissible h r"]
      with_items_cong[of body "keep_item h (cleaned h now body r)" "admissible h r", OF keep_item_admissible[OF assms(1)]]
      removed_total[of "keep_item h (cleaned h now body r)" body]
      keep_item_admissible[OF assms(1), of _ body h now] assms(2)
    by (simp add: filter_request_eq with_items_def filter_empty_conv)
qed

lemma registry_ok_response: "registry_ok r \<Longrightarrow> registry_ok (register_from_response h jparse clk body sid r)"
  by (auto simp: register_from_response_def intro: registry_ok_list split: option.splits)

text \<open>Thinking survives a conversation on one backend: when every thinking block of a request occurs
  in the last response, and the response was registered under the current session, the request goes
  out unchanged.\<close>

theorem same_session_untouched:
  assumes "registry_ok r" "jparse resp = Some j" "jget_arr ''content'' j = Some items"
    and "\<forall>x \<in> set (items_of body). is_thinking_item x \<longrightarrow> x \<in> set items \<and> extract_thinking_content x \<noteq> None"
    and "sid = current_session r"
  shows "fst (filter_request h now body (register_from_response h jparse clk resp sid r)) = body
       \<and> fst (snd (filter_request h now body (register_from_response h jparse clk resp sid r))) = 0"
proof (rule all_admissible_unchanged)
  let ?r = "register_from_response h jparse clk resp sid r"
  show "registry_ok ?r" by (rule registry_ok_response[OF assms(1)])
  have cur: "current_session ?r = sid"
    using assms(5) by (simp add: register_from_response_def split: option.splits)
  fix x assume x: "x \<in> set (items_of body)"
  show "admissible h ?r x"
  proof (cases "is_thinking_item x")
    case True
    then obtain c where c: "x \<in> set items" "extract_thinking_content x = Some c" using assms(4) x by auto
    have "registered ?r sid (fast_hash h c)" using response_registers assms(2,3) c by blast
    then show ?thesis using registered_admissible[of ?r h c x] c cur by simp
  qed (simp add: admissible_def)
qed

theorem same_session_untouched_witness:
  "fst (filter_request len_hash 9 (one_turn [think_item ''abc''])
     (register_from_response len_hash (\<lambda>_. Some (JObj [(''content'', JArr [think_item ''abc''])]))
        (\<lambda>_. 3) ''x'' 0 new_registry)) = one_turn [think_item ''abc'']"
proof -
  have "\<forall>x \<in> set (items_of (one_turn [think_item ''abc''])). is_thinking_item x \<longrightarrow>
      x \<in> set [think_item ''abc''] \<and> extract_thinking_content x \<noteq> None" by code_simp
  then show ?thesis
    using same_session_untouched[of new_registry "\<lambda>_. Some (JObj [(''content'', JArr [think_item ''abc''])])"
        "''x''" "JObj [(''content'', JArr [think_item ''abc''])]" "[think_item ''abc'']"
        "one_turn [think_item ''abc'']" 0 len_hash 9 "\<lambda>_. 3"]
    by (simp add: jget_arr_def)
qed

text \<open>Filtering is idempotent: a filtered body passes a second filter unchanged.\<close>

theorem filter_request_idempotent:
  assumes "registry_ok r" "filter_request h now body r = (body1, n, r1)"
  shows "fst (filter_request h now' body1 r1) = body1 \<and> fst (snd (filter_request h now' body1 r1)) = 0"
proof -
  have r1: "r1 = cleaned h now body r" and b1: "body1 = with_items (admissible h r) body"
    using filter_request_items[OF assms(1), of h now body] assms(2) by (auto simp: filter_request_eq)
  have "admissible h r1 x" if "x \<in> set (items_of body1)" for x
  proof -
    have x: "x \<in> set (items_of body)" "admissible h r x" using that b1 by (auto simp: items_of_with_items)
    then have "keep_item h r1 x" using keep_item_admissible[OF assms(1) x(1)] r1 by simp
    then show ?thesis
      using cleaned_all_current[OF assms(1), of _ _ h now body] r1
      by (fastforce simp: keep_item_def admissible_def split: if_splits option.splits dest: map_of_SomeD)
  qed
  then show ?thesis
    using all_admissible_unchanged[of r1 body1 h now'] registry_ok_cleaned[OF assms(1)] r1 by blast
qed

theorem filter_request_idempotent_witness:
  "fst (filter_request len_hash 2 (fst (filter_request len_hash 1 (one_turn [think_item ''abc'']) new_registry))
     (snd (snd (filter_request len_hash 1 (one_turn [think_item ''abc'']) new_registry))))
   = fst (filter_request len_hash 1 (one_turn [think_item ''abc'']) new_registry)"
  using filter_request_idempotent[of new_registry len_hash 1 "one_turn [think_item ''abc'']"]
  by (metis registry_ok_new prod.collapse)

section \<open>Streaming\<close>

definition delta_text :: "u64 \<Rightarrow> sse_event \<Rightarrow> string" where
  "delta_text i e =
     (if event_type e = ''content_block_delta'' \<and> nested_str ''delta'' ''type'' (event_data e) = Some ''thinking_delta''
         \<and> jget_u64 ''index'' (event_data e) = Some i
      then (case nested_str ''delta'' ''thinking'' (event_data e) of None \<Rightarrow> [] | Some t \<Rightarrow> t)
      else [])"

definition starts_block :: "u64 \<Rightarrow> sse_event \<Rightarrow> bool" where
  "starts_block i e \<longleftrightarrow> event_type e = ''content_block_start''
     \<and> nested_str ''content_block'' ''type'' (event_data e) = Some ''thinking''
     \<and> jget_u64 ''index'' (event_data e) = Some i"

definition stops_block :: "u64 \<Rightarrow> sse_event \<Rightarrow> bool" where
  "stops_block i e \<longleftrightarrow> event_type e = ''content_block_stop'' \<and> jget_u64 ''index'' (event_data e) = Some i"

definition initial_text :: "sse_event \<Rightarrow> string" where
  "initial_text e =
     (case nested_str ''content_block'' ''thinking'' (event_data e) of None \<Rightarrow> [] | Some t \<Rightarrow> t)"

lemma sse_step_start:
  "starts_block i e \<Longrightarrow>
   sse_step h clk sid e (accs, n, r) = (AList.update i (initial_text e) accs, n, r)"
  by (auto simp: starts_block_def sse_step_def sse_start_def nested_str_def initial_text_def
      split: option.splits bind_splits)

lemma sse_start_mid:
  assumes "map_of accs i = Some a"
    and "\<not> (nested_str ''content_block'' ''type'' d = Some ''thinking'' \<and> jget_u64 ''index'' d = Some i)"
  shows "map_of (fst (sse_start h clk sid d (accs, n, r))) i = Some a"
  using assms by (auto simp: sse_start_def nested_str_def split: option.splits)

lemma sse_delta_mid:
  assumes "map_of accs i = Some a" "event_type e = ''content_block_delta''"
  shows "map_of (fst (sse_delta (event_data e) (accs, n, r))) i = Some (a @ delta_text i e)"
  using assms by (auto simp: sse_delta_def delta_text_def nested_str_def split: option.splits)

lemma sse_stop_mid:
  assumes "map_of accs i = Some a" "jget_u64 ''index'' d \<noteq> Some i"
  shows "map_of (fst (sse_stop h clk sid d (accs, n, r))) i = Some a"
  using assms by (auto simp: sse_stop_def split: option.splits)

lemma delta_text_other: "event_type e \<noteq> ''content_block_delta'' \<Longrightarrow> delta_text i e = []"
  by (simp add: delta_text_def)

lemma sse_step_mid:
  assumes "map_of accs i = Some a" "\<not> starts_block i e" "\<not> stops_block i e"
  shows "map_of (fst (sse_step h clk sid e (accs, n, r))) i = Some (a @ delta_text i e)"
proof -
  consider "event_type e = ''content_block_start''" | "event_type e = ''content_block_delta''"
    | "event_type e = ''content_block_stop''"
    | "event_type e \<notin> {''content_block_start'', ''content_block_delta'', ''content_block_stop''}" by blast
  then show ?thesis
  proof cases
    case 1
    then show ?thesis using sse_start_mid[OF assms(1)] assms(2)
      by (simp add: sse_step_def starts_block_def delta_text_other)
  next
    case 2
    then show ?thesis using sse_delta_mid[OF assms(1)] by (simp add: sse_step_def)
  next
    case 3
    then show ?thesis using sse_stop_mid[OF assms(1)] assms(3)
      by (simp add: sse_step_def stops_block_def delta_text_other)
  next
    case 4
    then show ?thesis using assms(1) by (simp add: sse_step_def delta_text_other)
  qed
qed

lemma sse_step_stop:
  assumes "map_of accs i = Some a" "stops_block i e" "a \<noteq> []"
  shows "sse_step h clk sid e (accs, n, r) = (AList.delete i accs, Suc n, register_block h (clk n) a sid r)"
  using assms by (simp add: sse_step_def stops_block_def sse_stop_def)

lemma sse_step_keeps:
  "registered r sid k \<Longrightarrow> registered (snd (snd (sse_step h clk sid e (accs, n, r)))) sid k"
  by (auto simp: sse_step_def sse_start_def sse_delta_def sse_stop_def register_block_keeps split: option.splits)

lemma sse_fold_keeps:
  "registered (snd (snd a)) sid k \<Longrightarrow> registered (snd (snd (fold (sse_step h clk sid) es a))) sid k"
proof (induction es arbitrary: a)
  case (Cons e es)
  then show ?case using sse_step_keeps[of "snd (snd a)" sid k h clk e "fst a" "fst (snd a)"] by simp
qed simp

lemma sse_fold_mid:
  assumes "map_of (fst st) i = Some a" "\<forall>e \<in> set es. \<not> starts_block i e \<and> \<not> stops_block i e"
  shows "map_of (fst (fold (sse_step h clk sid) es st)) i = Some (a @ concat (map (delta_text i) es))"
  using assms
proof (induction es arbitrary: a st)
  case (Cons e es)
  obtain accs n r where st: "st = (accs, n, r)" by (cases st)
  then show ?case using Cons.IH[of "sse_step h clk sid e st" "a @ delta_text i e"] Cons.prems
      sse_step_mid[of accs i a e h clk sid n r] by simp
qed simp

text \<open>A thinking block that arrives in pieces is registered as the text the client will send back: the
  initial text of its start event followed by its deltas, however the events of other blocks are
  interleaved, and also when the stream ends before the block's stop event.\<close>

theorem streamed_block_registered:
  assumes "starts_block i st" "\<forall>e \<in> set mid. \<not> starts_block i e \<and> \<not> stops_block i e"
    and "text = initial_text st @ concat (map (delta_text i) mid)" "text \<noteq> []"
    and "rest = [] \<or> (\<exists>e post. rest = e # post \<and> stops_block i e)"
  shows "registered (register_from_sse_stream h clk (pre @ st # mid @ rest) sid r) sid (fast_hash h text)"
proof -
  let ?s = "sse_step h clk sid"
  obtain accs n r0 where pre: "fold ?s pre ([], 0, r) = (accs, n, r0)" by (metis prod_cases3)
  let ?a = "fold ?s mid (AList.update i (initial_text st) accs, n, r0)"
  have acc: "map_of (fst ?a) i = Some text"
    using sse_fold_mid[of "(AList.update i (initial_text st) accs, n, r0)" i "initial_text st" mid h clk sid]
      assms(2,3) by simp
  have run: "fold ?s (pre @ st # mid @ rest) ([], 0, r) = fold ?s rest ?a"
    using pre sse_step_start[OF assms(1)] by simp
  show ?thesis
    using assms(5)
  proof
    assume "rest = []"
    then show ?thesis
      using run map_of_SomeD[OF acc] assms(4)
      by (force simp: register_from_sse_stream_def case_prod_unfold intro!: register_list_registers)
  next
    assume "\<exists>e post. rest = e # post \<and> stops_block i e"
    then obtain e post where rest: "rest = e # post" "stops_block i e" by blast
    have "registered (snd (snd (?s e ?a))) sid (fast_hash h text)"
      using sse_step_stop[OF acc rest(2) assms(4), of h clk sid "fst (snd ?a)" "snd (snd ?a)"]
      by (simp add: register_block_registers)
    then have "registered (snd (snd (fold ?s rest ?a))) sid (fast_hash h text)"
      using sse_fold_keeps rest(1) by simp
    then show ?thesis
      using run by (auto simp: register_from_sse_stream_def case_prod_unfold intro: register_list_keeps)
  qed
qed

definition sse_json :: "string \<Rightarrow> (string \<times> json) list \<Rightarrow> sse_event" where
  "sse_json t kvs = \<lparr>event_type = t, event_data = JObj ((''type'', JStr t) # (''index'', JNum (PosInt 0)) # kvs)\<rparr>"

theorem streamed_block_registered_witness:
  "registered (register_from_sse_stream len_hash (\<lambda>n. n)
     ([] @ sse_json ''content_block_start'' [(''content_block'', think_item [])]
      # [sse_json ''content_block_delta'' [(''delta'', JObj [(''type'', JStr ''thinking_delta''), (''thinking'', JStr ''ab'')])],
         sse_json ''content_block_delta'' [(''delta'', JObj [(''type'', JStr ''thinking_delta''), (''thinking'', JStr ''c'')])]]
      @ []) 7 new_registry) 7 (fast_hash len_hash ''abc'')"
  by (rule streamed_block_registered[where i = 0])
    (simp_all add: starts_block_def stops_block_def initial_text_def delta_text_def sse_json_def nested_str_def
      jget_str_def jget_u64_def think_item_def)

end
