(* ===== verification/ThinkingConcurrency.thy ===== *)
theory ThinkingConcurrency
  imports ThinkingProps
begin

text \<open>
  Requests in flight share one thinking registry behind a mutex (\<open>TransformerRegistry\<close>).  Each
  operation takes the lock once, so an execution is an interleaving of whole operations: a request
  begins (and may switch the session), filters its body, and registers the blocks of its response
  under the session it captured; a switch may also come from the user interface.  The relation
  \<open>think_step\<close> has one rule per operation.  Two components are history variables: \<open>epoch\<close>, the
  backend each session number stands for, and \<open>produced\<close>, the block hashes each backend has sent.
  A run is taken to be shorter than \<open>2^64\<close> switches, the range of the session counter.
\<close>

record think_sys =
  reg :: registry
  inflight :: "(nat \<times> u64 \<times> string) list"
  epoch :: "u64 \<Rightarrow> string"
  produced :: "(u64 \<times> string) set"

definition think_init :: think_sys where
  "think_init = \<lparr>reg = new_registry, inflight = [], epoch = (\<lambda>_. []), produced = {}\<rparr>"

definition session_name :: "registry \<Rightarrow> (u64 \<Rightarrow> string) \<Rightarrow> u64 \<Rightarrow> string" where
  "session_name r ep = ep(current_session r := current_backend r)"

inductive think_step :: "hasher \<Rightarrow> think_sys \<Rightarrow> think_sys \<Rightarrow> bool" for h where
  begin_step: "current_session (reg s) \<noteq> - 1 \<Longrightarrow> begin_request b (reg s) = (sid, r') \<Longrightarrow>
    think_step h s (s\<lparr>reg := r', inflight := (rid, sid, b) # inflight s, epoch := session_name r' (epoch s)\<rparr>)"
| notify_step: "current_session (reg s) \<noteq> - 1 \<Longrightarrow> notify_backend_switch b (reg s) = r' \<Longrightarrow>
    think_step h s (s\<lparr>reg := r', epoch := session_name r' (epoch s)\<rparr>)"
| filter_step: "(rid, sid, b) \<in> set (inflight s) \<Longrightarrow>
    session_filter h now sid body (reg s) = (body', n, r') \<Longrightarrow>
    think_step h s (s\<lparr>reg := r'\<rparr>)"
| register_step: "(rid, sid, b) \<in> set (inflight s) \<Longrightarrow>
    think_step h s (s\<lparr>reg := register_list h clk k cs sid (reg s),
                      produced := produced s \<union> (\<lambda>c. (fast_hash h c, b)) ` set cs\<rparr>)"

inductive_cases think_stepE: "think_step h s s'"

inductive think_reach :: "hasher \<Rightarrow> think_sys \<Rightarrow> bool" for h where
  reach_init: "think_reach h think_init"
| reach_step: "think_reach h s \<Longrightarrow> think_step h s s' \<Longrightarrow> think_reach h s'"

text \<open>Both registrations of a response are instances of \<open>register_list\<close>.\<close>

lemma register_list_append:
  "register_list h clk n (as @ bs) sid r = register_list h clk (n + length as) bs sid (register_list h clk n as sid r)"
  by (induction as arbitrary: n r) auto

lemma register_response_is_list:
  "\<exists>cs. session_register_response h jparse clk sid body r = register_list h clk 0 cs sid r"
  by (auto simp: session_register_response_def register_from_response_def split: option.splits
      intro: exI[of _ "[]"])

definition by_list :: "hasher \<Rightarrow> (nat \<Rightarrow> nat) \<Rightarrow> u64 \<Rightarrow> nat \<Rightarrow> registry \<Rightarrow> sse_acc \<Rightarrow> bool" where
  "by_list h clk sid n r a \<longleftrightarrow>
     (\<exists>cs. fst (snd a) = n + length cs \<and> snd (snd a) = register_list h clk n cs sid r)"

lemma by_list_none: "by_list h clk sid n r (accs, n, r)"
  unfolding by_list_def by (rule exI[of _ "[]"]) simp

lemma by_list_one: "by_list h clk sid n r (accs, Suc n, register_block h (clk n) c sid r)"
  unfolding by_list_def by (rule exI[of _ "[c]"]) simp

lemma by_list_start: "by_list h clk sid n r (sse_start h clk sid d (accs, n, r))"
  by (simp add: sse_start_def by_list_none by_list_one split: option.split)

lemma by_list_delta: "by_list h clk sid n r (sse_delta d (accs, n, r))"
  by (simp add: sse_delta_def by_list_none split: option.split)

lemma by_list_stop: "by_list h clk sid n r (sse_stop h clk sid d (accs, n, r))"
  by (simp add: sse_stop_def by_list_none by_list_one split: option.split)

lemma by_list_step: "by_list h clk sid n r (sse_step h clk sid e (accs, n, r))"
  by (simp add: sse_step_def by_list_start by_list_delta by_list_stop by_list_none)

lemma by_list_trans:
  "by_list h clk sid n r (accs, n', r') \<Longrightarrow> by_list h clk sid n' r' a \<Longrightarrow> by_list h clk sid n r a"
  unfolding by_list_def
proof (elim exE conjE)
  fix cs ds
  assume "fst (snd (accs, n', r')) = n + length cs" "snd (snd (accs, n', r')) = register_list h clk n cs sid r"
    "fst (snd a) = n' + length ds" "snd (snd a) = register_list h clk n' ds sid r'"
  then show "\<exists>cs. fst (snd a) = n + length cs \<and> snd (snd a) = register_list h clk n cs sid r"
    by (intro exI[of _ "cs @ ds"]) (simp add: register_list_append)
qed

lemma by_list_fold: "by_list h clk sid n r (fold (sse_step h clk sid) es (accs, n, r))"
proof (induction es arbitrary: accs n r)
  case Nil
  show ?case by (simp add: by_list_none)
next
  case (Cons e es)
  obtain accs' n' r' where st: "sse_step h clk sid e (accs, n, r) = (accs', n', r')" by (metis prod_cases3)
  then have "by_list h clk sid n r (accs', n', r')" using by_list_step by metis
  then show ?case using by_list_trans Cons.IH[of n' r' accs'] st by simp
qed

lemma register_sse_is_list:
  "\<exists>cs. session_register_sse h clk sid es r = register_list h clk 0 cs sid r"
proof -
  let ?a = "fold (sse_step h clk sid) es ([], 0, r)"
  obtain cs where cs: "fst (snd ?a) = length cs" "snd (snd ?a) = register_list h clk 0 cs sid r"
    using by_list_fold[of h clk sid 0 r es "[]"] by (auto simp: by_list_def)
  then show ?thesis
    by (intro exI[of _ "cs @ filter (\<lambda>c. c \<noteq> []) (map snd (fst ?a))"])
      (simp add: session_register_sse_def register_from_sse_stream_def register_list_append case_prod_unfold)
qed

section \<open>The invariant\<close>

definition think_inv :: "think_sys \<Rightarrow> bool" where
  "think_inv s \<longleftrightarrow>
     registry_ok (reg s) \<and> epoch s (current_session (reg s)) = current_backend (reg s) \<and>
     (\<forall>(rid, sid, b) \<in> set (inflight s). sid \<le> current_session (reg s) \<and> epoch s sid = b) \<and>
     (\<forall>k i. map_of (blocks (reg s)) k = Some i \<longrightarrow>
        session i \<le> current_session (reg s) \<and> (k, epoch s (session i)) \<in> produced s)"

lemma think_inv_init: "think_inv think_init"
  by (simp add: think_inv_def think_init_def) (simp add: new_registry_def with_orphan_threshold_def)

lemma word_le_suc: "a \<le> c \<Longrightarrow> c \<noteq> - 1 \<Longrightarrow> a \<le> c + 1 \<and> a \<noteq> c + (1::u64)"
proof -
  assume a: "a \<le> c" "c \<noteq> - 1"
  have "unat (- 1 :: u64) = 2 ^ 64 - 1" by (simp add: unat_minus_one_word_full)
  then have "unat c \<noteq> 2 ^ 64 - 1" using a(2) by (metis word_unat_eq_iff)
  moreover have "unat c < 2 ^ 64" using unsigned_less[of c] by simp
  ultimately have "unat (c + 1) = unat c + 1" by (simp add: unat_word_ariths)
  then show ?thesis using a(1) by (auto simp: word_le_nat_alt)
qed

lemma think_inv_switch:
  assumes "think_inv s" "current_session (reg s) \<noteq> - 1"
  shows "think_inv (s\<lparr>reg := on_backend_switch b (reg s),
                      epoch := session_name (on_backend_switch b (reg s)) (epoch s)\<rparr>)"
proof (cases "current_backend (reg s) = b")
  case True
  then have "on_backend_switch b (reg s) = reg s" by (simp add: on_backend_switch_def)
  moreover have "session_name (reg s) (epoch s) = epoch s"
    using assms(1) by (auto simp: session_name_def think_inv_def)
  ultimately show ?thesis using assms(1) by simp
next
  case False
  let ?r = "on_backend_switch b (reg s)"
  have r: "current_session ?r = current_session (reg s) + 1" "current_backend ?r = b" "blocks ?r = blocks (reg s)"
    using False by (simp_all add: on_backend_switch_def)
  have old: "x \<le> current_session ?r \<and> session_name ?r (epoch s) x = epoch s x" if "x \<le> current_session (reg s)" for x
    using word_le_suc[OF that assms(2)] by (simp add: session_name_def r)
  let ?ep = "session_name ?r (epoch s)"
  have inv: "registry_ok (reg s)" "\<forall>(rid, sid, b) \<in> set (inflight s). sid \<le> current_session (reg s) \<and> epoch s sid = b"
    "\<And>k i. map_of (blocks (reg s)) k = Some i \<Longrightarrow>
       session i \<le> current_session (reg s) \<and> (k, epoch s (session i)) \<in> produced s"
    using assms(1) by (simp_all add: think_inv_def)
  have "\<forall>(rid, sid, b) \<in> set (inflight s). sid \<le> current_session ?r \<and> ?ep sid = b"
    using inv(2) old by auto
  moreover have "session i \<le> current_session ?r \<and> (k, ?ep (session i)) \<in> produced s"
    if "map_of (blocks ?r) k = Some i" for k i
    using inv(3)[of k i] old[of "session i"] that r(3) by simp
  moreover have "?ep (current_session ?r) = current_backend ?r" by (simp add: session_name_def)
  ultimately show ?thesis using inv(1) by (simp add: think_inv_def)
qed

lemma register_list_lookup:
  "map_of (blocks (register_list h clk n cs sid r)) k = Some i \<Longrightarrow>
   map_of (blocks r) k = Some i \<or> session i = sid \<and> (\<exists>c \<in> set cs. k = fast_hash h c)"
proof (induction cs arbitrary: n r)
  case (Cons c cs)
  then show ?case
    by (fastforce simp: register_block_def Let_def split: option.splits if_splits)
qed simp

lemma think_inv_step:
  assumes "think_inv s" "think_step h s s'"
  shows "think_inv s'"
  using assms(2)
proof (cases rule: think_step.cases)
  case (begin_step b sid r' rid)
  have r': "r' = on_backend_switch b (reg s)" "sid = current_session r'"
    using begin_step by (auto simp: begin_request_def Let_def)
  have "current_backend r' = b" using r' by (simp add: on_backend_switch_def)
  then show ?thesis
    using think_inv_switch[OF assms(1) begin_step(2), of b] begin_step(1) r'
    by (auto simp: think_inv_def session_name_def)
next
  case (notify_step b r')
  then show ?thesis using think_inv_switch[OF assms(1), of b] by (simp add: notify_backend_switch_def)
next
  case (filter_step rid sid b now body body' n r')
  then have r': "r' = cleaned h now body (reg s)" by (simp add: session_filter_def filter_request_eq)
  have ok: "registry_ok (reg s)" using assms(1) by (simp add: think_inv_def)
  have "\<exists>j. map_of (blocks (reg s)) k = Some j \<and> session i = session j" if "map_of (blocks r') k = Some i" for k i
    using that cleaned_blocks[OF ok, of h now body k] r' by (auto split: option.splits if_splits)
  then show ?thesis
    using assms(1) filter_step(1) r' registry_ok_cleaned[OF ok] by (fastforce simp: think_inv_def)
next
  case (register_step rid sid b cs clk k)
  have sid: "sid \<le> current_session (reg s)" "epoch s sid = b"
    using assms(1) register_step(2) by (auto simp: think_inv_def)
  have "session i \<le> current_session (reg s) \<and> (x, epoch s (session i)) \<in> produced s'"
    if "map_of (blocks (register_list h clk k cs sid (reg s))) x = Some i" for x i
    using register_list_lookup[OF that] sid assms(1) register_step(1) by (auto simp: think_inv_def)
  then show ?thesis
    using assms(1) register_step(1) registry_ok_list by (auto simp: think_inv_def)
qed

lemma think_reach_inv: "think_reach h s \<Longrightarrow> think_inv s"
  by (induction rule: think_reach.induct) (auto intro: think_inv_init think_inv_step)

text \<open>C2: no thinking block crosses backends, under any interleaving of requests, responses and
  switches: a thinking block that a filtered request still carries was sent (up to its hash) by the
  backend that is current when the filter runs.\<close>

theorem thinking_isolation:
  assumes "think_reach h s" "session_filter h now sid body (reg s) = (body', n, r')"
    and "x \<in> set (items_of body')" "is_thinking_item x"
  shows "\<exists>c. extract_thinking_content x = Some c \<and> (fast_hash h c, current_backend (reg s)) \<in> produced s"
proof -
  have inv: "think_inv s" by (rule think_reach_inv[OF assms(1)])
  then have "body' = with_items (admissible h (reg s)) body"
    using filter_request_items[of "reg s" h now body] assms(2) by (simp add: think_inv_def session_filter_def)
  then have "admissible h (reg s) x" using assms(3) by (simp add: items_of_with_items)
  then show ?thesis using assms(4) inv by (fastforce simp: admissible_def think_inv_def)
qed

text \<open>A concrete run: two requests begin, for backends \<open>a\<close> and \<open>b\<close>, and the second one's response is
  registered.\<close>

definition reg_ab :: registry where
  "reg_ab = on_backend_switch ''b'' (on_backend_switch ''a'' new_registry)"

definition race_reg :: registry where
  "race_reg = register_list len_hash (\<lambda>_. 0) 0 [''abc''] 2 reg_ab"

definition epoch_a :: "u64 \<Rightarrow> string" where
  "epoch_a = session_name (on_backend_switch ''a'' new_registry) (\<lambda>_. [])"

definition race :: think_sys where
  "race = \<lparr>reg = race_reg, inflight = [(1, 2, ''b''), (0, 1, ''a'')], epoch = session_name reg_ab epoch_a,
           produced = {(3, ''b'')}\<rparr>"

lemma race_reach: "think_reach len_hash race"
proof -
  let ?ra = "on_backend_switch ''a'' new_registry"
  let ?s1 = "think_init\<lparr>reg := ?ra, inflight := [(0, 1, ''a'')], epoch := epoch_a\<rparr>"
  let ?s2 = "?s1\<lparr>reg := reg_ab, inflight := [(1, 2, ''b''), (0, 1, ''a'')], epoch := session_name reg_ab epoch_a\<rparr>"
  have b1: "begin_request ''a'' new_registry = (1, ?ra)" "begin_request ''b'' ?ra = (2, reg_ab)"
    by (simp_all add: begin_request_def Let_def reg_ab_def on_backend_switch_def new_registry_def with_orphan_threshold_def)
  have c: "current_session new_registry \<noteq> - 1" "current_session ?ra \<noteq> - 1"
    by (simp_all add: on_backend_switch_def new_registry_def with_orphan_threshold_def)
  have "think_step len_hash think_init ?s1"
    using begin_step[of think_init "''a''" 1 ?ra len_hash 0] b1 c by (simp add: think_init_def epoch_a_def)
  moreover have "think_step len_hash ?s1 ?s2"
    using begin_step[of ?s1 "''b''" 2 reg_ab len_hash 1] b1 c by simp
  moreover have "think_step len_hash ?s2 race"
    using register_step[of 1 2 "''b''" ?s2 len_hash "[''abc'']" "\<lambda>_. 0" 0]
    by (simp add: race_def race_reg_def think_init_def fast_hash_def len_hash_def)
  ultimately show ?thesis using reach_init reach_step by metis
qed

theorem thinking_isolation_witness:
  "\<exists>c. extract_thinking_content (think_item ''abc'') = Some c \<and> (fast_hash len_hash c, ''b'') \<in> produced race"
proof -
  let ?body = "one_turn [think_item ''abc'']"
  obtain n r' where f: "session_filter len_hash 0 2 ?body race_reg = (?body, n, r')"
  proof -
    have "fst (session_filter len_hash 0 2 ?body race_reg) = ?body" by code_simp
    then show ?thesis using that by (metis prod_cases3 fst_conv)
  qed
  have "current_backend race_reg = ''b''" by code_simp
  moreover have "think_item ''abc'' \<in> set (items_of ?body)" "is_thinking_item (think_item ''abc'')" by code_simp+
  moreover have "reg race = race_reg" by (simp add: race_def)
  ultimately show ?thesis
    using thinking_isolation[OF race_reach, of 0 2 ?body ?body n r' "think_item ''abc''"] f by metis
qed

text \<open>The guarantee is about the registry's backend, not the request's own: when another request
  switches the registry between the start and the filter of a request, the filter keeps the blocks
  of the other backend and the request carries them to its own, because \<open>ThinkingSession::filter\<close>
  does not use the session it captured.\<close>

theorem filter_ignores_captured_session:
  "\<exists>s sid body. think_reach len_hash s \<and> (0, sid, ''a'') \<in> set (inflight s)
     \<and> fst (session_filter len_hash 0 sid body (reg s)) = body
     \<and> items_of body = [think_item ''abc'']
     \<and> (\<forall>k. (k, ''a'') \<notin> produced s)"
proof (intro exI conjI)
  show "think_reach len_hash race" by (rule race_reach)
  show "(0, 1, ''a'') \<in> set (inflight race)" by (simp add: race_def)
  have "fst (session_filter len_hash 0 1 (one_turn [think_item ''abc'']) race_reg) = one_turn [think_item ''abc'']"
    by code_simp
  then show "fst (session_filter len_hash 0 1 (one_turn [think_item ''abc'']) (reg race)) = one_turn [think_item ''abc'']"
    by (simp add: race_def)
  show "items_of (one_turn [think_item ''abc'']) = [think_item ''abc'']" by code_simp
  show "\<forall>k. (k, ''a'') \<notin> produced race" by (simp add: race_def)
qed

text \<open>The two registration paths differ on a thinking block whose text is empty: the non-streaming
  path registers it, the streaming path does not, so the same conversation keeps the block in one
  case and loses it in the other.\<close>

theorem empty_thinking_paths_differ:
  "let item = think_item [];
       start = \<lparr>event_type = ''content_block_start'', event_data = JObj
                 [(''type'', JStr ''content_block_start''), (''index'', JNum (PosInt 0)), (''content_block'', item)]\<rparr>;
       stop = \<lparr>event_type = ''content_block_stop'', event_data = JObj
                 [(''type'', JStr ''content_block_stop''), (''index'', JNum (PosInt 0))]\<rparr>;
       streamed = register_from_sse_stream len_hash (\<lambda>n. n) [start, stop] 0 new_registry;
       whole = register_from_response len_hash (\<lambda>_. Some (JObj [(''content'', JArr [item])])) (\<lambda>n. n) ''x'' 0 new_registry
   in items_of (fst (filter_request len_hash 0 (one_turn [item]) streamed)) = []
    \<and> items_of (fst (filter_request len_hash 0 (one_turn [item]) whole)) = [item]"
  by code_simp

text \<open>A response that arrives after a backend switch leaves the blocks of other hashes alone but takes
  over an entry of the same hash: the block is then no longer valid for the current session.\<close>

theorem late_response_takes_over:
  assumes "sid \<noteq> current_session r"
  shows "\<not> registered (register_block h now c sid r) (current_session r) (fast_hash h c)
       \<and> (k \<noteq> fast_hash h c \<longrightarrow>
            map_of (blocks (register_block h now c sid r)) k = map_of (blocks r) k)"
  using assms by (auto simp: registered_def register_block_def Let_def split: option.splits)

theorem late_response_takes_over_witness:
  "\<not> registered (register_block len_hash 9 ''abc'' 1 race_reg) 2 3"
proof -
  have "current_session race_reg = 2" by code_simp
  then show ?thesis using late_response_takes_over[of 1 race_reg len_hash 9 "''abc''"]
    by (simp add: fast_hash_def len_hash_def)
qed

end
