(* ===== verification/ClaudeSettings.thy ===== *)
theory ClaudeSettings
  imports Prelude
begin

text \<open>
  The settings manager (\<open>src/config/claude_settings.rs\<close>): a registry of setting definitions, the values
  the user chose, and the views the rest of the program takes: environment variables and flags for
  the child process, the table saved in the configuration, the rows of the settings dialog.  The
  values are a hash map from setting identifiers; the order in which Rust iterates over a loaded
  table is the order of the list.
\<close>

section \<open>Definitions\<close>

datatype setting_id = Agents

definition setting_as_str :: "setting_id \<Rightarrow> string" where
  "setting_as_str i = (case i of Agents \<Rightarrow> ''agents'')"

definition all_settings :: "setting_id list" where
  "all_settings = [Agents]"

definition setting_parse :: "string \<Rightarrow> setting_id option" where
  "setting_parse s = (if s = ''agents'' then Some Agents else None)"

datatype setting_section = Experimental

definition section_label :: "setting_section \<Rightarrow> string" where
  "section_label s = (case s of Experimental \<Rightarrow> ''Experimental Features'')"

record setting_def =
  sd_id :: setting_id
  sd_label :: string
  sd_description :: string
  sd_section :: setting_section
  sd_env_var :: "string option"
  sd_env_value :: string
  sd_cli_flag :: "string option"
  sd_default :: bool

record settings_manager =
  sm_registry :: "setting_def list"
  sm_values :: "(setting_id \<times> bool) list"

definition builtin_registry :: "setting_def list" where
  "builtin_registry =
     [\<lparr>sd_id = Agents, sd_label = ''Agent Teams'',
       sd_description = ''Enable multi-agent collaboration (experimental)'',
       sd_section = Experimental, sd_env_var = Some ''CLAUDE_CODE_EXPERIMENTAL_AGENT_TEAMS'',
       sd_env_value = ''1'', sd_cli_flag = None, sd_default = False\<rparr>]"

definition new_settings :: settings_manager where
  "new_settings = \<lparr>sm_registry = builtin_registry, sm_values = []\<rparr>"

definition default_for :: "settings_manager \<Rightarrow> setting_id \<Rightarrow> bool" where
  "default_for m i = (case find (\<lambda>d. sd_id d = i) (sm_registry m) of Some d \<Rightarrow> sd_default d | None \<Rightarrow> False)"

definition setting_get :: "settings_manager \<Rightarrow> setting_id \<Rightarrow> bool" where
  "setting_get m i = (case map_of (sm_values m) i of Some v \<Rightarrow> v | None \<Rightarrow> default_for m i)"

definition setting_set :: "setting_id \<Rightarrow> bool \<Rightarrow> settings_manager \<Rightarrow> settings_manager" where
  "setting_set i v m = m\<lparr>sm_values := AList.update i v (sm_values m)\<rparr>"

definition setting_toggle :: "setting_id \<Rightarrow> settings_manager \<Rightarrow> settings_manager" where
  "setting_toggle i m = setting_set i (\<not> setting_get m i) m"

definition to_env_vars :: "settings_manager \<Rightarrow> (string \<times> string) list" where
  "to_env_vars m = List.map_filter (\<lambda>d.
     if setting_get m (sd_id d) then map_option (\<lambda>v. (v, sd_env_value d)) (sd_env_var d) else None) (sm_registry m)"

definition to_cli_args :: "settings_manager \<Rightarrow> string list" where
  "to_cli_args m = List.map_filter (\<lambda>d.
     if setting_get m (sd_id d) then sd_cli_flag d else None) (sm_registry m)"

definition to_toml_map :: "settings_manager \<Rightarrow> (string \<times> bool) list" where
  "to_toml_map m = fold (\<lambda>d. AList.update (setting_as_str (sd_id d)) (setting_get m (sd_id d))) (sm_registry m) []"

definition load_entry :: "string \<times> bool \<Rightarrow> settings_manager \<Rightarrow> settings_manager" where
  "load_entry = (\<lambda>(key, value) m.
     case setting_parse key of Some i \<Rightarrow> setting_set i value m | None \<Rightarrow> m)"

definition load_from_toml :: "(string \<times> bool) list \<Rightarrow> settings_manager \<Rightarrow> settings_manager" where
  "load_from_toml tbl m = fold load_entry tbl m"

definition is_dirty :: "settings_manager \<Rightarrow> (setting_id \<times> bool) list \<Rightarrow> bool" where
  "is_dirty m saved = (\<exists>d \<in> set (sm_registry m).
     setting_get m (sd_id d) \<noteq> (case map_of saved (sd_id d) of Some v \<Rightarrow> v | None \<Rightarrow> sd_default d))"

record field_snapshot =
  fs_id :: setting_id
  fs_label :: string
  fs_description :: string
  fs_section :: setting_section
  fs_value :: bool

definition to_snapshots :: "settings_manager \<Rightarrow> field_snapshot list" where
  "to_snapshots m = map (\<lambda>d. \<lparr>fs_id = sd_id d, fs_label = sd_label d, fs_description = sd_description d,
     fs_section = sd_section d, fs_value = setting_get m (sd_id d)\<rparr>) (sm_registry m)"

definition apply_snapshots :: "field_snapshot list \<Rightarrow> settings_manager \<Rightarrow> settings_manager" where
  "apply_snapshots rows m = fold (\<lambda>f. setting_set (fs_id f) (fs_value f)) rows m"

definition snapshot_values :: "settings_manager \<Rightarrow> (setting_id \<times> bool) list" where
  "snapshot_values m = fold (\<lambda>d. AList.update (sd_id d) (setting_get m (sd_id d))) (sm_registry m) []"

section \<open>Properties\<close>

lemma registry_unchanged [simp]:
  "sm_registry (setting_set i v m) = sm_registry m"
  "sm_registry (load_entry e m) = sm_registry m"
  by (auto simp: setting_set_def load_entry_def split: prod.splits option.splits)

lemma registry_fold [simp]:
  "sm_registry (load_from_toml tbl m) = sm_registry m"
  "sm_registry (apply_snapshots fs m) = sm_registry m"
proof -
  show "sm_registry (load_from_toml tbl m) = sm_registry m"
    unfolding load_from_toml_def by (induction tbl arbitrary: m) auto
  show "sm_registry (apply_snapshots fs m) = sm_registry m"
    unfolding apply_snapshots_def by (induction fs arbitrary: m) auto
qed

text \<open>The table of every setting: what a hash map built by inserting every definition answers.\<close>

lemma fold_update_lookup:
  "\<forall>d \<in> set ds. k d = x \<longrightarrow> f d = v \<Longrightarrow>
   map_of (fold (\<lambda>d. AList.update (k d) (f d)) ds m) x = (if x \<in> k ` set ds then Some v else map_of m x)"
  by (induction ds arbitrary: m rule: rev_induct) auto

lemma setting_parse_as_str: "setting_parse s = Some i \<longleftrightarrow> s = setting_as_str i"
  by (cases i) (auto simp: setting_parse_def setting_as_str_def)

lemma get_set: "setting_get (setting_set i v m) j = (if j = i then v else setting_get m j)"
  by (auto simp: setting_get_def setting_set_def default_for_def assoc.look_insert split: option.splits)

lemma toggle_twice: "setting_get (setting_toggle i (setting_toggle i m)) j = setting_get m j"
  by (simp add: setting_toggle_def get_set)

lemma loaded_value:
  assumes "distinct (map fst tbl)"
  shows "setting_get (load_from_toml tbl m) i
       = (case map_of tbl (setting_as_str i) of Some v \<Rightarrow> v | None \<Rightarrow> setting_get m i)"
  using assms unfolding load_from_toml_def
proof (induction tbl arbitrary: m)
  case Nil
  then show ?case by simp
next
  case (Cons e tbl)
  obtain k v where e: "e = (k, v)" by (cases e)
  have IH: "setting_get (fold load_entry tbl (load_entry e m)) i
      = (case map_of tbl (setting_as_str i) of Some v \<Rightarrow> v | None \<Rightarrow> setting_get (load_entry e m) i)"
    using Cons.IH Cons.prems by simp
  show ?case
  proof (cases "k = setting_as_str i")
    case True
    then have "map_of tbl (setting_as_str i) = None" using Cons.prems e by (simp add: map_of_eq_None_iff)
    then show ?thesis
      using IH e True setting_parse_as_str[of k i] by (simp add: load_entry_def get_set)
  next
    case False
    have "setting_get (load_entry e m) i = setting_get m i"
      using False setting_parse_as_str[of k] by (auto simp: e load_entry_def get_set split: option.splits)
    then show ?thesis using IH False by (auto simp: e split: option.splits)
  qed
qed

lemma setting_as_str_inj [simp]: "setting_as_str i = setting_as_str j \<longleftrightarrow> i = j"
  by (metis setting_parse_as_str option.inject)

lemma toml_map_lookup:
  "map_of (to_toml_map m) (setting_as_str i)
     = (if i \<in> sd_id ` set (sm_registry m) then Some (setting_get m i) else None)"
  unfolding to_toml_map_def by (subst fold_update_lookup[where v = "setting_get m i"]) auto

lemma toml_map_distinct: "distinct (map fst (to_toml_map m))"
proof -
  have "hm_ok (fold (\<lambda>d. AList.update (setting_as_str (sd_id d)) (setting_get m (sd_id d))) ds t)" if "hm_ok t" for ds t
    using that by (induction ds arbitrary: t) auto
  from this[of "[]" "sm_registry m"] show ?thesis by (simp add: to_toml_map_def hm_ok_def)
qed

lemma snapshot_lookup:
  "map_of (snapshot_values m) i = (if i \<in> sd_id ` set (sm_registry m) then Some (setting_get m i) else None)"
  unfolding snapshot_values_def by (subst fold_update_lookup[where v = "setting_get m i"]) auto

text \<open>The settings survive a round trip through the configuration file: loading what was saved gives
  every registered setting its saved value, whatever the loading manager held before, unknown keys
  are ignored, and the result is not dirty against the snapshot of what was saved.\<close>

theorem settings_roundtrip:
  assumes "sm_registry m' = sm_registry m" "i \<in> sd_id ` set (sm_registry m)" "setting_parse key = None"
  shows "setting_get (load_from_toml (to_toml_map m) m') i = setting_get m i
       \<and> load_entry (key, v) m' = m'
       \<and> \<not> is_dirty (load_from_toml (to_toml_map m) m') (snapshot_values m)"
proof -
  have same: "setting_get (load_from_toml (to_toml_map m) m') j = setting_get m j"
    if "j \<in> sd_id ` set (sm_registry m)" for j
    using loaded_value[OF toml_map_distinct, of m m' j] toml_map_lookup[of m j] that by simp
  then show ?thesis
    using assms by (auto simp: is_dirty_def snapshot_lookup load_entry_def)
qed

theorem settings_roundtrip_witness:
  "setting_get (load_from_toml (to_toml_map (setting_toggle Agents new_settings)) new_settings) Agents
     = setting_get (setting_toggle Agents new_settings) Agents"
  using settings_roundtrip[of new_settings "setting_toggle Agents new_settings" Agents "''other''" True]
  by (simp add: setting_toggle_def new_settings_def builtin_registry_def setting_parse_def setting_set_def)

end
