(* ===== verification/Args.thy ===== *)
theory Args
  imports ClaudeSettings Json
begin

text \<open>
  The argument pipeline, first half (\<open>src/args/registry.rs\<close>, \<open>classifier.rs\<close>, \<open>session.rs\<close>): the flag
  registry, the classification of the raw arguments, and the choice of the session identifier.  What
  the code asks of the machine is the record \<open>host\<close>: the home and current directories, files, the
  environment, and a fresh identifier; the JSON text parser is \<open>jparse\<close>.
\<close>

section \<open>Flags\<close>

datatype flag_behavior = BehWrapperOwned | BehIntercepted | BehPassthrough

datatype flag_arity = NoValue | RequiresValue | OptionalValue

record flag_def =
  fl_long :: string
  fl_short :: "string option"
  fl_arity :: flag_arity
  fl_behavior :: flag_behavior
  fl_description :: string

definition mk_flag :: "string \<Rightarrow> string option \<Rightarrow> flag_arity \<Rightarrow> flag_behavior \<Rightarrow> string \<Rightarrow> flag_def" where
  "mk_flag l s a b d = \<lparr>fl_long = l, fl_short = s, fl_arity = a, fl_behavior = b, fl_description = d\<rparr>"

definition flag_registry :: "flag_def list" where
  "flag_registry =
     [mk_flag ''--backend'' (Some ''-b'') RequiresValue BehWrapperOwned ''Override default backend'',
      mk_flag ''--session-id'' None RequiresValue BehIntercepted ''Use specific session ID'',
      mk_flag ''--resume'' (Some ''-r'') RequiresValue BehIntercepted ''Resume a session by ID'',
      mk_flag ''--continue'' (Some ''-c'') NoValue BehIntercepted ''Continue last session in current directory'',
      mk_flag ''--model'' (Some ''-m'') RequiresValue BehPassthrough ''Model override'',
      mk_flag ''--verbose'' (Some ''-v'') NoValue BehPassthrough ''Verbose output'',
      mk_flag ''--print'' (Some ''-p'') NoValue BehPassthrough ''Print mode (non-interactive)'',
      mk_flag ''--output-format'' None RequiresValue BehPassthrough ''Output format for print mode'',
      mk_flag ''--dangerously-skip-permissions'' None NoValue BehPassthrough ''Skip permission prompts'',
      mk_flag ''--teammate-mode'' None RequiresValue BehPassthrough ''Teammate mode for agent teams'',
      mk_flag ''--help'' (Some ''-h'') NoValue BehPassthrough ''Show help'',
      mk_flag ''--version'' (Some ''-V'') NoValue BehPassthrough ''Show version'']"

definition flag_matches :: "string \<Rightarrow> flag_def \<Rightarrow> bool" where
  "flag_matches arg d \<longleftrightarrow> arg = fl_long d \<or> fl_short d = Some arg"

section \<open>Classification\<close>

datatype classified_arg =
    WrapperOwned string "string option"
  | Intercepted string "string option"
  | KnownPassthrough string "string option"
  | UnknownPassthrough string
  | Positional string

record classify_result =
  cr_args :: "classified_arg list"
  cr_warnings :: "string list"

definition looks_like_flag :: "string \<Rightarrow> bool" where
  "looks_like_flag a = str_starts ''-'' a"

text \<open>The value of a known flag and the arguments left: the next argument, unless it looks like a flag.\<close>

definition take_value :: "flag_def \<Rightarrow> string list \<Rightarrow> string option \<times> string list \<times> string list" where
  "take_value d rest =
     (case fl_arity d of
        NoValue \<Rightarrow> (None, rest, [])
      | RequiresValue \<Rightarrow>
          (case rest of
             next # rest' \<Rightarrow>
               if \<not> looks_like_flag next then (Some next, rest', [])
               else (None, rest, [fl_long d @ '': missing required value''])
           | [] \<Rightarrow> (None, rest, [fl_long d @ '': missing required value'']))
      | OptionalValue \<Rightarrow>
          (case rest of
             next # rest' \<Rightarrow> if \<not> looks_like_flag next then (Some next, rest', []) else (None, rest, [])
           | [] \<Rightarrow> (None, rest, [])))"

definition classified_flag :: "flag_def \<Rightarrow> string option \<Rightarrow> classified_arg" where
  "classified_flag d value =
     (case fl_behavior d of
        BehWrapperOwned \<Rightarrow> WrapperOwned (fl_long d) value
      | BehIntercepted \<Rightarrow> Intercepted (fl_long d) value
      | BehPassthrough \<Rightarrow> KnownPassthrough (fl_long d) value)"

text \<open>One turn of the loop: what the argument adds, the arguments left, the warnings.\<close>

definition classify_one ::
  "flag_def list \<Rightarrow> string \<Rightarrow> string list \<Rightarrow> classified_arg list \<times> string list \<times> string list" where
  "classify_one reg arg rest =
     (if looks_like_flag arg then
        (case find (flag_matches arg) reg of
           Some d \<Rightarrow> (case take_value d rest of (value, rest', ws) \<Rightarrow> ([classified_flag d value], rest', ws))
         | None \<Rightarrow>
             let ws = [arg @ '': unknown flag, forwarding to claude''] in
             (case rest of
                next # rest' \<Rightarrow>
                  if \<not> looks_like_flag next then ([UnknownPassthrough arg, UnknownPassthrough next], rest', ws)
                  else ([UnknownPassthrough arg], rest, ws)
              | [] \<Rightarrow> ([UnknownPassthrough arg], rest, ws)))
      else ([Positional arg], rest, []))"

lemma take_value_shorter: "take_value d rest = (v, rest', ws) \<Longrightarrow> length rest' \<le> length rest"
  by (auto simp: take_value_def split: flag_arity.splits list.splits if_splits)

lemma classify_one_shorter: "classify_one reg arg rest = (as, rest', ws) \<Longrightarrow> length rest' \<le> length rest"
  by (auto simp: classify_one_def Let_def split: if_splits option.splits prod.splits list.splits
      dest: take_value_shorter)

function classify :: "flag_def list \<Rightarrow> string list \<Rightarrow> classify_result" where
  "classify reg [] = \<lparr>cr_args = [], cr_warnings = []\<rparr>"
| "classify reg (arg # rest) =
     (case classify_one reg arg rest of (as, rest', ws) \<Rightarrow>
        let r = classify reg rest' in \<lparr>cr_args = as @ cr_args r, cr_warnings = ws @ cr_warnings r\<rparr>)"
  by pat_completeness auto
termination classify
  by (relation "measure (\<lambda>(reg, xs). length xs)") (auto dest: classify_one_shorter[OF sym])

section \<open>The session\<close>

datatype session_source = ExplicitId | ResumeId | ContinueLast | Generated

record session_resolution =
  sr_session_id :: string
  sr_source :: session_source
  sr_warnings :: "string list"

record host =
  home_dir :: "string option"
  current_dir :: "string option"
  read_file :: "string \<Rightarrow> string option"
  env_var :: "string \<Rightarrow> string option"
  fresh_uuid :: string

definition encode_project_path :: "string \<Rightarrow> string" where
  "encode_project_path path = map (\<lambda>c. if c = CHR ''/'' then CHR ''-'' else c) path"

definition read_json_file :: "(string \<Rightarrow> json option) \<Rightarrow> host \<Rightarrow> string \<Rightarrow> json option" where
  "read_json_file jparse h path =
     (case read_file h path of Some content \<Rightarrow> if str_valid content then jparse content else None | None \<Rightarrow> None)"

definition read_session_from_claude_json ::
  "(string \<Rightarrow> json option) \<Rightarrow> host \<Rightarrow> string \<Rightarrow> string \<Rightarrow> string option" where
  "read_session_from_claude_json jparse h home cwd =
     Option.bind (read_json_file jparse h (path_join home ''.claude.json'')) (\<lambda>j.
       Option.bind (jget ''projects'' j) (\<lambda>ps.
         Option.bind (jget cwd ps) (\<lambda>p. jget_str ''lastSessionId'' p)))"

text \<open>The order of \<open>str\<close>: bytewise, a prefix first.\<close>

fun str_less :: "string \<Rightarrow> string \<Rightarrow> bool" where
  "str_less s [] = False"
| "str_less [] (y # ys) = True"
| "str_less (x # xs) (y # ys) = (code x < code y \<or> x = y \<and> str_less xs ys)"

text \<open>\<open>max_by\<close> on the modification time: the last of the entries with the latest one.\<close>

fun latest_entry :: "(string \<times> string) list \<Rightarrow> (string \<times> string) option" where
  "latest_entry [] = None"
| "latest_entry (x # xs) =
     (case latest_entry xs of None \<Rightarrow> Some x | Some y \<Rightarrow> if str_less (snd y) (snd x) then Some x else Some y)"

definition session_entry :: "json \<Rightarrow> (string \<times> string) option" where
  "session_entry e =
     Option.bind (jget_str ''sessionId'' e) (\<lambda>i. map_option (\<lambda>t. (i, t)) (jget_str ''modified'' e))"

definition sessions_index_path :: "string \<Rightarrow> string \<Rightarrow> string" where
  "sessions_index_path home cwd =
     path_join (path_join (path_join (path_join home ''.claude'') ''projects'') (encode_project_path cwd)) ''sessions-index.json''"

definition read_session_from_sessions_index ::
  "(string \<Rightarrow> json option) \<Rightarrow> host \<Rightarrow> string \<Rightarrow> string \<Rightarrow> string option" where
  "read_session_from_sessions_index jparse h home cwd =
     Option.bind (read_json_file jparse h (sessions_index_path home cwd)) (\<lambda>j.
       Option.bind (jget_arr ''entries'' j) (\<lambda>entries.
         map_option fst (latest_entry (List.map_filter session_entry entries))))"

definition read_last_session_id :: "(string \<Rightarrow> json option) \<Rightarrow> host \<Rightarrow> string option" where
  "read_last_session_id jparse h =
     Option.bind (home_dir h) (\<lambda>home.
       Option.bind (current_dir h) (\<lambda>cwd.
         if \<not> str_valid cwd then None
         else (case read_session_from_claude_json jparse h home cwd of
                 Some i \<Rightarrow> Some i
               | None \<Rightarrow> read_session_from_sessions_index jparse h home cwd)))"

text \<open>The scan of the session flags: the identifier and its source, whether \<open>--continue\<close> was seen, the warnings.\<close>

type_synonym session_scan = "(string \<times> session_source) option \<times> bool \<times> string list"

definition override_warning :: "string \<Rightarrow> 'a option \<Rightarrow> string list" where
  "override_warning flag prev =
     (if prev \<noteq> None then [flag @ '': overrides previously specified session flag''] else [])"

fun scan_session :: "classified_arg \<Rightarrow> session_scan \<Rightarrow> session_scan" where
  "scan_session (Intercepted flag value) (found, saw, ws) =
     (if flag = ''--session-id'' then
        (case value of Some i \<Rightarrow> (Some (i, ExplicitId), saw, ws @ override_warning ''--session-id'' found)
         | None \<Rightarrow> (found, saw, ws))
      else if flag = ''--resume'' then
        (case value of Some i \<Rightarrow> (Some (i, ResumeId), saw, ws @ override_warning ''--resume'' found)
         | None \<Rightarrow> (found, saw, ws))
      else if flag = ''--continue'' then (found, True, ws)
      else (found, saw, ws))"
| "scan_session _ st = st"

definition resolve_session :: "(string \<Rightarrow> json option) \<Rightarrow> host \<Rightarrow> classified_arg list \<Rightarrow> session_resolution" where
  "resolve_session jparse h as =
     (case fold scan_session as (None, False, []) of (found, saw, ws) \<Rightarrow>
        case found of
          Some (i, src) \<Rightarrow>
            \<lparr>sr_session_id = i, sr_source = src,
             sr_warnings = ws @ (if saw then [''--continue ignored because --session-id/--resume was also specified''] else [])\<rparr>
        | None \<Rightarrow>
            if saw then
              (case read_last_session_id jparse h of
                 Some i \<Rightarrow> \<lparr>sr_session_id = i, sr_source = ContinueLast, sr_warnings = ws\<rparr>
               | None \<Rightarrow> \<lparr>sr_session_id = fresh_uuid h, sr_source = Generated,
                   sr_warnings = ws @ [''--continue: no previous session found for current directory, starting new session'']\<rparr>)
            else \<lparr>sr_session_id = fresh_uuid h, sr_source = Generated, sr_warnings = ws\<rparr>)"

end
