(* ===== verification/ConfigTypes.thy ===== *)
theory ConfigTypes
  imports Prelude
begin

text \<open>
  The configuration data (\<open>src/config/types.rs\<close>, \<open>src/cli_mode.rs\<close>): one record per struct with the
  source's field names (prefixed where two structs share a name), the defaults, and the readers of
  the log settings.  A float is kept as its 64 bits; \<open>usize\<close> is a natural number.
\<close>

type_synonym f64 = "64 word"

record backend_pricing =
  input_per_million :: f64
  output_per_million :: f64

record backend =
  name :: string
  display_name :: string
  base_url :: string
  auth_type_str :: string
  api_key :: "string option"
  pricing :: "backend_pricing option"
  thinking_compat :: "bool option"
  thinking_budget_tokens :: "u32 option"
  model_opus :: "string option"
  model_opus_max_effort :: "string option"
  model_sonnet :: "string option"
  model_sonnet_max_effort :: "string option"
  model_haiku :: "string option"
  model_haiku_max_effort :: "string option"
  models_path :: "string option"
  wire_api :: "string option"
  strip_request_prefix :: "string option"

definition default_backend :: backend where
  "default_backend =
     \<lparr>name = ''claude'', display_name = ''Claude'', base_url = ''https://api.anthropic.com'',
      auth_type_str = ''passthrough'', api_key = None, pricing = None, thinking_compat = None,
      thinking_budget_tokens = None, model_opus = None, model_opus_max_effort = None,
      model_sonnet = None, model_sonnet_max_effort = None, model_haiku = None,
      model_haiku_max_effort = None, models_path = None, wire_api = None,
      strip_request_prefix = None\<rparr>"

record agents_config =
  teammate_backend_name :: string
  subagent_backend_name :: "string option"

record defaults_config =
  active :: string
  timeout_seconds :: u32
  connect_timeout_seconds :: u32
  idle_timeout_seconds :: u32
  pool_idle_timeout_seconds :: u32
  pool_max_idle_per_host :: u32
  max_retries :: u32
  retry_backoff_base_ms :: u64

definition default_defaults :: defaults_config where
  "default_defaults =
     \<lparr>active = ''claude'', timeout_seconds = 30, connect_timeout_seconds = 5,
      idle_timeout_seconds = 60, pool_idle_timeout_seconds = 90, pool_max_idle_per_host = 8,
      max_retries = 3, retry_backoff_base_ms = 100\<rparr>"

record cli_profile =
  defaults :: defaults_config
  backends :: "backend list"
  agents :: "agents_config option"
  claude_settings :: "(string \<times> bool) list"

definition default_profile :: cli_profile where
  "default_profile = \<lparr>defaults = default_defaults, backends = [], agents = None, claude_settings = []\<rparr>"

record proxy_config =
  bind_addr :: string
  proxy_base_url :: string

record webui_config =
  webui_bind_addr :: string
  username :: "string option"
  password :: "string option"

record terminal_config =
  scrollback_lines :: nat

datatype debug_log_level = LevelOff | LevelBasic | LevelVerbose | LevelFull

datatype debug_log_format = FormatConsole | FormatJson

datatype debug_log_destination = DestStderr | DestFile | DestBoth

datatype debug_rotation_mode = RotationNone | RotationSize | RotationDaily

record debug_log_rotation =
  rotation_mode :: debug_rotation_mode
  max_bytes :: u64
  max_files :: nat

record debug_logging_config =
  level :: debug_log_level
  log_format :: debug_log_format
  destination :: debug_log_destination
  file_path :: string
  body_preview_bytes :: nat
  header_preview :: bool
  full_body :: bool
  pretty_print :: bool
  rotation :: debug_log_rotation

record config =
  proxy :: proxy_config
  webui :: webui_config
  terminal :: terminal_config
  debug_logging :: debug_logging_config
  claude :: cli_profile
  copilot :: cli_profile

definition default_rotation :: debug_log_rotation where
  "default_rotation = \<lparr>rotation_mode = RotationNone, max_bytes = 10 * 1024 * 1024, max_files = 5\<rparr>"

definition default_debug_logging :: debug_logging_config where
  "default_debug_logging =
     \<lparr>level = LevelOff, log_format = FormatConsole, destination = DestStderr,
      file_path = ''~/.config/anycode/logs/debug.log'', body_preview_bytes = 1024,
      header_preview = True, full_body = False, pretty_print = True, rotation = default_rotation\<rparr>"

definition default_config :: config where
  "default_config =
     \<lparr>proxy = \<lparr>bind_addr = ''127.0.0.1:47190'', proxy_base_url = ''http://127.0.0.1:47190''\<rparr>,
      webui = \<lparr>webui_bind_addr = ''127.0.0.1:47191'', username = None, password = None\<rparr>,
      terminal = \<lparr>scrollback_lines = 10000\<rparr>,
      debug_logging = default_debug_logging,
      claude = \<lparr>defaults = default_defaults, backends = [default_backend], agents = None, claude_settings = []\<rparr>,
      copilot = default_profile\<rparr>"

datatype cli_mode = ModeClaude | ModeCopilot

definition profile :: "cli_mode \<Rightarrow> config \<Rightarrow> cli_profile" where
  "profile m c = (case m of ModeClaude \<Rightarrow> claude c | ModeCopilot \<Rightarrow> copilot c)"

definition profile_update :: "cli_mode \<Rightarrow> (cli_profile \<Rightarrow> cli_profile) \<Rightarrow> config \<Rightarrow> config" where
  "profile_update m f c =
     (case m of ModeClaude \<Rightarrow> c\<lparr>claude := f (claude c)\<rparr> | ModeCopilot \<Rightarrow> c\<lparr>copilot := f (copilot c)\<rparr>)"

definition parse_level :: "string \<Rightarrow> debug_log_level option" where
  "parse_level value =
     (let v = str_lower (str_trim value) in
      if v = ''off'' then Some LevelOff
      else if v = ''basic'' then Some LevelBasic
      else if v = ''verbose'' then Some LevelVerbose
      else if v = ''full'' then Some LevelFull
      else None)"

definition parse_format :: "string \<Rightarrow> debug_log_format option" where
  "parse_format value =
     (let v = str_lower (str_trim value) in
      if v = ''console'' then Some FormatConsole
      else if v = ''json'' \<or> v = ''jsonl'' then Some FormatJson
      else None)"

definition parse_destination :: "string \<Rightarrow> debug_log_destination option" where
  "parse_destination value =
     (let v = str_lower (str_trim value) in
      if v = ''stderr'' then Some DestStderr
      else if v = ''file'' then Some DestFile
      else if v = ''both'' then Some DestBoth
      else None)"

text \<open>The derived order of \<open>DebugLogLevel\<close>.\<close>

fun level_rank :: "debug_log_level \<Rightarrow> nat" where
  "level_rank LevelOff = 0"
| "level_rank LevelBasic = 1"
| "level_rank LevelVerbose = 2"
| "level_rank LevelFull = 3"

instantiation debug_log_level :: linorder
begin

definition less_eq_debug_log_level :: "debug_log_level \<Rightarrow> debug_log_level \<Rightarrow> bool" where
  "less_eq_debug_log_level a b \<longleftrightarrow> level_rank a \<le> level_rank b"

definition less_debug_log_level :: "debug_log_level \<Rightarrow> debug_log_level \<Rightarrow> bool" where
  "less_debug_log_level a b \<longleftrightarrow> level_rank a < level_rank b"

instance
proof
  fix a b c :: debug_log_level
  show "(a < b) = (a \<le> b \<and> \<not> b \<le> a)"
    by (auto simp: less_eq_debug_log_level_def less_debug_log_level_def)
  show "a \<le> a" by (simp add: less_eq_debug_log_level_def)
  show "a \<le> b \<Longrightarrow> b \<le> c \<Longrightarrow> a \<le> c" by (simp add: less_eq_debug_log_level_def)
  show "a \<le> b \<Longrightarrow> b \<le> a \<Longrightarrow> a = b"
    by (cases a; cases b) (simp_all add: less_eq_debug_log_level_def)
  show "a \<le> b \<or> b \<le> a" by (auto simp: less_eq_debug_log_level_def)
qed

end

end
