(* ===== verification/Spawn.thy ===== *)
theory Spawn
  imports Args ConfigTypes
begin

text \<open>
  The argument pipeline, second half (\<open>src/args/assembler.rs\<close>, \<open>env_builder.rs\<close>, \<open>pipeline.rs\<close>), and how
  \<open>src/ui/runtime.rs\<close> uses it for the first spawn and for the two restarts.  A builder method is a
  function on the list it builds.  The teammate shim is the path of its directory.
\<close>

section \<open>Assembling the arguments\<close>

datatype session_mode = SessInitial | SessResume

record arg_assembler =
  aa_args :: "string list"
  aa_copilot :: bool

fun passthrough_tokens :: "classified_arg \<Rightarrow> string list" where
  "passthrough_tokens (KnownPassthrough flag value) = flag # (case value of Some v \<Rightarrow> [v] | None \<Rightarrow> [])"
| "passthrough_tokens (UnknownPassthrough s) = [s]"
| "passthrough_tokens (Positional s) = [s]"
| "passthrough_tokens (WrapperOwned flag value) = []"
| "passthrough_tokens (Intercepted flag value) = []"

definition from_passthrough :: "classified_arg list \<Rightarrow> arg_assembler" where
  "from_passthrough cs = \<lparr>aa_args = concat (map passthrough_tokens cs), aa_copilot = False\<rparr>"

definition assembler_new :: arg_assembler where
  "assembler_new = \<lparr>aa_args = [], aa_copilot = False\<rparr>"

fun strip_claude_only_flags :: "string list \<Rightarrow> string list" where
  "strip_claude_only_flags [] = []"
| "strip_claude_only_flags [a] = (if a = ''--session-id'' then [] else [a])"
| "strip_claude_only_flags (a # b # r) =
     (if a = ''--session-id'' then strip_claude_only_flags r else a # strip_claude_only_flags (b # r))"

definition set_copilot_mode :: "bool \<Rightarrow> arg_assembler \<Rightarrow> arg_assembler" where
  "set_copilot_mode enabled a =
     \<lparr>aa_args = (if enabled then strip_claude_only_flags (aa_args a) else aa_args a), aa_copilot = enabled\<rparr>"

definition push_args :: "string list \<Rightarrow> arg_assembler \<Rightarrow> arg_assembler" where
  "push_args xs a = a\<lparr>aa_args := aa_args a @ xs\<rparr>"

definition with_session :: "session_resolution \<Rightarrow> session_mode \<Rightarrow> arg_assembler \<Rightarrow> arg_assembler" where
  "with_session s mode a =
     (if aa_copilot a then
        (case mode of SessResume \<Rightarrow> push_args [''--resume='' @ sr_session_id s] a | SessInitial \<Rightarrow> a)
      else (case mode of
              SessInitial \<Rightarrow> push_args [''--session-id'', sr_session_id s] a
            | SessResume \<Rightarrow> push_args [''--resume'', sr_session_id s] a))"

definition with_session_resume :: "string \<Rightarrow> arg_assembler \<Rightarrow> arg_assembler" where
  "with_session_resume i a =
     (if aa_copilot a then push_args [''--resume='' @ i] a else push_args [''--resume'', i] a)"

definition args_with_settings :: "settings_manager \<Rightarrow> arg_assembler \<Rightarrow> arg_assembler" where
  "args_with_settings m a = push_args (to_cli_args m) a"

definition with_teammate_mode :: "string option \<Rightarrow> arg_assembler \<Rightarrow> arg_assembler" where
  "with_teammate_mode shim a =
     (if aa_copilot a then a else if shim \<noteq> None then push_args [''--teammate-mode'', ''tmux''] a else a)"

definition hook_command :: "string \<Rightarrow> string \<Rightarrow> string" where
  \<open>hook_command port path =
     ''[{"matcher":"","hooks":[{"type":"command","command":"curl -s -m 5 -X POST http://127.0.0.1:'' @ port
     @ path @ '' -d @- -H 'Content-Type: application/json'"}]}]''\<close>

definition hooks_json :: "u16 \<Rightarrow> string" where
  \<open>hooks_json proxy_port =
     (let port = show_nat (unat proxy_port) in
      ''{"hooks":{"SubagentStart":'' @ hook_command port ''/api/subagent-start''
      @ '',"SubagentStop":'' @ hook_command port ''/api/subagent-stop'' @ ''}}'')\<close>

definition with_subagent_hooks :: "u16 \<Rightarrow> arg_assembler \<Rightarrow> arg_assembler" where
  "with_subagent_hooks proxy_port a =
     (if aa_copilot a then a else push_args [''--settings'', hooks_json proxy_port] a)"

section \<open>Building the environment\<close>

type_synonym env_set = "(string \<times> string) list"

definition with_proxy_url_for_mode :: "string \<Rightarrow> string \<Rightarrow> env_set \<Rightarrow> env_set" where
  "with_proxy_url_for_mode url proxy_env_var vars = vars @ [(proxy_env_var, url)]"

definition with_auth_bypass :: "bool \<Rightarrow> env_set \<Rightarrow> env_set" where
  "with_auth_bypass is_passthrough vars =
     (if is_passthrough then vars
      else vars @ [(''ANTHROPIC_AUTH_TOKEN'', ''anycode-proxy''), (''ANTHROPIC_API_KEY'', '''')])"

definition with_session_token :: "string \<Rightarrow> env_set \<Rightarrow> env_set" where
  "with_session_token token vars = vars @ [(''ANTHROPIC_CUSTOM_HEADERS'', ''x-session-token:'' @ token)]"

definition env_with_settings :: "settings_manager \<Rightarrow> env_set \<Rightarrow> env_set" where
  "env_with_settings m vars = vars @ to_env_vars m"

definition path_env :: "host \<Rightarrow> string \<Rightarrow> string \<times> string" where
  "path_env h dir =
     (let current = (case env_var h ''PATH'' of Some p \<Rightarrow> if str_valid p then p else [] | None \<Rightarrow> [])
      in (''PATH'', str_lossy dir @ '':'' @ current))"

definition with_shim :: "host \<Rightarrow> string option \<Rightarrow> env_set \<Rightarrow> env_set" where
  "with_shim h shim vars = (case shim of Some dir \<Rightarrow> vars @ [path_env h dir] | None \<Rightarrow> vars)"

definition provider_wire :: "string \<Rightarrow> string \<times> string option" where
  "provider_wire t =
     (if t = ''anthropic'' then (''anthropic'', None)
      else if t = ''openai'' \<or> t = ''openai-completions'' then (''openai'', Some ''completions'')
      else if t = ''openai-responses'' then (''openai'', Some ''responses'')
      else if t = ''azure'' \<or> t = ''azure-completions'' then (''azure'', Some ''completions'')
      else if t = ''azure-responses'' then (''azure'', Some ''responses'')
      else (''anthropic'', None))"

definition env_nonempty :: "host \<Rightarrow> string \<Rightarrow> bool" where
  "env_nonempty h k = (case env_var h k of Some v \<Rightarrow> v \<noteq> [] | None \<Rightarrow> False)"

definition default_model :: "string \<Rightarrow> string option \<Rightarrow> string" where
  "default_model ptype wire =
     (if ptype = ''anthropic'' then ''claude-sonnet-4-5''
      else if wire = Some ''responses'' then ''gpt-5'' else ''gpt-4o'')"

definition with_copilot_env :: "host \<Rightarrow> string \<Rightarrow> string \<Rightarrow> string \<Rightarrow> env_set \<Rightarrow> env_set" where
  "with_copilot_env h proxy_url session_token provider_type vars =
     (case provider_wire provider_type of (ptype, wire) \<Rightarrow>
        vars
        @ [(''COPILOT_OFFLINE'', ''true''), (''COPILOT_PROVIDER_BASE_URL'', proxy_url),
           (''COPILOT_PROVIDER_TYPE'', ptype), (''COPILOT_PROVIDER_API_KEY'', session_token)]
        @ (case wire of Some w \<Rightarrow> [(''COPILOT_PROVIDER_WIRE_API'', w)] | None \<Rightarrow> [])
        @ (if env_nonempty h ''COPILOT_MODEL'' \<or> env_nonempty h ''COPILOT_PROVIDER_MODEL_ID'' then []
           else [(''COPILOT_MODEL'', default_model ptype wire)])
        @ (case home_dir h of
             Some home \<Rightarrow> [(''COPILOT_HOME'', str_lossy (path_join home ''.config/anycode/copilot-home''))]
           | None \<Rightarrow> []))"

section \<open>The pipeline\<close>

record spawn_params =
  sp_command :: string
  sp_args :: "string list"
  sp_env :: env_set
  sp_session_id :: string
  sp_warnings :: "string list"

record spawn_request =
  rs_proxy_url :: string
  rs_proxy_env_var :: string
  rs_command :: string
  rs_session_token :: string
  rs_settings :: settings_manager
  rs_shim :: "string option"
  rs_proxy_port :: "u16 option"
  rs_is_passthrough :: bool
  rs_provider_type :: string

definition mode_of_source :: "session_source \<Rightarrow> session_mode" where
  "mode_of_source s =
     (case s of ContinueLast \<Rightarrow> SessResume | ResumeId \<Rightarrow> SessResume | ExplicitId \<Rightarrow> SessInitial | Generated \<Rightarrow> SessInitial)"

definition spawn_env :: "host \<Rightarrow> spawn_request \<Rightarrow> env_set" where
  "spawn_env h q =
     with_shim h (rs_shim q) (env_with_settings (rs_settings q)
       (if rs_proxy_env_var q = ''COPILOT_API_URL'' then
          with_copilot_env h (rs_proxy_url q) (rs_session_token q) (rs_provider_type q) []
        else
          with_session_token (rs_session_token q)
            (with_auth_bypass (rs_is_passthrough q)
              (with_proxy_url_for_mode (rs_proxy_url q) (rs_proxy_env_var q) []))))"

definition with_optional_hooks :: "u16 option \<Rightarrow> arg_assembler \<Rightarrow> arg_assembler" where
  "with_optional_hooks port a = (case port of Some p \<Rightarrow> with_subagent_hooks p a | None \<Rightarrow> a)"

definition spawn_args :: "spawn_request \<Rightarrow> classified_arg list \<Rightarrow> session_resolution \<Rightarrow> string list" where
  "spawn_args q cs s =
     aa_args (with_optional_hooks (rs_proxy_port q)
       (with_teammate_mode (rs_shim q)
         (args_with_settings (rs_settings q)
           (with_session s (mode_of_source (sr_source s))
             (set_copilot_mode (rs_proxy_env_var q = ''COPILOT_API_URL'') (from_passthrough cs))))))"

definition build_spawn_params ::
  "(string \<Rightarrow> json option) \<Rightarrow> host \<Rightarrow> string list \<Rightarrow> spawn_request \<Rightarrow> spawn_params" where
  "build_spawn_params jparse h raw q =
     (let classified = classify flag_registry raw;
          session = resolve_session jparse h (cr_args classified)
      in \<lparr>sp_command = rs_command q, sp_args = spawn_args q (cr_args classified) session,
          sp_env = spawn_env h q, sp_session_id = sr_session_id session,
          sp_warnings = cr_warnings classified @ sr_warnings session\<rparr>)"

definition build_restart_params ::
  "(string \<Rightarrow> json option) \<Rightarrow> host \<Rightarrow> string list \<Rightarrow> spawn_request \<Rightarrow> env_set \<Rightarrow> string list \<Rightarrow> spawn_params" where
  "build_restart_params jparse h raw q extra_env extra_args =
     (let classified = classify flag_registry raw;
          session = resolve_session jparse h (cr_args classified)
      in \<lparr>sp_command = rs_command q, sp_args = spawn_args q (cr_args classified) session @ extra_args,
          sp_env = spawn_env h q @ extra_env, sp_session_id = sr_session_id session,
          sp_warnings = cr_warnings classified @ sr_warnings session\<rparr>)"

section \<open>The runtime's use of it\<close>

definition mode_is_copilot :: "cli_mode \<Rightarrow> bool" where
  "mode_is_copilot m = (case m of ModeCopilot \<Rightarrow> True | ModeClaude \<Rightarrow> False)"

definition mode_binary :: "cli_mode \<Rightarrow> string" where
  "mode_binary m = (case m of ModeClaude \<Rightarrow> ''claude'' | ModeCopilot \<Rightarrow> ''copilot'')"

definition mode_proxy_env_var :: "cli_mode \<Rightarrow> string" where
  "mode_proxy_env_var m = (case m of ModeClaude \<Rightarrow> ''ANTHROPIC_BASE_URL'' | ModeCopilot \<Rightarrow> ''COPILOT_API_URL'')"

text \<open>After the proxy has bound its port, the entries named \<open>proxy_env_var\<close> get the actual address.\<close>

definition patch_proxy_url :: "string \<Rightarrow> string \<Rightarrow> env_set \<Rightarrow> env_set" where
  "patch_proxy_url proxy_env_var actual vars =
     map (\<lambda>(k, v). (k, if k = proxy_env_var then actual else v)) vars"

text \<open>The shim's \<open>PATH\<close> replaces the first entry of that name, or is appended.\<close>

fun replace_first :: "string \<Rightarrow> string \<Rightarrow> env_set \<Rightarrow> env_set option" where
  "replace_first k v [] = None"
| "replace_first k v ((k', v') # r) =
     (if k' = k then Some ((k', v) # r) else map_option (\<lambda>r'. (k', v') # r') (replace_first k v r))"

definition inject_path :: "host \<Rightarrow> string option \<Rightarrow> env_set \<Rightarrow> env_set" where
  "inject_path h shim vars =
     (case shim of
        None \<Rightarrow> vars
      | Some dir \<Rightarrow>
          (case path_env h dir of (k, v) \<Rightarrow>
             (case replace_first k v vars of Some vars' \<Rightarrow> vars' | None \<Rightarrow> vars @ [(k, v)])))"

record runtime_spawn =
  rt_mode :: cli_mode
  rt_config_url :: string
  rt_actual_url :: string
  rt_port :: u16
  rt_token :: string
  rt_settings :: settings_manager
  rt_shim :: "string option"
  rt_passthrough :: bool
  rt_wire_api :: string

definition runtime_request :: "runtime_spawn \<Rightarrow> string \<Rightarrow> string option \<Rightarrow> u16 option \<Rightarrow> spawn_request" where
  "runtime_request c url shim port =
     \<lparr>rs_proxy_url = url, rs_proxy_env_var = mode_proxy_env_var (rt_mode c), rs_command = mode_binary (rt_mode c),
      rs_session_token = rt_token c, rs_settings = rt_settings c, rs_shim = shim, rs_proxy_port = port,
      rs_is_passthrough = rt_passthrough c, rs_provider_type = rt_wire_api c\<rparr>"

definition first_spawn :: "(string \<Rightarrow> json option) \<Rightarrow> host \<Rightarrow> string list \<Rightarrow> runtime_spawn \<Rightarrow> spawn_params" where
  "first_spawn jparse h raw c =
     (let p = build_spawn_params jparse h raw (runtime_request c (rt_config_url c) None None)
      in p\<lparr>sp_args := sp_args p
             @ (if mode_is_copilot (rt_mode c) then [] else aa_args (with_subagent_hooks (rt_port c) assembler_new)),
           sp_env := inject_path h (rt_shim c)
             (patch_proxy_url (mode_proxy_env_var (rt_mode c)) (rt_actual_url c) (sp_env p))\<rparr>)"

text \<open>Ctrl+R: the same environment, and the running session resumed.\<close>

definition restart_claude :: "host \<Rightarrow> string list \<Rightarrow> runtime_spawn \<Rightarrow> string \<Rightarrow> spawn_params" where
  "restart_claude h raw c current_session =
     (let classified = classify flag_registry raw
      in \<lparr>sp_command = mode_binary (rt_mode c),
          sp_args = aa_args (with_subagent_hooks (rt_port c)
            (with_teammate_mode (rt_shim c)
              (args_with_settings (rt_settings c)
                (with_session_resume current_session
                  (set_copilot_mode (mode_is_copilot (rt_mode c)) (from_passthrough (cr_args classified))))))),
          sp_env = with_shim h (rt_shim c) (env_with_settings (rt_settings c)
            (if mode_is_copilot (rt_mode c) then with_copilot_env h (rt_actual_url c) (rt_token c) (rt_wire_api c) []
             else with_session_token (rt_token c) (with_auth_bypass (rt_passthrough c)
                    (with_proxy_url_for_mode (rt_actual_url c) (mode_proxy_env_var (rt_mode c)) [])))),
          sp_session_id = current_session, sp_warnings = cr_warnings classified\<rparr>)"

text \<open>Applying settings restarts with \<open>build_restart_params\<close> on the same raw arguments.\<close>

definition restart_settings ::
  "(string \<Rightarrow> json option) \<Rightarrow> host \<Rightarrow> string list \<Rightarrow> runtime_spawn \<Rightarrow> env_set \<Rightarrow> string list \<Rightarrow> spawn_params" where
  "restart_settings jparse h raw c env_vars cli_args =
     build_restart_params jparse h raw (runtime_request c (rt_actual_url c) (rt_shim c) (Some (rt_port c))) env_vars cli_args"

text \<open>The child sees the last entry of a name: each is set in turn.\<close>

definition child_env :: "env_set \<Rightarrow> string \<Rightarrow> string option" where
  "child_env vars k = map_of (rev vars) k"

end
