(* ===== verification/SpawnProps.thy ===== *)
theory SpawnProps
  imports Spawn
begin

text \<open>
  What the child process is started with: the classification loses no argument, the last session flag
  wins, exactly one session flag is passed on, the environment holds the proxy's address and no real
  credential, and what the two restarts do with the session.
\<close>

section \<open>Classification\<close>

definition normalize_flag :: "flag_def list \<Rightarrow> string \<Rightarrow> string" where
  "normalize_flag reg a =
     (if looks_like_flag a then (case find (flag_matches a) reg of Some d \<Rightarrow> fl_long d | None \<Rightarrow> a) else a)"

definition opt_list :: "'a option \<Rightarrow> 'a list" where
  "opt_list v = (case v of Some x \<Rightarrow> [x] | None \<Rightarrow> [])"

lemma opt_list_simps [simp]: "opt_list None = []" "opt_list (Some x) = [x]"
  by (simp_all add: opt_list_def)

fun arg_tokens :: "classified_arg \<Rightarrow> string list" where
  "arg_tokens (WrapperOwned f v) = f # opt_list v"
| "arg_tokens (Intercepted f v) = f # opt_list v"
| "arg_tokens (KnownPassthrough f v) = f # opt_list v"
| "arg_tokens (UnknownPassthrough s) = [s]"
| "arg_tokens (Positional s) = [s]"

lemma take_value_split:
  assumes "take_value d rest = (v, rest', ws)"
  shows "rest = opt_list v @ rest' \<and> (\<forall>x \<in> set (opt_list v). \<not> looks_like_flag x)"
  using assms by (auto simp: take_value_def split: flag_arity.splits list.splits if_splits)

lemma tokens_classified_flag [simp]: "arg_tokens (classified_flag d v) = fl_long d # opt_list v"
  by (simp add: classified_flag_def split: flag_behavior.split)

lemma normalize_value [simp]: "\<not> looks_like_flag x \<Longrightarrow> normalize_flag reg x = x"
  by (simp add: normalize_flag_def)

lemma classify_one_tokens:
  assumes "classify_one reg arg rest = (cs, rest', ws)"
  shows "map (normalize_flag reg) (arg # rest) = concat (map arg_tokens cs) @ map (normalize_flag reg) rest'"
proof (cases "looks_like_flag arg")
  case False
  then show ?thesis using assms by (auto simp: classify_one_def)
next
  case flag: True
  show ?thesis
  proof (cases "find (flag_matches arg) reg")
    case None
    then have "normalize_flag reg arg = arg" by (simp add: normalize_flag_def)
    then show ?thesis using assms flag None by (auto simp: classify_one_def Let_def split: list.splits if_splits)
  next
    case (Some d)
    obtain v where tv: "take_value d rest = (v, rest', ws)" and cs: "cs = [classified_flag d v]"
      using assms flag Some by (auto simp: classify_one_def split: prod.splits)
    have "normalize_flag reg arg = fl_long d" using flag Some by (simp add: normalize_flag_def)
    moreover have "map (normalize_flag reg) (opt_list v) = opt_list v"
      using take_value_split[OF tv] by (auto simp: opt_list_def split: option.splits)
    ultimately show ?thesis using take_value_split[OF tv] cs by simp
  qed
qed

text \<open>The classifier loses nothing: read back in order, the classified arguments are the raw arguments with
  every known alias replaced by its long form; no value that looks like a flag is ever consumed.\<close>

theorem classify_lossless:
  "concat (map arg_tokens (cr_args (classify reg raw))) = map (normalize_flag reg) raw"
proof (induction reg raw rule: classify.induct)
  case (1 reg)
  then show ?case by simp
next
  case (2 reg arg rest)
  obtain cs rest' ws where c: "classify_one reg arg rest = (cs, rest', ws)" by (cases "classify_one reg arg rest")
  show ?case using 2[OF c[symmetric] refl] classify_one_tokens[OF c] c by (simp add: Let_def)
qed

text \<open>What every argument of one turn satisfies, every classified argument satisfies.\<close>

lemma classify_all:
  assumes "\<And>arg rest cs rest' ws c. classify_one reg arg rest = (cs, rest', ws) \<Longrightarrow> c \<in> set cs \<Longrightarrow> P c"
  shows "\<forall>c \<in> set (cr_args (classify reg raw)). P c"
  using assms
proof (induction reg raw rule: classify.induct)
  case (1 reg)
  then show ?case by simp
next
  case (2 reg arg rest)
  obtain cs rest' ws where c: "classify_one reg arg rest = (cs, rest', ws)" by (cases "classify_one reg arg rest")
  have "\<forall>c \<in> set (cr_args (classify reg rest')). P c"
    using 2(1)[OF c[symmetric] refl] 2(2) by blast
  then show ?case using 2(2)[OF c] c by (auto simp: Let_def)
qed

section \<open>The session flags\<close>

fun session_choice :: "classified_arg \<Rightarrow> (string \<times> session_source) option" where
  "session_choice (Intercepted f (Some i)) =
     (if f = ''--session-id'' then Some (i, ExplicitId) else if f = ''--resume'' then Some (i, ResumeId) else None)"
| "session_choice _ = None"

definition asks_continue :: "classified_arg list \<Rightarrow> bool" where
  "asks_continue as = (\<exists>v. Intercepted ''--continue'' v \<in> set as)"

lemma scan_session_last:
  "\<exists>ws'. fold scan_session as (found, saw, ws)
     = ((case List.map_filter session_choice as of [] \<Rightarrow> found | ids \<Rightarrow> Some (last ids)),
        saw \<or> asks_continue as, ws')"
proof (induction as arbitrary: found saw ws)
  case Nil
  then show ?case by (simp add: asks_continue_def map_filter_def)
next
  case (Cons a as)
  obtain found' saw' ws' where st: "scan_session a (found, saw, ws) = (found', saw', ws')"
    by (cases "scan_session a (found, saw, ws)")
  have f: "found' = (case session_choice a of Some c \<Rightarrow> Some c | None \<Rightarrow> found)"
    and s: "saw' = (saw \<or> asks_continue [a])"
    using st by (cases a rule: session_choice.cases; auto simp: asks_continue_def split: if_splits)+
  have "asks_continue (a # as) = (asks_continue [a] \<or> asks_continue as)" by (auto simp: asks_continue_def)
  then show ?case
    using Cons.IH[of found' saw' ws'] st f s
    by (auto simp: map_filter_def split: option.splits list.splits)
qed

lemma session_resolved:
  "let r = resolve_session jparse h as; ids = List.map_filter session_choice as in
     (sr_session_id r, sr_source r) =
       (if ids \<noteq> [] then last ids
        else (case (if asks_continue as then read_last_session_id jparse h else None) of
                Some i \<Rightarrow> (i, ContinueLast)
              | None \<Rightarrow> (fresh_uuid h, Generated)))"
  using scan_session_last[of as None False "[]"]
  by (auto simp: resolve_session_def Let_def split: option.splits list.splits prod.splits)

text \<open>The last session flag with a value decides, an explicit choice beats \<open>--continue\<close>, and without any of
  them, or when \<open>--continue\<close> finds no session, the session is new.\<close>

theorem session_last_wins:
  "let r = resolve_session jparse h as; ids = List.map_filter session_choice as in
     (sr_session_id r, sr_source r) =
       (if ids \<noteq> [] then last ids
        else (case (if asks_continue as then read_last_session_id jparse h else None) of
                Some i \<Rightarrow> (i, ContinueLast)
              | None \<Rightarrow> (fresh_uuid h, Generated)))"
  by (rule session_resolved)

section \<open>The arguments of the child\<close>

definition is_session_token :: "string \<Rightarrow> bool" where
  "is_session_token a \<longleftrightarrow> a \<in> set [''--session-id'', ''--resume'', ''-r'', ''--continue'', ''-c'']"

lemma session_token_is_flag: "is_session_token a \<Longrightarrow> looks_like_flag a"
  by (auto simp: is_session_token_def looks_like_flag_def str_starts_iff)

lemma registry_session_tokens:
  "d \<in> set flag_registry \<Longrightarrow> flag_matches a d \<Longrightarrow> fl_behavior d = BehPassthrough \<Longrightarrow> \<not> is_session_token (fl_long d)"
  "is_session_token a \<Longrightarrow> find (flag_matches a) flag_registry \<noteq> None"
  by (auto simp: flag_registry_def mk_flag_def is_session_token_def flag_matches_def)

text \<open>No session flag of the user passes through: each is consumed by the wrapper.\<close>

lemma passthrough_clean:
  "\<forall>c \<in> set (cr_args (classify flag_registry raw)). \<forall>t \<in> set (passthrough_tokens c). \<not> is_session_token t"
proof (rule classify_all)
  fix arg rest cs rest' ws c
  assume one: "classify_one flag_registry arg rest = (cs, rest', ws)" and c: "c \<in> set cs"
  show "\<forall>t \<in> set (passthrough_tokens c). \<not> is_session_token t"
  proof (cases "looks_like_flag arg")
    case False
    then show ?thesis using one c session_token_is_flag by (auto simp: classify_one_def)
  next
    case flag: True
    show ?thesis
    proof (cases "find (flag_matches arg) flag_registry")
      case None
      then have "\<not> is_session_token arg" using registry_session_tokens(2) by blast
      then show ?thesis using one c flag None session_token_is_flag
        by (auto simp: classify_one_def Let_def split: list.splits if_splits)
    next
      case (Some d)
      then have d: "d \<in> set flag_registry" "flag_matches arg d" by (auto simp: find_Some_iff)
      obtain v where tv: "take_value d rest = (v, rest', ws)" and cs: "cs = [classified_flag d v]"
        using one flag Some by (auto simp: classify_one_def split: prod.splits)
      have v: "\<forall>x \<in> set (opt_list v). \<not> is_session_token x"
        using take_value_split[OF tv] session_token_is_flag by blast
      show ?thesis
        using c cs v registry_session_tokens(1)[OF d]
        by (cases "fl_behavior d") (auto simp: classified_flag_def opt_list_def split: option.splits)
    qed
  qed
qed

lemma strip_clean: "set (strip_claude_only_flags xs) \<subseteq> set xs"
  by (induction xs rule: strip_claude_only_flags.induct) auto

lemma from_passthrough_clean:
  "filter is_session_token (aa_args (from_passthrough (cr_args (classify flag_registry raw)))) = []"
  using passthrough_clean[of raw] by (auto simp: from_passthrough_def filter_empty_conv)

lemma builtin_no_flags: "sm_registry m = builtin_registry \<Longrightarrow> to_cli_args m = []"
  by (simp add: to_cli_args_def builtin_registry_def map_filter_def)

lemma hooks_no_flag: "\<not> is_session_token (hooks_json p)" "\<not> is_session_token ''--settings''"
    "\<not> is_session_token ''--teammate-mode''" "\<not> is_session_token ''tmux''"
  by (simp_all add: is_session_token_def hooks_json_def Let_def)

definition session_flag :: "session_source \<Rightarrow> string" where
  "session_flag src = (case mode_of_source src of SessInitial \<Rightarrow> ''--session-id'' | SessResume \<Rightarrow> ''--resume'')"

lemma session_flag_token: "is_session_token (session_flag src)"
  by (simp add: session_flag_def is_session_token_def split: session_mode.split)

text \<open>The tail every assembled list shares: hooks and teammate mode hold no session flag.\<close>

lemma spawn_args_claude:
  assumes "rs_proxy_env_var q \<noteq> ''COPILOT_API_URL''" "sm_registry (rs_settings q) = builtin_registry"
  shows "\<exists>tl. spawn_args q cs s = aa_args (from_passthrough cs) @ [session_flag (sr_source s), sr_session_id s] @ tl
            \<and> filter is_session_token tl = []"
  using assms hooks_no_flag
  by (auto simp: spawn_args_def with_optional_hooks_def with_subagent_hooks_def with_teammate_mode_def
      args_with_settings_def with_session_def set_copilot_mode_def push_args_def from_passthrough_def
      builtin_no_flags session_flag_def split: option.split session_mode.split)

text \<open>The child is told its session exactly once: in Claude mode the arguments hold one session flag,
  followed by the resolved identifier, and every session flag the user gave is consumed.\<close>

theorem child_gets_one_session:
  assumes "rs_proxy_env_var q \<noteq> ''COPILOT_API_URL''" "sm_registry (rs_settings q) = builtin_registry"
  shows "\<exists>a b. sp_args (build_spawn_params jparse h raw q)
         = a @ [session_flag (sr_source (resolve_session jparse h (cr_args (classify flag_registry raw)))),
                sp_session_id (build_spawn_params jparse h raw q)] @ b
         \<and> filter is_session_token (a @ b) = []"
proof -
  let ?cs = "cr_args (classify flag_registry raw)"
  obtain tl where tl: "spawn_args q ?cs (resolve_session jparse h ?cs)
      = aa_args (from_passthrough ?cs)
        @ [session_flag (sr_source (resolve_session jparse h ?cs)), sr_session_id (resolve_session jparse h ?cs)] @ tl"
    "filter is_session_token tl = []"
    using spawn_args_claude[OF assms(1,2)] by blast
  then show ?thesis
    using from_passthrough_clean[of raw]
    by (intro exI[of _ "aa_args (from_passthrough ?cs)"] exI[of _ tl]) (simp add: build_spawn_params_def Let_def)
qed

definition bare_host :: host where
  "bare_host = \<lparr>home_dir = None, current_dir = None, read_file = (\<lambda>_. None), env_var = (\<lambda>_. None), fresh_uuid = ''u-1''\<rparr>"

definition demo_spawn :: runtime_spawn where
  "demo_spawn = \<lparr>rt_mode = ModeClaude, rt_config_url = ''http://127.0.0.1:4711'', rt_actual_url = ''http://127.0.0.1:9'',
     rt_port = 9, rt_token = ''tok'', rt_settings = new_settings, rt_shim = Some ''/tmp/s'', rt_passthrough = False,
     rt_wire_api = ''anthropic''\<rparr>"

theorem child_gets_one_session_witness:
  "\<exists>a b. sp_args (build_spawn_params (\<lambda>_. None) bare_host [''-m'', ''opus'', ''-r'', ''s1'', ''--resume'', ''s2'', ''-c'']
          (runtime_request demo_spawn ''http://x'' None (Some 9))) = a @ [''--resume'', ''s2''] @ b
     \<and> filter is_session_token (a @ b) = []"
proof -
  let ?q = "runtime_request demo_spawn ''http://x'' None (Some 9)"
  let ?raw = "[''-m'', ''opus'', ''-r'', ''s1'', ''--resume'', ''s2'', ''-c'']"
  have "rs_proxy_env_var ?q \<noteq> ''COPILOT_API_URL''" "sm_registry (rs_settings ?q) = builtin_registry"
    by (simp_all add: runtime_request_def demo_spawn_def mode_proxy_env_var_def new_settings_def)
  moreover have "session_flag (sr_source (resolve_session (\<lambda>_. None) bare_host (cr_args (classify flag_registry ?raw)))) = ''--resume''"
    by code_simp
  moreover have "sp_session_id (build_spawn_params (\<lambda>_. None) bare_host ?raw ?q) = ''s2''" by code_simp
  ultimately show ?thesis
    using child_gets_one_session[of ?q "\<lambda>_. None" bare_host ?raw] by metis
qed

section \<open>The environment of the child\<close>

lemma child_env_snoc: "child_env (vars @ [(k, v)]) x = (if x = k then Some v else child_env vars x)"
  by (simp add: child_env_def)

lemma child_env_list:
  "child_env [] x = None"
  "child_env ((k, v) # r) x = (case child_env r x of Some w \<Rightarrow> Some w | None \<Rightarrow> if x = k then Some v else None)"
  "child_env (a @ r) x = (case child_env r x of Some w \<Rightarrow> Some w | None \<Rightarrow> child_env a x)"
  by (simp_all add: child_env_def map_add_def split: option.split)

lemma child_env_settings:
  "sm_registry m = builtin_registry \<Longrightarrow> x \<noteq> ''CLAUDE_CODE_EXPERIMENTAL_AGENT_TEAMS'' \<Longrightarrow>
   child_env (env_with_settings m vars) x = child_env vars x"
  by (simp add: env_with_settings_def to_env_vars_def builtin_registry_def map_filter_def child_env_def)

lemma child_env_shim: "x \<noteq> ''PATH'' \<Longrightarrow> child_env (with_shim h shim vars) x = child_env vars x"
  by (auto simp: with_shim_def path_env_def Let_def child_env_snoc split: option.splits)

lemma child_env_patch:
  "child_env (patch_proxy_url k url vars) x = (if x = k then map_option (\<lambda>_. url) (child_env vars x) else child_env vars x)"
proof -
  have "map_of (map (\<lambda>(k', v). (k', if k' = k then url else v)) ws) x
      = (if x = k then map_option (\<lambda>_. url) (map_of ws x) else map_of ws x)" for ws
    by (induction ws) auto
  from this[of "rev vars"] show ?thesis by (simp add: child_env_def patch_proxy_url_def rev_map)
qed

lemma replace_first_other:
  "replace_first k v vars = Some vars' \<Longrightarrow> x \<noteq> k \<Longrightarrow> map_of (rev vars') x = map_of (rev vars) x"
  by (induction k v vars arbitrary: vars' rule: replace_first.induct) (auto simp: map_add_def split: if_splits option.splits)

lemma child_env_inject_path: "x \<noteq> ''PATH'' \<Longrightarrow> child_env (inject_path h shim vars) x = child_env vars x"
  by (auto simp: inject_path_def path_env_def Let_def child_env_def dest: replace_first_other split: option.splits)

text \<open>The child talks to the proxy and holds no real credential: for a backend with its own credentials the
  first process gets the proxy's bound address, the session token, a placeholder token and an empty
  API key, whatever the user's environment holds.\<close>

theorem child_environment:
  assumes "rt_mode c = ModeClaude" "sm_registry (rt_settings c) = builtin_registry" "\<not> rt_passthrough c"
  shows "child_env (sp_env (first_spawn jparse h raw c)) ''ANTHROPIC_BASE_URL'' = Some (rt_actual_url c)
       \<and> child_env (sp_env (first_spawn jparse h raw c)) ''ANTHROPIC_CUSTOM_HEADERS'' = Some (''x-session-token:'' @ rt_token c)
       \<and> child_env (sp_env (first_spawn jparse h raw c)) ''ANTHROPIC_AUTH_TOKEN'' = Some ''anycode-proxy''
       \<and> child_env (sp_env (first_spawn jparse h raw c)) ''ANTHROPIC_API_KEY'' = Some []"
  using assms
  by (simp add: first_spawn_def build_spawn_params_def Let_def child_env_inject_path child_env_patch spawn_env_def
      child_env_shim child_env_settings runtime_request_def mode_proxy_env_var_def with_session_token_def
      with_auth_bypass_def with_proxy_url_for_mode_def child_env_list)

theorem child_environment_witness:
  "child_env (sp_env (first_spawn (\<lambda>_. None) bare_host [''-v''] demo_spawn)) ''ANTHROPIC_BASE_URL'' = Some ''http://127.0.0.1:9''"
  using child_environment[of demo_spawn "\<lambda>_. None" bare_host "[''-v'']"]
  by (simp add: demo_spawn_def new_settings_def)

text \<open>In Copilot mode the first process keeps the configured address: the entry that gets the bound address
  is not the one Copilot reads, so when the proxy binds another port the child cannot reach it.\<close>

theorem copilot_url_not_patched:
  assumes "rt_mode c = ModeCopilot" "sm_registry (rt_settings c) = builtin_registry"
  shows "child_env (sp_env (first_spawn jparse h raw c)) ''COPILOT_PROVIDER_BASE_URL'' = Some (rt_config_url c)"
  using assms
  by (simp add: first_spawn_def build_spawn_params_def Let_def child_env_inject_path child_env_patch spawn_env_def
      child_env_shim child_env_settings runtime_request_def mode_proxy_env_var_def with_copilot_env_def
      child_env_list split: prod.split option.split)

theorem copilot_url_not_patched_witness:
  "child_env (sp_env (first_spawn (\<lambda>_. None) bare_host [] (demo_spawn\<lparr>rt_mode := ModeCopilot\<rparr>))) ''COPILOT_PROVIDER_BASE_URL''
     = Some ''http://127.0.0.1:4711''"
  using copilot_url_not_patched[of "demo_spawn\<lparr>rt_mode := ModeCopilot\<rparr>" "\<lambda>_. None" bare_host "[]"]
  by (simp add: demo_spawn_def new_settings_def)

section \<open>Restarts\<close>

text \<open>Ctrl+R resumes the running session, but a restart to apply settings starts a new one: without session
  flags in the raw arguments it passes \<open>--session-id\<close> with a fresh identifier and no \<open>--resume\<close>.\<close>

theorem settings_restart_forgets_session:
  assumes "rt_mode c = ModeClaude" "sm_registry (rt_settings c) = builtin_registry"
    and "List.map_filter session_choice (cr_args (classify flag_registry raw)) = []"
    and "\<not> asks_continue (cr_args (classify flag_registry raw))"
  shows "(\<exists>a b. sp_args (restart_claude h raw c current) = a @ [''--resume'', current] @ b \<and> filter is_session_token (a @ b) = [])
       \<and> (\<exists>a b. sp_args (restart_settings jparse h raw c env []) = a @ [''--session-id'', fresh_uuid h] @ b
               \<and> filter is_session_token (a @ b) = [])"
proof -
  let ?cs = "cr_args (classify flag_registry raw)"
  let ?q = "runtime_request c (rt_actual_url c) (rt_shim c) (Some (rt_port c))"
  have s: "sr_session_id (resolve_session jparse h ?cs) = fresh_uuid h \<and> sr_source (resolve_session jparse h ?cs) = Generated"
    using session_resolved[of jparse h ?cs] assms(3,4) by (simp add: Let_def)
  obtain tl where tl: "spawn_args ?q ?cs (resolve_session jparse h ?cs)
      = aa_args (from_passthrough ?cs) @ [''--session-id'', fresh_uuid h] @ tl" "filter is_session_token tl = []"
    using spawn_args_claude[of ?q ?cs "resolve_session jparse h ?cs"] assms(1,2) s
    by (auto simp: runtime_request_def mode_proxy_env_var_def session_flag_def mode_of_source_def)
  have "\<exists>a b. sp_args (restart_settings jparse h raw c env []) = a @ [''--session-id'', fresh_uuid h] @ b
               \<and> filter is_session_token (a @ b) = []"
    using tl from_passthrough_clean[of raw]
    by (intro exI[of _ "aa_args (from_passthrough ?cs)"] exI[of _ tl])
      (simp add: restart_settings_def build_restart_params_def Let_def)
  moreover have "\<exists>b. sp_args (restart_claude h raw c current) = aa_args (from_passthrough ?cs) @ [''--resume'', current] @ b
      \<and> filter is_session_token b = []"
    using assms(1,2) hooks_no_flag
    by (auto simp: restart_claude_def with_subagent_hooks_def with_teammate_mode_def args_with_settings_def
        with_session_resume_def set_copilot_mode_def push_args_def from_passthrough_def builtin_no_flags mode_is_copilot_def Let_def)
  ultimately show ?thesis using from_passthrough_clean[of raw] by fastforce
qed

theorem settings_restart_forgets_session_witness:
  "\<exists>a b. sp_args (restart_settings (\<lambda>_. None) bare_host [''-v''] demo_spawn [] []) = a @ [''--session-id'', ''u-1''] @ b
         \<and> filter is_session_token (a @ b) = []"
proof -
  have "List.map_filter session_choice (cr_args (classify flag_registry [''-v''])) = []"
    "\<not> asks_continue (cr_args (classify flag_registry [''-v'']))"
    by (simp_all add: classify_one_def looks_like_flag_def str_starts_def flag_registry_def flag_matches_def
        mk_flag_def take_value_def classified_flag_def map_filter_def asks_continue_def Let_def)
  then show ?thesis
    using settings_restart_forgets_session[of demo_spawn "[''-v'']" bare_host "''s''" "\<lambda>_. None" "[]"]
    by (simp add: demo_spawn_def new_settings_def bare_host_def)
qed

end
