(* ===== verification/Float64.thy ===== *)
theory Float64
  imports Complex_Main Prelude
begin

text \<open>
  The part of \<open>f64\<close> the metrics use: the double nearest to a positive ratio (round half to even), which
  covers the conversion of an integer, the quotient of two integers below \<open>2 ^ 53\<close> and the product of
  an integer and a double constant, and \<open>f64::round\<close> on the result.  A positive normal double is its
  53-bit significand and its exponent; subnormals and overflow cannot arise from the values here.
\<close>

fun bit_length :: "nat \<Rightarrow> nat" where
  "bit_length n = (if n = 0 then 0 else Suc (bit_length (n div 2)))"

declare bit_length.simps [simp del]

definition rne :: "nat \<Rightarrow> nat \<Rightarrow> nat" where
  "rne a b = (let q = a div b; r = a mod b in if 2 * r > b \<or> 2 * r = b \<and> odd q then q + 1 else q)"

definition scaled :: "nat \<Rightarrow> nat \<Rightarrow> int \<Rightarrow> nat \<times> nat" where
  "scaled a b e = (if 0 \<le> e then (a, b * 2 ^ nat e) else (a * 2 ^ nat (- e), b))"

definition f64_exp :: "nat \<Rightarrow> nat \<Rightarrow> int" where
  "f64_exp a b =
     (let e = int (bit_length a) - int (bit_length b) - 53
      in case scaled a b e of (n, d) \<Rightarrow> if n < 2 ^ 53 * d then e else e + 1)"

definition f64_sig :: "nat \<Rightarrow> nat \<Rightarrow> nat" where
  "f64_sig a b = (case scaled a b (f64_exp a b) of (n, d) \<Rightarrow> rne n d)"

text \<open>The bits of the double nearest to \<open>a / b\<close>.\<close>

definition f64_ratio :: "nat \<Rightarrow> nat \<Rightarrow> 64 word" where
  "f64_ratio a b = (if a = 0 then 0 else word_of_int ((f64_exp a b + 1074) * 2 ^ 52 + int (f64_sig a b)))"

text \<open>An integer as a double, read back as an integer.\<close>

definition to_f64 :: "nat \<Rightarrow> nat" where
  "to_f64 n = (if n < 2 ^ 53 then n else f64_sig n 1 * 2 ^ nat (f64_exp n 1))"

text \<open>\<open>f64::round\<close> (half away from zero) of the double nearest to \<open>a / b\<close>, as an integer.\<close>

definition f64_round :: "nat \<Rightarrow> nat \<Rightarrow> nat" where
  "f64_round a b =
     (if a = 0 then 0
      else let q = f64_sig a b; e = f64_exp a b in
        if 0 \<le> e then q * 2 ^ nat e else (q + 2 ^ nat (- e - 1)) div 2 ^ nat (- e))"

section \<open>Accuracy\<close>

lemma bit_length_bounds: "0 < n \<Longrightarrow> 2 ^ (bit_length n - 1) \<le> n \<and> n < 2 ^ bit_length n \<and> 0 < bit_length n"
proof (induction n rule: bit_length.induct)
  case (1 n)
  show ?case
  proof (cases "n div 2 = 0")
    case True
    then have "n = 1" using 1 by simp
    then show ?thesis by (simp add: bit_length.simps)
  next
    case False
    then have IH: "2 ^ (bit_length (n div 2) - 1) \<le> n div 2" "n div 2 < 2 ^ bit_length (n div 2)" "0 < bit_length (n div 2)"
      using 1 by auto
    have b: "bit_length n = Suc (bit_length (n div 2))" using 1(2) by (subst bit_length.simps) simp
    have "2 ^ bit_length (n div 2) = 2 * (2::nat) ^ (bit_length (n div 2) - 1)"
      using IH(3) by (simp flip: power_Suc)
    then have "2 ^ bit_length (n div 2) \<le> n" using IH(1) by linarith
    moreover have "n < 2 * 2 ^ bit_length (n div 2)" using IH(2) by linarith
    ultimately show ?thesis by (simp add: b)
  qed
qed

lemma rne_le: "0 < b \<Longrightarrow> a \<le> N * b \<Longrightarrow> rne a b \<le> N"
proof -
  assume b: "0 < b" and a: "a \<le> N * b"
  have q: "a div b \<le> N" using a b by (metis div_le_mono nonzero_mult_div_cancel_right less_not_refl2)
  show ?thesis
  proof (cases "a div b = N")
    case True
    then have "a = N * b" using a by (metis div_mult_mod_eq le_antisym le_add1)
    then show ?thesis using b by (simp add: rne_def)
  next
    case False
    then show ?thesis using q by (auto simp: rne_def Let_def)
  qed
qed

lemma rne_ge: "0 < b \<Longrightarrow> N * b \<le> a \<Longrightarrow> N \<le> rne a b"
  by (auto simp: rne_def Let_def less_eq_div_iff_mult_less_eq intro: le_SucI)

lemma rne_mono:
  assumes "0 < b" "0 < d" "a * d \<le> c * b"
  shows "rne a b \<le> rne c d"
proof -
  let ?q = "a div b" and ?r = "a mod b" and ?p = "c div d" and ?s = "c mod d"
  have ab: "a = ?q * b + ?r" "?r < b" and cd: "c = ?p * d + ?s" "?s < d" using assms(1,2) by simp_all
  have qp: "?q \<le> ?p"
  proof -
    have "?q * b * d \<le> c * b" using assms(3) ab(1) by (metis le_add1 le_trans mult_le_mono1)
    then have "?q * d \<le> c" using assms(1) by (simp add: ac_simps)
    then show ?thesis using assms(2) by (simp add: less_eq_div_iff_mult_less_eq)
  qed
  show ?thesis
  proof (cases "?q = ?p")
    case False
    then have "rne a b \<le> ?p" using qp by (auto simp: rne_def Let_def)
    then show ?thesis by (auto simp: rne_def Let_def)
  next
    case True
    have rs: "?r * d \<le> ?s * b"
    proof -
      have "(?q * b + ?r) * d \<le> (?q * d + ?s) * b" using assms(3) ab(1) cd(1) True by metis
      then have "?q * b * d + ?r * d \<le> ?q * d * b + ?s * b" by (simp only: add_mult_distrib)
      moreover have "?q * b * d = ?q * d * b" by (simp only: ac_simps)
      ultimately show ?thesis by (simp only: add_le_cancel_left)
    qed
    have up: "2 * ?s > d \<or> 2 * ?s = d \<and> 2 * ?r = b" if "2 * ?r \<ge> b"
    proof -
      have "b * d \<le> 2 * (?r * d)" using that by (metis mult.assoc mult_le_mono1)
      then have ge: "b * d \<le> (2 * ?s) * b" using rs by linarith
      then have "d \<le> 2 * ?s" using assms(1) by (simp add: ac_simps)
      moreover have "2 * ?r = b" if eq: "2 * ?s = d"
      proof -
        have "2 * (?r * d) \<le> d * b" using rs eq by (metis mult.assoc mult_le_mono2)
        then have "2 * ?r * d \<le> b * d" by (simp add: ac_simps)
        then have "2 * ?r \<le> b" using assms(2) by simp
        then show ?thesis using \<open>2 * ?r \<ge> b\<close> by simp
      qed
      ultimately show ?thesis by (cases "2 * ?s = d") auto
    qed
    show ?thesis using up True by (auto simp: rne_def Let_def)
  qed
qed

text \<open>In the reals: the scaled ratio, the exponent's defining bounds, the value of the double.\<close>

lemma scaled_real:
  assumes "0 < b" "scaled a b e = (n, d)"
  shows "0 < d" "real n / real d = real a / real b * 2 powi (- e)"
proof -
  show "0 < d" using assms by (auto simp: scaled_def split: if_splits)
  show "real n / real d = real a / real b * 2 powi (- e)"
  proof (cases "0 \<le> e")
    case True
    then show ?thesis using assms by (auto simp: scaled_def power_int_def field_simps)
  next
    case False
    then show ?thesis using assms by (auto simp: scaled_def power_int_def field_simps)
  qed
qed

lemma ratio_bounds:
  assumes "0 < a" "0 < b"
  shows "2 powi (int (bit_length a) - int (bit_length b) - 1) < real a / real b"
    "real a / real b < 2 powi (int (bit_length a) - int (bit_length b) + 1)"
proof -
  let ?k = "bit_length a" and ?l = "bit_length b"
  have a: "2 ^ (?k - 1) \<le> real a" "real a < 2 ^ ?k" "0 < ?k"
    using bit_length_bounds[OF assms(1)] by (simp_all flip: of_nat_le_iff of_nat_less_iff)
  have b: "2 ^ (?l - 1) \<le> real b" "real b < 2 ^ ?l" "0 < ?l"
    using bit_length_bounds[OF assms(2)] by (simp_all flip: of_nat_le_iff of_nat_less_iff)
  have "2 powi (int ?k - int ?l - 1) = (2::real) ^ (?k - 1) / 2 ^ ?l"
    using a(3) by (simp add: power_int_diff of_nat_diff flip: power_int_of_nat)
  moreover have "(2::real) ^ (?k - 1) / 2 ^ ?l < real a / real b"
    using a(1) b(2) assms by (intro frac_less2) auto
  ultimately show "2 powi (int ?k - int ?l - 1) < real a / real b" by simp
  have "2 powi (int ?k - int ?l + 1) = (2::real) ^ ?k / 2 ^ (?l - 1)"
    using b(3) by (simp add: power_int_diff power_int_add of_nat_diff flip: power_int_of_nat)
  moreover have "real a / real b < (2::real) ^ ?k / 2 ^ (?l - 1)"
    using a(2) b(1) by (intro frac_less) auto
  ultimately show "real a / real b < 2 powi (int ?k - int ?l + 1)" by simp
qed

lemma powi_shift:
  fixes x y :: real
  shows "x * 2 powi (- e) < y \<longleftrightarrow> x < y * 2 powi e" "y \<le> x * 2 powi (- e) \<longleftrightarrow> y * 2 powi e \<le> x"
  by (simp_all add: power_int_minus field_simps)

lemma powi_less: "(2::real) powi e < 2 powi g \<Longrightarrow> e < g"
proof (rule ccontr)
  assume "(2::real) powi e < 2 powi g" "\<not> e < g"
  then show False using power_int_increasing[of g e "2::real"] by simp
qed

lemma f64_exp_bounds:
  assumes "0 < a" "0 < b"
  shows "2 ^ 52 \<le> real a / real b * 2 powi (- f64_exp a b)" "real a / real b * 2 powi (- f64_exp a b) < 2 ^ 53"
proof -
  let ?x = "real a / real b" and ?e = "int (bit_length a) - int (bit_length b) - 53"
  obtain n d where nd: "scaled a b ?e = (n, d)" by (cases "scaled a b ?e")
  note sc = scaled_real[OF assms(2) nd]
  have lo: "2 powi (?e + 52) < ?x" using ratio_bounds(1)[OF assms] by simp
  have "?e + 54 = int (bit_length a) - int (bit_length b) + 1" by simp
  then have hi: "?x < 2 powi (?e + 54)" using ratio_bounds(2)[OF assms] by metis
  have p: "2 powi (e + int k) = (2::real) powi e * 2 ^ k" for e k by (simp add: power_int_add)
  have small: "n < 2 ^ 53 * d \<longleftrightarrow> ?x * 2 powi (- ?e) < 2 ^ 53"
  proof -
    have "n < 2 ^ 53 * d \<longleftrightarrow> real n < real (2 ^ 53 * d)" by (simp only: of_nat_less_iff)
    also have "\<dots> \<longleftrightarrow> real n < 2 ^ 53 * real d" by simp
    also have "\<dots> \<longleftrightarrow> real n / real d < 2 ^ 53" using sc(1) by (simp add: pos_divide_less_eq)
    finally show ?thesis using sc(2) by simp
  qed
  note x = powi_shift
  show "2 ^ 52 \<le> ?x * 2 powi (- f64_exp a b)" "?x * 2 powi (- f64_exp a b) < 2 ^ 53"
  proof -
    have "2 ^ 52 \<le> ?x * 2 powi (- f64_exp a b) \<and> ?x * 2 powi (- f64_exp a b) < 2 ^ 53"
    proof (cases "n < 2 ^ 53 * d")
      case True
      then have e: "f64_exp a b = ?e" using nd by (simp add: f64_exp_def Let_def)
      show ?thesis using True small lo p[of ?e 52] unfolding e x by (simp add: ac_simps)
    next
      case False
      then have e: "f64_exp a b = ?e + 1" using nd by (simp add: f64_exp_def Let_def)
      have "(2::real) ^ 53 * 2 powi ?e = 2 ^ 52 * 2 powi (?e + 1)" using p[of ?e 1] by simp
      moreover have "2 powi (?e + 54) = (2::real) ^ 53 * 2 powi (?e + 1)" using p[of "?e + 1" 53] by (simp add: ac_simps)
      ultimately show ?thesis using False small hi unfolding e x by simp
    qed
    then show "2 ^ 52 \<le> ?x * 2 powi (- f64_exp a b)" "?x * 2 powi (- f64_exp a b) < 2 ^ 53" by auto
  qed
qed

definition f64_val :: "nat \<Rightarrow> nat \<Rightarrow> real" where
  "f64_val a b = real (f64_sig a b) * 2 powi (f64_exp a b)"

lemma f64_sig_bounds:
  assumes "0 < a" "0 < b"
  shows "2 ^ 52 \<le> f64_sig a b" "f64_sig a b \<le> 2 ^ 53"
proof -
  obtain n d where nd: "scaled a b (f64_exp a b) = (n, d)" by (cases "scaled a b (f64_exp a b)")
  note sc = scaled_real[OF assms(2) nd]
  note bd = f64_exp_bounds[OF assms, folded sc(2)]
  have "2 ^ 52 * real d \<le> real n" "real n < 2 ^ 53 * real d"
    using bd sc(1) by (simp_all add: pos_le_divide_eq pos_divide_less_eq)
  then have "2 ^ 52 * d \<le> n" "n \<le> 2 ^ 53 * d" by (simp_all flip: of_nat_le_iff of_nat_less_iff)
  then show "2 ^ 52 \<le> f64_sig a b" "f64_sig a b \<le> 2 ^ 53"
    using rne_ge[OF sc(1)] rne_le[OF sc(1)] by (simp_all add: f64_sig_def nd)
qed

text \<open>Rounding is monotone.\<close>

lemma f64_val_mono:
  assumes "0 < a" "0 < b" "0 < c" "0 < d" "real a / real b \<le> real c / real d"
  shows "f64_val a b \<le> f64_val c d"
proof -
  let ?e = "f64_exp a b" and ?g = "f64_exp c d"
  have "2 ^ 52 * 2 powi ?e \<le> real a / real b" "real c / real d < 2 ^ 53 * 2 powi ?g"
    using f64_exp_bounds(1)[OF assms(1,2)] f64_exp_bounds(2)[OF assms(3,4)] unfolding powi_shift .
  then have "2 ^ 52 * 2 powi ?e < (2::real) ^ 53 * 2 powi ?g" using assms(5) by linarith
  moreover have "(2::real) ^ 53 * 2 powi ?g = 2 ^ 52 * 2 powi (?g + 1)" by (simp add: power_int_add)
  ultimately have "2 powi ?e < (2::real) powi (?g + 1)" by simp
  then have le: "?e \<le> ?g" using powi_less by fastforce
  show ?thesis
  proof (cases "?e = ?g")
    case True
    obtain n m where nm: "scaled a b ?e = (n, m)" by (cases "scaled a b ?e")
    obtain i j where ij: "scaled c d ?e = (i, j)" by (cases "scaled c d ?e")
    note s1 = scaled_real[OF assms(2) nm] and s2 = scaled_real[OF assms(4) ij]
    have "real n / real m \<le> real i / real j" unfolding s1(2) s2(2) using assms(5) by (intro mult_right_mono) auto
    then have "n * j \<le> i * m" using s1(1) s2(1) by (simp add: field_simps flip: of_nat_mult of_nat_le_iff)
    then have "rne n m \<le> rne i j" by (rule rne_mono[OF s1(1) s2(1)])
    then show ?thesis using nm ij True by (simp add: f64_val_def f64_sig_def)
  next
    case False
    have "real (f64_sig a b) * 2 powi ?e \<le> 2 ^ 53 * 2 powi ?e"
      using f64_sig_bounds(2)[OF assms(1,2)] by (intro mult_right_mono) (simp_all flip: of_nat_le_iff)
    also have "\<dots> = 2 ^ 52 * 2 powi (?e + 1)" by (simp add: power_int_add)
    also have "\<dots> \<le> 2 ^ 52 * 2 powi ?g" using le False by (intro mult_left_mono power_int_increasing) auto
    also have "\<dots> \<le> real (f64_sig c d) * 2 powi ?g"
      using f64_sig_bounds(1)[OF assms(3,4)] by (intro mult_right_mono) (simp_all flip: of_nat_le_iff)
    finally show ?thesis by (simp add: f64_val_def)
  qed
qed

lemma f64_round_floor:
  assumes "0 < a" "0 < b"
  shows "int (f64_round a b) = \<lfloor>f64_val a b + 1 / 2\<rfloor>"
proof (cases "0 \<le> f64_exp a b")
  case True
  then have "f64_val a b = real (f64_sig a b * 2 ^ nat (f64_exp a b))" by (simp add: f64_val_def power_int_def)
  moreover have "\<lfloor>real n + 1 / 2\<rfloor> = int n" for n by (simp add: floor_eq_iff)
  ultimately show ?thesis using True assms by (simp only: f64_round_def Let_def) simp
next
  case False
  define k where "k = nat (- f64_exp a b - 1)"
  have k: "nat (- f64_exp a b) = Suc k" "f64_exp a b = - int (Suc k)" using False by (auto simp: k_def)
  have "f64_val a b + 1 / 2 = real (f64_sig a b + 2 ^ k) / real (2 ^ Suc k)"
  proof -
    have "2 powi (f64_exp a b) = 1 / (2::real) ^ Suc k" unfolding k(2) by (simp only: power_int_minus_divide power_int_of_nat)
    then show ?thesis by (simp add: f64_val_def field_simps)
  qed
  then have "\<lfloor>f64_val a b + 1 / 2\<rfloor> = int ((f64_sig a b + 2 ^ k) div 2 ^ Suc k)"
    by (simp only: floor_divide_of_nat_eq)
  then show ?thesis using False assms k(1) by (simp add: f64_round_def Let_def k_def)
qed

lemma f64_round_mono:
  assumes "0 < a" "0 < b" "0 < c" "0 < d" "real a / real b \<le> real c / real d"
  shows "f64_round a b \<le> f64_round c d"
proof -
  have "int (f64_round a b) \<le> int (f64_round c d)"
    using f64_val_mono[OF assms] f64_round_floor assms(1-4) by (simp add: floor_mono)
  then show ?thesis by simp
qed

text \<open>An integer below \<open>2 ^ 53\<close> is its own double.\<close>

lemma f64_round_integer:
  assumes "0 < m" "m < 2 ^ 53"
  shows "f64_round m 1 = m"
proof -
  let ?e = "f64_exp m 1"
  have bd: "2 ^ 52 * 2 powi ?e \<le> real m" "real m < 2 ^ 53 * 2 powi ?e"
    using f64_exp_bounds[OF assms(1), of 1] unfolding powi_shift by simp_all
  have "2 powi ?e < (2::real) powi 1"
  proof -
    have "real m < 2 ^ 53" using assms(2) by (simp flip: of_nat_less_iff)
    then have "2 ^ 52 * 2 powi ?e < 2 ^ 52 * (2::real) powi 1" using bd(1) by simp
    then show ?thesis by simp
  qed
  then have e: "?e \<le> 0" using powi_less by fastforce
  then have sc: "scaled m 1 ?e = (m * 2 ^ nat (- ?e), 1)" by (auto simp: scaled_def)
  have sig: "f64_sig m 1 = m * 2 ^ nat (- ?e)" using sc by (simp add: f64_sig_def rne_def)
  have "f64_val m 1 = real m" using e sig by (auto simp: f64_val_def power_int_def field_simps)
  then have "int (f64_round m 1) = \<lfloor>real m + 1 / 2\<rfloor>" using f64_round_floor[OF assms(1), of 1] by simp
  moreover have "\<lfloor>real m + 1 / 2\<rfloor> = int m" by (simp add: floor_eq_iff)
  ultimately show ?thesis by simp
qed

text \<open>So the rounded product of an integer and a factor of at most one stays within the integer.\<close>

lemma f64_round_fraction:
  assumes "0 < m" "m < 2 ^ 53" "0 < num" "num \<le> den"
  shows "f64_round (m * num) den \<le> m"
proof -
  have "f64_round (m * num) den \<le> f64_round m 1"
  proof (rule f64_round_mono)
    show "real (m * num) / real den \<le> real m / real 1"
      using assms by (simp add: pos_divide_le_eq mult_left_mono)
  qed (use assms in auto)
  then show ?thesis using f64_round_integer[OF assms(1,2)] by simp
qed

end
