(* ===== verification/BodyAnalysis.thy ===== *)
theory BodyAnalysis
  imports Json Float64
begin

text \<open>
  The two analysers of bodies for the verbose log (\<open>src/metrics/request_parser.rs\<close>,
  \<open>src/metrics/response_parser.rs\<close>).  The JSON text parser is \<open>jparse\<close>; a count in \<open>u32\<close> or \<open>u64\<close> wraps.
\<close>

type_synonym f64_bits = "64 word"

record request_analysis =
  ra_model :: "string option"
  ra_max_tokens :: "u64 option"
  ra_temperature :: "f64_bits option"
  ra_message_count :: u32
  ra_has_system_prompt :: bool
  ra_has_images :: bool
  ra_image_count :: u32
  ra_total_image_bytes :: u64
  ra_has_tools :: bool
  ra_tool_names :: "string list"
  ra_thinking_enabled :: bool
  ra_thinking_budget :: "u64 option"
  ra_estimated_input_tokens :: "u64 option"

definition analysis_default :: request_analysis where
  "analysis_default = \<lparr>ra_model = None, ra_max_tokens = None, ra_temperature = None, ra_message_count = 0,
     ra_has_system_prompt = False, ra_has_images = False, ra_image_count = 0, ra_total_image_bytes = 0,
     ra_has_tools = False, ra_tool_names = [], ra_thinking_enabled = False, ra_thinking_budget = None,
     ra_estimated_input_tokens = None\<rparr>"

text \<open>\<open>Value::as_f64\<close>: an integer is rounded to the nearest double, a negative one has the sign bit set.\<close>

fun as_f64 :: "json \<Rightarrow> f64_bits option" where
  "as_f64 (JNum (PosInt n)) = Some (f64_ratio (unat n) 1)"
| "as_f64 (JNum (NegInt n)) = Some (2 ^ 63 + f64_ratio (unat (- n)) 1)"
| "as_f64 (JNum (FloatNum b)) = Some b"
| "as_f64 _ = None"

text \<open>\<open>chars().count()\<close> counts the bytes that start a character.\<close>

definition char_count :: "string \<Rightarrow> nat" where
  "char_count s = length (filter (\<lambda>c. code c < 0x80 \<or> 0xC0 \<le> code c) s)"

text \<open>\<open>(len as f64 * 0.75) as u64\<close>: the product is exact, the conversion truncates.\<close>

definition base64_bytes :: "nat \<Rightarrow> u64" where
  "base64_bytes n = of_nat (n * 3 div 4)"

definition count_image :: "json \<Rightarrow> request_analysis \<Rightarrow> request_analysis" where
  "count_image item a =
     a\<lparr>ra_has_images := True, ra_image_count := ra_image_count a + 1,
       ra_total_image_bytes := ra_total_image_bytes a +
         (case Option.bind (jget ''source'' item) (jget_str ''data'') of
            Some data \<Rightarrow> base64_bytes (length data) | None \<Rightarrow> 0)\<rparr>"

definition parse_content :: "json \<Rightarrow> request_analysis \<Rightarrow> request_analysis" where
  "parse_content content a =
     (case content of
        JArr items \<Rightarrow> fold (\<lambda>item a. if jget_str ''type'' item = Some ''image'' then count_image item a else a) items a
      | _ \<Rightarrow> a)"

definition parse_message :: "json \<Rightarrow> request_analysis \<Rightarrow> request_analysis" where
  "parse_message msg a =
     (let a1 = (if jget_str ''role'' msg = Some ''system'' then a\<lparr>ra_has_system_prompt := True\<rparr> else a)
      in case jget ''content'' msg of Some c \<Rightarrow> parse_content c a1 | None \<Rightarrow> a1)"

definition item_chars :: "json \<Rightarrow> nat" where
  "item_chars item =
     (if jget_str ''type'' item = Some ''text'' then
        (case jget_str ''text'' item of Some t \<Rightarrow> char_count t | None \<Rightarrow> 0) else 0)"

definition content_chars :: "json \<Rightarrow> nat" where
  "content_chars content =
     (case content of JStr t \<Rightarrow> char_count t | JArr items \<Rightarrow> sum_list (map item_chars items) | _ \<Rightarrow> 0)"

definition message_chars :: "json \<Rightarrow> nat" where
  "message_chars msg = (case jget ''content'' msg of Some c \<Rightarrow> content_chars c | None \<Rightarrow> 0)"

definition estimate_tokens :: "json \<Rightarrow> u64 option" where
  "estimate_tokens j =
     (let total = (of_nat (case jget_arr ''messages'' j of
                     Some ms \<Rightarrow> sum_list (map message_chars ms) | None \<Rightarrow> 0) :: u64)
      in if 0 < total then Some (total div 4 + 1) else None)"

definition parse_model_info :: "json \<Rightarrow> request_analysis" where
  "parse_model_info j =
     (let a0 = analysis_default\<lparr>ra_model := jget_str ''model'' j, ra_max_tokens := jget_u64 ''max_tokens'' j,
                ra_temperature := Option.bind (jget ''temperature'' j) as_f64\<rparr>;
          a1 = (case jget_arr ''messages'' j of
                  Some ms \<Rightarrow> fold parse_message ms (a0\<lparr>ra_message_count := of_nat (length ms)\<rparr>) | None \<Rightarrow> a0);
          a2 = (case jget_arr ''tools'' j of
                  Some ts \<Rightarrow> a1\<lparr>ra_has_tools := True, ra_tool_names := List.map_filter (jget_str ''name'') ts\<rparr>
                | None \<Rightarrow> a1);
          a3 = (case jget ''thinking'' j of
                  Some t \<Rightarrow>
                    a2\<lparr>ra_thinking_enabled :=
                         (case Option.bind (jget ''enabled'' t) as_bool of Some b \<Rightarrow> b | None \<Rightarrow> ra_thinking_enabled a2),
                       ra_thinking_budget := jget_u64 ''budget_tokens'' t\<rparr>
                | None \<Rightarrow> a2)
      in a3\<lparr>ra_estimated_input_tokens := estimate_tokens j\<rparr>)"

definition parse_request :: "(string \<Rightarrow> json option) \<Rightarrow> string \<Rightarrow> request_analysis" where
  "parse_request jparse body =
     (case jparse body of Some j \<Rightarrow> parse_model_info j | None \<Rightarrow> analysis_default)"

record response_analysis =
  rp_summary :: string
  rp_input_tokens :: "u64 option"
  rp_output_tokens :: "u64 option"
  rp_stop_reason :: "string option"
  rp_cost_usd :: "f64_bits option"

definition parse_response :: "(string \<Rightarrow> json option) \<Rightarrow> string \<Rightarrow> response_analysis" where
  "parse_response jparse body =
     (case jparse body of
        None \<Rightarrow> \<lparr>rp_summary = [], rp_input_tokens = None, rp_output_tokens = None, rp_stop_reason = None, rp_cost_usd = None\<rparr>
      | Some j \<Rightarrow>
          \<lparr>rp_summary = [], rp_input_tokens = Option.bind (jget ''usage'' j) (jget_u64 ''input_tokens''),
           rp_output_tokens = Option.bind (jget ''usage'' j) (jget_u64 ''output_tokens''),
           rp_stop_reason = jget_str ''stop_reason'' j, rp_cost_usd = None\<rparr>)"

section \<open>Properties\<close>

lemma parse_content_other:
  "ra_thinking_enabled (parse_content c a) = ra_thinking_enabled a"
  "ra_message_count (parse_content c a) = ra_message_count a"
proof -
  have "ra_thinking_enabled (fold (\<lambda>item a. if jget_str ''type'' item = Some ''image'' then count_image item a else a) xs a)
        = ra_thinking_enabled a
      \<and> ra_message_count (fold (\<lambda>item a. if jget_str ''type'' item = Some ''image'' then count_image item a else a) xs a)
        = ra_message_count a" for xs
    by (induction xs arbitrary: a) (auto simp: count_image_def)
  then show "ra_thinking_enabled (parse_content c a) = ra_thinking_enabled a"
    "ra_message_count (parse_content c a) = ra_message_count a"
    by (auto simp: parse_content_def split: json.splits)
qed

lemma parse_messages_other:
  "ra_thinking_enabled (fold parse_message ms a) = ra_thinking_enabled a"
  "ra_message_count (fold parse_message ms a) = ra_message_count a"
  by (induction ms arbitrary: a)
    (auto simp: parse_message_def parse_content_other Let_def split: option.splits)

text \<open>The log reports thinking from a field the API does not use: a request that turns thinking on the way
  the API asks for, with \<open>thinking.type\<close>, is reported as having it off.\<close>

theorem thinking_report_wrong:
  assumes "jget ''thinking'' j = Some t" "jget ''enabled'' t = None"
  shows "\<not> ra_thinking_enabled (parse_model_info j)"
  using assms
  by (auto simp: parse_model_info_def Let_def parse_messages_other analysis_default_def split: option.splits)

theorem thinking_report_wrong_witness:
  "\<not> ra_thinking_enabled (parse_model_info (JObj [(''thinking'', JObj [(''type'', JStr ''enabled''), (''budget_tokens'', JNum (PosInt 1024))])]))"
  by (rule thinking_report_wrong[where t = "JObj [(''type'', JStr ''enabled''), (''budget_tokens'', JNum (PosInt 1024))]"]) simp_all

end
