(* ===== verification/BoundedRing.thy ===== *)
theory BoundedRing
  imports Prelude
begin

text \<open>
  The interface of the bounded rings of the program (the recent requests, the recorded errors): a push
  drops the oldest element when the length equals the capacity.  Inside the locale: the ring never
  outgrows its capacity and always holds the last pushes; a capacity of zero is no bound at all.
\<close>

definition ring_push :: "nat \<Rightarrow> 'a \<Rightarrow> 'a list \<Rightarrow> 'a list" where
  "ring_push cap x xs = (if length xs = cap then drop 1 xs else xs) @ [x]"

definition last_n :: "nat \<Rightarrow> 'a list \<Rightarrow> 'a list" where
  "last_n n xs = drop (length xs - n) xs"

lemma last_n_short [simp]: "length xs \<le> n \<Longrightarrow> last_n n xs = xs"
  by (simp add: last_n_def)

lemma ring_push_last: "0 < cap \<Longrightarrow> length xs \<le> cap \<Longrightarrow> ring_push cap x xs = last_n cap (xs @ [x])"
  by (auto simp: ring_push_def last_n_def)

lemma last_n_snoc: "0 < n \<Longrightarrow> last_n n (last_n n xs @ [x]) = last_n n (xs @ [x])"
proof -
  assume n: "0 < n"
  show ?thesis
  proof (cases "length xs \<le> n")
    case True
    then show ?thesis by simp
  next
    case False
    then have l: "length (last_n n xs) = n" by (simp add: last_n_def)
    have "last_n n (last_n n xs @ [x]) = drop 1 (last_n n xs) @ [x]" using l n by (simp add: last_n_def[of n "_ @ _"])
    also have "drop 1 (last_n n xs) = drop (Suc (length xs) - n) xs" using False by (simp add: last_n_def Suc_diff_le)
    finally show ?thesis using False by (simp add: last_n_def)
  qed
qed

locale bounded_ring =
  fixes push :: "'x \<Rightarrow> 's \<Rightarrow> 's" and stored :: "'s \<Rightarrow> 'a list" and cap :: "'s \<Rightarrow> nat" and entry :: "'x \<Rightarrow> 's \<Rightarrow> 'a"
  assumes stored_push: "stored (push x s) = ring_push (cap s) (entry x s) (stored s)"
    and cap_push: "cap (push x s) = cap s"
begin

lemma bounded: "0 < cap s \<Longrightarrow> length (stored s) \<le> cap s \<Longrightarrow> length (stored (push x s)) \<le> cap (push x s)"
  by (auto simp: stored_push cap_push ring_push_def)

lemma cap_run: "cap (fold push xs s) = cap s"
  by (induction xs arbitrary: s) (auto simp: cap_push)

lemma bounded_run: "0 < cap s \<Longrightarrow> length (stored s) \<le> cap s \<Longrightarrow> length (stored (fold push xs s)) \<le> cap s"
proof (induction xs arbitrary: s)
  case Nil
  then show ?case by simp
next
  case (Cons x xs)
  then show ?case using Cons.IH[of "push x s"] bounded[of s x] by (simp add: cap_push)
qed

text \<open>The entries a run of pushes writes, in order.\<close>

primrec entries :: "'x list \<Rightarrow> 's \<Rightarrow> 'a list" where
  "entries [] s = []"
| "entries (x # xs) s = entry x s # entries xs (push x s)"

lemma stored_run:
  "0 < cap s \<Longrightarrow> length (stored s) \<le> cap s \<Longrightarrow>
   stored (fold push xs s) = last_n (cap s) (stored s @ entries xs s)"
proof (induction xs arbitrary: s)
  case Nil
  then show ?case by simp
next
  case (Cons x xs)
  have "stored (fold push xs (push x s)) = last_n (cap s) (stored (push x s) @ entries xs (push x s))"
    using Cons bounded[of s x] by (simp add: cap_push)
  also have "stored (push x s) = last_n (cap s) (stored s @ [entry x s])"
    using Cons.prems by (simp add: stored_push ring_push_last)
  also have "last_n (cap s) (last_n (cap s) ys @ zs) = last_n (cap s) (ys @ zs)" for ys and zs :: "'a list"
  proof (induction zs rule: rev_induct)
    case Nil
    then show ?case by (simp add: last_n_def)
  next
    case (snoc z zs)
    then show ?case
      using last_n_snoc[OF Cons.prems(1), of "last_n (cap s) ys @ zs" z] last_n_snoc[OF Cons.prems(1), of "ys @ zs" z]
      by simp
  qed
  finally show ?case by simp
qed

text \<open>Without capacity the ring only grows.\<close>

lemma unbounded: "cap s = 0 \<Longrightarrow> length (stored (fold push xs s)) = length (stored s) + length xs"
proof (induction xs arbitrary: s)
  case Nil
  then show ?case by simp
next
  case (Cons x xs)
  then show ?case using Cons.IH[of "push x s"] by (auto simp: stored_push cap_push ring_push_def)
qed

end

end
