(* ===== verification/Credentials.thy ===== *)
theory Credentials
  imports ConfigTypes
begin

text \<open>
  What a backend's configuration decides about a request: credentials and the authentication header
  (\<open>src/config/credentials.rs\<close>, \<open>src/config/auth.rs\<close>), the thinking conversion, the model name and the
  effort limit.
\<close>

datatype auth_type = ApiKey | Bearer | Passthrough

definition parse_auth :: "string \<Rightarrow> auth_type" where
  "parse_auth s =
     (let v = str_lower s in if v = ''api_key'' then ApiKey else if v = ''bearer'' then Bearer else Passthrough)"

definition uses_own_credentials :: "auth_type \<Rightarrow> bool" where
  "uses_own_credentials a \<longleftrightarrow> a = ApiKey \<or> a = Bearer"

datatype credential_status = Configured string | Unconfigured string | NoAuth

definition auth_type_of :: "backend \<Rightarrow> auth_type" where
  "auth_type_of b = parse_auth (auth_type_str b)"

definition resolve_credential :: "backend \<Rightarrow> credential_status" where
  "resolve_credential b =
     (case auth_type_of b of
        Passthrough \<Rightarrow> NoAuth
      | _ \<Rightarrow> (case api_key b of
                Some key \<Rightarrow> if key \<noteq> [] then Configured key else Unconfigured ''api_key is not set''
              | None \<Rightarrow> Unconfigured ''api_key is not set''))"

fun is_configured_status :: "credential_status \<Rightarrow> bool" where
  "is_configured_status (Configured _) = True"
| "is_configured_status NoAuth = True"
| "is_configured_status (Unconfigured _) = False"

definition is_configured :: "backend \<Rightarrow> bool" where
  "is_configured b = is_configured_status (resolve_credential b)"

definition needs_thinking_compat :: "backend \<Rightarrow> bool" where
  "needs_thinking_compat b =
     (case thinking_compat b of Some v \<Rightarrow> v | None \<Rightarrow> \<not> str_contains ''anthropic.com'' (base_url b))"

definition resolve_model :: "backend \<Rightarrow> string \<Rightarrow> string option" where
  "resolve_model b original =
     (if str_contains ''opus'' original then model_opus b
      else if str_contains ''sonnet'' original then model_sonnet b
      else if str_contains ''haiku'' original then model_haiku b
      else None)"

definition effort_rank :: "string \<Rightarrow> nat" where
  "effort_rank e =
     (if e = ''low'' then 0 else if e = ''medium'' then 1 else if e = ''high'' then 2
      else if e = ''xhigh'' then 3 else 0)"

definition max_effort :: "backend \<Rightarrow> string \<Rightarrow> string option" where
  "max_effort b original_model =
     (if str_contains ''opus'' original_model then model_opus_max_effort b
      else if str_contains ''sonnet'' original_model then model_sonnet_max_effort b
      else if str_contains ''haiku'' original_model then model_haiku_max_effort b
      else None)"

definition cap_effort :: "backend \<Rightarrow> string \<Rightarrow> string \<Rightarrow> string option" where
  "cap_effort b request_effort original_model =
     (case max_effort b original_model of
        None \<Rightarrow> None
      | Some mx \<Rightarrow> if effort_rank mx < effort_rank request_effort then Some mx else None)"

definition build_auth_header :: "backend \<Rightarrow> (string \<times> string) option" where
  "build_auth_header b =
     (case (auth_type_of b, resolve_credential b) of
        (ApiKey, Configured key) \<Rightarrow> Some (''x-api-key'', key)
      | (Bearer, Configured key) \<Rightarrow> Some (''Authorization'', ''Bearer '' @ key)
      | _ \<Rightarrow> None)"

lemma own_credentials_configured_header:
  "uses_own_credentials (auth_type_of b) \<Longrightarrow> is_configured b \<Longrightarrow> \<exists>k. build_auth_header b = Some k"
  by (auto simp: uses_own_credentials_def is_configured_def build_auth_header_def resolve_credential_def
      split: option.splits if_splits)

lemma passthrough_no_header:
  "\<not> uses_own_credentials (auth_type_of b) \<Longrightarrow> is_configured b \<and> build_auth_header b = None"
  by (cases "auth_type_of b")
    (auto simp: uses_own_credentials_def is_configured_def build_auth_header_def resolve_credential_def)

text \<open>The authentication modes are complete and exclusive: a backend has a header of its own exactly
  when it uses its own credentials and is configured, and it is unconfigured exactly when it needs a
  key that is missing or empty.\<close>

theorem auth_modes:
  "(build_auth_header b \<noteq> None \<longleftrightarrow> uses_own_credentials (auth_type_of b) \<and> is_configured b)
   \<and> (is_configured b \<longleftrightarrow> uses_own_credentials (auth_type_of b) \<longrightarrow> api_key b \<notin> {None, Some []})"
  by (cases "auth_type_of b"; cases "api_key b")
    (auto simp: uses_own_credentials_def is_configured_def build_auth_header_def resolve_credential_def)

text \<open>The effort limit is a cap: the effort in force after \<open>cap_effort\<close> never ranks above the
  configured maximum, it changes only when it did, and it never rises.\<close>

theorem cap_effort_spec:
  assumes "max_effort b model = Some mx"
  shows "let eff = (case cap_effort b e model of None \<Rightarrow> e | Some c \<Rightarrow> c)
         in effort_rank eff = min (effort_rank e) (effort_rank mx)
            \<and> (cap_effort b e model = None \<longleftrightarrow> effort_rank e \<le> effort_rank mx)"
  using assms by (auto simp: cap_effort_def Let_def)

theorem cap_effort_spec_witness:
  "cap_effort (default_backend\<lparr>model_opus_max_effort := Some ''medium''\<rparr>) ''xhigh'' ''claude-opus-4'' = Some ''medium''"
proof -
  let ?b = "default_backend\<lparr>model_opus_max_effort := Some ''medium''\<rparr>"
  have "max_effort ?b ''claude-opus-4'' = Some ''medium''" by code_simp
  from cap_effort_spec[OF this, of "''xhigh''"] have "cap_effort ?b ''xhigh'' ''claude-opus-4'' \<noteq> None"
    by (simp add: Let_def effort_rank_def)
  then show ?thesis using \<open>max_effort ?b _ = _\<close> by (auto simp: cap_effort_def split: if_splits)
qed

end
