(* ===== verification/BackendState.thy ===== *)
theory BackendState
  imports Credentials
begin

text \<open>
  The hot-swap backend state, the per-kind agent backend and the agent registry
  (\<open>src/backend/state.rs\<close>).  The \<open>SystemTime\<close> of a log entry is passed in.  A successful switch also
  clears the cached model list: the flag beside the new state says that it did.
\<close>

datatype backend_error =
    ErrBackendNotFound string
  | ErrNoBackendsConfigured
  | ErrBackendNotConfigured string string

fun show_backend_error :: "backend_error \<Rightarrow> string" where
  "show_backend_error (ErrBackendNotFound b) = ''Backend '' @ [CHR 0x27] @ b @ [CHR 0x27] @ '' not found''"
| "show_backend_error ErrNoBackendsConfigured = ''No backends configured''"
| "show_backend_error (ErrBackendNotConfigured b r) =
     ''Backend '' @ [CHR 0x27] @ b @ [CHR 0x27] @ '' not configured: '' @ r"

record switch_log_entry =
  timestamp :: nat
  old_backend :: "string option"
  new_backend :: string

record backend_state =
  active_backend :: string
  cfg :: cli_profile
  switch_log :: "switch_log_entry list"

definition has_backend :: "string \<Rightarrow> cli_profile \<Rightarrow> bool" where
  "has_backend n p \<longleftrightarrow> (\<exists>b \<in> set (backends p). name b = n)"

definition from_config :: "nat \<Rightarrow> cli_profile \<Rightarrow> backend_error + backend_state" where
  "from_config now p =
     (if backends p = [] then Inl ErrNoBackendsConfigured
      else
        let entry = (\<lambda>a. \<lparr>active_backend = a, cfg = p,
              switch_log = [\<lparr>timestamp = now, old_backend = None, new_backend = a\<rparr>]\<rparr>)
        in if active (defaults p) = [] then Inr (entry (name (backends p ! 0)))
           else if \<not> has_backend (active (defaults p)) p
           then Inl (ErrBackendNotFound (active (defaults p)))
           else Inr (entry (active (defaults p))))"

definition find_backend :: "string \<Rightarrow> backend_state \<Rightarrow> backend_error + backend" where
  "find_backend n s =
     (case List.find (\<lambda>b. name b = n) (backends (cfg s)) of
        Some b \<Rightarrow> Inr b | None \<Rightarrow> Inl (ErrBackendNotFound n))"

definition get_active_backend :: "backend_state \<Rightarrow> string" where
  "get_active_backend s = active_backend s"

definition get_active_backend_config :: "backend_state \<Rightarrow> backend_error + backend" where
  "get_active_backend_config s = find_backend (active_backend s) s"

definition get_backend_config :: "string \<Rightarrow> backend_state \<Rightarrow> backend_error + backend" where
  "get_backend_config n s = find_backend n s"

definition validate_backend :: "string \<Rightarrow> backend_state \<Rightarrow> bool" where
  "validate_backend n s = has_backend n (cfg s)"

definition list_backends :: "backend_state \<Rightarrow> string list" where
  "list_backends s = map name (backends (cfg s))"

definition switch_backend :: "nat \<Rightarrow> string \<Rightarrow> backend_state \<Rightarrow> backend_error + backend_state \<times> bool" where
  "switch_backend now n s =
     (if \<not> has_backend n (cfg s) then Inl (ErrBackendNotFound n)
      else if active_backend s = n then Inr (s, False)
      else Inr (s\<lparr>active_backend := n,
                  switch_log := switch_log s @ [\<lparr>timestamp = now, old_backend = Some (active_backend s), new_backend = n\<rparr>]\<rparr>, True))"

definition update_config :: "nat \<Rightarrow> cli_profile \<Rightarrow> backend_state \<Rightarrow> backend_error + backend_state" where
  "update_config now p s =
     (if backends p = [] then Inl ErrNoBackendsConfigured
      else if has_backend (active_backend s) p then Inr (s\<lparr>cfg := p\<rparr>)
      else
        let a = (if active (defaults p) = [] then name (backends p ! 0) else active (defaults p))
        in Inr (s\<lparr>active_backend := a, cfg := p,
             switch_log := switch_log s @ [\<lparr>timestamp = now, old_backend = Some (active_backend s), new_backend = a\<rparr>]\<rparr>))"

section \<open>Agents\<close>

text \<open>\<open>AgentBackendState\<close>: one optional name behind a lock.\<close>

type_synonym agent_backend = "string option"

text \<open>\<open>AgentRegistry\<close>: agent id to birth backend.\<close>

type_synonym agent_registry = "(string \<times> string) list"

definition marker_prefix :: string where
  "marker_prefix = [CHR 0xE2, CHR 0x9F, CHR 0xA8] @ ''AC:''"

definition marker_suffix :: string where
  "marker_suffix = [CHR 0xE2, CHR 0x9F, CHR 0xA9]"

definition format_marker :: "string \<Rightarrow> string" where
  "format_marker i = marker_prefix @ i @ marker_suffix"

definition agent_register :: "string \<Rightarrow> string \<Rightarrow> agent_registry \<Rightarrow> agent_registry" where
  "agent_register i b r = AList.update i b r"

definition agent_remove :: "string \<Rightarrow> agent_registry \<Rightarrow> agent_registry" where
  "agent_remove i r = AList.delete i r"

definition agent_is_empty :: "agent_registry \<Rightarrow> bool" where
  "agent_is_empty r \<longleftrightarrow> r = []"

definition agent_lookup :: "string \<Rightarrow> agent_registry \<Rightarrow> string option" where
  "agent_lookup i r = map_of r i"

interpretation agents: id_store agent_register agent_remove agent_lookup
  by unfold_locales (auto simp: agent_register_def agent_remove_def agent_lookup_def)

lemma agent_lookup_nonempty: "agent_lookup i r = Some b \<Longrightarrow> \<not> agent_is_empty r"
  by (auto simp: agent_lookup_def agent_is_empty_def)

section \<open>Invariants\<close>

lemma find_has: "has_backend n p \<Longrightarrow> \<exists>b. List.find (\<lambda>b. name b = n) (backends p) = Some b \<and> name b = n \<and> b \<in> set (backends p)"
proof -
  assume "has_backend n p"
  then have "List.find (\<lambda>b. name b = n) (backends p) \<noteq> None" by (auto simp: has_backend_def find_None_iff)
  then obtain b where b: "List.find (\<lambda>b. name b = n) (backends p) = Some b" by blast
  then show ?thesis by (auto simp: find_Some_iff)
qed

lemma find_backend_ok: "has_backend n (cfg s) \<Longrightarrow> \<exists>b. find_backend n s = Inr b \<and> name b = n \<and> b \<in> set (backends (cfg s))"
  using find_has[of n "cfg s"] by (auto simp: find_backend_def)

definition active_ok :: "backend_state \<Rightarrow> bool" where
  "active_ok s \<longleftrightarrow> has_backend (active_backend s) (cfg s)"

text \<open>The log is a chain that starts with no backend and ends with the active one.\<close>

fun log_chain :: "string option \<Rightarrow> switch_log_entry list \<Rightarrow> bool" where
  "log_chain prev [] = True"
| "log_chain prev (e # es) = (old_backend e = prev \<and> log_chain (Some (new_backend e)) es)"

definition log_ok :: "backend_state \<Rightarrow> bool" where
  "log_ok s \<longleftrightarrow> log_chain None (switch_log s) \<and> switch_log s \<noteq> []
              \<and> new_backend (last (switch_log s)) = active_backend s"

lemma log_chain_snoc:
  "log_chain prev (es @ [e]) \<longleftrightarrow> log_chain prev es \<and>
     old_backend e = (if es = [] then prev else Some (new_backend (last es)))"
  by (induction es arbitrary: prev) auto

lemma log_ok_extend:
  "log_ok s \<Longrightarrow> old_backend e = Some (active_backend s) \<Longrightarrow>
   log_ok (s\<lparr>active_backend := new_backend e, cfg := p, switch_log := switch_log s @ [e]\<rparr>)"
  by (auto simp: log_ok_def log_chain_snoc)

datatype state_op = SwitchOp nat string | UpdateOp nat cli_profile

text \<open>An operation that returns an error leaves the state as it was.\<close>

fun run_state_op :: "state_op \<Rightarrow> backend_state \<Rightarrow> backend_state" where
  "run_state_op (SwitchOp now n) s = (case switch_backend now n s of Inl _ \<Rightarrow> s | Inr (s', _) \<Rightarrow> s')"
| "run_state_op (UpdateOp now p) s = (case update_config now p s of Inl _ \<Rightarrow> s | Inr s' \<Rightarrow> s')"

fun keeps_default :: "state_op \<Rightarrow> bool" where
  "keeps_default (SwitchOp _ _) = True"
| "keeps_default (UpdateOp _ p) = (active (defaults p) = [] \<or> has_backend (active (defaults p)) p)"

lemma from_config_ok: "from_config now p = Inr s \<Longrightarrow> active_ok s \<and> log_ok s"
  by (auto simp: from_config_def active_ok_def log_ok_def has_backend_def Let_def split: if_splits)

lemma switch_ok:
  "switch_backend now n s = Inr (s', c) \<Longrightarrow> active_backend s' = n \<and> (active_ok s \<longrightarrow> active_ok s') \<and> (log_ok s \<longrightarrow> log_ok s')"
  using log_ok_extend[of s "\<lparr>timestamp = now, old_backend = Some (active_backend s), new_backend = n\<rparr>" "cfg s"]
  by (auto simp: switch_backend_def active_ok_def split: if_splits)

lemma update_log_ok: "update_config now p s = Inr s' \<Longrightarrow> log_ok s \<Longrightarrow> log_ok s'"
  using log_ok_extend[of s _ p]
  by (auto simp: update_config_def Let_def log_ok_def log_chain_snoc split: if_splits)

lemma update_active_ok:
  "update_config now p s = Inr s' \<Longrightarrow> keeps_default (UpdateOp now p) \<Longrightarrow> active_ok s'"
  by (auto simp: update_config_def Let_def active_ok_def has_backend_def split: if_splits)

lemma run_state_op_ok:
  "active_ok s \<and> log_ok s \<Longrightarrow> keeps_default c \<Longrightarrow> active_ok (run_state_op c s) \<and> log_ok (run_state_op c s)"
  by (cases c) (auto split: sum.splits dest: switch_ok update_log_ok intro: update_active_ok)

text \<open>C23: the state is always usable: from a valid start, after any sequence of switches and reloads (the
  failing ones included) whose configurations name an existing default or none, the active backend
  is configured, its lookup succeeds, and the switch log is a chain that ends with it.\<close>

theorem backend_state_invariant:
  assumes "from_config now p = Inr s" "\<forall>c \<in> set cs. keeps_default c"
  shows "log_ok (fold run_state_op cs s) \<and>
         (\<exists>b. get_active_backend_config (fold run_state_op cs s) = Inr b
              \<and> name b = active_backend (fold run_state_op cs s))"
proof -
  have "active_ok (fold run_state_op cs s) \<and> log_ok (fold run_state_op cs s)"
    using from_config_ok[OF assms(1)] assms(2)
  proof (induction cs arbitrary: s)
    case (Cons c cs)
    then show ?case using run_state_op_ok[of s c] by simp
  qed simp
  then show ?thesis
    using find_backend_ok by (fastforce simp: active_ok_def get_active_backend_config_def)
qed

definition demo_profile :: cli_profile where
  "demo_profile = default_profile\<lparr>backends := [default_backend, default_backend\<lparr>name := ''b''\<rparr>]\<rparr>"

definition demo_state :: backend_state where
  "demo_state = \<lparr>active_backend = ''claude'', cfg = demo_profile,
                 switch_log = [\<lparr>timestamp = 0, old_backend = None, new_backend = ''claude''\<rparr>]\<rparr>"

lemma demo_from_config: "from_config 0 demo_profile = Inr demo_state"
  by code_simp

theorem backend_state_invariant_witness:
  "log_ok (fold run_state_op [SwitchOp 1 ''b'', SwitchOp 2 ''nope''] demo_state)"
  using backend_state_invariant[OF demo_from_config, of "[SwitchOp 1 ''b'', SwitchOp 2 ''nope'']"] by simp

text \<open>A reload can leave the state without a usable active backend: \<open>update_config\<close> does not check
  the new default as \<open>from_config\<close> does, so when the active backend disappears and the new default
  names no backend, the reload succeeds and every later lookup of the active backend fails.\<close>

theorem reload_can_dangle:
  assumes "backends p \<noteq> []" "\<not> has_backend (active_backend s) p"
    and "active (defaults p) \<noteq> []" "\<not> has_backend (active (defaults p)) p"
  shows "\<exists>s'. update_config now p s = Inr s' \<and>
              get_active_backend_config s' = Inl (ErrBackendNotFound (active (defaults p))) \<and>
              from_config now p = Inl (ErrBackendNotFound (active (defaults p)))"
proof -
  have "List.find (\<lambda>b. name b = active (defaults p)) (backends p) = None"
    using assms(4) by (auto simp: find_None_iff has_backend_def)
  then show ?thesis using assms
    by (simp add: update_config_def from_config_def Let_def get_active_backend_config_def find_backend_def)
qed

theorem reload_can_dangle_witness:
  "\<exists>s'. update_config 5 (default_profile\<lparr>backends := [default_backend\<lparr>name := ''x''\<rparr>]\<rparr>) demo_state = Inr s'
      \<and> get_active_backend_config s' = Inl (ErrBackendNotFound ''claude'')"
  using reload_can_dangle[of "default_profile\<lparr>backends := [default_backend\<lparr>name := ''x''\<rparr>]\<rparr>" demo_state 5]
  by (auto simp: has_backend_def demo_state_def default_profile_def default_defaults_def)

end
