(* ===== verification/ProxyError.thy ===== *)
theory ProxyError
  imports BackendState
begin

text \<open>
  The proxy's error type, its status codes and type names (\<open>src/proxy/error.rs\<close>).  The sources of
  \<open>Config\<close> and \<open>ConnectionError\<close> (a configuration error, a \<open>reqwest\<close> error) are kept as their message.
\<close>

datatype proxy_error =
    ConfigErr string
  | BackendNotFound string
  | BackendNotConfigured string string
  | ConnectionError string string
  | RequestTimeout u64
  | IdleTimeout u64
  | InvalidRequest string
  | UpstreamError u16 string
  | SubagentNotRegistered string
  | Internal string
  | HttpErr string

definition quoted :: "string \<Rightarrow> string" where
  "quoted s = CHR 0x27 # s @ [CHR 0x27]"

fun show_proxy_error :: "proxy_error \<Rightarrow> string" where
  "show_proxy_error (ConfigErr m) = ''Configuration error: '' @ m"
| "show_proxy_error (BackendNotFound b) = ''Backend '' @ quoted b @ '' not found''"
| "show_proxy_error (BackendNotConfigured b r) = ''Backend '' @ quoted b @ '' not configured: '' @ r"
| "show_proxy_error (ConnectionError b m) = ''Connection failed to '' @ quoted b @ '': '' @ m"
| "show_proxy_error (RequestTimeout d) = ''Request timeout after '' @ show_nat (unat d) @ ''s''"
| "show_proxy_error (IdleTimeout d) = ''Idle timeout after '' @ show_nat (unat d) @ ''s of inactivity''"
| "show_proxy_error (InvalidRequest m) = ''Invalid request: '' @ m"
| "show_proxy_error (UpstreamError c m) = ''Upstream error: '' @ show_nat (unat c) @ '' - '' @ m"
| "show_proxy_error (SubagentNotRegistered i) = ''Subagent '' @ quoted i @ '' not registered in affinity registry''"
| "show_proxy_error (Internal m) = ''Internal error: '' @ m"
| "show_proxy_error (HttpErr m) = ''HTTP error: '' @ m"

text \<open>\<open>StatusCode::from_u16\<close> accepts 100 to 999.\<close>

fun status_code :: "proxy_error \<Rightarrow> nat" where
  "status_code (ConfigErr _) = 500"
| "status_code (BackendNotFound _) = 502"
| "status_code (BackendNotConfigured _ _) = 502"
| "status_code (ConnectionError _ _) = 502"
| "status_code (RequestTimeout _) = 504"
| "status_code (IdleTimeout _) = 504"
| "status_code (InvalidRequest _) = 400"
| "status_code (UpstreamError s _) = (if 100 \<le> s \<and> s < 1000 then unat s else 502)"
| "status_code (SubagentNotRegistered _) = 500"
| "status_code (Internal _) = 500"
| "status_code (HttpErr _) = 500"

fun error_type :: "proxy_error \<Rightarrow> string" where
  "error_type (ConfigErr _) = ''config_error''"
| "error_type (BackendNotFound _) = ''backend_not_found''"
| "error_type (BackendNotConfigured _ _) = ''backend_not_configured''"
| "error_type (ConnectionError _ _) = ''connection_error''"
| "error_type (RequestTimeout _) = ''request_timeout''"
| "error_type (IdleTimeout _) = ''idle_timeout''"
| "error_type (InvalidRequest _) = ''invalid_request''"
| "error_type (UpstreamError _ _) = ''upstream_error''"
| "error_type (SubagentNotRegistered _) = ''subagent_not_registered''"
| "error_type (Internal _) = ''internal_error''"
| "error_type (HttpErr _) = ''http_error''"

lemma status_code_valid: "100 \<le> status_code e \<and> status_code e < 1000"
  by (cases e) (auto simp: word_le_nat_alt word_less_nat_alt)

end
