(* ===== verification/Hooks.thy ===== *)
theory Hooks
  imports ProxyError
begin

text \<open>
  The registration hooks (\<open>src/proxy/hooks.rs\<close>): the state the handlers share and the three handlers.
  A handler returns its response body and the new state.
\<close>

record hook_state =
  hk_backend_state :: backend_state
  subagent_backend :: agent_backend
  teammate_backend :: agent_backend
  agent_reg :: agent_registry

definition handle_subagent_start :: "string option \<Rightarrow> hook_state \<Rightarrow> string option \<times> hook_state" where
  "handle_subagent_start agent_id s =
     (case (agent_id, subagent_backend s) of
        (Some i, Some b) \<Rightarrow> (Some (format_marker i), s\<lparr>agent_reg := agent_register i b (agent_reg s)\<rparr>)
      | _ \<Rightarrow> (None, s))"

definition handle_subagent_stop :: "string option \<Rightarrow> hook_state \<Rightarrow> hook_state" where
  "handle_subagent_stop agent_id s =
     (case agent_id of
        Some i \<Rightarrow> s\<lparr>agent_reg := agent_remove i (agent_reg s)\<rparr>
      | None \<Rightarrow> s)"

definition handle_teammate_start :: "string \<Rightarrow> hook_state \<Rightarrow> string \<times> hook_state" where
  "handle_teammate_start agent_id s =
     (let b = (case teammate_backend s of Some b \<Rightarrow> b | None \<Rightarrow> get_active_backend (hk_backend_state s))
      in (b, s\<lparr>agent_reg := agent_register agent_id b (agent_reg s)\<rparr>))"

text \<open>Everything that changes the shared state between two requests: the hooks, the two selectors of
  the switch dialog, a backend switch and a reload.\<close>

datatype hook_op =
    SubagentStart "string option"
  | SubagentStop "string option"
  | TeammateStart string
  | SetSubagent agent_backend
  | SetTeammate agent_backend
  | StateOp state_op

fun run_hook_op :: "hook_op \<Rightarrow> hook_state \<Rightarrow> hook_state" where
  "run_hook_op (SubagentStart i) s = snd (handle_subagent_start i s)"
| "run_hook_op (SubagentStop i) s = handle_subagent_stop i s"
| "run_hook_op (TeammateStart i) s = snd (handle_teammate_start i s)"
| "run_hook_op (SetSubagent b) s = s\<lparr>subagent_backend := b\<rparr>"
| "run_hook_op (SetTeammate b) s = s\<lparr>teammate_backend := b\<rparr>"
| "run_hook_op (StateOp c) s = s\<lparr>hk_backend_state := run_state_op c (hk_backend_state s)\<rparr>"

fun hook_ids :: "hook_op \<Rightarrow> string set" where
  "hook_ids (SubagentStart (Some i)) = {i}"
| "hook_ids (SubagentStop (Some i)) = {i}"
| "hook_ids (TeammateStart i) = {i}"
| "hook_ids _ = {}"

text \<open>What an operation does to the registry, as operations of the store interface.\<close>

fun registry_ops :: "hook_op \<Rightarrow> hook_state \<Rightarrow> (string, string) store_op list" where
  "registry_ops (SubagentStart (Some i)) s = (case subagent_backend s of Some b \<Rightarrow> [OpInsert i b] | None \<Rightarrow> [])"
| "registry_ops (SubagentStop (Some i)) s = [OpDelete i]"
| "registry_ops (TeammateStart i) s = [OpInsert i (fst (handle_teammate_start i s))]"
| "registry_ops _ s = []"

lemma agent_reg_run: "agent_reg (run_hook_op c s) = fold agents.run_op (registry_ops c s) (agent_reg s)"
  by (cases "(c, s)" rule: registry_ops.cases)
    (auto simp: handle_subagent_start_def handle_subagent_stop_def handle_teammate_start_def Let_def split: option.splits)

lemma registry_ops_keys: "i \<notin> hook_ids c \<Longrightarrow> \<forall>o' \<in> set (registry_ops c s). op_key o' \<noteq> i"
  by (cases "(c, s)" rule: registry_ops.cases) (auto split: option.splits)

lemma lookup_run_others:
  "\<forall>c \<in> set cs. i \<notin> hook_ids c \<Longrightarrow> agent_lookup i (agent_reg (fold run_hook_op cs s)) = agent_lookup i (agent_reg s)"
proof (induction cs arbitrary: s)
  case (Cons c cs)
  then show ?case using agents.look_run_others[OF registry_ops_keys[of i c s]] by (simp add: agent_reg_run)
qed simp

text \<open>An agent keeps its birth backend: after its start hook, no hook call for another agent, no
  change of the subagent or teammate selection, no backend switch and no reload changes what the
  registry returns for it.\<close>

theorem birth_backend_kept:
  assumes "subagent_backend s = Some b" "\<forall>c \<in> set cs. i \<notin> hook_ids c"
  shows "agent_lookup i (agent_reg (fold run_hook_op cs (snd (handle_subagent_start (Some i) s)))) = Some b"
proof -
  let ?s = "snd (handle_subagent_start (Some i) s)"
  have "agent_lookup i (agent_reg ?s) = Some b"
    using assms(1) by (simp add: handle_subagent_start_def agents.look_insert)
  then show ?thesis using lookup_run_others[OF assms(2), of ?s] by simp
qed

definition demo_hooks :: hook_state where
  "demo_hooks = \<lparr>hk_backend_state = demo_state, subagent_backend = Some ''b'', teammate_backend = None, agent_reg = []\<rparr>"

theorem birth_backend_kept_witness:
  "agent_lookup ''a1'' (agent_reg (fold run_hook_op
     [SetSubagent None, SubagentStart (Some ''b2''), StateOp (SwitchOp 3 ''b''), SubagentStop (Some ''b2'')]
     (snd (handle_subagent_start (Some ''a1'') demo_hooks)))) = Some ''b''"
  by (rule birth_backend_kept) (simp_all add: demo_hooks_def)

end
