(* ===== verification/Routing.thy ===== *)
theory Routing
  imports Hooks Json
begin

text \<open>
  Backend resolution (\<open>src/proxy/pipeline/routing.rs\<close>): the marker scan, the marker model names and the
  five-step priority of \<open>resolve_backend\<close>, which also returns the routing decision it records in the
  request span.
\<close>

record backend_override =
  ovr_backend :: string
  ovr_reason :: string

record routing_decision =
  dec_backend :: string
  dec_reason :: string

definition hook_context_prefix :: string where
  "hook_context_prefix = ''SubagentStart hook additional context:''"

definition is_id_char :: "char \<Rightarrow> bool" where
  "is_id_char c \<longleftrightarrow> is_ascii_hexdigit c \<or> c = CHR ''-'' \<or> c = CHR ''_''"

definition parse_marker :: "string \<Rightarrow> string option" where
  "parse_marker s =
     (case str_find marker_prefix s of
        None \<Rightarrow> None
      | Some start \<Rightarrow>
          let rest = drop (start + length marker_prefix) s in
          (case str_find marker_suffix rest of
             None \<Rightarrow> None
           | Some end_ \<Rightarrow>
               let i = take end_ rest
               in if i \<noteq> [] \<and> list_all is_id_char i then Some i else None))"

definition parse_marker_in_hook_context :: "string \<Rightarrow> string option" where
  "parse_marker_in_hook_context s =
     (case str_find hook_context_prefix s of
        None \<Rightarrow> None
      | Some prefix_start \<Rightarrow> parse_marker (drop (prefix_start + length hook_context_prefix) s))"

fun first_some :: "('a \<Rightarrow> 'b option) \<Rightarrow> 'a list \<Rightarrow> 'b option" where
  "first_some f [] = None"
| "first_some f (x # xs) = (case f x of Some y \<Rightarrow> Some y | None \<Rightarrow> first_some f xs)"

definition marker_in_block :: "json \<Rightarrow> string option" where
  "marker_in_block block = Option.bind (jget_str ''text'' block) parse_marker_in_hook_context"

definition marker_in_message :: "json \<Rightarrow> string option" where
  "marker_in_message msg =
     (if jget_str ''role'' msg \<noteq> Some ''user'' then None
      else (case jget ''content'' msg of
              Some (JStr s) \<Rightarrow> parse_marker_in_hook_context s
            | Some (JArr bs) \<Rightarrow> first_some marker_in_block bs
            | _ \<Rightarrow> None))"

definition extract_ac_marker :: "json \<Rightarrow> string option" where
  "extract_ac_marker body =
     (case jget_arr ''messages'' body of
        None \<Rightarrow> None
      | Some ms \<Rightarrow> first_some marker_in_message (take 3 ms))"

definition detect_marker_model :: "string \<Rightarrow> backend_state \<Rightarrow> string option" where
  "detect_marker_model model bs =
     (case first_some (\<lambda>pre. case strip_prefix pre model of
               Some rest \<Rightarrow> if validate_backend rest bs then Some rest else None
             | None \<Rightarrow> None) [''marker-'', ''anycode-''] of
        Some r \<Rightarrow> Some r
      | None \<Rightarrow> if validate_backend model bs then Some model else None)"

definition route_target ::
  "backend_state \<Rightarrow> string option \<Rightarrow> backend_override option \<Rightarrow> json option \<Rightarrow> agent_registry
    \<Rightarrow> proxy_error + string \<times> string" where
  "route_target bs teammate plugin body r =
     (case plugin of
        Some ovr \<Rightarrow> Inr (ovr_backend ovr, ovr_reason ovr)
      | None \<Rightarrow>
     (case teammate of
        Some b \<Rightarrow> Inr (b, ''teammate route'')
      | None \<Rightarrow>
     (case (if agent_is_empty r then None else Option.bind body extract_ac_marker) of
        Some i \<Rightarrow>
          (case agent_lookup i r of
             Some b \<Rightarrow> Inr (b, ''ac marker session affinity'')
           | None \<Rightarrow> Inl (SubagentNotRegistered i))
      | None \<Rightarrow>
     (case Option.bind (Option.bind body (jget_str ''model'')) (\<lambda>m. detect_marker_model m bs) of
        Some b \<Rightarrow> Inr (b, ''marker model'')
      | None \<Rightarrow> Inr (get_active_backend bs, ''active backend'')))))"

definition resolve_backend ::
  "backend_state \<Rightarrow> string option \<Rightarrow> backend_override option \<Rightarrow> json option \<Rightarrow> agent_registry
    \<Rightarrow> proxy_error + backend \<times> routing_decision" where
  "resolve_backend bs teammate plugin body r =
     (case route_target bs teammate plugin body r of
        Inl e \<Rightarrow> Inl e
      | Inr (target, reason) \<Rightarrow>
          (case get_backend_config target bs of
             Inl e \<Rightarrow> Inl (BackendNotFound (show_backend_error e))
           | Inr b \<Rightarrow> Inr (b, \<lparr>dec_backend = target, dec_reason = reason\<rparr>)))"

section \<open>The marker\<close>

lemma marker_chars [simp]: "marker_prefix = CHR 0xE2 # [CHR 0x9F, CHR 0xA8, CHR ''A'', CHR ''C'', CHR '':'']"
  "marker_suffix = CHR 0xE2 # [CHR 0x9F, CHR 0xA9]"
  by (simp_all add: marker_prefix_def marker_suffix_def)

lemma id_char_ascii: "is_id_char c \<Longrightarrow> c \<noteq> CHR 0xE2"
  by (auto simp: is_id_char_def is_ascii_hexdigit_def is_ascii_digit_def)

lemma parse_marker_format:
  assumes "CHR 0xE2 \<notin> set a" "CHR 0xE2 \<notin> set i"
  shows "parse_marker (a @ format_marker i @ b) = (if i \<noteq> [] \<and> list_all is_id_char i then Some i else None)"
proof -
  let ?r = "i @ marker_suffix @ b"
  have "str_find marker_prefix (a @ marker_prefix @ ?r) = Some (length a)"
    using str_find_fresh_head[OF assms(1), of "tl marker_prefix" ?r] by simp
  moreover have "str_find marker_suffix ?r = Some (length i)"
    using str_find_fresh_head[OF assms(2), of "tl marker_suffix" b] by simp
  moreover have "a @ format_marker i @ b = a @ marker_prefix @ ?r" by (simp add: format_marker_def)
  ultimately show ?thesis by (simp add: parse_marker_def Let_def del: marker_chars)
qed

lemma id_no_e2: "list_all is_id_char i \<Longrightarrow> CHR 0xE2 \<notin> set i"
  by (auto simp: list_all_iff dest: id_char_ascii)

text \<open>The marker the start hook writes is read back by the router: in a text where Claude Code's hook
  prefix comes first and nothing before the marker looks like one, the id is found exactly when it is
  non-empty and made of hexadecimal digits, dashes and underscores.\<close>

theorem marker_roundtrip:
  assumes "str_find hook_context_prefix (a @ hook_context_prefix @ m @ format_marker i @ b) = Some (length a)"
    and "CHR 0xE2 \<notin> set m" "CHR 0xE2 \<notin> set i"
  shows "parse_marker_in_hook_context (a @ hook_context_prefix @ m @ format_marker i @ b)
       = (if i \<noteq> [] \<and> list_all is_id_char i then Some i else None)"
  using assms(1) parse_marker_format[OF assms(2,3), of b]
  by (simp add: parse_marker_in_hook_context_def)

theorem marker_roundtrip_witness:
  "parse_marker_in_hook_context (''<r>'' @ hook_context_prefix @ '' '' @ format_marker ''a1-b2'' @ ''</r>'') = Some ''a1-b2''"
  using marker_roundtrip[of "''<r>''" "'' ''" "''a1-b2''" "''</r>''"]
  by (simp add: is_id_char_def is_ascii_hexdigit_def is_ascii_digit_def hook_context_prefix_def format_marker_def str_starts_def)

section \<open>Resolution\<close>

lemma resolve_backend_configured:
  assumes "resolve_backend bs teammate plugin body r = Inr (b, d)"
  shows "b \<in> set (backends (cfg bs)) \<and> name b = dec_backend d \<and>
         route_target bs teammate plugin body r = Inr (dec_backend d, dec_reason d)"
  using assms
  by (auto simp: resolve_backend_def get_backend_config_def find_backend_def find_Some_iff
      split: sum.splits option.splits)

text \<open>A resolved request always has a configured backend, the one the recorded decision names.\<close>

theorem resolve_backend_sound:
  assumes "resolve_backend bs teammate plugin body r = Inr (b, d)"
  shows "b \<in> set (backends (cfg bs)) \<and> name b = dec_backend d \<and>
         route_target bs teammate plugin body r = Inr (dec_backend d, dec_reason d)"
  by (rule resolve_backend_configured[OF assms])

definition ask_body :: json where
  "ask_body = JObj [(''model'', JStr ''anycode-b'')]"

theorem resolve_backend_sound_witness:
  "name (default_backend\<lparr>name := ''b''\<rparr>) = ''b'' \<and>
   route_target demo_state None None (Some ask_body) [] = Inr (''b'', ''marker model'')"
proof -
  have "resolve_backend demo_state None None (Some ask_body) []
      = Inr (default_backend\<lparr>name := ''b''\<rparr>, \<lparr>dec_backend = ''b'', dec_reason = ''marker model''\<rparr>)" by code_simp
  from resolve_backend_sound[OF this] show ?thesis by simp
qed

text \<open>With a usable state the active backend is the fall-back that cannot fail: a request without
  overrides, marker and marker model goes to it.\<close>

theorem plain_request_active:
  assumes "active_ok bs" "Option.bind body extract_ac_marker = None"
    and "Option.bind (Option.bind body (jget_str ''model'')) (\<lambda>m. detect_marker_model m bs) = None"
  shows "\<exists>b. resolve_backend bs None None body r
             = Inr (b, \<lparr>dec_backend = active_backend bs, dec_reason = ''active backend''\<rparr>)
           \<and> name b = active_backend bs"
proof -
  obtain b where "find_backend (active_backend bs) bs = Inr b" "name b = active_backend bs"
    using find_backend_ok assms(1) by (auto simp: active_ok_def)
  then show ?thesis using assms(2,3)
    by (auto simp: resolve_backend_def route_target_def get_active_backend_def get_backend_config_def)
qed

theorem plain_request_active_witness:
  "\<exists>b. resolve_backend demo_state None None None [] = Inr (b, \<lparr>dec_backend = ''claude'', dec_reason = ''active backend''\<rparr>)"
proof -
  have "active_ok demo_state" by code_simp
  moreover have "active_backend demo_state = ''claude''" by (simp add: demo_state_def)
  ultimately show ?thesis using plain_request_active[of demo_state None "[]"] by fastforce
qed

text \<open>A request that carries the marker in one of its first three user messages.\<close>

definition carries_marker :: "json \<Rightarrow> string \<Rightarrow> bool" where
  "carries_marker body i \<longleftrightarrow>
     (\<exists>ms pre msg post a m b. jget_arr ''messages'' body = Some ms \<and> ms = pre @ msg # post \<and> length pre \<le> 2
        \<and> (\<forall>x \<in> set pre. marker_in_message x = None)
        \<and> jget_str ''role'' msg = Some ''user''
        \<and> jget ''content'' msg = Some (JStr (a @ hook_context_prefix @ m @ format_marker i @ b))
        \<and> CHR 0xE2 \<notin> set m
        \<and> str_find hook_context_prefix (a @ hook_context_prefix @ m @ format_marker i @ b) = Some (length a))"

lemma first_some_append: "\<forall>x \<in> set pre. f x = None \<Longrightarrow> f y = Some z \<Longrightarrow> first_some f (pre @ y # post) = Some z"
  by (induction pre) auto

lemma carries_marker_extract:
  assumes "carries_marker body i" "i \<noteq> []" "list_all is_id_char i"
  shows "extract_ac_marker body = Some i"
proof -
  obtain ms pre msg post a m b where c: "jget_arr ''messages'' body = Some ms" "ms = pre @ msg # post" "length pre \<le> 2"
    "\<forall>x \<in> set pre. marker_in_message x = None" "jget_str ''role'' msg = Some ''user''"
    "jget ''content'' msg = Some (JStr (a @ hook_context_prefix @ m @ format_marker i @ b))" "CHR 0xE2 \<notin> set m"
    "str_find hook_context_prefix (a @ hook_context_prefix @ m @ format_marker i @ b) = Some (length a)"
    using assms(1) unfolding carries_marker_def by blast
  have "parse_marker_in_hook_context (a @ hook_context_prefix @ m @ format_marker i @ b) = Some i"
    using c(8) parse_marker_format[OF c(7) id_no_e2[OF assms(3)], of b] assms(2,3)
    by (simp add: parse_marker_in_hook_context_def)
  then have "marker_in_message msg = Some i" using c(5,6) by (simp add: marker_in_message_def)
  moreover have "take 3 ms = pre @ msg # take (2 - length pre) post"
    using c(2,3) by (simp add: take_Cons')
  ultimately show ?thesis using c(1,4) first_some_append by (simp add: extract_ac_marker_def)
qed


definition marker_body :: json where
  "marker_body = JObj [(''messages'', JArr [JObj [(''role'', JStr ''user''),
     (''content'', JStr (hook_context_prefix @ '' '' @ format_marker ''a1''))]])]"

lemma marker_body_carries: "carries_marker marker_body ''a1''"
proof -
  let ?msg = "JObj [(''role'', JStr ''user''), (''content'', JStr (hook_context_prefix @ '' '' @ format_marker ''a1''))]"
  have "str_find hook_context_prefix (hook_context_prefix @ '' '' @ format_marker ''a1'') = Some 0" by code_simp
  then show ?thesis unfolding carries_marker_def
    by (intro exI[of _ "[?msg]"] exI[of _ "[]"] exI[of _ ?msg] exI[of _ "'' ''"])
      (simp add: marker_body_def jget_arr_def jget_str_def)
qed


text \<open>An unknown subagent is refused, not sent elsewhere: while any agent is registered, a marker
  whose id is not registered is the error \<open>SubagentNotRegistered\<close>, whatever the active backend and the model name are.\<close>

theorem unknown_subagent_refused:
  assumes "\<not> agent_is_empty r" "extract_ac_marker body = Some i" "agent_lookup i r = None"
  shows "resolve_backend bs None None (Some body) r = Inl (SubagentNotRegistered i)"
  using assms by (simp add: resolve_backend_def route_target_def)

theorem unknown_subagent_refused_witness:
  "resolve_backend demo_state None None (Some marker_body) [(''ff'', ''b'')] = Inl (SubagentNotRegistered ''a1'')"
  by (rule unknown_subagent_refused)
    (simp_all add: agent_is_empty_def agent_lookup_def carries_marker_extract[OF marker_body_carries] is_id_char_def
      is_ascii_hexdigit_def is_ascii_digit_def)

end
