(* ===== verification/Metrics.thy ===== *)
theory Metrics
  imports BodyAnalysis BoundedRing Routing
begin

text \<open>
  The request metrics (\<open>src/metrics/types.rs\<close>, \<open>ring.rs\<close>, \<open>span.rs\<close>, \<open>aggregator.rs\<close>, \<open>hub.rs\<close>,
  \<open>plugin.rs\<close>).  Instants and system times are nanoseconds; the time of each \<open>now()\<close> is an argument.  A
  plugin is the pair of its two hooks.  Counters are \<open>u64\<close> and wrap.
\<close>

section \<open>Records\<close>

record request_meta =
  rm_method :: string
  rm_path :: string
  rm_query :: "string option"
  rm_headers :: "(string \<times> string) list option"
  rm_body_preview :: "string option"

record response_meta =
  pm_headers :: "(string \<times> string) list option"
  pm_body_preview :: "string option"

record request_record =
  rec_id :: string
  started_at :: nat
  first_byte_at :: "nat option"
  completed_at :: "nat option"
  latency_ms :: "u64 option"
  ttfb_ms :: "u64 option"
  rec_backend :: string
  rec_status :: "u16 option"
  timed_out :: bool
  request_bytes :: u64
  response_bytes :: u64
  rec_request_analysis :: "request_analysis option"
  rec_response_analysis :: "response_analysis option"
  rec_routing_decision :: "routing_decision option"
  rec_request_meta :: "request_meta option"
  rec_response_meta :: "response_meta option"

record request_timing =
  started_instant :: nat
  first_byte_instant :: "nat option"
  completed_instant :: "nat option"

record request_span =
  span_record :: request_record
  span_timing :: request_timing

section \<open>Spans\<close>

definition new_span :: "nat \<Rightarrow> request_record \<Rightarrow> request_span" where
  "new_span now r =
     \<lparr>span_record = r, span_timing = \<lparr>started_instant = now, first_byte_instant = None, completed_instant = None\<rparr>\<rparr>"

definition set_backend :: "string \<Rightarrow> request_span \<Rightarrow> request_span" where
  "set_backend b s = s\<lparr>span_record := (span_record s)\<lparr>rec_backend := b\<rparr>\<rparr>"

definition set_status :: "u16 \<Rightarrow> request_span \<Rightarrow> request_span" where
  "set_status st s = s\<lparr>span_record := (span_record s)\<lparr>rec_status := Some st\<rparr>\<rparr>"

definition set_request_bytes :: "nat \<Rightarrow> request_span \<Rightarrow> request_span" where
  "set_request_bytes n s = s\<lparr>span_record := (span_record s)\<lparr>request_bytes := of_nat n\<rparr>\<rparr>"

definition add_response_bytes :: "nat \<Rightarrow> request_span \<Rightarrow> request_span" where
  "add_response_bytes n s =
     s\<lparr>span_record := (span_record s)\<lparr>response_bytes := sat_add (response_bytes (span_record s)) (of_nat n)\<rparr>\<rparr>"

definition mark_first_byte :: "nat \<Rightarrow> request_span \<Rightarrow> request_span" where
  "mark_first_byte now s =
     (let t = span_timing s in
      s\<lparr>span_timing := (if first_byte_instant t = None then t\<lparr>first_byte_instant := Some now\<rparr> else t)\<rparr>)"

definition mark_completed :: "nat \<Rightarrow> request_span \<Rightarrow> request_span" where
  "mark_completed now s =
     (let t = span_timing s in
      s\<lparr>span_timing := (if completed_instant t = None then t\<lparr>completed_instant := Some now\<rparr> else t)\<rparr>)"

definition mark_timed_out :: "request_span \<Rightarrow> request_span" where
  "mark_timed_out s = s\<lparr>span_record := (span_record s)\<lparr>timed_out := True\<rparr>\<rparr>"

text \<open>\<open>SystemTime::checked_add\<close>: seconds in \<open>i64\<close>.\<close>

definition checked_add_time :: "nat \<Rightarrow> nat \<Rightarrow> nat option" where
  "checked_add_time t d = (if (t + d) div 10 ^ 9 < 2 ^ 63 then Some (t + d) else None)"

definition as_millis :: "nat \<Rightarrow> u64" where
  "as_millis nanos = of_nat (nanos div 10 ^ 6)"

definition finalize_record :: "nat \<Rightarrow> request_timing \<Rightarrow> request_record \<Rightarrow> request_record" where
  "finalize_record now timing r =
     (let r1 = (if completed_at r = None then r\<lparr>completed_at := Some now\<rparr> else r);
          r2 = (case first_byte_instant timing of
                  Some fb \<Rightarrow> (let ttfb = fb - started_instant timing
                             in r1\<lparr>ttfb_ms := Some (as_millis ttfb), first_byte_at := checked_add_time (started_at r1) ttfb\<rparr>)
                | None \<Rightarrow> r1);
          r3 = (case completed_instant timing of
                  Some c \<Rightarrow> (let latency = c - started_instant timing
                            in r2\<lparr>latency_ms := Some (as_millis latency),
                                  completed_at := (case checked_add_time (started_at r2) latency of
                                                     Some t \<Rightarrow> Some t | None \<Rightarrow> completed_at r2)\<rparr>)
                | None \<Rightarrow> r2)
      in (case (first_byte_at r3, ttfb_ms r3) of
            (None, Some ms) \<Rightarrow> r3\<lparr>first_byte_at := checked_add_time (started_at r3) (unat ms * 10 ^ 6)\<rparr>
          | _ \<Rightarrow> r3))"

section \<open>Aggregation\<close>

record backend_accumulator =
  acc_total :: u64
  success_2xx :: u64
  client_error_4xx :: u64
  server_error_5xx :: u64
  acc_timeouts :: u64
  latency_total_ms :: u64
  latency_samples :: u64
  ttfb_total_ms :: u64
  ttfb_samples :: u64

definition new_accumulator :: backend_accumulator where
  "new_accumulator = \<lparr>acc_total = 0, success_2xx = 0, client_error_4xx = 0, server_error_5xx = 0, acc_timeouts = 0,
     latency_total_ms = 0, latency_samples = 0, ttfb_total_ms = 0, ttfb_samples = 0\<rparr>"

definition count_status :: "u16 option \<Rightarrow> backend_accumulator \<Rightarrow> backend_accumulator" where
  "count_status st a =
     (case st of
        None \<Rightarrow> a
      | Some s \<Rightarrow>
          if 200 \<le> s \<and> s < 300 then a\<lparr>success_2xx := success_2xx a + 1\<rparr>
          else if 400 \<le> s \<and> s < 500 then a\<lparr>client_error_4xx := client_error_4xx a + 1\<rparr>
          else if 500 \<le> s \<and> s < 600 then a\<lparr>server_error_5xx := server_error_5xx a + 1\<rparr>
          else a)"

definition acc_update :: "request_record \<Rightarrow> backend_accumulator \<Rightarrow> backend_accumulator" where
  "acc_update r a =
     (let a1 = count_status (rec_status r) (a\<lparr>acc_total := acc_total a + 1\<rparr>);
          a2 = (if timed_out r \<or> rec_status r = Some 504 then a1\<lparr>acc_timeouts := acc_timeouts a1 + 1\<rparr> else a1);
          a3 = (case latency_ms r of
                  Some l \<Rightarrow> a2\<lparr>latency_total_ms := sat_add (latency_total_ms a2) l, latency_samples := latency_samples a2 + 1\<rparr>
                | None \<Rightarrow> a2)
      in (case ttfb_ms r of
            Some t \<Rightarrow> a3\<lparr>ttfb_total_ms := sat_add (ttfb_total_ms a3) t, ttfb_samples := ttfb_samples a3 + 1\<rparr>
          | None \<Rightarrow> a3))"

text \<open>The quotient of two counters, each converted to a double first.\<close>

definition average :: "u64 \<Rightarrow> u64 \<Rightarrow> f64_bits" where
  "average amount samples = (if samples = 0 then 0 else f64_ratio (to_f64 (unat amount)) (to_f64 (unat samples)))"

definition avg_latency_ms :: "backend_accumulator \<Rightarrow> f64_bits" where
  "avg_latency_ms a = average (latency_total_ms a) (latency_samples a)"

definition avg_ttfb_ms :: "backend_accumulator \<Rightarrow> f64_bits" where
  "avg_ttfb_ms a = average (ttfb_total_ms a) (ttfb_samples a)"

record backend_metrics =
  bm_total :: u64
  bm_success_2xx :: u64
  bm_client_error_4xx :: u64
  bm_server_error_5xx :: u64
  bm_timeouts :: u64
  bm_avg_latency :: f64_bits
  bm_avg_ttfb :: f64_bits
  p50_latency_ms :: "u64 option"
  p95_latency_ms :: "u64 option"
  p99_latency_ms :: "u64 option"

definition metrics_default :: backend_metrics where
  "metrics_default = \<lparr>bm_total = 0, bm_success_2xx = 0, bm_client_error_4xx = 0, bm_server_error_5xx = 0, bm_timeouts = 0,
     bm_avg_latency = 0, bm_avg_ttfb = 0, p50_latency_ms = None, p95_latency_ms = None, p99_latency_ms = None\<rparr>"

text \<open>A percentile constant is its double: the significands of 0.50, 0.95 and 0.99 over \<open>2 ^ 53\<close>.\<close>

definition p50 :: nat where "p50 = 4503599627370496"
definition p95 :: nat where "p95 = 8556839292003942"
definition p99 :: nat where "p99 = 8917127262193582"

definition percentile_rank :: "nat \<Rightarrow> nat \<Rightarrow> nat" where
  "percentile_rank n p = f64_round ((n - 1) * p) (2 ^ 53)"

definition percentile :: "u64 list \<Rightarrow> nat \<Rightarrow> u64 option" where
  "percentile values p =
     (if values = [] then None
      else (let rank = percentile_rank (length values) p
            in if rank < length values then Some (values ! rank) else None))"

definition collect_latency ::
  "request_record \<Rightarrow> (string \<times> u64 list) list \<Rightarrow> (string \<times> u64 list) list" where
  "collect_latency r m =
     (case latency_ms r of
        None \<Rightarrow> m
      | Some l \<Rightarrow>
          AList.update (rec_backend r) ((case map_of m (rec_backend r) of Some vs \<Rightarrow> vs | None \<Rightarrow> []) @ [l]) m)"

definition with_percentiles :: "u64 list \<Rightarrow> backend_metrics \<Rightarrow> backend_metrics" where
  "with_percentiles vs m =
     m\<lparr>p50_latency_ms := percentile vs p50, p95_latency_ms := percentile vs p95, p99_latency_ms := percentile vs p99\<rparr>"

definition apply_percentiles ::
  "request_record list \<Rightarrow> (string \<times> backend_metrics) list \<Rightarrow> (string \<times> backend_metrics) list" where
  "apply_percentiles records per_backend =
     fold (\<lambda>(b, vs) m.
       AList.update b (with_percentiles (sort vs) (case map_of m b of Some x \<Rightarrow> x | None \<Rightarrow> metrics_default)) m)
       (fold collect_latency records []) per_backend"

section \<open>The hub\<close>

record 'q plugin =
  pre_request :: "'q \<Rightarrow> string \<Rightarrow> request_record \<Rightarrow> backend_override option \<times> request_record"
  post_response :: "request_record \<Rightarrow> request_record"

record request_ring =
  rr_capacity :: nat
  rr_records :: "request_record list"

definition ring_new :: "nat \<Rightarrow> request_ring" where
  "ring_new capacity = \<lparr>rr_capacity = capacity, rr_records = []\<rparr>"

definition request_push :: "request_record \<Rightarrow> request_ring \<Rightarrow> request_ring" where
  "request_push r s =
     (let kept = (if length (rr_records s) = rr_capacity s then drop 1 (rr_records s) else rr_records s)
      in s\<lparr>rr_records := kept @ [r]\<rparr>)"

record 'q hub =
  hub_ring :: request_ring
  aggregates :: "(string \<times> backend_accumulator) list"
  plugins :: "'q plugin list"

definition hub_new :: "nat \<Rightarrow> 'q hub" where
  "hub_new capacity = \<lparr>hub_ring = ring_new capacity, aggregates = [], plugins = []\<rparr>"

text \<open>\<open>with_plugins\<close> only works while the hub has one owner.\<close>

definition with_plugins :: "bool \<Rightarrow> 'q plugin list \<Rightarrow> 'q hub \<Rightarrow> 'q hub" where
  "with_plugins sole_owner ps h = (if sole_owner then h\<lparr>plugins := ps\<rparr> else h)"

definition fresh_record :: "string \<Rightarrow> nat \<Rightarrow> string \<Rightarrow> request_record" where
  "fresh_record i now b = \<lparr>rec_id = i, started_at = now, first_byte_at = None, completed_at = None, latency_ms = None,
     ttfb_ms = None, rec_backend = b, rec_status = None, timed_out = False, request_bytes = 0, response_bytes = 0,
     rec_request_analysis = None, rec_response_analysis = None, rec_routing_decision = None,
     rec_request_meta = None, rec_response_meta = None\<rparr>"

definition run_pre ::
  "'q \<Rightarrow> string \<Rightarrow> 'q plugin \<Rightarrow> backend_override option \<times> request_record \<Rightarrow> backend_override option \<times> request_record" where
  "run_pre q act p = (\<lambda>(ovr, r).
     case pre_request p q act r of (Some b, r') \<Rightarrow> (Some b, r') | (None, r') \<Rightarrow> (ovr, r'))"

definition start_request ::
  "string \<Rightarrow> 'q \<Rightarrow> string \<Rightarrow> nat \<Rightarrow> nat \<Rightarrow> 'q hub \<Rightarrow> request_span \<times> backend_override option" where
  "start_request i q act sys_now instant_now h =
     (case fold (run_pre q act) (plugins h) (None, fresh_record i sys_now act) of
        (ovr, r) \<Rightarrow> (new_span instant_now r, ovr))"

definition update_aggregates :: "request_record \<Rightarrow> 'q hub \<Rightarrow> 'q hub" where
  "update_aggregates r h =
     h\<lparr>aggregates := AList.update (rec_backend r)
         (acc_update r (case map_of (aggregates h) (rec_backend r) of Some a \<Rightarrow> a | None \<Rightarrow> new_accumulator))
         (aggregates h)\<rparr>"

definition finished_record :: "nat \<Rightarrow> nat \<Rightarrow> request_span \<Rightarrow> 'q hub \<Rightarrow> request_record" where
  "finished_record sys_now instant_now s h =
     (let s1 = mark_completed instant_now s
      in fold post_response (plugins h) (finalize_record sys_now (span_timing s1) (span_record s1)))"

definition finish_request :: "nat \<Rightarrow> nat \<Rightarrow> request_span \<Rightarrow> 'q hub \<Rightarrow> 'q hub" where
  "finish_request sys_now instant_now s h =
     (let r = finished_record sys_now instant_now s h;
          h1 = update_aggregates r h
      in h1\<lparr>hub_ring := request_push r (hub_ring h1)\<rparr>)"

definition finish_error :: "nat \<Rightarrow> nat \<Rightarrow> request_span \<Rightarrow> u16 option \<Rightarrow> 'q hub \<Rightarrow> 'q hub" where
  "finish_error sys_now instant_now s st h =
     finish_request sys_now instant_now
       (s\<lparr>span_record := (span_record s)\<lparr>rec_status := (case st of Some x \<Rightarrow> Some x | None \<Rightarrow> rec_status (span_record s))\<rparr>\<rparr>) h"

definition metrics_of :: "backend_accumulator \<Rightarrow> backend_metrics" where
  "metrics_of a = metrics_default\<lparr>bm_total := acc_total a, bm_success_2xx := success_2xx a,
     bm_client_error_4xx := client_error_4xx a, bm_server_error_5xx := server_error_5xx a,
     bm_timeouts := acc_timeouts a, bm_avg_latency := avg_latency_ms a, bm_avg_ttfb := avg_ttfb_ms a\<rparr>"

record metrics_snapshot =
  generated_at :: nat
  per_backend :: "(string \<times> backend_metrics) list"
  recent :: "request_record list"

definition hub_snapshot :: "nat \<Rightarrow> 'q hub \<Rightarrow> metrics_snapshot" where
  "hub_snapshot now h =
     (let recs = rr_records (hub_ring h)
      in \<lparr>generated_at = now,
          per_backend = apply_percentiles recs (map (\<lambda>(b, a). (b, metrics_of a)) (aggregates h)),
          recent = recs\<rparr>)"

end
