(* ===== verification/MetricsProps.thy ===== *)
theory MetricsProps
  imports Metrics
begin

text \<open>
  The metrics as a function of the log of finished requests: the ring holds the last records, every
  aggregate is the fold over its backend's records, and the percentiles are elements in order.
\<close>

section \<open>The ring of recent requests\<close>

interpretation recent_ring: bounded_ring request_push rr_records rr_capacity "\<lambda>r _. r"
  by unfold_locales (simp_all add: request_push_def ring_push_def Let_def)

type_synonym finish_event = "nat \<times> nat \<times> request_span"

definition finish_event :: "finish_event \<Rightarrow> 'q hub \<Rightarrow> 'q hub" where
  "finish_event = (\<lambda>(sys_now, instant_now, s). finish_request sys_now instant_now s)"

definition event_record :: "finish_event \<Rightarrow> 'q hub \<Rightarrow> request_record" where
  "event_record = (\<lambda>(sys_now, instant_now, s). finished_record sys_now instant_now s)"

lemma event_simps [simp]:
  "finish_event (t, i, s) h = finish_request t i s h" "event_record (t, i, s) h = finished_record t i s h"
  by (simp_all add: finish_event_def event_record_def)

lemma finish_request_simps [simp]:
  "rr_records (hub_ring (finish_request t i s h))
     = ring_push (rr_capacity (hub_ring h)) (finished_record t i s h) (rr_records (hub_ring h))"
  "rr_capacity (hub_ring (finish_request t i s h)) = rr_capacity (hub_ring h)"
  "plugins (finish_request t i s h) = plugins h"
  "aggregates (finish_request t i s h) = aggregates (update_aggregates (finished_record t i s h) h)"
  by (simp_all add: finish_request_def Let_def update_aggregates_def request_push_def ring_push_def)

interpretation hub_recent: bounded_ring finish_event "\<lambda>h. rr_records (hub_ring h)" "\<lambda>h. rr_capacity (hub_ring h)" event_record
  by unfold_locales auto

section \<open>The abstract log\<close>

text \<open>What the hub promises: everything it shows is determined by the records finished so far.\<close>

definition log_aggregate :: "request_record list \<Rightarrow> string \<Rightarrow> backend_accumulator option" where
  "log_aggregate recs b =
     (let mine = filter (\<lambda>r. rec_backend r = b) recs
      in if mine = [] then None else Some (fold acc_update mine new_accumulator))"

definition hub_shows :: "'q hub \<Rightarrow> request_record list \<Rightarrow> bool" where
  "hub_shows h recs \<longleftrightarrow>
     rr_records (hub_ring h) = last_n (rr_capacity (hub_ring h)) recs
     \<and> (\<forall>b. map_of (aggregates h) b = log_aggregate recs b)"

lemma log_aggregate_snoc:
  "log_aggregate (recs @ [r]) b
     = (if rec_backend r = b
        then Some (acc_update r (case log_aggregate recs b of Some a \<Rightarrow> a | None \<Rightarrow> new_accumulator))
        else log_aggregate recs b)"
  by (auto simp: log_aggregate_def Let_def)

lemma finished_record_plugins: "plugins h = plugins h' \<Longrightarrow> finished_record t i s h = finished_record t i s h'"
  by (simp add: finished_record_def)

lemma hub_shows_finish:
  assumes "hub_shows h recs" "0 < rr_capacity (hub_ring h)"
  shows "hub_shows (finish_request t i s h) (recs @ [finished_record t i s h])"
proof -
  let ?c = "rr_capacity (hub_ring h)" and ?r = "finished_record t i s h"
  have ring: "rr_records (hub_ring h) = last_n ?c recs" and agg: "\<And>b. map_of (aggregates h) b = log_aggregate recs b"
    using assms(1) by (auto simp: hub_shows_def)
  have len: "length (last_n ?c recs) \<le> ?c" by (simp add: last_n_def)
  have "ring_push ?c ?r (last_n ?c recs) = last_n ?c (recs @ [?r])"
    using ring_push_last[OF assms(2) len] last_n_snoc[OF assms(2)] by simp
  then show ?thesis
    using ring agg by (simp add: hub_shows_def update_aggregates_def log_aggregate_snoc)
qed


definition demo_span :: "string \<Rightarrow> u16 \<Rightarrow> request_span" where
  "demo_span b st = set_status st (new_span 0 (fresh_record ''r'' 0 b))"


section \<open>Counters\<close>

lemma count_status_total [simp]: "acc_total (count_status st a) = acc_total a"
  by (simp add: count_status_def split: option.splits)

lemma acc_update_total [simp]: "acc_total (acc_update r a) = acc_total a + 1"
  by (simp add: acc_update_def Let_def split: option.splits)

lemma fold_total: "acc_total (fold acc_update recs a) = acc_total a + of_nat (length recs)"
  by (induction recs arbitrary: a) (simp_all add: add_ac)

text \<open>The total counts every request of the backend.\<close>

lemma log_total:
  "log_aggregate recs b = Some a \<Longrightarrow> acc_total a = of_nat (length (filter (\<lambda>r. rec_backend r = b) recs))"
  by (auto simp: log_aggregate_def Let_def fold_total new_accumulator_def split: if_splits)

section \<open>Percentiles\<close>

lemma percentile_rank_le:
  assumes "0 < n" "n \<le> 2 ^ 53" "0 < p" "p \<le> 2 ^ 53"
  shows "percentile_rank n p < n"
proof (cases "n = 1")
  case True
  then show ?thesis by (simp add: percentile_rank_def f64_round_def)
next
  case False
  then have "f64_round ((n - 1) * p) (2 ^ 53) \<le> n - 1"
    using assms by (intro f64_round_fraction) auto
  then show ?thesis using assms(1) by (simp add: percentile_rank_def)
qed

lemma percentile_rank_mono:
  assumes "p \<le> q" "0 < p" "0 < n"
  shows "percentile_rank n p \<le> percentile_rank n q"
proof (cases "n = 1")
  case True
  then show ?thesis by (simp add: percentile_rank_def)
next
  case False
  then show ?thesis unfolding percentile_rank_def
    using assms by (intro f64_round_mono) (auto simp: divide_right_mono mult_left_mono)
qed

text \<open>The percentiles are defined for every backend with samples, each is one of the latencies, and they
  are in order, whatever the rounding of the rank does.\<close>

theorem percentiles_ordered:
  assumes "values \<noteq> []" "length values \<le> 2 ^ 53"
  shows "\<exists>a b c. percentile (sort values) p50 = Some a \<and> percentile (sort values) p95 = Some b
           \<and> percentile (sort values) p99 = Some c \<and> {a, b, c} \<subseteq> set values \<and> a \<le> b \<and> b \<le> c"
proof -
  let ?n = "length values" and ?v = "sort values"
  have n: "0 < ?n" using assms(1) by simp
  have num: "p50 \<le> p95" "p95 \<le> p99" "0 < p50" "0 < p95" "0 < p99" "p50 \<le> 2 ^ 53" "p95 \<le> 2 ^ 53" "p99 \<le> 2 ^ 53"
    by (simp_all add: p50_def p95_def p99_def)
  have lt: "percentile_rank ?n p < ?n" if "0 < p" "p \<le> 2 ^ 53" for p
    by (rule percentile_rank_le[OF n assms(2) that])
  have sel: "percentile ?v p = Some (?v ! percentile_rank ?n p)" if "0 < p" "p \<le> 2 ^ 53" for p
    using lt[OF that] n by (auto simp: percentile_def Let_def simp flip: length_greater_0_conv)
  have mem: "?v ! percentile_rank ?n p \<in> set values" if "0 < p" "p \<le> 2 ^ 53" for p
    using lt[OF that] by (metis length_sort nth_mem set_sort)
  have le: "?v ! percentile_rank ?n p \<le> ?v ! percentile_rank ?n q" if "p \<le> q" "0 < p" "0 < q" "q \<le> 2 ^ 53" for p q :: nat
    using percentile_rank_mono[OF that(1,2) n] lt[OF that(3,4)] by (intro sorted_nth_mono) auto
  show ?thesis using sel mem le num by auto
qed

theorem percentiles_ordered_witness:
  "\<exists>a b c. percentile (sort [30, 10, 20]) p50 = Some a \<and> percentile (sort [30, 10, 20]) p95 = Some b
     \<and> percentile (sort [30, 10, 20]) p99 = Some c \<and> a \<le> b \<and> b \<le> c"
  using percentiles_ordered[of "[30, 10, 20]"] by auto

end
