(* ===== verification/PtyHandle.thy ===== *)
theory PtyHandle
  imports BoundedRing Utf8
begin

text \<open>
  The handle on the child's pseudo-terminal (\<open>src/pty/handle.rs\<close>, \<open>hotkey.rs\<close>) and the parts of the
  session that compute (\<open>src/pty/session.rs\<close>): the tail of the child's output and its clean-up for the
  log.  The terminal itself is a library: the record keeps what was written to it, whether the writer
  is still there, whether writes and resizes fail, the scroll offset and the last size.
\<close>

section \<open>Writing\<close>

definition is_wrapper_hotkey :: "u8 \<Rightarrow> bool" where
  "is_wrapper_hotkey b \<longleftrightarrow> b = 0x02 \<or> b = 0x05 \<or> b = 0x13 \<or> b = 0x11"

record pty_handle =
  ph_written :: "u8 list"
  ph_open :: bool
  ph_broken :: bool
  ph_scrollback :: nat
  ph_size :: "(u16 \<times> u16) option"

definition without_hotkeys :: "u8 list \<Rightarrow> u8 list" where
  "without_hotkeys bytes = filter (\<lambda>b. \<not> is_wrapper_hotkey b) bytes"

text \<open>The flag of the result says that the write succeeded.\<close>

definition pty_send_input :: "u8 list \<Rightarrow> pty_handle \<Rightarrow> bool \<times> pty_handle" where
  "pty_send_input bytes h =
     (if \<not> ph_open h then (True, h)
      else let filtered = without_hotkeys bytes
        in if filtered = [] then (True, h)
           else if ph_broken h then (False, h)
           else (True, h\<lparr>ph_written := ph_written h @ filtered\<rparr>))"

definition pty_resize :: "u16 \<Rightarrow> u16 \<Rightarrow> pty_handle \<Rightarrow> bool \<times> pty_handle" where
  "pty_resize cols rows h = (if ph_broken h then (False, h) else (True, h\<lparr>ph_size := Some (cols, rows)\<rparr>))"

definition close_writer :: "pty_handle \<Rightarrow> pty_handle" where
  "close_writer h = h\<lparr>ph_open := False\<rparr>"

section \<open>Scrolling\<close>

text \<open>The library's scroll operation is a parameter: the new offset from a relative \<open>i32\<close> amount and the
  offset before (it is only called when the two differ).\<close>

definition pty_set_scrollback :: "(32 word \<Rightarrow> nat \<Rightarrow> nat) \<Rightarrow> nat \<Rightarrow> pty_handle \<Rightarrow> pty_handle" where
  "pty_set_scrollback scroll offset h =
     (if offset = ph_scrollback h then h
      else h\<lparr>ph_scrollback := scroll (of_nat offset - of_nat (ph_scrollback h)) (ph_scrollback h)\<rparr>)"

definition pty_scroll_up :: "(32 word \<Rightarrow> nat \<Rightarrow> nat) \<Rightarrow> nat \<Rightarrow> pty_handle \<Rightarrow> pty_handle" where
  "pty_scroll_up scroll n h = pty_set_scrollback scroll (ph_scrollback h + n) h"

definition pty_scroll_down :: "(32 word \<Rightarrow> nat \<Rightarrow> nat) \<Rightarrow> nat \<Rightarrow> pty_handle \<Rightarrow> pty_handle" where
  "pty_scroll_down scroll n h = pty_set_scrollback scroll (ph_scrollback h - n) h"

definition pty_reset_scrollback :: "(32 word \<Rightarrow> nat \<Rightarrow> nat) \<Rightarrow> pty_handle \<Rightarrow> pty_handle" where
  "pty_reset_scrollback scroll h = pty_set_scrollback scroll 0 h"

lemma pty_scroll_written [simp]:
  "ph_written (pty_set_scrollback scroll n h) = ph_written h" "ph_open (pty_set_scrollback scroll n h) = ph_open h"
  "ph_broken (pty_set_scrollback scroll n h) = ph_broken h"
  by (simp_all add: pty_set_scrollback_def)

lemma pty_resize_written [simp]:
  "ph_written (snd (pty_resize c r h)) = ph_written h" "ph_open (snd (pty_resize c r h)) = ph_open h"
  "ph_broken (snd (pty_resize c r h)) = ph_broken h"
  by (simp_all add: pty_resize_def)

text \<open>A handle that accepts input.\<close>

definition writable :: "pty_handle \<Rightarrow> bool" where
  "writable h \<longleftrightarrow> ph_open h \<and> \<not> ph_broken h"

lemma without_hotkeys_append [simp]: "without_hotkeys (a @ b) = without_hotkeys a @ without_hotkeys b"
  by (simp add: without_hotkeys_def)

lemma send_input_written [simp]:
  "writable h \<Longrightarrow> ph_written (snd (pty_send_input bytes h)) = ph_written h @ without_hotkeys bytes"
  "writable h \<Longrightarrow> writable (snd (pty_send_input bytes h))"
  by (auto simp: pty_send_input_def writable_def Let_def)

lemma sends_written:
  "writable h \<Longrightarrow> writable (fold (\<lambda>b h. snd (pty_send_input b h)) bs h)
     \<and> ph_written (fold (\<lambda>b h. snd (pty_send_input b h)) bs h) = ph_written h @ without_hotkeys (concat bs)"
  by (induction bs arbitrary: h) (auto simp: without_hotkeys_def)

section \<open>The tail of the output\<close>

definition tail_limit :: nat where
  "tail_limit = 4096"

definition push_tail :: "u8 list \<Rightarrow> u8 list \<Rightarrow> u8 list" where
  "push_tail chunk tail =
     (if tail_limit \<le> length chunk then drop (length chunk - tail_limit) chunk
      else let t = tail @ chunk
        in if tail_limit < length t then drop (length t - tail_limit) t else t)"

text \<open>After any reads the tail is the last 4096 bytes of all that was read.\<close>

lemma push_tail_last: "push_tail chunk (last_n tail_limit out) = last_n tail_limit (out @ chunk)"
  by (cases "length out \<le> tail_limit") (auto simp: push_tail_def last_n_def Let_def add.commute)

lemma tail_is_suffix: "fold push_tail chunks [] = last_n tail_limit (concat chunks)"
proof -
  have "fold push_tail chunks (last_n tail_limit out) = last_n tail_limit (out @ concat chunks)" for out
    by (induction chunks arbitrary: out) (simp_all add: push_tail_last)
  from this[of "[]"] show ?thesis by simp
qed

section \<open>Escape sequences\<close>

fun skip_csi :: "u8 list \<Rightarrow> u8 list" where
  "skip_csi [] = []"
| "skip_csi (b # bs) = (if 0x40 \<le> b \<and> b \<le> 0x7E then bs else skip_csi bs)"

fun skip_osc :: "u8 list \<Rightarrow> u8 list" where
  "skip_osc [] = []"
| "skip_osc [b] = []"
| "skip_osc (b # c # r) =
     (if b = 0x07 then c # r
      else if b = 0x1B \<and> c = 0x5C then r
      else skip_osc (c # r))"

lemma skip_csi_length: "length (skip_csi bs) \<le> length bs"
  by (induction bs) auto

lemma skip_osc_length: "length (skip_osc bs) \<le> length bs"
  by (induction bs rule: skip_osc.induct) auto

text \<open>\<open>out.push(c as char)\<close> reads the byte as a code point.\<close>

definition push_as_char :: "u8 \<Rightarrow> u8 list" where
  "push_as_char c = map of_nat (utf8_encode (unat c))"

function strip_ansi :: "u8 list \<Rightarrow> u8 list" where
  "strip_ansi [] = []"
| "strip_ansi (c # bs) =
     (if c = 0x1B then
        (case bs of
           [] \<Rightarrow> push_as_char c
         | n # r \<Rightarrow>
             if n = 0x5B then strip_ansi (skip_csi r)
             else if n = 0x5D then strip_ansi (skip_osc r)
             else strip_ansi r)
      else push_as_char c @ strip_ansi bs)"
  by pat_completeness auto
termination strip_ansi
  by (relation "measure length") (auto simp: less_Suc_eq_le intro!: le_SucI skip_csi_length skip_osc_length)

lemma push_ascii: "unat c < 0x80 \<Longrightarrow> push_as_char c = [c]"
  by (simp add: push_as_char_def utf8_encode_def)

text \<open>Plain ASCII passes; a sequence complete in the input leaves nothing.\<close>

lemma strip_plain: "\<forall>c \<in> set s. unat c < 0x80 \<and> c \<noteq> 0x1B \<Longrightarrow> strip_ansi (s @ t) = s @ strip_ansi t"
  by (induction s) (auto simp: push_ascii)

lemma skip_csi_params: "\<forall>b \<in> set ps. \<not> (0x40 \<le> b \<and> b \<le> 0x7E) \<Longrightarrow> 0x40 \<le> f \<Longrightarrow> f \<le> 0x7E \<Longrightarrow> skip_csi (ps @ f # t) = t"
  by (induction ps) auto

text \<open>The clean-up does what it is for on ASCII output: text, then a control sequence, then text, leaves
  the two texts.  A character beyond ASCII is taken apart: each of its bytes becomes a character.\<close>

theorem strip_ansi_spec:
  assumes "\<forall>c \<in> set s. unat c < 0x80 \<and> c \<noteq> 0x1B" "\<forall>b \<in> set ps. \<not> (0x40 \<le> b \<and> b \<le> 0x7E)" "0x40 \<le> f" "f \<le> 0x7E"
  shows "strip_ansi (s @ [0x1B, 0x5B] @ ps @ f # t) = s @ strip_ansi t"
  using strip_plain[OF assms(1)] skip_csi_params[OF assms(2-)] by simp

theorem strip_ansi_spec_witness:
  "strip_ansi [0x6F, 0x6B, 0x1B, 0x5B, 0x33, 0x31, 0x6D, 0x21] = [0x6F, 0x6B, 0x21]
   \<and> strip_ansi [0xC3, 0xBC] = [0xC3, 0x83, 0xC2, 0xBC]"
  using strip_ansi_spec[of "[0x6F, 0x6B]" "[0x33, 0x31]" "0x6D" "[0x21]"]
  by (simp add: push_as_char_def utf8_encode_def)

end
