(* ===== verification/Mvi.thy ===== *)
theory Mvi
  imports Prelude
begin

text \<open>
  The model-view-intent runtime (\<open>crates/mvi/src/lib.rs\<close>).  An actor is a function from an intent and a
  state to the new state and the side effects it emits; a store owns the state and hands the effects
  to its callback (recorded here in the order of the calls) or back to the caller.  Inside the locale:
  what every actor with an invariant gives its store.
\<close>

record ('s, 'e) store =
  store_state :: 's
  delivered :: "'e list"

definition store_new :: "'s \<Rightarrow> ('s, 'e) store" where
  "store_new s = \<lparr>store_state = s, delivered = []\<rparr>"

definition dispatch :: "('i \<Rightarrow> 's \<Rightarrow> 's \<times> 'e list) \<Rightarrow> 'i \<Rightarrow> ('s, 'e) store \<Rightarrow> ('s, 'e) store" where
  "dispatch handle i st =
     (case handle i (store_state st) of (s, es) \<Rightarrow> \<lparr>store_state = s, delivered = delivered st @ es\<rparr>)"

definition dispatch_collect ::
  "('i \<Rightarrow> 's \<Rightarrow> 's \<times> 'e list) \<Rightarrow> 'i \<Rightarrow> ('s, 'e) store \<Rightarrow> ('s, 'e) store \<times> 'e list" where
  "dispatch_collect handle i st = (case handle i (store_state st) of (s, es) \<Rightarrow> (st\<lparr>store_state := s\<rparr>, es))"

locale mvi_actor =
  fixes handle :: "'i \<Rightarrow> 's \<Rightarrow> 's \<times> 'e list" and initial :: 's and inv :: "'s \<Rightarrow> bool" and ok :: "'i \<Rightarrow> bool"
  assumes inv_initial: "inv initial"
    and inv_handle: "inv s \<Longrightarrow> ok i \<Longrightarrow> inv (fst (handle i s))"
begin

lemma inv_dispatch: "inv (store_state st) \<Longrightarrow> ok i \<Longrightarrow> inv (store_state (dispatch handle i st))"
  using inv_handle[of "store_state st" i] by (simp add: dispatch_def case_prod_unfold)

lemma inv_dispatches:
  "\<forall>i \<in> set is. ok i \<Longrightarrow> inv (store_state (fold (dispatch handle) is (store_new initial)))"
  by (induction "is" rule: rev_induct) (auto simp: store_new_def inv_initial intro: inv_dispatch)

text \<open>Collecting the effects moves the state exactly as dispatching does.\<close>

lemma collect_state: "store_state (fst (dispatch_collect handle i st)) = store_state (dispatch handle i st)"
  by (simp add: dispatch_collect_def dispatch_def case_prod_unfold)

end

end
