(* ===== verification/Dialogs.thy ===== *)
theory Dialogs
  imports Mvi ClaudeSettings
begin

text \<open>
  The actors of the four UI components (\<open>src/ui/history\<close>, \<open>src/ui/settings\<close>, \<open>src/ui/backend_switch\<close>,
  \<open>src/ui/pty\<close>): their states, their intents and one function per \<open>handle_intent\<close>.  A \<open>usize\<close> is a natural
  number.  Each actor is an interpretation of the runtime's locale with its own invariant.
\<close>

section \<open>History dialog\<close>

record history_entry =
  he_timestamp :: nat
  from_backend :: "string option"
  to_backend :: string

datatype history_state = HistHidden | HistVisible (hist_entries: "history_entry list") (scroll_offset: nat)

datatype history_intent = HistLoad "history_entry list" | HistClose | HistScrollUp | HistScrollDown

definition MAX_VISIBLE_ROWS :: nat where
  "MAX_VISIBLE_ROWS = 14"

definition handle_history :: "history_intent \<Rightarrow> history_state \<Rightarrow> history_state \<times> unit list" where
  "handle_history i s =
     (case i of
        HistLoad entries \<Rightarrow> HistVisible entries (length entries - MAX_VISIBLE_ROWS)
      | HistClose \<Rightarrow> HistHidden
      | HistScrollUp \<Rightarrow> (case s of HistVisible es off \<Rightarrow> HistVisible es (off - 1) | other \<Rightarrow> other)
      | HistScrollDown \<Rightarrow>
          (case s of HistVisible es off \<Rightarrow> HistVisible es (min (off + 1) (length es - MAX_VISIBLE_ROWS)) | other \<Rightarrow> other),
      [])"

definition history_visible :: "history_state \<Rightarrow> bool" where
  "history_visible s = (case s of HistHidden \<Rightarrow> False | _ \<Rightarrow> True)"

section \<open>Settings dialog\<close>

datatype settings_state =
    SetHidden
  | SetVisible (set_fields: "field_snapshot list") (set_focused: nat) (set_dirty: bool) (confirm_discard: bool)

datatype settings_intent = SetLoad "field_snapshot list" | SetClose | SetRequestClose | SetMoveUp | SetMoveDown | SetToggle

definition toggle_field :: "nat \<Rightarrow> field_snapshot list \<Rightarrow> field_snapshot list" where
  "toggle_field k fs = (if k < length fs then fs[k := (fs ! k)\<lparr>fs_value := \<not> fs_value (fs ! k)\<rparr>] else fs)"

definition handle_settings :: "settings_intent \<Rightarrow> settings_state \<Rightarrow> settings_state \<times> unit list" where
  "handle_settings i s =
     (case i of
        SetLoad fs \<Rightarrow> SetVisible fs 0 False False
      | SetClose \<Rightarrow> SetHidden
      | SetRequestClose \<Rightarrow>
          (case s of SetVisible fs k True False \<Rightarrow> SetVisible fs k True True | _ \<Rightarrow> SetHidden)
      | SetMoveUp \<Rightarrow>
          (case s of SetVisible fs k d c \<Rightarrow> SetVisible fs (if k = 0 then length fs - 1 else k - 1) d False | other \<Rightarrow> other)
      | SetMoveDown \<Rightarrow>
          (case s of SetVisible fs k d c \<Rightarrow> SetVisible fs (if k + 1 \<ge> length fs then 0 else k + 1) d False | other \<Rightarrow> other)
      | SetToggle \<Rightarrow>
          (case s of SetVisible fs k d c \<Rightarrow> SetVisible (toggle_field k fs) k True False | other \<Rightarrow> other),
      [])"

definition settings_visible :: "settings_state \<Rightarrow> bool" where
  "settings_visible s = (case s of SetHidden \<Rightarrow> False | _ \<Rightarrow> True)"

section \<open>Backend switch dialog\<close>

datatype popup_section = SecActive | SecSubagent | SecTeammate

datatype switch_state =
    SwHidden
  | SwVisible (sw_section: popup_section) (backend_sel: nat) (subagent_sel: nat) (teammate_sel: nat) (backends_count: nat)

datatype switch_intent = SwOpen nat nat nat nat | SwClose | SwNextSection | SwMoveUp | SwMoveDown

definition next_section :: "popup_section \<Rightarrow> popup_section" where
  "next_section s = (case s of SecActive \<Rightarrow> SecSubagent | SecSubagent \<Rightarrow> SecTeammate | SecTeammate \<Rightarrow> SecActive)"

definition wrap_around :: "nat \<Rightarrow> int \<Rightarrow> nat \<Rightarrow> nat" where
  "wrap_around current dir len =
     (if len = 0 then 0
      else let c = min current (len - 1) in
        if dir < 0 then (if c = 0 then len - 1 else c - 1)
        else if c + 1 \<ge> len then 0 else c + 1)"

definition navigate :: "int \<Rightarrow> switch_state \<Rightarrow> switch_state" where
  "navigate dir s =
     (case s of
        SwVisible sec b su t n \<Rightarrow>
          (case sec of
             SecActive \<Rightarrow> SwVisible sec (wrap_around b dir n) su t n
           | SecSubagent \<Rightarrow> SwVisible sec b (wrap_around su dir (n + 1)) t n
           | SecTeammate \<Rightarrow> SwVisible sec b su (wrap_around t dir (n + 1)) n)
      | other \<Rightarrow> other)"

definition handle_switch :: "switch_intent \<Rightarrow> switch_state \<Rightarrow> switch_state \<times> unit list" where
  "handle_switch i s =
     (case i of
        SwOpen b su t n \<Rightarrow> SwVisible SecActive b su t n
      | SwClose \<Rightarrow> SwHidden
      | SwNextSection \<Rightarrow> (case s of SwVisible sec b su t n \<Rightarrow> SwVisible (next_section sec) b su t n | other \<Rightarrow> other)
      | SwMoveUp \<Rightarrow> navigate (- 1) s
      | SwMoveDown \<Rightarrow> navigate 1 s,
      [])"

definition switch_visible :: "switch_state \<Rightarrow> bool" where
  "switch_visible s = (case s of SwHidden \<Rightarrow> False | _ \<Rightarrow> True)"

section \<open>PTY lifecycle\<close>

type_synonym bytes = "u8 list"

datatype pty_state = Pending "bytes list" | Attached "bytes list" | Ready | Restarting

datatype pty_intent = PtyAttach | PtyGotOutput | PtyBufferInput bytes | PtyDetach | PtySpawnFailed

datatype pty_effect = FlushBuffer "bytes list"

definition handle_pty :: "pty_intent \<Rightarrow> pty_state \<Rightarrow> pty_state \<times> pty_effect list" where
  "handle_pty i s =
     (case i of
        PtyAttach \<Rightarrow>
          (case s of Pending b \<Rightarrow> (Attached b, []) | Attached b \<Rightarrow> (Attached b, [])
           | Restarting \<Rightarrow> (Attached [], []) | Ready \<Rightarrow> (Ready, []))
      | PtyGotOutput \<Rightarrow>
          (case s of Attached b \<Rightarrow> (Ready, if b \<noteq> [] then [FlushBuffer b] else []) | other \<Rightarrow> (other, []))
      | PtyBufferInput bs \<Rightarrow>
          (case s of Pending b \<Rightarrow> (Pending (b @ [bs]), []) | Attached b \<Rightarrow> (Attached (b @ [bs]), [])
           | Ready \<Rightarrow> (Ready, []) | Restarting \<Rightarrow> (Restarting, []))
      | PtyDetach \<Rightarrow> (Restarting, [])
      | PtySpawnFailed \<Rightarrow> (case s of Restarting \<Rightarrow> (Pending [], []) | other \<Rightarrow> (other, [])))"

definition pty_ready :: "pty_state \<Rightarrow> bool" where
  "pty_ready s = (case s of Ready \<Rightarrow> True | _ \<Rightarrow> False)"

definition pty_buffering :: "pty_state \<Rightarrow> bool" where
  "pty_buffering s = (case s of Pending _ \<Rightarrow> True | Attached _ \<Rightarrow> True | _ \<Rightarrow> False)"

definition pty_attached :: "pty_state \<Rightarrow> bool" where
  "pty_attached s = (case s of Attached _ \<Rightarrow> True | _ \<Rightarrow> False)"

definition pty_restarting :: "pty_state \<Rightarrow> bool" where
  "pty_restarting s = (case s of Restarting \<Rightarrow> True | _ \<Rightarrow> False)"

lemmas pty_tests = pty_ready_def pty_buffering_def pty_attached_def pty_restarting_def

section \<open>The actors' invariants\<close>

text \<open>The history never scrolls past its last page.\<close>

definition history_inv :: "history_state \<Rightarrow> bool" where
  "history_inv s = (case s of HistHidden \<Rightarrow> True | HistVisible es off \<Rightarrow> off \<le> length es - MAX_VISIBLE_ROWS)"

text \<open>The focused row exists; a pending confirmation means unsaved changes.\<close>

definition settings_inv :: "settings_state \<Rightarrow> bool" where
  "settings_inv s =
     (case s of SetHidden \<Rightarrow> True | SetVisible fs k d c \<Rightarrow> (k < length fs \<or> k = 0) \<and> (c \<longrightarrow> d))"

text \<open>The selections stay within the rows of their sections (the override sections have one row more).\<close>

definition switch_inv :: "switch_state \<Rightarrow> bool" where
  "switch_inv s =
     (case s of SwHidden \<Rightarrow> True | SwVisible sec b su t n \<Rightarrow> (b < n \<or> b = 0) \<and> su \<le> n \<and> t \<le> n)"

fun switch_ok :: "switch_intent \<Rightarrow> bool" where
  "switch_ok (SwOpen b su t n) = ((b < n \<or> b = 0) \<and> su \<le> n \<and> t \<le> n)"
| "switch_ok _ = True"

lemma wrap_around_lt: "0 < n \<Longrightarrow> wrap_around k dir n < n"
  by (auto simp: wrap_around_def Let_def)

interpretation history: mvi_actor handle_history HistHidden history_inv "\<lambda>_. True"
  by unfold_locales
    (auto simp: handle_history_def history_inv_def split: history_intent.splits history_state.splits)

interpretation settings: mvi_actor handle_settings SetHidden settings_inv "\<lambda>_. True"
  by unfold_locales
    (auto simp: handle_settings_def settings_inv_def toggle_field_def
      split: settings_intent.splits settings_state.splits bool.splits)

lemma navigate_inv: "switch_inv s \<Longrightarrow> switch_inv (navigate dir s)"
  using wrap_around_lt[of "_ + 1" _ dir] wrap_around_lt
  by (fastforce simp: navigate_def switch_inv_def wrap_around_def Let_def split: switch_state.splits popup_section.splits)

interpretation backend_switch: mvi_actor handle_switch SwHidden switch_inv switch_ok
proof
  show "switch_inv SwHidden" by (simp add: switch_inv_def)
  show "switch_inv (fst (handle_switch i s))" if "switch_inv s" "switch_ok i" for s i
    using that navigate_inv
    by (cases i) (auto simp: handle_switch_def switch_inv_def split: switch_state.splits)
qed

interpretation pty: mvi_actor handle_pty "Pending []" "\<lambda>_. True" "\<lambda>_. True"
  by unfold_locales simp_all

text \<open>Wrap-around navigation visits every row: moving down and up are inverse inside the list, and
  as many steps as there are rows come back to the start.\<close>

lemma wrap_inverse:
  "k < n \<Longrightarrow> wrap_around (wrap_around k 1 n) (- 1) n = k"
  "k < n \<Longrightarrow> wrap_around (wrap_around k (- 1) n) 1 n = k"
  by (auto simp: wrap_around_def Let_def)

lemma wrap_down: "k < n \<Longrightarrow> wrap_around k 1 n = Suc k mod n"
  by (auto simp: wrap_around_def Let_def mod_Suc)

lemma wrap_steps: "k < n \<Longrightarrow> ((\<lambda>j. wrap_around j 1 n) ^^ m) k = (k + m) mod n"
proof (induction m)
  case 0
  then show ?case by simp
next
  case (Suc m)
  then have "((\<lambda>j. wrap_around j 1 n) ^^ m) k = (k + m) mod n" "(k + m) mod n < n" by auto
  then show ?case by (simp add: wrap_down mod_Suc_eq)
qed



end
