(* ===== verification/ErrorRegistry.thy ===== *)
theory ErrorRegistry
  imports BoundedRing
begin

text \<open>
  The application's error registry (\<open>src/error.rs\<close>): a bounded ring of recorded errors, the recoveries in
  progress, the health flag and the degraded features.  The state behind the lock is a record and
  every method is a function on it; \<open>SystemTime\<close> is in nanoseconds and \<open>now()\<close> an argument.
\<close>

section \<open>Data\<close>

datatype error_severity = SevInfo | SevWarning | SevError | SevCritical

fun severity_rank :: "error_severity \<Rightarrow> nat" where
  "severity_rank SevInfo = 0"
| "severity_rank SevWarning = 1"
| "severity_rank SevError = 2"
| "severity_rank SevCritical = 3"

text \<open>The derived order: the order of declaration.\<close>

instantiation error_severity :: linorder
begin

definition less_eq_error_severity :: "error_severity \<Rightarrow> error_severity \<Rightarrow> bool" where
  "a \<le> b \<longleftrightarrow> severity_rank a \<le> severity_rank b"

definition less_error_severity :: "error_severity \<Rightarrow> error_severity \<Rightarrow> bool" where
  "a < b \<longleftrightarrow> severity_rank a < severity_rank b"

instance
proof
  fix a b c :: error_severity
  show "a \<le> b \<Longrightarrow> b \<le> a \<Longrightarrow> a = b"
    by (cases a; cases b) (simp_all add: less_eq_error_severity_def)
qed (auto simp: less_eq_error_severity_def less_error_severity_def)

end

datatype error_category = CatProcess | CatNetwork | CatConfig | CatBackend | CatIpc | CatSystem

datatype feature = FeatMetrics | FeatClipboard | FeatConfigHotReload | FeatBackendSwitch

record app_error =
  err_id :: u64
  err_timestamp :: nat
  err_severity :: error_severity
  err_category :: error_category
  err_message :: string
  err_details :: "string option"
  recovery_hint :: "string option"
  acknowledged :: bool

record recovery_state =
  operation :: string
  attempt :: u32
  max_attempts :: u32
  next_retry :: "nat option"
  succeeded :: bool

record error_registry =
  next_id :: u64
  errors :: "app_error list"
  err_capacity :: nat
  recoveries :: "recovery_state list"
  healthy :: bool
  unhealthy_reason :: "string option"
  degraded_features :: "feature list"

section \<open>Operations\<close>

definition new_error_registry :: "nat \<Rightarrow> error_registry" where
  "new_error_registry capacity = \<lparr>next_id = 1, errors = [], err_capacity = capacity, recoveries = [],
     healthy = True, unhealthy_reason = None, degraded_features = []\<rparr>"

record error_report =
  rep_now :: nat
  rep_severity :: error_severity
  rep_category :: error_category
  rep_message :: string
  rep_details :: "string option"
  rep_hint :: "string option"

definition report_error :: "error_report \<Rightarrow> error_registry \<Rightarrow> app_error" where
  "report_error e s = \<lparr>err_id = next_id s, err_timestamp = rep_now e, err_severity = rep_severity e,
     err_category = rep_category e, err_message = rep_message e, err_details = rep_details e,
     recovery_hint = rep_hint e, acknowledged = False\<rparr>"

text \<open>The common body of \<open>record_with_details\<close> and \<open>record_with_hint\<close>, which only differ in the hint.\<close>

definition record_error :: "error_report \<Rightarrow> error_registry \<Rightarrow> error_registry" where
  "record_error e s =
     (let err = report_error e s;
          s1 = s\<lparr>next_id := next_id s + 1\<rparr>;
          s2 = (if SevError \<le> rep_severity e then s1\<lparr>healthy := False, unhealthy_reason := Some (rep_message e)\<rparr> else s1);
          kept = (if length (errors s2) = err_capacity s2 then drop 1 (errors s2) else errors s2)
      in s2\<lparr>errors := kept @ [err]\<rparr>)"

definition record_with_details ::
  "nat \<Rightarrow> error_severity \<Rightarrow> error_category \<Rightarrow> string \<Rightarrow> string option \<Rightarrow> error_registry \<Rightarrow> error_registry" where
  "record_with_details now sev cat msg det s =
     record_error \<lparr>rep_now = now, rep_severity = sev, rep_category = cat, rep_message = msg, rep_details = det, rep_hint = None\<rparr> s"

definition record_with_hint ::
  "nat \<Rightarrow> error_severity \<Rightarrow> error_category \<Rightarrow> string \<Rightarrow> string option \<Rightarrow> string \<Rightarrow> error_registry \<Rightarrow> error_registry" where
  "record_with_hint now sev cat msg det hint s =
     record_error \<lparr>rep_now = now, rep_severity = sev, rep_category = cat, rep_message = msg, rep_details = det, rep_hint = Some hint\<rparr> s"

definition current_error :: "error_registry \<Rightarrow> app_error option" where
  "current_error s = find (\<lambda>e. \<not> acknowledged e \<and> SevWarning \<le> err_severity e) (rev (errors s))"

definition errors_by_category :: "error_category \<Rightarrow> error_registry \<Rightarrow> app_error list" where
  "errors_by_category c s = filter (\<lambda>e. err_category e = c) (errors s)"

text \<open>\<open>iter_mut().find(..)\<close> and a change of what it finds.\<close>

fun update_first :: "('a \<Rightarrow> bool) \<Rightarrow> ('a \<Rightarrow> 'a) \<Rightarrow> 'a list \<Rightarrow> 'a list" where
  "update_first P f [] = []"
| "update_first P f (x # xs) = (if P x then f x # xs else x # update_first P f xs)"

definition acknowledge :: "u64 \<Rightarrow> error_registry \<Rightarrow> error_registry" where
  "acknowledge i s = s\<lparr>errors := update_first (\<lambda>e. err_id e = i) (\<lambda>e. e\<lparr>acknowledged := True\<rparr>) (errors s)\<rparr>"

definition acknowledge_all :: "error_registry \<Rightarrow> error_registry" where
  "acknowledge_all s = s\<lparr>errors := map (\<lambda>e. e\<lparr>acknowledged := True\<rparr>) (errors s)\<rparr>"

definition clear_old :: "nat \<Rightarrow> nat \<Rightarrow> error_registry \<Rightarrow> error_registry" where
  "clear_old now older_than s = s\<lparr>errors := filter (\<lambda>e. now - older_than \<le> err_timestamp e) (errors s)\<rparr>"

definition start_recovery :: "string \<Rightarrow> u32 \<Rightarrow> error_registry \<Rightarrow> error_registry" where
  "start_recovery oper maxi s =
     s\<lparr>recoveries := filter (\<lambda>r. operation r \<noteq> oper) (recoveries s)
        @ [\<lparr>operation = oper, attempt = 1, max_attempts = maxi, next_retry = None, succeeded = False\<rparr>]\<rparr>"

definition update_recovery :: "string \<Rightarrow> u32 \<Rightarrow> nat option \<Rightarrow> error_registry \<Rightarrow> error_registry" where
  "update_recovery oper n retry_at s =
     s\<lparr>recoveries := update_first (\<lambda>r. operation r = oper) (\<lambda>r. r\<lparr>attempt := n, next_retry := retry_at\<rparr>) (recoveries s)\<rparr>"

definition active_errors :: "error_registry \<Rightarrow> bool" where
  "active_errors s = (\<exists>e \<in> set (errors s). \<not> acknowledged e \<and> SevError \<le> err_severity e)"

definition recovery_succeeded :: "string \<Rightarrow> error_registry \<Rightarrow> error_registry" where
  "recovery_succeeded oper s =
     (let s1 = s\<lparr>recoveries := filter (\<lambda>r. operation r \<noteq> oper) (recoveries s)\<rparr>
      in if recoveries s1 = [] \<and> \<not> active_errors s1 then s1\<lparr>healthy := True, unhealthy_reason := None\<rparr> else s1)"

definition recovery_failed :: "string \<Rightarrow> error_registry \<Rightarrow> error_registry" where
  "recovery_failed oper s =
     s\<lparr>recoveries := update_first (\<lambda>r. operation r = oper) (\<lambda>r. r\<lparr>succeeded := False\<rparr>) (recoveries s)\<rparr>"

definition set_health :: "bool \<Rightarrow> string option \<Rightarrow> error_registry \<Rightarrow> error_registry" where
  "set_health h reason s = s\<lparr>healthy := h, unhealthy_reason := reason\<rparr>"

definition degrade_feature :: "nat \<Rightarrow> feature \<Rightarrow> string \<Rightarrow> error_registry \<Rightarrow> error_registry" where
  "degrade_feature now f reason s =
     record_with_details now SevWarning CatSystem reason None
       (s\<lparr>degraded_features := List.insert f (degraded_features s)\<rparr>)"

definition is_feature_available :: "feature \<Rightarrow> error_registry \<Rightarrow> bool" where
  "is_feature_available f s \<longleftrightarrow> f \<notin> set (degraded_features s)"

definition restore_feature :: "feature \<Rightarrow> error_registry \<Rightarrow> error_registry" where
  "restore_feature f s = s\<lparr>degraded_features := removeAll f (degraded_features s)\<rparr>"

section \<open>The ring of errors\<close>

lemma record_error_simps [simp]:
  "errors (record_error e s) = ring_push (err_capacity s) (report_error e s) (errors s)"
  "err_capacity (record_error e s) = err_capacity s"
  "next_id (record_error e s) = next_id s + 1"
  "recoveries (record_error e s) = recoveries s"
  by (simp_all add: record_error_def ring_push_def Let_def)

interpretation error_ring: bounded_ring record_error errors err_capacity report_error
  by unfold_locales simp_all

section \<open>The invariant\<close>

datatype error_op =
    OpRecord error_report
  | OpAcknowledge u64
  | OpAcknowledgeAll
  | OpClearOld nat nat
  | OpStart string u32
  | OpUpdate string u32 "nat option"
  | OpSucceeded string
  | OpFailed string
  | OpSetHealth bool "string option"
  | OpDegrade nat feature string
  | OpRestore feature

fun run_error_op :: "error_op \<Rightarrow> error_registry \<Rightarrow> error_registry" where
  "run_error_op (OpRecord e) = record_error e"
| "run_error_op (OpAcknowledge i) = acknowledge i"
| "run_error_op OpAcknowledgeAll = acknowledge_all"
| "run_error_op (OpClearOld now d) = clear_old now d"
| "run_error_op (OpStart oper maxi) = start_recovery oper maxi"
| "run_error_op (OpUpdate oper n t) = update_recovery oper n t"
| "run_error_op (OpSucceeded oper) = recovery_succeeded oper"
| "run_error_op (OpFailed oper) = recovery_failed oper"
| "run_error_op (OpSetHealth h r) = set_health h r"
| "run_error_op (OpDegrade now f reason) = degrade_feature now f reason"
| "run_error_op (OpRestore f) = restore_feature f"

definition registry_inv :: "error_registry \<Rightarrow> bool" where
  "registry_inv s \<longleftrightarrow>
     0 < err_capacity s \<and> length (errors s) \<le> err_capacity s
     \<and> sorted_wrt (<) (map (unat \<circ> err_id) (errors s))
     \<and> (\<forall>e \<in> set (errors s). unat (err_id e) < unat (next_id s))
     \<and> distinct (map operation (recoveries s))"

lemma update_first_map: "(\<And>x. P x \<Longrightarrow> g (f x) = g x) \<Longrightarrow> map g (update_first P f xs) = map g xs"
  by (induction xs) auto

lemma update_first_set: "y \<in> set (update_first P f xs) \<Longrightarrow> y \<in> set xs \<or> (\<exists>x \<in> set xs. y = f x)"
  by (induction xs) (auto split: if_splits)

lemma length_update_first [simp]: "length (update_first P f xs) = length xs"
  by (induction xs) auto

text \<open>What the invariant sees of the errors is only their identifiers.\<close>

lemma registry_inv_ids:
  "registry_inv s \<longleftrightarrow>
     0 < err_capacity s \<and> length (map (unat \<circ> err_id) (errors s)) \<le> err_capacity s
     \<and> sorted_wrt (<) (map (unat \<circ> err_id) (errors s))
     \<and> (\<forall>i \<in> set (map (unat \<circ> err_id) (errors s)). i < unat (next_id s))
     \<and> distinct (map operation (recoveries s))"
  by (auto simp: registry_inv_def)

lemma sorted_wrt_map_filter: "sorted_wrt R (map f xs) \<Longrightarrow> sorted_wrt R (map f (filter P xs))"
  by (induction xs) auto

lemma distinct_map_filter_snoc:
  "distinct (map f xs) \<Longrightarrow> distinct (map f (filter (\<lambda>x. f x \<noteq> k) xs)) \<and> k \<notin> f ` set (filter (\<lambda>x. f x \<noteq> k) xs)"
  by (induction xs) auto

lemma record_error_inv:
  assumes inv: "registry_inv s" and room: "unat (next_id s) + 1 < 2 ^ 64"
  shows "registry_inv (record_error e s)"
proof -
  let ?kept = "if length (errors s) = err_capacity s then drop 1 (errors s) else errors s"
  have nx: "unat (next_id s + 1) = unat (next_id s) + 1" using room by (simp add: unat_word_ariths)
  have sub: "set ?kept \<subseteq> set (errors s)" using set_drop_subset[of 1 "errors s"] by auto
  have "sorted_wrt (<) (map (unat \<circ> err_id) ?kept)"
    using inv sorted_wrt_drop[of "(<)" "map (unat \<circ> err_id) (errors s)" 1] by (auto simp: registry_inv_def drop_map)
  moreover have "\<forall>x \<in> set ?kept. unat (err_id x) < unat (next_id s)" using inv sub by (auto simp: registry_inv_def)
  moreover have "length (ring_push (err_capacity s) (report_error e s) (errors s)) \<le> err_capacity s"
    using inv error_ring.bounded[of s e] by (simp add: registry_inv_def)
  ultimately show ?thesis
    using inv nx by (auto simp: registry_inv_def ring_push_def sorted_wrt_append report_error_def less_Suc_eq)
qed

lemma registry_inv_cong:
  "registry_inv s \<Longrightarrow> err_capacity s' = err_capacity s \<Longrightarrow> next_id s' = next_id s \<Longrightarrow>
   map err_id (errors s') = map err_id (errors s) \<Longrightarrow> map operation (recoveries s') = map operation (recoveries s) \<Longrightarrow>
   registry_inv s'"
proof -
  assume a: "registry_inv s" "err_capacity s' = err_capacity s" "next_id s' = next_id s"
    "map err_id (errors s') = map err_id (errors s)" "map operation (recoveries s') = map operation (recoveries s)"
  have "map (unat \<circ> err_id) (errors s') = map (unat \<circ> err_id) (errors s)"
    using arg_cong[OF a(4), of "map unat"] by simp
  then show "registry_inv s'" using a(1,2,3,5) unfolding registry_inv_ids by simp
qed

lemma run_error_op_inv:
  assumes inv: "registry_inv s" and room: "unat (next_id s) + 1 < 2 ^ 64"
  shows "registry_inv (run_error_op c s) \<and> unat (next_id (run_error_op c s)) \<le> unat (next_id s) + 1"
proof -
  have nx: "unat (next_id s + 1) = unat (next_id s) + 1" using room by (simp add: unat_word_ariths)
  have grow: "registry_inv (s\<lparr>recoveries := filter (\<lambda>r. operation r \<noteq> oper) (recoveries s) @ add\<rparr>)"
    if "map operation add \<in> {[], [oper]}" for oper add
    using inv distinct_map_filter_snoc[of operation "recoveries s" oper] that by (auto simp: registry_inv_def)
  show ?thesis
  proof (cases c)
    case (OpRecord e)
    then show ?thesis using record_error_inv[OF assms] nx by simp
  next
    case (OpClearOld now d)
    then show ?thesis using inv
      by (auto simp: clear_old_def registry_inv_def intro: sorted_wrt_map_filter le_trans[OF length_filter_le])
  next
    case (OpStart oper maxi)
    then show ?thesis using grow by (simp add: start_recovery_def)
  next
    case (OpSucceeded oper)
    have "registry_inv (s\<lparr>recoveries := filter (\<lambda>r. operation r \<noteq> oper) (recoveries s)\<rparr>)"
      using grow[of "[]" oper] by simp
    then show ?thesis using OpSucceeded by (auto simp: recovery_succeeded_def Let_def registry_inv_def)
  next
    case (OpDegrade now f reason)
    have "registry_inv (s\<lparr>degraded_features := List.insert f (degraded_features s)\<rparr>)"
      using inv by (rule registry_inv_cong) simp_all
    then show ?thesis using OpDegrade record_error_inv room nx by (simp add: degrade_feature_def record_with_details_def)
  qed (auto simp: acknowledge_def acknowledge_all_def update_recovery_def recovery_failed_def set_health_def
        restore_feature_def update_first_map intro!: registry_inv_cong[OF inv])
qed

text \<open>The registry stays well formed: whatever is recorded, acknowledged, cleared, recovered or degraded, it
  never outgrows its capacity, the errors are in the order of their unique identifiers, and each
  operation has at most one recovery.\<close>

theorem error_registry_invariant:
  assumes "0 < capacity" "length ops < 2 ^ 64 - 2"
  shows "registry_inv (fold run_error_op ops (new_error_registry capacity))"
proof -
  have "registry_inv (fold run_error_op ops (new_error_registry capacity))
      \<and> unat (next_id (fold run_error_op ops (new_error_registry capacity))) \<le> 1 + length ops"
    using assms(2)
  proof (induction ops rule: rev_induct)
    case Nil
    then show ?case using assms(1) by (simp add: registry_inv_def new_error_registry_def)
  next
    case (snoc c ops)
    let ?s = "fold run_error_op ops (new_error_registry capacity)"
    have IH: "registry_inv ?s" "unat (next_id ?s) \<le> 1 + length ops" using snoc by auto
    then have "unat (next_id ?s) + 1 < 2 ^ 64" using snoc.prems by simp
    then show ?case using run_error_op_inv[OF IH(1), of c] IH(2) by simp
  qed
  then show ?thesis by blast
qed

definition sample_report :: "error_severity \<Rightarrow> error_report" where
  "sample_report sev = \<lparr>rep_now = 5, rep_severity = sev, rep_category = CatNetwork, rep_message = ''down'',
     rep_details = None, rep_hint = None\<rparr>"

theorem error_registry_invariant_witness:
  "registry_inv (fold run_error_op [OpRecord (sample_report SevError), OpStart ''dial'' 3, OpStart ''dial'' 5,
     OpRecord (sample_report SevInfo), OpSucceeded ''dial''] (new_error_registry 1))"
  using error_registry_invariant[of 1 "[OpRecord (sample_report SevError), OpStart ''dial'' 3, OpStart ''dial'' 5,
     OpRecord (sample_report SevInfo), OpSucceeded ''dial'']"] by simp

section \<open>Health\<close>

fun restores_health :: "error_op \<Rightarrow> bool" where
  "restores_health (OpSucceeded _) = True"
| "restores_health (OpSetHealth h _) = h"
| "restores_health _ = False"

lemma healthy_record [simp]: "healthy (record_error e s) \<longleftrightarrow> healthy s \<and> rep_severity e < SevError"
  by (auto simp: record_error_def Let_def)

lemma health_step: "\<not> healthy s \<Longrightarrow> \<not> restores_health c \<Longrightarrow> \<not> healthy (run_error_op c s)"
  by (cases c) (auto simp: acknowledge_def acknowledge_all_def clear_old_def start_recovery_def update_recovery_def
      recovery_failed_def set_health_def degrade_feature_def record_with_details_def restore_feature_def)

text \<open>Only a successful recovery (or an explicit reset) restores health: after an error no acknowledging,
  clearing, starting or failing of recoveries brings it back, although acknowledging every error
  empties the header.\<close>

theorem health_needs_recovery:
  assumes "SevError \<le> rep_severity e" "\<forall>c \<in> set ops. \<not> restores_health c"
  shows "\<not> healthy (fold run_error_op ops (record_error e s))
       \<and> current_error (acknowledge_all (fold run_error_op ops (record_error e s))) = None"
proof
  have "\<not> healthy (record_error e s)" using assms(1) by (auto simp: not_less)
  then show "\<not> healthy (fold run_error_op ops (record_error e s))"
    using assms(2) health_step by (induction ops arbitrary: s rule: rev_induct) auto
  show "current_error (acknowledge_all t) = None" for t
    by (auto simp: current_error_def acknowledge_all_def find_None_iff)
qed

theorem health_needs_recovery_witness:
  "\<not> healthy (fold run_error_op [OpStart ''dial'' 3, OpAcknowledgeAll, OpFailed ''dial'']
     (record_error (sample_report SevCritical) (new_error_registry 10)))"
  using health_needs_recovery[of "sample_report SevCritical" "[OpStart ''dial'' 3, OpAcknowledgeAll, OpFailed ''dial'']"]
  by (simp add: sample_report_def less_eq_error_severity_def)

end
