(* ===== verification/Selection.thy ===== *)
theory Selection
  imports Utf8
begin

text \<open>
  Mouse selection of text (\<open>src/ui/selection.rs\<close>) on the cells of the terminal emulator
  (\<open>src/pty/emulator\<close>).  The grid belongs to the emulator library: its size and, per cell, the
  character, the combining characters, the flag of the second half of a wide character and the look.  Positions
  are \<open>u16\<close>; a loop over columns counts in natural numbers, since it ends at the first cell outside
  the grid and a grid has at most 65535 columns.
\<close>

section \<open>The emulator's cells\<close>

text \<open>A named colour of the library is its discriminant; foreground and background are told apart.\<close>

datatype lib_color = LibForeground | LibBackground | LibNamed nat | LibIndexed u8 | LibSpec u8 u8 u8

record lib_look =
  lk_fg :: lib_color
  lk_bg :: lib_color
  lk_bold :: bool
  lk_italic :: bool
  lk_underline :: bool
  lk_inverse :: bool

definition plain_look :: lib_look where
  "plain_look = \<lparr>lk_fg = LibForeground, lk_bg = LibBackground, lk_bold = False, lk_italic = False,
                 lk_underline = False, lk_inverse = False\<rparr>"

record lib_cell =
  lc_char :: nat
  lc_zerowidth :: "nat list"
  lc_spacer :: bool
  lc_look :: lib_look

record grid =
  screen_lines :: nat
  columns :: nat
  grid_cell :: "nat \<Rightarrow> nat \<Rightarrow> lib_cell"

datatype term_color = ColDefault | ColIndexed u8 | ColRgb u8 u8 u8

definition convert_color :: "lib_color \<Rightarrow> term_color" where
  "convert_color c =
     (case c of
        LibForeground \<Rightarrow> ColDefault
      | LibBackground \<Rightarrow> ColDefault
      | LibNamed n \<Rightarrow> ColIndexed (of_nat n)
      | LibIndexed i \<Rightarrow> ColIndexed i
      | LibSpec r g b \<Rightarrow> ColRgb r g b)"

record term_cell =
  symbol :: string
  tc_fg :: term_color
  tc_bg :: term_color
  tc_bold :: bool
  tc_italic :: bool
  tc_underline :: bool
  tc_inverse :: bool
  has_contents :: bool
  is_wide_continuation :: bool

definition cell_symbol :: "lib_cell \<Rightarrow> string" where
  "cell_symbol c = (if lc_char c = 0 then [] else map char_of (concat (map utf8_encode (lc_char c # lc_zerowidth c))))"

definition cell :: "grid \<Rightarrow> nat \<Rightarrow> nat \<Rightarrow> term_cell option" where
  "cell g row col =
     (if screen_lines g \<le> row \<or> columns g \<le> col then None
      else let c = grid_cell g row col
        in Some \<lparr>symbol = cell_symbol c, tc_fg = convert_color (lk_fg (lc_look c)), tc_bg = convert_color (lk_bg (lc_look c)),
                 tc_bold = lk_bold (lc_look c), tc_italic = lk_italic (lc_look c),
                 tc_underline = lk_underline (lc_look c), tc_inverse = lk_inverse (lc_look c), has_contents = (lc_char c \<noteq> 0x20 \<and> lc_char c \<noteq> 0),
                 is_wide_continuation = lc_spacer c\<rparr>)"

section \<open>Positions\<close>

datatype grid_pos = GridPos (gp_row: u16) (gp_col: u16)

instantiation grid_pos :: linorder
begin

definition less_eq_grid_pos :: "grid_pos \<Rightarrow> grid_pos \<Rightarrow> bool" where
  "less_eq_grid_pos p q \<longleftrightarrow> gp_row p < gp_row q \<or> (gp_row p = gp_row q \<and> gp_col p \<le> gp_col q)"

definition less_grid_pos :: "grid_pos \<Rightarrow> grid_pos \<Rightarrow> bool" where
  "less_grid_pos p q \<longleftrightarrow> p \<le> q \<and> p \<noteq> q"

instance
proof
  fix p q r :: grid_pos
  show "p < q \<longleftrightarrow> p \<le> q \<and> \<not> q \<le> p"
    by (cases p; cases q) (auto simp: less_grid_pos_def less_eq_grid_pos_def)
  show "p \<le> p" by (simp add: less_eq_grid_pos_def)
  show "p \<le> q \<Longrightarrow> q \<le> r \<Longrightarrow> p \<le> r" by (auto simp: less_eq_grid_pos_def)
  show "p \<le> q \<Longrightarrow> q \<le> p \<Longrightarrow> p = q" by (cases p; cases q) (auto simp: less_eq_grid_pos_def)
  show "p \<le> q \<or> q \<le> p" by (auto simp: less_eq_grid_pos_def)
qed

end

record text_selection =
  sel_start :: grid_pos
  sel_end :: grid_pos
  sel_active :: bool

definition new_selection :: "grid_pos \<Rightarrow> text_selection" where
  "new_selection p = \<lparr>sel_start = p, sel_end = p, sel_active = True\<rparr>"

definition ordered :: "text_selection \<Rightarrow> grid_pos \<times> grid_pos" where
  "ordered s =
     (if gp_row (sel_start s) < gp_row (sel_end s)
         \<or> (gp_row (sel_start s) = gp_row (sel_end s) \<and> gp_col (sel_start s) \<le> gp_col (sel_end s))
      then (sel_start s, sel_end s) else (sel_end s, sel_start s))"

definition sel_contains :: "text_selection \<Rightarrow> u16 \<Rightarrow> u16 \<Rightarrow> bool" where
  "sel_contains s row col =
     (case ordered s of (first, lst) \<Rightarrow>
        if row < gp_row first \<or> gp_row lst < row then False
        else if gp_row first = gp_row lst then gp_col first \<le> col \<and> col \<le> gp_col lst
        else if row = gp_row first then gp_col first \<le> col
        else if row = gp_row lst then col \<le> gp_col lst
        else True)"

section \<open>Words\<close>

definition blank_cell :: "term_cell \<Rightarrow> bool" where
  "blank_cell c \<longleftrightarrow> \<not> has_contents c \<or> str_trim (symbol c) = []"

fun scan_left :: "grid \<Rightarrow> nat \<Rightarrow> nat \<Rightarrow> nat" where
  "scan_left g row 0 = 0"
| "scan_left g row (Suc k) =
     (case cell g row k of
        None \<Rightarrow> Suc k
      | Some c \<Rightarrow> if blank_cell c \<or> is_wide_continuation c then Suc k else scan_left g row k)"

text \<open>Both branches for a cell with contents advance by one column.\<close>

function scan_right :: "grid \<Rightarrow> nat \<Rightarrow> nat \<Rightarrow> nat" where
  "scan_right g row k =
     (case cell g row (k + 1) of
        None \<Rightarrow> k
      | Some c \<Rightarrow> if blank_cell c then k else scan_right g row (k + 1))"
  by auto
termination scan_right
  by (relation "measure (\<lambda>(g, row, k). columns g - k)") (auto simp: cell_def split: if_splits)

declare scan_right.simps [simp del]

definition select_word :: "grid \<Rightarrow> grid_pos \<Rightarrow> text_selection option" where
  "select_word g pos =
     (let row = unat (gp_row pos); col = unat (gp_col pos)
      in case cell g row col of
           None \<Rightarrow> None
         | Some c \<Rightarrow>
             if blank_cell c then None
             else Some \<lparr>sel_start = GridPos (gp_row pos) (of_nat (scan_left g row col)),
                        sel_end = GridPos (gp_row pos) (of_nat (scan_right g row col)), sel_active = False\<rparr>)"

section \<open>Text\<close>

function line_text :: "grid \<Rightarrow> nat \<Rightarrow> nat \<Rightarrow> nat \<Rightarrow> string" where
  "line_text g row col col_end =
     (if col_end < col then []
      else case cell g row col of
             None \<Rightarrow> []
           | Some c \<Rightarrow>
               (if is_wide_continuation c then [] else if has_contents c then symbol c else '' '')
               @ line_text g row (col + 1) col_end)"
  by auto
termination line_text
  by (relation "measure (\<lambda>(g, row, col, col_end). columns g - col)") (auto simp: cell_def split: if_splits)

declare line_text.simps [simp del]

definition extract_text :: "text_selection \<Rightarrow> grid \<Rightarrow> string" where
  "extract_text s g =
     (case ordered s of (first, lst) \<Rightarrow>
        let line = (\<lambda>row. trim_end (line_text g row
                      (if row = unat (gp_row first) then unat (gp_col first) else 0)
                      (if row = unat (gp_row lst) then unat (gp_col lst) else 65535)))
        in str_join [CHR 0x0A]
             (rev (dropWhile (\<lambda>l. l = []) (rev (map line [unat (gp_row first)..<Suc (unat (gp_row lst))])))))"

section \<open>Properties\<close>

lemma ordered_le: "ordered s = (p, q) \<Longrightarrow> p \<le> q"
  by (auto simp: ordered_def less_eq_grid_pos_def split: if_splits)

text \<open>A cell is in a selection exactly when it lies between its two ends in reading order.\<close>

lemma contains_between:
  "sel_contains s row col \<longleftrightarrow>
   min (sel_start s) (sel_end s) \<le> GridPos row col \<and> GridPos row col \<le> max (sel_start s) (sel_end s)"
proof -
  obtain p q where pq: "ordered s = (p, q)" by (cases "ordered s")
  then have "p = min (sel_start s) (sel_end s)" "q = max (sel_start s) (sel_end s)"
    by (auto simp: ordered_def min_def max_def less_eq_grid_pos_def split: if_splits)
  then show ?thesis using ordered_le[OF pq] pq
    by (auto simp: sel_contains_def less_eq_grid_pos_def)
qed

lemma scan_left_le: "scan_left g row k \<le> k"
  by (induction k) (auto split: option.splits simp: le_SucI)

text \<open>What a scan passes is neither blank nor the second half of a wide character; it stops at the first
  cell that is, or at the margin.\<close>

definition word_cell :: "grid \<Rightarrow> nat \<Rightarrow> nat \<Rightarrow> bool" where
  "word_cell g row k \<longleftrightarrow> (case cell g row k of None \<Rightarrow> False | Some c \<Rightarrow> \<not> blank_cell c)"

lemma scan_left_spec:
  "scan_left g row k \<le> j \<Longrightarrow> j < k \<Longrightarrow> word_cell g row j"
  "0 < scan_left g row k \<Longrightarrow>
   \<not> word_cell g row (scan_left g row k - 1)
   \<or> (\<exists>c. cell g row (scan_left g row k - 1) = Some c \<and> is_wide_continuation c)"
proof (induction k)
  case 0
  { case 1 then show ?case by simp next case 2 then show ?case by simp }
next
  case (Suc k)
  { case 1
    then show ?case using Suc.IH(1)
      by (cases "j = k") (auto simp: word_cell_def split: option.splits if_splits)
  next
    case 2
    then show ?case using Suc.IH(2)
      by (auto simp: word_cell_def split: option.splits if_splits) }
qed

lemma scan_right_spec:
  "k \<le> scan_right g row k" "k < j \<Longrightarrow> j \<le> scan_right g row k \<Longrightarrow> word_cell g row j"
  "\<not> word_cell g row (Suc (scan_right g row k))"
proof (induction g row k rule: scan_right.induct)
  case (1 g row k)
  note step = scan_right.simps[of g row k]
  { case 1
    then show ?case using "1.IH"(1) step by (auto split: option.splits)
  next
    case 2
    then show ?case using "1.IH"(2) step
      by (cases "j = Suc k") (auto simp: word_cell_def split: option.splits if_splits)
  next
    case 3
    then show ?case using "1.IH"(3) step by (auto simp: word_cell_def split: option.splits) }
qed

lemma scan_right_bound: "k < columns g \<Longrightarrow> scan_right g row k < columns g"
  using scan_right_spec(1)[of k g row] scan_right_spec(2)[of k "scan_right g row k" g row]
  by (cases "scan_right g row k = k") (auto simp: word_cell_def cell_def Let_def split: if_splits)

lemma word_cell_bound: "word_cell g row k \<Longrightarrow> k < columns g \<and> row < screen_lines g"
  by (auto simp: word_cell_def cell_def split: if_splits option.splits)

lemma select_word_Some:
  assumes "select_word g p = Some s"
  shows "word_cell g (unat (gp_row p)) (unat (gp_col p))"
    "s = \<lparr>sel_start = GridPos (gp_row p) (of_nat (scan_left g (unat (gp_row p)) (unat (gp_col p)))),
          sel_end = GridPos (gp_row p) (of_nat (scan_right g (unat (gp_row p)) (unat (gp_col p)))), sel_active = False\<rparr>"
  using assms by (auto simp: select_word_def word_cell_def Let_def split: option.splits if_splits)

lemma unat_col: "columns g \<le> 65535 \<Longrightarrow> k < columns g \<Longrightarrow> unat (of_nat k :: u16) = k"
  by (simp add: unat_of_nat)

text \<open>A double click selects a maximal word: the selection stays on the clicked row, contains the clicked
  cell and only cells with something visible, and the cells beside it are blank, outside the grid, or
  (on the left) the second half of a wide character.\<close>

theorem select_word_maximal:
  assumes "columns g \<le> 65535" "select_word g p = Some s"
  shows "gp_row (sel_start s) = gp_row p \<and> gp_row (sel_end s) = gp_row p
    \<and> sel_start s \<le> p \<and> p \<le> sel_end s
    \<and> (\<forall>k. unat (gp_col (sel_start s)) \<le> k \<and> k \<le> unat (gp_col (sel_end s)) \<longrightarrow> word_cell g (unat (gp_row p)) k)
    \<and> \<not> word_cell g (unat (gp_row p)) (Suc (unat (gp_col (sel_end s))))
    \<and> (0 < gp_col (sel_start s) \<longrightarrow>
         \<not> word_cell g (unat (gp_row p)) (unat (gp_col (sel_start s)) - 1)
         \<or> (\<exists>c. cell g (unat (gp_row p)) (unat (gp_col (sel_start s)) - 1) = Some c \<and> is_wide_continuation c))"
proof -
  define row col where rc: "row = unat (gp_row p)" "col = unat (gp_col p)"
  define l r where lr: "l = scan_left g row col" "r = scan_right g row col"
  note w = select_word_Some[OF assms(2), folded rc, folded lr]
  have bc: "col < columns g" using word_cell_bound[OF w(1)] by simp
  have le: "l \<le> col" "col \<le> r" "r < columns g"
    using scan_left_le scan_right_spec(1) scan_right_bound[OF bc] by (auto simp: lr)
  have un: "unat (of_nat l :: u16) = l" "unat (of_nat r :: u16) = r"
    using unat_col[OF assms(1)] le bc by auto
  have "word_cell g row k" if "l \<le> k" "k \<le> r" for k
    using that w(1) scan_left_spec(1)[of g row col k] scan_right_spec(2)[of col k g row]
    by (cases k col rule: linorder_cases) (auto simp: lr)
  moreover have "0 < (of_nat l :: u16) \<longrightarrow> 0 < l" by (auto simp: word_less_nat_alt un)
  ultimately show ?thesis
    using w(2) le un scan_left_spec(2)[of g row col] scan_right_spec(3)[of g row col]
    by (auto simp: less_eq_grid_pos_def word_le_nat_alt rc[symmetric] lr[symmetric])
qed

definition demo_grid :: "nat list \<Rightarrow> grid" where
  "demo_grid cs = \<lparr>screen_lines = 1, columns = length cs,
     grid_cell = (\<lambda>r k. \<lparr>lc_char = cs ! k, lc_zerowidth = [], lc_spacer = False, lc_look = plain_look\<rparr>)\<rparr>"

theorem select_word_maximal_witness:
  "word_cell (demo_grid [0x61, 0x20, 0x62, 0x63, 0x20]) 0 3"
proof -
  let ?g = "demo_grid [0x61, 0x20, 0x62, 0x63, 0x20]"
  have "select_word ?g (GridPos 0 2) = Some \<lparr>sel_start = GridPos 0 2, sel_end = GridPos 0 3, sel_active = False\<rparr>"
    by code_simp
  from select_word_maximal[OF _ this] show ?thesis by (simp add: demo_grid_def)
qed

text \<open>The emulator keeps a space in the second half of a wide character.  The scan to the right tests for
  blank cells before it tests for second halves, so it never crosses one: a double click on a wide
  character selects no further than that character.\<close>

theorem select_word_cuts_wide:
  assumes "columns g \<le> 65535" "select_word g p = Some s"
    and "Suc (unat (gp_col p)) < columns g"
    and "lc_spacer (grid_cell g (unat (gp_row p)) (Suc (unat (gp_col p))))"
    and "lc_char (grid_cell g (unat (gp_row p)) (Suc (unat (gp_col p)))) = 0x20"
  shows "sel_end s = p"
proof -
  note w = select_word_Some[OF assms(2)]
  have "scan_right g (unat (gp_row p)) (unat (gp_col p)) = unat (gp_col p)"
    using assms(3,5) by (subst scan_right.simps) (auto simp: cell_def blank_cell_def Let_def)
  then show ?thesis using w(2) by (cases p) auto
qed

definition wide_grid :: "nat list \<Rightarrow> grid" where
  "wide_grid cs = \<lparr>screen_lines = 1, columns = 2 * length cs,
     grid_cell = (\<lambda>r k. if even k then \<lparr>lc_char = cs ! (k div 2), lc_zerowidth = [], lc_spacer = False, lc_look = plain_look\<rparr>
                        else \<lparr>lc_char = 0x20, lc_zerowidth = [], lc_spacer = True, lc_look = plain_look\<rparr>)\<rparr>"

theorem select_word_cuts_wide_witness:
  "sel_end (the (select_word (wide_grid [0x4F60, 0x597D]) (GridPos 0 0))) = GridPos 0 0"
proof -
  have ch: "char_of (228::nat) = CHR 0xE4" "char_of (189::nat) = CHR 0xBD" "char_of (160::nat) = CHR 0xA0"
    by code_simp+
  have c: "cell (wide_grid [0x4F60, 0x597D]) 0 0
      = Some \<lparr>symbol = [CHR 0xE4, CHR 0xBD, CHR 0xA0], tc_fg = ColDefault, tc_bg = ColDefault, tc_bold = False,
               tc_italic = False, tc_underline = False, tc_inverse = False, has_contents = True, is_wide_continuation = False\<rparr>"
    by (simp add: cell_def wide_grid_def cell_symbol_def utf8_encode_def ch convert_color_def plain_look_def)
  have t: "str_trim [CHR 0xE4, CHR 0xBD, CHR 0xA0] \<noteq> []" by code_simp
  have sel: "select_word (wide_grid [0x4F60, 0x597D]) (GridPos 0 0)
        = Some \<lparr>sel_start = GridPos 0 0, sel_end = GridPos 0 0, sel_active = False\<rparr>"
    using t by (simp add: select_word_def c blank_cell_def, subst scan_right.simps)
      (simp add: cell_def wide_grid_def blank_cell_def)
  from select_word_cuts_wide[OF _ sel] show ?thesis unfolding sel by (simp add: wide_grid_def)
qed

end
