(* ===== verification/Ipc.thy ===== *)
theory Ipc
  imports Metrics ThinkingRegistry
begin

text \<open>
  The commands between the user interface and the proxy (\<open>src/ipc\<close>).  The server is one operation per
  command on the shared state; the client sends a command with a one-shot reply channel and waits a
  second.  The channels belong to the async runtime: what happens to one exchange is a \<open>link\<close>.
\<close>

section \<open>Types\<close>

datatype ipc_error = IpcDisconnected | IpcTimeout

fun show_ipc_error :: "ipc_error \<Rightarrow> string" where
  "show_ipc_error IpcDisconnected = ''IPC channel disconnected''"
| "show_ipc_error IpcTimeout = ''IPC request timed out''"

record proxy_status =
  ps_active_backend :: string
  ps_uptime_seconds :: u64
  ps_total_requests :: u64
  ps_healthy :: bool

record backend_info =
  bi_id :: string
  bi_display_name :: string
  bi_is_active :: bool
  bi_is_configured :: bool
  bi_base_url :: string

section \<open>The server\<close>

text \<open>What the server holds: the backend state, the thinking registry, the metrics hub, the logger's
  configuration, whether the proxy is shutting down, and its start time in seconds.\<close>

record 'q ipc_state =
  is_backend :: backend_state
  is_registry :: registry
  is_hub :: "'q hub"
  is_debug :: debug_logging_config
  is_shutting_down :: bool
  is_started :: nat

definition ipc_switch :: "nat \<Rightarrow> string \<Rightarrow> 'q ipc_state \<Rightarrow> (backend_error + string) \<times> 'q ipc_state" where
  "ipc_switch now b s =
     (case switch_backend now b (is_backend s) of
        Inl e \<Rightarrow> (Inl e, s)
      | Inr (bs, _) \<Rightarrow>
          (Inr (get_active_backend bs), s\<lparr>is_backend := bs, is_registry := notify_backend_switch b (is_registry s)\<rparr>))"

definition ipc_status :: "nat \<Rightarrow> 'q ipc_state \<Rightarrow> proxy_status \<times> 'q ipc_state" where
  "ipc_status now s =
     (\<lparr>ps_active_backend = get_active_backend (is_backend s),
       ps_uptime_seconds = of_nat (now - is_started s),
       ps_total_requests = sum_list (map (\<lambda>(b, m). bm_total m) (per_backend (hub_snapshot now (is_hub s)))),
       ps_healthy = (\<not> is_shutting_down s)\<rparr>, s)"

definition backend_info_of :: "string \<Rightarrow> backend \<Rightarrow> backend_info" where
  "backend_info_of act b =
     \<lparr>bi_id = name b, bi_display_name = display_name b, bi_is_active = (name b = act),
      bi_is_configured = is_configured b, bi_base_url = base_url b\<rparr>"

definition ipc_list :: "'q ipc_state \<Rightarrow> backend_info list \<times> 'q ipc_state" where
  "ipc_list s = (map (backend_info_of (active_backend (is_backend s))) (backends (cfg (is_backend s))), s)"

definition ipc_get_debug :: "'q ipc_state \<Rightarrow> debug_logging_config \<times> 'q ipc_state" where
  "ipc_get_debug s = (is_debug s, s)"

definition ipc_set_debug :: "debug_logging_config \<Rightarrow> 'q ipc_state \<Rightarrow> (ipc_error + unit) \<times> 'q ipc_state" where
  "ipc_set_debug c s = (Inr (), s\<lparr>is_debug := c\<rparr>)"

section \<open>The client\<close>

text \<open>One exchange: the command is served and the reply arrives; the server is gone; the reply sender
  is dropped unserved; the command is served but the reply comes after the timeout.\<close>

datatype link = Served | NoServer | Dropped | TooLate

definition ipc_call :: "link \<Rightarrow> ('s \<Rightarrow> 'r \<times> 's) \<Rightarrow> 's \<Rightarrow> (ipc_error + 'r) \<times> 's" where
  "ipc_call l serve s =
     (case l of
        Served \<Rightarrow> (case serve s of (r, s') \<Rightarrow> (Inr r, s'))
      | NoServer \<Rightarrow> (Inl IpcDisconnected, s)
      | Dropped \<Rightarrow> (Inl IpcDisconnected, s)
      | TooLate \<Rightarrow> (Inl IpcTimeout, snd (serve s)))"

definition client_switch_backend ::
  "link \<Rightarrow> nat \<Rightarrow> string \<Rightarrow> 'q ipc_state \<Rightarrow> (ipc_error + (backend_error + string)) \<times> 'q ipc_state" where
  "client_switch_backend l now b = ipc_call l (ipc_switch now b)"

definition client_get_status :: "link \<Rightarrow> nat \<Rightarrow> 'q ipc_state \<Rightarrow> (ipc_error + proxy_status) \<times> 'q ipc_state" where
  "client_get_status l now = ipc_call l (ipc_status now)"

definition client_list_backends :: "link \<Rightarrow> 'q ipc_state \<Rightarrow> (ipc_error + backend_info list) \<times> 'q ipc_state" where
  "client_list_backends l = ipc_call l ipc_list"

definition client_get_debug_logging ::
  "link \<Rightarrow> 'q ipc_state \<Rightarrow> (ipc_error + debug_logging_config) \<times> 'q ipc_state" where
  "client_get_debug_logging l = ipc_call l ipc_get_debug"

definition client_set_debug_logging ::
  "link \<Rightarrow> debug_logging_config \<Rightarrow> 'q ipc_state \<Rightarrow> (ipc_error + unit) \<times> 'q ipc_state" where
  "client_set_debug_logging l c s =
     (case ipc_call l (ipc_set_debug c) s of (Inl e, s') \<Rightarrow> (Inl e, s') | (Inr r, s') \<Rightarrow> (r, s'))"

section \<open>Queries\<close>

text \<open>A query answers without changing the server; then no exchange with it changes anything, and an
  answer is the server's.\<close>

locale query =
  fixes serve :: "'s \<Rightarrow> 'r \<times> 's"
  assumes read_only: "snd (serve s) = s"
begin

lemma call_state: "snd (ipc_call l serve s) = s"
  by (simp add: ipc_call_def read_only case_prod_unfold split: link.splits)

lemma call_answer: "fst (ipc_call l serve s) = Inr r \<Longrightarrow> r = fst (serve s)"
  by (auto simp: ipc_call_def case_prod_unfold split: link.splits)

lemma call_served: "ipc_call Served serve s = (Inr (fst (serve s)), s)"
  by (simp add: ipc_call_def case_prod_unfold read_only)

end

interpretation status_query: query "ipc_status now" for now
  by unfold_locales (simp add: ipc_status_def)

interpretation list_query: query ipc_list
  by unfold_locales (simp add: ipc_list_def)

interpretation debug_query: query ipc_get_debug
  by unfold_locales (simp add: ipc_get_debug_def)

lemma ipc_switch_known:
  assumes "has_backend b (cfg (is_backend s))"
  obtains s' where "ipc_switch now b s = (Inr b, s')" "active_backend (is_backend s') = b"
    "cfg (is_backend s') = cfg (is_backend s)" "current_backend (is_registry s') = b"
    "is_hub s' = is_hub s" "is_debug s' = is_debug s"
proof -
  let ?n = "snd (ipc_switch now b s)"
  have "ipc_switch now b s = (Inr b, ?n) \<and> active_backend (is_backend ?n) = b
      \<and> cfg (is_backend ?n) = cfg (is_backend s) \<and> current_backend (is_registry ?n) = b
      \<and> is_hub ?n = is_hub s \<and> is_debug ?n = is_debug s"
    using assms
    by (simp add: ipc_switch_def switch_backend_def get_active_backend_def notify_backend_switch_def on_backend_switch_def)
  then show ?thesis using that by blast
qed

lemma ipc_switch_unknown:
  "\<not> has_backend b (cfg (is_backend s)) \<Longrightarrow> ipc_switch now b s = (Inl (ErrBackendNotFound b), s)"
  by (simp add: ipc_switch_def switch_backend_def)

text \<open>The listing marks the active backend, and nothing else.\<close>

lemma ipc_list_active:
  "map bi_id (filter bi_is_active (fst (ipc_list s))) =
   filter (\<lambda>n. n = active_backend (is_backend s)) (map name (backends (cfg (is_backend s))))"
  by (simp add: ipc_list_def filter_map comp_def backend_info_of_def)

end
