(* ===== verification/Layout.thy ===== *)
theory Layout
  imports Selection Ipc
begin

text \<open>
  The screen's geometry (\<open>src/ui/layout.rs\<close>, \<open>screen_to_grid\<close> of \<open>src/ui/runtime.rs\<close>) and the texts of
  the two bars (\<open>src/ui/header.rs\<close>, \<open>src/ui/footer.rs\<close>).  A rectangle has \<open>u16\<close> coordinates; the sums the
  source writes with \<open>+\<close> wrap.  Colours and drawing belong to the terminal library.
\<close>

section \<open>Regions\<close>

record rect =
  rx :: u16
  ry :: u16
  rwidth :: u16
  rheight :: u16

definition layout_regions :: "rect \<Rightarrow> rect \<times> rect \<times> rect" where
  "layout_regions area =
     (let header_height = min (rheight area) 3;
          footer_height = min 3 (sat_sub (rheight area) header_height);
          header = \<lparr>rx = rx area, ry = ry area, rwidth = rwidth area, rheight = header_height\<rparr>;
          footer = \<lparr>rx = rx area, ry = ry area + sat_sub (rheight area) footer_height,
                    rwidth = rwidth area, rheight = footer_height\<rparr>;
          body = \<lparr>rx = rx area + 1, ry = ry area + header_height, rwidth = sat_sub (rwidth area) 2,
                  rheight = sat_sub (rheight area) (header_height + footer_height)\<rparr>
      in (header, body, footer))"

definition body_rect :: "rect \<Rightarrow> rect" where
  "body_rect area = (case layout_regions area of (header, body, footer) \<Rightarrow> body)"

definition centered_rect_by_size :: "rect \<Rightarrow> u16 \<Rightarrow> u16 \<Rightarrow> rect" where
  "centered_rect_by_size area width height =
     (if rwidth area = 0 \<or> rheight area = 0 then area
      else let w = min width (rwidth area);
               h = min height (rheight area)
        in \<lparr>rx = rx area + sat_sub (rwidth area) w div 2, ry = ry area + sat_sub (rheight area) h div 2,
            rwidth = w, rheight = h\<rparr>)"

definition whole_screen :: "u16 \<Rightarrow> u16 \<Rightarrow> rect" where
  "whole_screen cols rows = \<lparr>rx = 0, ry = 0, rwidth = cols, rheight = rows\<rparr>"

text \<open>The size the child's terminal gets, columns and rows.\<close>

definition pty_size :: "u16 \<Rightarrow> u16 \<Rightarrow> u16 \<times> u16" where
  "pty_size cols rows =
     (let body = body_rect (whole_screen cols rows) in (max (rwidth body) 1, max (rheight body) 1))"

definition screen_to_grid :: "(u16 \<times> u16) option \<Rightarrow> u16 \<Rightarrow> u16 \<Rightarrow> grid_pos option" where
  "screen_to_grid term_size col row =
     (case term_size of
        None \<Rightarrow> None
      | Some (cols, rows) \<Rightarrow>
          (let body = body_rect (whole_screen cols rows)
           in if col < rx body \<or> row < ry body \<or> sat_add (rx body) (rwidth body) \<le> col
                 \<or> sat_add (ry body) (rheight body) \<le> row
              then None else Some (GridPos (row - ry body) (col - rx body))))"

section \<open>Bars\<close>

text \<open>\<open>lower\<close> is the standard library's \<open>to_lowercase\<close>; the separator is a space, U+2502 and a space.\<close>

definition bar :: string where
  "bar = '' '' @ [CHR 0xE2, CHR 0x94, CHR 0x82] @ '' ''"

definition status_backend :: "proxy_status option \<Rightarrow> string" where
  "status_backend st = (case st of Some s \<Rightarrow> ps_active_backend s | None \<Rightarrow> ''unknown'')"

definition status_requests :: "proxy_status option \<Rightarrow> u64" where
  "status_requests st = (case st of Some s \<Rightarrow> ps_total_requests s | None \<Rightarrow> 0)"

definition status_uptime :: "proxy_status option \<Rightarrow> u64" where
  "status_uptime st = (case st of Some s \<Rightarrow> ps_uptime_seconds s | None \<Rightarrow> 0)"

definition session_col_range ::
  "(string \<Rightarrow> string) \<Rightarrow> proxy_status option \<Rightarrow> string \<Rightarrow> string \<Rightarrow> string \<Rightarrow> u16 \<times> u16" where
  "session_col_range lower st sid sub team =
     (let len = (\<lambda>s. of_nat (length s) :: u16);
          col0 = 1 + 1;
          col1 = col0 + len (''backend: '' @ lower (status_backend st)) + 3;
          col2 = col1 + len (''sub: '' @ lower sub) + 3;
          col3 = col2 + len (''team: '' @ lower team) + 3;
          col4 = col3 + len (''Reqs: '' @ show_nat (unat (status_requests st))) + 3;
          start = col4 + len (''Uptime: '' @ show_nat (unat (status_uptime st)) @ ''s'') + 3
      in (start, start + len (''Session: '' @ sid)))"

definition header_spans ::
  "(string \<Rightarrow> string) \<Rightarrow> proxy_status option \<Rightarrow> string \<Rightarrow> bool \<Rightarrow> string \<Rightarrow> string \<Rightarrow> string list" where
  "header_spans lower st sid copied sub team =
     ['' '', ''backend: '' @ lower (status_backend st), bar, ''sub: '' @ lower sub, bar, ''team: '' @ lower team, bar,
      ''Reqs: '' @ show_nat (unat (status_requests st)), bar, ''Uptime: '' @ show_nat (unat (status_uptime st)) @ ''s'', bar,
      if copied then ''Session ID copied!'' else ''Session: '' @ sid]"

definition footer_hints :: string where
  "footer_hints = '' Ctrl+B: Switch'' @ bar @ ''Ctrl+H: History'' @ bar @ ''Ctrl+E: Settings'' @ bar
     @ ''Ctrl+R: Restart'' @ bar @ ''Ctrl+Q: Quit''"

definition footer_spans :: "string \<Rightarrow> rect \<Rightarrow> string list" where
  "footer_spans version area =
     (let v = ''v'' @ version @ '' '';
          padding = unat (sat_sub (rwidth area) 2) - char_count footer_hints - char_count v
      in [footer_hints, replicate padding (CHR 0x20), v])"

section \<open>Properties of the regions\<close>

lemma unat_min: "unat (min a b :: 'a::len word) = min (unat a) (unat b)"
  by (simp add: min_def word_le_nat_alt)

lemma unat_max: "unat (max a b :: 'a::len word) = max (unat a) (unat b)"
  by (simp add: max_def word_le_nat_alt)

lemma unat_add_small: "unat a + unat b < 2 ^ LENGTH('a) \<Longrightarrow> unat (a + b :: 'a::len word) = unat a + unat b"
  by (simp add: unat_word_ariths)

lemmas unat_geometry = unat_min unat_max unat_sat_sub unat_sat_add

text \<open>Header, body and footer stack up to the area from top to bottom, each in its turn losing rows when the
  area is too low, and the body lies between the borders.\<close>

lemma layout_partition:
  assumes "unat (rx area) + unat (rwidth area) < 65536" "unat (ry area) + unat (rheight area) < 65536"
    and "layout_regions area = (h, b, f)"
  shows "unat (rheight h) + unat (rheight b) + unat (rheight f) = unat (rheight area)"
    "ry h = ry area" "ry b = ry h + rheight h" "ry f = ry b + rheight b"
    "rheight h \<le> 3" "rheight f \<le> 3" "rwidth b = sat_sub (rwidth area) 2"
proof -
  let ?hh = "min (rheight area) 3" and ?fh = "min 3 (sat_sub (rheight area) (min (rheight area) 3))"
  have hf: "h = \<lparr>rx = rx area, ry = ry area, rwidth = rwidth area, rheight = ?hh\<rparr>"
    "f = \<lparr>rx = rx area, ry = ry area + sat_sub (rheight area) ?fh, rwidth = rwidth area, rheight = ?fh\<rparr>"
    "b = \<lparr>rx = rx area + 1, ry = ry area + ?hh, rwidth = sat_sub (rwidth area) 2,
           rheight = sat_sub (rheight area) (?hh + ?fh)\<rparr>"
    using assms(3) by (auto simp: layout_regions_def Let_def)
  have u: "unat ?hh = min (unat (rheight area)) 3" "unat ?fh = min 3 (unat (rheight area) - 3)"
    by (auto simp: unat_geometry)
  have s: "unat (?hh + ?fh) = unat ?hh + unat ?fh" by (rule unat_add_small) (simp add: u)
  show "unat (rheight h) + unat (rheight b) + unat (rheight f) = unat (rheight area)"
    unfolding hf by (simp only: rect.simps unat_sat_sub s u)
  have small: "min n 3 + (n - (min n 3 + min 3 (n - 3))) < 65536" if "n < 65536" for n :: nat
    using that by linarith
  note small = small[of "unat (rheight area)"]
  have rows: "n - min 3 (n - 3) = min n 3 + (n - (min n 3 + min 3 (n - 3)))" for n :: nat
    by (cases "n \<le> 3"; cases "n \<le> 6") auto
  have "sat_sub (rheight area) ?fh = ?hh + sat_sub (rheight area) (?hh + ?fh)"
  proof (rule word_unat_eq_iff[THEN iffD2])
    have "unat (?hh + sat_sub (rheight area) (?hh + ?fh)) = unat ?hh + unat (sat_sub (rheight area) (?hh + ?fh))"
      by (rule unat_add_small) (simp only: unat_sat_sub s u, use small assms(2) in simp)
    then show "unat (sat_sub (rheight area) ?fh) = unat (?hh + sat_sub (rheight area) (?hh + ?fh))"
      by (simp only: unat_sat_sub s u rows)
  qed
  then show "ry f = ry b + rheight b" unfolding hf by (simp only: rect.simps add.assoc)
qed (use assms(3) in \<open>auto simp: layout_regions_def Let_def\<close>)

lemma body_whole_screen:
  "body_rect (whole_screen cols rows) =
   \<lparr>rx = 1, ry = min rows 3, rwidth = sat_sub cols 2,
    rheight = sat_sub rows (min rows 3 + min 3 (sat_sub rows (min rows 3)))\<rparr>"
  by (simp add: body_rect_def layout_regions_def whole_screen_def Let_def)

lemma body_whole_screen_unat:
  "unat (rheight (body_rect (whole_screen cols rows))) = unat rows - 6"
  "unat (rwidth (body_rect (whole_screen cols rows))) = unat cols - 2"
  "unat (ry (body_rect (whole_screen cols rows))) = min (unat rows) 3"
  "rx (body_rect (whole_screen cols rows)) = 1"
proof -
  have "unat (min rows 3 + min 3 (sat_sub rows (min rows 3))) = min (unat rows) 6"
    by (subst unat_add_small) (auto simp: unat_geometry)
  then show "unat (rheight (body_rect (whole_screen cols rows))) = unat rows - 6"
    by (simp add: body_whole_screen unat_sat_sub)
qed (simp_all add: body_whole_screen unat_geometry)

text \<open>The mouse reaches exactly the child's screen: a click is a grid position if and only if it is inside the
  frame, three rows from the top and the bottom and one column from the sides; the position is then a
  cell of the size the child was told, and every cell is reached.\<close>

theorem screen_to_grid_exact:
  "(screen_to_grid (Some (cols, rows)) col row = Some p) =
   (3 \<le> unat row \<and> unat row + 3 < unat rows \<and> 1 \<le> unat col \<and> unat col + 1 < unat cols
    \<and> p = GridPos (row - 3) (col - 1)
    \<and> gp_row p < snd (pty_size cols rows) \<and> gp_col p < fst (pty_size cols rows))"
proof -
  let ?b = "body_rect (whole_screen cols rows)"
  note u = body_whole_screen_unat[of cols rows]
  have lt: "unat cols < 65536" "unat rows < 65536" using unsigned_less[of cols] unsigned_less[of rows] by auto
  have ge: "(sat_add (rx ?b) (rwidth ?b) \<le> col) = (1 + (unat cols - 2) \<le> unat col)"
    "(sat_add (ry ?b) (rheight ?b) \<le> row) = (min (unat rows) 3 + (unat rows - 6) \<le> unat row)"
    using lt by (auto simp: word_le_nat_alt unat_sat_add u min_def)
  have inside: "(screen_to_grid (Some (cols, rows)) col row = Some p) =
     (3 \<le> unat row \<and> unat row + 3 < unat rows \<and> 1 \<le> unat col \<and> unat col + 1 < unat cols
      \<and> p = GridPos (row - ry ?b) (col - 1))"
    by (auto simp: screen_to_grid_def Let_def ge) (auto simp: word_less_nat_alt u min_def split: if_splits)
  have three: "ry ?b = 3" if "unat row + 3 < unat rows"
    using that by (simp add: body_whole_screen min_def word_le_nat_alt)
  have size: "row - 3 < snd (pty_size cols rows) \<and> col - 1 < fst (pty_size cols rows)"
    if "3 \<le> unat row" "unat row + 3 < unat rows" "1 \<le> unat col" "unat col + 1 < unat cols"
  proof -
    have s: "unat (row - 3) = unat row - 3" "unat (col - 1) = unat col - 1"
      using that by (auto simp: unat_sub word_le_nat_alt)
    have z: "unat (snd (pty_size cols rows)) = max (unat rows - 6) 1" "unat (fst (pty_size cols rows)) = max (unat cols - 2) 1"
      by (simp_all add: pty_size_def Let_def unat_max u)
    show ?thesis using that by (simp add: word_less_nat_alt s z) linarith
  qed
  show ?thesis unfolding inside using three size by auto
qed

lemma centered_inside:
  assumes "unat (rx area) + unat (rwidth area) < 65536" "unat (ry area) + unat (rheight area) < 65536"
  shows "unat (rx area) \<le> unat (rx (centered_rect_by_size area w h))"
    "unat (rx (centered_rect_by_size area w h)) + unat (rwidth (centered_rect_by_size area w h))
       \<le> unat (rx area) + unat (rwidth area)"
    "unat (ry area) \<le> unat (ry (centered_rect_by_size area w h))"
    "unat (ry (centered_rect_by_size area w h)) + unat (rheight (centered_rect_by_size area w h))
       \<le> unat (ry area) + unat (rheight area)"
proof -
  have d: "unat ((sat_sub a m) div 2) = (unat a - unat m) div 2" for a m :: u16
    by (simp add: unat_div unat_sat_sub)
  have x: "unat (rx area + sat_sub (rwidth area) (min w (rwidth area)) div 2)
         = unat (rx area) + (unat (rwidth area) - min (unat w) (unat (rwidth area))) div 2"
    by (subst unat_add_small) (use assms in \<open>auto simp: d unat_geometry\<close>)
  have y: "unat (ry area + sat_sub (rheight area) (min h (rheight area)) div 2)
         = unat (ry area) + (unat (rheight area) - min (unat h) (unat (rheight area))) div 2"
    by (subst unat_add_small) (use assms in \<open>auto simp: d unat_geometry\<close>)
  show "unat (rx area) \<le> unat (rx (centered_rect_by_size area w h))"
    "unat (rx (centered_rect_by_size area w h)) + unat (rwidth (centered_rect_by_size area w h))
       \<le> unat (rx area) + unat (rwidth area)"
    "unat (ry area) \<le> unat (ry (centered_rect_by_size area w h))"
    "unat (ry (centered_rect_by_size area w h)) + unat (rheight (centered_rect_by_size area w h))
       \<le> unat (ry area) + unat (rheight area)"
    by (auto simp: centered_rect_by_size_def Let_def x y unat_geometry)
qed

section \<open>The header\<close>

text \<open>The bytes of a text that take no column of their own.\<close>

definition extra_bytes :: "string \<Rightarrow> nat" where
  "extra_bytes s = length (filter (\<lambda>c. \<not> (code c < 0x80 \<or> 0xC0 \<le> code c)) s)"

lemma length_char_count: "length s = char_count s + extra_bytes s"
  by (induction s) (auto simp: char_count_def extra_bytes_def)

lemma char_count_append [simp]: "char_count (a @ b) = char_count a + char_count b"
  by (simp add: char_count_def)

lemma char_count_Nil [simp]: "char_count [] = 0"
  by (simp add: char_count_def)

lemma char_count_Cons [simp]:
  "char_count (c # s) = (if code c < 0x80 \<or> 0xC0 \<le> code c then 1 else 0) + char_count s"
  by (simp add: char_count_def)

lemma show_nat_digits: "c \<in> set (show_nat n) \<Longrightarrow> code c < 0x80"
proof (induction n rule: show_nat.induct)
  case (1 n)
  have d: "code (digit_char k) < 0x80" if "k < 10" for k
    using that by (simp add: digit_char_def)
  show ?case using 1 d by (subst (asm) show_nat.simps) (auto split: if_splits)
qed

lemma extra_bytes_show_nat: "extra_bytes (show_nat n) = 0"
proof -
  have "extra_bytes (show_nat n) = 0 \<longleftrightarrow> (\<forall>c \<in> set (show_nat n). code c < 0x80 \<or> 0xC0 \<le> code c)"
    by (auto simp: extra_bytes_def filter_empty_conv)
  then show ?thesis using show_nat_digits[of _ n] by auto
qed

lemma char_count_show_nat: "length (show_nat n) = char_count (show_nat n)"
  using length_char_count[of "show_nat n"] by (simp add: extra_bytes_show_nat)

text \<open>The columns that react to a click are those of the session text, shifted to the right by one column for
  every byte of the shown names beyond one per character: exact for ASCII names, off for others.\<close>

theorem session_click_columns:
  assumes "(\<Sum>s\<leftarrow>header_spans lower st sid False sub team. length s) < 65535"
  shows "unat (fst (session_col_range lower st sid sub team)) =
      1 + (\<Sum>s\<leftarrow>butlast (header_spans lower st sid False sub team). char_count s)
        + extra_bytes (lower (status_backend st)) + extra_bytes (lower sub) + extra_bytes (lower team)
    \<and> unat (snd (session_col_range lower st sid sub team)) =
      unat (fst (session_col_range lower st sid sub team)) + length (last (header_spans lower st sid False sub team))"
proof -
  define n where "n = 1 + (\<Sum>s\<leftarrow>butlast (header_spans lower st sid False sub team). char_count s)
        + extra_bytes (lower (status_backend st)) + extra_bytes (lower sub) + extra_bytes (lower team)"
  have "fst (session_col_range lower st sid sub team) = of_nat n"
    "snd (session_col_range lower st sid sub team) = of_nat (n + length (last (header_spans lower st sid False sub team)))"
    by (simp_all add: session_col_range_def header_spans_def n_def Let_def length_char_count[of "lower _"]
        length_char_count[of sub] char_count_show_nat bar_def)
  moreover have "n + length (last (header_spans lower st sid False sub team))
      \<le> 1 + (\<Sum>s\<leftarrow>header_spans lower st sid False sub team. length s)"
    by (simp add: n_def header_spans_def length_char_count[of "lower _"] char_count_show_nat bar_def)
  ultimately have "unat (fst (session_col_range lower st sid sub team)) = n"
    "unat (snd (session_col_range lower st sid sub team)) = n + length (last (header_spans lower st sid False sub team))"
    using assms by (simp_all only: unat_of_nat) simp_all
  then show ?thesis by (simp only: n_def)
qed

theorem session_click_columns_witness:
  "unat (fst (session_col_range (\<lambda>s. s) None ''id'' ''a'' [CHR 0xC3, CHR 0xBC])) = 64"
  using session_click_columns[of "\<lambda>s. s" None "''id''" "''a''" "[CHR 0xC3, CHR 0xBC]"]
  by (simp add: header_spans_def status_backend_def status_requests_def status_uptime_def bar_def
      char_count_def extra_bytes_def show_nat.simps digit_char_def)

end
