(* ===== verification/App.thy ===== *)
theory App
  imports PtyHandle Dialogs ErrorRegistry Layout TermEvent
begin

text \<open>
  The state of the user interface and its operations (\<open>src/ui/app.rs\<close>, one definition per method).  The
  handle is a value: nobody else writes to it while the application holds it.  The command channel to
  the bridge is its queue, its capacity and whether the receiver is gone; the text of a failed send is
  the channel library's.  The history provider is a function of the world it reads.  Instants are
  nanoseconds.  What a method reads from the terminal emulator is an argument.
\<close>

section \<open>Data\<close>

datatype popup_kind = PopBackendSwitch | PopHistory | PopSettings

datatype focus = FocusTerminal | FocusPopup popup_kind

datatype ui_command =
    UiSwitchBackend string
  | UiSetSubagent "string option"
  | UiSetTeammate "string option"
  | UiRestartClaude
  | UiRefreshStatus
  | UiRefreshBackends
  | UiReloadConfig
  | UiRestartPty "(string \<times> string) list" "string list" "(string \<times> bool) list"

record ui_channel =
  ch_queue :: "ui_command list"
  ch_capacity :: nat
  ch_closed :: bool
  ch_error :: "bool \<Rightarrow> string"

record 'w app =
  should_quit :: bool
  app_focus :: focus
  app_size :: "(u16 \<times> u16) option"
  pty_store :: "(pty_state, pty_effect) store"
  app_pty :: "pty_handle option"
  app_errors :: error_registry
  app_session_id :: string
  session_copied_until :: "nat option"
  ipc_sender :: "ui_channel option"
  app_status :: "proxy_status option"
  app_backends :: "backend_info list"
  last_ipc_error :: "string option"
  last_status_refresh :: nat
  history_store :: "(history_state, unit) store"
  history_provider :: "('w \<Rightarrow> history_entry list) option"
  settings_store :: "(settings_state, unit) store"
  app_settings :: settings_manager
  saved_snapshot :: "(setting_id \<times> bool) list"
  pty_generation :: u64
  app_selection :: "text_selection option"
  switch_store :: "(switch_state, unit) store"
  app_subagent :: "string option"
  app_teammate :: "string option"

definition app_new :: "nat \<Rightarrow> cli_mode \<Rightarrow> config \<Rightarrow> 'w app" where
  "app_new now mode c =
     (let p = profile mode c;
          m = load_from_toml (claude_settings p) new_settings
      in \<lparr>should_quit = False, app_focus = FocusTerminal, app_size = None, pty_store = store_new (Pending []),
          app_pty = None, app_errors = new_error_registry 100, app_session_id = [], session_copied_until = None,
          ipc_sender = None, app_status = None, app_backends = [], last_ipc_error = None, last_status_refresh = now,
          history_store = store_new HistHidden, history_provider = None, settings_store = store_new SetHidden,
          app_settings = m, saved_snapshot = snapshot_values m, pty_generation = 0, app_selection = None,
          switch_store = store_new SwHidden,
          app_subagent = Option.bind (agents p) subagent_backend_name,
          app_teammate = map_option teammate_backend_name (agents p)\<rparr>)"

section \<open>Dispatching\<close>

definition dispatch_pty :: "pty_intent \<Rightarrow> 'w app \<Rightarrow> 'w app" where
  "dispatch_pty i a = a\<lparr>pty_store := dispatch handle_pty i (pty_store a)\<rparr>"

definition dispatch_history :: "history_intent \<Rightarrow> 'w app \<Rightarrow> 'w app" where
  "dispatch_history i a = a\<lparr>history_store := dispatch handle_history i (history_store a)\<rparr>"

definition dispatch_settings :: "settings_intent \<Rightarrow> 'w app \<Rightarrow> 'w app" where
  "dispatch_settings i a = a\<lparr>settings_store := dispatch handle_settings i (settings_store a)\<rparr>"

definition dispatch_switch :: "switch_intent \<Rightarrow> 'w app \<Rightarrow> 'w app" where
  "dispatch_switch i a = a\<lparr>switch_store := dispatch handle_switch i (switch_store a)\<rparr>"

definition lifecycle :: "'w app \<Rightarrow> pty_state" where
  "lifecycle a = store_state (pty_store a)"

section \<open>Session identifier, quitting, focus\<close>

definition flash_session_copied :: "nat \<Rightarrow> 'w app \<Rightarrow> 'w app" where
  "flash_session_copied now a = a\<lparr>session_copied_until := Some (now + 2 * 10 ^ 9)\<rparr>"

definition session_copied_flash :: "nat \<Rightarrow> 'w app \<Rightarrow> bool" where
  "session_copied_flash now a = (case session_copied_until a of Some t \<Rightarrow> now < t | None \<Rightarrow> False)"

definition request_quit :: "'w app \<Rightarrow> 'w app" where
  "request_quit a = a\<lparr>should_quit := True\<rparr>"

definition show_popup :: "'w app \<Rightarrow> bool" where
  "show_popup a = (case app_focus a of FocusPopup _ \<Rightarrow> True | FocusTerminal \<Rightarrow> False)"

definition popup_of :: "'w app \<Rightarrow> popup_kind option" where
  "popup_of a = (case app_focus a of FocusPopup k \<Rightarrow> Some k | FocusTerminal \<Rightarrow> None)"

section \<open>Commands to the bridge\<close>

text \<open>\<open>try_send\<close>: a closed channel is reported before a full one.\<close>

definition try_send :: "ui_command \<Rightarrow> ui_channel \<Rightarrow> string + ui_channel" where
  "try_send c ch =
     (if ch_closed ch then Inl (ch_error ch True)
      else if ch_capacity ch \<le> length (ch_queue ch) then Inl (ch_error ch False)
      else Inr (ch\<lparr>ch_queue := ch_queue ch @ [c]\<rparr>))"

definition send_command :: "ui_command \<Rightarrow> 'w app \<Rightarrow> bool \<times> 'w app" where
  "send_command c a =
     (case ipc_sender a of
        None \<Rightarrow> (False, a)
      | Some ch \<Rightarrow>
          (case try_send c ch of
             Inr ch' \<Rightarrow> (True, a\<lparr>ipc_sender := Some ch', last_ipc_error := None\<rparr>)
           | Inl e \<Rightarrow> (False, a\<lparr>last_ipc_error := Some (''IPC send failed: '' @ e)\<rparr>)))"

definition request_status_refresh :: "'w app \<Rightarrow> 'w app" where
  "request_status_refresh a = snd (send_command UiRefreshStatus a)"

definition request_backends_refresh :: "'w app \<Rightarrow> 'w app" where
  "request_backends_refresh a = snd (send_command UiRefreshBackends a)"

definition request_config_reload :: "'w app \<Rightarrow> 'w app" where
  "request_config_reload a = snd (send_command UiReloadConfig a)"

definition request_restart_claude :: "'w app \<Rightarrow> 'w app" where
  "request_restart_claude a =
     (case send_command UiRestartClaude (dispatch_pty PtyDetach a) of
        (True, a') \<Rightarrow> a' | (False, a') \<Rightarrow> dispatch_pty PtySpawnFailed a')"

text \<open>\<open>get\<close> on the list of backends.\<close>

definition nth_backend :: "'w app \<Rightarrow> nat \<Rightarrow> backend_info option" where
  "nth_backend a k = (if k < length (app_backends a) then Some (app_backends a ! k) else None)"

definition request_switch_backend_by_index :: "nat \<Rightarrow> 'w app \<Rightarrow> bool \<times> 'w app" where
  "request_switch_backend_by_index index a =
     (case nth_backend a (index - 1) of
        None \<Rightarrow> (False, a)
      | Some b \<Rightarrow> send_command (UiSwitchBackend (bi_id b)) a)"

definition request_set_subagent_backend :: "nat \<Rightarrow> 'w app \<Rightarrow> 'w app" where
  "request_set_subagent_backend index a = snd (send_command (UiSetSubagent (map_option bi_id (nth_backend a index))) a)"

definition request_clear_subagent_backend :: "'w app \<Rightarrow> 'w app" where
  "request_clear_subagent_backend a = snd (send_command (UiSetSubagent None) a)"

definition request_set_teammate_backend :: "nat \<Rightarrow> 'w app \<Rightarrow> 'w app" where
  "request_set_teammate_backend index a = snd (send_command (UiSetTeammate (map_option bi_id (nth_backend a index))) a)"

definition request_clear_teammate_backend :: "'w app \<Rightarrow> 'w app" where
  "request_clear_teammate_backend a = snd (send_command (UiSetTeammate None) a)"

definition should_refresh_status :: "nat \<Rightarrow> nat \<Rightarrow> 'w app \<Rightarrow> bool \<times> 'w app" where
  "should_refresh_status now interval a =
     (if interval \<le> now - last_status_refresh a then (True, a\<lparr>last_status_refresh := now\<rparr>) else (False, a))"

section \<open>Input and output of the child\<close>

definition on_pty :: "(pty_handle \<Rightarrow> pty_handle) \<Rightarrow> 'w app \<Rightarrow> 'w app" where
  "on_pty f a = a\<lparr>app_pty := map_option f (app_pty a)\<rparr>"

definition send_input :: "u8 list \<Rightarrow> 'w app \<Rightarrow> 'w app" where
  "send_input bytes a =
     (if pty_ready (lifecycle a) then on_pty (\<lambda>h. snd (pty_send_input bytes h)) a
      else dispatch_pty (PtyBufferInput bytes) a)"

definition paste_open :: "u8 list" where
  "paste_open = [0x1B, 0x5B, 0x32, 0x30, 0x30, 0x7E]"

definition paste_close :: "u8 list" where
  "paste_close = [0x1B, 0x5B, 0x32, 0x30, 0x31, 0x7E]"

definition on_paste :: "u8 list \<Rightarrow> 'w app \<Rightarrow> 'w app" where
  "on_paste text a = send_input (paste_open @ text @ paste_close) a"

definition on_resize :: "u16 \<Rightarrow> u16 \<Rightarrow> 'w app \<Rightarrow> 'w app" where
  "on_resize cols rows a = on_pty (\<lambda>h. snd (pty_resize cols rows h)) (a\<lparr>app_size := Some (cols, rows)\<rparr>)"

definition attach_pty :: "pty_handle \<Rightarrow> 'w app \<Rightarrow> 'w app" where
  "attach_pty h a = dispatch_pty PtyAttach (a\<lparr>app_pty := Some h\<rparr>)"

definition detach_pty :: "'w app \<Rightarrow> 'w app" where
  "detach_pty a = dispatch_pty PtyDetach (a\<lparr>app_pty := None\<rparr>)"

definition flush_effects :: "pty_effect list \<Rightarrow> 'w app \<Rightarrow> 'w app" where
  "flush_effects es a =
     fold (\<lambda>e. case e of FlushBuffer buffer \<Rightarrow>
       on_pty (fold (\<lambda>bytes h. snd (pty_send_input bytes h)) buffer)) es a"

text \<open>The cursor's visibility and row are the emulator's at this moment.\<close>

definition on_pty_output :: "bool \<Rightarrow> u16 \<Rightarrow> 'w app \<Rightarrow> bool \<times> 'w app" where
  "on_pty_output cursor_visible cursor_row a =
     (if pty_ready (lifecycle a) then (False, a)
      else let (hidden, row) = (case app_pty a of Some h \<Rightarrow> (\<not> cursor_visible, cursor_row) | None \<Rightarrow> (False, 0))
        in if \<not> hidden \<or> row = 0 then (False, a)
           else case dispatch_collect handle_pty PtyGotOutput (pty_store a) of
                  (st, es) \<Rightarrow> (True, flush_effects es (a\<lparr>pty_store := st\<rparr>)))"

definition app_mouse_tracking :: "bool \<Rightarrow> 'w app \<Rightarrow> bool" where
  "app_mouse_tracking emu_tracking a = (case app_pty a of Some h \<Rightarrow> emu_tracking | None \<Rightarrow> False)"

definition app_scroll_up :: "(32 word \<Rightarrow> nat \<Rightarrow> nat) \<Rightarrow> nat \<Rightarrow> 'w app \<Rightarrow> 'w app" where
  "app_scroll_up scroll n = on_pty (pty_scroll_up scroll n)"

definition app_scroll_down :: "(32 word \<Rightarrow> nat \<Rightarrow> nat) \<Rightarrow> nat \<Rightarrow> 'w app \<Rightarrow> 'w app" where
  "app_scroll_down scroll n = on_pty (pty_scroll_down scroll n)"

definition app_reset_scrollback :: "(32 word \<Rightarrow> nat \<Rightarrow> nat) \<Rightarrow> 'w app \<Rightarrow> 'w app" where
  "app_reset_scrollback scroll = on_pty (pty_reset_scrollback scroll)"

section \<open>Selection\<close>

definition start_selection :: "grid_pos \<Rightarrow> 'w app \<Rightarrow> 'w app" where
  "start_selection p a = a\<lparr>app_selection := Some (new_selection p)\<rparr>"

definition update_selection :: "grid_pos \<Rightarrow> 'w app \<Rightarrow> 'w app" where
  "update_selection p a = a\<lparr>app_selection := map_option (\<lambda>s. s\<lparr>sel_end := p\<rparr>) (app_selection a)\<rparr>"

definition clear_selection :: "'w app \<Rightarrow> 'w app" where
  "clear_selection a = a\<lparr>app_selection := None\<rparr>"

definition select_word_at :: "grid \<Rightarrow> grid_pos \<Rightarrow> 'w app \<Rightarrow> string option \<times> 'w app" where
  "select_word_at g p a =
     (if app_pty a = None then (None, a)
      else case select_word g p of
             None \<Rightarrow> (None, a)
           | Some s \<Rightarrow>
               (let text = extract_text s g
                in (if text = [] then None else Some text, a\<lparr>app_selection := Some s\<rparr>)))"

definition finish_selection :: "grid \<Rightarrow> 'w app \<Rightarrow> string option \<times> 'w app" where
  "finish_selection g a =
     (case app_selection a of
        None \<Rightarrow> (None, a)
      | Some s \<Rightarrow>
          (let s' = s\<lparr>sel_active := False\<rparr>
           in (case app_pty a of Some h \<Rightarrow> Some (extract_text s' g) | None \<Rightarrow> None, a\<lparr>app_selection := Some s'\<rparr>)))"

section \<open>Dialogs\<close>

definition open_history_dialog :: "'w \<Rightarrow> 'w app \<Rightarrow> 'w app" where
  "open_history_dialog w a =
     (dispatch_history (HistLoad (case history_provider a of Some p \<Rightarrow> p w | None \<Rightarrow> [])) a)
       \<lparr>app_focus := FocusPopup PopHistory\<rparr>"

definition close_history_dialog :: "'w app \<Rightarrow> 'w app" where
  "close_history_dialog a = (dispatch_history HistClose a)\<lparr>app_focus := FocusTerminal\<rparr>"

definition open_settings_dialog :: "'w app \<Rightarrow> 'w app" where
  "open_settings_dialog a =
     (dispatch_settings (SetLoad (to_snapshots (app_settings a)))
        (a\<lparr>saved_snapshot := snapshot_values (app_settings a)\<rparr>))\<lparr>app_focus := FocusPopup PopSettings\<rparr>"

definition close_settings_dialog :: "'w app \<Rightarrow> 'w app" where
  "close_settings_dialog a = (dispatch_settings SetClose a)\<lparr>app_focus := FocusTerminal\<rparr>"

definition request_close_settings :: "'w app \<Rightarrow> 'w app" where
  "request_close_settings a =
     (let a' = dispatch_settings SetRequestClose a
      in if settings_visible (store_state (settings_store a')) then a' else a'\<lparr>app_focus := FocusTerminal\<rparr>)"

definition next_pty_generation :: "'w app \<Rightarrow> u64 \<times> 'w app" where
  "next_pty_generation a = (let g = pty_generation a + 1 in (g, a\<lparr>pty_generation := g\<rparr>))"

definition has_restarted :: "'w app \<Rightarrow> bool" where
  "has_restarted a \<longleftrightarrow> 0 < pty_generation a"

definition apply_settings :: "'w app \<Rightarrow> bool \<times> 'w app" where
  "apply_settings a =
     (case store_state (settings_store a) of
        SetHidden \<Rightarrow> (False, a)
      | SetVisible rows k d c \<Rightarrow>
          (let a1 = a\<lparr>app_settings := apply_snapshots rows (app_settings a)\<rparr>;
               m = app_settings a1
           in if \<not> is_dirty m (saved_snapshot a1) then (False, close_settings_dialog a1)
              else let a2 = close_settings_dialog (a1\<lparr>saved_snapshot := snapshot_values m\<rparr>);
                       a3 = dispatch_pty PtyDetach a2
                in case send_command (UiRestartPty (to_env_vars m) (to_cli_args m) (to_toml_map m)) a3 of
                     (True, a4) \<Rightarrow> (True, a4)
                   | (False, a4) \<Rightarrow> (False, dispatch_pty PtySpawnFailed a4)))"

definition first_index :: "(backend_info \<Rightarrow> bool) \<Rightarrow> 'w app \<Rightarrow> nat option" where
  "first_index P a = List.find (\<lambda>k. P (app_backends a ! k)) [0..<length (app_backends a)]"

definition active_backend_index :: "'w app \<Rightarrow> nat option" where
  "active_backend_index a = first_index bi_is_active a"

definition override_selection :: "string option \<Rightarrow> 'w app \<Rightarrow> nat" where
  "override_selection bid a =
     (case Option.bind bid (\<lambda>n. first_index (\<lambda>b. bi_id b = n) a) of Some k \<Rightarrow> k + 1 | None \<Rightarrow> 0)"

definition open_backend_switch_dialog :: "'w app \<Rightarrow> 'w app" where
  "open_backend_switch_dialog a =
     dispatch_switch
       (SwOpen (case active_backend_index a of Some k \<Rightarrow> k | None \<Rightarrow> 0)
         (override_selection (app_subagent a) a) (override_selection (app_teammate a) a) (length (app_backends a))) a"

definition close_backend_switch_dialog :: "'w app \<Rightarrow> 'w app" where
  "close_backend_switch_dialog a = (dispatch_switch SwClose a)\<lparr>app_focus := FocusTerminal\<rparr>"

definition toggle_popup :: "popup_kind \<Rightarrow> 'w app \<Rightarrow> bool \<times> 'w app" where
  "toggle_popup k a =
     (let a1 = a\<lparr>app_focus := (if app_focus a = FocusPopup k then FocusTerminal else FocusPopup k)\<rparr>;
          a2 = (if app_focus a1 = FocusPopup PopBackendSwitch then open_backend_switch_dialog a1 else a1)
      in (show_popup a2, a2))"

definition confirm_active_backend :: "nat \<Rightarrow> 'w app \<Rightarrow> bool \<times> 'w app" where
  "confirm_active_backend index a =
     (case nth_backend a index of
        None \<Rightarrow> (False, a)
      | Some b \<Rightarrow>
          if bi_is_active b then (True, close_backend_switch_dialog a)
          else case request_switch_backend_by_index (index + 1) a of
                 (True, a') \<Rightarrow> (True, close_backend_switch_dialog a')
               | (False, a') \<Rightarrow> (False, a'))"

definition confirm_override_backend ::
  "nat \<Rightarrow> (nat \<Rightarrow> 'w app \<Rightarrow> 'w app) \<Rightarrow> ('w app \<Rightarrow> 'w app) \<Rightarrow> 'w app \<Rightarrow> 'w app" where
  "confirm_override_backend selection set_fn clear_fn a =
     close_backend_switch_dialog
       (if selection = 0 then clear_fn a
        else if selection - 1 < length (app_backends a) then set_fn (selection - 1) a
        else a)"

end
