(* ===== verification/AppInput.thy ===== *)
theory AppInput
  imports App
begin

text \<open>
  Keys (\<open>src/ui/input.rs\<close>): a key is a hotkey, moves in the open dialog, or goes to the child.  \<open>w\<close> is the
  world the history provider reads.  Below, the invariant that ties the focus to the dialogs: a dialog
  is visible exactly while it has the focus.
\<close>

section \<open>Classification\<close>

datatype input_action = ActNone | ActForward

definition handle_history_key :: "key_input \<Rightarrow> 'w app \<Rightarrow> input_action \<times> 'w app" where
  "handle_history_key key a =
     (ActNone,
      case kind key of
        KeyEscape \<Rightarrow> close_history_dialog a
      | KeyControl c \<Rightarrow> if c = 104 then close_history_dialog a else a
      | KeyArrow DirUp \<Rightarrow> dispatch_history HistScrollUp a
      | KeyArrow DirDown \<Rightarrow> dispatch_history HistScrollDown a
      | _ \<Rightarrow> a)"

definition handle_settings_key :: "key_input \<Rightarrow> 'w app \<Rightarrow> input_action \<times> 'w app" where
  "handle_settings_key key a =
     (ActNone,
      case kind key of
        KeyEscape \<Rightarrow> request_close_settings a
      | KeyArrow DirUp \<Rightarrow> dispatch_settings SetMoveUp a
      | KeyArrow DirDown \<Rightarrow> dispatch_settings SetMoveDown a
      | KeyChar c \<Rightarrow> if c = 32 then dispatch_settings SetToggle a else a
      | KeyEnter \<Rightarrow> snd (apply_settings a)
      | KeyControl c \<Rightarrow> if c = 101 then close_settings_dialog a else a
      | _ \<Rightarrow> a)"

definition handle_backend_confirm :: "'w app \<Rightarrow> input_action \<times> 'w app" where
  "handle_backend_confirm a =
     (ActNone,
      case store_state (switch_store a) of
        SwHidden \<Rightarrow> a
      | SwVisible sec b su t n \<Rightarrow>
          (case sec of
             SecActive \<Rightarrow> snd (confirm_active_backend b a)
           | SecSubagent \<Rightarrow> confirm_override_backend su request_set_subagent_backend request_clear_subagent_backend a
           | SecTeammate \<Rightarrow> confirm_override_backend t request_set_teammate_backend request_clear_teammate_backend a))"

definition handle_backend_delete :: "'w app \<Rightarrow> input_action \<times> 'w app" where
  "handle_backend_delete a =
     (ActNone,
      case store_state (switch_store a) of
        SwHidden \<Rightarrow> a
      | SwVisible sec b su t n \<Rightarrow>
          (case sec of
             SecSubagent \<Rightarrow> close_backend_switch_dialog (request_clear_subagent_backend a)
           | SecTeammate \<Rightarrow> close_backend_switch_dialog (request_clear_teammate_backend a)
           | SecActive \<Rightarrow> a))"

definition handle_backend_digit :: "nat \<Rightarrow> 'w app \<Rightarrow> input_action \<times> 'w app" where
  "handle_backend_digit index a =
     (ActNone,
      case store_state (switch_store a) of
        SwHidden \<Rightarrow> a
      | SwVisible sec b su t n \<Rightarrow>
          (case sec of
             SecActive \<Rightarrow>
               (case nth_backend a (index - 1) of
                  None \<Rightarrow> a
                | Some bi \<Rightarrow>
                    if bi_is_active bi then close_backend_switch_dialog a
                    else case request_switch_backend_by_index index a of
                           (True, a') \<Rightarrow> close_backend_switch_dialog a' | (False, a') \<Rightarrow> a')
           | SecSubagent \<Rightarrow>
               if index \<le> length (app_backends a)
               then close_backend_switch_dialog (request_set_subagent_backend (index - 1) a) else a
           | SecTeammate \<Rightarrow>
               if index \<le> length (app_backends a)
               then close_backend_switch_dialog (request_set_teammate_backend (index - 1) a) else a))"

definition handle_backend_switch_key :: "key_input \<Rightarrow> 'w app \<Rightarrow> input_action \<times> 'w app" where
  "handle_backend_switch_key key a =
     (case kind key of
        KeyEscape \<Rightarrow> (ActNone, close_backend_switch_dialog a)
      | KeyControl c \<Rightarrow> (ActNone, if c = 98 \<or> c = 104 then close_backend_switch_dialog a else a)
      | KeyTab \<Rightarrow> (ActNone, dispatch_switch SwNextSection a)
      | KeyArrow DirUp \<Rightarrow> (ActNone, dispatch_switch SwMoveUp a)
      | KeyArrow DirDown \<Rightarrow> (ActNone, dispatch_switch SwMoveDown a)
      | KeyEnter \<Rightarrow> handle_backend_confirm a
      | KeyBackspace \<Rightarrow> handle_backend_delete a
      | KeyNav NavDelete \<Rightarrow> handle_backend_delete a
      | KeyChar ch \<Rightarrow>
          if 48 \<le> ch \<and> ch \<le> 57 \<and> 0 < ch - 48 then handle_backend_digit (ch - 48) a else (ActNone, a)
      | _ \<Rightarrow> (ActNone, a))"

definition handle_popup_key :: "key_input \<Rightarrow> 'w app \<Rightarrow> input_action \<times> 'w app" where
  "handle_popup_key key a =
     (case popup_of a of
        None \<Rightarrow> (ActNone, a)
      | Some PopHistory \<Rightarrow> handle_history_key key a
      | Some PopSettings \<Rightarrow> handle_settings_key key a
      | Some PopBackendSwitch \<Rightarrow> handle_backend_switch_key key a)"

definition classify_key :: "'w \<Rightarrow> key_input \<Rightarrow> 'w app \<Rightarrow> input_action \<times> 'w app" where
  "classify_key w key a =
     (if kind key = KeyControl 113 then (ActNone, request_quit a)
      else if kind key = KeyControl 118 then (ActForward, a)
      else if show_popup a then handle_popup_key key a
      else if kind key = KeyControl 98 then
        (case toggle_popup PopBackendSwitch a of
           (opened, a') \<Rightarrow> (ActNone, if opened then request_backends_refresh a' else a'))
      else if kind key = KeyControl 104 then (ActNone, open_history_dialog w a)
      else if kind key = KeyControl 101 then (ActNone, open_settings_dialog a)
      else if kind key = KeyControl 114 then (ActNone, request_restart_claude a)
      else (ActForward, a))"

section \<open>What each operation leaves alone\<close>

text \<open>The part of the state the dialog invariant speaks of, and the part the child's input speaks of.\<close>

definition dialog_view :: "'w app \<Rightarrow> focus \<times> history_state \<times> settings_state \<times> switch_state" where
  "dialog_view a = (app_focus a, store_state (history_store a), store_state (settings_store a), store_state (switch_store a))"

lemma send_command_cases:
  obtains (sent) ch where "send_command c a = (True, a\<lparr>ipc_sender := Some ch, last_ipc_error := None\<rparr>)"
  | (refused) e where "send_command c a = (False, a\<lparr>last_ipc_error := e\<rparr>)"
proof (cases "ipc_sender a")
  case None
  then have "send_command c a = (False, a\<lparr>last_ipc_error := last_ipc_error a\<rparr>)" by (simp add: send_command_def)
  then show thesis by (rule refused)
next
  case (Some ch)
  show thesis
  proof (cases "try_send c ch")
    case (Inl e)
    then have "send_command c a = (False, a\<lparr>last_ipc_error := Some (''IPC send failed: '' @ e)\<rparr>)"
      using Some by (simp add: send_command_def)
    then show thesis by (rule refused)
  next
    case (Inr ch')
    then have "send_command c a = (True, a\<lparr>ipc_sender := Some ch', last_ipc_error := None\<rparr>)"
      using Some by (simp add: send_command_def)
    then show thesis by (rule sent)
  qed
qed

lemma send_command_view [simp]:
  "dialog_view (snd (send_command c a)) = dialog_view a"
  "pty_store (snd (send_command c a)) = pty_store a" "app_pty (snd (send_command c a)) = app_pty a"
  "app_backends (snd (send_command c a)) = app_backends a" "app_errors (snd (send_command c a)) = app_errors a"
  "pty_generation (snd (send_command c a)) = pty_generation a" "should_quit (snd (send_command c a)) = should_quit a"
  "app_settings (snd (send_command c a)) = app_settings a" "history_provider (snd (send_command c a)) = history_provider a"
  by (cases c a rule: send_command_cases; simp add: dialog_view_def)+

lemma request_view [simp]:
  "dialog_view (request_status_refresh a) = dialog_view a"
  "dialog_view (request_backends_refresh a) = dialog_view a"
  "dialog_view (request_config_reload a) = dialog_view a"
  "dialog_view (request_set_subagent_backend k a) = dialog_view a"
  "dialog_view (request_clear_subagent_backend a) = dialog_view a"
  "dialog_view (request_set_teammate_backend k a) = dialog_view a"
  "dialog_view (request_clear_teammate_backend a) = dialog_view a"
  "dialog_view (snd (request_switch_backend_by_index k a)) = dialog_view a"
  by (simp_all add: request_status_refresh_def request_backends_refresh_def request_config_reload_def
      request_set_subagent_backend_def request_clear_subagent_backend_def request_set_teammate_backend_def
      request_clear_teammate_backend_def request_switch_backend_by_index_def split: option.splits)

lemma dispatch_pty_view [simp]: "dialog_view (dispatch_pty i a) = dialog_view a"
  by (simp add: dispatch_pty_def dialog_view_def)

lemma on_pty_view [simp]: "dialog_view (on_pty f a) = dialog_view a"
  by (simp add: on_pty_def dialog_view_def)

lemma request_restart_view [simp]: "dialog_view (request_restart_claude a) = dialog_view a"
proof -
  have "dialog_view (case send_command UiRestartClaude b of (True, a') \<Rightarrow> a' | (False, a') \<Rightarrow> dispatch_pty PtySpawnFailed a')
        = dialog_view b" for b :: "'a app"
    using send_command_view(1)[of UiRestartClaude b]
    by (cases "send_command UiRestartClaude b") (auto split: bool.splits)
  then show ?thesis by (simp add: request_restart_claude_def)
qed

section \<open>The invariant of the dialogs\<close>

definition popup_ok :: "'w app \<Rightarrow> bool" where
  "popup_ok a \<longleftrightarrow>
     (history_visible (store_state (history_store a)) \<longleftrightarrow> app_focus a = FocusPopup PopHistory)
     \<and> (settings_visible (store_state (settings_store a)) \<longleftrightarrow> app_focus a = FocusPopup PopSettings)
     \<and> (switch_visible (store_state (switch_store a)) \<longleftrightarrow> app_focus a = FocusPopup PopBackendSwitch)"

lemma popup_ok_view: "dialog_view a = dialog_view b \<Longrightarrow> popup_ok a = popup_ok b"
  by (simp add: dialog_view_def popup_ok_def)

lemma popup_ok_new: "popup_ok (app_new now mode c)"
  by (simp add: popup_ok_def app_new_def Let_def store_new_def history_visible_def settings_visible_def switch_visible_def)

lemmas visible_defs = history_visible_def settings_visible_def switch_visible_def

lemmas dialog_defs = popup_ok_def dispatch_history_def dispatch_settings_def dispatch_switch_def dispatch_def
  handle_history_def handle_settings_def handle_switch_def navigate_def visible_defs

lemma popup_ok_dialogs [intro]:
  "popup_ok a \<Longrightarrow> app_focus a = FocusPopup PopHistory \<Longrightarrow> popup_ok (close_history_dialog a)"
  "popup_ok a \<Longrightarrow> app_focus a = FocusPopup PopSettings \<Longrightarrow> popup_ok (close_settings_dialog a)"
  "popup_ok a \<Longrightarrow> app_focus a = FocusPopup PopBackendSwitch \<Longrightarrow> popup_ok (close_backend_switch_dialog a)"
  "popup_ok a \<Longrightarrow> app_focus a = FocusTerminal \<Longrightarrow> popup_ok (open_history_dialog w a)"
  "popup_ok a \<Longrightarrow> app_focus a = FocusTerminal \<Longrightarrow> popup_ok (open_settings_dialog a)"
  "popup_ok a \<Longrightarrow> app_focus a = FocusPopup PopSettings \<Longrightarrow> popup_ok (request_close_settings a)"
  by (auto simp: close_history_dialog_def close_settings_dialog_def close_backend_switch_dialog_def
      open_history_dialog_def open_settings_dialog_def request_close_settings_def Let_def dialog_defs
      split: settings_state.splits bool.splits)

lemma popup_ok_moves [intro]:
  "popup_ok a \<Longrightarrow> i = HistScrollUp \<or> i = HistScrollDown \<Longrightarrow> popup_ok (dispatch_history i a)"
  "popup_ok a \<Longrightarrow> j = SetMoveUp \<or> j = SetMoveDown \<or> j = SetToggle \<Longrightarrow> popup_ok (dispatch_settings j a)"
  "popup_ok a \<Longrightarrow> m = SwNextSection \<or> m = SwMoveUp \<or> m = SwMoveDown \<Longrightarrow> popup_ok (dispatch_switch m a)"
  by (auto simp: dialog_defs split: history_state.splits settings_state.splits switch_state.splits popup_section.splits)

lemma popup_ok_toggle:
  "popup_ok a \<Longrightarrow> app_focus a = FocusTerminal \<Longrightarrow> popup_ok (snd (toggle_popup PopBackendSwitch a))"
  by (auto simp: toggle_popup_def Let_def open_backend_switch_dialog_def dialog_defs)

text \<open>Two states with the same view are interchangeable for the closing operations.\<close>

lemma close_switch_view:
  "dialog_view (close_backend_switch_dialog a) =
   (FocusTerminal, store_state (history_store a), store_state (settings_store a), SwHidden)"
  by (simp add: close_backend_switch_dialog_def dialog_view_def dispatch_switch_def dispatch_def handle_switch_def)

lemma close_switch_cong:
  "dialog_view b = dialog_view a \<Longrightarrow> popup_ok (close_backend_switch_dialog a) \<Longrightarrow> popup_ok (close_backend_switch_dialog b)"
proof -
  assume v: "dialog_view b = dialog_view a" and ok: "popup_ok (close_backend_switch_dialog a)"
  have "dialog_view (close_backend_switch_dialog b) = dialog_view (close_backend_switch_dialog a)"
    unfolding close_switch_view using v by (simp add: dialog_view_def)
  from popup_ok_view[OF this] ok show ?thesis by simp
qed

lemma popup_ok_apply:
  assumes "popup_ok a" "app_focus a = FocusPopup PopSettings"
  shows "popup_ok (snd (apply_settings a))"
proof (cases "store_state (settings_store a)")
  case SetHidden
  then show ?thesis using assms(1) by (simp add: apply_settings_def)
next
  case (SetVisible rows k d c)
  define a1 where "a1 = a\<lparr>app_settings := apply_snapshots rows (app_settings a)\<rparr>"
  have v: "popup_ok (close_settings_dialog b)" if "dialog_view b = dialog_view a" for b :: "'a app"
    using assms that by (intro popup_ok_dialogs(2)) (auto simp: dialog_view_def popup_ok_def)
  have r: "dialog_view (snd (case send_command cmd b of (True, x) \<Rightarrow> (True, x) | (False, x) \<Rightarrow> (False, dispatch_pty PtySpawnFailed x)))
      = dialog_view b" for cmd and b :: "'a app"
    using send_command_view(1)[of cmd b] by (cases "send_command cmd b") (auto split: bool.splits)
  have "dialog_view a1 = dialog_view a" by (simp add: a1_def dialog_view_def)
  moreover have "dialog_view (a1\<lparr>saved_snapshot := x\<rparr>) = dialog_view a" for x by (simp add: a1_def dialog_view_def)
  ultimately show ?thesis
    using v popup_ok_view[OF r]
    by (simp add: apply_settings_def SetVisible Let_def a1_def[symmetric] popup_ok_view[OF dispatch_pty_view])
qed

lemma popup_ok_switch_key:
  assumes "popup_ok a" "app_focus a = FocusPopup PopBackendSwitch"
  shows "popup_ok (snd (handle_backend_switch_key key a))"
proof -
  have cl: "popup_ok (close_backend_switch_dialog b)" if "dialog_view b = dialog_view a" for b :: "'a app"
    by (rule close_switch_cong[OF that]) (use assms in blast)
  have same: "popup_ok b" if "dialog_view b = dialog_view a" for b :: "'a app"
    using assms(1) popup_ok_view[OF that] by simp
  have req: "popup_ok (case request_switch_backend_by_index k a of
        (True, b) \<Rightarrow> close_backend_switch_dialog b | (False, b) \<Rightarrow> b)" for k
    using request_view(8)[of k a] cl same by (cases "request_switch_backend_by_index k a") (auto split: bool.splits)
  have act: "popup_ok (snd (confirm_active_backend k a))" for k
    using request_view(8)[of "Suc k" a] cl same assms
    by (cases "request_switch_backend_by_index (Suc k) a") (auto simp: confirm_active_backend_def split: bool.splits option.splits)
  have conf: "popup_ok (snd (handle_backend_confirm a))"
    using act cl assms by (auto simp: handle_backend_confirm_def confirm_override_backend_def split: switch_state.splits popup_section.splits)
  moreover have "popup_ok (snd (handle_backend_delete a))"
    using cl assms by (auto simp: handle_backend_delete_def split: switch_state.splits popup_section.splits)
  moreover have "popup_ok (snd (handle_backend_digit k a))" for k
    using cl req[of k] assms
    by (auto simp: handle_backend_digit_def split: switch_state.splits popup_section.splits option.splits)
  ultimately show ?thesis
    using cl[of a] popup_ok_moves(3)[OF assms(1)] assms(1)
    by (auto simp: handle_backend_switch_key_def split: key_kind.splits direction.splits nav_key.splits)
qed

lemma popup_ok_classify:
  assumes "popup_ok a"
  shows "popup_ok (snd (classify_key w key a))"
proof (cases "app_focus a")
  case FocusTerminal
  have q: "popup_ok (request_quit a)" using assms by (simp add: request_quit_def popup_ok_def)
  obtain opened a' where o: "toggle_popup PopBackendSwitch a = (opened, a')" by fastforce
  have t: "popup_ok a'" "popup_ok (request_backends_refresh a')"
    using popup_ok_toggle[OF assms FocusTerminal] o by (simp_all add: popup_ok_view[OF request_view(2)])
  have r: "popup_ok (request_restart_claude a)" using assms by (simp add: popup_ok_view[OF request_restart_view])
  have d: "popup_ok (open_history_dialog w a)" "popup_ok (open_settings_dialog a)"
    using assms FocusTerminal by blast+
  show ?thesis
    by (simp add: classify_key_def show_popup_def FocusTerminal o assms q t r d)
next
  case (FocusPopup k)
  have q: "popup_ok (request_quit a)" using assms by (simp add: request_quit_def popup_ok_def)
  have h: "popup_ok (snd (handle_history_key key a))" if "k = PopHistory"
    using assms FocusPopup that popup_ok_dialogs(1)[OF assms] popup_ok_moves(1)[OF assms]
    by (auto simp: handle_history_key_def split: key_kind.splits direction.splits)
  have s: "popup_ok (snd (handle_settings_key key a))" if "k = PopSettings"
    using assms FocusPopup that popup_ok_dialogs(2,6)[OF assms] popup_ok_moves(2)[OF assms] popup_ok_apply[OF assms]
    by (auto simp: handle_settings_key_def split: key_kind.splits direction.splits)
  have b: "popup_ok (snd (handle_backend_switch_key key a))" if "k = PopBackendSwitch"
    using popup_ok_switch_key[OF assms] FocusPopup that by simp
  show ?thesis
    using assms FocusPopup q h s b
    by (cases k) (auto simp: classify_key_def show_popup_def handle_popup_key_def popup_of_def)
qed

end
