(* ===== verification/Runtime.thy ===== *)
theory Runtime
  imports AppInput Spawn
begin

text \<open>
  The event loop of the interface and the bridge to the proxy (\<open>src/ui/runtime.rs\<close>, \<open>src/ui/events.rs\<close>).
  One iteration is \<open>handle_event\<close> on the loop's variables; what it reads from outside (the time, the
  screen size, the emulator, the result of spawning a process, the clipboard) is the record \<open>loop_env\<close>
  and what is fixed for the session the record \<open>loop_conf\<close>.  Drawing is left out.
\<close>

section \<open>Events\<close>

datatype pty_error = PtyProcessExited "32 word option" | PtySpawnError string string | PtyReadError string

definition show_i32 :: "32 word \<Rightarrow> string" where
  "show_i32 n = (if sint n < 0 then ''-'' @ show_nat (nat (- sint n)) else show_nat (nat (sint n)))"

definition user_message :: "pty_error \<Rightarrow> string" where
  "user_message e =
     (case e of PtyProcessExited _ \<Rightarrow> ''Claude Code has exited''
      | PtySpawnError _ _ \<Rightarrow> ''Failed to start Claude Code'' | PtyReadError _ \<Rightarrow> ''Lost connection to Claude Code'')"

definition pty_error_details :: "pty_error \<Rightarrow> string" where
  "pty_error_details e =
     (case e of
        PtyProcessExited (Some n) \<Rightarrow> ''Process exited with code '' @ show_i32 n
      | PtyProcessExited None \<Rightarrow> ''Process exited (unknown code)''
      | PtySpawnError cmd err \<Rightarrow> ''Failed to spawn '' @ [CHR 0x27] @ cmd @ [CHR 0x27] @ '': '' @ err
      | PtyReadError err \<Rightarrow> ''PTY read error: '' @ err)"

datatype app_event =
    EvKey key_input
  | EvMouse mouse_event
  | EvPaste "u8 list"
  | EvTick
  | EvResize u16 u16
  | EvPtyOutput
  | EvConfigReload
  | EvConfigError string
  | EvIpcStatus proxy_status
  | EvIpcBackends "backend_info list"
  | EvIpcError string
  | EvPtyError pty_error
  | EvShutdown
  | EvProcessExit u64
  | EvPtyRestart "(string \<times> string) list" "string list"
  | EvRestartClaude
  | EvSetSubagent "string option"
  | EvSetTeammate "string option"

section \<open>The loop's variables\<close>

record 'w loop_env =
  le_now :: nat
  le_world :: 'w
  le_term_size :: "(u16 \<times> u16) option"
  le_cursor_visible :: bool
  le_cursor_row :: u16
  le_tracking :: bool
  le_grid :: grid
  le_scroll :: "32 word \<Rightarrow> nat \<Rightarrow> nat"
  le_spawn :: "spawn_params \<Rightarrow> string + pty_handle"
  le_clip_error :: "string option"

record loop_conf =
  cf_jparse :: "string \<Rightarrow> json option"
  cf_host :: host
  cf_raw_args :: "string list"
  cf_spawn :: runtime_spawn
  cf_session :: string
  cf_lower :: "string \<Rightarrow> string"

record 'w runtime =
  ui_app :: "'w app"
  can_retry :: bool
  mouse_down_pos :: "grid_pos option"
  last_click :: "(nat \<times> grid_pos) option"
  clipboard :: "string list option"
  spawned :: "spawn_params list"
  subagent_state :: agent_backend
  teammate_state :: agent_backend

definition on_app :: "('w app \<Rightarrow> 'w app) \<Rightarrow> 'w runtime \<Rightarrow> 'w runtime" where
  "on_app f rt = rt\<lparr>ui_app := f (ui_app rt)\<rparr>"

definition app_record ::
  "nat \<Rightarrow> error_severity \<Rightarrow> error_category \<Rightarrow> string \<Rightarrow> string option \<Rightarrow> 'w app \<Rightarrow> 'w app" where
  "app_record now sev cat msg det a = a\<lparr>app_errors := record_with_details now sev cat msg det (app_errors a)\<rparr>"

text \<open>The provider selector of the active backend, for Copilot.\<close>

definition active_wire_api :: "config \<Rightarrow> cli_mode \<Rightarrow> string" where
  "active_wire_api c mode =
     (let p = profile mode c;
          api = Option.bind (List.find (\<lambda>b. name b = active (defaults p)) (backends p)) wire_api
      in if api = Some ''openai'' \<or> api = Some ''openai-completions'' then ''openai''
         else if api = Some ''openai-responses'' then ''openai-responses''
         else if api = Some ''azure'' \<or> api = Some ''azure-completions'' then ''azure''
         else if api = Some ''azure-responses'' then ''azure-responses''
         else ''anthropic'')"

section \<open>Starting the child again\<close>

definition resize_to_screen :: "(u16 \<times> u16) option \<Rightarrow> 'w app \<Rightarrow> 'w app" where
  "resize_to_screen sz a =
     (case sz of Some (cols, rows) \<Rightarrow> (case pty_size cols rows of (c, r) \<Rightarrow> on_resize c r a) | None \<Rightarrow> a)"

definition respawn_pty :: "'w loop_env \<Rightarrow> spawn_params \<Rightarrow> 'w runtime \<Rightarrow> 'w runtime" where
  "respawn_pty env params rt =
     (let a = detach_pty (snd (next_pty_generation (ui_app rt)));
          a' = (case le_spawn env params of
                  Inr h \<Rightarrow> resize_to_screen (le_term_size env) (attach_pty h a)
                | Inl e \<Rightarrow> app_record (le_now env) SevCritical CatProcess ''Failed to restart Claude Code'' (Some e)
                            (dispatch_pty PtySpawnFailed a))
      in rt\<lparr>ui_app := a', spawned := spawned rt @ [params]\<rparr>)"

text \<open>The settings in force are the application's.\<close>

definition session_spawn :: "loop_conf \<Rightarrow> 'w runtime \<Rightarrow> runtime_spawn" where
  "session_spawn c rt = (cf_spawn c)\<lparr>rt_settings := app_settings (ui_app rt)\<rparr>"

definition retry_params :: "loop_conf \<Rightarrow> 'w runtime \<Rightarrow> spawn_params" where
  "retry_params c rt =
     (let r = session_spawn c rt
      in build_spawn_params (cf_jparse c) (cf_host c) (cf_raw_args c)
           (runtime_request r (rt_actual_url r) (rt_shim r) (Some (rt_port r))))"

definition forget_failed_retry :: "'w runtime \<Rightarrow> 'w runtime" where
  "forget_failed_retry rt = (if pty_attached (lifecycle (ui_app rt)) then rt else rt\<lparr>can_retry := False\<rparr>)"

definition handle_process_exit :: "loop_conf \<Rightarrow> 'w loop_env \<Rightarrow> u64 \<Rightarrow> 'w runtime \<Rightarrow> 'w runtime" where
  "handle_process_exit c env gen rt0 =
     (let retry = can_retry rt0; rt = rt0\<lparr>can_retry := False\<rparr>; a = ui_app rt
      in if gen \<noteq> pty_generation a then rt
         else if pty_restarting (lifecycle a) then rt
         else if has_restarted a \<and> \<not> pty_ready (lifecycle a) then
           (if retry then respawn_pty env (retry_params c rt) rt
            else on_app (\<lambda>a. app_record (le_now env) SevCritical CatProcess ''Claude Code exited during restart'' None
                               (dispatch_pty PtySpawnFailed a)) rt)
         else on_app (\<lambda>a. request_quit (app_record (le_now env) SevInfo CatProcess ''Claude Code process exited'' None a)) rt)"

definition handle_restart_claude :: "loop_conf \<Rightarrow> 'w loop_env \<Rightarrow> 'w runtime \<Rightarrow> 'w runtime" where
  "handle_restart_claude c env rt =
     (let params = restart_claude (cf_host c) (cf_raw_args c) (session_spawn c rt) (cf_session c)
      in forget_failed_retry (respawn_pty env params (rt\<lparr>can_retry := True\<rparr>)))"

definition handle_pty_restart ::
  "loop_conf \<Rightarrow> 'w loop_env \<Rightarrow> (string \<times> string) list \<Rightarrow> string list \<Rightarrow> 'w runtime \<Rightarrow> 'w runtime" where
  "handle_pty_restart c env env_vars cli_args rt =
     (let params = restart_settings (cf_jparse c) (cf_host c) (cf_raw_args c) (session_spawn c rt) env_vars cli_args
      in forget_failed_retry (respawn_pty env params (rt\<lparr>can_retry := True\<rparr>)))"

section \<open>Mouse\<close>

definition copy_text :: "'w loop_env \<Rightarrow> string \<Rightarrow> 'w runtime \<Rightarrow> 'w runtime" where
  "copy_text env text rt =
     (case clipboard rt of
        Some cs \<Rightarrow> if le_clip_error env = None then rt\<lparr>clipboard := Some (cs @ [text])\<rparr> else rt
      | None \<Rightarrow> rt)"

definition resolve_name :: "'w app \<Rightarrow> string option \<Rightarrow> string" where
  "resolve_name a i =
     (let active_display = (case List.find bi_is_active (app_backends a) of Some b \<Rightarrow> bi_display_name b | None \<Rightarrow> ''unknown'')
      in case Option.bind i (\<lambda>n. List.find (\<lambda>b. bi_id b = n) (app_backends a)) of
           Some b \<Rightarrow> bi_display_name b | None \<Rightarrow> active_display)"

definition header_click :: "loop_conf \<Rightarrow> 'w loop_env \<Rightarrow> u16 \<Rightarrow> 'w runtime \<Rightarrow> 'w runtime" where
  "header_click c env col rt =
     (let a = ui_app rt;
          (start, stop) = session_col_range (cf_lower c) (app_status a) (app_session_id a)
             (resolve_name a (app_subagent a)) (resolve_name a (app_teammate a))
      in if start \<le> col \<and> col < stop \<and> clipboard rt \<noteq> None
         then on_app (flash_session_copied (le_now env)) (copy_text env (app_session_id a) rt)
         else rt)"

definition select_mouse :: "'w loop_env \<Rightarrow> mouse_event \<Rightarrow> 'w runtime \<Rightarrow> 'w runtime" where
  "select_mouse env m rt =
     (case m of
        MouseDown BtnLeft col row \<Rightarrow>
          (let pos = screen_to_grid (le_term_size env) col row;
               double = (case (pos, last_click rt) of
                           (Some p, Some (t, q)) \<Rightarrow> q = p \<and> (le_now env - t) div 10 ^ 6 < 400
                         | _ \<Rightarrow> False)
           in case (double, pos) of
                (True, Some p) \<Rightarrow>
                  (case select_word_at (le_grid env) p (ui_app rt) of
                     (text, a) \<Rightarrow>
                       let rt' = rt\<lparr>ui_app := a, last_click := None, mouse_down_pos := None\<rparr>
                       in case text of Some s \<Rightarrow> copy_text env s rt' | None \<Rightarrow> rt')
              | _ \<Rightarrow> (on_app clear_selection rt)
                       \<lparr>mouse_down_pos := pos, last_click := map_option (\<lambda>p. (le_now env, p)) pos\<rparr>)
      | MouseDrag BtnLeft col row \<Rightarrow>
          (case screen_to_grid (le_term_size env) col row of
             None \<Rightarrow> rt
           | Some pos \<Rightarrow>
               (case mouse_down_pos rt of
                  Some anchor \<Rightarrow>
                    if anchor \<noteq> pos
                    then on_app (\<lambda>a. update_selection pos (start_selection anchor a)) (rt\<lparr>mouse_down_pos := None\<rparr>)
                    else rt
                | None \<Rightarrow> on_app (update_selection pos) rt))
      | MouseUp col row \<Rightarrow>
          (case finish_selection (le_grid env) (ui_app rt) of
             (text, a) \<Rightarrow>
               let rt' = rt\<lparr>ui_app := a, mouse_down_pos := None\<rparr>
               in case text of
                    Some s \<Rightarrow>
                      if s \<noteq> [] \<and> clipboard rt' \<noteq> None
                      then (case le_clip_error env of
                              None \<Rightarrow> copy_text env s rt'
                            | Some e \<Rightarrow> on_app (app_record (le_now env) SevWarning CatProcess e None) rt')
                      else rt'
                  | None \<Rightarrow> rt')
      | _ \<Rightarrow> rt)"

definition handle_mouse :: "loop_conf \<Rightarrow> 'w loop_env \<Rightarrow> mouse_event \<Rightarrow> 'w runtime \<Rightarrow> 'w runtime" where
  "handle_mouse c env m rt =
     (if is_scroll m then
        on_app (\<lambda>a. let b = clear_selection a
                   in case m of MouseScrollUp _ _ \<Rightarrow> app_scroll_up (le_scroll env) 3 b
                      | MouseScrollDown _ _ \<Rightarrow> app_scroll_down (le_scroll env) 3 b | _ \<Rightarrow> b) rt
      else if snd (position m) < 3 \<and> (case m of MouseDown BtnLeft _ _ \<Rightarrow> True | _ \<Rightarrow> False)
      then header_click c env (fst (position m)) rt
      else if app_mouse_tracking (le_tracking env) (ui_app rt) then on_app (send_input (to_x10_bytes m)) rt
      else select_mouse env m rt)"

section \<open>One event\<close>

text \<open>\<open>STATUS_REFRESH_INTERVAL\<close> is a second.\<close>

definition status_refresh_interval :: nat where
  "status_refresh_interval = 10 ^ 9"

definition handle_key :: "'w loop_env \<Rightarrow> key_input \<Rightarrow> 'w app \<Rightarrow> 'w app" where
  "handle_key env key a =
     (case classify_key (le_world env) key (clear_selection (app_reset_scrollback (le_scroll env) a)) of
        (ActForward, b) \<Rightarrow> send_input (raw key) b
      | (ActNone, b) \<Rightarrow> b)"

definition handle_paste :: "u8 list \<Rightarrow> 'w app \<Rightarrow> 'w app" where
  "handle_paste text a =
     (if str_trim (map (\<lambda>b. char_of (unat b)) text) = [] then send_input [0x16] a else on_paste text a)"

definition handle_tick :: "'w loop_env \<Rightarrow> 'w app \<Rightarrow> 'w app" where
  "handle_tick env a =
     (case should_refresh_status (le_now env) status_refresh_interval a of
        (True, b) \<Rightarrow> request_status_refresh b | (False, b) \<Rightarrow> b)"

definition handle_event :: "loop_conf \<Rightarrow> 'w loop_env \<Rightarrow> app_event \<Rightarrow> 'w runtime \<Rightarrow> 'w runtime" where
  "handle_event c env ev rt =
     (case ev of
        EvKey key \<Rightarrow> on_app (handle_key env key) rt
      | EvMouse m \<Rightarrow> handle_mouse c env m rt
      | EvPaste text \<Rightarrow> on_app (handle_paste text) rt
      | EvTick \<Rightarrow> on_app (handle_tick env) rt
      | EvResize cols rows \<Rightarrow> on_app (resize_to_screen (Some (cols, rows))) rt
      | EvPtyOutput \<Rightarrow>
          (case on_pty_output (le_cursor_visible env) (le_cursor_row env) (ui_app rt) of
             (became_ready, a) \<Rightarrow> rt\<lparr>ui_app := a, can_retry := (if became_ready then False else can_retry rt)\<rparr>)
      | EvConfigReload \<Rightarrow> on_app (\<lambda>a. request_status_refresh (request_backends_refresh (request_config_reload a))) rt
      | EvIpcStatus st \<Rightarrow> on_app (\<lambda>a. a\<lparr>app_status := Some st\<rparr>) rt
      | EvIpcBackends bs \<Rightarrow> on_app (\<lambda>a. a\<lparr>app_backends := bs\<rparr>) rt
      | EvIpcError msg \<Rightarrow> on_app (\<lambda>a. a\<lparr>last_ipc_error := Some msg\<rparr>) rt
      | EvConfigError msg \<Rightarrow> on_app (app_record (le_now env) SevWarning CatConfig ''Config reload failed'' (Some msg)) rt
      | EvPtyError e \<Rightarrow>
          on_app (app_record (le_now env) SevCritical CatProcess (user_message e) (Some (pty_error_details e))) rt
      | EvShutdown \<Rightarrow> on_app request_quit rt
      | EvProcessExit gen \<Rightarrow> handle_process_exit c env gen rt
      | EvRestartClaude \<Rightarrow> handle_restart_claude c env rt
      | EvPtyRestart env_vars cli_args \<Rightarrow> handle_pty_restart c env env_vars cli_args rt
      | EvSetSubagent b \<Rightarrow> (on_app (\<lambda>a. a\<lparr>app_subagent := b\<rparr>) rt)\<lparr>subagent_state := b\<rparr>
      | EvSetTeammate b \<Rightarrow> (on_app (\<lambda>a. a\<lparr>app_teammate := b\<rparr>) rt)\<lparr>teammate_state := b\<rparr>)"

text \<open>The loop stops before the next event once quitting was requested.\<close>

fun run_loop :: "loop_conf \<Rightarrow> ('w loop_env \<times> app_event) list \<Rightarrow> 'w runtime \<Rightarrow> 'w runtime" where
  "run_loop c [] rt = rt"
| "run_loop c ((env, ev) # es) rt =
     (if should_quit (ui_app rt) then rt else run_loop c es (handle_event c env ev rt))"

section \<open>The bridge\<close>

text \<open>One command of the interface, served through the client; \<open>l k\<close> is what happens to its \<open>k\<close>-th
  exchange and \<open>save\<close> the result of writing the settings to the configuration file.\<close>

definition refresh_both ::
  "(nat \<Rightarrow> link) \<Rightarrow> nat \<Rightarrow> 'q ipc_state \<Rightarrow> app_event list \<times> 'q ipc_state" where
  "refresh_both l now s =
     (case client_get_status (l 1) now s of
        (st, s1) \<Rightarrow>
          (case client_list_backends (l 2) s1 of
             (bs, s2) \<Rightarrow>
               ((case st of Inr x \<Rightarrow> [EvIpcStatus x] | Inl _ \<Rightarrow> [])
                @ (case bs of Inr x \<Rightarrow> [EvIpcBackends x] | Inl _ \<Rightarrow> []), s2)))"

definition run_ui_bridge ::
  "((string \<times> bool) list \<Rightarrow> string option) \<Rightarrow> config \<Rightarrow> (nat \<Rightarrow> link) \<Rightarrow> nat \<Rightarrow> ui_command \<Rightarrow> 'q ipc_state
   \<Rightarrow> app_event list \<times> 'q ipc_state" where
  "run_ui_bridge save store l now cmd s =
     (case cmd of
        UiSwitchBackend b \<Rightarrow>
          (case client_switch_backend (l 0) now b s of
             (Inr (Inr _), s') \<Rightarrow> refresh_both l now s'
           | (Inr (Inl e), s') \<Rightarrow> ([EvIpcError (show_backend_error e)], s')
           | (Inl e, s') \<Rightarrow> ([EvIpcError (show_ipc_error e)], s'))
      | UiRefreshStatus \<Rightarrow>
          (case client_get_status (l 0) now s of
             (Inr x, s') \<Rightarrow> ([EvIpcStatus x], s') | (Inl e, s') \<Rightarrow> ([EvIpcError (show_ipc_error e)], s'))
      | UiRefreshBackends \<Rightarrow>
          (case client_list_backends (l 0) s of
             (Inr x, s') \<Rightarrow> ([EvIpcBackends x], s') | (Inl e, s') \<Rightarrow> ([EvIpcError (show_ipc_error e)], s'))
      | UiReloadConfig \<Rightarrow>
          (case update_config now (claude store) (is_backend s) of
             Inr bs \<Rightarrow> refresh_both l now (s\<lparr>is_backend := bs\<rparr>)
           | Inl e \<Rightarrow> ([EvIpcError (show_backend_error e)], s))
      | UiRestartPty env_vars cli_args settings_toml \<Rightarrow>
          (case save settings_toml of
             None \<Rightarrow> ([EvPtyRestart env_vars cli_args], s)
           | Some e \<Rightarrow> ([EvIpcError (''Failed to save settings: '' @ e)], s))
      | UiRestartClaude \<Rightarrow> ([EvRestartClaude], s)
      | UiSetSubagent b \<Rightarrow> ([EvSetSubagent b], s)
      | UiSetTeammate b \<Rightarrow> ([EvSetTeammate b], s))"

end
