(* ===== verification/RuntimeProps.thy ===== *)
theory RuntimeProps
  imports Runtime SpawnProps
begin

text \<open>
  Properties of the event loop (\<open>Runtime\<close>): the dialogs and the focus agree after any events; typed input
  reaches the child whole and in order; which exits end the program; what a failed restart does; and
  the way of a chosen backend from the dialog through the bridge and back.
\<close>

section \<open>Focus and dialogs\<close>

lemma app_view [simp]:
  "dialog_view (clear_selection a) = dialog_view a" "dialog_view (app_reset_scrollback scr a) = dialog_view a"
  "dialog_view (app_scroll_up scr n a) = dialog_view a" "dialog_view (app_scroll_down scr n a) = dialog_view a"
  "dialog_view (send_input bs a) = dialog_view a" "dialog_view (start_selection p a) = dialog_view a"
  "dialog_view (update_selection p a) = dialog_view a" "dialog_view (request_quit a) = dialog_view a"
  "dialog_view (on_resize c r a) = dialog_view a" "dialog_view (attach_pty h a) = dialog_view a"
  "dialog_view (detach_pty a) = dialog_view a" "dialog_view (app_record now sev cat m d a) = dialog_view a"
  "dialog_view (flash_session_copied now a) = dialog_view a" "dialog_view (snd (next_pty_generation a)) = dialog_view a"
  "dialog_view (snd (select_word_at g p a)) = dialog_view a" "dialog_view (snd (finish_selection g a)) = dialog_view a"
  by (simp_all add: clear_selection_def app_reset_scrollback_def app_scroll_up_def app_scroll_down_def send_input_def
      start_selection_def update_selection_def request_quit_def on_resize_def attach_pty_def detach_pty_def
      app_record_def flash_session_copied_def next_pty_generation_def select_word_at_def finish_selection_def
      dialog_view_def dispatch_pty_def on_pty_def Let_def split: option.splits)

lemma paste_view [simp]: "dialog_view (handle_paste t a) = dialog_view a"
  by (simp add: handle_paste_def on_paste_def)

lemma resize_view [simp]: "dialog_view (resize_to_screen s a) = dialog_view a"
  by (simp add: resize_to_screen_def split: option.splits prod.splits)

lemma tick_view [simp]: "dialog_view (handle_tick env a) = dialog_view a"
  by (simp add: handle_tick_def should_refresh_status_def dialog_view_def[of "_\<lparr>last_status_refresh := _\<rparr>"])
    (simp add: dialog_view_def)

lemma flush_view [simp]: "dialog_view (flush_effects es a) = dialog_view a"
proof (induction es arbitrary: a)
  case Nil
  then show ?case by (simp add: flush_effects_def)
next
  case (Cons e es)
  show ?case
    using Cons.IH[of "case e of FlushBuffer buffer \<Rightarrow> on_pty (fold (\<lambda>bytes h. snd (pty_send_input bytes h)) buffer) a"]
    by (cases e) (simp add: flush_effects_def)
qed

lemma output_view [simp]: "dialog_view (snd (on_pty_output v r a)) = dialog_view a"
  by (auto simp: on_pty_output_def Let_def dialog_view_def[of "_\<lparr>pty_store := _\<rparr>"] split: option.splits prod.splits)
    (simp_all add: dialog_view_def)

lemma respawn_view [simp]: "dialog_view (ui_app (respawn_pty env p rt)) = dialog_view (ui_app rt)"
  by (simp add: respawn_pty_def Let_def split: sum.splits)

lemma forget_app [simp]: "ui_app (forget_failed_retry rt) = ui_app rt"
  by (simp add: forget_failed_retry_def)

lemma copy_app [simp]: "ui_app (copy_text env t rt) = ui_app rt"
  by (simp add: copy_text_def split: option.splits)

lemma exit_view [simp]: "dialog_view (ui_app (handle_process_exit c env g rt)) = dialog_view (ui_app rt)"
  by (simp add: handle_process_exit_def Let_def on_app_def)

lemma pair_views:
  "select_word_at g p a = (t, b) \<Longrightarrow> dialog_view b = dialog_view a"
  "finish_selection g a = (t, b) \<Longrightarrow> dialog_view b = dialog_view a"
  "on_pty_output v r a = (q, b) \<Longrightarrow> dialog_view b = dialog_view a"
  using app_view(15)[of g p a] app_view(16)[of g a] output_view[of v r a] by auto

lemma mouse_view [simp]: "dialog_view (ui_app (handle_mouse c env m rt)) = dialog_view (ui_app rt)"
proof -
  have s: "dialog_view (ui_app (select_mouse env m rt)) = dialog_view (ui_app rt)"
    by (auto simp: select_mouse_def Let_def on_app_def dest: pair_views
        split: mouse_event.splits mouse_button.splits option.splits prod.splits bool.splits)
  have h: "dialog_view (ui_app (header_click c env col rt)) = dialog_view (ui_app rt)" for col
    by (simp add: header_click_def Let_def on_app_def split: prod.splits)
  show ?thesis
    by (auto simp: handle_mouse_def s h on_app_def Let_def split: mouse_event.splits)
qed

lemma event_view:
  "(\<And>key. ev \<noteq> EvKey key) \<Longrightarrow> dialog_view (ui_app (handle_event c env ev rt)) = dialog_view (ui_app rt)"
  by (cases ev) (auto simp: handle_event_def on_app_def handle_restart_claude_def handle_pty_restart_def Let_def
      dialog_view_def[of "_\<lparr>app_status := _\<rparr>"] dialog_view_def[of "_\<lparr>app_backends := _\<rparr>"]
      dialog_view_def[of "_\<lparr>last_ipc_error := _\<rparr>"] dialog_view_def[of "_\<lparr>app_subagent := _\<rparr>"]
      dialog_view_def[of "_\<lparr>app_teammate := _\<rparr>"] dest!: pair_views split: prod.splits, simp_all add: dialog_view_def)

lemma popup_ok_key: "popup_ok a \<Longrightarrow> popup_ok (handle_key env key a)"
proof -
  assume a: "popup_ok a"
  let ?b = "clear_selection (app_reset_scrollback (le_scroll env) a)"
  have "popup_ok ?b" using a by (simp add: popup_ok_view[of ?b a])
  from popup_ok_classify[OF this] have "popup_ok (snd (classify_key (le_world env) key ?b))" .
  then show ?thesis
    by (cases "classify_key (le_world env) key ?b") (simp add: handle_key_def popup_ok_view[OF app_view(5)] split: input_action.splits)
qed

lemma popup_ok_event: "popup_ok (ui_app rt) \<Longrightarrow> popup_ok (ui_app (handle_event c env ev rt))"
proof (cases "\<exists>key. ev = EvKey key")
  case True
  then show "popup_ok (ui_app rt) \<Longrightarrow> ?thesis"
    using popup_ok_key by (auto simp: handle_event_def on_app_def)
next
  case False
  then show "popup_ok (ui_app rt) \<Longrightarrow> ?thesis" using popup_ok_view[OF event_view] by blast
qed

lemma popup_ok_run: "popup_ok (ui_app rt) \<Longrightarrow> popup_ok (ui_app (run_loop c es rt))"
  by (induction c es rt rule: run_loop.induct) (auto intro: popup_ok_event)

text \<open>From the start of the program, whatever keys, clicks, pastes, answers of the proxy, exits and restarts
  follow, a dialog is on the screen exactly while it has the focus: keys are never caught by a dialog
  nobody sees, and no dialog is left open behind the terminal.\<close>

theorem focus_matches_dialogs:
  assumes "ui_app rt0 = app_new now mode conf"
  shows "case app_focus (ui_app (run_loop c es rt0)) of
      FocusTerminal \<Rightarrow> \<not> history_visible (store_state (history_store (ui_app (run_loop c es rt0))))
        \<and> \<not> settings_visible (store_state (settings_store (ui_app (run_loop c es rt0))))
        \<and> \<not> switch_visible (store_state (switch_store (ui_app (run_loop c es rt0))))
    | FocusPopup k \<Rightarrow>
        history_visible (store_state (history_store (ui_app (run_loop c es rt0)))) = (k = PopHistory)
        \<and> settings_visible (store_state (settings_store (ui_app (run_loop c es rt0)))) = (k = PopSettings)
        \<and> switch_visible (store_state (switch_store (ui_app (run_loop c es rt0)))) = (k = PopBackendSwitch)"
  using popup_ok_run[of rt0 c es] assms popup_ok_new[of now mode conf]
  by (auto simp: popup_ok_def split: focus.splits)

definition quiet_env :: "unit loop_env" where
  "quiet_env = \<lparr>le_now = 0, le_world = (), le_term_size = Some (80, 24), le_cursor_visible = False, le_cursor_row = 1,
     le_tracking = False, le_grid = \<lparr>screen_lines = 0, columns = 0, grid_cell = (\<lambda>r k. undefined)\<rparr>,
     le_scroll = (\<lambda>d n. 0), le_spawn = (\<lambda>p. Inl ''no''), le_clip_error = None\<rparr>"

definition fresh_runtime :: "'w app \<Rightarrow> 'w runtime" where
  "fresh_runtime a = \<lparr>ui_app = a, can_retry = False, mouse_down_pos = None, last_click = None, clipboard = None,
     spawned = [], subagent_state = None, teammate_state = None\<rparr>"

definition ctrl_key :: "nat \<Rightarrow> key_input" where
  "ctrl_key ch = \<lparr>raw = [of_nat (ch - 96)], kind = KeyControl ch\<rparr>"

definition demo_conf :: loop_conf where
  "demo_conf = \<lparr>cf_jparse = (\<lambda>_. None), cf_host = bare_host, cf_raw_args = [], cf_spawn = demo_spawn,
     cf_session = ''s-1'', cf_lower = (\<lambda>s. s)\<rparr>"

definition demo_backends :: "backend list" where
  "demo_backends = [default_backend, default_backend\<lparr>name := ''other'', display_name := ''Other''\<rparr>]"

definition demo_ipc :: "unit ipc_state" where
  "demo_ipc = \<lparr>is_backend = \<lparr>active_backend = ''claude'', cfg = default_profile\<lparr>backends := demo_backends\<rparr>, switch_log = []\<rparr>,
     is_registry = new_registry, is_hub = hub_new 10, is_debug = default_debug_logging, is_shutting_down = False, is_started = 0\<rparr>"

theorem focus_matches_dialogs_witness:
  "case app_focus (ui_app (run_loop demo_conf [(quiet_env, EvKey (ctrl_key 101))] (fresh_runtime (app_new 0 ModeClaude default_config)))) of
      FocusTerminal \<Rightarrow> False
    | FocusPopup k \<Rightarrow> settings_visible (store_state (settings_store (ui_app (run_loop demo_conf [(quiet_env, EvKey (ctrl_key 101))]
        (fresh_runtime (app_new 0 ModeClaude default_config)))))) = (k = PopSettings)"
proof -
  have f: "app_focus (ui_app (run_loop demo_conf [(quiet_env, EvKey (ctrl_key 101))] (fresh_runtime (app_new 0 ModeClaude default_config))))
      = FocusPopup PopSettings"
    by (simp add: fresh_runtime_def ctrl_key_def handle_event_def on_app_def handle_key_def classify_key_def
        clear_selection_def app_reset_scrollback_def on_pty_def app_new_def Let_def show_popup_def open_settings_dialog_def)
  show ?thesis
    using focus_matches_dialogs[of "fresh_runtime (app_new 0 ModeClaude default_config)" 0 ModeClaude default_config demo_conf
        "[(quiet_env, EvKey (ctrl_key 101))]"] unfolding f
    by (simp add: fresh_runtime_def)
qed

section \<open>Typed input\<close>

text \<open>The bytes an event types into the child, and the events that only type, show or tick.\<close>

fun typed_bytes :: "app_event \<Rightarrow> u8 list" where
  "typed_bytes (EvKey key) = raw key"
| "typed_bytes (EvPaste text) =
     (if str_trim (map (\<lambda>b. char_of (unat b)) text) = [] then [0x16] else paste_open @ text @ paste_close)"
| "typed_bytes _ = []"

fun plain_event :: "app_event \<Rightarrow> bool" where
  "plain_event (EvKey key) = (kind key \<notin> KeyControl ` {113, 98, 104, 101, 114})"
| "plain_event (EvMouse _) = False"
| "plain_event EvShutdown = False"
| "plain_event (EvProcessExit _) = False"
| "plain_event EvRestartClaude = False"
| "plain_event (EvPtyRestart _ _) = False"
| "plain_event _ = True"

text \<open>An output after which the child takes input: the cursor hidden and not in the first row.\<close>

definition shows_frame :: "'w loop_env \<times> app_event \<Rightarrow> bool" where
  "shows_frame x \<longleftrightarrow> snd x = EvPtyOutput \<and> \<not> le_cursor_visible (fst x) \<and> le_cursor_row (fst x) \<noteq> 0"

text \<open>The part of the application that input goes through.\<close>

definition io_view :: "'w app \<Rightarrow> focus \<times> bool \<times> pty_state \<times> (u8 list \<times> bool \<times> bool) option" where
  "io_view a = (app_focus a, should_quit a, lifecycle a,
     map_option (\<lambda>h. (ph_written h, ph_open h, ph_broken h)) (app_pty a))"

lemma io_view_updates [simp]:
  "io_view (a\<lparr>last_status_refresh := n\<rparr>) = io_view a" "io_view (a\<lparr>app_status := st\<rparr>) = io_view a"
  "io_view (a\<lparr>app_backends := bs\<rparr>) = io_view a" "io_view (a\<lparr>last_ipc_error := m\<rparr>) = io_view a"
  "io_view (a\<lparr>app_subagent := s\<rparr>) = io_view a" "io_view (a\<lparr>app_teammate := s\<rparr>) = io_view a"
  "io_view (a\<lparr>ipc_sender := ch\<rparr>) = io_view a" "io_view (app_record now sev cat msg d a) = io_view a"
  "io_view (clear_selection a) = io_view a"
  by (simp_all add: io_view_def lifecycle_def app_record_def clear_selection_def)

lemma io_view_send_command [simp]: "io_view (snd (send_command cmd a)) = io_view a"
  by (cases cmd a rule: send_command_cases) simp_all

lemma io_view_requests [simp]:
  "io_view (request_status_refresh a) = io_view a" "io_view (request_backends_refresh a) = io_view a"
  "io_view (request_config_reload a) = io_view a"
  by (simp_all add: request_status_refresh_def request_backends_refresh_def request_config_reload_def)

lemma io_view_tick [simp]: "io_view (handle_tick env a) = io_view a"
  by (simp add: handle_tick_def should_refresh_status_def)

lemma io_view_pty [simp]:
  "io_view (app_reset_scrollback scr a) = io_view a" "io_view (resize_to_screen sz a) = io_view a"
proof -
  have p: "io_view (on_pty f a) = io_view a"
    if "\<And>h. ph_written (f h) = ph_written h \<and> ph_open (f h) = ph_open h \<and> ph_broken (f h) = ph_broken h" for f a
    using that by (cases "app_pty a") (simp_all add: io_view_def on_pty_def lifecycle_def)
  show "io_view (app_reset_scrollback scr a) = io_view a"
    unfolding app_reset_scrollback_def by (rule p) (simp add: pty_reset_scrollback_def)
  have "io_view (on_resize c r a) = io_view a" for c r and a :: "'a app"
    unfolding on_resize_def by (subst p) (simp_all add: io_view_def lifecycle_def)
  then show "io_view (resize_to_screen sz a) = io_view a"
    by (simp add: resize_to_screen_def split: option.splits prod.splits)
qed

text \<open>Every plain event other than a key, a paste and an output leaves that part alone; a key and a paste
  send their bytes.\<close>

lemma plain_event_io:
  fixes rt :: "'w runtime"
  assumes "plain_event ev" "app_focus (ui_app rt) = FocusTerminal" "ev \<noteq> EvPtyOutput"
  shows "\<exists>b :: 'w app. io_view b = io_view (ui_app rt)
    \<and> io_view (ui_app (handle_event c env ev rt)) = (if typed_bytes ev = [] \<and> (\<forall>key. ev \<noteq> EvKey key) then io_view b
        else io_view (send_input (typed_bytes ev) b))"
proof (cases ev)
  case (EvKey key)
  let ?b = "clear_selection (app_reset_scrollback (le_scroll env) (ui_app rt))"
  have "app_focus ?b = FocusTerminal"
    using assms(2) by (simp add: clear_selection_def app_reset_scrollback_def on_pty_def)
  then have "classify_key (le_world env) key ?b = (ActForward, ?b)"
    using assms(1) EvKey by (auto simp: classify_key_def show_popup_def)
  then have "ui_app (handle_event c env ev rt) = send_input (raw key) ?b"
    using EvKey by (simp add: handle_event_def on_app_def handle_key_def)
  then show ?thesis using EvKey by (intro exI[of _ ?b]) simp
next
  case (EvPaste pasted)
  then show ?thesis
    by (intro exI[of _ "ui_app rt"]) (simp add: handle_event_def on_app_def handle_paste_def on_paste_def paste_open_def)
qed (use assms in \<open>auto simp: handle_event_def on_app_def intro: exI[of _ "ui_app rt"]\<close>)

text \<open>What was accepted for the child: the bytes written and those still buffered.\<close>

fun buffered :: "pty_state \<Rightarrow> u8 list" where
  "buffered (Pending b) = concat b"
| "buffered (Attached b) = concat b"
| "buffered _ = []"

definition accepts :: "u8 list \<Rightarrow> 'w app \<Rightarrow> bool" where
  "accepts bytes a \<longleftrightarrow> (\<exists>h. app_pty a = Some h \<and> writable h
     \<and> (pty_attached (lifecycle a) \<or> pty_ready (lifecycle a))
     \<and> ph_written h @ without_hotkeys (buffered (lifecycle a)) = bytes)"

lemma accepts_view: "io_view a = io_view b \<Longrightarrow> accepts bytes a = accepts bytes b"
  by (cases "app_pty a"; cases "app_pty b") (auto simp: accepts_def io_view_def writable_def)

lemma accepts_send: "accepts bytes a \<Longrightarrow> accepts (bytes @ without_hotkeys new) (send_input new a)"
  by (cases "lifecycle a")
    (auto simp: accepts_def send_input_def on_pty_def dispatch_pty_def dispatch_def handle_pty_def lifecycle_def
      pty_tests without_hotkeys_def)

lemma flush_one: "flush_effects [FlushBuffer bs] a = on_pty (fold (\<lambda>bytes h. snd (pty_send_input bytes h)) bs) a"
  by (simp add: flush_effects_def)

lemma accepts_output:
  assumes "accepts bytes a"
  shows "accepts bytes (snd (on_pty_output v r a))"
    "\<not> v \<Longrightarrow> r \<noteq> 0 \<Longrightarrow> pty_ready (lifecycle (snd (on_pty_output v r a)))"
    "pty_ready (lifecycle a) \<Longrightarrow> pty_ready (lifecycle (snd (on_pty_output v r a)))"
proof -
  obtain h where h: "app_pty a = Some h" "writable h" using assms by (auto simp: accepts_def)
  have sent: "writable (fold (\<lambda>b h. snd (pty_send_input b h)) bs h)
      \<and> ph_written (fold (\<lambda>b h. snd (pty_send_input b h)) bs h) = ph_written h @ without_hotkeys (concat bs)" for bs
    by (rule sends_written[OF h(2)])
  show "accepts bytes (snd (on_pty_output v r a))"
    "\<not> v \<Longrightarrow> r \<noteq> 0 \<Longrightarrow> pty_ready (lifecycle (snd (on_pty_output v r a)))"
    "pty_ready (lifecycle a) \<Longrightarrow> pty_ready (lifecycle (snd (on_pty_output v r a)))"
    using assms h sent
    by (cases "lifecycle a";
        auto simp: accepts_def on_pty_output_def lifecycle_def dispatch_collect_def handle_pty_def pty_tests
          flush_one on_pty_def flush_effects_def[of "[]"] without_hotkeys_def Let_def)+
qed

lemma accepts_event:
  fixes rt :: "'w runtime"
  assumes "accepts bytes (ui_app rt)" "plain_event ev" "app_focus (ui_app rt) = FocusTerminal"
  shows "accepts (bytes @ without_hotkeys (typed_bytes ev)) (ui_app (handle_event c env ev rt))"
    "pty_ready (lifecycle (ui_app rt)) \<or> shows_frame (env, ev) \<Longrightarrow> pty_ready (lifecycle (ui_app (handle_event c env ev rt)))"
proof -
  let ?a = "ui_app (handle_event c env ev rt)"
  have "accepts (bytes @ without_hotkeys (typed_bytes ev)) ?a
     \<and> (pty_ready (lifecycle (ui_app rt)) \<or> shows_frame (env, ev) \<longrightarrow> pty_ready (lifecycle ?a))"
  proof (cases "ev = EvPtyOutput")
    case True
    then have "?a = snd (on_pty_output (le_cursor_visible env) (le_cursor_row env) (ui_app rt))"
      by (simp add: handle_event_def split: prod.splits)
    then show ?thesis using True accepts_output[OF assms(1)] by (auto simp: shows_frame_def without_hotkeys_def)
  next
    case False
    obtain b :: "'w app" where b: "io_view b = io_view (ui_app rt)"
      "io_view ?a = (if typed_bytes ev = [] \<and> (\<forall>key. ev \<noteq> EvKey key) then io_view b else io_view (send_input (typed_bytes ev) b))"
      using plain_event_io[OF assms(2,3) False, where c = c and env = env] by blast
    have ab: "accepts bytes b" using assms(1) accepts_view[OF b(1)] by simp
    have r: "pty_ready (lifecycle (send_input x b))" if "pty_ready (lifecycle b)" for x
      using that by (simp add: send_input_def on_pty_def lifecycle_def)
    have lb: "lifecycle b = lifecycle (ui_app rt)" using b(1) by (simp add: io_view_def)
    show ?thesis
    proof (cases "typed_bytes ev = [] \<and> (\<forall>key. ev \<noteq> EvKey key)")
      case True
      then have "io_view ?a = io_view b" using b(2) by simp
      then show ?thesis
        using True ab accepts_view[of ?a b bytes] lb False
        by (auto simp: without_hotkeys_def shows_frame_def io_view_def)
    next
      case nontriv: False
      then have v: "io_view ?a = io_view (send_input (typed_bytes ev) b)" using b(2) by auto
      then have "lifecycle ?a = lifecycle (send_input (typed_bytes ev) b)" by (simp add: io_view_def)
      then show ?thesis
        using accepts_view[OF v] accepts_send[OF ab, of "typed_bytes ev"] r lb False by (auto simp: shows_frame_def)
    qed
  qed
  then show "accepts (bytes @ without_hotkeys (typed_bytes ev)) ?a"
    "pty_ready (lifecycle (ui_app rt)) \<or> shows_frame (env, ev) \<Longrightarrow> pty_ready (lifecycle ?a)" by auto
qed

lemma plain_event_keeps:
  fixes rt :: "'w runtime"
  assumes "plain_event ev" "app_focus (ui_app rt) = FocusTerminal"
  shows "app_focus (ui_app (handle_event c env ev rt)) = FocusTerminal"
    "should_quit (ui_app (handle_event c env ev rt)) = should_quit (ui_app rt)"
proof -
  have s: "app_focus (send_input x b) = app_focus b \<and> should_quit (send_input x b) = should_quit b" for x and b :: "'w app"
    by (simp add: send_input_def on_pty_def dispatch_pty_def)
  have "app_focus (ui_app (handle_event c env ev rt)) = app_focus (ui_app rt)
      \<and> should_quit (ui_app (handle_event c env ev rt)) = should_quit (ui_app rt)"
  proof (cases "ev = EvPtyOutput")
    case True
    have f: "app_focus (flush_effects es b) = app_focus b \<and> should_quit (flush_effects es b) = should_quit b" for es and b :: "'w app"
      by (induction es arbitrary: b) (auto simp: flush_effects_def on_pty_def split: pty_effect.splits)
    then show ?thesis
      using True by (auto simp: handle_event_def on_pty_output_def Let_def split: prod.splits if_splits option.splits)
  next
    case False
    from plain_event_io[OF assms False, where c = c and env = env] obtain b :: "'w app" where b: "io_view b = io_view (ui_app rt)"
      "io_view (ui_app (handle_event c env ev rt)) = io_view b
       \<or> io_view (ui_app (handle_event c env ev rt)) = io_view (send_input (typed_bytes ev) b)"
      by (metis (full_types))
    then show ?thesis using s[of "typed_bytes ev" b] by (auto simp: io_view_def)
  qed
  then show "app_focus (ui_app (handle_event c env ev rt)) = FocusTerminal"
    "should_quit (ui_app (handle_event c env ev rt)) = should_quit (ui_app rt)" using assms(2) by auto
qed

lemma accepts_run:
  "accepts bytes (ui_app rt) \<Longrightarrow> app_focus (ui_app rt) = FocusTerminal \<Longrightarrow> \<not> should_quit (ui_app rt) \<Longrightarrow>
   \<forall>x \<in> set es. plain_event (snd x) \<Longrightarrow>
   accepts (bytes @ without_hotkeys (concat (map (typed_bytes \<circ> snd) es))) (ui_app (run_loop c es rt))
   \<and> (pty_ready (lifecycle (ui_app rt)) \<or> (\<exists>x \<in> set es. shows_frame x)
       \<longrightarrow> pty_ready (lifecycle (ui_app (run_loop c es rt))))"
proof (induction es arbitrary: bytes rt)
  case Nil
  then show ?case by (simp add: without_hotkeys_def)
next
  case (Cons x es)
  obtain env ev where x: "x = (env, ev)" by (cases x)
  have p: "plain_event ev" using Cons.prems(4) x by simp
  note ev = accepts_event[OF Cons.prems(1) p Cons.prems(2), where c = c and env = env]
    plain_event_keeps[OF p Cons.prems(2), where c = c and env = env]
  have "\<not> should_quit (ui_app (handle_event c env ev rt))" "\<forall>x \<in> set es. plain_event (snd x)"
    using ev(4) Cons.prems(3,4) by simp_all
  from Cons.IH[OF ev(1,3) this] show ?case using Cons.prems(3) ev(2) by (auto simp: x)
qed

text \<open>C21: everything typed or pasted while a child starts arrives, in the order it was typed, without the control
  bytes the wrapper keeps for itself, as soon as the child has drawn its first frame; nothing is lost
  between the buffer and the child, and later input follows directly.\<close>

theorem typed_input_delivered:
  assumes "app_pty (ui_app rt) = Some h" "writable h" "lifecycle (ui_app rt) = Attached early"
    and "app_focus (ui_app rt) = FocusTerminal" "\<not> should_quit (ui_app rt)"
    and "\<forall>x \<in> set es. plain_event (snd x)" "\<exists>x \<in> set es. shows_frame x"
  shows "\<exists>h'. app_pty (ui_app (run_loop c es rt)) = Some h' \<and> lifecycle (ui_app (run_loop c es rt)) = Ready
    \<and> ph_written h' = ph_written h @ without_hotkeys (concat early @ concat (map (typed_bytes \<circ> snd) es))"
proof -
  have "accepts (ph_written h @ without_hotkeys (concat early)) (ui_app rt)"
    using assms(1-3) by (simp add: accepts_def pty_tests)
  from accepts_run[OF this assms(4-6), where c = c] assms(7)
  have acc: "accepts (ph_written h @ without_hotkeys (concat early @ concat (map (typed_bytes \<circ> snd) es))) (ui_app (run_loop c es rt))"
    "pty_ready (lifecycle (ui_app (run_loop c es rt)))" by auto
  then show ?thesis
    by (cases "lifecycle (ui_app (run_loop c es rt))") (auto simp: accepts_def pty_tests without_hotkeys_def)
qed

definition open_handle :: "pty_handle" where
  "open_handle = \<lparr>ph_written = [], ph_open = True, ph_broken = False, ph_scrollback = 0, ph_size = None\<rparr>"

definition attached_runtime :: "unit runtime" where
  "attached_runtime = fresh_runtime (attach_pty open_handle (app_new 0 ModeClaude default_config))"

theorem typed_input_delivered_witness:
  "\<exists>h. app_pty (ui_app (run_loop demo_conf [(quiet_env, EvKey \<lparr>raw = [0x68], kind = KeyChar 104\<rparr>), (quiet_env, EvPtyOutput),
      (quiet_env, EvKey \<lparr>raw = [0x13], kind = KeyControl 115\<rparr>), (quiet_env, EvKey \<lparr>raw = [0x69], kind = KeyChar 105\<rparr>)]
      attached_runtime)) = Some h \<and> ph_written h = [0x68, 0x69]"
proof -
  have a: "app_pty (ui_app attached_runtime) = Some open_handle" "writable open_handle"
    "lifecycle (ui_app attached_runtime) = Attached []" "app_focus (ui_app attached_runtime) = FocusTerminal"
    "\<not> should_quit (ui_app attached_runtime)"
    by (simp_all add: attached_runtime_def fresh_runtime_def attach_pty_def dispatch_pty_def app_new_def Let_def
        lifecycle_def dispatch_def store_new_def handle_pty_def writable_def open_handle_def)
  show ?thesis
    using typed_input_delivered[OF a, of "[(quiet_env, EvKey \<lparr>raw = [0x68], kind = KeyChar 104\<rparr>), (quiet_env, EvPtyOutput),
      (quiet_env, EvKey \<lparr>raw = [0x13], kind = KeyControl 115\<rparr>), (quiet_env, EvKey \<lparr>raw = [0x69], kind = KeyChar 105\<rparr>)]" demo_conf]
    by (auto simp: shows_frame_def quiet_env_def without_hotkeys_def is_wrapper_hotkey_def open_handle_def)
qed

section \<open>Restarts that do not come\<close>

definition blocked :: "'w app \<Rightarrow> bool" where
  "blocked a \<longleftrightarrow> pty_restarting (lifecycle a) \<or> (\<exists>b. lifecycle a = Pending b)"

lemma blocked_view: "io_view a = io_view b \<Longrightarrow> blocked a = blocked b"
  by (simp add: blocked_def io_view_def)

lemma written_view: "io_view a = io_view b \<Longrightarrow> map_option ph_written (app_pty a) = map_option ph_written (app_pty b)"
  by (cases "app_pty a"; cases "app_pty b") (auto simp: io_view_def)

lemma lifecycle_view: "io_view a = io_view b \<Longrightarrow> lifecycle a = lifecycle b"
  by (simp add: io_view_def)

lemma blocked_output:
  "blocked a \<Longrightarrow> lifecycle (snd (on_pty_output v r a)) = lifecycle a \<and> app_pty (snd (on_pty_output v r a)) = app_pty a"
  by (cases "lifecycle a"; cases "app_pty a")
    (auto simp: on_pty_output_def blocked_def lifecycle_def pty_tests dispatch_collect_def handle_pty_def flush_effects_def Let_def)

lemma blocked_send: "blocked a \<Longrightarrow> blocked (send_input x a)
    \<and> pty_restarting (lifecycle (send_input x a)) = pty_restarting (lifecycle a) \<and> app_pty (send_input x a) = app_pty a"
  by (cases "lifecycle a")
    (auto simp: blocked_def send_input_def lifecycle_def pty_tests dispatch_pty_def dispatch_def handle_pty_def)

lemma blocked_event:
  fixes rt :: "'w runtime"
  assumes "blocked (ui_app rt)" "plain_event ev" "app_focus (ui_app rt) = FocusTerminal"
  shows "blocked (ui_app (handle_event c env ev rt))
    \<and> pty_restarting (lifecycle (ui_app (handle_event c env ev rt))) = pty_restarting (lifecycle (ui_app rt))
    \<and> map_option ph_written (app_pty (ui_app (handle_event c env ev rt))) = map_option ph_written (app_pty (ui_app rt))"
proof (cases "ev = EvPtyOutput")
  case True
  then have "ui_app (handle_event c env ev rt) = snd (on_pty_output (le_cursor_visible env) (le_cursor_row env) (ui_app rt))"
    by (simp add: handle_event_def split: prod.splits)
  then show ?thesis using blocked_output[OF assms(1)] assms(1) by (simp add: blocked_def)
next
  case False
  from plain_event_io[OF assms(2,3) False, where c = c and env = env] obtain b :: "'w app" where b:
    "io_view b = io_view (ui_app rt)"
    "io_view (ui_app (handle_event c env ev rt)) = io_view b
     \<or> io_view (ui_app (handle_event c env ev rt)) = io_view (send_input (typed_bytes ev) b)"
    by (metis (full_types))
  have bb: "blocked b" using assms(1) blocked_view[OF b(1)] by simp
  from b(2) show ?thesis
  proof
    assume v: "io_view (ui_app (handle_event c env ev rt)) = io_view b"
    show ?thesis
      using bb blocked_view[OF v] lifecycle_view[OF v] written_view[OF v] lifecycle_view[OF b(1)] written_view[OF b(1)] by simp
  next
    assume v: "io_view (ui_app (handle_event c env ev rt)) = io_view (send_input (typed_bytes ev) b)"
    show ?thesis
      using blocked_send[OF bb, of "typed_bytes ev"] blocked_view[OF v] lifecycle_view[OF v] written_view[OF v]
        lifecycle_view[OF b(1)] written_view[OF b(1)] by simp
  qed
qed

lemma blocked_run:
  "blocked (ui_app rt) \<Longrightarrow> app_focus (ui_app rt) = FocusTerminal \<Longrightarrow> \<forall>x \<in> set es. plain_event (snd x) \<Longrightarrow>
   blocked (ui_app (run_loop c es rt))
   \<and> pty_restarting (lifecycle (ui_app (run_loop c es rt))) = pty_restarting (lifecycle (ui_app rt))
   \<and> map_option ph_written (app_pty (ui_app (run_loop c es rt))) = map_option ph_written (app_pty (ui_app rt))"
proof (induction es arbitrary: rt)
  case Nil
  then show ?case by simp
next
  case (Cons x es)
  obtain env ev where x: "x = (env, ev)" by (cases x)
  have p: "plain_event ev" using Cons.prems(3) x by simp
  note ev = blocked_event[OF Cons.prems(1) p Cons.prems(2), where c = c and env = env]
  have "app_focus (ui_app (handle_event c env ev rt)) = FocusTerminal" by (rule plain_event_keeps(1)[OF p Cons.prems(2)])
  from Cons.IH[OF _ this] ev show ?case using Cons.prems by (simp add: x)
qed

text \<open>Ctrl+R when the command cannot be sent: the life cycle goes back to waiting for a process that is already
  running, and since only attaching a new process leaves that state, nothing typed reaches the child again
  whatever it outputs.\<close>

theorem failed_restart_wedges_input:
  fixes rt :: "'w runtime"
  assumes "lifecycle (ui_app rt) = Ready" "app_pty (ui_app rt) = Some h" "app_focus (ui_app rt) = FocusTerminal"
    and "ipc_sender (ui_app rt) = Some ch" "ch_closed ch \<or> ch_capacity ch \<le> length (ch_queue ch)"
    and "kind key = KeyControl 114" "\<forall>x \<in> set es. plain_event (snd x)" "\<not> should_quit (ui_app rt)"
  shows "\<exists>h'. app_pty (ui_app (run_loop c ((env, EvKey key) # es) rt)) = Some h' \<and> ph_written h' = ph_written h"
proof -
  let ?b = "clear_selection (app_reset_scrollback (le_scroll env) (ui_app rt))"
  have v: "io_view ?b = io_view (ui_app rt)" by simp
  obtain h1 where b: "lifecycle ?b = Ready" "app_focus ?b = FocusTerminal" "ipc_sender ?b = Some ch"
    "app_pty ?b = Some h1" "ph_written h1 = ph_written h"
    using assms(1-4)
    by (auto simp: clear_selection_def app_reset_scrollback_def on_pty_def lifecycle_def pty_reset_scrollback_def)
  have "classify_key (le_world env) key ?b = (ActNone, request_restart_claude ?b)"
    using b(2) assms(6) by (simp add: classify_key_def show_popup_def)
  then have e: "ui_app (handle_event c env (EvKey key) rt) = request_restart_claude ?b"
    by (simp add: handle_event_def on_app_def handle_key_def)
  have r: "lifecycle (request_restart_claude ?b) = Pending []" "app_pty (request_restart_claude ?b) = Some h1"
    "app_focus (request_restart_claude ?b) = FocusTerminal"
    using b assms(5) by (auto simp: request_restart_claude_def send_command_def try_send_def dispatch_pty_def dispatch_def
        handle_pty_def lifecycle_def)
  have "blocked (ui_app (handle_event c env (EvKey key) rt))" by (simp add: e blocked_def r(1))
  from blocked_run[OF this _ assms(7), of c] r assms(8) b(5) show ?thesis by (auto simp: e)
qed

definition full_channel :: ui_channel where
  "full_channel = \<lparr>ch_queue = replicate 32 UiRefreshStatus, ch_capacity = 32, ch_closed = False, ch_error = (\<lambda>b. ''full'')\<rparr>"

theorem failed_restart_wedges_input_witness:
  "\<exists>h. app_pty (ui_app (run_loop demo_conf [(quiet_env, EvKey (ctrl_key 114)), (quiet_env, EvPtyOutput),
      (quiet_env, EvKey \<lparr>raw = [0x68], kind = KeyChar 104\<rparr>)]
      (on_app (\<lambda>a. a\<lparr>pty_store := store_new Ready, ipc_sender := Some full_channel\<rparr>) attached_runtime))) = Some h
    \<and> ph_written h = []"
proof -
  let ?rt = "on_app (\<lambda>a. a\<lparr>pty_store := store_new Ready, ipc_sender := Some full_channel\<rparr>) attached_runtime"
  have a: "lifecycle (ui_app ?rt) = Ready" "app_pty (ui_app ?rt) = Some open_handle" "app_focus (ui_app ?rt) = FocusTerminal"
    "ipc_sender (ui_app ?rt) = Some full_channel"
    "ch_closed full_channel \<or> ch_capacity full_channel \<le> length (ch_queue full_channel)"
    "kind (ctrl_key 114) = KeyControl 114" "\<not> should_quit (ui_app ?rt)"
    by (simp_all add: attached_runtime_def fresh_runtime_def attach_pty_def dispatch_pty_def app_new_def Let_def on_app_def
        lifecycle_def store_new_def ctrl_key_def full_channel_def)
  show ?thesis
    using failed_restart_wedges_input[OF a(1-6) _ a(7), of "[(quiet_env, EvPtyOutput), (quiet_env, EvKey \<lparr>raw = [0x68], kind = KeyChar 104\<rparr>)]" demo_conf quiet_env]
    by (auto simp: open_handle_def)
qed

text \<open>Applying settings puts the life cycle into the restarting state before the bridge saves them.  When the
  save fails the bridge only reports it: no restart follows, and everything typed after that is dropped
  although the old child is still there.\<close>

theorem failed_save_drops_input:
  fixes rt :: "'w runtime"
  assumes "save settings_toml = Some e" "lifecycle (ui_app rt) = Restarting" "app_pty (ui_app rt) = Some h"
    and "app_focus (ui_app rt) = FocusTerminal" "\<forall>x \<in> set es. plain_event (snd x)"
  shows "\<exists>h'. app_pty (ui_app (run_loop c (map (Pair env) (fst (run_ui_bridge save store l now
      (UiRestartPty env_vars cli_args settings_toml) s)) @ es) rt)) = Some h' \<and> ph_written h' = ph_written h
    \<and> lifecycle (ui_app (run_loop c (map (Pair env) (fst (run_ui_bridge save store l now
      (UiRestartPty env_vars cli_args settings_toml) s)) @ es) rt)) = Restarting"
proof -
  have "\<forall>x \<in> set (map (Pair env) (fst (run_ui_bridge save store l now (UiRestartPty env_vars cli_args settings_toml) s)) @ es).
      plain_event (snd x)"
    using assms(1,5) by (auto simp: run_ui_bridge_def)
  from blocked_run[OF _ assms(4) this, of c] assms(2,3) show ?thesis
    by (auto simp: blocked_def pty_tests split: pty_state.splits)
qed

theorem failed_save_drops_input_witness:
  "lifecycle (ui_app (run_loop demo_conf (map (Pair quiet_env) (fst (run_ui_bridge (\<lambda>t. Some ''disk full'') default_config (\<lambda>k. Served) 0
      (UiRestartPty [] [] []) demo_ipc)) @ [(quiet_env, EvKey \<lparr>raw = [0x68], kind = KeyChar 104\<rparr>)])
      (on_app (\<lambda>a. a\<lparr>pty_store := store_new Restarting\<rparr>) attached_runtime))) = Restarting"
proof -
  let ?rt = "on_app (\<lambda>a. a\<lparr>pty_store := store_new Restarting\<rparr>) attached_runtime"
  have a: "lifecycle (ui_app ?rt) = Restarting" "app_pty (ui_app ?rt) = Some open_handle" "app_focus (ui_app ?rt) = FocusTerminal"
    by (simp_all add: attached_runtime_def fresh_runtime_def attach_pty_def dispatch_pty_def app_new_def Let_def on_app_def
        lifecycle_def store_new_def)
  show ?thesis
    using failed_save_drops_input[OF _ a, of "\<lambda>t. Some ''disk full''" "[]" "''disk full''"
        "[(quiet_env, EvKey \<lparr>raw = [0x68], kind = KeyChar 104\<rparr>)]" demo_conf quiet_env default_config "\<lambda>k. Served" 0 "[]" "[]" demo_ipc]
    by auto
qed

section \<open>Exits during a restart\<close>

lemma resize_keeps:
  "lifecycle (resize_to_screen sz a) = lifecycle a" "pty_generation (resize_to_screen sz a) = pty_generation a"
  "should_quit (resize_to_screen sz a) = should_quit a"
  by (simp_all add: resize_to_screen_def on_resize_def on_pty_def lifecycle_def split: option.splits prod.splits)

lemma respawn_ok:
  assumes "le_spawn env p = Inr h"
  shows "lifecycle (ui_app (respawn_pty env p rt)) = Attached []"
    "pty_generation (ui_app (respawn_pty env p rt)) = pty_generation (ui_app rt) + 1"
    "should_quit (ui_app (respawn_pty env p rt)) = should_quit (ui_app rt)"
    "spawned (respawn_pty env p rt) = spawned rt @ [p]" "can_retry (respawn_pty env p rt) = can_retry rt"
  using assms
  by (simp_all add: respawn_pty_def Let_def resize_keeps)
    (simp_all add: attach_pty_def detach_pty_def next_pty_generation_def dispatch_pty_def lifecycle_def dispatch_def
      handle_pty_def Let_def)

lemma restart_claude_ok:
  assumes "\<And>p. le_spawn env p = Inr h"
  shows "lifecycle (ui_app (handle_event c env EvRestartClaude rt)) = Attached []"
    "pty_generation (ui_app (handle_event c env EvRestartClaude rt)) = pty_generation (ui_app rt) + 1"
    "should_quit (ui_app (handle_event c env EvRestartClaude rt)) = should_quit (ui_app rt)"
    "length (spawned (handle_event c env EvRestartClaude rt)) = length (spawned rt) + 1"
    "can_retry (handle_event c env EvRestartClaude rt)"
  using respawn_ok[OF assms]
  by (simp_all add: handle_event_def handle_restart_claude_def Let_def forget_failed_retry_def pty_tests)

text \<open>A restart arms a retry: if the resumed child exits before it is ready, a fresh one is spawned.  But the
  restart has killed the old child, whose exit is reported first; that stale report disarms the retry
  before it is recognised as stale, and the failed resume is then an error with no child left.\<close>

theorem stale_exit_disarms_retry:
  fixes rt :: "'w runtime"
  assumes "\<forall>p. le_spawn e1 p = Inr h" "g = pty_generation (ui_app rt)" "g + 1 \<noteq> 0" "\<not> should_quit (ui_app rt)"
  shows "length (spawned (run_loop c [(e1, EvRestartClaude), (e3, EvProcessExit (g + 1))] rt)) = length (spawned rt) + 2
    \<and> length (spawned (run_loop c [(e1, EvRestartClaude), (e2, EvProcessExit g), (e3, EvProcessExit (g + 1))] rt))
        = length (spawned rt) + 1"
proof -
  let ?r = "handle_event c e1 EvRestartClaude rt"
  have r: "lifecycle (ui_app ?r) = Attached []" "pty_generation (ui_app ?r) = g + 1" "\<not> should_quit (ui_app ?r)"
    "length (spawned ?r) = length (spawned rt) + 1" "can_retry ?r"
    using restart_claude_ok[of e1 h c rt] assms by simp_all
  have h: "has_restarted (ui_app ?r)" using r(2) assms(3) by (simp add: has_restarted_def word_gt_0)
  have g: "g \<noteq> g + 1" by simp
  have now: "length (spawned (handle_event c e3 (EvProcessExit (g + 1)) ?r)) = length (spawned rt) + 2"
    using r h by (simp add: handle_event_def handle_process_exit_def Let_def pty_tests respawn_pty_def)
  have s: "handle_event c e2 (EvProcessExit g) ?r = ?r\<lparr>can_retry := False\<rparr>"
    using r(2) g by (simp add: handle_event_def handle_process_exit_def Let_def)
  have late: "spawned (handle_event c e3 (EvProcessExit (g + 1)) (?r\<lparr>can_retry := False\<rparr>)) = spawned ?r"
    using r h by (simp add: handle_event_def handle_process_exit_def Let_def pty_tests on_app_def)
  show ?thesis using assms(4) r(3,4) now late by (simp add: s)
qed

theorem stale_exit_disarms_retry_witness:
  "length (spawned (run_loop demo_conf [(quiet_env\<lparr>le_spawn := \<lambda>p. Inr open_handle\<rparr>, EvRestartClaude), (quiet_env, EvProcessExit 0),
      (quiet_env, EvProcessExit 1)] attached_runtime)) = 1"
proof -
  have a: "pty_generation (ui_app attached_runtime) = 0" "\<not> should_quit (ui_app attached_runtime)" "spawned attached_runtime = []"
    by (simp_all add: attached_runtime_def fresh_runtime_def attach_pty_def dispatch_pty_def app_new_def Let_def)
  show ?thesis
    using stale_exit_disarms_retry[of "quiet_env\<lparr>le_spawn := \<lambda>p. Inr open_handle\<rparr>" open_handle 0 attached_runtime demo_conf quiet_env quiet_env]
    by (simp only: a) simp
qed

section \<open>Choosing a backend\<close>

lemma bridge_switch_served:
  assumes "has_backend b (cfg (is_backend s))"
  obtains s1 where "run_ui_bridge save conf (\<lambda>k. Served) now (UiSwitchBackend b) s
      = ([EvIpcStatus (fst (ipc_status now s1)), EvIpcBackends (fst (ipc_list s1))], s1)"
    "active_backend (is_backend s1) = b" "cfg (is_backend s1) = cfg (is_backend s)" "current_backend (is_registry s1) = b"
proof -
  obtain s1 where s1: "ipc_switch now b s = (Inr b, s1)" "active_backend (is_backend s1) = b"
    "cfg (is_backend s1) = cfg (is_backend s)" "current_backend (is_registry s1) = b"
    using assms by (rule ipc_switch_known[where now = now])
  have "run_ui_bridge save conf (\<lambda>k. Served) now (UiSwitchBackend b) s
      = ([EvIpcStatus (fst (ipc_status now s1)), EvIpcBackends (fst (ipc_list s1))], s1)"
    by (simp add: run_ui_bridge_def client_switch_backend_def client_get_status_def client_list_backends_def refresh_both_def
        ipc_call_def[of Served "ipc_switch now b"] s1(1) status_query.call_served list_query.call_served)
  then show ?thesis using that s1 by blast
qed

text \<open>One round: a key, the command it queued through the bridge, and the bridge's events.\<close>

definition key_round ::
  "loop_conf \<Rightarrow> 'w loop_env \<Rightarrow> config \<Rightarrow> nat \<Rightarrow> key_input \<Rightarrow> 'w runtime \<times> 'q ipc_state \<Rightarrow> 'w runtime \<times> 'q ipc_state" where
  "key_round c env conf now key = (\<lambda>(rt, s).
     let rt1 = handle_event c env (EvKey key) rt
     in case ipc_sender (ui_app rt1) of
          Some ch \<Rightarrow>
            (case ch_queue ch of
               [] \<Rightarrow> (rt1, s)
             | cmd # rest \<Rightarrow>
                 (case run_ui_bridge (\<lambda>t. None) conf (\<lambda>k. Served) now cmd s of
                    (evs, s') \<Rightarrow>
                      (run_loop c (map (Pair env) evs)
                         (on_app (\<lambda>a. a\<lparr>ipc_sender := Some (ch\<lparr>ch_queue := rest\<rparr>)\<rparr>) rt1), s')))
        | None \<Rightarrow> (rt1, s))"

text \<open>C16: enter on a backend of the dialog makes it the active one everywhere: the proxy routes to it, its
  thinking session is the current one, the header names it, the listing marks it and nothing else, and
  the dialog is closed.\<close>

theorem chosen_backend_becomes_active:
  fixes rt :: "'w runtime" and s :: "'q ipc_state"
  assumes "app_focus (ui_app rt) = FocusPopup PopBackendSwitch" "kind key = KeyEnter"
    and "store_state (switch_store (ui_app rt)) = SwVisible SecActive k su t n"
    and "app_backends (ui_app rt) = fst (ipc_list s)" "k < length (backends (cfg (is_backend s)))"
    and "b = name (backends (cfg (is_backend s)) ! k)" "b \<noteq> active_backend (is_backend s)"
    and "ipc_sender (ui_app rt) = Some ch" "ch_queue ch = []" "\<not> ch_closed ch" "0 < ch_capacity ch"
    and "\<not> should_quit (ui_app rt)" "key_round c env conf now key (rt, s) = (rt', s')"
  shows "active_backend (is_backend s') = b \<and> current_backend (is_registry s') = b
    \<and> map_option ps_active_backend (app_status (ui_app rt')) = Some b
    \<and> map bi_id (filter bi_is_active (app_backends (ui_app rt'))) = filter (\<lambda>n. n = b) (map name (backends (cfg (is_backend s))))
    \<and> app_focus (ui_app rt') = FocusTerminal"
proof -
  let ?a0 = "clear_selection (app_reset_scrollback (le_scroll env) (ui_app rt))"
  let ?ch = "ch\<lparr>ch_queue := [UiSwitchBackend b]\<rparr>"
  let ?a1 = "close_backend_switch_dialog (?a0\<lparr>ipc_sender := Some ?ch, last_ipc_error := None\<rparr>)"
  have nb: "nth_backend ?a0 k = Some (backend_info_of (active_backend (is_backend s)) (backends (cfg (is_backend s)) ! k))"
    using assms(4,5) by (simp add: nth_backend_def clear_selection_def app_reset_scrollback_def on_pty_def ipc_list_def)
  have a0: "app_focus ?a0 = FocusPopup PopBackendSwitch" "store_state (switch_store ?a0) = SwVisible SecActive k su t n"
    "ipc_sender ?a0 = Some ch" "should_quit ?a0 = should_quit (ui_app rt)"
    using assms(1,3,8) by (simp_all add: clear_selection_def app_reset_scrollback_def on_pty_def)
  have "send_command (UiSwitchBackend b) ?a0 = (True, ?a0\<lparr>ipc_sender := Some ?ch, last_ipc_error := None\<rparr>)"
    using a0(3) assms(9-11) by (simp add: send_command_def try_send_def)
  then have "confirm_active_backend k ?a0 = (True, ?a1)"
    using nb assms(6,7) by (simp add: confirm_active_backend_def request_switch_backend_by_index_def backend_info_of_def)
  then have "classify_key (le_world env) key ?a0 = (ActNone, ?a1)"
    using a0(1,2) assms(2)
    by (simp add: classify_key_def show_popup_def handle_popup_key_def popup_of_def handle_backend_switch_key_def handle_backend_confirm_def)
  then have e: "handle_event c env (EvKey key) rt = rt\<lparr>ui_app := ?a1\<rparr>"
    by (simp add: handle_event_def on_app_def handle_key_def)
  have a1: "ipc_sender ?a1 = Some ?ch" "app_focus ?a1 = FocusTerminal" "\<not> should_quit ?a1"
    using a0(4) assms(12) by (simp_all add: close_backend_switch_dialog_def dispatch_switch_def)
  have hb: "has_backend b (cfg (is_backend s))" using assms(5,6) by (auto simp: has_backend_def)
  obtain s1 where br: "run_ui_bridge (\<lambda>t. None) conf (\<lambda>k. Served) now (UiSwitchBackend b) s
      = ([EvIpcStatus (fst (ipc_status now s1)), EvIpcBackends (fst (ipc_list s1))], s1)"
    and s1: "active_backend (is_backend s1) = b" "cfg (is_backend s1) = cfg (is_backend s)" "current_backend (is_registry s1) = b"
    using hb by (rule bridge_switch_served[where save = "\<lambda>t. None" and conf = conf and now = now])
  have res: "rt' = run_loop c (map (Pair env) [EvIpcStatus (fst (ipc_status now s1)), EvIpcBackends (fst (ipc_list s1))])
      (on_app (\<lambda>a. a\<lparr>ipc_sender := Some (ch\<lparr>ch_queue := []\<rparr>)\<rparr>) (rt\<lparr>ui_app := ?a1\<rparr>))" "s' = s1"
    using assms(13) by (auto simp: key_round_def e a1(1) br Let_def simp del: run_loop.simps)
  show ?thesis
    using s1(1,3) a1(2,3) ipc_list_active[of s1] unfolding res
    by (simp add: on_app_def handle_event_def s1(2)) (simp add: ipc_status_def get_active_backend_def)
qed

definition demo_choice :: "unit runtime" where
  "demo_choice = fresh_runtime ((app_new 0 ModeClaude default_config)\<lparr>app_focus := FocusPopup PopBackendSwitch,
     switch_store := store_new (SwVisible SecActive 1 0 0 2), app_backends := fst (ipc_list demo_ipc),
     ipc_sender := Some \<lparr>ch_queue = [], ch_capacity = 32, ch_closed = False, ch_error = (\<lambda>b. ''full'')\<rparr>\<rparr>)"

theorem chosen_backend_becomes_active_witness:
  "active_backend (is_backend (snd (key_round demo_conf quiet_env default_config 1 \<lparr>raw = [0x0D], kind = KeyEnter\<rparr> (demo_choice, demo_ipc)))) = ''other''"
proof -
  obtain rt' s' where r: "key_round demo_conf quiet_env default_config 1 \<lparr>raw = [0x0D], kind = KeyEnter\<rparr> (demo_choice, demo_ipc) = (rt', s')"
    by fastforce
  have a: "app_focus (ui_app demo_choice) = FocusPopup PopBackendSwitch" "kind \<lparr>raw = [0x0D], kind = KeyEnter\<rparr> = KeyEnter"
    "store_state (switch_store (ui_app demo_choice)) = SwVisible SecActive 1 0 0 2"
    "app_backends (ui_app demo_choice) = fst (ipc_list demo_ipc)" "1 < length (backends (cfg (is_backend demo_ipc)))"
    "''other'' = name (backends (cfg (is_backend demo_ipc)) ! 1)" "''other'' \<noteq> active_backend (is_backend demo_ipc)"
    "ipc_sender (ui_app demo_choice) = Some \<lparr>ch_queue = [], ch_capacity = 32, ch_closed = False, ch_error = (\<lambda>b. ''full'')\<rparr>"
    "\<not> should_quit (ui_app demo_choice)"
    by (simp_all add: demo_choice_def fresh_runtime_def store_new_def demo_ipc_def demo_backends_def app_new_def Let_def)
  from chosen_backend_becomes_active[OF a(1-8) _ _ _ a(9) r] show ?thesis unfolding r by simp
qed

end
