(* ===== verification/Headers.thy ===== *)
theory Headers
  imports Credentials
begin

text \<open>
  The request headers sent upstream (\<open>src/proxy/pipeline/headers.rs\<close>).  An incoming header is its name,
  which the \<open>http\<close> crate keeps in lower case, and the result of \<open>to_str\<close> on its value
  (\<open>None\<close> for a value that is not visible ASCII).
\<close>

type_synonym in_headers = "(string \<times> string option) list"
type_synonym out_headers = "(string \<times> string) list"

definition eq_ignore_case :: "string \<Rightarrow> string \<Rightarrow> bool" where
  "eq_ignore_case a b \<longleftrightarrow> map ascii_lower a = map ascii_lower b"

definition beta_parts :: "string \<Rightarrow> string list" where
  "beta_parts value = map str_trim (split_on (\<lambda>c. c = CHR '','') value)"

definition is_adaptive_flag :: "string \<Rightarrow> bool" where
  "is_adaptive_flag p = str_starts ''adaptive-thinking-'' p"

definition is_interleaved_flag :: "string \<Rightarrow> bool" where
  "is_interleaved_flag p = str_starts ''interleaved-thinking-'' p"

definition strip_thinking_from_beta_header :: "string \<Rightarrow> string" where
  "strip_thinking_from_beta_header value =
     str_join '','' (filter (\<lambda>p. \<not> is_adaptive_flag p \<and> \<not> is_interleaved_flag p) (beta_parts value))"

definition patched_parts :: "string \<Rightarrow> string list" where
  "patched_parts value =
     (let parts = filter (\<lambda>p. \<not> is_adaptive_flag p) (beta_parts value)
      in if \<exists>p \<in> set parts. is_interleaved_flag p then parts
         else parts @ [''interleaved-thinking-2025-05-14''])"

definition patch_anthropic_beta_header :: "string \<Rightarrow> string" where
  "patch_anthropic_beta_header value = str_join '','' (patched_parts value)"

text \<open>One turn of the loop: what one incoming header contributes.\<close>

definition forward_header :: "backend \<Rightarrow> bool \<Rightarrow> string \<times> string option \<Rightarrow> out_headers" where
  "forward_header b thinking_active = (\<lambda>(n, value).
     if n = ''host'' \<or> n = ''content-length'' then []
     else if uses_own_credentials (auth_type_of b) \<and> (n = ''authorization'' \<or> eq_ignore_case n ''x-api-key'') then []
     else (case value of
        None \<Rightarrow> []
      | Some val \<Rightarrow>
          if needs_thinking_compat b \<and> eq_ignore_case n ''anthropic-beta'' then
            (let patched = (if thinking_active then patch_anthropic_beta_header val
                            else strip_thinking_from_beta_header val)
             in if patched \<noteq> [] then [(n, patched)] else [])
          else [(n, val)]))"

definition build_headers :: "in_headers \<Rightarrow> backend \<Rightarrow> bool \<Rightarrow> out_headers" where
  "build_headers incoming b thinking_active =
     concat (map (forward_header b thinking_active) incoming)
     @ (case build_auth_header b of Some h \<Rightarrow> [h] | None \<Rightarrow> [])"

section \<open>Properties\<close>

definition is_auth_name :: "string \<Rightarrow> bool" where
  "is_auth_name n \<longleftrightarrow> eq_ignore_case n ''authorization'' \<or> eq_ignore_case n ''x-api-key''"

text \<open>The \<open>http\<close> crate's normal form of a header name.\<close>

definition lower_name :: "string \<Rightarrow> bool" where
  "lower_name n \<longleftrightarrow> map ascii_lower n = n"

lemma eq_ignore_lower: "lower_name n \<Longrightarrow> lower_name m \<Longrightarrow> eq_ignore_case n m \<longleftrightarrow> n = m"
  by (simp add: lower_name_def eq_ignore_case_def)

lemma lower_literals [simp]:
  "lower_name ''authorization''" "lower_name ''x-api-key''" "lower_name ''host''" "lower_name ''content-length''"
  "lower_name ''anthropic-beta''"
  by (simp_all add: lower_name_def ascii_lower_def)

lemma forward_header_name: "(m, v) \<in> set (forward_header b ta h) \<Longrightarrow> m = fst h"
  by (cases h) (auto simp: forward_header_def Let_def split: if_splits option.splits)

lemma forward_no_auth:
  assumes "uses_own_credentials (auth_type_of b)" "lower_name (fst h)" "(m, v) \<in> set (forward_header b ta h)"
  shows "\<not> is_auth_name m"
proof -
  obtain n val where h: "h = (n, val)" by (cases h)
  have m: "m = n" using forward_header_name[OF assms(3)] h by simp
  have "n \<noteq> ''authorization''" "\<not> eq_ignore_case n ''x-api-key''"
    using assms(1,3) h by (auto simp: forward_header_def split: if_splits)
  then show ?thesis using m assms(2) h by (simp add: is_auth_name_def eq_ignore_lower)
qed

text \<open>No credential of the client reaches a backend that has its own: whatever headers come in, the
  headers sent hold exactly one authentication header, the backend's.\<close>

theorem own_credentials_only:
  assumes "uses_own_credentials (auth_type_of b)" "is_configured b" "\<forall>h \<in> set incoming. lower_name (fst h)"
  shows "\<exists>a. build_auth_header b = Some a \<and>
             filter (\<lambda>h. is_auth_name (fst h)) (build_headers incoming b ta) = [a]"
proof -
  obtain a where a: "build_auth_header b = Some a" using own_credentials_configured_header assms(1,2) by blast
  have "is_auth_name ''Authorization''" "is_auth_name ''x-api-key''" by code_simp+
  then have "is_auth_name (fst a)"
    using a by (auto simp: build_auth_header_def split: auth_type.splits credential_status.splits)
  moreover have "filter (\<lambda>h. is_auth_name (fst h)) (concat (map (forward_header b ta) incoming)) = []"
    using forward_no_auth[OF assms(1)] assms(3) by (fastforce simp: filter_empty_conv)
  ultimately show ?thesis using a by (simp add: build_headers_def)
qed

definition key_backend :: backend where
  "key_backend = default_backend\<lparr>auth_type_str := ''API_KEY'', api_key := Some ''k'', base_url := ''https://x.test''\<rparr>"

theorem own_credentials_only_witness:
  "filter (\<lambda>h. is_auth_name (fst h))
     (build_headers [(''authorization'', Some ''Bearer secret''), (''accept'', Some ''*''), (''x-api-key'', Some ''old'')] key_backend True)
   = [(''x-api-key'', ''k'')]"
proof -
  let ?in = "[(''authorization'', Some ''Bearer secret''), (''accept'', Some ''*''), (''x-api-key'', Some ''old'')]"
  have "uses_own_credentials (auth_type_of key_backend)" "is_configured key_backend"
    "build_auth_header key_backend = Some (''x-api-key'', ''k'')" by code_simp+
  moreover have "\<forall>h \<in> set ?in. lower_name (fst h)" by (simp add: lower_name_def ascii_lower_def)
  ultimately show ?thesis using own_credentials_only[of key_backend ?in True] by simp
qed

definition plain_header :: "string \<times> string option \<Rightarrow> (string \<times> string) option" where
  "plain_header = (\<lambda>(n, v). if n = ''host'' \<or> n = ''content-length'' then None else map_option (Pair n) v)"

lemma forward_header_plain:
  assumes "\<not> uses_own_credentials (auth_type_of b)" "\<not> needs_thinking_compat b"
  shows "forward_header b ta h = (case plain_header h of None \<Rightarrow> [] | Some x \<Rightarrow> [x])"
  using assms by (cases h; cases "snd h") (auto simp: forward_header_def plain_header_def)

text \<open>A passthrough backend that needs no conversion gets the client's headers as they are, in order
  and with repetitions, without \<open>Host\<close> and \<open>Content-Length\<close> (and values that are not text).\<close>

theorem passthrough_headers:
  assumes "\<not> uses_own_credentials (auth_type_of b)" "\<not> needs_thinking_compat b"
  shows "build_headers incoming b ta =
     List.map_filter plain_header incoming"
proof -
  have "concat (map (forward_header b ta) incoming) = List.map_filter plain_header incoming"
    by (induction incoming) (simp_all add: forward_header_plain[OF assms] map_filter_simps split: option.splits)
  then show ?thesis using passthrough_no_header[OF assms(1)] by (simp add: build_headers_def)
qed

theorem passthrough_headers_witness:
  "build_headers [(''host'', Some ''h''), (''accept'', Some ''*''), (''authorization'', Some ''t'')] default_backend True
     = [(''accept'', ''*''), (''authorization'', ''t'')]"
proof -
  have "\<not> uses_own_credentials (auth_type_of default_backend)" "\<not> needs_thinking_compat default_backend"
    by code_simp+
  then show ?thesis by (simp add: passthrough_headers map_filter_simps plain_header_def)
qed

lemma never_host: "(m, v) \<in> set (build_headers incoming b ta) \<Longrightarrow> m \<noteq> ''host'' \<and> m \<noteq> ''content-length''"
  by (auto simp: build_headers_def forward_header_def build_auth_header_def Let_def
      split: if_splits option.splits auth_type.splits credential_status.splits)

text \<open>The flags of a joined header are the parts it was joined from.\<close>

lemma trim_no_comma: "CHR '','' \<notin> set s \<Longrightarrow> CHR '','' \<notin> set (str_trim s)"
proof -
  assume a: "CHR '','' \<notin> set s"
  obtain p where p: "s = p @ trim_start s" using trim_start_suffix by blast
  obtain q where q: "trim_start s = trim_end (trim_start s) @ q" using trim_end_prefix by blast
  have "set (str_trim s) \<subseteq> set s" using p q unfolding str_trim_def by (metis Un_upper1 Un_upper2 order.trans set_append)
  then show ?thesis using a by blast
qed

lemma beta_parts_no_comma: "p \<in> set (beta_parts v) \<Longrightarrow> CHR '','' \<notin> set p"
  using split_on_parts[of _ "\<lambda>c. c = CHR '',''" v] trim_no_comma by (fastforce simp: beta_parts_def)

lemma split_join_comma:
  "ps \<noteq> [] \<Longrightarrow> \<forall>p \<in> set ps. CHR '','' \<notin> set p \<Longrightarrow> split_on (\<lambda>c. c = CHR '','') (str_join '','' ps) = ps"
proof (induction ps)
  case (Cons p ps)
  show ?case
  proof (cases "ps = []")
    case True
    then show ?thesis using Cons.prems split_on_no_sep[of p "\<lambda>c. c = CHR '',''"] by auto
  next
    case False
    have "\<forall>x \<in> set p. x \<noteq> CHR '',''" using Cons.prems by auto
    then have "split_on (\<lambda>c. c = CHR '','') (p @ CHR '','' # str_join '','' ps)
        = p # split_on (\<lambda>c. c = CHR '','') (str_join '','' ps)" by (intro split_on_append_sep) auto
    then show ?thesis using False Cons by (simp add: str_join_Cons)
  qed
qed simp

text \<open>A backend with the thinking conversion sees consistent flags: with thinking active its
  \<open>anthropic-beta\<close> header names interleaved thinking and never adaptive thinking; without, it names
  neither; the other flags stay, in order.\<close>

theorem beta_flags:
  "(let ps = split_on (\<lambda>c. c = CHR '','') (patch_anthropic_beta_header v) in
      (\<exists>p \<in> set ps. is_interleaved_flag p) \<and> (\<forall>p \<in> set ps. \<not> is_adaptive_flag p) \<and>
      filter (\<lambda>p. \<not> is_interleaved_flag p) ps
        = filter (\<lambda>p. \<not> is_interleaved_flag p \<and> \<not> is_adaptive_flag p) (beta_parts v))
   \<and> (let s = strip_thinking_from_beta_header v in
      s \<noteq> [] \<longrightarrow> split_on (\<lambda>c. c = CHR '','') s
        = filter (\<lambda>p. \<not> is_adaptive_flag p \<and> \<not> is_interleaved_flag p) (beta_parts v))"
proof -
  have il: "is_interleaved_flag ''interleaved-thinking-2025-05-14''" "\<not> is_adaptive_flag ''interleaved-thinking-2025-05-14''"
    by code_simp+
  have nc: "\<forall>p \<in> set (patched_parts v). CHR '','' \<notin> set p"
    using beta_parts_no_comma[of _ v] by (auto simp: patched_parts_def Let_def)
  have ne: "patched_parts v \<noteq> []" by (auto simp: patched_parts_def Let_def filter_empty_conv)
  have sp: "split_on (\<lambda>c. c = CHR '','') (patch_anthropic_beta_header v) = patched_parts v"
    using split_join_comma[OF ne nc] by (simp add: patch_anthropic_beta_header_def)
  have flags: "(\<exists>p \<in> set (patched_parts v). is_interleaved_flag p) \<and> (\<forall>p \<in> set (patched_parts v). \<not> is_adaptive_flag p) \<and>
      filter (\<lambda>p. \<not> is_interleaved_flag p) (patched_parts v)
        = filter (\<lambda>p. \<not> is_interleaved_flag p \<and> \<not> is_adaptive_flag p) (beta_parts v)"
    using il by (auto simp: patched_parts_def Let_def conj_commute intro: filter_cong)
  let ?k = "filter (\<lambda>p. \<not> is_adaptive_flag p \<and> \<not> is_interleaved_flag p) (beta_parts v)"
  have "split_on (\<lambda>c. c = CHR '','') (str_join '','' ?k) = ?k" if "?k \<noteq> []"
    using split_join_comma[OF that] beta_parts_no_comma[of _ v] by auto
  then have "strip_thinking_from_beta_header v \<noteq> [] \<longrightarrow>
      split_on (\<lambda>c. c = CHR '','') (strip_thinking_from_beta_header v) = ?k"
    by (cases "?k = []") (auto simp: strip_thinking_from_beta_header_def)
  then show ?thesis using sp flags by (simp add: Let_def)
qed

theorem beta_flags_witness:
  "split_on (\<lambda>c. c = CHR '','') (strip_thinking_from_beta_header ''tools-1, interleaved-thinking-2025-05-14,files-2'')
   = [''tools-1'', ''files-2'']"
proof -
  let ?v = "''tools-1, interleaved-thinking-2025-05-14,files-2''"
  have "strip_thinking_from_beta_header ?v \<noteq> []"
    "filter (\<lambda>p. \<not> is_adaptive_flag p \<and> \<not> is_interleaved_flag p) (beta_parts ?v) = [''tools-1'', ''files-2'']"
    by code_simp+
  then show ?thesis using beta_flags[of ?v] by (simp add: Let_def)
qed

end
