(* ===== verification/Redaction.thy ===== *)
theory Redaction
  imports Sse Headers
begin

text \<open>
  What the debug log hides (\<open>src/metrics/redaction.rs\<close>).  A slice that would panic is the left side of a
  sum.  The JSON printers are parameters; the counters of a summary, a hash map in the source, are
  listed in the order of their first event.
\<close>

section \<open>Masking\<close>

definition is_continuation :: "char \<Rightarrow> bool" where
  "is_continuation c = is_cont (code c)"

text \<open>\<open>chars().rev().take(n)\<close> on the reversed bytes: a character ends at its first byte.\<close>

fun take_chars_back :: "nat \<Rightarrow> string \<Rightarrow> string" where
  "take_chars_back 0 s = []"
| "take_chars_back (Suc n) [] = []"
| "take_chars_back (Suc n) (c # s) = c # take_chars_back (if is_continuation c then Suc n else n) s"

definition mask_value :: "string \<Rightarrow> string" where
  "mask_value v =
     (let trimmed = str_trim v
      in if trimmed = [] then ''****'' else ''****'' @ rev (take_chars_back 4 (rev trimmed)))"

fun take_word :: "string \<Rightarrow> string" where
  "take_word [] = []"
| "take_word (c # s) = (if 0 < ws_len (c # s) then [] else c # take_word s)"

text \<open>\<open>split_whitespace().next()\<close> skips leading white space.\<close>

definition first_word :: "string \<Rightarrow> string" where
  "first_word s = take_word (trim_start s)"

lemma find_within: "str_find pat s = Some k \<Longrightarrow> k + length pat \<le> length s"
  by (rule str_find_len)

function mask_bearer_tokens :: "string \<Rightarrow> unit + string" where
  "mask_bearer_tokens rest =
     (case str_find ''Bearer '' rest of
        None \<Rightarrow> Inr rest
      | Some pos \<Rightarrow>
          (let after = drop (pos + 7) rest;
               token = first_word after
           in if length after < length token \<or> \<not> char_boundary (map code after) (length token) then Inl ()
              else case mask_bearer_tokens (drop (length token) after) of
                     Inl e \<Rightarrow> Inl e
                   | Inr r \<Rightarrow> Inr (take pos rest @ ''Bearer '' @ mask_value token @ r)))"
  by auto
termination mask_bearer_tokens
  by (relation "measure length") (auto dest: find_within)

declare mask_bearer_tokens.simps [simp del]

fun take_field :: "string \<Rightarrow> string" where
  "take_field [] = []"
| "take_field (c # s) = (if c = CHR ''&'' \<or> 0 < ws_len (c # s) then [] else c # take_field s)"

function mask_key_value :: "string \<Rightarrow> string \<Rightarrow> string" where
  "mask_key_value key rest =
     (case str_find (key @ ''='') rest of
        None \<Rightarrow> rest
      | Some pos \<Rightarrow>
          (let after = drop (pos + length key + 1) rest;
               v = take_field after
           in take pos rest @ key @ ''='' @ mask_value v @ mask_key_value key (drop (length v) after)))"
  by auto
termination mask_key_value
  by (relation "measure (length \<circ> snd)") (auto dest: find_within)

declare mask_key_value.simps [simp del]

definition mask_tokens :: "string \<Rightarrow> unit + string" where
  "mask_tokens s =
     (case mask_bearer_tokens s of
        Inl e \<Rightarrow> Inl e
      | Inr t \<Rightarrow> Inr (mask_key_value ''refresh_token'' (mask_key_value ''access_token'' (mask_key_value ''api_key'' t))))"

section \<open>Headers and JSON\<close>

definition is_sensitive_header :: "string \<Rightarrow> bool" where
  "is_sensitive_header n \<longleftrightarrow>
     map ascii_lower n \<in> {''authorization'', ''proxy-authorization'', ''x-api-key'', ''cookie'', ''set-cookie''}"

definition redact_headers :: "in_headers \<Rightarrow> (string \<times> string) list" where
  "redact_headers hs = map (\<lambda>(n, v).
     let s = (case v of Some x \<Rightarrow> x | None \<Rightarrow> ''<non-utf8>'')
     in (n, if is_sensitive_header n then mask_value s else s)) hs"

definition is_sensitive_key :: "string \<Rightarrow> bool" where
  "is_sensitive_key k \<longleftrightarrow>
     map ascii_lower k \<in> {''api_key'', ''authorization'', ''access_token'', ''refresh_token'', ''secret'', ''password''}"

definition mask_json :: "json \<Rightarrow> json" where
  "mask_json v = JStr (mask_value (case as_str v of Some s \<Rightarrow> s | None \<Rightarrow> []))"

lemma size_json_item: "x \<in> set xs \<Longrightarrow> size x < Suc (size_list size xs)"
  by (induction xs) auto

lemma size_json_field: "(k, v) \<in> set kvs \<Longrightarrow> size v < Suc (size_list (size_prod (\<lambda>_. 0) size) kvs)"
  by (induction kvs) auto

function redact_json_value :: "json \<Rightarrow> json" where
  "redact_json_value (JObj kvs) =
     JObj (map (\<lambda>(k, v). (k, if is_sensitive_key k then mask_json v else redact_json_value v)) kvs)"
| "redact_json_value (JArr xs) = JArr (map redact_json_value xs)"
| "redact_json_value (JStr s) = JStr s"
| "redact_json_value (JNum n) = JNum n"
| "redact_json_value (JBool b) = JBool b"
| "redact_json_value JNull = JNull"
  by pat_completeness auto
termination redact_json_value
  by (relation "measure size") (auto dest: size_json_field size_json_item)

section \<open>Bodies\<close>

record sse_digest =
  sd_counts :: "(string \<times> u32) list"
  sd_delta :: "json option"
  sd_text :: string
  sd_error :: "json option"

definition digest_event :: "sse_event \<Rightarrow> sse_digest \<Rightarrow> sse_digest" where
  "digest_event e d =
     (let d1 = d\<lparr>sd_counts := AList.update (event_type e)
                  ((case map_of (sd_counts d) (event_type e) of Some n \<Rightarrow> n | None \<Rightarrow> 0) + 1) (sd_counts d)\<rparr>
      in if event_type e = ''content_block_delta'' then
           (case nested_str ''delta'' ''text'' (event_data e) of
              Some t \<Rightarrow> d1\<lparr>sd_text := sd_text d1 @ t\<rparr> | None \<Rightarrow> d1)
         else if event_type e = ''message_delta'' then d1\<lparr>sd_delta := Some (event_data e)\<rparr>
         else if event_type e = ''error'' then d1\<lparr>sd_error := Some (event_data e)\<rparr>
         else d1)"

definition text_preview :: "string \<Rightarrow> unit + string" where
  "text_preview t =
     (if 500 < length t then
        (if char_boundary (map code t) 500
         then Inr (take 500 t @ ''...[truncated, total '' @ show_nat (length t) @ '' chars]'')
         else Inl ())
      else Inr t)"

text \<open>The fields of the summary after the counts.\<close>

definition digest_fields :: "sse_digest \<Rightarrow> unit + (string \<times> json) list" where
  "digest_fields d =
     (case (if sd_text d = [] then Inr [] else map_sum id (\<lambda>p. [(''text_preview'', JStr p)]) (text_preview (sd_text d))) of
        Inl e \<Rightarrow> Inl e
      | Inr preview \<Rightarrow> Inr (preview
          @ (case sd_delta d of
               None \<Rightarrow> []
             | Some delta \<Rightarrow>
                 (case jget ''usage'' delta of Some u \<Rightarrow> [(''usage'', u)] | None \<Rightarrow> [])
                 @ (case Option.bind (jget ''delta'' delta) (jget ''stop_reason'') of
                      Some r \<Rightarrow> [(''stop_reason'', r)] | None \<Rightarrow> []))
          @ (case sd_error d of Some e \<Rightarrow> [(''error'', e)] | None \<Rightarrow> [])))"

definition summarize_sse_stream ::
  "(string \<Rightarrow> json option) \<Rightarrow> (bool \<Rightarrow> json \<Rightarrow> string option) \<Rightarrow> string \<Rightarrow> bool \<Rightarrow> unit + string" where
  "summarize_sse_stream jparse jprint bytes pretty =
     (let events = parse_sse_events jparse bytes;
          d = fold digest_event events \<lparr>sd_counts = [], sd_delta = None, sd_text = [], sd_error = None\<rparr>
      in case digest_fields d of
           Inl e \<Rightarrow> Inl e
         | Inr extra \<Rightarrow>
             Inr (case jprint pretty (JObj [(''sse_summary'', JObj
                    ([(''total_events'', JNum (PosInt (ucast (of_nat (length events) :: u32)))),
                      (''event_counts'', JObj (map (\<lambda>(k, n). (k, JNum (PosInt (ucast n)))) (sd_counts d)))] @ extra))]) of
                    Some s \<Rightarrow> s
                  | None \<Rightarrow> ''SSE stream: '' @ show_nat (unat (of_nat (length events) :: u32)) @ '' events''))"

definition redact_body ::
  "(string \<Rightarrow> json option) \<Rightarrow> (bool \<Rightarrow> json \<Rightarrow> string option) \<Rightarrow> string \<Rightarrow> string \<Rightarrow> nat option \<Rightarrow> bool
   \<Rightarrow> unit + string option" where
  "redact_body jparse jprint bytes content_type limit pretty =
     (if bytes = [] then Inr None
      else if str_contains ''text/event-stream'' content_type
      then map_sum id Some (summarize_sse_stream jparse jprint bytes pretty)
      else if limit = Some 0 then Inr None
      else let data = (case limit of Some l \<Rightarrow> if l < length bytes then take l bytes else bytes | None \<Rightarrow> bytes)
        in if str_contains ''application/json'' content_type then
             (case jparse (if limit = None then bytes else data) of
                None \<Rightarrow> map_sum id Some (mask_tokens (str_lossy data))
              | Some v \<Rightarrow> Inr (jprint pretty (redact_json_value v)))
           else map_sum id Some (mask_tokens (str_lossy data)))"

definition redact_body_preview ::
  "(string \<Rightarrow> json option) \<Rightarrow> (bool \<Rightarrow> json \<Rightarrow> string option) \<Rightarrow> string \<Rightarrow> string \<Rightarrow> nat \<Rightarrow> unit + string option" where
  "redact_body_preview jparse jprint bytes content_type limit = redact_body jparse jprint bytes content_type (Some limit) False"

section \<open>What is shown of a secret\<close>

definition revealed :: "string \<Rightarrow> nat" where
  "revealed t = length (filter (\<lambda>c. \<not> is_continuation c) t)"

lemma take_chars_back_prefix: "\<exists>r. s = take_chars_back n s @ r"
  by (induction n s rule: take_chars_back.induct) auto

lemma take_chars_back_few: "revealed (take_chars_back n s) \<le> n"
proof (induction n s rule: take_chars_back.induct)
  case (3 n c s)
  then show ?case by (cases "is_continuation c") (auto simp: revealed_def)
qed (simp_all add: revealed_def)

definition is_mask_of :: "string \<Rightarrow> string \<Rightarrow> bool" where
  "is_mask_of v m \<longleftrightarrow> (\<exists>a t. m = ''****'' @ t \<and> str_trim v = a @ t \<and> revealed t \<le> 4)"

lemma mask_value_mask: "is_mask_of v (mask_value v)"
proof (cases "str_trim v = []")
  case True
  then show ?thesis by (simp add: is_mask_of_def mask_value_def revealed_def)
next
  case False
  obtain r where "rev (str_trim v) = take_chars_back 4 (rev (str_trim v)) @ r"
    using take_chars_back_prefix by blast
  then have "str_trim v = rev r @ rev (take_chars_back 4 (rev (str_trim v)))"
    by (metis rev_append rev_rev_ident)
  moreover have "revealed (rev (take_chars_back 4 (rev (str_trim v)))) \<le> 4"
    using take_chars_back_few by (simp add: revealed_def rev_filter[symmetric])
  ultimately show ?thesis using False by (auto simp: is_mask_of_def mask_value_def Let_def)
qed

text \<open>A redacted value against the value it was made of, at every depth.\<close>

inductive redacts :: "json \<Rightarrow> json \<Rightarrow> bool" where
  obj: "map fst kvs' = map fst kvs \<Longrightarrow>
        (\<And>i. i < length kvs \<Longrightarrow> is_sensitive_key (fst (kvs ! i)) \<Longrightarrow>
           \<exists>m. snd (kvs' ! i) = JStr m
             \<and> is_mask_of (case as_str (snd (kvs ! i)) of Some s \<Rightarrow> s | None \<Rightarrow> []) m) \<Longrightarrow>
        (\<And>i. i < length kvs \<Longrightarrow> \<not> is_sensitive_key (fst (kvs ! i)) \<Longrightarrow> redacts (snd (kvs ! i)) (snd (kvs' ! i)))
        \<Longrightarrow> redacts (JObj kvs) (JObj kvs')"
| arr: "list_all2 redacts xs xs' \<Longrightarrow> redacts (JArr xs) (JArr xs')"
| leaf: "\<forall>kvs. v \<noteq> JObj kvs \<Longrightarrow> \<forall>xs. v \<noteq> JArr xs \<Longrightarrow> redacts v v"

text \<open>C38: whatever the shape of a body, its redaction keeps every key and every value that is not
  under a sensitive key, and under a sensitive key, at any depth, leaves a string of four stars and at most
  the last four characters of the secret; a secret that is not a string is gone.\<close>

theorem redacted_at_every_depth: "redacts v (redact_json_value v)"
proof (induction v rule: redact_json_value.induct)
  case (1 kvs)
  show ?case
    unfolding redact_json_value.simps
  proof (rule redacts.obj)
    fix i assume i: "i < length kvs" "\<not> is_sensitive_key (fst (kvs ! i))"
    obtain k v where kv: "kvs ! i = (k, v)" by fastforce
    have "redacts v (redact_json_value v)"
      using 1[of "(k, v)" k v] i kv nth_mem[OF i(1)] by simp
    then show "redacts (snd (kvs ! i)) (snd (map (\<lambda>(k, v). (k, if is_sensitive_key k then mask_json v else redact_json_value v)) kvs ! i))"
      using i kv by simp
  qed (auto simp: case_prod_unfold mask_json_def mask_value_mask)
next
  case (2 xs)
  then show ?case by (auto intro!: redacts.arr simp: list_all2_map2 intro!: list.rel_refl_strong)
qed (auto intro: redacts.leaf)

section \<open>Bearer tokens in plain text\<close>

lemma ws_len_space [simp]: "ws_len (CHR '' '' # s) = 1"
  by (subst ws_len.simps) simp

lemma trim_start_spaces: "trim_start (replicate k CHR '' '' @ s) = trim_start s"
  by (induction k) (simp_all add: trim_start.simps[of "CHR '' '' # _"])

lemma take_word_graphic: "\<forall>c \<in> set w. is_graphic c \<Longrightarrow> take_word w = w"
  by (induction w) auto

text \<open>The token of a bearer credential is found behind any white space, but what is cut off the text is as many
  bytes as the token has, counted from the first space: of a token behind \<open>k\<close> further spaces its last \<open>k\<close> characters are
  printed in clear, and all of it when it has no more than \<open>k\<close>.\<close>

theorem bearer_mask_cuts_early:
  assumes "\<forall>c \<in> set w. is_graphic c \<and> c \<noteq> CHR ''B''" and "w \<noteq> []"
  shows "mask_bearer_tokens (''Bearer '' @ replicate k CHR '' '' @ w)
     = Inr (''Bearer '' @ mask_value w @ drop (length w) (replicate k CHR '' '' @ w))"
proof -
  let ?after = "replicate k CHR '' '' @ w" and ?rest = "drop (length w) (replicate k CHR '' '' @ w)"
  have B: "CHR ''B'' \<notin> set ?after" using assms(1) by auto
  have first: "str_find ''Bearer '' (''Bearer '' @ ?after) = Some 0"
    using str_starts_append[of "''Bearer ''" ?after] by (simp del: str_starts_append)
  have none: "str_find ''Bearer '' ?rest = None"
  proof (rule ccontr)
    assume "str_find ''Bearer '' ?rest \<noteq> None"
    then obtain i where "str_find ''Bearer '' ?rest = Some i" by blast
    then have "?rest = take i ?rest @ ''Bearer '' @ drop (i + length ''Bearer '') ?rest" by (rule str_find_SomeD)
    then obtain a b where r: "?rest = a @ ''Bearer '' @ b" by blast
    have "CHR ''B'' \<in> set (a @ ''Bearer '' @ b)" by simp
    then show False using B by (simp only: r[symmetric]) (meson in_set_dropD)
  qed
  have g: "\<forall>c \<in> set w. is_graphic c" using assms(1) by blast
  have fw: "first_word ?after = w"
    unfolding first_word_def trim_start_spaces trim_start_all_graphic[OF g] by (rule take_word_graphic[OF g])
  have cb: "char_boundary (map code ?after) (length w)"
  proof -
    have "\<forall>c \<in> set ?after. \<not> is_cont (code c)" 
    proof
      fix c assume "c \<in> set ?after"
      then have "c = CHR '' '' \<or> is_graphic c" using g by (auto split: if_splits)
      then show "\<not> is_cont (code c)" by (auto simp: is_graphic_def)
    qed
    then have "length w < length ?after \<Longrightarrow> \<not> is_cont (map code ?after ! length w)"
      by (simp only: nth_map) (meson nth_mem)
    then show ?thesis unfolding char_boundary_def by (metis add_0_left length_append length_map length_replicate nat_neq_iff not_add_less2)
  qed
  have rest: "mask_bearer_tokens ?rest = Inr ?rest"
    by (subst mask_bearer_tokens.simps) (simp only: none option.case)
  have d: "drop (0 + 7) (''Bearer '' @ ?after) = ?after" and t: "take 0 (''Bearer '' @ ?after) = []"
    and l: "\<not> length ?after < length w"
    by simp_all
  show ?thesis
    by (subst mask_bearer_tokens.simps)
       (simp only: first option.case Let_def d t l fw cb rest sum.case if_False not_True_eq_False simp_thms append_Nil)
qed

theorem bearer_mask_cuts_early_witness:
  "mask_bearer_tokens (''Bearer '' @ replicate 6 CHR '' '' @ ''secret'') = Inr ''Bearer ****cretsecret''"
proof -
  have m: "mask_value ''secret'' = ''****cret''"
    by (simp add: mask_value_def str_trim_all_graphic is_graphic_def is_continuation_def numeral_eq_Suc)
  have g: "\<forall>c \<in> set ''secret''. is_graphic c \<and> c \<noteq> CHR ''B''" by (simp add: is_graphic_def)
  show ?thesis using bearer_mask_cuts_early[OF g, of 6] by (simp add: m)
qed

section \<open>The summary of a stream\<close>

definition event_text :: "sse_event \<Rightarrow> string" where
  "event_text e =
     (if event_type e = ''content_block_delta''
      then (case nested_str ''delta'' ''text'' (event_data e) of Some t \<Rightarrow> t | None \<Rightarrow> []) else [])"

lemma digest_text: "sd_text (fold digest_event es d) = sd_text d @ concat (map event_text es)"
  by (induction es arbitrary: d) (auto simp: digest_event_def event_text_def Let_def split: option.splits)

lemma digest_fields_Inl: "digest_fields d = Inl () \<longleftrightarrow> text_preview (sd_text d) = Inl ()"
  by (auto simp: digest_fields_def text_preview_def split: sum.splits)

text \<open>Writing the log entry of a finished stream panics for exactly the answers whose text is longer than 500
  bytes and has a character across the 500th byte; what else the stream holds does not matter.\<close>

theorem stream_summary_panics:
  fixes jparse :: "string \<Rightarrow> json option" and bytes :: string
  defines "answer \<equiv> concat (map event_text (parse_sse_events jparse bytes))"
  shows "redact_body jparse jprint bytes ''text/event-stream; charset=utf-8'' limit pretty = Inl ()
     \<longleftrightarrow> 500 < length answer \<and> \<not> char_boundary (map code answer) 500"
proof (cases "bytes = []")
  case True
  then show ?thesis by (simp add: redact_body_def answer_def parse_sse_events_def str_lossy_def str_lines_def map_filter_def)
next
  case False
  have "str_contains ''text/event-stream'' ''text/event-stream; charset=utf-8''"
    by (simp add: str_contains_def str_starts_def)
  then have "redact_body jparse jprint bytes ''text/event-stream; charset=utf-8'' limit pretty = Inl ()
      \<longleftrightarrow> summarize_sse_stream jparse jprint bytes pretty = Inl ()"
    using False by (cases "summarize_sse_stream jparse jprint bytes pretty") (simp_all add: redact_body_def)
  also have "\<dots> \<longleftrightarrow> digest_fields (fold digest_event (parse_sse_events jparse bytes)
      \<lparr>sd_counts = [], sd_delta = None, sd_text = [], sd_error = None\<rparr>) = Inl ()"
    by (simp add: summarize_sse_stream_def Let_def split: sum.split)
  also have "\<dots> \<longleftrightarrow> text_preview answer = Inl ()"
    by (simp add: digest_fields_Inl digest_text answer_def)
  finally show ?thesis by (auto simp: text_preview_def)
qed

end
