(* ===== verification/UpstreamUrl.thy ===== *)
theory UpstreamUrl
  imports Prelude
begin

text \<open>The upstream URL (\<open>src/proxy/pipeline/upstream_url.rs\<close>).\<close>

definition trim_end_slash :: "string \<Rightarrow> string" where
  "trim_end_slash s = rev (dropWhile (\<lambda>c. c = CHR ''/'') (rev s))"

definition trailing_version_segment :: "string \<Rightarrow> string option" where
  "trailing_version_segment base =
     (let seg = last (split_on (\<lambda>c. c = CHR ''/'') base)
      in if 2 \<le> length seg \<and> seg ! 0 = CHR ''v'' \<and> list_all is_ascii_digit (tl seg) then Some seg else None)"

definition strip_path_prefix :: "string \<Rightarrow> string \<Rightarrow> string option" where
  "strip_path_prefix path_and_query prefix =
     (case strip_prefix prefix path_and_query of
        None \<Rightarrow> None
      | Some rest \<Rightarrow>
          (case rest of
             [] \<Rightarrow> Some rest
           | c # _ \<Rightarrow> if c = CHR ''/'' \<or> c = CHR ''?'' then Some rest else None))"

definition build_upstream_url :: "string \<Rightarrow> string option \<Rightarrow> string \<Rightarrow> string" where
  "build_upstream_url base_url strip_request_prefix path_and_query =
     (let base = trim_end_slash base_url;
          explicit = (case strip_request_prefix of
              None \<Rightarrow> None
            | Some p \<Rightarrow> if p = [] then None else strip_path_prefix path_and_query p);
          dedup = (case trailing_version_segment base of
              None \<Rightarrow> None
            | Some v \<Rightarrow> strip_path_prefix path_and_query (CHR ''/'' # v))
      in (case explicit of
            Some rest \<Rightarrow> base @ rest
          | None \<Rightarrow> (case dedup of Some rest \<Rightarrow> base @ rest | None \<Rightarrow> base @ path_and_query)))"

lemma strip_path_prefix_iff:
  "strip_path_prefix pq p = Some rest \<longleftrightarrow>
     pq = p @ rest \<and> (rest = [] \<or> hd rest = CHR ''/'' \<or> hd rest = CHR ''?'')"
  by (auto simp: strip_path_prefix_def str_simps split: option.splits list.splits)

lemma trim_end_slash_prefix: "\<exists>k. s = trim_end_slash s @ replicate k CHR ''/''"
proof -
  have "dropWhile (\<lambda>c. c = CHR ''/'') (rev s) = drop (length (takeWhile (\<lambda>c. c = CHR ''/'') (rev s))) (rev s)"
    by (simp add: dropWhile_eq_drop)
  have t: "takeWhile (\<lambda>c. c = CHR ''/'') (rev s) = replicate (length (takeWhile (\<lambda>c. c = CHR ''/'') (rev s))) CHR ''/''"
    by (rule replicate_eqI) (auto dest: set_takeWhileD)
  have "rev s = takeWhile (\<lambda>c. c = CHR ''/'') (rev s) @ dropWhile (\<lambda>c. c = CHR ''/'') (rev s)" by simp
  then have "s = rev (dropWhile (\<lambda>c. c = CHR ''/'') (rev s)) @ rev (takeWhile (\<lambda>c. c = CHR ''/'') (rev s))"
    by (metis rev_append rev_rev_ident)
  then show ?thesis unfolding trim_end_slash_def using t by (metis rev_replicate)
qed

lemma trim_end_slash_replicate:
  assumes "last b \<noteq> CHR ''/''" "b \<noteq> []"
  shows "trim_end_slash (b @ replicate k CHR ''/'') = b"
proof -
  have d: "dropWhile (\<lambda>c. c = CHR ''/'') (replicate k CHR ''/'' @ xs) = dropWhile (\<lambda>c. c = CHR ''/'') xs" for xs
    by (induction k) auto
  obtain c y where "b = c @ [y]" "y \<noteq> CHR ''/''" using assms by (cases b rule: rev_cases) auto
  then show ?thesis by (simp add: trim_end_slash_def d)
qed

text \<open>The request path arrives whole or without one leading segment: the URL is the base without
  trailing slashes followed by the path, from which at most the configured prefix or the base's own
  version segment is removed, and only as a complete segment.\<close>

theorem upstream_url_shape:
  "\<exists>cut rest. build_upstream_url base pre pq = trim_end_slash base @ rest \<and> pq = cut @ rest
     \<and> (cut = [] \<or> ((rest = [] \<or> hd rest = CHR ''/'' \<or> hd rest = CHR ''?'') \<and>
          (pre = Some cut \<or> (\<exists>v. trailing_version_segment (trim_end_slash base) = Some v \<and> cut = CHR ''/'' # v))))"
  by (fastforce simp: build_upstream_url_def Let_def strip_path_prefix_iff split: option.splits if_splits)

lemma last_segment:
  "CHR ''/'' \<notin> set v \<Longrightarrow> last (split_on (\<lambda>c. c = CHR ''/'') (a @ CHR ''/'' # v)) = v"
proof (induction a)
  case Nil
  then have "split_on (\<lambda>c. c = CHR ''/'') v = [v]" by (intro split_on_no_sep) auto
  then show ?case by simp
next
  case (Cons x a)
  have "split_on (\<lambda>c. c = CHR ''/'') (a @ CHR ''/'' # v) \<noteq> []" by simp
  moreover have "2 \<le> length (split_on (\<lambda>c. c = CHR ''/'') (a @ CHR ''/'' # v))"
  proof (induction a)
    case Nil
    show ?case by (cases "split_on (\<lambda>c. c = CHR ''/'') v") auto
  next
    case (Cons y a)
    then show ?case by (auto split: list.splits)
  qed
  ultimately show ?case using Cons by (auto split: list.splits)
qed

text \<open>A version in the base URL is not doubled: for a base that ends in \<open>/v\<close> and digits, with or
  without trailing slashes, a request path under the same version continues the base; the versions
  must be equal as whole segments.\<close>

theorem version_not_doubled:
  assumes "ds \<noteq> []" "list_all is_ascii_digit ds" "rest = [] \<or> hd rest = CHR ''/'' \<or> hd rest = CHR ''?''"
  shows "build_upstream_url (a @ CHR ''/'' # CHR ''v'' # ds @ replicate k CHR ''/'') None (CHR ''/'' # CHR ''v'' # ds @ rest)
       = a @ CHR ''/'' # CHR ''v'' # ds @ rest"
proof -
  let ?b = "a @ CHR ''/'' # CHR ''v'' # ds"
  have dig: "\<forall>c \<in> set ds. c \<noteq> CHR ''/''" using assms(2) by (auto simp: list_all_iff is_ascii_digit_def)
  have "ds \<noteq> [] \<Longrightarrow> last ds \<in> set ds" by simp
  then have "last ?b \<noteq> CHR ''/''" using assms(1) dig by auto
  then have base: "trim_end_slash (?b @ replicate k CHR ''/'') = ?b" by (rule trim_end_slash_replicate) simp
  have seg: "last (split_on (\<lambda>c. c = CHR ''/'') ?b) = CHR ''v'' # ds" using dig by (intro last_segment) auto
  have ver: "trailing_version_segment ?b = Some (CHR ''v'' # ds)"
    unfolding trailing_version_segment_def seg using assms(1,2) by (cases ds) auto
  have cut: "strip_path_prefix (CHR ''/'' # CHR ''v'' # ds @ rest) (CHR ''/'' # CHR ''v'' # ds) = Some rest"
    using assms(3) by (simp add: strip_path_prefix_iff)
  have app: "a @ CHR ''/'' # CHR ''v'' # ds @ xs = ?b @ xs" for xs by simp
  show ?thesis unfolding app build_upstream_url_def base Let_def ver by (simp add: cut)
qed

theorem version_not_doubled_witness:
  "build_upstream_url ''https://api.openai.com/v1/'' None ''/v1/chat/completions'' = ''https://api.openai.com/v1/chat/completions''"
  using version_not_doubled[of "''1''" "''/chat/completions''" "''https://api.openai.com''" 1]
  by (simp add: is_ascii_digit_def)

end
