(* ===== verification/Forward.thy ===== *)
theory Forward
  imports ProxyError UpstreamUrl
begin

text \<open>
  Sending with retry (\<open>src/proxy/pipeline/forward.rs\<close>).  The upstream is the parameter \<open>send\<close>: the
  outcome of the n-th attempt.  The result comes with the attempts made and the pauses before the
  retries, in milliseconds.  The shift \<open>1u32 << attempt\<close> uses the low five bits of the count, as a
  release build does; \<open>Duration::saturating_mul\<close> stops at the largest duration.
\<close>

record send_error =
  is_connect :: bool
  is_timeout :: bool
  err_text :: string

record retry_config =
  rc_max_retries :: u32
  rc_backoff_base :: u64
  rc_request_timeout_secs :: u64

text \<open>\<open>From<&Defaults>\<close> for the timeout and the pool settings.\<close>

definition retry_config_of :: "defaults_config \<Rightarrow> retry_config" where
  "retry_config_of d =
     \<lparr>rc_max_retries = max_retries d, rc_backoff_base = retry_backoff_base_ms d,
      rc_request_timeout_secs = ucast (timeout_seconds d)\<rparr>"

definition duration_max_ms :: nat where
  "duration_max_ms = 2 ^ 64 * 1000 - 1"

definition shift_factor :: "u32 \<Rightarrow> u32" where
  "shift_factor attempt = push_bit (unat attempt mod 32) 1"

definition backoff_ms :: "retry_config \<Rightarrow> u32 \<Rightarrow> nat" where
  "backoff_ms rc attempt = min (unat (rc_backoff_base rc) * unat (shift_factor attempt)) duration_max_ms"

record 'r forward_result =
  outcome :: "proxy_error + 'r"
  attempts :: nat
  pauses :: "nat list"

definition final_error :: "backend \<Rightarrow> retry_config \<Rightarrow> send_error \<Rightarrow> proxy_error" where
  "final_error b rc e =
     (if is_timeout e then RequestTimeout (rc_request_timeout_secs rc) else ConnectionError (name b) (err_text e))"

function send_loop ::
  "backend \<Rightarrow> retry_config \<Rightarrow> (nat \<Rightarrow> send_error + 'r) \<Rightarrow> u32 \<Rightarrow> nat list \<Rightarrow> 'r forward_result" where
  "send_loop b rc send attempt ps =
     (case send (unat attempt) of
        Inr resp \<Rightarrow> \<lparr>outcome = Inr resp, attempts = Suc (unat attempt), pauses = ps\<rparr>
      | Inl e \<Rightarrow>
          if (is_connect e \<or> is_timeout e) \<and> attempt < rc_max_retries rc
          then send_loop b rc send (attempt + 1) (ps @ [backoff_ms rc attempt])
          else \<lparr>outcome = Inl (final_error b rc e), attempts = Suc (unat attempt), pauses = ps\<rparr>)"
  by pat_completeness auto

lemma unat_suc_below: "(a::u32) < m \<Longrightarrow> unat (a + 1) = Suc (unat a)"
proof -
  assume "a < m"
  then have "unat a < unat m" by (simp add: word_less_nat_alt)
  moreover have "unat m < 2 ^ 32" using unsigned_less[of m] by simp
  ultimately show ?thesis by (simp add: unat_word_ariths)
qed

termination send_loop
  by (relation "measure (\<lambda>(b, rc, send, attempt, ps). unat (rc_max_retries rc) - unat attempt)")
    (auto simp: unat_suc_below word_less_nat_alt)

declare send_loop.simps [simp del]

definition forward_with_retry ::
  "backend \<Rightarrow> retry_config \<Rightarrow> (nat \<Rightarrow> send_error + 'r) \<Rightarrow> 'r forward_result" where
  "forward_with_retry b rc send =
     (if \<not> is_configured b then
        \<lparr>outcome = Inl (BackendNotConfigured (name b) ''api_key is not set''), attempts = 0, pauses = []\<rparr>
      else send_loop b rc send 0 [])"

text \<open>A streamed request has no limit on the whole of its answer.\<close>

definition request_timeout :: "bool \<Rightarrow> retry_config \<Rightarrow> u64 option" where
  "request_timeout streaming rc = (if streaming then None else Some (rc_request_timeout_secs rc))"

definition target_url :: "backend \<Rightarrow> string option \<Rightarrow> string" where
  "target_url b path_and_query =
     build_upstream_url (base_url b) (strip_request_prefix b)
       (case path_and_query of Some pq \<Rightarrow> pq | None \<Rightarrow> ''/'')"

section \<open>Properties\<close>

definition retryable :: "send_error + 'r \<Rightarrow> bool" where
  "retryable x = (case x of Inl e \<Rightarrow> is_connect e \<or> is_timeout e | Inr _ \<Rightarrow> False)"

definition outcome_of :: "backend \<Rightarrow> retry_config \<Rightarrow> send_error + 'r \<Rightarrow> proxy_error + 'r" where
  "outcome_of b rc x = (case x of Inr r \<Rightarrow> Inr r | Inl e \<Rightarrow> Inl (final_error b rc e))"

lemma send_loop_spec:
  assumes "attempt \<le> rc_max_retries rc"
  shows "\<exists>k. unat attempt \<le> k \<and> k \<le> unat (rc_max_retries rc)
     \<and> send_loop b rc send attempt ps
         = \<lparr>outcome = outcome_of b rc (send k), attempts = Suc k,
            pauses = ps @ map (\<lambda>i. backoff_ms rc (of_nat i)) [unat attempt..<k]\<rparr>
     \<and> (\<forall>i. unat attempt \<le> i \<and> i < k \<longrightarrow> retryable (send i))
     \<and> (k < unat (rc_max_retries rc) \<longrightarrow> \<not> retryable (send k))"
  using assms
proof (induction b rc send attempt ps rule: send_loop.induct)
  case (1 b rc send attempt ps)
  have le: "unat attempt \<le> unat (rc_max_retries rc)" using 1(2) by (simp add: word_le_nat_alt)
  show ?case
  proof (cases "retryable (send (unat attempt)) \<and> attempt < rc_max_retries rc")
    case False
    then have "send_loop b rc send attempt ps
        = \<lparr>outcome = outcome_of b rc (send (unat attempt)), attempts = Suc (unat attempt), pauses = ps\<rparr>"
      by (subst send_loop.simps) (auto simp: retryable_def outcome_of_def split: sum.splits)
    moreover have "unat attempt < unat (rc_max_retries rc) \<longrightarrow> \<not> retryable (send (unat attempt))"
      using False by (auto simp: word_less_nat_alt)
    ultimately show ?thesis using le by (intro exI[of _ "unat attempt"]) auto
  next
    case True
    then obtain e where e: "send (unat attempt) = Inl e" "is_connect e \<or> is_timeout e" "attempt < rc_max_retries rc"
      by (auto simp: retryable_def split: sum.splits)
    have suc: "unat (attempt + 1) = Suc (unat attempt)" by (rule unat_suc_below[OF e(3)])
    have le': "attempt + 1 \<le> rc_max_retries rc" using e(3) suc by (simp add: word_le_nat_alt word_less_nat_alt)
    have step: "send_loop b rc send attempt ps = send_loop b rc send (attempt + 1) (ps @ [backoff_ms rc attempt])"
      using e by (subst send_loop.simps) simp
    obtain k where k: "Suc (unat attempt) \<le> k" "k \<le> unat (rc_max_retries rc)"
      "send_loop b rc send (attempt + 1) (ps @ [backoff_ms rc attempt])
         = \<lparr>outcome = outcome_of b rc (send k), attempts = Suc k,
            pauses = (ps @ [backoff_ms rc attempt]) @ map (\<lambda>i. backoff_ms rc (of_nat i)) [Suc (unat attempt)..<k]\<rparr>"
      "\<forall>i. Suc (unat attempt) \<le> i \<and> i < k \<longrightarrow> retryable (send i)"
      "k < unat (rc_max_retries rc) \<longrightarrow> \<not> retryable (send k)"
      using 1(1)[OF e(1)] e(2,3) le' suc by auto
    have "[unat attempt..<k] = unat attempt # [Suc (unat attempt)..<k]" using k(1) by (simp add: upt_conv_Cons)
    moreover have "\<forall>i. unat attempt \<le> i \<and> i < k \<longrightarrow> retryable (send i)"
    proof (intro allI impI)
      fix i assume "unat attempt \<le> i \<and> i < k"
      then show "retryable (send i)" using True k(4) by (cases "i = unat attempt") auto
    qed
    ultimately show ?thesis
      using k(1,2,3,5) step by (intro exI[of _ k]) simp
  qed
qed

lemma forward_with_retry_spec:
  assumes "is_configured b"
  shows "\<exists>k \<le> unat (rc_max_retries rc).
     outcome (forward_with_retry b rc send) = outcome_of b rc (send k)
     \<and> attempts (forward_with_retry b rc send) = k + 1
     \<and> (\<forall>i < k. retryable (send i)) \<and> (k < unat (rc_max_retries rc) \<longrightarrow> \<not> retryable (send k))"
  using send_loop_spec[of 0 rc b send "[]"] assms by (force simp: forward_with_retry_def)

text \<open>C9: the retry loop ends and is exact: for a configured backend it sends until the first outcome that
  is a response or an error that is neither a connection failure nor a timeout, or until it has
  retried \<open>max_retries\<close> times; it returns that last outcome, and never sends more than
  \<open>max_retries + 1\<close> times.\<close>

theorem forward_retry_exact:
  assumes "is_configured b"
  shows "\<exists>k \<le> unat (rc_max_retries rc).
     outcome (forward_with_retry b rc send) = outcome_of b rc (send k)
     \<and> attempts (forward_with_retry b rc send) = k + 1
     \<and> (\<forall>i < k. retryable (send i)) \<and> (k < unat (rc_max_retries rc) \<longrightarrow> \<not> retryable (send k))"
  by (rule forward_with_retry_spec[OF assms])

definition flaky :: "nat \<Rightarrow> send_error + string" where
  "flaky n = (if n < 2 then Inl \<lparr>is_connect = True, is_timeout = False, err_text = ''refused''\<rparr> else Inr ''ok'')"

definition default_retry :: retry_config where
  "default_retry = \<lparr>rc_max_retries = 3, rc_backoff_base = 100, rc_request_timeout_secs = 30\<rparr>"

theorem forward_retry_exact_witness:
  "outcome (forward_with_retry default_backend default_retry flaky) = Inr ''ok''"
proof -
  have "is_configured default_backend" by code_simp
  from forward_retry_exact[OF this, of default_retry flaky] obtain k where
    k: "k \<le> 3" "outcome (forward_with_retry default_backend default_retry flaky) = outcome_of default_backend default_retry (flaky k)"
      "\<forall>i < k. retryable (flaky i)" "k < 3 \<longrightarrow> \<not> retryable (flaky k)"
    by (auto simp: default_retry_def)
  have "k = 2"
  proof -
    have "\<not> retryable (flaky 2)" by (simp add: retryable_def flaky_def)
    then have "\<not> 2 < k" using k(3) by auto
    moreover have "\<not> k < 2" using k(4) by (auto simp: retryable_def flaky_def)
    ultimately show ?thesis by simp
  qed
  then show ?thesis using k(2) by (simp add: outcome_of_def flaky_def)
qed

lemma shift_factor_pow: "n < 32 \<Longrightarrow> unat (shift_factor (of_nat n)) = 2 ^ n"
proof -
  assume n: "n < 32"
  then have "(2::nat) ^ n < 2 ^ 32" by (intro power_strict_increasing) auto
  then have "unat (of_nat (2 ^ n) :: u32) = 2 ^ n" by (subst unat_of_nat) simp
  moreover have "unat (of_nat n :: u32) = n" using n by (simp add: unat_of_nat)
  ultimately show ?thesis using n by (simp add: shift_factor_def push_bit_eq_mult)
qed

text \<open>The pauses double: with at most 32 retries the wait before the n-th retry is the base times
  \<open>2^(n-1)\<close>, up to the largest duration.\<close>

theorem backoff_doubles:
  assumes "is_configured b" "unat (rc_max_retries rc) \<le> 32"
  shows "\<exists>k \<le> unat (rc_max_retries rc). pauses (forward_with_retry b rc send)
     = map (\<lambda>i. min (unat (rc_backoff_base rc) * 2 ^ i) duration_max_ms) [0..<k]"
proof -
  obtain k where k: "k \<le> unat (rc_max_retries rc)"
    "pauses (forward_with_retry b rc send) = map (\<lambda>i. backoff_ms rc (of_nat i)) [0..<k]"
    using send_loop_spec[of 0 rc b send "[]"] assms(1) by (force simp: forward_with_retry_def)
  then show ?thesis using assms(2) by (intro exI[of _ k]) (auto simp: backoff_ms_def shift_factor_pow)
qed

theorem backoff_doubles_witness:
  "\<exists>k \<le> 3. pauses (forward_with_retry default_backend default_retry flaky) = map (\<lambda>i. min (100 * 2 ^ i) duration_max_ms) [0..<k]"
proof -
  have "is_configured default_backend" by code_simp
  from backoff_doubles[OF this, of default_retry flaky] show ?thesis by (simp add: default_retry_def)
qed

lemma unconfigured_never_contacted:
  "\<not> is_configured b \<Longrightarrow> attempts (forward_with_retry b rc send) = 0 \<and>
     outcome (forward_with_retry b rc send) = Inl (BackendNotConfigured (name b) ''api_key is not set'')"
  by (simp add: forward_with_retry_def)

end
