(* ===== verification/Transform.thy ===== *)
theory Transform
  imports ThinkingProps Credentials
begin

text \<open>
  The body transformation (\<open>src/proxy/pipeline/transform.rs\<close>).  Its thinking session is the captured
  session id; the filter works on the shared registry, so the result comes with the new registry.
  \<open>jprint\<close> is \<open>serde_json::to_vec\<close>.  \<open>json["k"] = v\<close> (\<open>IndexMut\<close>) is \<open>json_set\<close>, which panics on a value
  that is neither an object nor \<open>null\<close>; here it only runs on objects.
\<close>

record model_mapping =
  map_backend :: string
  map_original :: string

definition strip_all_thinking_blocks :: "json \<Rightarrow> json \<times> u32" where
  "strip_all_thinking_blocks body =
     (with_items (\<lambda>x. \<not> is_thinking_item x) body,
      sum_list (map (removed_in (\<lambda>x. \<not> is_thinking_item x)) (messages_of body)))"

definition has_remaining_thinking_blocks :: "json \<Rightarrow> bool" where
  "has_remaining_thinking_blocks body =
     (\<exists>m \<in> set (messages_of body). \<exists>item \<in> set (content_of m). is_thinking_item item)"

definition has_assistant_messages :: "json \<Rightarrow> bool" where
  "has_assistant_messages body = (\<exists>m \<in> set (messages_of body). jget_str ''role'' m = Some ''assistant'')"

definition nested_type :: "json \<Rightarrow> string option" where
  "nested_type body = Option.bind (jget ''thinking'' body) (jget_str ''type'')"

text \<open>\<open>mt.saturating_sub(1) as u32\<close> keeps the low 32 bits.\<close>

definition thinking_budget :: "json \<Rightarrow> u32 option \<Rightarrow> u32" where
  "thinking_budget body configured =
     (case configured of
        Some n \<Rightarrow> n
      | None \<Rightarrow> (case jget_u64 ''max_tokens'' body of
                    Some mt \<Rightarrow> ucast (sat_sub mt 1)
                  | None \<Rightarrow> 10000))"

definition convert_adaptive_thinking :: "json \<Rightarrow> u32 option \<Rightarrow> json \<times> bool option" where
  "convert_adaptive_thinking body configured =
     (if nested_type body \<noteq> Some ''adaptive'' then (body, map_option (\<lambda>_. False) (jget ''thinking'' body))
      else if is_object body then
        (jinsert ''thinking''
           (JObj [(''type'', JStr ''enabled''), (''budget_tokens'', JNum (PosInt (ucast (thinking_budget body configured))))]) body,
         Some True)
      else (body, None))"

definition rewrite_model :: "backend \<Rightarrow> json \<Rightarrow> json \<times> model_mapping option" where
  "rewrite_model b body =
     (case jget_str ''model'' body of
        None \<Rightarrow> (body, None)
      | Some m \<Rightarrow>
          (case resolve_model b m of
             None \<Rightarrow> (body, None)
           | Some m' \<Rightarrow> (jinsert ''model'' (JStr m') body, Some \<lparr>map_backend = m', map_original = m\<rparr>)))"

definition cap_body_effort :: "backend \<Rightarrow> string \<Rightarrow> json \<Rightarrow> json \<times> bool" where
  "cap_body_effort b original_model body =
     (case Option.bind (jget ''output_config'' body) as_object of
        None \<Rightarrow> (body, False)
      | Some oc \<Rightarrow>
          (case jget_str ''effort'' (JObj oc) of
             None \<Rightarrow> (body, False)
           | Some e \<Rightarrow>
               (case cap_effort b e original_model of
                  None \<Rightarrow> (body, False)
                | Some capped \<Rightarrow> (jadjust ''output_config'' (jinsert ''effort'' (JStr capped)) body, True))))"

text \<open>
  Step 3: the filter, and the rule that a history that lost a block (or has none) loses all of them
  together with the top-level \<open>thinking\<close> field.  The result is the body, the number of removed
  blocks, whether the conversion of step 2 still stands, and the registry.
\<close>

definition filter_thinking ::
  "hasher \<Rightarrow> nat \<Rightarrow> u64 \<Rightarrow> json \<Rightarrow> bool \<Rightarrow> registry \<Rightarrow> json \<times> u32 \<times> bool \<times> registry" where
  "filter_thinking h now sid body converted r =
     (case session_filter h now sid body r of (body1, filtered, r') \<Rightarrow>
      if has_assistant_messages body1 \<and> (filtered > 0 \<or> \<not> has_remaining_thinking_blocks body1) then
        (let (body2, extra) = strip_all_thinking_blocks body1;
             removed_top = is_object body2 \<and> jget ''thinking'' body2 \<noteq> None;
             body3 = jremove ''thinking'' body2
         in (body3, sat_add filtered extra,
             (if removed_top \<or> extra > 0 then False else converted), r'))
      else (body1, filtered, converted, r'))"

record transformed =
  tr_json :: json
  tr_streaming :: bool
  tr_mapping :: "model_mapping option"
  tr_thinking_active :: bool
  tr_changed :: bool

definition is_streaming_request :: "json \<Rightarrow> bool" where
  "is_streaming_request body = (case Option.bind (jget ''stream'' body) as_bool of Some b \<Rightarrow> b | None \<Rightarrow> False)"

definition original_model_of :: "json \<Rightarrow> string" where
  "original_model_of body = (case jget_str ''model'' body of Some m \<Rightarrow> m | None \<Rightarrow> [])"

text \<open>Steps 1 to 4 on the parsed body; \<open>tr_changed\<close> is the source's test for re-serialising.\<close>

definition transform_json ::
  "hasher \<Rightarrow> nat \<Rightarrow> json \<Rightarrow> backend \<Rightarrow> u64 option \<Rightarrow> registry \<Rightarrow> transformed \<times> registry" where
  "transform_json h now body b sess r =
     (let (body1, mapping) = rewrite_model b body;
          (body2, conv) = (if needs_thinking_compat b then convert_adaptive_thinking body1 (thinking_budget_tokens b)
                           else (body1, None));
          converted = (conv = Some True);
          (body3, filtered, converted3, r') =
            (case sess of None \<Rightarrow> (body2, 0, converted, r)
                           | Some sid \<Rightarrow> filter_thinking h now sid body2 converted r);
          thinking_active = (jget ''thinking'' body3 \<noteq> None);
          (body4, effort_capped) = cap_body_effort b (original_model_of body) body3
      in (\<lparr>tr_json = body4, tr_streaming = is_streaming_request body, tr_mapping = mapping,
           tr_thinking_active = thinking_active,
           tr_changed = (mapping \<noteq> None \<or> converted3 \<or> filtered > 0 \<or> effort_capped \<or> \<not> thinking_active)\<rparr>, r'))"

definition transform_body ::
  "hasher \<Rightarrow> (json \<Rightarrow> string option) \<Rightarrow> nat \<Rightarrow> string \<Rightarrow> json option \<Rightarrow> backend \<Rightarrow> u64 option \<Rightarrow> registry
    \<Rightarrow> (string \<times> bool \<times> model_mapping option \<times> bool) \<times> registry" where
  "transform_body h jprint now bytes parsed b sess r =
     (case parsed of
        None \<Rightarrow> ((bytes, False, None, False), r)
      | Some body \<Rightarrow>
          (case transform_json h now body b sess r of (t, r') \<Rightarrow>
             let out = (if tr_changed t then (case jprint (tr_json t) of Some updated \<Rightarrow> updated | None \<Rightarrow> bytes)
                        else bytes)
             in ((out, tr_streaming t, tr_mapping t, tr_thinking_active t), r')))"

section \<open>Items under field updates\<close>

lemma messages_jinsert [simp]: "k \<noteq> ''messages'' \<Longrightarrow> messages_of (jinsert k v body) = messages_of body"
  by (cases body) (auto simp: messages_of_def jget_arr_def)

lemma messages_jremove [simp]: "k \<noteq> ''messages'' \<Longrightarrow> messages_of (jremove k body) = messages_of body"
  by (simp add: messages_of_def jget_arr_def)

lemma messages_jadjust [simp]: "k \<noteq> ''messages'' \<Longrightarrow> messages_of (jadjust k f body) = messages_of body"
  by (simp add: messages_of_def jget_arr_def jget_jadjust)

lemma items_cong: "messages_of a = messages_of b \<Longrightarrow> items_of a = items_of b"
  by (simp add: items_of_def)

lemma assistant_cong: "messages_of a = messages_of b \<Longrightarrow> has_assistant_messages a = has_assistant_messages b"
  by (simp add: has_assistant_messages_def)

lemma remaining_iff: "has_remaining_thinking_blocks body \<longleftrightarrow> (\<exists>x \<in> set (items_of body). is_thinking_item x)"
  by (auto simp: has_remaining_thinking_blocks_def items_of_def)

lemma role_jadjust_content: "jget_str ''role'' (jadjust ''content'' f m) = jget_str ''role'' m"
  by (simp add: jget_str_def jget_jadjust)

lemma assistant_with_items [simp]: "has_assistant_messages (with_items P body) = has_assistant_messages body"
  by (auto simp: has_assistant_messages_def messages_of_with_items role_jadjust_content)

lemma strip_all_items: "items_of (fst (strip_all_thinking_blocks body)) = filter (\<lambda>x. \<not> is_thinking_item x) (items_of body)"
  by (simp add: strip_all_thinking_blocks_def items_of_with_items)

lemma strip_all_count:
  "snd (strip_all_thinking_blocks body) = of_nat (length (filter is_thinking_item (items_of body)))"
  by (simp add: strip_all_thinking_blocks_def removed_total)

lemma messages_rewrite: "messages_of (fst (rewrite_model b body)) = messages_of body"
  by (simp add: rewrite_model_def split: option.split)

lemma messages_convert: "messages_of (fst (convert_adaptive_thinking body c)) = messages_of body"
  by (simp add: convert_adaptive_thinking_def)

lemma messages_cap: "messages_of (fst (cap_body_effort b m body)) = messages_of body"
  by (simp add: cap_body_effort_def split: option.split)

lemma thinking_cap: "jget ''thinking'' (fst (cap_body_effort b m body)) = jget ''thinking'' body"
  by (simp add: cap_body_effort_def jget_jadjust split: option.split)

section \<open>All or nothing\<close>

lemma filter_thinking_cases:
  assumes "registry_ok r" "length (items_of body) < 2 ^ 32" "filter_thinking h now sid body converted r = (body', n, c, r')"
  obtains (stripped) "\<forall>x \<in> set (items_of body'). \<not> is_thinking_item x" "jget ''thinking'' body' = None"
      "has_assistant_messages body"
    | (untouched) "n = 0" "c = converted" "body' = body" "\<forall>x \<in> set (items_of body). admissible h r x"
    | (first_turn) "n > 0" "\<not> has_assistant_messages body"
proof -
  obtain body1 f where sf: "session_filter h now sid body r = (body1, f, r')"
    using assms(3) by (auto simp: filter_thinking_def Let_def split: prod.splits if_splits)
  have b1: "body1 = with_items (admissible h r) body"
    and f: "f = of_nat (length (filter (\<lambda>x. \<not> admissible h r x) (items_of body)))"
    using filter_request_items[OF assms(1), of h now body] sf by (auto simp: session_filter_def)
  have asst: "has_assistant_messages body1 = has_assistant_messages body" using b1 by simp
  show thesis
  proof (cases "has_assistant_messages body1 \<and> (f > 0 \<or> \<not> has_remaining_thinking_blocks body1)")
    case True
    then have "body' = jremove ''thinking'' (fst (strip_all_thinking_blocks body1))"
      using assms(3) sf by (auto simp: filter_thinking_def Let_def split: prod.splits)
    then have "items_of body' = filter (\<lambda>x. \<not> is_thinking_item x) (items_of body1)" "jget ''thinking'' body' = None"
      using strip_all_items[of body1] items_cong[of body' "fst (strip_all_thinking_blocks body1)"] by auto
    then show thesis using True asst by (intro stripped) auto
  next
    case False
    then have eq: "body' = body1" "n = f" "c = converted" using assms(3) sf by (auto simp: filter_thinking_def)
    show thesis
    proof (cases "f = 0")
      case True
      have "length (filter (\<lambda>x. \<not> admissible h r x) (items_of body)) < 2 ^ 32"
        using assms(2) le_less_trans length_filter_le by blast
      then have "filter (\<lambda>x. \<not> admissible h r x) (items_of body) = []"
        using True f by (simp add: word_unat_eq_iff unat_of_nat)
      then have adm: "\<forall>x \<in> set (items_of body). admissible h r x" by (simp add: filter_empty_conv)
      then have "body1 = body" using b1 with_items_all by metis
      then show thesis using eq adm True by (intro untouched) auto
    next
      case False
      then show thesis using \<open>\<not> (_ \<and> _)\<close> asst eq by (intro first_turn) (auto simp: word_gt_0)
    qed
  qed
qed

lemma transform_json_cases:
  assumes "transform_json h now body b sess r = (t, r')"
  obtains body1 mapping body2 conv body3 filtered conv3 body4 capped where
    "rewrite_model b body = (body1, mapping)"
    "(if needs_thinking_compat b then convert_adaptive_thinking body1 (thinking_budget_tokens b) else (body1, None)) = (body2, conv)"
    "(case sess of None \<Rightarrow> (body2, 0, conv = Some True, r) | Some sid \<Rightarrow> filter_thinking h now sid body2 (conv = Some True) r)
       = (body3, filtered, conv3, r')"
    "cap_body_effort b (original_model_of body) body3 = (body4, capped)"
    "t = \<lparr>tr_json = body4, tr_streaming = is_streaming_request body, tr_mapping = mapping,
          tr_thinking_active = (jget ''thinking'' body3 \<noteq> None),
          tr_changed = (mapping \<noteq> None \<or> conv3 \<or> filtered > 0 \<or> capped \<or> \<not> jget ''thinking'' body3 \<noteq> None)\<rparr>"
proof -
  obtain body1 mapping where 1: "rewrite_model b body = (body1, mapping)" by fastforce
  obtain body2 conv where 2: "(if needs_thinking_compat b then convert_adaptive_thinking body1 (thinking_budget_tokens b)
      else (body1, None)) = (body2, conv)" by fastforce
  obtain body3 filtered conv3 r3 where 3: "(case sess of None \<Rightarrow> (body2, 0, conv = Some True, r)
      | Some sid \<Rightarrow> filter_thinking h now sid body2 (conv = Some True) r) = (body3, filtered, conv3, r3)" by (metis prod_cases4)
  obtain body4 capped where 4: "cap_body_effort b (original_model_of body) body3 = (body4, capped)" by fastforce
  have "r3 = r'" "t = \<lparr>tr_json = body4, tr_streaming = is_streaming_request body, tr_mapping = mapping,
          tr_thinking_active = (jget ''thinking'' body3 \<noteq> None),
          tr_changed = (mapping \<noteq> None \<or> conv3 \<or> filtered > 0 \<or> capped \<or> \<not> jget ''thinking'' body3 \<noteq> None)\<rparr>"
    using assms unfolding transform_json_def Let_def 1 prod.case 2 3 4 by simp_all
  then show thesis using that 1 2 3 4 by blast
qed

lemma step2_messages:
  "(if needs_thinking_compat b then convert_adaptive_thinking body c else (body, None)) = (body2, conv) \<Longrightarrow>
   messages_of body2 = messages_of body"
  using messages_convert[of body c] by (auto split: if_splits)

lemma step2_unchanged:
  "(if needs_thinking_compat b then convert_adaptive_thinking body c else (body, None)) = (body2, conv) \<Longrightarrow>
   conv \<noteq> Some True \<Longrightarrow> body2 = body"
  by (auto simp: convert_adaptive_thinking_def split: if_splits)

lemma rewrite_unchanged: "rewrite_model b body = (body1, None) \<Longrightarrow> body1 = body"
  by (auto simp: rewrite_model_def split: option.splits)

lemma cap_unchanged: "cap_body_effort b m body = (body1, False) \<Longrightarrow> body1 = body"
  by (auto simp: cap_body_effort_def split: option.splits)

text \<open>C6: a conversation sent upstream is consistent about thinking: when a request of the main agent has a
  history, either all its thinking blocks are valid for the current session and all are kept, or
  none is left and the \<open>thinking\<close> field is gone too.\<close>

theorem thinking_all_or_nothing:
  assumes "registry_ok r" "length (items_of body) < 2 ^ 32" "has_assistant_messages body"
    and "transform_json h now body b (Some sid) r = (t, r')"
  shows "(items_of (tr_json t) = items_of body \<and> (\<forall>x \<in> set (items_of body). is_thinking_item x \<longrightarrow> admissible h r x))
       \<or> ((\<forall>x \<in> set (items_of (tr_json t)). \<not> is_thinking_item x) \<and> jget ''thinking'' (tr_json t) = None
          \<and> \<not> tr_thinking_active t)"
proof -
  obtain body1 mapping body2 conv body3 filtered conv3 body4 capped where st:
    "rewrite_model b body = (body1, mapping)"
    "(if needs_thinking_compat b then convert_adaptive_thinking body1 (thinking_budget_tokens b) else (body1, None)) = (body2, conv)"
    "filter_thinking h now sid body2 (conv = Some True) r = (body3, filtered, conv3, r')"
    "cap_body_effort b (original_model_of body) body3 = (body4, capped)"
    "tr_json t = body4" "tr_thinking_active t = (jget ''thinking'' body3 \<noteq> None)"
    using assms(4) by (rule transform_json_cases) auto
  have m2: "messages_of body2 = messages_of body"
    using step2_messages[OF st(2)] messages_rewrite[of b body] st(1) by simp
  have i2: "items_of body2 = items_of body" by (rule items_cong[OF m2])
  have i4: "items_of body4 = items_of body3" "jget ''thinking'' body4 = jget ''thinking'' body3"
    using messages_cap[of b "original_model_of body" body3] thinking_cap[of b "original_model_of body" body3] st(4)
    by (auto intro: items_cong)
  have len: "length (items_of body2) < 2 ^ 32" using assms(2) i2 by simp
  show ?thesis
    using assms(1) len st(3)
  proof (cases rule: filter_thinking_cases)
    case stripped
    then show ?thesis using i4 st(5,6) by simp
  next
    case untouched
    then show ?thesis using i4 st(5,6) i2 by simp
  next
    case first_turn
    then show ?thesis using assms(3) assistant_cong[OF m2] by simp
  qed
qed

definition mixed_turn :: json where
  "mixed_turn = one_turn [think_item ''abc'', JObj [(''type'', JStr ''text''), (''text'', JStr ''hi'')]]"

theorem thinking_all_or_nothing_witness:
  "filter is_thinking_item
     (items_of (tr_json (fst (transform_json len_hash 0 mixed_turn default_backend (Some 0) new_registry)))) = []"
proof -
  obtain t r' where t: "transform_json len_hash 0 mixed_turn default_backend (Some 0) new_registry = (t, r')" by fastforce
  have "length (items_of mixed_turn) < 2 ^ 32" "has_assistant_messages mixed_turn"
    "think_item ''abc'' \<in> set (items_of mixed_turn)" "is_thinking_item (think_item ''abc'')"
    "\<not> admissible len_hash new_registry (think_item ''abc'')"
    by (simp_all add: mixed_turn_def one_turn_def items_of_def messages_of_def content_of_def jget_arr_def jget_str_def
        has_assistant_messages_def think_item_def is_thinking_item_def admissible_def new_registry_def with_orphan_threshold_def)
  then show ?thesis using thinking_all_or_nothing[OF registry_ok_new _ _ t] t by (auto simp: filter_empty_conv)
qed

text \<open>Nothing is lost between the transformed body and the bytes sent: when the transformation does not
  re-serialise, the body it would send is the parsed body itself, so the original bytes stand for it.\<close>

theorem original_bytes_stand:
  assumes "registry_ok r" "length (items_of body) < 2 ^ 32"
    and "transform_json h now body b sess r = (t, r')" "\<not> tr_changed t"
  shows "tr_json t = body"
proof -
  obtain body1 mapping body2 conv body3 filtered conv3 body4 capped where st:
    "rewrite_model b body = (body1, mapping)"
    "(if needs_thinking_compat b then convert_adaptive_thinking body1 (thinking_budget_tokens b) else (body1, None)) = (body2, conv)"
    "(case sess of None \<Rightarrow> (body2, 0, conv = Some True, r) | Some sid \<Rightarrow> filter_thinking h now sid body2 (conv = Some True) r)
       = (body3, filtered, conv3, r')"
    "cap_body_effort b (original_model_of body) body3 = (body4, capped)"
    "tr_json t = body4"
    "tr_changed t = (mapping \<noteq> None \<or> conv3 \<or> filtered > 0 \<or> capped \<or> \<not> jget ''thinking'' body3 \<noteq> None)"
    using assms(3) by (rule transform_json_cases) auto
  have no: "mapping = None" "\<not> conv3" "filtered = 0" "\<not> capped" "jget ''thinking'' body3 \<noteq> None"
    using st(6) assms(4) by (auto simp: word_gt_0)
  have b1: "body1 = body" using rewrite_unchanged st(1) no(1) by simp
  have b4: "body4 = body3" using cap_unchanged st(4) no(4) by simp
  have "length (items_of body2) < 2 ^ 32" using assms(2) items_cong[OF step2_messages[OF st(2)]] b1 by simp
  then have "body3 = body2 \<and> conv \<noteq> Some True"
  proof (cases sess)
    case None
    then show ?thesis using st(3) no by auto
  next
    case (Some sid)
    then have ft: "filter_thinking h now sid body2 (conv = Some True) r = (body3, filtered, conv3, r')" using st(3) by simp
    show ?thesis
      using assms(1) \<open>length (items_of body2) < 2 ^ 32\<close> ft
      by (cases rule: filter_thinking_cases) (use no in auto)
  qed
  then show ?thesis using step2_unchanged[OF st(2)] b1 b4 st(5) by simp
qed

theorem original_bytes_stand_witness:
  "tr_json (fst (transform_json len_hash 0 (JObj [(''thinking'', JNull)]) default_backend None new_registry))
     = JObj [(''thinking'', JNull)]"
proof -
  obtain t r' where t: "transform_json len_hash 0 (JObj [(''thinking'', JNull)]) default_backend None new_registry = (t, r')" by fastforce
  have "\<not> tr_changed (fst (transform_json len_hash 0 (JObj [(''thinking'', JNull)]) default_backend None new_registry))"
    by code_simp
  moreover have "length (items_of (JObj [(''thinking'', JNull)])) < 2 ^ 32" by (simp add: items_of_def messages_of_def jget_arr_def)
  ultimately show ?thesis using original_bytes_stand[OF registry_ok_new _ t] t by simp
qed

text \<open>The adaptive conversion gives the backend a budget: the configured one, or one less than the
  request's \<open>max_tokens\<close> reduced modulo \<open>2^32\<close>, or 10000; and it touches no other field.\<close>

theorem convert_adaptive_spec:
  assumes "nested_type body = Some ''adaptive''"
  shows "snd (convert_adaptive_thinking body cfgd) = Some True
       \<and> nested_type (fst (convert_adaptive_thinking body cfgd)) = Some ''enabled''
       \<and> (\<forall>k. k \<noteq> ''thinking'' \<longrightarrow> jget k (fst (convert_adaptive_thinking body cfgd)) = jget k body)
       \<and> (cfgd = None \<and> jget_u64 ''max_tokens'' body = Some mt \<longrightarrow>
            unat (thinking_budget body cfgd) = (unat mt - 1) mod 2 ^ 32)"
proof -
  have "is_object body" using assms by (auto simp: nested_type_def bind_eq_Some_conv dest: jget_Some_object)
  moreover have "unat (ucast (sat_sub mt 1) :: u32) = (unat mt - 1) mod 2 ^ 32"
    using unat_sat_sub[of mt 1] by (simp add: unsigned_ucast_eq take_bit_eq_mod)
  ultimately show ?thesis using assms
    by (auto simp: convert_adaptive_thinking_def nested_type_def jget_str_def thinking_budget_def)
qed

theorem convert_adaptive_spec_witness:
  "unat (thinking_budget (JObj [(''thinking'', JObj [(''type'', JStr ''adaptive'')]), (''max_tokens'', JNum (PosInt 32000))]) None) = 31999"
  using convert_adaptive_spec[of "JObj [(''thinking'', JObj [(''type'', JStr ''adaptive'')]), (''max_tokens'', JNum (PosInt 32000))]" None 32000]
  by (simp add: nested_type_def jget_str_def jget_u64_def)

end
