(* ===== verification/Retry400.thy ===== *)
theory Retry400
  imports Transform Headers Forward
begin

text \<open>
  The single automatic retry after a 400 (\<open>backend_400_auto_retry\<close>, \<open>retry_with_body\<close>,
  \<open>rebuild_response\<close> and the effort readers in \<open>src/proxy/pipeline/mod.rs\<close>).  The retry itself is the
  parameter \<open>resend\<close>: the response to the new headers and body, \<open>None\<close> when sending fails.  Writing
  through \<open>json["a"]["b"]\<close> panics on a value that is neither an object nor \<open>null\<close>: \<open>None\<close> of
  \<open>index_set\<close>, \<open>Inl\<close> of the whole.
\<close>

record upstream_response =
  up_status :: nat
  up_headers :: "(string \<times> string) list"
  up_body :: string

datatype index_panic = IndexPanic

fun index_set :: "string \<Rightarrow> (json \<Rightarrow> json option) \<Rightarrow> json \<Rightarrow> json option" where
  "index_set k f JNull = map_option (\<lambda>v. JObj [(k, v)]) (f JNull)"
| "index_set k f (JObj kvs) =
     map_option (\<lambda>v. JObj (AList.update k v kvs)) (f (case map_of kvs k of Some v \<Rightarrow> v | None \<Rightarrow> JNull))"
| "index_set k f _ = None"

definition set_effort :: "string \<Rightarrow> json \<Rightarrow> json option" where
  "set_effort m = index_set ''output_config'' (index_set ''effort'' (\<lambda>_. Some (JStr m)))"

definition rebuild_response :: "nat \<Rightarrow> (string \<times> string) list \<Rightarrow> string \<Rightarrow> upstream_response" where
  "rebuild_response status headers body = \<lparr>up_status = status, up_headers = [], up_body = body\<rparr>"

definition trim_quotes :: "string \<Rightarrow> string" where
  "trim_quotes s = rev (dropWhile (\<lambda>c. c = CHR 0x22) (rev (dropWhile (\<lambda>c. c = CHR 0x22) s)))"

definition effort_ranks :: "string list" where
  "effort_ranks = [''low'', ''medium'', ''high'', ''xhigh'']"

fun index_in :: "'a \<Rightarrow> 'a list \<Rightarrow> nat option" where
  "index_in x [] = None"
| "index_in x (y # ys) = (if y = x then Some 0 else map_option Suc (index_in x ys))"

text \<open>\<open>max_by_key\<close>: the last of the elements with the largest key.\<close>

fun max_by_rank :: "(nat \<times> string) list \<Rightarrow> (nat \<times> string) option" where
  "max_by_rank [] = None"
| "max_by_rank (x # xs) =
     (case max_by_rank xs of None \<Rightarrow> Some x | Some y \<Rightarrow> if fst x \<le> fst y then Some y else Some x)"

definition listed_efforts :: "string \<Rightarrow> string list" where
  "listed_efforts xs = map (\<lambda>s. trim_quotes (str_trim s)) (split_on (\<lambda>c. c = CHR '','') xs)"

definition bracket_list :: "string \<Rightarrow> string option" where
  "bracket_list body =
     (case str_find ''['' body of
        None \<Rightarrow> None
      | Some i \<Rightarrow>
          let rest = drop (i + 1) body in
          (case str_find '']'' rest of None \<Rightarrow> None | Some e \<Rightarrow> Some (take e rest)))"

definition parse_max_supported_effort :: "string \<Rightarrow> string option" where
  "parse_max_supported_effort body =
     (case bracket_list body of
        None \<Rightarrow> None
      | Some l \<Rightarrow>
          map_option snd (max_by_rank
            (List.map_filter (\<lambda>s. map_option (\<lambda>rank. (rank, s)) (index_in s effort_ranks)) (listed_efforts l))))"

definition strip_beta_headers :: "out_headers \<Rightarrow> out_headers" where
  "strip_beta_headers hs = List.map_filter (\<lambda>(n, v).
     if str_lower n = ''anthropic-beta'' then
       (let stripped = strip_thinking_from_beta_header v in if stripped = [] then None else Some (n, stripped))
     else Some (n, v)) hs"

definition disable_thinking :: "json \<Rightarrow> json" where
  "disable_thinking j = with_items (\<lambda>x. \<not> is_thinking_item x) (jremove ''thinking'' j)"

definition make_adaptive :: "json \<Rightarrow> json" where
  "make_adaptive j =
     (if nested_type j = Some ''enabled'' then jinsert ''thinking'' (JObj [(''type'', JStr ''adaptive'')]) j else j)"

text \<open>The rewritten request of each case: \<open>Inr None\<close> passes the 400 through.\<close>

definition rewritten ::
  "(json \<Rightarrow> string option) \<Rightarrow> json option option \<Rightarrow> out_headers \<Rightarrow> index_panic + (out_headers \<times> string) option" where
  "rewritten jprint j headers =
     (case j of
        None \<Rightarrow> Inr None
      | Some None \<Rightarrow> Inl IndexPanic
      | Some (Some j') \<Rightarrow> Inr (map_option (Pair headers) (jprint j')))"

definition retry_plan ::
  "(string \<Rightarrow> json option) \<Rightarrow> (json \<Rightarrow> string option) \<Rightarrow> string \<Rightarrow> out_headers \<Rightarrow> string
    \<Rightarrow> index_panic + (out_headers \<times> string) option" where
  "retry_plan jparse jprint body_text headers body_bytes =
     (if str_contains ''invalid_reasoning_effort'' body_text then
        (case parse_max_supported_effort body_text of
           None \<Rightarrow> Inr None
         | Some m \<Rightarrow> rewritten jprint (map_option (set_effort m) (jparse body_bytes)) headers)
      else if str_contains ''thinking.type'' body_text \<and> str_contains ''enabled'' body_text
              \<and> str_contains ''adaptive'' body_text then
        rewritten jprint (map_option (\<lambda>j. Some (make_adaptive j)) (jparse body_bytes)) headers
      else if str_contains ''content[].thinking'' body_text then
        rewritten jprint (map_option (\<lambda>j. Some (disable_thinking j)) (jparse body_bytes)) (strip_beta_headers headers)
      else Inr None)"

text \<open>The retry decides about its time limit by the new body.\<close>

definition retry_timeout :: "(string \<Rightarrow> json option) \<Rightarrow> retry_config \<Rightarrow> string \<Rightarrow> u64 option" where
  "retry_timeout jparse rc new_body =
     request_timeout (case jparse new_body of Some j \<Rightarrow> is_streaming_request j | None \<Rightarrow> False) rc"

definition retry_with_body ::
  "(out_headers \<Rightarrow> string \<Rightarrow> upstream_response option) \<Rightarrow> out_headers \<Rightarrow> string \<Rightarrow> upstream_response \<Rightarrow> string \<Rightarrow> upstream_response" where
  "retry_with_body resend headers new_body orig orig_body =
     (case resend headers new_body of
        Some r \<Rightarrow> r
      | None \<Rightarrow> rebuild_response (up_status orig) (up_headers orig) orig_body)"

definition backend_400_auto_retry ::
  "(string \<Rightarrow> json option) \<Rightarrow> (json \<Rightarrow> string option) \<Rightarrow> upstream_response \<Rightarrow> string option \<Rightarrow> out_headers \<Rightarrow> string
    \<Rightarrow> (out_headers \<Rightarrow> string \<Rightarrow> upstream_response option) \<Rightarrow> index_panic + upstream_response" where
  "backend_400_auto_retry jparse jprint resp body_text headers body_bytes resend =
     (case body_text of
        None \<Rightarrow> Inr (rebuild_response (up_status resp) (up_headers resp) [])
      | Some text \<Rightarrow>
          (case retry_plan jparse jprint text headers body_bytes of
             Inl p \<Rightarrow> Inl p
           | Inr None \<Rightarrow> Inr (rebuild_response (up_status resp) (up_headers resp) text)
           | Inr (Some (hs, bs)) \<Rightarrow> Inr (retry_with_body resend hs bs resp text)))"

section \<open>Properties\<close>

lemma max_by_rank_spec:
  "max_by_rank xs = Some m \<Longrightarrow> m \<in> set xs \<and> (\<forall>x \<in> set xs. fst x \<le> fst m)"
proof (induction xs arbitrary: m)
  case Nil
  then show ?case by simp
next
  case (Cons x xs)
  show ?case
  proof (cases "max_by_rank xs")
    case None
    then have "xs = []" by (cases xs) (simp_all split: option.splits if_splits)
    then show ?thesis using Cons.prems by simp
  next
    case (Some y)
    then have "y \<in> set xs" "\<forall>z \<in> set xs. fst z \<le> fst y" using Cons.IH by auto
    then show ?thesis using Cons.prems Some by (cases "fst x \<le> fst y") auto
  qed
qed

lemma max_by_rank_None: "max_by_rank xs = None \<longleftrightarrow> xs = []"
  by (cases xs) (auto split: option.splits)

lemma map_filter_set: "x \<in> set (List.map_filter f xs) \<longleftrightarrow> (\<exists>y \<in> set xs. f y = Some x)"
  by (force simp: map_filter_def)

text \<open>The effort for the retry is the best the backend named: it is in the error's list, it is a known
  level, and no known level of the list ranks higher; there is none only when the list has no known
  level.\<close>

theorem retry_effort_best:
  assumes "bracket_list body = Some l"
  shows "(case parse_max_supported_effort body of
            None \<Rightarrow> \<forall>s \<in> set (listed_efforts l). index_in s effort_ranks = None
          | Some m \<Rightarrow> m \<in> set (listed_efforts l) \<and> (\<exists>k. index_in m effort_ranks = Some k \<and>
              (\<forall>s \<in> set (listed_efforts l). \<forall>j. index_in s effort_ranks = Some j \<longrightarrow> j \<le> k)))"
proof -
  let ?xs = "List.map_filter (\<lambda>s. map_option (\<lambda>rank. (rank, s)) (index_in s effort_ranks)) (listed_efforts l)"
  have mem: "(k, s) \<in> set ?xs \<longleftrightarrow> s \<in> set (listed_efforts l) \<and> index_in s effort_ranks = Some k" for k s
    by (auto simp: map_filter_set)
  have p: "parse_max_supported_effort body = map_option snd (max_by_rank ?xs)"
    using assms by (simp add: parse_max_supported_effort_def)
  show ?thesis
  proof (cases "max_by_rank ?xs")
    case None
    then have "?xs = []" by (simp add: max_by_rank_None)
    have "index_in s effort_ranks = None" if "s \<in> set (listed_efforts l)" for s
      using mem[of _ s] that \<open>?xs = []\<close> by (cases "index_in s effort_ranks") auto
    then show ?thesis using p None by simp
  next
    case (Some m)
    obtain k s where ks: "m = (k, s)" by (cases m)
    have "(k, s) \<in> set ?xs" "\<forall>x \<in> set ?xs. fst x \<le> k" using max_by_rank_spec[OF Some] ks by auto
    then have "s \<in> set (listed_efforts l) \<and> index_in s effort_ranks = Some k"
      "\<forall>t \<in> set (listed_efforts l). \<forall>j. index_in t effort_ranks = Some j \<longrightarrow> j \<le> k"
      using mem by (simp, fastforce)
    then show ?thesis using p Some ks by simp
  qed
qed

theorem retry_effort_best_witness:
  "parse_max_supported_effort ''x [low, high, medium]'' \<noteq> Some ''low''"
proof -
  have "bracket_list ''x [low, high, medium]'' = Some ''low, high, medium''" by code_simp
  from retry_effort_best[OF this] have best: "case parse_max_supported_effort ''x [low, high, medium]'' of
      None \<Rightarrow> \<forall>s \<in> set (listed_efforts ''low, high, medium''). index_in s effort_ranks = None
    | Some m \<Rightarrow> m \<in> set (listed_efforts ''low, high, medium'') \<and> (\<exists>k. index_in m effort_ranks = Some k \<and>
        (\<forall>s \<in> set (listed_efforts ''low, high, medium''). \<forall>j. index_in s effort_ranks = Some j \<longrightarrow> j \<le> k))" .
  have "''high'' \<in> set (listed_efforts ''low, high, medium'')" "index_in ''high'' effort_ranks = Some 2"
    "index_in ''low'' effort_ranks = Some 0" by code_simp+
  then show ?thesis using best by fastforce
qed

lemma strip_beta_clean:
  assumes "(n, v) \<in> set (strip_beta_headers hs)" "str_lower n = ''anthropic-beta''"
  shows "\<forall>p \<in> set (split_on (\<lambda>c. c = CHR '','') v). \<not> is_adaptive_flag p \<and> \<not> is_interleaved_flag p"
proof -
  obtain w where w: "v = strip_thinking_from_beta_header w" "v \<noteq> []"
    using assms by (auto simp: strip_beta_headers_def map_filter_set Let_def split: if_splits)
  let ?k = "filter (\<lambda>p. \<not> is_adaptive_flag p \<and> \<not> is_interleaved_flag p) (beta_parts w)"
  have "?k \<noteq> []" using w by (auto simp: strip_thinking_from_beta_header_def)
  then have "split_on (\<lambda>c. c = CHR '','') v = ?k"
    using split_join_comma[of ?k] beta_parts_no_comma[of _ w] w(1) by (auto simp: strip_thinking_from_beta_header_def)
  then show ?thesis by auto
qed

text \<open>The retry for missing thinking blocks turns thinking off everywhere: its body has no thinking
  block and no \<open>thinking\<close> field, and no \<open>anthropic-beta\<close> header of it names a thinking flag.\<close>

theorem thinking_retry_clean:
  assumes "str_contains ''content[].thinking'' text" "\<not> str_contains ''invalid_reasoning_effort'' text"
    and "\<not> (str_contains ''thinking.type'' text \<and> str_contains ''enabled'' text \<and> str_contains ''adaptive'' text)"
    and "retry_plan jparse jprint text headers bytes = Inr (Some (hs, bs))"
  shows "\<exists>j j'. jparse bytes = Some j \<and> jprint j' = Some bs
     \<and> (\<forall>x \<in> set (items_of j'). \<not> is_thinking_item x) \<and> jget ''thinking'' j' = None
     \<and> (\<forall>(n, v) \<in> set hs. str_lower n = ''anthropic-beta'' \<longrightarrow>
          (\<forall>p \<in> set (split_on (\<lambda>c. c = CHR '','') v). \<not> is_adaptive_flag p \<and> \<not> is_interleaved_flag p))"
proof -
  obtain j where j: "jparse bytes = Some j" "jprint (disable_thinking j) = Some bs" "hs = strip_beta_headers headers"
    using assms by (auto simp: retry_plan_def rewritten_def split: option.splits)
  have "\<forall>x \<in> set (items_of (disable_thinking j)). \<not> is_thinking_item x"
    by (simp add: disable_thinking_def items_of_with_items)
  moreover have "jget ''thinking'' (disable_thinking j) = None"
    by (simp add: disable_thinking_def with_items_def jget_jadjust)
  ultimately show ?thesis using j strip_beta_clean by blast
qed

theorem thinking_retry_clean_witness:
  "\<exists>hs bs. retry_plan (\<lambda>_. Some mixed_turn) (\<lambda>_. Some ''{}'') ''content[].thinking'' [(''anthropic-beta'', ''interleaved-thinking-1'')] ''{}''
      = Inr (Some (hs, bs)) \<and> (\<forall>(n, v) \<in> set hs. str_lower n = ''anthropic-beta'' \<longrightarrow>
          (\<forall>p \<in> set (split_on (\<lambda>c. c = CHR '','') v). \<not> is_interleaved_flag p))"
proof -
  let ?p = "retry_plan (\<lambda>_. Some mixed_turn) (\<lambda>_. Some ''{}'') ''content[].thinking'' [(''anthropic-beta'', ''interleaved-thinking-1'')] ''{}''"
  have "?p = Inr (Some ([], ''{}''))" by code_simp
  moreover have "str_contains ''content[].thinking'' ''content[].thinking''" "\<not> str_contains ''invalid_reasoning_effort'' ''content[].thinking''"
    "\<not> str_contains ''thinking.type'' ''content[].thinking''" by code_simp+
  ultimately show ?thesis
    using thinking_retry_clean[of "''content[].thinking''" "\<lambda>_. Some mixed_turn" "\<lambda>_. Some ''{}''"
        "[(''anthropic-beta'', ''interleaved-thinking-1'')]" "''{}''" "[]" "''{}''"] by auto
qed

text \<open>The client gets the original error or the one retry's answer: without a panic, the result is the
  response to exactly the planned request, or the original status and error text; but the original
  response headers are lost whenever it is put back.\<close>

theorem auto_retry_result:
  assumes "backend_400_auto_retry jparse jprint resp (Some text) headers bytes resend = Inr r"
  shows "(\<exists>hs bs. retry_plan jparse jprint text headers bytes = Inr (Some (hs, bs)) \<and> resend hs bs = Some r)
       \<or> (up_status r = up_status resp \<and> up_body r = text \<and> up_headers r = [])"
  using assms by (auto simp: backend_400_auto_retry_def retry_with_body_def rebuild_response_def split: sum.splits option.splits)

theorem auto_retry_result_witness:
  "\<exists>r. backend_400_auto_retry (\<lambda>_. None) (\<lambda>_. None) \<lparr>up_status = 400, up_headers = [(''a'', ''b'')], up_body = ''bad''\<rparr>
        (Some ''bad'') [] [] (\<lambda>_ _. None) = Inr r \<and> up_headers r = []"
proof -
  let ?x = "backend_400_auto_retry (\<lambda>_. None) (\<lambda>_. None) \<lparr>up_status = 400, up_headers = [(''a'', ''b'')], up_body = ''bad''\<rparr>
        (Some ''bad'') [] [] (\<lambda>_ _. None)"
  have p: "retry_plan (\<lambda>_. None) (\<lambda>_. None) ''bad'' [] [] = Inr None" by code_simp
  then obtain r where "?x = Inr r" by (simp add: backend_400_auto_retry_def)
  then show ?thesis using auto_retry_result[of "\<lambda>_. None" "\<lambda>_. None" _ "''bad''" "[]" "[]" "\<lambda>_ _. None" r] p by auto
qed

text \<open>The effort retry stops the process on a request whose \<open>output_config\<close> is not an object: the
  write through two keys has no error branch.\<close>

theorem effort_retry_panics:
  assumes "str_contains ''invalid_reasoning_effort'' text" "parse_max_supported_effort text = Some m"
    and "jparse bytes = Some (JObj kvs)" "map_of kvs ''output_config'' = Some v" "v \<noteq> JNull" "\<not> is_object v"
  shows "backend_400_auto_retry jparse jprint resp (Some text) headers bytes resend = Inl IndexPanic"
proof -
  have "index_set ''effort'' (\<lambda>_. Some (JStr m)) v = None" using assms(5,6) by (cases v) auto
  then show ?thesis using assms by (simp add: backend_400_auto_retry_def retry_plan_def rewritten_def set_effort_def)
qed

theorem effort_retry_panics_witness:
  "backend_400_auto_retry (\<lambda>_. Some (JObj [(''output_config'', JStr ''x'')])) (\<lambda>_. None)
     \<lparr>up_status = 400, up_headers = [], up_body = []\<rparr> (Some ''invalid_reasoning_effort [low]'') [] [] (\<lambda>_ _. None) = Inl IndexPanic"
proof -
  have "str_contains ''invalid_reasoning_effort'' ''invalid_reasoning_effort [low]''"
    "parse_max_supported_effort ''invalid_reasoning_effort [low]'' = Some ''low''" by code_simp+
  then show ?thesis by (rule effort_retry_panics[where v = "JStr ''x''" and kvs = "[(''output_config'', JStr ''x'')]"]) simp_all
qed

section \<open>The time limit of the retry\<close>

lemma stream_index_set: "k \<noteq> ''stream'' \<Longrightarrow> index_set k f j = Some j' \<Longrightarrow> is_streaming_request j' = is_streaming_request j"
  by (cases j) (auto simp: is_streaming_request_def update_conv')

lemma stream_cong: "jget ''stream'' j' = jget ''stream'' j \<Longrightarrow> is_streaming_request j' = is_streaming_request j"
  by (simp add: is_streaming_request_def)

lemma stream_adaptive: "is_streaming_request (make_adaptive j) = is_streaming_request j"
proof (rule stream_cong)
  show "jget ''stream'' (make_adaptive j) = jget ''stream'' j"
    by (cases j) (simp_all add: make_adaptive_def update_conv')
qed

lemma stream_disabled: "is_streaming_request (disable_thinking j) = is_streaming_request j"
proof (rule stream_cong)
  show "jget ''stream'' (disable_thinking j) = jget ''stream'' j"
    unfolding disable_thinking_def with_items_def jget_jadjust jget_jremove by simp
qed

lemmas stream_rewrites = stream_adaptive stream_disabled

text \<open>The retry of a request is limited exactly as the request was: whatever the upstream complained about, a streamed
  answer gets no time limit and a whole one keeps it.\<close>

theorem retry_keeps_time_limit:
  assumes "retry_plan jparse jprint text hs body = Inr (Some (hs', body'))" "jparse body = Some j"
    and "\<forall>v s. jprint v = Some s \<longrightarrow> jparse s = Some v"
  shows "retry_timeout jparse rc body' = request_timeout (is_streaming_request j) rc"
proof -
  have r: "\<exists>j'. jprint j' = Some body' \<and> x = Some j'"
    if "rewritten jprint (Some x) hs0 = Inr (Some (hs', body'))" for x hs0
    using that by (cases x) (auto simp: rewritten_def)
  consider m where "rewritten jprint (Some (set_effort m j)) hs = Inr (Some (hs', body'))"
    | "rewritten jprint (Some (Some (make_adaptive j))) hs = Inr (Some (hs', body'))"
    | "rewritten jprint (Some (Some (disable_thinking j))) (strip_beta_headers hs) = Inr (Some (hs', body'))"
    using assms(1) unfolding retry_plan_def assms(2) option.map by (fastforce split: if_splits option.splits)
  then obtain j' where j': "jprint j' = Some body'" "is_streaming_request j' = is_streaming_request j"
  proof cases
    case (1 m)
    then obtain j' where p: "jprint j' = Some body'" "set_effort m j = Some j'" using r by blast
    have "is_streaming_request j' = is_streaming_request j"
      by (rule stream_index_set[OF _ p(2)[unfolded set_effort_def]]) simp
    then show ?thesis using that p(1) by blast
  qed (use r stream_rewrites that in blast)+
  then show ?thesis using assms(3) by (simp add: retry_timeout_def)
qed

definition streamed_body :: json where
  "streamed_body = JObj [(''stream'', JBool True), (''thinking'', JObj [(''type'', JStr ''enabled'')])]"

theorem retry_keeps_time_limit_witness:
  "retry_timeout (\<lambda>s. if s = ''b'' then Some streamed_body else if s = ''r'' then Some (make_adaptive streamed_body) else None)
     \<lparr>rc_max_retries = 3, rc_backoff_base = 100, rc_request_timeout_secs = 30\<rparr> ''r'' = None"
proof -
  let ?parse = "\<lambda>s. if s = ''b'' then Some streamed_body else if s = ''r'' then Some (make_adaptive streamed_body) else None"
  let ?print = "\<lambda>v. if v = make_adaptive streamed_body then Some ''r'' else None"
  have t: "str_contains ''invalid_reasoning_effort'' ''thinking.type enabled adaptive'' = False"
    "str_contains ''thinking.type'' ''thinking.type enabled adaptive''" "str_contains ''enabled'' ''thinking.type enabled adaptive''"
    "str_contains ''adaptive'' ''thinking.type enabled adaptive''" by code_simp+
  have "retry_plan ?parse ?print ''thinking.type enabled adaptive'' [] ''b'' = Inr (Some ([], ''r''))"
    by (simp add: retry_plan_def t rewritten_def)
  from retry_keeps_time_limit[OF this] show ?thesis
    by (simp add: request_timeout_def is_streaming_request_def streamed_body_def)
qed

end
