(* ===== verification/ModelRewrite.thy ===== *)
theory ModelRewrite
  imports Transform
begin

text \<open>
  Reverse model mapping (\<open>src/proxy/model_rewrite.rs\<close>): the stateful rewriter of streamed chunks and
  the rewriting of a whole response.  The rewriter's state is the flag \<open>anthropic_done\<close>; the loop over
  the lines of a chunk carries the output so far, whether a model was replaced, and the flag.
\<close>

definition is_msg_start :: "json \<Rightarrow> bool" where
  "is_msg_start j \<longleftrightarrow> jget_str ''type'' j = Some ''message_start''"

definition is_openai_chunk :: "json \<Rightarrow> bool" where
  "is_openai_chunk j =
     (case jget_str ''object'' j of Some s \<Rightarrow> str_starts ''chat.completion'' s | None \<Rightarrow> False)"

definition rewrite_start :: "model_mapping \<Rightarrow> json \<Rightarrow> json \<times> bool" where
  "rewrite_start mp j =
     (if Option.bind (jget ''message'' j) (jget_str ''model'') = Some (map_backend mp)
      then (jadjust ''message'' (jinsert ''model'' (JStr (map_original mp))) j, True)
      else (j, False))"

definition rewrite_top :: "model_mapping \<Rightarrow> json \<Rightarrow> json \<times> bool" where
  "rewrite_top mp j =
     (if jget_str ''model'' j = Some (map_backend mp)
      then (jinsert ''model'' (JStr (map_original mp)) j, True) else (j, False))"

definition data_payload :: "string \<Rightarrow> string option" where
  "data_payload line = map_option trim_start (strip_prefix ''data:'' (str_trim line))"

text \<open>What one line becomes, whether its model was replaced, and whether it was a \<open>message_start\<close>.\<close>

definition rewrite_line ::
  "(string \<Rightarrow> json option) \<Rightarrow> (json \<Rightarrow> string option) \<Rightarrow> model_mapping \<Rightarrow> string \<Rightarrow> string \<times> bool \<times> bool" where
  "rewrite_line jparse jprint mp line =
     (case data_payload line of
        None \<Rightarrow> (line, False, False)
      | Some payload \<Rightarrow>
          (case jparse payload of
             None \<Rightarrow> (line, False, False)
           | Some j \<Rightarrow>
               if is_msg_start j \<or> is_openai_chunk j then
                 (let (j', did) = (if is_msg_start j then rewrite_start mp j else rewrite_top mp j)
                  in (''data: '' @ (case jprint j' of Some t \<Rightarrow> t | None \<Rightarrow> payload), did, is_msg_start j))
               else (line, False, False)))"

definition push_line :: "string \<Rightarrow> string \<Rightarrow> string" where
  "push_line result out = (if result \<noteq> [] then result @ [CHR 0x0A] else result) @ out"

fun rewrite_lines ::
  "(string \<Rightarrow> json option) \<Rightarrow> (json \<Rightarrow> string option) \<Rightarrow> model_mapping \<Rightarrow> string list
    \<Rightarrow> string \<times> bool \<times> bool \<Rightarrow> string \<times> bool \<times> bool" where
  "rewrite_lines jparse jprint mp [] st = st"
| "rewrite_lines jparse jprint mp (l # ls) (result, rewritten, done) =
     (case rewrite_line jparse jprint mp l of (out, did, start) \<Rightarrow>
        rewrite_lines jparse jprint mp ls (push_line result out, rewritten \<or> did, done \<or> start))"

definition rewrite_chunk ::
  "(string \<Rightarrow> json option) \<Rightarrow> (json \<Rightarrow> string option) \<Rightarrow> model_mapping \<Rightarrow> bool \<Rightarrow> string \<Rightarrow> string \<times> bool" where
  "rewrite_chunk jparse jprint mp done bytes =
     (let has_anthropic = \<not> done \<and> str_contains (CHR 0x22 # ''message_start'' @ [CHR 0x22]) bytes;
          has_openai = str_contains ''chat.completion'' bytes \<and> str_contains (CHR 0x22 # ''model'' @ [CHR 0x22]) bytes
      in if \<not> has_anthropic \<and> \<not> has_openai then (bytes, done)
         else (case rewrite_lines jparse jprint mp (split_on (\<lambda>c. c = CHR 0x0A) (str_lossy bytes)) ([], False, done) of
                 (result, rewritten, done') \<Rightarrow> (if rewritten then result else bytes, done')))"

definition reverse_model_in_response ::
  "(string \<Rightarrow> json option) \<Rightarrow> (json \<Rightarrow> string option) \<Rightarrow> string \<Rightarrow> model_mapping \<Rightarrow> string" where
  "reverse_model_in_response jparse jprint body mp =
     (case jparse body of
        None \<Rightarrow> body
      | Some j \<Rightarrow>
          (if jget_str ''model'' j = Some (map_backend mp) then
             (case jprint (jinsert ''model'' (JStr (map_original mp)) j) of Some t \<Rightarrow> t | None \<Rightarrow> body)
           else body))"

section \<open>Properties\<close>

lemma rewrite_model_SomeD:
  "rewrite_model b body = (body', Some mp) \<Longrightarrow>
   jget_str ''model'' body = Some (map_original mp) \<and> resolve_model b (map_original mp) = Some (map_backend mp)
   \<and> jget_str ''model'' body' = Some (map_backend mp) \<and> body' = jinsert ''model'' (JStr (map_backend mp)) body"
  by (auto simp: rewrite_model_def jget_str_def bind_eq_Some_conv dest: jget_Some_object split: option.splits)


definition model_json :: "string \<Rightarrow> json" where
  "model_json m = JObj [(''model'', JStr m)]"

definition two_parse :: "string \<Rightarrow> json option" where
  "two_parse s = (if s = ''g'' then Some (model_json ''glm'') else if s = ''o'' then Some (model_json ''opus'') else None)"

definition two_print :: "json \<Rightarrow> string option" where
  "two_print j = (if j = model_json ''opus'' then Some ''o'' else if j = model_json ''glm'' then Some ''g'' else None)"


text \<open>A response that does not name the mapped model, or is not JSON, reaches the client byte for byte.\<close>

theorem other_model_untouched:
  assumes "\<And>j. jparse body = Some j \<Longrightarrow> jget_str ''model'' j \<noteq> Some (map_backend mp)"
  shows "reverse_model_in_response jparse jprint body mp = body"
  using assms by (auto simp: reverse_model_in_response_def split: option.splits)

theorem other_model_untouched_witness:
  "reverse_model_in_response (\<lambda>_. Some (JObj [(''model'', JStr ''x'')])) (\<lambda>_. Some ''changed'') ''orig''
     \<lparr>map_backend = ''glm'', map_original = ''opus''\<rparr> = ''orig''"
  by (rule other_model_untouched) (simp add: jget_str_def)

lemma rewrite_lines_flag:
  "rewrite_lines jparse jprint mp ls (res, rw, dn) = (res', rw', dn') \<Longrightarrow> (rw \<longrightarrow> rw') \<and> (dn \<longrightarrow> dn')"
proof (induction ls arbitrary: res rw dn)
  case (Cons l ls)
  obtain out did start where "rewrite_line jparse jprint mp l = (out, did, start)" by (metis prod_cases3)
  then show ?case using Cons.prems Cons.IH[of "push_line res out" "rw \<or> did" "dn \<or> start"] by auto
qed simp

lemma rewrite_lines_quiet:
  "\<forall>l \<in> set ls. \<not> fst (snd (rewrite_line jparse jprint mp l)) \<Longrightarrow>
   \<not> fst (snd (rewrite_lines jparse jprint mp ls (res, False, dn)))"
proof (induction ls arbitrary: res dn)
  case (Cons l ls)
  obtain out did start where "rewrite_line jparse jprint mp l = (out, did, start)" by (metis prod_cases3)
  then show ?case using Cons.prems Cons.IH[of "push_line res out" "dn \<or> start"] by simp
qed simp

text \<open>The rewriter is safe to leave on: a chunk in which no line names the mapped model passes
  unchanged; and once a \<open>message_start\<close> was seen, so does every chunk that is not of the OpenAI
  format.\<close>

theorem chunk_passthrough:
  assumes "(\<forall>l \<in> set (split_on (\<lambda>c. c = CHR 0x0A) (str_lossy bytes)). \<not> fst (snd (rewrite_line jparse jprint mp l)))
         \<or> (done \<and> \<not> str_contains ''chat.completion'' bytes)"
  shows "fst (rewrite_chunk jparse jprint mp done bytes) = bytes"
proof (cases "done \<and> \<not> str_contains ''chat.completion'' bytes")
  case True
  then show ?thesis by (simp add: rewrite_chunk_def)
next
  case False
  let ?r = "rewrite_lines jparse jprint mp (split_on (\<lambda>c. c = CHR 0x0A) (str_lossy bytes)) ([], False, done)"
  have "\<not> fst (snd ?r)" using False assms rewrite_lines_quiet by blast
  then show ?thesis by (cases ?r) (simp add: rewrite_chunk_def Let_def)
qed

theorem chunk_passthrough_witness:
  "fst (rewrite_chunk (\<lambda>_. None) (\<lambda>_. None) \<lparr>map_backend = ''a'', map_original = ''b''\<rparr> True ''data: {}'') = ''data: {}''"
proof -
  have "\<not> str_contains ''chat.completion'' ''data: {}''" by code_simp
  then show ?thesis by (intro chunk_passthrough) simp
qed

lemma lossy_newline: "str_lossy (CHR 0x0A # t) = CHR 0x0A # str_lossy t"
proof -
  have "char_of (10::nat) = CHR 0x0A" by code_simp
  then show ?thesis by (simp add: str_lossy_def utf8_step.simps(2))
qed

definition chunk_marked :: "bool \<Rightarrow> string \<Rightarrow> bool" where
  "chunk_marked done bytes \<longleftrightarrow>
     (\<not> done \<and> str_contains (CHR 0x22 # ''message_start'' @ [CHR 0x22]) bytes)
     \<or> (str_contains ''chat.completion'' bytes \<and> str_contains (CHR 0x22 # ''model'' @ [CHR 0x22]) bytes)"

lemma rewrite_chunk_fst:
  "R = rewrite_lines jparse jprint mp (split_on (\<lambda>c. c = CHR 0x0A) (str_lossy bytes)) ([], False, done) \<Longrightarrow>
   fst (rewrite_chunk jparse jprint mp done bytes) = (if chunk_marked done bytes \<and> fst (snd R) then fst R else bytes)"
  by (auto simp: rewrite_chunk_def chunk_marked_def Let_def case_prod_unfold)

lemma contains_newline:
  "p \<noteq> [] \<Longrightarrow> hd p \<noteq> CHR 0x0A \<Longrightarrow> str_contains p (CHR 0x0A # t) = str_contains p t"
proof -
  assume p: "p \<noteq> []" "hd p \<noteq> CHR 0x0A"
  then have "\<not> str_starts p (CHR 0x0A # t)" by (cases p) (auto simp: str_starts_def)
  then show ?thesis by (simp add: str_contains_def split: option.splits)
qed

lemma rewrite_empty_line: "rewrite_line jparse jprint mp [] = ([], False, False)"
  by (simp add: rewrite_line_def data_payload_def str_trim_def)

text \<open>A rewritten chunk loses a line feed at its start: the separator is written only once the output is
  not empty.  When the blank line that ends an event arrives at the head of the next chunk, together
  with the rewritten event, the client sees the two events as one.\<close>

theorem leading_newline_lost:
  assumes "fst (rewrite_chunk jparse jprint mp done (CHR 0x0A # t)) \<noteq> CHR 0x0A # t"
  shows "fst (rewrite_chunk jparse jprint mp done (CHR 0x0A # t)) = fst (rewrite_chunk jparse jprint mp done t)"
proof -
  let ?ls = "split_on (\<lambda>c. c = CHR 0x0A) (str_lossy t)"
  let ?r = "rewrite_lines jparse jprint mp ?ls ([], False, done)"
  have "split_on (\<lambda>c. c = CHR 0x0A) (str_lossy (CHR 0x0A # t)) = [] # ?ls" by (simp add: lossy_newline)
  then have same: "rewrite_lines jparse jprint mp (split_on (\<lambda>c. c = CHR 0x0A) (str_lossy (CHR 0x0A # t))) ([], False, done) = ?r"
    by (simp add: rewrite_empty_line push_line_def)
  have "str_contains p (CHR 0x0A # t) = str_contains p t"
    if "p \<in> {CHR 0x22 # ''message_start'' @ [CHR 0x22], ''chat.completion'', CHR 0x22 # ''model'' @ [CHR 0x22]}" for p
    using that by (intro contains_newline) auto
  then have "chunk_marked done (CHR 0x0A # t) = chunk_marked done t" unfolding chunk_marked_def by simp
  then show ?thesis
    using assms rewrite_chunk_fst[OF same[symmetric]] rewrite_chunk_fst[OF refl, where bytes = t]
    by (simp split: if_splits)
qed

definition start_payload :: string where
  "start_payload = CHR 0x22 # ''message_start'' @ [CHR 0x22]"

definition start_parse :: "string \<Rightarrow> json option" where
  "start_parse s =
     (if s = start_payload
      then Some (JObj [(''type'', JStr ''message_start''), (''message'', model_json ''glm'')]) else None)"

theorem leading_newline_lost_witness:
  "fst (rewrite_chunk start_parse (\<lambda>_. Some ''NEW'') \<lparr>map_backend = ''glm'', map_original = ''opus''\<rparr> False
     (CHR 0x0A # ''data: '' @ start_payload)) = ''data: NEW''"
proof -
  let ?f = "\<lambda>t. fst (rewrite_chunk start_parse (\<lambda>_. Some ''NEW'') \<lparr>map_backend = ''glm'', map_original = ''opus''\<rparr> False t)"
  have "?f (CHR 0x0A # ''data: '' @ start_payload) \<noteq> CHR 0x0A # ''data: '' @ start_payload" by code_simp
  then have "?f (CHR 0x0A # ''data: '' @ start_payload) = ?f (''data: '' @ start_payload)" by (rule leading_newline_lost)
  also have "\<dots> = ''data: NEW''" by code_simp
  finally show ?thesis .
qed

end
