(* ===== verification/Pipeline.thy ===== *)
theory Pipeline
  imports Routing Headers Forward Retry400 ModelRewrite
begin

text \<open>
  The seven stages as one function (\<open>execute_pipeline\<close> and \<open>execute_pipeline_inner\<close> in
  \<open>src/proxy/pipeline/mod.rs\<close>, with \<open>extract.rs\<close>, \<open>thinking.rs\<close> and \<open>response.rs\<close>).  The network is a record
  of parameters: the outcome of each attempt, the answer to the retry of a 400, reading a body as
  text or as bytes, and the chunks a streamed body arrives in.  The result carries the requests sent
  upstream, the new thinking registry, and the statuses with which the request's span was finished
  in the observability hub.  Log output and the span's other fields are left out; a streamed body is
  taken to its end.  The one slice of the log output that can panic is part of the model.
\<close>

record network =
  net_send :: "u64 option \<Rightarrow> string \<Rightarrow> out_headers \<Rightarrow> string \<Rightarrow> nat \<Rightarrow> send_error + upstream_response"
  net_resend :: "u64 option \<Rightarrow> string \<Rightarrow> out_headers \<Rightarrow> string \<Rightarrow> upstream_response option"
  net_text :: "upstream_response \<Rightarrow> string option"
  net_bytes :: "upstream_response \<Rightarrow> string option"
  net_chunks :: "upstream_response \<Rightarrow> string list"

record codec =
  cd_hash :: hasher
  cd_parse :: "string \<Rightarrow> json option"
  cd_print :: "json \<Rightarrow> string option"
  cd_now :: nat
  cd_clock :: "nat \<Rightarrow> nat"

record http_request =
  rq_path :: "string option"
  rq_headers :: in_headers
  rq_body :: "string option"

record proxy_env =
  pe_state :: backend_state
  pe_agents :: agent_registry
  pe_retry :: retry_config

record client_response =
  cl_status :: nat
  cl_headers :: "(string \<times> string) list"
  cl_body :: string

record pipeline_result =
  pr_result :: "proxy_error + client_response"
  pr_log :: "(string \<times> out_headers \<times> string) list"
  pr_registry :: registry
  pr_finished :: "nat list"

section \<open>Stages 1 and 3\<close>

definition content_type_of :: "in_headers \<Rightarrow> string" where
  "content_type_of hs = (case map_of hs ''content-type'' of Some (Some v) \<Rightarrow> v | _ \<Rightarrow> [])"

definition extract_request :: "codec \<Rightarrow> http_request \<Rightarrow> proxy_error + string \<times> json option" where
  "extract_request cd rq =
     (case rq_body rq of
        None \<Rightarrow> Inl (InvalidRequest ''Failed to read request body'')
      | Some bytes \<Rightarrow>
          Inr (bytes, if str_contains ''application/json'' (content_type_of (rq_headers rq))
                      then cd_parse cd bytes else None))"

definition create_thinking :: "bool \<Rightarrow> backend \<Rightarrow> registry \<Rightarrow> u64 option \<times> registry" where
  "create_thinking is_teammate b r =
     (if is_teammate then (None, r) else (case begin_request (name b) r of (sid, r') \<Rightarrow> (Some sid, r')))"

section \<open>Stage 7\<close>

fun rewrite_stream :: "codec \<Rightarrow> model_mapping option \<Rightarrow> bool \<Rightarrow> string list \<Rightarrow> string list" where
  "rewrite_stream cd None done cs = cs"
| "rewrite_stream cd (Some mp) done [] = []"
| "rewrite_stream cd (Some mp) done (c # cs) =
     (case rewrite_chunk (cd_parse cd) (cd_print cd) mp done c of
        (c', done') \<Rightarrow> c' # rewrite_stream cd (Some mp) done' cs)"

definition is_event_stream :: "upstream_response \<Rightarrow> bool" where
  "is_event_stream r =
     (case map_of (up_headers r) ''content-type'' of Some ct \<Rightarrow> str_contains ''text/event-stream'' ct | None \<Rightarrow> False)"

definition response_headers :: "model_mapping option \<Rightarrow> upstream_response \<Rightarrow> (string \<times> string) list" where
  "response_headers mapping r =
     filter (\<lambda>(n, v). \<not> (mapping \<noteq> None \<and> n = ''content-length'')) (up_headers r)"

definition register_streamed :: "codec \<Rightarrow> u64 option \<Rightarrow> string \<Rightarrow> registry \<Rightarrow> registry" where
  "register_streamed cd sess buffer r =
     (case sess of
        None \<Rightarrow> r
      | Some sid \<Rightarrow>
          if buffer = [] then r
          else session_register_sse (cd_hash cd) (cd_clock cd) sid (parse_sse_events (cd_parse cd) buffer) r)"

definition register_whole :: "codec \<Rightarrow> u64 option \<Rightarrow> string \<Rightarrow> registry \<Rightarrow> registry" where
  "register_whole cd sess body r =
     (case sess of
        None \<Rightarrow> r
      | Some sid \<Rightarrow> session_register_response (cd_hash cd) (cd_parse cd) (cd_clock cd) sid body r)"

text \<open>The body of an error answer is cut to 1000 bytes for the log; the slice panics inside a character.\<close>

definition error_preview_panics :: "nat \<Rightarrow> string \<Rightarrow> bool" where
  "error_preview_panics st body \<longleftrightarrow>
     (st < 200 \<or> 300 \<le> st) \<and> 1000 < length (str_lossy body) \<and> \<not> str_boundary (str_lossy body) 1000"

definition handle_response ::
  "codec \<Rightarrow> network \<Rightarrow> upstream_response \<Rightarrow> u64 option \<Rightarrow> model_mapping option \<Rightarrow> registry
    \<Rightarrow> index_panic + (proxy_error + client_response) \<times> registry \<times> nat" where
  "handle_response cd net resp sess mapping r =
     (if is_event_stream resp then
        (let out = concat (rewrite_stream cd mapping False (net_chunks net resp))
         in Inr (Inr \<lparr>cl_status = up_status resp, cl_headers = response_headers mapping resp, cl_body = out\<rparr>,
                 register_streamed cd sess out r, up_status resp))
      else
        (case net_bytes net resp of
           None \<Rightarrow> (let e = Internal ''Failed to read response body'' in Inr (Inl e, r, status_code e))
         | Some body \<Rightarrow>
             if error_preview_panics (up_status resp) body then Inl IndexPanic else
             Inr (Inr \<lparr>cl_status = up_status resp, cl_headers = response_headers mapping resp,
                   cl_body = (case mapping of None \<Rightarrow> body
                              | Some mp \<Rightarrow> reverse_model_in_response (cd_parse cd) (cd_print cd) body mp)\<rparr>,
              register_whole cd sess body r, up_status resp)))"

section \<open>The pipeline\<close>

text \<open>Stages 6 and 6.5: the answer with the requests sent, in order.\<close>

definition send_upstream ::
  "codec \<Rightarrow> network \<Rightarrow> backend \<Rightarrow> retry_config \<Rightarrow> bool \<Rightarrow> string option \<Rightarrow> out_headers \<Rightarrow> string
    \<Rightarrow> index_panic + (proxy_error + upstream_response) \<times> (string \<times> out_headers \<times> string) list" where
  "send_upstream cd net b rc streaming path headers body =
     (let url = target_url b path;
          fr = forward_with_retry b rc (net_send net (request_timeout streaming rc) url headers body);
          log = replicate (attempts fr) (url, headers, body)
      in (case outcome fr of
            Inl e \<Rightarrow> Inr (Inl e, log)
          | Inr resp \<Rightarrow>
              if up_status resp = 400 then
                (let text = net_text net resp;
                     sent = (case text of
                         None \<Rightarrow> []
                       | Some t \<Rightarrow> (case retry_plan (cd_parse cd) (cd_print cd) t headers body of
                             Inr (Some (hs, bs)) \<Rightarrow> [(url, hs, bs)] | _ \<Rightarrow> []))
                 in (case backend_400_auto_retry (cd_parse cd) (cd_print cd) resp text headers body 
                         (\<lambda>hs bs. net_resend net (retry_timeout (cd_parse cd) rc bs) url hs bs) of
                       Inl p \<Rightarrow> Inl p
                     | Inr r \<Rightarrow> Inr (Inr r, log @ sent)))
              else Inr (Inr resp, log)))"

text \<open>An early error finishes the span once, with its status code.\<close>

definition early_error :: "proxy_error \<Rightarrow> registry \<Rightarrow> pipeline_result" where
  "early_error e r = \<lparr>pr_result = Inl e, pr_log = [], pr_registry = r, pr_finished = [status_code e]\<rparr>"

definition execute_pipeline ::
  "codec \<Rightarrow> network \<Rightarrow> proxy_env \<Rightarrow> http_request \<Rightarrow> string option \<Rightarrow> backend_override option \<Rightarrow> registry
    \<Rightarrow> index_panic + pipeline_result" where
  "execute_pipeline cd net env rq override plugin r =
     (case extract_request cd rq of
        Inl e \<Rightarrow> Inr (early_error e r)
      | Inr (bytes, parsed) \<Rightarrow>
     (case resolve_backend (pe_state env) override plugin parsed (pe_agents env) of
        Inl e \<Rightarrow> Inr (early_error e r)
      | Inr (b, d) \<Rightarrow>
     (case create_thinking (override \<noteq> None) b r of (sess, r1) \<Rightarrow>
     (case transform_body (cd_hash cd) (cd_print cd) (cd_now cd) bytes parsed b sess r1 of
        ((body, streaming, mapping, act), r2) \<Rightarrow>
     (case send_upstream cd net b (pe_retry env) streaming (rq_path rq) (build_headers (rq_headers rq) b act) body of
        Inl p \<Rightarrow> Inl p
      | Inr (Inl e, log) \<Rightarrow>
          Inr \<lparr>pr_result = Inl e, pr_log = log, pr_registry = r2, pr_finished = [status_code e]\<rparr>
      | Inr (Inr resp, log) \<Rightarrow>
          (case handle_response cd net resp sess mapping r2 of
             Inl p \<Rightarrow> Inl p
           | Inr (res, r3, st) \<Rightarrow> Inr \<lparr>pr_result = res, pr_log = log, pr_registry = r3, pr_finished = [st]\<rparr>))))))"

section \<open>Properties\<close>

text \<open>A structural view of a run that reached the upstream.\<close>

lemma execute_pipeline_cases:
  assumes "execute_pipeline cd net env rq override plugin r = Inr res"
  obtains (early) e where "res = early_error e r"
    | (sent) bytes parsed b d sess r1 body streaming mapping act r2 out where
        "extract_request cd rq = Inr (bytes, parsed)"
        "resolve_backend (pe_state env) override plugin parsed (pe_agents env) = Inr (b, d)"
        "create_thinking (override \<noteq> None) b r = (sess, r1)"
        "transform_body (cd_hash cd) (cd_print cd) (cd_now cd) bytes parsed b sess r1 = ((body, streaming, mapping, act), r2)"
        "send_upstream cd net b (pe_retry env) streaming (rq_path rq) (build_headers (rq_headers rq) b act) body = Inr (out, pr_log res)"
        "(case out of Inl e \<Rightarrow> pr_result res = Inl e \<and> pr_registry res = r2 \<and> pr_finished res = [status_code e]
          | Inr resp \<Rightarrow> \<exists>st. handle_response cd net resp sess mapping r2 = Inr (pr_result res, pr_registry res, st)
                          \<and> pr_finished res = [st])"
  using assms
  by (auto simp: execute_pipeline_def split: sum.splits prod.splits)

text \<open>The hub sees every request once: a request that is answered, refused or failed finishes its span
  exactly once.\<close>

theorem span_finished_once:
  assumes "execute_pipeline cd net env rq override plugin r = Inr res"
  shows "length (pr_finished res) = 1"
  using assms by (cases rule: execute_pipeline_cases) (auto simp: early_error_def split: sum.splits)

lemma auth_name_not_beta: "is_auth_name n \<Longrightarrow> str_lower n \<noteq> ''anthropic-beta''"
proof -
  have ascii: "str_lower s = map ascii_lower s" if "\<forall>c \<in> set s. code c < 128" for s :: string
    using that by (induction s rule: str_lower.induct) auto
  have low: "code c < 128" if "code (ascii_lower c) < 128" for c using that by (auto simp: ascii_lower_def split: if_splits)
  assume "is_auth_name n"
  then have m: "map ascii_lower n = ''authorization'' \<or> map ascii_lower n = ''x-api-key''"
    by (auto simp: is_auth_name_def eq_ignore_case_def ascii_lower_def)
  then have "\<forall>c \<in> set (map ascii_lower n). code c < 128" by auto
  then have "\<forall>c \<in> set n. code c < 128" using low by simp
  then show ?thesis using ascii m by auto
qed

lemma strip_beta_keeps_auth:
  "filter (\<lambda>h. is_auth_name (fst h)) (strip_beta_headers hs) = filter (\<lambda>h. is_auth_name (fst h)) hs"
  by (induction hs) (auto simp: strip_beta_headers_def map_filter_simps Let_def dest: auth_name_not_beta split: if_splits option.splits)

lemma retry_plan_auth:
  "retry_plan jparse jprint text headers body = Inr (Some (hs, bs)) \<Longrightarrow>
   filter (\<lambda>h. is_auth_name (fst h)) hs = filter (\<lambda>h. is_auth_name (fst h)) headers"
  by (auto simp: retry_plan_def rewritten_def strip_beta_keeps_auth split: if_splits option.splits)

lemma send_upstream_log:
  assumes "send_upstream cd net b rc streaming path headers body = Inr (out, log)" "(u, hs, bs) \<in> set log"
  shows "u = target_url b path \<and> filter (\<lambda>h. is_auth_name (fst h)) hs = filter (\<lambda>h. is_auth_name (fst h)) headers"
  using assms
  by (auto simp: send_upstream_def Let_def dest: retry_plan_auth split: sum.splits if_splits option.splits)

lemma send_upstream_count:
  assumes "send_upstream cd net b rc streaming path headers body = Inr (out, log)"
  shows "length log \<le> unat (rc_max_retries rc) + 2 \<and> (\<not> is_configured b \<longrightarrow> log = [])"
proof -
  let ?fr = "forward_with_retry b rc (net_send net (request_timeout streaming rc) (target_url b path) headers body)"
  have "attempts ?fr \<le> unat (rc_max_retries rc) + 1"
    using forward_with_retry_spec[of b rc "net_send net (request_timeout streaming rc) (target_url b path) headers body"]
      unconfigured_never_contacted[of b rc "net_send net (request_timeout streaming rc) (target_url b path) headers body"] by (cases "is_configured b") auto
  moreover have "\<not> is_configured b \<longrightarrow> attempts ?fr = 0 \<and> (\<exists>e. outcome ?fr = Inl e)"
    using unconfigured_never_contacted[of b rc "net_send net (request_timeout streaming rc) (target_url b path) headers body"] by auto
  ultimately show ?thesis using assms
    by (auto simp: send_upstream_def Let_def split: sum.splits if_splits option.splits)
qed

text \<open>C1: no credential of the client leaks to a backend with its own, end to end: every request the
  pipeline sends (first attempt, retries, the retry of a 400) goes to the URL of a configured backend
  of the configuration, and when that backend uses its own credentials the request's authentication
  headers are exactly the backend's one.\<close>

theorem no_credential_leak:
  assumes "execute_pipeline cd net env rq override plugin r = Inr res"
    and "\<forall>h \<in> set (rq_headers rq). lower_name (fst h)" "(u, hs, bs) \<in> set (pr_log res)"
  shows "\<exists>b \<in> set (backends (cfg (pe_state env))). u = target_url b (rq_path rq) \<and> is_configured b
     \<and> (uses_own_credentials (auth_type_of b) \<longrightarrow>
          (\<exists>a. build_auth_header b = Some a \<and> filter (\<lambda>h. is_auth_name (fst h)) hs = [a]))"
  using assms(1)
proof (cases rule: execute_pipeline_cases)
  case (early e)
  then show ?thesis using assms(3) by (simp add: early_error_def)
next
  case (sent bytes parsed b d sess r1 body streaming mapping act r2 out)
  have b: "b \<in> set (backends (cfg (pe_state env)))" using resolve_backend_configured[OF sent(2)] by blast
  have conf: "is_configured b" using send_upstream_count[OF sent(5)] assms(3) by (cases "is_configured b") auto
  have u: "u = target_url b (rq_path rq)"
    and auth: "filter (\<lambda>h. is_auth_name (fst h)) hs = filter (\<lambda>h. is_auth_name (fst h)) (build_headers (rq_headers rq) b act)"
    using send_upstream_log[OF sent(5) assms(3)] by auto
  show ?thesis
    using b conf u auth own_credentials_only[OF _ conf assms(2), of act] by (intro bexI[of _ b]) auto
qed

text \<open>The number of upstream requests is bounded: one request of the client causes at most
  \<open>max_retries + 2\<close> of them.\<close>

theorem upstream_requests_bounded:
  assumes "execute_pipeline cd net env rq override plugin r = Inr res"
  shows "length (pr_log res) \<le> unat (rc_max_retries (pe_retry env)) + 2"
  using assms
proof (cases rule: execute_pipeline_cases)
  case (early e)
  then show ?thesis by (simp add: early_error_def)
next
  case (sent bytes parsed b d sess r1 body streaming mapping act r2 out)
  then show ?thesis using send_upstream_count[OF sent(5)] by blast
qed

lemma transform_no_session:
  "transform_body h jprint now bytes parsed b None r = (x, r') \<Longrightarrow> r' = r"
  by (auto simp: transform_body_def transform_json_def Let_def split: option.splits prod.splits)

lemma handle_no_session:
  "handle_response cd net resp None mapping r = Inr (x, r', st) \<Longrightarrow> r' = r"
  by (auto simp: handle_response_def register_streamed_def register_whole_def Let_def split: if_splits option.splits)

lemma teammate_leaves_registry:
  assumes "execute_pipeline cd net env rq (Some t) plugin r = Inr res"
  shows "pr_registry res = r"
  using assms
proof (cases rule: execute_pipeline_cases)
  case (early e)
  then show ?thesis by (simp add: early_error_def)
next
  case (sent bytes parsed b d sess r1 body streaming mapping act r2 out)
  have "sess = None" "r1 = r" using sent(3) by (auto simp: create_thinking_def)
  moreover have "r2 = r1" using sent(4) transform_no_session \<open>sess = None\<close> by blast
  ultimately show ?thesis using sent(6) handle_no_session by (auto split: sum.splits)
qed

text \<open>Teammates do not disturb the main agent: a request of the teammate pipeline, whatever its outcome,
  leaves the thinking registry as it was.\<close>

theorem teammate_isolated:
  assumes "execute_pipeline cd net env rq (Some t) plugin r = Inr res"
  shows "pr_registry res = r"
  using assms by (rule teammate_leaves_registry)

text \<open>A small world for the witnesses.\<close>

definition demo_codec :: codec where
  "demo_codec = \<lparr>cd_hash = len_hash, cd_parse = (\<lambda>_. None), cd_print = (\<lambda>_. None), cd_now = 0, cd_clock = (\<lambda>_. 0)\<rparr>"

definition demo_net :: network where
  "demo_net = \<lparr>net_send = (\<lambda>t u hs b n. Inr \<lparr>up_status = 200, up_headers = [], up_body = ''ok''\<rparr>),
               net_resend = (\<lambda>t u hs b. None), net_text = (\<lambda>r. Some (up_body r)),
               net_bytes = (\<lambda>r. Some (up_body r)), net_chunks = (\<lambda>r. [up_body r])\<rparr>"

definition demo_env :: proxy_env where
  "demo_env = \<lparr>pe_state = \<lparr>active_backend = ''claude'', cfg = default_profile\<lparr>backends := [key_backend]\<rparr>, switch_log = []\<rparr>,
               pe_agents = [], pe_retry = default_retry\<rparr>"

definition demo_request :: http_request where
  "demo_request = \<lparr>rq_path = Some ''/v1/messages'', rq_headers = [(''authorization'', Some ''secret'')], rq_body = Some ''hi''\<rparr>"

definition demo_result :: "string option \<Rightarrow> pipeline_result" where
  "demo_result t = \<lparr>pr_result = Inr \<lparr>cl_status = 200, cl_headers = [], cl_body = ''ok''\<rparr>,
     pr_log = [(''https://x.test/v1/messages'', [(''x-api-key'', ''k'')], ''hi'')],
     pr_registry = (if t = None then on_backend_switch ''claude'' new_registry else new_registry),
     pr_finished = [200]\<rparr>"

lemma demo_net_log: "execute_pipeline demo_codec demo_net demo_env demo_request None None new_registry = Inr (demo_result None)"
proof -
  have l: "forward_with_retry key_backend default_retry (net_send demo_net t u hs b)
      = \<lparr>outcome = Inr \<lparr>up_status = 200, up_headers = [], up_body = ''ok''\<rparr>, attempts = 1, pauses = []\<rparr>" for t u hs b
  proof -
    have "is_configured key_backend" by code_simp
    then show ?thesis by (simp add: forward_with_retry_def demo_net_def send_loop.simps)
  qed
  let ?resp = "\<lparr>up_status = 200, up_headers = [], up_body = ''ok''\<rparr>"
  let ?hs = "[(''x-api-key'', ''k'')]"
  have st1: "extract_request demo_codec demo_request = Inr (''hi'', None)"
    "resolve_backend (pe_state demo_env) None None None (pe_agents demo_env)
       = Inr (key_backend, \<lparr>dec_backend = ''claude'', dec_reason = ''active backend''\<rparr>)"
    "build_headers (rq_headers demo_request) key_backend False = ?hs"
    by code_simp+
  have url: "target_url key_backend (rq_path demo_request) = ''https://x.test/v1/messages''" by code_simp
  have rc: "pe_retry demo_env = default_retry" by (simp add: demo_env_def)
  have nm: "name key_backend = ''claude''" by (simp add: key_backend_def default_backend_def)
  have st6: "send_upstream demo_codec demo_net key_backend default_retry False (rq_path demo_request) ?hs ''hi''
      = Inr (Inr ?resp, [(''https://x.test/v1/messages'', ?hs, ''hi'')])"
    by (simp add: send_upstream_def Let_def l url)
  have st7: "handle_response demo_codec demo_net ?resp sess None r
      = Inr (Inr \<lparr>cl_status = 200, cl_headers = [], cl_body = ''ok''\<rparr>, r, 200)" for sess r
    by (simp add: handle_response_def error_preview_panics_def is_event_stream_def demo_net_def response_headers_def register_whole_def
        session_register_response_def demo_codec_def split: option.split)
  show ?thesis
    by (simp add: execute_pipeline_def st1 rc create_thinking_def begin_request_def Let_def transform_body_def st6 st7 nm demo_result_def)
qed

theorem no_credential_leak_witness:
  "\<exists>b \<in> set (backends (cfg (pe_state demo_env))). ''https://x.test/v1/messages'' = target_url b (Some ''/v1/messages'') \<and> is_configured b"
proof -
  have "\<forall>h \<in> set (rq_headers demo_request). lower_name (fst h)" by (simp add: demo_request_def)
  from no_credential_leak[OF demo_net_log this] show ?thesis by (fastforce simp: demo_result_def demo_request_def)
qed

theorem upstream_requests_bounded_witness: "length (pr_log (demo_result None)) \<le> 5"
  using upstream_requests_bounded[OF demo_net_log] by (simp add: demo_env_def default_retry_def)

theorem span_finished_once_witness: "length (pr_finished (demo_result None)) = 1"
  using span_finished_once[OF demo_net_log] .

theorem teammate_isolated_witness:
  "\<exists>res. execute_pipeline demo_codec demo_net demo_env demo_request (Some ''nope'') None new_registry = Inr res
       \<and> pr_registry res = new_registry"
proof -
  have "extract_request demo_codec demo_request = Inr (''hi'', None)" by code_simp
  moreover have "\<exists>e. resolve_backend (pe_state demo_env) (Some ''nope'') None None (pe_agents demo_env) = Inl e"
    by (simp add: resolve_backend_def route_target_def get_backend_config_def find_backend_def demo_env_def
        key_backend_def default_backend_def)
  ultimately obtain res where "execute_pipeline demo_codec demo_net demo_env demo_request (Some ''nope'') None new_registry = Inr res"
    by (auto simp: execute_pipeline_def)
  then show ?thesis using teammate_isolated by blast
qed

end
