(* ===== verification/ObservedStream.thy ===== *)
theory ObservedStream
  imports Metrics Redaction Pipeline
begin

text \<open>
  The stream wrapper between an upstream body and the client (\<open>src/metrics/stream.rs\<close>).  A poll names the
  instants at which it happens and what the inner stream would answer; the inner stream is not asked once the
  deadline has passed.  The completion callback acts on a state \<open>'e\<close>, the rewriter carries a state \<open>'r\<close>.  A
  slice that panics while the log entry is written makes \<open>finish\<close> end early; the mark \<open>os_panicked\<close> keeps it.
\<close>

section \<open>The stream\<close>

datatype stream_error = StreamUpstream string | IdleTimeout u64

definition show_stream_error :: "stream_error \<Rightarrow> string" where
  "show_stream_error e =
     (case e of
        StreamUpstream m \<Rightarrow> ''upstream error: '' @ m
      | IdleTimeout d \<Rightarrow> ''idle timeout after '' @ show_nat (unat d) @ ''s of inactivity'')"

record response_preview =
  rp_limit :: "nat option"
  rp_content_type :: string
  rp_buffer :: string
  rp_pretty :: bool

definition preview_new :: "nat \<Rightarrow> string \<Rightarrow> response_preview option" where
  "preview_new limit ct =
     (if limit = 0 then None
      else Some \<lparr>rp_limit = Some limit, rp_content_type = ct, rp_buffer = [], rp_pretty = False\<rparr>)"

definition preview_full :: "string \<Rightarrow> bool \<Rightarrow> response_preview" where
  "preview_full ct pretty = \<lparr>rp_limit = None, rp_content_type = ct, rp_buffer = [], rp_pretty = pretty\<rparr>"

definition preview_push :: "string \<Rightarrow> response_preview \<Rightarrow> response_preview" where
  "preview_push bytes p =
     (case rp_limit p of
        Some limit \<Rightarrow>
          if limit \<le> length (rp_buffer p) then p
          else (let remaining = limit - length (rp_buffer p)
                in p\<lparr>rp_buffer := rp_buffer p @ (if remaining < length bytes then take remaining bytes else bytes)\<rparr>)
      | None \<Rightarrow> p\<lparr>rp_buffer := rp_buffer p @ bytes\<rparr>)"

record instants =
  at_system :: nat
  at_instant :: nat

record ('q, 'e, 'r) observed_stream =
  os_span :: "request_span option"
  os_hub :: "'q hub"
  idle_timeout :: nat
  deadline :: nat
  os_preview :: "response_preview option"
  on_complete :: "(string \<Rightarrow> 'e \<Rightarrow> 'e) option"
  response_buffer :: string
  chunk_rewriter :: "('r \<Rightarrow> string \<Rightarrow> string \<times> 'r) option"
  rewriter_state :: 'r
  os_env :: 'e
  os_panicked :: bool

definition new_stream ::
  "nat \<Rightarrow> request_span \<Rightarrow> 'q hub \<Rightarrow> nat \<Rightarrow> response_preview option \<Rightarrow> 'r \<Rightarrow> 'e \<Rightarrow> ('q, 'e, 'r) observed_stream" where
  "new_stream now s h timeout pv rs e =
     \<lparr>os_span = Some s, os_hub = h, idle_timeout = timeout, deadline = now + timeout, os_preview = pv,
      on_complete = None, response_buffer = [], chunk_rewriter = None, rewriter_state = rs, os_env = e,
      os_panicked = False\<rparr>"

definition with_on_complete :: "(string \<Rightarrow> 'e \<Rightarrow> 'e) \<Rightarrow> ('q, 'e, 'r) observed_stream \<Rightarrow> ('q, 'e, 'r) observed_stream" where
  "with_on_complete cb st = st\<lparr>on_complete := Some cb\<rparr>"

definition with_chunk_rewriter ::
  "('r \<Rightarrow> string \<Rightarrow> string \<times> 'r) \<Rightarrow> ('q, 'e, 'r) observed_stream \<Rightarrow> ('q, 'e, 'r) observed_stream" where
  "with_chunk_rewriter rw st = st\<lparr>chunk_rewriter := Some rw\<rparr>"

record json_lib =
  jl_parse :: "string \<Rightarrow> json option"
  jl_print :: "bool \<Rightarrow> json \<Rightarrow> string option"

definition set_body_preview :: "string option \<Rightarrow> request_span \<Rightarrow> request_span" where
  "set_body_preview v s =
     (let r = span_record s;
          meta = (case rec_response_meta r of Some m \<Rightarrow> m | None \<Rightarrow> \<lparr>pm_headers = None, pm_body_preview = None\<rparr>)
      in s\<lparr>span_record := r\<lparr>rec_response_meta := Some (meta\<lparr>pm_body_preview := v\<rparr>)\<rparr>\<rparr>)"

definition preview_value :: "json_lib \<Rightarrow> response_preview \<Rightarrow> unit + string option" where
  "preview_value jl p = redact_body (jl_parse jl) (jl_print jl) (rp_buffer p) (rp_content_type p) (rp_limit p) (rp_pretty p)"

text \<open>The callback, the span and the preview are each taken before they are used.\<close>

definition finish_callback :: "('q, 'e, 'r) observed_stream \<Rightarrow> ('q, 'e, 'r) observed_stream" where
  "finish_callback st =
     (case on_complete st of
        None \<Rightarrow> st
      | Some cb \<Rightarrow> st\<lparr>on_complete := None,
                     os_env := (if response_buffer st = [] then os_env st else cb (response_buffer st) (os_env st))\<rparr>)"

definition finish_span :: "json_lib \<Rightarrow> instants \<Rightarrow> ('q, 'e, 'r) observed_stream \<Rightarrow> ('q, 'e, 'r) observed_stream" where
  "finish_span jl t st =
     (case os_span st of
        None \<Rightarrow> st
      | Some s \<Rightarrow>
          (let st1 = st\<lparr>os_span := None\<rparr>
           in case os_preview st1 of
                None \<Rightarrow> st1\<lparr>os_hub := finish_request (at_system t) (at_instant t) s (os_hub st1)\<rparr>
              | Some p \<Rightarrow>
                  (let st2 = st1\<lparr>os_preview := None\<rparr>
                   in case preview_value jl p of
                        Inl _ \<Rightarrow> st2\<lparr>os_panicked := True\<rparr>
                      | Inr v \<Rightarrow> st2\<lparr>os_hub := finish_request (at_system t) (at_instant t) (set_body_preview v s) (os_hub st2)\<rparr>)))"

definition finish :: "json_lib \<Rightarrow> instants \<Rightarrow> ('q, 'e, 'r) observed_stream \<Rightarrow> ('q, 'e, 'r) observed_stream" where
  "finish jl t st = finish_span jl t (finish_callback st)"

section \<open>Polling\<close>

datatype inner_poll = InnerPending | InnerChunk string | InnerError string | InnerEnd

datatype stream_poll = StreamPending | StreamItem "stream_error + string" | StreamEnd

definition rewrite_bytes :: "string \<Rightarrow> ('q, 'e, 'r) observed_stream \<Rightarrow> string \<times> ('q, 'e, 'r) observed_stream" where
  "rewrite_bytes bytes st =
     (case chunk_rewriter st of
        None \<Rightarrow> (bytes, st)
      | Some rw \<Rightarrow> (case rw (rewriter_state st) bytes of (b, rs) \<Rightarrow> (b, st\<lparr>rewriter_state := rs\<rparr>)))"

definition account_bytes :: "instants \<Rightarrow> string \<Rightarrow> ('q, 'e, 'r) observed_stream \<Rightarrow> ('q, 'e, 'r) observed_stream" where
  "account_bytes t b st =
     st\<lparr>os_span := map_option (add_response_bytes (length b) \<circ> mark_first_byte (at_instant t)) (os_span st),
        os_preview := map_option (preview_push b) (os_preview st),
        response_buffer := (if on_complete st = None then response_buffer st else response_buffer st @ b)\<rparr>"

definition poll_next ::
  "json_lib \<Rightarrow> instants \<Rightarrow> inner_poll \<Rightarrow> ('q, 'e, 'r) observed_stream \<Rightarrow> stream_poll \<times> ('q, 'e, 'r) observed_stream" where
  "poll_next jl t inner st =
     (if deadline st \<le> at_instant t then
        (StreamItem (Inl (IdleTimeout (of_nat (idle_timeout st div 10 ^ 9)))),
         finish jl t (st\<lparr>os_span := map_option mark_timed_out (os_span st)\<rparr>))
      else case inner of
        InnerChunk bytes \<Rightarrow>
          (case rewrite_bytes bytes (st\<lparr>deadline := at_instant t + idle_timeout st\<rparr>) of
             (b, st1) \<Rightarrow> (StreamItem (Inr b), account_bytes t b st1))
      | InnerError m \<Rightarrow> (StreamItem (Inl (StreamUpstream m)), finish jl t st)
      | InnerEnd \<Rightarrow> (StreamEnd, finish jl t st)
      | InnerPending \<Rightarrow> (StreamPending, st))"

definition drop_stream :: "json_lib \<Rightarrow> instants \<Rightarrow> ('q, 'e, 'r) observed_stream \<Rightarrow> ('q, 'e, 'r) observed_stream" where
  "drop_stream = finish"

text \<open>A body is polled until its end or its first error, and dropped; when the polls run out the client has
  gone away, and the stream is dropped as it is.  The result lists what the client was sent.\<close>

fun drive ::
  "json_lib \<Rightarrow> instants \<Rightarrow> (instants \<times> inner_poll) list \<Rightarrow> ('q, 'e, 'r) observed_stream
    \<Rightarrow> (stream_error + string) list \<times> ('q, 'e, 'r) observed_stream" where
  "drive jl t [] st = ([], drop_stream jl t st)"
| "drive jl t ((now, i) # polls) st =
     (case poll_next jl now i st of
        (StreamPending, st') \<Rightarrow> drive jl t polls st'
      | (StreamItem (Inr b), st') \<Rightarrow> (case drive jl t polls st' of (out, st'') \<Rightarrow> (Inr b # out, st''))
      | (StreamItem (Inl e), st') \<Rightarrow> ([Inl e], drop_stream jl now st')
      | (StreamEnd, st') \<Rightarrow> ([], drop_stream jl now st'))"

definition sent_bytes :: "(stream_error + string) list \<Rightarrow> string" where
  "sent_bytes out = concat (List.map_filter (\<lambda>x. case x of Inr b \<Rightarrow> Some b | Inl _ \<Rightarrow> None) out)"

lemma sent_bytes_simps [simp]:
  "sent_bytes [] = []" "sent_bytes (Inr b # out) = b @ sent_bytes out" "sent_bytes (Inl e # out) = sent_bytes out"
  by (simp_all add: sent_bytes_def map_filter_simps)

section \<open>A stream is finished once\<close>

lemma finish_idle: "os_span st = None \<Longrightarrow> on_complete st = None \<Longrightarrow> finish jl t st = st"
  by (simp add: finish_def finish_callback_def finish_span_def)

lemma finish_done: "os_span (finish jl t st) = None" "on_complete (finish jl t st) = None"
  by (auto simp: finish_def finish_callback_def finish_span_def Let_def split: option.splits sum.splits)

lemma finish_twice: "finish jl t (finish jl u st) = finish jl u st"
  by (simp add: finish_idle finish_done)

lemma finish_env:
  "os_env (finish jl t st) =
     (case on_complete st of None \<Rightarrow> os_env st
      | Some cb \<Rightarrow> if response_buffer st = [] then os_env st else cb (response_buffer st) (os_env st))"
  by (auto simp: finish_def finish_callback_def finish_span_def Let_def split: option.splits sum.splits)

lemma rewrite_bytes_fields [simp]:
  "os_span (snd (rewrite_bytes b st)) = os_span st" "os_hub (snd (rewrite_bytes b st)) = os_hub st"
  "on_complete (snd (rewrite_bytes b st)) = on_complete st" "os_env (snd (rewrite_bytes b st)) = os_env st"
  "response_buffer (snd (rewrite_bytes b st)) = response_buffer st" "os_preview (snd (rewrite_bytes b st)) = os_preview st"
  "os_panicked (snd (rewrite_bytes b st)) = os_panicked st"
  by (auto simp: rewrite_bytes_def split: option.split prod.split)

lemma account_bytes_fields [simp]:
  "os_hub (account_bytes t b st) = os_hub st" "on_complete (account_bytes t b st) = on_complete st"
  "os_env (account_bytes t b st) = os_env st" "os_panicked (account_bytes t b st) = os_panicked st"
  "os_preview (account_bytes t b st) = map_option (preview_push b) (os_preview st)"
  "os_span (account_bytes t b st) = map_option (add_response_bytes (length b) \<circ> mark_first_byte (at_instant t)) (os_span st)"
  by (simp_all add: account_bytes_def)

text \<open>One poll: either the stream goes on, or it has been finished.\<close>

lemma poll_next_cases:
  obtains (pending) "poll_next jl t i st = (StreamPending, st)"
  | (chunk) b st1 where "poll_next jl t i st = (StreamItem (Inr b), account_bytes t b st1)"
      "os_span st1 = os_span st" "os_hub st1 = os_hub st" "on_complete st1 = on_complete st" "os_env st1 = os_env st"
      "response_buffer st1 = response_buffer st" "os_preview st1 = os_preview st" "os_panicked st1 = os_panicked st"
  | (timeout) d where "poll_next jl t i st = (StreamItem (Inl (IdleTimeout d)),
        finish jl t (st\<lparr>os_span := map_option mark_timed_out (os_span st)\<rparr>))"
  | (failed) m where "poll_next jl t i st = (StreamItem (Inl (StreamUpstream m)), finish jl t st)"
  | (ended) "poll_next jl t i st = (StreamEnd, finish jl t st)"
proof (cases "deadline st \<le> at_instant t")
  case True
  then show ?thesis by (intro timeout) (simp add: poll_next_def)
next
  case False
  show ?thesis
  proof (cases i)
    case (InnerChunk bytes)
    let ?r = "rewrite_bytes bytes (st\<lparr>deadline := at_instant t + idle_timeout st\<rparr>)"
    have "poll_next jl t i st = (StreamItem (Inr (fst ?r)), account_bytes t (fst ?r) (snd ?r))"
      using False InnerChunk by (simp add: poll_next_def case_prod_unfold)
    then show ?thesis by (rule chunk) simp_all
  qed (use False in \<open>auto simp: poll_next_def intro: pending failed ended\<close>)
qed

lemma drive_callback:
  assumes "drive jl t polls st = (out, st')" and "on_complete st = Some cb"
  shows "os_env st' = (if response_buffer st @ sent_bytes out = [] then os_env st
                       else cb (response_buffer st @ sent_bytes out) (os_env st))"
  using assms
proof (induction polls arbitrary: st out)
  case Nil
  then show ?case by (auto simp: drop_stream_def finish_env)
next
  case (Cons x polls)
  obtain now i where x: "x = (now, i)" by (cases x)
  show ?case
  proof (cases rule: poll_next_cases[of jl now i st])
    case pending
    then show ?thesis using Cons x by simp
  next
    case (chunk b st1)
    then obtain out1 where "drive jl t polls (account_bytes now b st1) = (out1, st')" "out = Inr b # out1"
      using Cons.prems x by (auto split: prod.splits)
    moreover have "response_buffer (account_bytes now b st1) = response_buffer st @ b"
      using chunk Cons.prems(2) by (simp add: account_bytes_def)
    ultimately show ?thesis using Cons.IH[of "account_bytes now b st1" out1] chunk Cons.prems(2) by simp
  qed (use Cons.prems x in \<open>auto simp: drop_stream_def finish_twice finish_env\<close>)
qed

text \<open>The completion callback of a stream (the registration of the thinking blocks of a streamed answer) runs once,
  on exactly the bytes the client was sent, however the stream stops: at its end, at an upstream error, at the idle
  timeout or because the client went away.  An answer without a byte does not reach it.\<close>

theorem callback_sees_sent_bytes:
  assumes "drive jl t polls st = (out, st')" and "on_complete st = Some cb"
  shows "os_env st' = (if response_buffer st @ sent_bytes out = [] then os_env st
                       else cb (response_buffer st @ sent_bytes out) (os_env st))"
  using assms by (rule drive_callback)

lemma preview_push_Nil: "preview_push [] p = p"
  by (simp add: preview_push_def split: option.split)

lemma preview_push_push: "preview_push c (preview_push b p) = preview_push (b @ c) p"
proof (cases "rp_limit p")
  case (Some l)
  then show ?thesis
    by (cases "l \<le> length (rp_buffer p)"; cases "l - length (rp_buffer p) < length b"; cases "l - length (rp_buffer p) = length b")
      (simp_all add: preview_push_def Let_def)
qed (simp add: preview_push_def)

lemma preview_push_kept [simp]:
  "rp_limit (preview_push b p) = rp_limit p" "rp_content_type (preview_push b p) = rp_content_type p"
  "rp_pretty (preview_push b p) = rp_pretty p"
  by (auto simp: preview_push_def Let_def split: option.split)

text \<open>The span that ends up in the hub, against the one the stream was opened with.\<close>

definition span_grown :: "request_span \<Rightarrow> nat \<Rightarrow> bool \<Rightarrow> request_span \<Rightarrow> bool" where
  "span_grown s n late s' \<longleftrightarrow>
     rec_id (span_record s') = rec_id (span_record s) \<and> rec_backend (span_record s') = rec_backend (span_record s)
     \<and> rec_status (span_record s') = rec_status (span_record s)
     \<and> timed_out (span_record s') = (timed_out (span_record s) \<or> late)
     \<and> (unat (response_bytes (span_record s)) + n < 2 ^ 64
          \<longrightarrow> unat (response_bytes (span_record s')) = unat (response_bytes (span_record s)) + n)"

lemma span_grown_refl [simp]: "span_grown s 0 False s"
  by (simp add: span_grown_def)

lemma span_grown_preview [simp]: "span_grown s n late (set_body_preview v s') = span_grown s n late s'"
  by (simp add: span_grown_def set_body_preview_def Let_def)

lemma span_grown_late [simp]: "span_grown s 0 True (mark_timed_out s)"
  by (simp add: span_grown_def mark_timed_out_def)

lemma span_grown_bytes:
  assumes "span_grown (add_response_bytes k (mark_first_byte t s)) n late s'"
  shows "span_grown s (k + n) late s'"
proof -
  have "unat (sat_add (response_bytes (span_record s)) (of_nat k)) = unat (response_bytes (span_record s)) + k"
    if "unat (response_bytes (span_record s)) + (k + n) < 2 ^ 64"
    using that by (simp add: unat_sat_add unat_of_nat)
  then show ?thesis using assms
    by (auto simp: span_grown_def add_response_bytes_def mark_first_byte_def Let_def)
qed

lemma finish_hub:
  assumes "os_span st = Some s" "\<not> os_panicked st"
  shows "(os_panicked (finish jl t st) \<longleftrightarrow> (\<exists>p. os_preview st = Some p \<and> preview_value jl p = Inl ()))
    \<and> (if os_panicked (finish jl t st) then os_hub (finish jl t st) = os_hub st
       else \<exists>v. os_hub (finish jl t st) = finish_request (at_system t) (at_instant t)
           (if os_preview st = None then s else set_body_preview v s) (os_hub st))"
  using assms by (auto simp: finish_def finish_callback_def finish_span_def Let_def split: option.splits sum.splits)

definition late :: "(stream_error + string) list \<Rightarrow> bool" where
  "late out \<longleftrightarrow> (\<exists>d. Inl (IdleTimeout d) \<in> set out)"

lemma late_simps [simp]: "\<not> late []" "late (Inr b # out) = late out" "late [Inl (IdleTimeout d)]" "\<not> late [Inl (StreamUpstream m)]"
  by (auto simp: late_def)

definition span_finished :: "'q hub \<Rightarrow> request_span \<Rightarrow> nat \<Rightarrow> bool \<Rightarrow> 'q hub \<Rightarrow> bool" where
  "span_finished h s n l h' \<longleftrightarrow>
     (\<exists>(u :: instants) s'. h' = finish_request (at_system u) (at_instant u) s' h \<and> span_grown s n l s')"

lemma span_finishedI [intro!]:
  "span_grown s n l s' \<Longrightarrow> span_finished h s n l (finish_request (at_system u) (at_instant (u :: instants)) s' h)"
  by (auto simp: span_finished_def)

lemma span_finished_bytes:
  "span_finished h (add_response_bytes k (mark_first_byte t s)) n l h' \<Longrightarrow> span_finished h s (k + n) l h'"
  by (auto simp: span_finished_def dest: span_grown_bytes)

text \<open>What has become of a stream with span \<open>s\<close> that has sent \<open>out\<close>.\<close>

definition recorded_once ::
  "json_lib \<Rightarrow> request_span \<Rightarrow> ('q, 'e, 'r) observed_stream \<Rightarrow> (stream_error + string) list \<Rightarrow> ('q, 'e, 'r) observed_stream \<Rightarrow> bool" where
  "recorded_once jl s st out st' \<longleftrightarrow>
     (os_panicked st' \<longleftrightarrow> (\<exists>p. os_preview st = Some p \<and> preview_value jl (preview_push (sent_bytes out) p) = Inl ()))
     \<and> (if os_panicked st' then os_hub st' = os_hub st
        else span_finished (os_hub st) s (length (sent_bytes out)) (late out) (os_hub st'))"

lemma recorded_finish:
  assumes "os_span st = Some s" "\<not> os_panicked st" "sent_bytes out = []" "\<not> late out"
  shows "recorded_once jl s st out (finish jl t st)"
  using finish_hub[OF assms(1,2), of jl t] assms(3,4)
  by (auto simp: recorded_once_def preview_push_Nil split: if_splits)

lemma recorded_timeout:
  assumes "os_span st = Some s" "\<not> os_panicked st"
  shows "recorded_once jl s st [Inl (IdleTimeout d)] (finish jl t (st\<lparr>os_span := map_option mark_timed_out (os_span st)\<rparr>))"
  using finish_hub[of "st\<lparr>os_span := map_option mark_timed_out (os_span st)\<rparr>" "mark_timed_out s" jl t] assms
  by (auto simp: recorded_once_def preview_push_Nil split: if_splits)

text \<open>C20: the hub sees a streamed answer once: whatever is polled and however the stream stops, its span is finished
  exactly once, with the bytes the client was sent counted and the idle timeout marked when that is what ended it.  The
  one exception is an answer whose log entry cannot be written (a character across the cut): it is
  never recorded.\<close>

theorem stream_recorded_once:
  assumes "drive jl t polls st = (out, st')" and "os_span st = Some s" and "\<not> os_panicked st"
  shows "recorded_once jl s st out st'"
  using assms
proof (induction polls arbitrary: st out s)
  case Nil
  then show ?case by (auto simp: drop_stream_def intro: recorded_finish)
next
  case (Cons x polls)
  obtain now i where x: "x = (now, i)" by (cases x)
  show ?case
  proof (cases rule: poll_next_cases[of jl now i st])
    case pending
    then show ?thesis using Cons x by simp
  next
    case (chunk b st1)
    let ?st = "account_bytes now b st1" and ?s = "add_response_bytes (length b) (mark_first_byte (at_instant now) s)"
    obtain out1 where o: "drive jl t polls ?st = (out1, st')" "out = Inr b # out1"
      using chunk Cons.prems x by (auto split: prod.splits)
    have "recorded_once jl ?s ?st out1 st'" using Cons.IH[OF o(1)] chunk Cons.prems by simp
    then show ?thesis using chunk o(2)
      by (auto simp: recorded_once_def preview_push_push split: if_splits dest: span_finished_bytes)
  next
    case failed
    then show ?thesis using Cons.prems x by (auto simp: drop_stream_def finish_twice intro: recorded_finish)
  next
    case ended
    then show ?thesis using Cons.prems x by (auto simp: drop_stream_def finish_twice intro: recorded_finish)
  next
    case timeout
    then show ?thesis using Cons.prems x recorded_timeout[OF Cons.prems(2,3), of jl] by (auto simp: drop_stream_def finish_twice)
  qed
qed

section \<open>The stream of an answer\<close>

text \<open>The stream that \<open>handle_response\<close> opens: the callback registers the thinking blocks of the main agent, the
  rewriter undoes the model mapping.\<close>

definition open_stream ::
  "codec \<Rightarrow> u64 option \<Rightarrow> model_mapping option \<Rightarrow> nat \<Rightarrow> request_span \<Rightarrow> 'q hub \<Rightarrow> nat \<Rightarrow> response_preview option \<Rightarrow> registry
    \<Rightarrow> ('q, registry, bool) observed_stream" where
  "open_stream cd sess mapping now s h timeout pv r =
     (let st = new_stream now s h timeout pv False r;
          st1 = (case sess of
                   None \<Rightarrow> st
                 | Some sid \<Rightarrow> with_on_complete (\<lambda>bytes.
                     session_register_sse (cd_hash cd) (cd_clock cd) sid (parse_sse_events (cd_parse cd) bytes)) st)
      in case mapping of
           None \<Rightarrow> st1
         | Some mp \<Rightarrow> with_chunk_rewriter (rewrite_chunk (cd_parse cd) (cd_print cd) mp) st1)"

definition answer_preview :: "debug_logging_config \<Rightarrow> string option \<Rightarrow> response_preview option" where
  "answer_preview c content_type =
     (if level_rank LevelFull \<le> level_rank (level c) then
        (let ct = (case content_type of Some x \<Rightarrow> x | None \<Rightarrow> [])
         in if full_body c then Some (preview_full ct (pretty_print c)) else preview_new (body_preview_bytes c) ct)
      else None)"

fun in_time :: "nat \<Rightarrow> nat \<Rightarrow> (instants \<times> inner_poll) list \<Rightarrow> bool" where
  "in_time timeout dl [] \<longleftrightarrow> True"
| "in_time timeout dl ((t, i) # polls) \<longleftrightarrow>
     at_instant t < dl \<and> in_time timeout (case i of InnerChunk b \<Rightarrow> at_instant t + timeout | _ \<Rightarrow> dl) polls"

text \<open>Polls that take a body to its end, with the chunks it arrives in.\<close>

fun whole_body :: "(instants \<times> inner_poll) list \<Rightarrow> string list option" where
  "whole_body [] = None"
| "whole_body ((t, i) # polls) =
     (case i of
        InnerPending \<Rightarrow> whole_body polls
      | InnerChunk b \<Rightarrow> map_option (\<lambda>cs. b # cs) (whole_body polls)
      | InnerError m \<Rightarrow> None
      | InnerEnd \<Rightarrow> Some [])"

lemma drive_no_callback:
  "drive jl t polls st = (out, st') \<Longrightarrow> on_complete st = None \<Longrightarrow> os_env st' = os_env st"
proof (induction polls arbitrary: st out)
  case Nil
  then show ?case by (auto simp: drop_stream_def finish_env)
next
  case (Cons x polls)
  obtain now i where x: "x = (now, i)" by (cases x)
  show ?case
  proof (cases rule: poll_next_cases[of jl now i st])
    case pending
    then show ?thesis using Cons x by simp
  next
    case (chunk b st1)
    then obtain out1 where "drive jl t polls (account_bytes now b st1) = (out1, st')" "out = Inr b # out1"
      using Cons.prems x by (auto split: prod.splits)
    then show ?thesis using Cons.IH[of "account_bytes now b st1" out1] chunk Cons.prems(2) by simp
  qed (use Cons.prems x in \<open>auto simp: drop_stream_def finish_twice finish_env\<close>)
qed

lemma drive_whole_body:
  assumes "drive jl t polls st = (out, st')" "in_time (idle_timeout st) (deadline st) polls" "whole_body polls = Some cs"
    and "chunk_rewriter st = map_option (rewrite_chunk (cd_parse cd) (cd_print cd)) mapping"
  shows "sent_bytes out = concat (rewrite_stream cd mapping (rewriter_state st) cs)"
  using assms
proof (induction polls arbitrary: st out cs)
  case (Cons x polls)
  obtain now i where x: "x = (now, i)" by (cases x)
  have early: "\<not> deadline st \<le> at_instant now" using Cons.prems(2) x by simp
  show ?case
  proof (cases i)
    case InnerPending
    then show ?thesis using Cons x early by (auto simp: poll_next_def)
  next
    case (InnerChunk bytes)
    let ?st = "st\<lparr>deadline := at_instant now + idle_timeout st\<rparr>"
    obtain b st1 where rb: "rewrite_bytes bytes ?st = (b, st1)" by fastforce
    obtain cs1 where cs: "whole_body polls = Some cs1" "cs = bytes # cs1" using Cons.prems(3) x InnerChunk by auto
    obtain out1 where o: "drive jl t polls (account_bytes now b st1) = (out1, st')" "out = Inr b # out1"
      using Cons.prems(1) x InnerChunk early rb by (auto simp: poll_next_def split: prod.splits)
    have keep: "idle_timeout (account_bytes now b st1) = idle_timeout st" "chunk_rewriter (account_bytes now b st1) = chunk_rewriter st"
      "deadline (account_bytes now b st1) = at_instant now + idle_timeout st"
      "rewriter_state (account_bytes now b st1) = rewriter_state st1"
      using rb by (auto simp: account_bytes_def rewrite_bytes_def split: option.splits prod.splits)
    have "sent_bytes out1 = concat (rewrite_stream cd mapping (rewriter_state st1) cs1)"
      using Cons.IH[OF o(1) _ cs(1)] Cons.prems(2,4) x InnerChunk by (simp add: keep)
    then show ?thesis using rb Cons.prems(4) cs(2) o(2)
      by (cases mapping) (auto simp: rewrite_bytes_def split: prod.splits)
  next
    case (InnerError m)
    then show ?thesis using Cons.prems(3) x by simp
  next
    case InnerEnd
    then show ?thesis using Cons.prems(1,3) x early by (cases mapping) (auto simp: poll_next_def)
  qed
qed simp

lemma open_stream_fields [simp]:
  "idle_timeout (open_stream cd sess mapping now s h timeout pv r) = timeout"
  "deadline (open_stream cd sess mapping now s h timeout pv r) = now + timeout"
  "chunk_rewriter (open_stream cd sess mapping now s h timeout pv r) = map_option (rewrite_chunk (cd_parse cd) (cd_print cd)) mapping"
  "rewriter_state (open_stream cd sess mapping now s h timeout pv r) = False"
  "os_env (open_stream cd sess mapping now s h timeout pv r) = r"
  "response_buffer (open_stream cd sess mapping now s h timeout pv r) = []"
  "on_complete (open_stream cd sess mapping now s h timeout pv r) = map_option (\<lambda>sid bytes.
     session_register_sse (cd_hash cd) (cd_clock cd) sid (parse_sse_events (cd_parse cd) bytes)) sess"
  by (auto simp: open_stream_def Let_def new_stream_def with_on_complete_def with_chunk_rewriter_def split: option.split)

text \<open>C7: the pipeline's view of a streamed answer (its body in one piece, the thinking blocks registered from that body) is what
  polling the stream amounts to: for any chunking of the body and any waits between the chunks that keep within the idle
  timeout, the client is sent the body the pipeline describes and the registry ends up as the pipeline says.\<close>

theorem stream_refines_pipeline:
  assumes "drive jl t polls (open_stream cd sess mapping now s h timeout pv r) = (out, st')"
    and "in_time timeout (now + timeout) polls" and "whole_body polls = Some (net_chunks net resp)"
    and "is_event_stream resp"
  shows "handle_response cd net resp sess mapping r
     = Inr (Inr \<lparr>cl_status = up_status resp, cl_headers = response_headers mapping resp, cl_body = sent_bytes out\<rparr>,
            os_env st', up_status resp)"
proof -
  let ?st = "open_stream cd sess mapping now s h timeout pv r"
  have body: "sent_bytes out = concat (rewrite_stream cd mapping False (net_chunks net resp))"
    using drive_whole_body[OF assms(1) _ assms(3), of cd mapping] assms(2) by simp
  have "os_env st' = register_streamed cd sess (sent_bytes out) r"
  proof (cases sess)
    case None
    then show ?thesis using drive_no_callback[OF assms(1)] by (simp add: register_streamed_def)
  next
    case (Some sid)
    then show ?thesis using drive_callback[OF assms(1)] by (simp add: register_streamed_def)
  qed
  then show ?thesis using assms(4) by (simp add: handle_response_def body Let_def)
qed

section \<open>Concrete runs\<close>

definition demo_lib :: json_lib where
  "demo_lib = \<lparr>jl_parse = (\<lambda>_. None), jl_print = (\<lambda>_ _. None)\<rparr>"

definition tick_at :: "nat \<Rightarrow> instants" where
  "tick_at n = \<lparr>at_system = n, at_instant = n\<rparr>"

definition demo_record_span :: request_span where
  "demo_record_span = new_span 0 (fresh_record ''r'' 0 ''b'')"

definition stream_demo_polls :: "(instants \<times> inner_poll) list" where
  "stream_demo_polls = [(tick_at 1, InnerPending), (tick_at 2, InnerChunk ''ab''), (tick_at 9, InnerChunk ''c''), (tick_at 10, InnerEnd)]"

definition stream_demo :: "(unit, string list, unit) observed_stream" where
  "stream_demo = with_on_complete (\<lambda>b e. b # e) (new_stream 0 demo_record_span (hub_new 5) 8 None () [])"

lemma stream_demo_out: "fst (drive demo_lib (tick_at 20) stream_demo_polls stream_demo) = [Inr ''ab'', Inr ''c'']"
  by (simp add: stream_demo_polls_def stream_demo_def poll_next_def rewrite_bytes_def with_on_complete_def new_stream_def
      tick_at_def account_bytes_def)

theorem callback_sees_sent_bytes_witness: "os_env (snd (drive demo_lib (tick_at 20) stream_demo_polls stream_demo)) = [''abc'']"
proof -
  have d: "drive demo_lib (tick_at 20) stream_demo_polls stream_demo
      = ([Inr ''ab'', Inr ''c''], snd (drive demo_lib (tick_at 20) stream_demo_polls stream_demo))"
    by (metis stream_demo_out prod.collapse)
  have "on_complete stream_demo = Some (\<lambda>b e. b # e)" by (simp add: stream_demo_def with_on_complete_def)
  from callback_sees_sent_bytes[OF d this] show ?thesis
    by (simp add: stream_demo_def with_on_complete_def new_stream_def)
qed

theorem stream_recorded_once_witness:
  "span_finished (hub_new 5) demo_record_span 3 False (os_hub (snd (drive demo_lib (tick_at 20) stream_demo_polls stream_demo)))"
proof -
  have d: "drive demo_lib (tick_at 20) stream_demo_polls stream_demo
      = ([Inr ''ab'', Inr ''c''], snd (drive demo_lib (tick_at 20) stream_demo_polls stream_demo))"
    by (metis stream_demo_out prod.collapse)
  have f: "os_span stream_demo = Some demo_record_span" "\<not> os_panicked stream_demo" "os_preview stream_demo = None"
    "os_hub stream_demo = hub_new 5"
    by (simp_all add: stream_demo_def with_on_complete_def new_stream_def)
  show ?thesis using stream_recorded_once[OF d f(1,2)] f(3,4) by (auto simp: recorded_once_def numeral_eq_Suc split: if_splits)
qed

definition event_answer :: upstream_response where
  "event_answer = \<lparr>up_status = 200, up_headers = [(''content-type'', ''text/event-stream'')], up_body = ''abc''\<rparr>"

definition event_net :: network where
  "event_net = demo_net\<lparr>net_chunks := (\<lambda>_. [''ab'', ''c''])\<rparr>"

lemma event_stream_out:
  "fst (drive demo_lib (tick_at 20) stream_demo_polls
      (open_stream demo_codec None None 0 demo_record_span (hub_new 5 :: unit hub) 8 None new_registry)) = [Inr ''ab'', Inr ''c'']"
  by (simp add: stream_demo_polls_def open_stream_def poll_next_def rewrite_bytes_def new_stream_def
      tick_at_def account_bytes_def)

theorem stream_refines_pipeline_witness:
  "\<exists>reg. handle_response demo_codec event_net event_answer None None new_registry
     = Inr (Inr \<lparr>cl_status = 200, cl_headers = [(''content-type'', ''text/event-stream'')], cl_body = ''abc''\<rparr>, reg, 200)"
proof -
  let ?st = "open_stream demo_codec None None 0 demo_record_span (hub_new 5 :: unit hub) 8 None new_registry"
  have d: "drive demo_lib (tick_at 20) stream_demo_polls ?st
      = ([Inr ''ab'', Inr ''c''], snd (drive demo_lib (tick_at 20) stream_demo_polls ?st))"
    by (metis event_stream_out prod.collapse)
  have "in_time 8 (0 + 8) stream_demo_polls" "whole_body stream_demo_polls = Some (net_chunks event_net event_answer)"
    by (simp_all add: stream_demo_polls_def tick_at_def event_net_def)
  moreover have "is_event_stream event_answer" by code_simp
  ultimately show ?thesis
    using stream_refines_pipeline[OF d] by (auto simp: response_headers_def event_answer_def)
qed

end
