(* ===== verification/Models.thy ===== *)
theory Models
  imports ProxyError UpstreamUrl Json
begin

text \<open>
  The list of models and its cache (\<open>src/proxy/models.rs\<close>).  The network, the check the \<open>http\<close> crate
  makes of a header value and the debug format of a string are the fields of \<open>models_env\<close>; the cache, a process-wide
  hash map, is an association list passed along.  Instants are nanoseconds.
\<close>

section \<open>Fetching\<close>

datatype probe_result = ProbeFailed string | ProbeAnswer nat "string option" "string + string"

record models_env =
  me_client_error :: "string option"
  me_probe :: "string \<Rightarrow> (string \<times> string) list \<Rightarrow> probe_result"
  me_header_ok :: "string \<Rightarrow> bool"
  me_debug :: "string \<Rightarrow> string"

record cache_entry =
  ce_body :: string
  ce_content_type :: string
  fetched_at :: nat
  resolved_path :: string

definition cache_ttl :: nat where
  "cache_ttl = 30 * 60 * 10 ^ 9"

definition probe_paths :: "string list" where
  "probe_paths = [''/v1/models'', ''/models'']"

type_synonym cache_key = "string \<times> string"
type_synonym models_cache = "(cache_key \<times> cache_entry) list"
type_synonym probe_log = "(string \<times> (string \<times> string) list) list"

definition invalidate_cache :: "models_cache \<Rightarrow> models_cache" where
  "invalidate_cache c = []"

definition cache_key_of :: "backend \<Rightarrow> cache_key" where
  "cache_key_of b = (name b, base_url b)"

definition get_cached :: "nat \<Rightarrow> cache_key \<Rightarrow> models_cache \<Rightarrow> cache_entry option" where
  "get_cached now k c =
     (case map_of c k of
        Some e \<Rightarrow> if now - fetched_at e < cache_ttl then Some e else None
      | None \<Rightarrow> None)"

definition candidate_paths :: "backend \<Rightarrow> string list" where
  "candidate_paths b = (case models_path b of Some p \<Rightarrow> [p] | None \<Rightarrow> probe_paths)"

definition probe_url :: "backend \<Rightarrow> string \<Rightarrow> string" where
  "probe_url b path = trim_end_slash (base_url b) @ path"

definition probe_headers :: "backend \<Rightarrow> (string \<times> string) list" where
  "probe_headers b =
     (case build_auth_header b of Some h \<Rightarrow> [h] | None \<Rightarrow> []) @ [(''accept'', ''application/json'')]"

text \<open>The loop over the candidates, with the requests it sends and the last failure.\<close>

fun probe_loop ::
  "models_env \<Rightarrow> nat \<Rightarrow> backend \<Rightarrow> string list \<Rightarrow> (nat \<times> string) option
    \<Rightarrow> ((nat \<times> string) + cache_entry) \<times> probe_log" where
  "probe_loop env now b [] last_status =
     (Inl (case last_status of Some s \<Rightarrow> s | None \<Rightarrow> (502, ''no models endpoint responded'')), [])"
| "probe_loop env now b (p # paths) last_status =
     (let sent = (probe_url b p, probe_headers b)
      in case me_probe env (fst sent) (snd sent) of
           ProbeFailed m \<Rightarrow>
             apsnd (Cons sent) (probe_loop env now b paths (Some (502, ''upstream error for '' @ p @ '': '' @ m)))
         | ProbeAnswer status ct body \<Rightarrow>
             if status = 404
             then apsnd (Cons sent) (probe_loop env now b paths (Some (404, ''no models endpoint at '' @ p)))
             else case body of
               Inl m \<Rightarrow> (Inl (502, ''failed to read body from '' @ p @ '': '' @ m), [sent])
             | Inr bytes \<Rightarrow>
                 if status < 200 \<or> 300 \<le> status then (Inl (status, str_lossy bytes), [sent])
                 else (Inr \<lparr>ce_body = bytes,
                            ce_content_type = (case ct of Some x \<Rightarrow> x | None \<Rightarrow> ''application/json''),
                            fetched_at = now, resolved_path = p\<rparr>, [sent]))"

definition fetch_models :: "models_env \<Rightarrow> nat \<Rightarrow> backend \<Rightarrow> ((nat \<times> string) + cache_entry) \<times> probe_log" where
  "fetch_models env now b =
     (case me_client_error env of
        Some m \<Rightarrow> (Inl (500, ''http client init failed: '' @ m), [])
      | None \<Rightarrow> probe_loop env now b (candidate_paths b) None)"

section \<open>Answering\<close>

record models_response =
  mr_status :: nat
  mr_headers :: "(string \<times> string) list"
  mr_body :: string

text \<open>\<open>None\<close> is the panic of an \<open>unwrap\<close>.\<close>

definition build_response :: "models_env \<Rightarrow> nat \<Rightarrow> cache_entry \<Rightarrow> models_response option" where
  "build_response env now e =
     (if me_header_ok env (ce_content_type e) \<and> me_header_ok env (resolved_path e) then
        Some \<lparr>mr_status = 200,
              mr_headers = [(''content-type'', ce_content_type e), (''x-anycode-models-source'', resolved_path e),
                            (''x-anycode-models-age-secs'', show_nat ((now - fetched_at e) div 10 ^ 9))],
              mr_body = ce_body e\<rparr>
      else None)"

definition error_response :: "models_env \<Rightarrow> nat \<Rightarrow> string \<Rightarrow> models_response" where
  "error_response env status message =
     \<lparr>mr_status = status, mr_headers = [(''content-type'', ''application/json'')],
      mr_body = ''{\"error\":{\"message\":'' @ me_debug env message @ ''}}''\<rparr>"

definition handle_list_models ::
  "models_env \<Rightarrow> nat \<Rightarrow> backend_state \<Rightarrow> models_cache \<Rightarrow> models_response option \<times> models_cache \<times> probe_log" where
  "handle_list_models env now s c =
     (case get_active_backend_config s of
        Inl e \<Rightarrow> (Some (error_response env 503 (''No active backend: '' @ show_backend_error e)), c, [])
      | Inr b \<Rightarrow>
          if \<not> is_configured b
          then (Some (error_response env 503 (''Backend '' @ quoted (name b) @ '' is missing an API key'')), c, [])
          else case get_cached now (cache_key_of b) c of
            Some e \<Rightarrow> (build_response env now e, c, [])
          | None \<Rightarrow>
              (case fetch_models env now b of
                 (Inr e, log) \<Rightarrow> (build_response env now e, AList.update (cache_key_of b) e c, log)
               | (Inl (status, m), log) \<Rightarrow> (Some (error_response env status m), c, log)))"

section \<open>Requests and entries\<close>

lemma probe_loop_log:
  "snd (probe_loop env now b ps st) = map (\<lambda>p. (probe_url b p, probe_headers b))
     (take (length (snd (probe_loop env now b ps st))) ps)"
  by (induction ps arbitrary: st) (auto simp: Let_def apsnd_def split: probe_result.splits sum.splits)

text \<open>Where an entry of the cache comes from.\<close>

definition came_from :: "models_env \<Rightarrow> nat \<Rightarrow> backend \<Rightarrow> cache_entry \<Rightarrow> bool" where
  "came_from env now b e \<longleftrightarrow>
     fetched_at e = now \<and> resolved_path e \<in> set (candidate_paths b)
     \<and> (case me_probe env (probe_url b (resolved_path e)) (probe_headers b) of
           ProbeFailed _ \<Rightarrow> False
         | ProbeAnswer status ct body \<Rightarrow> 200 \<le> status \<and> status < 300 \<and> body = Inr (ce_body e))"

lemma probe_loop_entry:
  assumes "probe_loop env now b ps st = (Inr e, log)" "set ps \<subseteq> set (candidate_paths b)"
  shows "came_from env now b e"
  using assms
proof (induction ps arbitrary: st log)
  case (Cons p ps)
  show ?case
  proof (cases "me_probe env (probe_url b p) (probe_headers b)")
    case (ProbeFailed m)
    then show ?thesis using Cons by (auto simp: Let_def apsnd_def map_prod_def split: prod.splits)
  next
    case (ProbeAnswer status ct body)
    show ?thesis
    proof (cases "status = 404")
      case True
      then show ?thesis using Cons ProbeAnswer by (auto simp: Let_def apsnd_def map_prod_def split: prod.splits)
    next
      case False
      then show ?thesis using Cons.prems ProbeAnswer
        by (auto simp: Let_def came_from_def split: sum.splits if_splits)
    qed
  qed
qed simp

lemma fetch_models_entry: "fetch_models env now b = (Inr e, log) \<Longrightarrow> came_from env now b e"
  by (auto simp: fetch_models_def intro: probe_loop_entry split: option.splits)

lemma probe_loop_error:
  "probe_loop env now b ps st = (Inl (status, m), log) \<Longrightarrow> st = None \<or> (\<exists>x. st = Some x \<and> fst x \<noteq> 200) \<Longrightarrow> status \<noteq> 200"
proof (induction ps arbitrary: st log)
  case (Cons p ps)
  then show ?case
    by (auto simp: Let_def apsnd_def map_prod_def split: probe_result.splits prod.splits sum.splits if_splits)
qed (auto split: option.splits)

lemma fetch_models_error: "fetch_models env now b = (Inl (status, m), log) \<Longrightarrow> status \<noteq> 200"
  by (auto simp: fetch_models_def dest: probe_loop_error split: option.splits)

text \<open>The process: list requests between switches (which clear the cache when they change the active
  backend) and reloads (which do not).\<close>

datatype models_op = ListModels models_env nat | SwitchTo nat string | Reload nat cli_profile

fun run_models_op :: "models_op \<Rightarrow> backend_state \<times> models_cache \<Rightarrow> backend_state \<times> models_cache" where
  "run_models_op (ListModels env now) (s, c) = (s, fst (snd (handle_list_models env now s c)))"
| "run_models_op (SwitchTo now n) (s, c) =
     (case switch_backend now n s of
        Inl _ \<Rightarrow> (s, c) | Inr (s', changed) \<Rightarrow> (s', if changed then invalidate_cache c else c))"
| "run_models_op (Reload now p) (s, c) =
     (case update_config now p s of Inl _ \<Rightarrow> (s, c) | Inr s' \<Rightarrow> (s', c))"

definition genuine :: "models_op list \<Rightarrow> models_cache \<Rightarrow> bool" where
  "genuine ops c \<longleftrightarrow> (\<forall>k e. map_of c k = Some e \<longrightarrow>
     (\<exists>env now b. ListModels env now \<in> set ops \<and> cache_key_of b = k \<and> is_configured b \<and> came_from env now b e))"

lemma genuine_Nil [simp]: "genuine ops []"
  by (simp add: genuine_def)

lemma genuine_mono: "genuine ops c \<Longrightarrow> genuine (ops @ [op]) c"
  by (fastforce simp: genuine_def)

lemma genuine_update:
  "genuine ops c \<Longrightarrow> ListModels env now \<in> set ops \<Longrightarrow> is_configured b \<Longrightarrow> came_from env now b e
   \<Longrightarrow> genuine ops (AList.update (cache_key_of b) e c)"
  by (auto simp: genuine_def update_conv)

lemma genuine_step:
  assumes "genuine ops c" "run_models_op op (s, c) = (s', c')"
  shows "genuine (ops @ [op]) c'"
proof (cases op)
  case (ListModels env now)
  have g: "genuine (ops @ [op]) c" using genuine_mono[OF assms(1)] .
  show ?thesis
    using assms(2) g genuine_update[OF g, of env now] ListModels
    by (auto simp: handle_list_models_def dest: fetch_models_entry split: sum.splits if_splits option.splits prod.splits)
next
  case (SwitchTo now n)
  then show ?thesis using assms genuine_mono by (auto simp: invalidate_cache_def split: sum.splits prod.splits if_splits)
next
  case (Reload now p)
  then show ?thesis using assms genuine_mono by (auto split: sum.splits)
qed

lemma genuine_run: "fold run_models_op ops (s, []) = (s', c') \<Longrightarrow> genuine ops c'"
proof (induction ops arbitrary: s' c' rule: rev_induct)
  case (snoc op ops)
  obtain s1 c1 where "fold run_models_op ops (s, []) = (s1, c1)" by fastforce
  then show ?case using snoc genuine_step by auto
qed simp

text \<open>Every list of models that is served is one the network returned with a success status, for a backend of the active
  one's name and base URL, less than thirty minutes ago (or just now); an error is never served from the cache, whatever
  switches and reloads came in between.\<close>

theorem served_models_genuine:
  assumes "fold run_models_op ops (s, []) = (s', c)"
    and "handle_list_models env now s' c = (Some r, c', log)" and "mr_status r = 200"
  shows "\<exists>b env' now' b' e. get_active_backend_config s' = Inr b \<and> cache_key_of b' = cache_key_of b
     \<and> ListModels env' now' \<in> set (ops @ [ListModels env now]) \<and> came_from env' now' b' e
     \<and> mr_body r = ce_body e \<and> (now' = now \<or> now - now' < cache_ttl)"
proof -
  have g: "genuine ops c" by (rule genuine_run[OF assms(1)])
  obtain b where b: "get_active_backend_config s' = Inr b" "is_configured b"
    using assms(2,3) by (auto simp: handle_list_models_def error_response_def split: sum.splits if_splits)
  show ?thesis
  proof (cases "get_cached now (cache_key_of b) c")
    case (Some e)
    then have m: "map_of c (cache_key_of b) = Some e" "now - fetched_at e < cache_ttl"
      by (auto simp: get_cached_def split: option.splits if_splits)
    obtain env' now' b' where o: "ListModels env' now' \<in> set ops" "cache_key_of b' = cache_key_of b" "came_from env' now' b' e"
      using g m(1) unfolding genuine_def by blast
    have "mr_body r = ce_body e"
      using assms(2) b Some by (auto simp: handle_list_models_def build_response_def split: if_splits)
    moreover have "now' = fetched_at e" using o(3) by (simp add: came_from_def)
    ultimately show ?thesis using b(1) o m(2) by (intro exI[of _ b] exI[of _ env'] exI[of _ now'] exI[of _ b'] exI[of _ e]) auto
  next
    case None
    then obtain e where e: "fetch_models env now b = (Inr e, log)" "mr_body r = ce_body e"
      using assms(2,3) b
      by (auto simp: handle_list_models_def build_response_def error_response_def dest: fetch_models_error split: sum.splits prod.splits if_splits)
    then show ?thesis using b(1) fetch_models_entry[OF e(1)]
      by (intro exI[of _ b] exI[of _ env] exI[of _ now] exI[of _ b] exI[of _ e]) auto
  qed
qed

text \<open>The requests of a list are few and carry nothing of the client: at most two, to the backend's own base URL, with the
  backend's credential and an \<open>accept\<close> header.\<close>

theorem models_requests_own:
  assumes "handle_list_models env now s c = (r, c', log)"
  shows "length log \<le> 2 \<and> (\<forall>(u, hs) \<in> set log. \<exists>b p. get_active_backend_config s = Inr b \<and> is_configured b
     \<and> p \<in> set (candidate_paths b) \<and> u = probe_url b p \<and> hs = probe_headers b)"
proof (cases "log = []")
  case False
  then obtain b where b: "get_active_backend_config s = Inr b" "is_configured b" "log = snd (fetch_models env now b)"
    using assms by (auto simp: handle_list_models_def split: sum.splits prod.splits if_splits option.splits)
  have "log = snd (probe_loop env now b (candidate_paths b) None)"
    using b(3) False by (auto simp: fetch_models_def split: option.splits)
  then have l: "log = map (\<lambda>p. (probe_url b p, probe_headers b)) (take (length log) (candidate_paths b))"
    using probe_loop_log by metis
  have "length (candidate_paths b) \<le> 2" by (simp add: candidate_paths_def probe_paths_def split: option.split)
  then have "length log \<le> 2" using arg_cong[OF l, of length] by simp
  moreover have "\<forall>x \<in> set log. \<exists>p \<in> set (candidate_paths b). x = (probe_url b p, probe_headers b)"
    by (subst l) (auto dest: in_set_takeD)
  ultimately show ?thesis using b(1,2) by blast
qed simp

text \<open>A reload does not clear the cache: a backend edited under the same name and base URL (another key, another models path)
  goes on being answered with the list fetched with its old settings, and is not asked.\<close>

theorem reload_keeps_models:
  assumes "get_active_backend_config s = Inr b" and "update_config now p s = Inr s'"
    and "get_active_backend_config s' = Inr b'" and "cache_key_of b' = cache_key_of b" and "is_configured b'"
    and "get_cached now (cache_key_of b) c = Some e"
  shows "handle_list_models env now (fst (run_models_op (Reload now p) (s, c))) (snd (run_models_op (Reload now p) (s, c)))
     = (build_response env now e, c, [])"
  using assms by (simp add: handle_list_models_def)

definition demo_models_env :: models_env where
  "demo_models_env = \<lparr>me_client_error = None,
     me_probe = (\<lambda>u hs. if u = ''https://x.test/models'' then ProbeAnswer 200 None (Inr ''[]'') else ProbeAnswer 404 None (Inr [])),
     me_header_ok = (\<lambda>_. True), me_debug = (\<lambda>m. m)\<rparr>"

definition models_backend :: backend where
  "models_backend = default_backend\<lparr>auth_type_str := ''api_key'', api_key := Some ''k'', base_url := ''https://x.test/''\<rparr>"

definition demo_models_state :: backend_state where
  "demo_models_state = \<lparr>active_backend = ''claude'', cfg = default_profile\<lparr>backends := [models_backend]\<rparr>, switch_log = []\<rparr>"

definition demo_entry :: cache_entry where
  "demo_entry = \<lparr>ce_body = ''[]'', ce_content_type = ''application/json'', fetched_at = 0, resolved_path = ''/models''\<rparr>"

lemma demo_active: "get_active_backend_config demo_models_state = Inr models_backend"
  by (simp add: get_active_backend_config_def find_backend_def demo_models_state_def models_backend_def default_backend_def)

lemma demo_key: "cache_key_of models_backend = (''claude'', ''https://x.test/'')"
  by (simp add: cache_key_of_def models_backend_def default_backend_def)

lemma demo_first_list:
  "handle_list_models demo_models_env 0 demo_models_state []
     = (build_response demo_models_env 0 demo_entry, [((''claude'', ''https://x.test/''), demo_entry)],
        [(''https://x.test/v1/models'', [(''x-api-key'', ''k''), (''accept'', ''application/json'')]),
         (''https://x.test/models'', [(''x-api-key'', ''k''), (''accept'', ''application/json'')])])"
proof -
  have "is_configured models_backend" by code_simp
  moreover have "fetch_models demo_models_env 0 models_backend = (Inr demo_entry,
     [(''https://x.test/v1/models'', [(''x-api-key'', ''k''), (''accept'', ''application/json'')]),
      (''https://x.test/models'', [(''x-api-key'', ''k''), (''accept'', ''application/json'')])])"
    by code_simp
  ultimately show ?thesis by (simp add: handle_list_models_def demo_active get_cached_def demo_key)
qed

theorem models_requests_own_witness:
  "\<exists>b p. get_active_backend_config demo_models_state = Inr b \<and> ''https://x.test/models'' = probe_url b p
     \<and> [(''x-api-key'', ''k''), (''accept'', ''application/json'')] = probe_headers b"
  using models_requests_own[OF demo_first_list] by auto

theorem served_models_genuine_witness:
  "\<exists>b env' now' b' e. get_active_backend_config demo_models_state = Inr b \<and> cache_key_of b' = cache_key_of b
     \<and> ListModels env' now' \<in> set ([ListModels demo_models_env 0] @ [ListModels demo_models_env 5]) \<and> came_from env' now' b' e
     \<and> ''[]'' = ce_body e \<and> (now' = 5 \<or> 5 - now' < cache_ttl)"
proof -
  let ?ops = "[ListModels demo_models_env 0]"
  let ?c = "[((''claude'', ''https://x.test/''), demo_entry)]"
  have run: "fold run_models_op ?ops (demo_models_state, []) = (demo_models_state, ?c)"
    by (simp add: demo_first_list)
  have "get_cached 5 (''claude'', ''https://x.test/'') ?c = Some demo_entry"
    by (simp add: get_cached_def demo_entry_def cache_ttl_def)
  moreover have "is_configured models_backend" by code_simp
  ultimately obtain r where r: "handle_list_models demo_models_env 5 demo_models_state ?c = (Some r, ?c, [])"
     "mr_status r = 200" "mr_body r = ''[]''"
    by (simp add: handle_list_models_def demo_active demo_key build_response_def demo_models_env_def demo_entry_def)
  show ?thesis using served_models_genuine[OF run r(1,2)] unfolding r(3) .
qed

end
