(* ===== verification/Server.thy ===== *)
theory Server
  imports Pipeline Hooks Models Redaction
begin

text \<open>
  The HTTP front of the proxy: authentication, the route table and the proxy handler
  (\<open>src/proxy/router.rs\<close>), the health answer (\<open>src/proxy/health.rs\<close>) and the search for a port
  (\<open>src/proxy/server.rs\<close>).  Routing is \<open>axum\<close>'s: exact paths first, then the nested \<open>/teammate\<close> tree, then the
  fallback.  Bodies of the hook endpoints reach the handlers through \<open>serde\<close>; what it refuses is answered with 415, 400
  or 422.  The only plugin of the server's hub has no request hook, so no request carries a plugin override.  A request whose
  handler panics is \<open>Aborted\<close>; its effects are not kept.
\<close>

section \<open>Authentication\<close>

definition header_str :: "string \<Rightarrow> in_headers \<Rightarrow> string option" where
  "header_str n hs = (case map_of hs n of Some v \<Rightarrow> v | None \<Rightarrow> None)"

definition bearer_token :: "string \<Rightarrow> string option" where
  "bearer_token v = (case strip_prefix ''Bearer '' v of Some t \<Rightarrow> Some t | None \<Rightarrow> strip_prefix ''bearer '' v)"

definition token_valid :: "string \<Rightarrow> in_headers \<Rightarrow> bool" where
  "token_valid expected hs \<longleftrightarrow>
     header_str ''x-session-token'' hs = Some expected
     \<or> Option.bind (header_str ''authorization'' hs) bearer_token = Some expected
     \<or> header_str ''x-api-key'' hs = Some expected"

definition auth_passes :: "string option \<Rightarrow> in_headers \<Rightarrow> bool" where
  "auth_passes session_token hs =
     (case session_token of Some expected \<Rightarrow> token_valid expected hs | None \<Rightarrow> True)"

section \<open>Requests and routes\<close>

record incoming =
  in_method :: string
  in_path :: string
  in_query :: "string option"
  in_headers_of :: in_headers
  in_body :: "string option"

definition path_and_query :: "string \<Rightarrow> string option \<Rightarrow> string" where
  "path_and_query path q = path @ (case q of Some x \<Rightarrow> CHR ''?'' # x | None \<Rightarrow> [])"

datatype endpoint =
    EpHealth
  | EpSubagentStart
  | EpSubagentStop
  | EpTeammateStart
  | EpTeammate string
  | EpModels
  | EpProxy
  | EpWrongMethod bool

definition get_route :: "string \<Rightarrow> bool \<Rightarrow> endpoint \<Rightarrow> endpoint" where
  "get_route m authenticated e = (if m = ''GET'' \<or> m = ''HEAD'' then e else EpWrongMethod authenticated)"

definition post_route :: "string \<Rightarrow> endpoint \<Rightarrow> endpoint" where
  "post_route m e = (if m = ''POST'' then e else EpWrongMethod False)"

definition endpoint_of :: "string \<Rightarrow> string \<Rightarrow> endpoint" where
  "endpoint_of m path =
     (if path = ''/health'' then get_route m False EpHealth
      else if path = ''/api/subagent-start'' then post_route m EpSubagentStart
      else if path = ''/api/subagent-stop'' then post_route m EpSubagentStop
      else if path = ''/api/teammate-start'' then post_route m EpTeammateStart
      else if path = ''/v1/models'' \<or> path = ''/models'' then get_route m True EpModels
      else if path = ''/teammate'' then EpTeammate ''/''
      else case strip_prefix ''/teammate/'' path of
             Some rest \<Rightarrow> EpTeammate (CHR ''/'' # rest)
           | None \<Rightarrow> EpProxy)"

text \<open>The first segment of a teammate path, and the path without it.\<close>

definition agent_candidate :: "string \<Rightarrow> string option" where
  "agent_candidate path =
     (case path of
        c # rest \<Rightarrow>
          if c = CHR ''/'' then
            (let seg = takeWhile (\<lambda>c. c \<noteq> CHR ''/'') rest in if seg = [] then None else Some seg)
          else None
      | [] \<Rightarrow> None)"

definition strip_agent :: "string \<Rightarrow> string \<Rightarrow> string" where
  "strip_agent i path =
     (let rest = (case strip_prefix (CHR ''/'' # i) path of Some r \<Rightarrow> r | None \<Rightarrow> path)
      in if rest = [] then ''/'' else rest)"

section \<open>The engine\<close>

record engine =
  en_session_token :: "string option"
  en_hooks :: hook_state
  en_retry :: retry_config
  en_thinking :: registry
  en_models :: models_cache

record server_env =
  se_codec :: codec
  se_network :: network
  se_models :: models_env
  se_now :: nat
  se_uri_ok :: "string \<Rightarrow> bool"
  se_json_type :: "in_headers \<Rightarrow> bool"
  se_request_id :: string

record response =
  rs_status :: nat
  rs_headers :: "(string \<times> string) list"
  rs_body :: string

datatype answer = Answer response | Aborted

text \<open>The body of an error answer, before it is printed.\<close>

definition error_json :: "proxy_error \<Rightarrow> string \<Rightarrow> json" where
  "error_json e i = JObj [(''error'', JObj [(''type'', JStr (error_type e)), (''message'', JStr (show_proxy_error e)),
                                            (''request_id'', JStr i)])]"

definition from_error :: "(json \<Rightarrow> string) \<Rightarrow> proxy_error \<Rightarrow> string \<Rightarrow> response" where
  "from_error show_json e i =
     \<lparr>rs_status = status_code e, rs_headers = [(''content-type'', ''application/json'')], rs_body = show_json (error_json e i)\<rparr>"

definition print_or_empty :: "codec \<Rightarrow> json \<Rightarrow> string" where
  "print_or_empty cd j = (case cd_print cd j of Some s \<Rightarrow> s | None \<Rightarrow> [])"

definition json_answer :: "codec \<Rightarrow> json \<Rightarrow> answer" where
  "json_answer cd j = Answer \<lparr>rs_status = 200, rs_headers = [(''content-type'', ''application/json'')], rs_body = print_or_empty cd j\<rparr>"

definition plain_answer :: "nat \<Rightarrow> string \<Rightarrow> answer" where
  "plain_answer st b = Answer \<lparr>rs_status = st, rs_headers = [], rs_body = b\<rparr>"

definition health_answer :: "codec \<Rightarrow> answer" where
  "health_answer cd = json_answer cd (JObj [(''status'', JStr ''healthy''), (''service'', JStr ''anycode'')])"

type_synonym upstream_log = "(string \<times> out_headers \<times> string) list"

text \<open>What the proxy handler reads off a request: the override and the request the pipeline sees.\<close>

definition teammate_override :: "hook_state \<Rightarrow> string option \<Rightarrow> string option" where
  "teammate_override h candidate =
     (case Option.bind candidate (\<lambda>i. agent_lookup i (agent_reg h)) of
        Some b \<Rightarrow> Some b
      | None \<Rightarrow> teammate_backend h)"

definition teammate_path :: "server_env \<Rightarrow> string \<Rightarrow> string option \<Rightarrow> string" where
  "teammate_path env path q =
     (case agent_candidate path of
        None \<Rightarrow> path
      | Some i \<Rightarrow>
          (let p = strip_agent i path in if se_uri_ok env (path_and_query p q) then p else path))"

definition proxy_handler :: "server_env \<Rightarrow> engine \<Rightarrow> bool \<Rightarrow> string \<Rightarrow> incoming \<Rightarrow> answer \<times> engine \<times> upstream_log" where
  "proxy_handler env en is_teammate path rq =
     (let ovr = (if is_teammate then teammate_override (en_hooks en) (agent_candidate path) else None);
          p = (if is_teammate then teammate_path env path (in_query rq) else path);
          req = \<lparr>rq_path = Some (path_and_query p (in_query rq)), rq_headers = in_headers_of rq, rq_body = in_body rq\<rparr>;
          penv = \<lparr>pe_state = hk_backend_state (en_hooks en), pe_agents = agent_reg (en_hooks en), pe_retry = en_retry en\<rparr>
      in case execute_pipeline (se_codec env) (se_network env) penv req ovr None (en_thinking en) of
           Inl _ \<Rightarrow> (Aborted, en, [])
         | Inr res \<Rightarrow>
             (case pr_result res of
                Inl e \<Rightarrow> Answer (from_error (print_or_empty (se_codec env)) e (se_request_id env))
              | Inr cl \<Rightarrow> Answer \<lparr>rs_status = cl_status cl, rs_headers = cl_headers cl, rs_body = cl_body cl\<rparr>,
              en\<lparr>en_thinking := pr_registry res\<rparr>, pr_log res))"

text \<open>The inputs of the hooks: the optional \<open>agent_id\<close> of a subagent hook, the required one of a teammate hook.  The
  outer \<open>None\<close> is a body \<open>serde\<close> refuses.\<close>

definition subagent_input :: "codec \<Rightarrow> string \<Rightarrow> string option option" where
  "subagent_input cd body =
     (case cd_parse cd body of
        Some (JObj kvs) \<Rightarrow>
          (let field = (\<lambda>k. case map_of kvs k of None \<Rightarrow> Some None | Some JNull \<Rightarrow> Some None
                                               | Some (JStr s) \<Rightarrow> Some (Some s) | Some _ \<Rightarrow> None)
           in if field ''session_id'' = None then None else field ''agent_id'')
      | _ \<Rightarrow> None)"

definition teammate_input :: "codec \<Rightarrow> string \<Rightarrow> string option" where
  "teammate_input cd body = Option.bind (cd_parse cd body) (jget_str ''agent_id'')"

definition subagent_start_json :: "string option \<Rightarrow> json" where
  "subagent_start_json context =
     JObj [(''hookSpecificOutput'', JObj ((''hookEventName'', JStr ''SubagentStart'')
       # (case context of Some c \<Rightarrow> [(''additionalContext'', JStr c)] | None \<Rightarrow> [])))]"

definition refused :: "server_env \<Rightarrow> string \<Rightarrow> answer" where
  "refused env body = plain_answer (if cd_parse (se_codec env) body = None then 400 else 422) []"

definition serve_hook :: "server_env \<Rightarrow> engine \<Rightarrow> endpoint \<Rightarrow> in_headers \<Rightarrow> string \<Rightarrow> answer \<times> engine" where
  "serve_hook env en ep hs body =
     (if \<not> se_json_type env hs then (plain_answer 415 [], en)
      else case ep of
        EpSubagentStart \<Rightarrow>
          (case subagent_input (se_codec env) body of
             None \<Rightarrow> (refused env body, en)
           | Some i \<Rightarrow> (case handle_subagent_start i (en_hooks en) of
               (c, h) \<Rightarrow> (json_answer (se_codec env) (subagent_start_json c), en\<lparr>en_hooks := h\<rparr>)))
      | EpSubagentStop \<Rightarrow>
          (case subagent_input (se_codec env) body of
             None \<Rightarrow> (refused env body, en)
           | Some i \<Rightarrow> (plain_answer 200 [], en\<lparr>en_hooks := handle_subagent_stop i (en_hooks en)\<rparr>))
      | _ \<Rightarrow>
          (case teammate_input (se_codec env) body of
             None \<Rightarrow> (refused env body, en)
           | Some i \<Rightarrow> (case handle_teammate_start i (en_hooks en) of
               (b, h) \<Rightarrow> (json_answer (se_codec env) (JObj [(''backend'', JStr b)]), en\<lparr>en_hooks := h\<rparr>))))"

definition unauthorized :: answer where
  "unauthorized = plain_answer 401 ''Unauthorized: invalid session token''"

definition serve_models :: "server_env \<Rightarrow> engine \<Rightarrow> answer \<times> engine \<times> upstream_log" where
  "serve_models env en =
     (case handle_list_models (se_models env) (se_now env) (hk_backend_state (en_hooks en)) (en_models en) of
        (r, c, log) \<Rightarrow>
          (case r of None \<Rightarrow> Aborted
            | Some x \<Rightarrow> Answer \<lparr>rs_status = mr_status x, rs_headers = mr_headers x, rs_body = mr_body x\<rparr>,
           en\<lparr>en_models := c\<rparr>, map (\<lambda>(u, hs). (u, hs, [])) log))"

text \<open>One request through the router.  The authentication layer lies around the model list and the fallback.\<close>

definition serve :: "server_env \<Rightarrow> engine \<Rightarrow> incoming \<Rightarrow> answer \<times> engine \<times> upstream_log" where
  "serve env en rq =
     (let authenticated = auth_passes (en_session_token en) (in_headers_of rq);
          body = (case in_body rq of Some b \<Rightarrow> b | None \<Rightarrow> [])
      in case endpoint_of (in_method rq) (in_path rq) of
           EpHealth \<Rightarrow> (health_answer (se_codec env), en, [])
         | EpTeammate path \<Rightarrow> proxy_handler env en True path rq
         | EpModels \<Rightarrow> if authenticated then serve_models env en else (unauthorized, en, [])
         | EpProxy \<Rightarrow> if authenticated then proxy_handler env en False (in_path rq) rq else (unauthorized, en, [])
         | EpWrongMethod behind_auth \<Rightarrow>
             (if behind_auth \<and> \<not> authenticated then unauthorized else plain_answer 405 [], en, [])
         | ep \<Rightarrow> (case serve_hook env en ep (in_headers_of rq) body of (a, en') \<Rightarrow> (a, en', [])))"

section \<open>Binding\<close>

text \<open>The search for a free port; \<open>bind\<close> answers with the port of the listener it opened.\<close>

fun first_bound :: "(u16 \<Rightarrow> u16 option) \<Rightarrow> u16 list \<Rightarrow> u16 option" where
  "first_bound bind [] = None"
| "first_bound bind (p # ps) = (case bind p of Some actual \<Rightarrow> Some actual | None \<Rightarrow> first_bound bind ps)"

definition port_range :: "u16 \<Rightarrow> u16 list" where
  "port_range start = map of_nat [unat start..<Suc (unat (sat_add start 100))]"

definition actual_base_url :: "string \<Rightarrow> u16 \<Rightarrow> string" where
  "actual_base_url template port =
     (if str_contains ''localhost'' template \<or> str_contains ''127.0.0.1'' template
      then ''http://127.0.0.1:'' @ show_nat (unat port) else template)"

definition try_bind :: "(u16 \<Rightarrow> u16 option) \<Rightarrow> u16 \<Rightarrow> string \<Rightarrow> string + u16 \<times> string" where
  "try_bind bind start template =
     (case first_bound bind (port_range start) of
        Some port \<Rightarrow> Inr (port, actual_base_url template port)
      | None \<Rightarrow> Inl (''Could not find available port in range '' @ show_nat (unat start) @ ''-'' @ show_nat (unat (start + 100))))"

section \<open>Who may cause upstream requests\<close>

lemma serve_hook_keeps:
  "serve_hook env en ep hs body = (a, en') \<Longrightarrow>
   en_thinking en' = en_thinking en \<and> en_models en' = en_models en
   \<and> hk_backend_state (en_hooks en') = hk_backend_state (en_hooks en)"
  by (auto simp: serve_hook_def handle_subagent_start_def handle_subagent_stop_def handle_teammate_start_def Let_def
      split: if_splits endpoint.splits option.splits)

text \<open>C10: without the session token a request outside the teammate tree causes no upstream request, reads no model list and
  changes neither the thinking registry nor the choice of backend; all it can reach are the health answer and the
  registration hooks.\<close>

theorem unauthenticated_sends_nothing:
  assumes "en_session_token en = Some t" and "\<not> token_valid t (in_headers_of rq)"
    and "in_path rq \<noteq> ''/teammate''" and "\<not> str_starts ''/teammate/'' (in_path rq)"
    and "serve env en rq = (a, en', log)"
  shows "log = [] \<and> en_thinking en' = en_thinking en \<and> en_models en' = en_models en
     \<and> hk_backend_state (en_hooks en') = hk_backend_state (en_hooks en)
     \<and> (a = unauthorized
        \<or> in_path rq \<in> {''/health'', ''/api/subagent-start'', ''/api/subagent-stop'', ''/api/teammate-start''})"
proof -
  have auth: "\<not> auth_passes (en_session_token en) (in_headers_of rq)"
    using assms(1,2) by (simp add: auth_passes_def)
  have "strip_prefix ''/teammate/'' (in_path rq) = None"
    using assms(4) by (simp add: str_starts_def split: option.splits)
  then show ?thesis
    using assms(3,5) auth
    by (auto simp: serve_def endpoint_of_def get_route_def post_route_def Let_def dest: serve_hook_keeps
        split: if_splits prod.splits)
qed

text \<open>The requests of the pipeline when the backend is named by the route.\<close>

lemma pipeline_override_backend:
  assumes "execute_pipeline cd net env rq (Some t) None r = Inr res" "(u, hs, bs) \<in> set (pr_log res)"
  shows "\<exists>b \<in> set (backends (cfg (pe_state env))). name b = t \<and> u = target_url b (rq_path rq)"
  using assms(1)
proof (cases rule: execute_pipeline_cases)
  case (early e)
  then show ?thesis using assms(2) by (simp add: early_error_def)
next
  case (sent bytes parsed b d sess r1 body streaming mapping act r2 out)
  have "b \<in> set (backends (cfg (pe_state env)))" "name b = dec_backend d"
      "route_target (pe_state env) (Some t) None parsed (pe_agents env) = Inr (dec_backend d, dec_reason d)"
    using resolve_backend_configured[OF sent(2)] by auto
  then show ?thesis using send_upstream_log[OF sent(5) assms(2)] by (auto simp: route_target_def)
qed

lemma endpoint_teammate: "endpoint_of m (''/teammate/'' @ rest) = EpTeammate (CHR ''/'' # rest)"
proof -
  have "strip_prefix ''/teammate/'' (''/teammate/'' @ rest) = Some rest" by (rule strip_prefix_append)
  then show ?thesis by (simp add: endpoint_of_def)
qed

lemma agent_candidate_segment:
  "i \<noteq> [] \<Longrightarrow> CHR ''/'' \<notin> set i \<Longrightarrow> rest = [] \<or> hd rest = CHR ''/'' \<Longrightarrow>
   agent_candidate (CHR ''/'' # i @ rest) = Some i"
proof -
  assume i: "i \<noteq> []" "CHR ''/'' \<notin> set i" "rest = [] \<or> hd rest = CHR ''/''"
  have "takeWhile (\<lambda>c. c \<noteq> CHR ''/'') (i @ rest) = i"
    using i(2,3) by (cases rest) (auto simp: takeWhile_append)
  then show ?thesis using i(1) by (simp add: agent_candidate_def)
qed

lemma strip_agent_segment: "strip_agent i (CHR ''/'' # i @ rest) = (if rest = [] then ''/'' else rest)"
  using strip_prefix_append[of "CHR ''/'' # i" rest] by (simp add: strip_agent_def)

text \<open>A teammate is served by the backend it was born with: after its start hook, whatever other hooks, selections, switches
  and reloads come in between, a request under its path goes, at every attempt, to the backend the hook named, under the
  rest of the path; and it leaves the main agent's thinking registry alone.\<close>

theorem teammate_served_by_birth_backend:
  assumes "handle_teammate_start i h0 = (b, h1)" and "\<forall>c \<in> set cs. i \<notin> hook_ids c" and "en_hooks en = fold run_hook_op cs h1"
    and "i \<noteq> []" and "CHR ''/'' \<notin> set i" and "rest = [] \<or> hd rest = CHR ''/''" and "\<forall>u. se_uri_ok env u"
    and "in_path rq = ''/teammate/'' @ i @ rest" and "serve env en rq = (a, en', log)"
  shows "en_thinking en' = en_thinking en \<and>
     (\<forall>(u, hs, bs) \<in> set log. \<exists>bk \<in> set (backends (cfg (hk_backend_state (en_hooks en)))).
        name bk = b \<and> u = target_url bk (Some (path_and_query (if rest = [] then ''/'' else rest) (in_query rq))))"
proof -
  have look: "agent_lookup i (agent_reg (en_hooks en)) = Some b"
  proof -
    have "agent_lookup i (agent_reg h1) = Some b"
      using assms(1) by (auto simp: handle_teammate_start_def agents.look_insert Let_def)
    then show ?thesis using lookup_run_others[OF assms(2), of h1] assms(3) by simp
  qed
  note seg = agent_candidate_segment[OF assms(4-6)]
  have ovr: "teammate_override (en_hooks en) (Some i) = Some b" by (simp add: teammate_override_def look)
  define p where "p = (if rest = [] then ''/'' else rest)"
  have path: "teammate_path env (CHR ''/'' # i @ rest) (in_query rq) = p"
    using assms(7) by (simp add: teammate_path_def seg strip_agent_segment Let_def p_def)
  have "proxy_handler env en True (CHR ''/'' # i @ rest) rq = (a, en', log)"
  proof -
    have "endpoint_of (in_method rq) (in_path rq) = EpTeammate (CHR ''/'' # i @ rest)"
      unfolding assms(8) by (rule endpoint_teammate)
    then show ?thesis using assms(9) by (simp add: serve_def Let_def)
  qed
  let ?penv = "\<lparr>pe_state = hk_backend_state (en_hooks en), pe_agents = agent_reg (en_hooks en), pe_retry = en_retry en\<rparr>"
  let ?req = "\<lparr>rq_path = Some (path_and_query p (in_query rq)),
               rq_headers = in_headers_of rq, rq_body = in_body rq\<rparr>"
  let ?run = "execute_pipeline (se_codec env) (se_network env) ?penv ?req (Some b) None (en_thinking en)"
  have h: "(case ?run of Inl _ \<Rightarrow> log = [] \<and> en' = en
            | Inr res \<Rightarrow> log = pr_log res \<and> en_thinking en' = pr_registry res)"
    using \<open>proxy_handler env en True (CHR ''/'' # i @ rest) rq = (a, en', log)\<close> ovr seg path
    by (auto simp: proxy_handler_def Let_def split: sum.splits)
  show ?thesis
  proof (cases ?run)
    case (Inl p)
    then show ?thesis using h by simp
  next
    case (Inr res)
    then have l: "log = pr_log res" "en_thinking en' = pr_registry res" using h by simp_all
    have "\<forall>(u, hs, bs) \<in> set log. \<exists>bk \<in> set (backends (cfg (pe_state ?penv))). name bk = b \<and> u = target_url bk (rq_path ?req)"
      unfolding l(1) using pipeline_override_backend[OF Inr] by blast
    then show ?thesis using teammate_leaves_registry[OF Inr] l(2) by (simp add: p_def)
  qed
qed

section \<open>What a request may lose or leak\<close>

lemma strip_beta_keeps:
  "(n, v) \<in> set hs \<Longrightarrow> str_lower n \<noteq> ''anthropic-beta'' \<Longrightarrow> (n, v) \<in> set (strip_beta_headers hs)"
  by (force simp: strip_beta_headers_def map_filter_set)

lemma send_upstream_keeps:
  assumes "send_upstream cd net b rc streaming path headers body = Inr (out, log)" "(u, hs, bs) \<in> set log"
    and "(n, v) \<in> set headers" "str_lower n \<noteq> ''anthropic-beta''"
  shows "(n, v) \<in> set hs"
  using assms
  by (auto simp: send_upstream_def Let_def retry_plan_def rewritten_def dest: strip_beta_keeps
      split: sum.splits if_splits option.splits)

text \<open>The token that guards the proxy is forwarded: a client that identifies itself with \<open>x-session-token\<close> has the token in
  every request the proxy sends for it, to whichever backend.\<close>

theorem session_token_forwarded:
  assumes "execute_pipeline cd net env rq ovr plugin r = Inr res" and "(''x-session-token'', Some t) \<in> set (rq_headers rq)"
    and "(u, hs, bs) \<in> set (pr_log res)"
  shows "(''x-session-token'', t) \<in> set hs"
  using assms(1)
proof (cases rule: execute_pipeline_cases)
  case (early e)
  then show ?thesis using assms(3) by (simp add: early_error_def)
next
  case (sent bytes parsed b d sess r1 body streaming mapping act r2 out)
  have "forward_header b act (''x-session-token'', Some t) = [(''x-session-token'', t)]"
    by (simp add: forward_header_def eq_ignore_case_def ascii_lower_def)
  then have "(''x-session-token'', t) \<in> set (build_headers (rq_headers rq) b act)"
    using assms(2) by (force simp: build_headers_def)
  moreover have "str_lower ''x-session-token'' \<noteq> ''anthropic-beta''" by code_simp
  ultimately show ?thesis using send_upstream_keeps[OF sent(5) assms(3)] by blast
qed

lemma str_valid_append: "str_valid a \<Longrightarrow> str_valid b \<Longrightarrow> str_valid (a @ b)"
proof -
  assume "str_valid a" "str_valid b"
  then obtain v w where "map code a = concat v" "map code b = concat w" "\<forall>x \<in> set v. utf8_one x" "\<forall>x \<in> set w. utf8_one x"
    unfolding str_valid_def using utf8_valid_split by meson
  then show ?thesis using utf8_valid_concat[of "v @ w"] by (auto simp: str_valid_def)
qed

text \<open>An error answer of the upstream is lost when a character lies across byte 1000 of its body: the request is
  aborted, the client is not told the status, and the span is never finished.\<close>

theorem error_answer_lost:
  assumes "is_event_stream resp = False" and "net_bytes net resp = Some body"
    and "up_status resp < 200 \<or> 300 \<le> up_status resp"
    and "body = a @ [CHR 0xC3, CHR 0xA9] @ b" and "length a = 999" and "str_valid a" and "str_valid b"
  shows "handle_response cd net resp sess mapping r = Inl IndexPanic"
proof -
  have "str_valid [CHR 0xC3, CHR 0xA9]" by code_simp
  then have "str_valid body" unfolding assms(4) using assms(6,7) by (intro str_valid_append)
  then have l: "str_lossy body = body" by (rule str_lossy_valid)
  have "\<not> str_boundary body 1000"
    using assms(4,5) by (simp add: str_boundary_def char_boundary_def nth_append)
  moreover have "1000 < length body" using assms(4,5) by simp
  ultimately have "error_preview_panics (up_status resp) body"
    using assms(3) by (simp add: error_preview_panics_def l)
  then show ?thesis using assms(1,2) by (simp add: handle_response_def)
qed

section \<open>The port\<close>

lemma first_bound_upt:
  "first_bound bind (map of_nat [m..<n]) = Some q \<longleftrightarrow>
     (\<exists>k. m \<le> k \<and> k < n \<and> bind (of_nat k) = Some q \<and> (\<forall>j. m \<le> j \<and> j < k \<longrightarrow> bind (of_nat j) = None))"
proof (induction "n - m" arbitrary: m)
  case (Suc d)
  then have lt: "m < n" by simp
  have ih: "first_bound bind (map of_nat [Suc m..<n]) = Some q \<longleftrightarrow>
     (\<exists>k. Suc m \<le> k \<and> k < n \<and> bind (of_nat k) = Some q \<and> (\<forall>j. Suc m \<le> j \<and> j < k \<longrightarrow> bind (of_nat j) = None))"
    using Suc by simp
  show ?case
  proof (cases "bind (of_nat m)")
    case None
    have "(m \<le> k \<and> k < n \<and> bind (of_nat k) = Some q \<and> (\<forall>j. m \<le> j \<and> j < k \<longrightarrow> bind (of_nat j) = None))
        \<longleftrightarrow> (Suc m \<le> k \<and> k < n \<and> bind (of_nat k) = Some q \<and> (\<forall>j. Suc m \<le> j \<and> j < k \<longrightarrow> bind (of_nat j) = None))" for k
      using None by (metis Suc_le_eq le_neq_implies_less less_imp_le option.distinct(1))
    then show ?thesis using lt ih None by (simp add: upt_conv_Cons)
  next
    case (Some x)
    then have "(m \<le> k \<and> k < n \<and> bind (of_nat k) = Some q \<and> (\<forall>j. m \<le> j \<and> j < k \<longrightarrow> bind (of_nat j) = None))
        \<longleftrightarrow> k = m \<and> x = q" for k
      using lt by (cases "k = m") auto
    then show ?thesis using lt Some by (simp add: upt_conv_Cons)
  qed
qed simp

text \<open>The proxy takes the first free port at or above the configured one, among it and the hundred that follow and never
  past 65535; the URL it hands to the child names that port when the configured URL is local.\<close>

theorem try_bind_first_free:
  "try_bind bind start template = Inr (port, url) \<longleftrightarrow>
     url = actual_base_url template port \<and>
     (\<exists>k. unat start \<le> k \<and> k \<le> min 65535 (unat start + 100) \<and> bind (of_nat k) = Some port
        \<and> (\<forall>j. unat start \<le> j \<and> j < k \<longrightarrow> bind (of_nat j) = None))"
proof -
  have n: "Suc (unat (sat_add start 100)) = Suc (min 65535 (unat start + 100))"
    by (simp add: unat_sat_add)
  have "try_bind bind start template = Inr (port, url) \<longleftrightarrow>
      url = actual_base_url template port \<and> first_bound bind (port_range start) = Some port"
    by (auto simp: try_bind_def split: option.split)
  then show ?thesis by (simp add: port_range_def n first_bound_upt less_Suc_eq_le del: upt_Suc min.bounded_iff)
qed

text \<open>A URL that names another host is handed on unchanged, whatever port was found.\<close>

theorem custom_url_keeps_port:
  assumes "\<not> str_contains ''localhost'' template" and "\<not> str_contains ''127.0.0.1'' template"
    and "try_bind bind start template = Inr (port, url)"
  shows "url = template"
  using assms by (auto simp: try_bind_def actual_base_url_def split: option.splits)

section \<open>A small server\<close>

definition demo_server :: server_env where
  "demo_server = \<lparr>se_codec = demo_codec, se_network = demo_net, se_models = demo_models_env, se_now = 0,
     se_uri_ok = (\<lambda>_. True), se_json_type = (\<lambda>_. True), se_request_id = ''r1''\<rparr>"

definition demo_hook_state :: hook_state where
  "demo_hook_state = \<lparr>hk_backend_state = pe_state demo_env, subagent_backend = None, teammate_backend = Some ''claude'', agent_reg = []\<rparr>"

definition demo_engine :: "hook_state \<Rightarrow> engine" where
  "demo_engine h = \<lparr>en_session_token = Some ''token'', en_hooks = h, en_retry = default_retry,
     en_thinking = new_registry, en_models = []\<rparr>"

definition demo_incoming :: "string \<Rightarrow> incoming" where
  "demo_incoming path = \<lparr>in_method = ''POST'', in_path = path, in_query = None,
     in_headers_of = [(''x-api-key'', Some ''other'')], in_body = Some ''hi''\<rparr>"

theorem unauthenticated_sends_nothing_witness:
  "fst (serve demo_server (demo_engine demo_hook_state) (demo_incoming ''/v1/messages'')) = unauthorized
   \<and> snd (snd (serve demo_server (demo_engine demo_hook_state) (demo_incoming ''/v1/messages''))) = []"
proof -
  let ?rq = "demo_incoming ''/v1/messages''" and ?en = "demo_engine demo_hook_state"
  obtain a en' log where s: "serve demo_server ?en ?rq = (a, en', log)" by (cases "serve demo_server ?en ?rq") auto
  have f: "en_session_token ?en = Some ''token''" "\<not> token_valid ''token'' (in_headers_of ?rq)"
    "in_path ?rq \<noteq> ''/teammate''" "\<not> str_starts ''/teammate/'' (in_path ?rq)"
    by (simp_all add: demo_engine_def demo_incoming_def token_valid_def header_str_def str_starts_def)
  have "in_path ?rq = ''/v1/messages''" by (simp add: demo_incoming_def)
  then show ?thesis using unauthenticated_sends_nothing[OF f s] s by simp
qed

theorem teammate_served_by_birth_backend_witness:
  "\<exists>a en' log. serve demo_server
       (demo_engine (fold run_hook_op [SetTeammate None, TeammateStart ''t2''] (snd (handle_teammate_start ''t1'' demo_hook_state))))
       (demo_incoming ''/teammate/t1/v1/messages'') = (a, en', log)
     \<and> en_thinking en' = new_registry
     \<and> (\<forall>(u, hs, bs) \<in> set log. \<exists>bk \<in> set [key_backend]. name bk = ''claude'' \<and> u = target_url bk (Some ''/v1/messages''))"
proof -
  let ?cs = "[SetTeammate None, TeammateStart ''t2'']"
  let ?h1 = "snd (handle_teammate_start ''t1'' demo_hook_state)"
  let ?en = "demo_engine (fold run_hook_op ?cs ?h1)"
  let ?rq = "demo_incoming ''/teammate/t1/v1/messages''"
  obtain a en' log where s: "serve demo_server ?en ?rq = (a, en', log)" by (cases "serve demo_server ?en ?rq") auto
  have start: "handle_teammate_start ''t1'' demo_hook_state = (''claude'', ?h1)"
    by (simp add: handle_teammate_start_def demo_hook_state_def Let_def)
  have "cfg (hk_backend_state (en_hooks ?en)) = default_profile\<lparr>backends := [key_backend]\<rparr>"
    by (simp add: demo_engine_def handle_teammate_start_def demo_hook_state_def demo_env_def Let_def)
  moreover have "\<forall>c \<in> set ?cs. ''t1'' \<notin> hook_ids c" by simp
  moreover have "en_hooks ?en = fold run_hook_op ?cs ?h1" "en_thinking ?en = new_registry" by (simp_all add: demo_engine_def)
  moreover have "\<forall>u. se_uri_ok demo_server u" by (simp add: demo_server_def)
  moreover have "in_path ?rq = ''/teammate/'' @ ''t1'' @ ''/v1/messages''" "in_query ?rq = None"
    by (simp_all add: demo_incoming_def)
  ultimately have "en_thinking en' = new_registry \<and> (\<forall>(u, hs, bs) \<in> set log. \<exists>bk \<in> set [key_backend].
      name bk = ''claude'' \<and> u = target_url bk (Some ''/v1/messages''))"
    using teammate_served_by_birth_backend[OF start, of ?cs ?en "''/v1/messages''" demo_server ?rq a en' log] s
    by (simp add: path_and_query_def split_beta)
  then have "en_thinking en' = new_registry" "\<forall>(u, hs, bs) \<in> set log. \<exists>bk \<in> set [key_backend].
      name bk = ''claude'' \<and> u = target_url bk (Some ''/v1/messages'')" by (rule conjunct1, rule conjunct2)
  with s show ?thesis by (intro exI conjI) assumption+
qed

theorem try_bind_first_free_witness:
  "try_bind (\<lambda>p. if p = 8080 then None else Some p) 8080 ''http://localhost:8080''
     = Inr (8081, actual_base_url ''http://localhost:8080'' 8081)"
proof -
  have "(of_nat j :: u16) = 8080" if "unat (8080 :: u16) \<le> j" "j < 8081" for j
  proof -
    have "j = 8080" using that by simp
    then show ?thesis by simp
  qed
  then have "\<exists>k. unat (8080 :: u16) \<le> k \<and> k \<le> min 65535 (unat (8080 :: u16) + 100)
     \<and> (if (of_nat k :: u16) = 8080 then None else Some (of_nat k)) = Some (8081 :: u16)
     \<and> (\<forall>j. unat (8080 :: u16) \<le> j \<and> j < k \<longrightarrow> (if (of_nat j :: u16) = 8080 then None else Some (of_nat j)) = (None :: u16 option))"
    by (intro exI[of _ 8081]) simp
  then show ?thesis unfolding try_bind_first_free by simp
qed

theorem error_answer_lost_witness:
  "handle_response demo_codec (demo_net\<lparr>net_bytes := (\<lambda>_. Some (replicate 999 CHR ''x'' @ [CHR 0xC3, CHR 0xA9] @ ''!''))\<rparr>)
     \<lparr>up_status = 529, up_headers = [], up_body = []\<rparr> None None new_registry = Inl IndexPanic"
proof (rule error_answer_lost[where a = "replicate 999 CHR ''x''" and b = "''!''"])
  show "is_event_stream \<lparr>up_status = 529, up_headers = [], up_body = []\<rparr> = False" by (simp add: is_event_stream_def)
  show "str_valid ''!''" by code_simp
  have "\<forall>w \<in> set (replicate n [120]). utf8_one w" for n by (auto simp: utf8_one_def utf8_step.simps)
  from utf8_valid_concat[OF this] have "utf8_valid (concat (replicate n [120]))" for n .
  moreover have "concat (replicate n [120]) = map code (replicate n CHR ''x'')" for n by (induction n) auto
  ultimately show "str_valid (replicate 999 CHR ''x'')" by (metis str_valid_def)
qed (simp_all add: demo_net_def)

end
