(* ===== verification/Shim.thy ===== *)
theory Shim
  imports Spawn Server
begin

text \<open>
  The \<open>tmux\<close> shim (\<open>src/shim/tmux.rs\<close>): the script that stands before the real \<open>tmux\<close> on the assistant's search
  path, finds the command line that spawns a teammate, registers the teammate with the proxy and points the
  teammate's requests at its own path there.  The source is a \<open>bash\<close> program inside a Rust string; \<open>shim_install\<close> fills
  its placeholders, which are the fields of the record \<open>shim\<close>; the session identifier and the log switch only concern the log.

  Of the programs the script calls, \<open>grep -o\<close> and \<open>sed\<close> are modelled on the two patterns it uses, line by line, with
  the trailing newlines cut that a command substitution cuts.  In a replacement \<open>&\<close> stands for the match; a
  replacement with a bar, a backslash or a newline is no longer the text of one substitution, and what \<open>sed\<close> then
  makes of the script is the parameter \<open>sed\<close>, from script and input to output.  \<open>exe\<close> is the test for an executable
  file.  The log of the script is not modelled, nor is the expansion of wildcards in a component of the search path.
\<close>

section \<open>The script's state\<close>

record shim =
  sh_dir :: string
  sh_port :: u16
  sh_token :: string

definition shim_install :: "string \<Rightarrow> u16 \<Rightarrow> string \<Rightarrow> shim" where
  "shim_install dir proxy_port session_token = \<lparr>sh_dir = dir, sh_port = proxy_port, sh_token = session_token\<rparr>"

text \<open>How the script ends: it becomes another program, or exits.\<close>

datatype shim_end = Exec string "string list" | ExitWith nat

section \<open>The real tmux\<close>

text \<open>The fields of the search path: a separator ends a field, so nothing follows the last one.\<close>

definition path_fields :: "string \<Rightarrow> string list" where
  "path_fields p = (let ws = split_on (\<lambda>c. c = CHR '':'') p in if last ws = [] then butlast ws else ws)"

fun find_in_fields :: "(string \<Rightarrow> bool) \<Rightarrow> string \<Rightarrow> string list \<Rightarrow> string option" where
  "find_in_fields exe dir [] = None"
| "find_in_fields exe dir (d # ds) =
     (if d = dir then find_in_fields exe dir ds
      else if exe (d @ ''/tmux'') then Some (d @ ''/tmux'') else find_in_fields exe dir ds)"

definition find_real_tmux :: "(string \<Rightarrow> bool) \<Rightarrow> shim \<Rightarrow> string \<Rightarrow> string option" where
  "find_real_tmux exe sh path = find_in_fields exe (sh_dir sh) (path_fields path)"

section \<open>Text tools\<close>

abbreviation line_feed :: char where
  "line_feed \<equiv> CHR 0x0A"

definition text_lines :: "string \<Rightarrow> string list" where
  "text_lines s = split_on (\<lambda>c. c = line_feed) s"

definition cut_newlines :: "string \<Rightarrow> string" where
  "cut_newlines s = rev (dropWhile (\<lambda>c. c = line_feed) (rev s))"

text \<open>The first match of \<open>--agent-id [^ ]+\<close> in a line, without the flag.\<close>

fun first_agent_id :: "string \<Rightarrow> string option" where
  "first_agent_id [] = None"
| "first_agent_id (c # cs) =
     (case strip_prefix ''--agent-id '' (c # cs) of
        Some r \<Rightarrow> (let v = takeWhile (\<lambda>c. c \<noteq> CHR '' '') r in if v = [] then first_agent_id cs else Some v)
      | None \<Rightarrow> first_agent_id cs)"

definition extract_agent_id :: "string \<Rightarrow> string" where
  "extract_agent_id s = (case List.map_filter first_agent_id (text_lines s) of [] \<Rightarrow> [] | v # vs \<Rightarrow> v)"

text \<open>\<open>sed "s|pat|repl|"\<close>, where \<open>valued\<close> tells whether the pattern ends in \<open>[^ ]*\<close>.\<close>

definition sed_script :: "string \<Rightarrow> bool \<Rightarrow> string \<Rightarrow> string" where
  "sed_script pat valued repl = ''s|'' @ pat @ (if valued then ''[^ ]*'' else []) @ ''|'' @ repl @ ''|''"

definition plain_replacement :: "string \<Rightarrow> bool" where
  "plain_replacement repl = list_all (\<lambda>c. c \<noteq> CHR ''|'' \<and> c \<noteq> CHR 0x5C \<and> c \<noteq> line_feed) repl"

definition sed_line :: "string \<Rightarrow> bool \<Rightarrow> string \<Rightarrow> string \<Rightarrow> string" where
  "sed_line pat valued repl l =
     (case str_find pat l of
        None \<Rightarrow> l
      | Some k \<Rightarrow>
          (let r = drop (k + length pat) l;
               v = (if valued then takeWhile (\<lambda>c. c \<noteq> CHR '' '') r else [])
           in take k l @ concat (map (\<lambda>c. if c = CHR ''&'' then pat @ v else [c]) repl) @ drop (length v) r))"

definition sed_first :: "(string \<Rightarrow> string \<Rightarrow> string) \<Rightarrow> string \<Rightarrow> bool \<Rightarrow> string \<Rightarrow> string \<Rightarrow> string" where
  "sed_first sed pat valued repl s =
     cut_newlines (if plain_replacement repl then str_join [line_feed] (map (sed_line pat valued repl) (text_lines s))
                   else sed (sed_script pat valued repl) s)"

section \<open>The script\<close>

definition teammate_url :: "shim \<Rightarrow> string \<Rightarrow> string" where
  "teammate_url sh i = ''http://127.0.0.1:'' @ show_nat (unat (sh_port sh)) @ ''/teammate/'' @ i"

definition inject_vars :: "shim \<Rightarrow> string \<Rightarrow> string" where
  "inject_vars sh i =
     ''ANTHROPIC_BASE_URL='' @ teammate_url sh i @ '' ANTHROPIC_CUSTOM_HEADERS=x-session-token:'' @ sh_token sh"

text \<open>The registration, as the proxy receives it; \<open>curl\<close> does not report whether it was received.\<close>

definition registration_body :: "string \<Rightarrow> string" where
  "registration_body i = ''{\"agent_id\":\"'' @ i @ ''\"}''"

definition registration :: "string \<Rightarrow> incoming" where
  "registration i =
     \<lparr>in_method = ''POST'', in_path = ''/api/teammate-start'', in_query = None,
      in_headers_of = [(''content-type'', Some ''application/json'')], in_body = Some (registration_body i)\<rparr>"

definition inject :: "(string \<Rightarrow> string \<Rightarrow> string) \<Rightarrow> shim \<Rightarrow> string \<Rightarrow> string \<Rightarrow> string" where
  "inject sed sh i arg0 =
     (let arg = (if str_contains ''ANTHROPIC_CUSTOM_HEADERS='' arg0
                 then sed_first sed ''ANTHROPIC_CUSTOM_HEADERS='' True [] arg0 else arg0)
      in if str_contains ''ANTHROPIC_BASE_URL='' arg
         then sed_first sed ''ANTHROPIC_BASE_URL='' True (inject_vars sh i) arg
         else sed_first sed ''--agent-id'' False (inject_vars sh i @ '' --agent-id'') arg)"

text \<open>The loop over the arguments: the new arguments, the registrations sent, and whether a command was rewritten.\<close>

fun shim_args :: "(string \<Rightarrow> string \<Rightarrow> string) \<Rightarrow> shim \<Rightarrow> bool \<Rightarrow> bool \<Rightarrow> string list \<Rightarrow> string list \<times> incoming list \<times> bool" where
  "shim_args sed sh has_send_keys injected [] = ([], [], injected)"
| "shim_args sed sh has_send_keys injected (arg # args) =
     (if arg = ''send-keys'' then
        (case shim_args sed sh True injected args of (as, posts, j) \<Rightarrow> (arg # as, posts, j))
      else if has_send_keys \<and> \<not> injected \<and> str_contains ''--agent-id '' arg then
        (let i = extract_agent_id arg in
         case shim_args sed sh has_send_keys True args of
           (as, posts, j) \<Rightarrow> (inject sed sh i arg # as, (if i = [] then [] else [registration i]) @ posts, j))
      else
        (case shim_args sed sh has_send_keys injected args of (as, posts, j) \<Rightarrow> (arg # as, posts, j)))"

definition shim_main :: "(string \<Rightarrow> bool) \<Rightarrow> (string \<Rightarrow> string \<Rightarrow> string) \<Rightarrow> shim \<Rightarrow> string \<Rightarrow> string list \<Rightarrow> incoming list \<times> shim_end" where
  "shim_main exe sed sh path args =
     (case find_real_tmux exe sh path of
        None \<Rightarrow> ([], ExitWith 127)
      | Some real_tmux \<Rightarrow>
          (case shim_args sed sh False False args of
             (as, posts, injected) \<Rightarrow> (posts, Exec real_tmux (if injected then as else args))))"

section \<open>The shim does not find itself\<close>

lemma find_in_fields_real: "find_in_fields exe dir ds = Some t \<Longrightarrow> \<exists>d \<in> set ds. d \<noteq> dir \<and> exe t \<and> t = d @ ''/tmux''"
  by (induction ds) (auto split: if_splits)

lemma path_fields_prefix:
  assumes "CHR '':'' \<notin> set d"
  shows "path_fields (d @ CHR '':'' # p) = d # path_fields p"
proof -
  have "split_on (\<lambda>c. c = CHR '':'') (d @ CHR '':'' # p) = d # split_on (\<lambda>c. c = CHR '':'') p"
    using assms by (intro split_on_append_sep) auto
  then show ?thesis by (simp add: path_fields_def Let_def)
qed

text \<open>With the search path the child is given, the shim runs the \<open>tmux\<close> that would have been found without it, never
  the copy in its own directory.\<close>

theorem shim_transparent:
  assumes "CHR '':'' \<notin> set (sh_dir sh)"
  shows "find_real_tmux exe sh (sh_dir sh @ '':'' @ path) = find_real_tmux exe sh path
     \<and> find_real_tmux exe sh path \<noteq> Some (sh_dir sh @ ''/tmux'')"
proof -
  have "find_in_fields exe (sh_dir sh) ds \<noteq> Some (sh_dir sh @ ''/tmux'')" for ds
    using find_in_fields_real[of exe "sh_dir sh" ds] by auto
  then show ?thesis using path_fields_prefix[OF assms, of path] by (simp add: find_real_tmux_def)
qed

section \<open>What the text tools do to one line\<close>

lemma cut_newlines_line [simp]: "line_feed \<notin> set s \<Longrightarrow> cut_newlines s = s"
  by (cases s rule: rev_cases) (auto simp: cut_newlines_def)

lemma text_lines_line [simp]: "line_feed \<notin> set s \<Longrightarrow> text_lines s = [s]"
  unfolding text_lines_def by (rule split_on_no_sep) auto

text \<open>A character that stands for itself in a replacement.\<close>

definition literal_char :: "char \<Rightarrow> bool" where
  "literal_char c \<longleftrightarrow> c \<notin> {CHR ''|'', CHR 0x5C, CHR 0x0A, CHR ''&''}"

lemma literal_replacement:
  "list_all literal_char r \<Longrightarrow> concat (map (\<lambda>c. if c = CHR ''&'' then m else [c]) r) = r"
  by (induction r) (auto simp: literal_char_def)

lemma sed_first_line:
  assumes "line_feed \<notin> set s" and "list_all literal_char repl" and "str_find pat s = Some k"
  shows "sed_first sed pat valued repl s =
     take k s @ repl @ (if valued then dropWhile (\<lambda>c. c \<noteq> CHR '' '') (drop (k + length pat) s) else drop (k + length pat) s)"
proof -
  have plain: "plain_replacement repl"
    using assms(2) by (auto simp: plain_replacement_def literal_char_def list_all_iff)
  have "line_feed \<notin> set repl" using assms(2) by (auto simp: literal_char_def list_all_iff)
  then have "line_feed \<notin> set (sed_line pat valued repl s)"
    using assms(1,3)
    by (auto simp: sed_line_def literal_replacement[OF assms(2)] Let_def dest: in_set_takeD in_set_dropD)
  then show ?thesis
    using assms(1,3) plain
    by (simp add: sed_first_def sed_line_def literal_replacement[OF assms(2)] Let_def dropWhile_eq_drop)
qed

text \<open>The identifier read out of a line.\<close>

lemma first_agent_id_found:
  "str_find ''--agent-id '' l = Some k \<Longrightarrow> drop k l = ''--agent-id '' @ i @ post \<Longrightarrow> i \<noteq> [] \<Longrightarrow> CHR '' '' \<notin> set i \<Longrightarrow>
   post = [] \<or> hd post = CHR '' '' \<Longrightarrow> first_agent_id l = Some i"
proof (induction l arbitrary: k)
  case Nil
  then show ?case by simp
next
  case (Cons c cs)
  show ?case
  proof (cases "str_starts ''--agent-id '' (c # cs)")
    case True
    with Cons.prems(1) have "k = 0" by simp
    with Cons.prems(2) have "c # cs = ''--agent-id '' @ i @ post" by simp
    then have "strip_prefix ''--agent-id '' (c # cs) = Some (i @ post)" by (simp only: strip_prefix_Some_iff)
    moreover have "takeWhile (\<lambda>c. c \<noteq> CHR '' '') (i @ post) = i"
      using Cons.prems(4,5) by (cases post) (auto simp: takeWhile_append)
    ultimately show ?thesis using Cons.prems(3) by (simp only: first_agent_id.simps option.case Let_def if_False)
  next
    case False
    then have "strip_prefix ''--agent-id '' (c # cs) = None"
      unfolding str_starts_def by (cases "strip_prefix ''--agent-id '' (c # cs)") (simp_all only: option.case simp_thms)
    then have skip: "first_agent_id (c # cs) = first_agent_id cs" by (simp only: first_agent_id.simps option.case)
    obtain k' where k: "k = Suc k'" "str_find ''--agent-id '' cs = Some k'" using Cons.prems(1) False by auto
    have "drop k' cs = ''--agent-id '' @ i @ post" using Cons.prems(2) k(1) by (simp only: drop_Suc_Cons)
    from Cons.IH[OF k(2) this Cons.prems(3-5)] have "first_agent_id cs = Some i" .
    with skip show ?thesis by (simp only:)
  qed
qed

section \<open>The loop\<close>

lemma shim_args_done: "shim_args sed sh h True args = (args, [], True)"
  by (induction args arbitrary: h) auto

lemma shim_args_before:
  "\<forall>a \<in> set as. \<not> str_contains ''--agent-id '' a \<Longrightarrow>
   shim_args sed sh h False (as @ bs) =
     (case shim_args sed sh (h \<or> ''send-keys'' \<in> set as) False bs of (bs', posts, j) \<Rightarrow> (as @ bs', posts, j))"
  by (induction as arbitrary: h) (auto split: prod.splits)

text \<open>What the shim leaves alone: without a command after \<open>send-keys\<close> that carries the flag, the real \<open>tmux\<close> gets the
  arguments unchanged and nothing is registered.\<close>

lemma shim_args_idle:
  "\<forall>a \<in> set args. \<not> str_contains ''--agent-id '' a \<Longrightarrow> shim_args sed sh h False args = (args, [], False)"
  using shim_args_before[of args sed sh h "[]"] by simp

section \<open>A spawned teammate\<close>

text \<open>A command line that spawns the teammate \<open>i\<close>: one line, with the address of the proxy among its variables and the
  flag after which the identifier stands.\<close>

definition spawn_line :: "string \<Rightarrow> string \<Rightarrow> string \<Rightarrow> string \<Rightarrow> bool" where
  "spawn_line pre old tail i \<longleftrightarrow>
     (let line = pre @ ''ANTHROPIC_BASE_URL='' @ old @ '' '' @ tail
      in line_feed \<notin> set line \<and> str_find ''ANTHROPIC_BASE_URL='' line = Some (length pre) \<and> CHR '' '' \<notin> set old
         \<and> \<not> str_contains ''ANTHROPIC_CUSTOM_HEADERS='' line
         \<and> (case str_find ''--agent-id '' line of None \<Rightarrow> False | Some k \<Rightarrow>
              (case strip_prefix (''--agent-id '' @ i) (drop k line) of None \<Rightarrow> False | Some post \<Rightarrow> post = [] \<or> hd post = CHR '' ''))
         \<and> line \<noteq> ''send-keys'')"

lemma inject_spawn_line:
  assumes "spawn_line pre old tail i" and "list_all literal_char (i @ sh_token sh)"
  shows "inject sed sh i (pre @ ''ANTHROPIC_BASE_URL='' @ old @ '' '' @ tail) = pre @ inject_vars sh i @ '' '' @ tail"
proof -
  let ?line = "pre @ ''ANTHROPIC_BASE_URL='' @ old @ '' '' @ tail"
  have line: "line_feed \<notin> set ?line" "str_find ''ANTHROPIC_BASE_URL='' ?line = Some (length pre)" "CHR '' '' \<notin> set old"
      "\<not> str_contains ''ANTHROPIC_CUSTOM_HEADERS='' ?line"
    using assms(1) unfolding spawn_line_def Let_def by blast+
  have has: "str_contains ''ANTHROPIC_BASE_URL='' ?line" by (simp only: str_contains_def line(2) option.case)
  have digits: "list_all literal_char (show_nat n)" for n
    using show_nat_all_digits by (fastforce simp: list_all_iff is_ascii_digit_def literal_char_def)
  have "list_all literal_char (inject_vars sh i)"
    using assms(2) digits by (simp add: inject_vars_def teammate_url_def) (simp add: literal_char_def)
  note rewritten = sed_first_line[OF line(1) this line(2), of sed True]
  have "dropWhile (\<lambda>c. c \<noteq> CHR '' '') (old @ CHR '' '' # tail) = CHR '' '' # tail"
    using line(3) by (subst dropWhile_append2) auto
  then show ?thesis using rewritten has line(4) by (simp add: inject_def Let_def)
qed

lemma extract_spawn_line:
  assumes "spawn_line pre old tail i" and "i \<noteq> []" and "CHR '' '' \<notin> set i"
  shows "extract_agent_id (pre @ ''ANTHROPIC_BASE_URL='' @ old @ '' '' @ tail) = i"
    and "str_contains ''--agent-id '' (pre @ ''ANTHROPIC_BASE_URL='' @ old @ '' '' @ tail)"
proof -
  define line where "line = pre @ ''ANTHROPIC_BASE_URL='' @ old @ '' '' @ tail"
  obtain k post where k: "str_find ''--agent-id '' line = Some k" "strip_prefix (''--agent-id '' @ i) (drop k line) = Some post"
      "post = [] \<or> hd post = CHR '' ''" and lf: "line_feed \<notin> set line"
    using assms(1) unfolding spawn_line_def Let_def line_def[symmetric] by (auto split: option.splits)
  have "drop k line = ''--agent-id '' @ i @ post" using k(2) by (simp only: strip_prefix_Some_iff append_assoc)
  from first_agent_id_found[OF k(1) this assms(2,3) k(3)] have "first_agent_id line = Some i" .
  then show "extract_agent_id (pre @ ''ANTHROPIC_BASE_URL='' @ old @ '' '' @ tail) = i"
    unfolding line_def[symmetric] using lf by (simp add: extract_agent_id_def map_filter_simps)
  show "str_contains ''--agent-id '' (pre @ ''ANTHROPIC_BASE_URL='' @ old @ '' '' @ tail)"
    unfolding line_def[symmetric] by (simp only: str_contains_def k(1) option.case)
qed

lemma serve_registration:
  assumes "cd_parse (se_codec env) (registration_body i) = Some (JObj [(''agent_id'', JStr i)])"
    and "se_json_type env (in_headers_of (registration i))"
  shows "en_hooks (fst (snd (serve env en (registration i)))) = snd (handle_teammate_start i (en_hooks en))"
proof -
  have "endpoint_of ''POST'' ''/api/teammate-start'' = EpTeammateStart" by (simp add: endpoint_of_def post_route_def)
  moreover have "teammate_input (se_codec env) (registration_body i) = Some i"
    by (simp add: teammate_input_def assms(1) jget_str_def)
  ultimately show ?thesis
    using assms(2) by (simp add: serve_def serve_hook_def registration_def Let_def split: prod.splits)
qed


text \<open>The stripping of a header already in the command ends at the first space: of a quoted value with a space in it the
  rest stays behind, with its closing quote.\<close>

theorem quoted_header_half_stripped:
  "inject sed (shim_install ''/s'' 9 ''tok'') ''t1'' ''ANTHROPIC_CUSTOM_HEADERS=\"X-Org: a\" ANTHROPIC_BASE_URL=u claude --agent-id t1''
     = '' a\" ANTHROPIC_BASE_URL=http://127.0.0.1:9/teammate/t1 ANTHROPIC_CUSTOM_HEADERS=x-session-token:tok claude --agent-id t1''"
  by code_simp

section \<open>A teammate of the small server\<close>

definition demo_shim :: shim where
  "demo_shim = shim_install ''/tmp/s'' 8080 ''tok-1''"

definition demo_shim_server :: server_env where
  "demo_shim_server = demo_server\<lparr>se_codec := demo_codec\<lparr>cd_parse :=
     (\<lambda>s. if s = registration_body ''t1'' then Some (JObj [(''agent_id'', JStr ''t1'')]) else None)\<rparr>\<rparr>"


theorem shim_transparent_witness:
  "find_real_tmux (\<lambda>f. f \<in> {''/tmp/s/tmux'', ''/bin/tmux''}) demo_shim (''/tmp/s'' @ '':'' @ ''/usr:/bin'')
     = find_real_tmux (\<lambda>f. f \<in> {''/tmp/s/tmux'', ''/bin/tmux''}) demo_shim ''/usr:/bin''"
proof -
  have d: "sh_dir demo_shim = ''/tmp/s''" by code_simp
  then have "CHR '':'' \<notin> set (sh_dir demo_shim)" by simp
  from shim_transparent[OF this, of "\<lambda>f. f \<in> {''/tmp/s/tmux'', ''/bin/tmux''}" "''/usr:/bin''"] d show ?thesis by simp
qed

end
