(* ===== verification/Shutdown.thy ===== *)
theory Shutdown
  imports Prelude
begin

text \<open>
  Stopping the program (\<open>src/shutdown.rs\<close>), the proxy (\<open>src/proxy/shutdown.rs\<close>) and the count of its connections
  (\<open>src/proxy/connection.rs\<close>).  \<open>Notify\<close> is the \<open>tokio\<close> crate's: \<open>notify_lib\<close> names what is used of it and
  \<open>lawful_notify\<close> states what its documentation promises.  A task that waits is a sequence of atomic steps, between
  which a signal of another thread may fall.
\<close>

section \<open>The coordinator\<close>

datatype shutdown_phase = Running | Signaled | StoppingInput | TerminatingChild | ClosingProxy | Cleanup | Complete

fun phase_code :: "shutdown_phase \<Rightarrow> u8" where
  "phase_code Running = 0"
| "phase_code Signaled = 1"
| "phase_code StoppingInput = 2"
| "phase_code TerminatingChild = 3"
| "phase_code ClosingProxy = 4"
| "phase_code Cleanup = 5"
| "phase_code Complete = 6"

definition phase_of_code :: "u8 \<Rightarrow> shutdown_phase" where
  "phase_of_code c =
     (if c = 0 then Running else if c = 1 then Signaled else if c = 2 then StoppingInput
      else if c = 3 then TerminatingChild else if c = 4 then ClosingProxy else if c = 5 then Cleanup else Complete)"

record ('n, 'f) notify_lib =
  nl_new :: 'n
  nl_notified :: "'n \<Rightarrow> 'f"
  nl_notify_waiters :: "'n \<Rightarrow> 'n"
  nl_ready :: "'f \<Rightarrow> 'n \<Rightarrow> bool"

text \<open>A future of \<open>notified()\<close> is woken by every \<open>notify_waiters\<close> after its creation, by none before, and stays
  woken.\<close>

definition lawful_notify :: "('n, 'f) notify_lib \<Rightarrow> bool" where
  "lawful_notify nl \<longleftrightarrow>
     (\<forall>n. \<not> nl_ready nl (nl_notified nl n) n)
     \<and> (\<forall>n. nl_ready nl (nl_notified nl n) (nl_notify_waiters nl n))
     \<and> (\<forall>f n. nl_ready nl f n \<longrightarrow> nl_ready nl f (nl_notify_waiters nl n))"

record 'n coordinator =
  co_shutdown :: bool
  co_phase :: u8
  co_notify :: 'n

definition coordinator_new :: "('n, 'f) notify_lib \<Rightarrow> 'n coordinator" where
  "coordinator_new nl = \<lparr>co_shutdown = False, co_phase = phase_code Running, co_notify = nl_new nl\<rparr>"

definition signal :: "('n, 'f) notify_lib \<Rightarrow> 'n coordinator \<Rightarrow> 'n coordinator" where
  "signal nl c =
     (if co_shutdown c then c else c\<lparr>co_shutdown := True, co_notify := nl_notify_waiters nl (co_notify c)\<rparr>)"

definition is_shutting_down :: "'n coordinator \<Rightarrow> bool" where
  "is_shutting_down c = co_shutdown c"

definition phase :: "'n coordinator \<Rightarrow> shutdown_phase" where
  "phase c = phase_of_code (co_phase c)"

definition advance :: "shutdown_phase \<Rightarrow> 'n coordinator \<Rightarrow> 'n coordinator" where
  "advance p c = c\<lparr>co_phase := phase_code p\<rparr>"

lemma phase_advance: "phase (advance p c) = p"
  by (cases p) (simp_all add: phase_def advance_def phase_of_code_def)

section \<open>Waiting on a handle\<close>

text \<open>\<open>ShutdownHandle::wait\<close>: subscribe, look at the flag, and only then sleep.\<close>

datatype 'f wait_state = WaitStart | WaitSubscribed 'f | WaitAsleep 'f | WaitDone

definition wait_step :: "('n, 'f) notify_lib \<Rightarrow> 'n coordinator \<Rightarrow> 'f wait_state \<Rightarrow> 'f wait_state" where
  "wait_step nl c w =
     (case w of
        WaitStart \<Rightarrow> WaitSubscribed (nl_notified nl (co_notify c))
      | WaitSubscribed f \<Rightarrow> if is_shutting_down c then WaitDone else WaitAsleep f
      | WaitAsleep f \<Rightarrow> if nl_ready nl f (co_notify c) then WaitDone else WaitAsleep f
      | WaitDone \<Rightarrow> WaitDone)"

section \<open>The proxy's manager\<close>

record 'n manager =
  mg_shutdown :: bool
  active_connections :: u64
  mg_notify :: 'n

definition manager_new :: "('n, 'f) notify_lib \<Rightarrow> 'n manager" where
  "manager_new nl = \<lparr>mg_shutdown = False, active_connections = 0, mg_notify = nl_new nl\<rparr>"

definition signal_shutdown :: "('n, 'f) notify_lib \<Rightarrow> 'n manager \<Rightarrow> 'n manager" where
  "signal_shutdown nl m = m\<lparr>mg_shutdown := True, mg_notify := nl_notify_waiters nl (mg_notify m)\<rparr>"

definition increment_connections :: "'n manager \<Rightarrow> 'n manager" where
  "increment_connections m = m\<lparr>active_connections := active_connections m + 1\<rparr>"

definition decrement_connections :: "'n manager \<Rightarrow> 'n manager" where
  "decrement_connections m = m\<lparr>active_connections := active_connections m - 1\<rparr>"

text \<open>\<open>wait_for_shutdown\<close>: the flag is read first, the signal handler installed (it may fail, which ends the wait), the
  notification subscribed to last.  An operating-system signal ends the sleep too.\<close>

datatype 'f server_wait = ServerStart | ServerChecked | ServerInstalled | ServerAsleep 'f | ServerDone | ServerFailed

definition server_wait_step ::
  "('n, 'f) notify_lib \<Rightarrow> bool \<Rightarrow> bool \<Rightarrow> 'n manager \<Rightarrow> 'f server_wait \<Rightarrow> 'n manager \<times> 'f server_wait" where
  "server_wait_step nl handler_ok os_signal m w =
     (case w of
        ServerStart \<Rightarrow> (m, if mg_shutdown m then ServerDone else ServerChecked)
      | ServerChecked \<Rightarrow> (m, if handler_ok then ServerInstalled else ServerFailed)
      | ServerInstalled \<Rightarrow> (m, ServerAsleep (nl_notified nl (mg_notify m)))
      | ServerAsleep f \<Rightarrow>
          if os_signal \<or> nl_ready nl f (mg_notify m) then (m\<lparr>mg_shutdown := True\<rparr>, ServerDone) else (m, ServerAsleep f)
      | ServerDone \<Rightarrow> (m, ServerDone)
      | ServerFailed \<Rightarrow> (m, ServerFailed))"

text \<open>\<open>wait_for_connections\<close>: the counter is read every 100 ms until it is zero or the time is up.  The readings are given
  with the milliseconds since the start; the result says whether all connections had gone.\<close>

fun wait_for_connections :: "nat \<Rightarrow> (nat \<times> u64) list \<Rightarrow> bool option" where
  "wait_for_connections timeout [] = None"
| "wait_for_connections timeout ((elapsed, active) # readings) =
     (if timeout \<le> elapsed then Some False
      else if active = 0 then Some True
      else wait_for_connections timeout readings)"

section \<open>Counting connections\<close>

text \<open>The life of one accepted connection: the call counts it and builds the service; the future ends with a guard, with an
  error, or is dropped before either.  A guard may be cloned, and is dropped.\<close>

datatype conn_op = CallService | CallReady | CallFailed | CallDropped | CloneGuard | DropGuard

record conn_state =
  pending_calls :: nat
  live_guards :: nat
  abandoned :: nat

fun conn_allowed :: "conn_op \<Rightarrow> conn_state \<Rightarrow> bool" where
  "conn_allowed CallService s = True"
| "conn_allowed CallReady s = (0 < pending_calls s)"
| "conn_allowed CallFailed s = (0 < pending_calls s)"
| "conn_allowed CallDropped s = (0 < pending_calls s)"
| "conn_allowed CloneGuard s = (0 < live_guards s)"
| "conn_allowed DropGuard s = (0 < live_guards s)"

fun conn_step :: "conn_op \<Rightarrow> 'n manager \<times> conn_state \<Rightarrow> 'n manager \<times> conn_state" where
  "conn_step CallService (m, s) = (increment_connections m, s\<lparr>pending_calls := pending_calls s + 1\<rparr>)"
| "conn_step CallReady (m, s) = (m, s\<lparr>pending_calls := pending_calls s - 1, live_guards := live_guards s + 1\<rparr>)"
| "conn_step CallFailed (m, s) = (decrement_connections m, s\<lparr>pending_calls := pending_calls s - 1\<rparr>)"
| "conn_step CallDropped (m, s) = (m, s\<lparr>pending_calls := pending_calls s - 1, abandoned := abandoned s + 1\<rparr>)"
| "conn_step CloneGuard (m, s) = (increment_connections m, s\<lparr>live_guards := live_guards s + 1\<rparr>)"
| "conn_step DropGuard (m, s) = (decrement_connections m, s\<lparr>live_guards := live_guards s - 1\<rparr>)"

inductive conn_reachable :: "('n, 'f) notify_lib \<Rightarrow> 'n manager \<Rightarrow> conn_state \<Rightarrow> bool" for nl where
  start: "conn_reachable nl (manager_new nl) \<lparr>pending_calls = 0, live_guards = 0, abandoned = 0\<rparr>"
| step: "conn_reachable nl m s \<Longrightarrow> conn_allowed op s \<Longrightarrow> conn_step op (m, s) = (m', s') \<Longrightarrow> conn_reachable nl m' s'"

section \<open>No wake-up is lost on a handle\<close>

datatype wait_event = Signalled | Advanced shutdown_phase | Polled

fun wait_event_step ::
  "('n, 'f) notify_lib \<Rightarrow> wait_event \<Rightarrow> 'n coordinator \<times> 'f wait_state \<Rightarrow> 'n coordinator \<times> 'f wait_state" where
  "wait_event_step nl Signalled (c, w) = (signal nl c, w)"
| "wait_event_step nl (Advanced p) (c, w) = (advance p c, w)"
| "wait_event_step nl Polled (c, w) = (c, wait_step nl c w)"

definition wait_ok :: "('n, 'f) notify_lib \<Rightarrow> 'n coordinator \<Rightarrow> 'f wait_state \<Rightarrow> bool" where
  "wait_ok nl c w \<longleftrightarrow>
     (case w of
        WaitSubscribed f \<Rightarrow> \<not> co_shutdown c \<longrightarrow> f = nl_notified nl (co_notify c)
      | WaitAsleep f \<Rightarrow> if co_shutdown c then nl_ready nl f (co_notify c) else f = nl_notified nl (co_notify c)
      | _ \<Rightarrow> True)"

lemma wait_ok_step:
  "lawful_notify nl \<Longrightarrow> wait_ok nl c w \<Longrightarrow> wait_event_step nl e (c, w) = (c', w') \<Longrightarrow> wait_ok nl c' w'"
  by (cases e; cases w)
     (auto simp: wait_ok_def signal_def advance_def wait_step_def is_shutting_down_def lawful_notify_def split: if_splits)

lemma wait_ok_run:
  "lawful_notify nl \<Longrightarrow> wait_ok nl c w \<Longrightarrow> fold (wait_event_step nl) evs (c, w) = (c', w') \<Longrightarrow> wait_ok nl c' w'"
proof (induction evs arbitrary: c w)
  case (Cons e evs)
  obtain c1 w1 where "wait_event_step nl e (c, w) = (c1, w1)" by fastforce
  then show ?case using Cons wait_ok_step by fastforce
qed simp

text \<open>C33: a task that waits on a handle always learns of the shutdown: however signals, phase changes and the task's own steps
  have interleaved, once the shutdown is signalled two further polls end the wait.\<close>

theorem wait_never_misses:
  assumes "lawful_notify nl" and "fold (wait_event_step nl) evs (c, WaitStart) = (c', w)" and "co_shutdown c'"
  shows "wait_step nl c' (wait_step nl c' w) = WaitDone"
  using wait_ok_run[OF assms(1) _ assms(2)] assms(3)
  by (cases w) (auto simp: wait_ok_def wait_step_def is_shutting_down_def)

text \<open>The counter implementation of \<open>Notify\<close> for the witnesses: a future remembers the number of calls it has seen.\<close>

definition count_notify :: "(nat, nat) notify_lib" where
  "count_notify = \<lparr>nl_new = 0, nl_notified = (\<lambda>n. n), nl_notify_waiters = Suc, nl_ready = (\<lambda>f n. f < n)\<rparr>"

lemma count_notify_lawful: "lawful_notify count_notify"
  by (auto simp: lawful_notify_def count_notify_def)

theorem wait_never_misses_witness:
  "wait_step count_notify (signal count_notify (coordinator_new count_notify))
     (wait_step count_notify (signal count_notify (coordinator_new count_notify)) (WaitSubscribed 0)) = WaitDone"
proof -
  have r: "fold (wait_event_step count_notify) [Polled, Signalled] (coordinator_new count_notify, WaitStart)
      = (signal count_notify (coordinator_new count_notify), WaitSubscribed 0)"
    by (simp add: coordinator_new_def wait_step_def count_notify_def)
  have "co_shutdown (signal count_notify (coordinator_new count_notify))" by (simp add: signal_def)
  from wait_never_misses[OF count_notify_lawful r this] show ?thesis .
qed

section \<open>A wake-up the server loses\<close>

definition server_step :: "('n, 'f) notify_lib \<Rightarrow> 'n manager \<times> 'f server_wait \<Rightarrow> 'n manager \<times> 'f server_wait" where
  "server_step nl = (\<lambda>(m, w). server_wait_step nl True False m w)"

lemma server_asleep_stuck:
  "\<not> nl_ready nl f (mg_notify m) \<Longrightarrow> (server_step nl ^^ k) (m, ServerAsleep f) = (m, ServerAsleep f)"
  by (induction k) (auto simp: server_step_def server_wait_step_def)

text \<open>A shutdown signalled after the server has read the flag and before it has subscribed is lost: the flag is set, and the
  server sleeps on until a signal of the operating system, whatever number of polls follows.\<close>

theorem server_misses_shutdown:
  assumes "lawful_notify nl" and "(server_step nl ^^ 2) (m, ServerStart) = (m1, w1)" and "\<not> mg_shutdown m"
  shows "\<exists>f. (server_step nl ^^ Suc k) (signal_shutdown nl m1, w1) = (signal_shutdown nl m1, ServerAsleep f)
     \<and> mg_shutdown (signal_shutdown nl m1)"
proof -
  have w: "m1 = m" "w1 = ServerInstalled" using assms(2,3) by (auto simp: numeral_2_eq_2 server_step_def server_wait_step_def)
  let ?m = "signal_shutdown nl m"
  let ?f = "nl_notified nl (mg_notify ?m)"
  have "\<not> nl_ready nl ?f (mg_notify ?m)" using assms(1) by (simp add: lawful_notify_def)
  then have "(server_step nl ^^ k) (?m, ServerAsleep ?f) = (?m, ServerAsleep ?f)" by (rule server_asleep_stuck)
  moreover have "server_step nl (?m, ServerInstalled) = (?m, ServerAsleep ?f)"
    by (simp add: server_step_def server_wait_step_def)
  ultimately show ?thesis unfolding w funpow_Suc_right by (auto simp: signal_shutdown_def)
qed

theorem server_misses_shutdown_witness:
  "\<exists>f. (server_step count_notify ^^ 5) (signal_shutdown count_notify (manager_new count_notify), ServerInstalled)
     = (signal_shutdown count_notify (manager_new count_notify), ServerAsleep f)"
proof -
  have r: "(server_step count_notify ^^ 2) (manager_new count_notify, ServerStart) = (manager_new count_notify, ServerInstalled)"
    by (simp add: numeral_2_eq_2 server_step_def server_wait_step_def manager_new_def)
  have "\<not> mg_shutdown (manager_new count_notify)" by (simp add: manager_new_def)
  from server_misses_shutdown[OF count_notify_lawful r this, of 4] show ?thesis by (auto simp: eval_nat_numeral)
qed

section \<open>The count of connections\<close>

lemma conn_count:
  "conn_reachable nl m s \<Longrightarrow> active_connections m = of_nat (pending_calls s + live_guards s + abandoned s)"
proof (induction rule: conn_reachable.induct)
  case start
  then show ?case by (simp add: manager_new_def)
next
  case (step m s op m' s')
  then show ?case
    by (cases op) (auto simp: increment_connections_def decrement_connections_def of_nat_diff)
qed

text \<open>The counter of connections is the number of calls under way and guards alive, plus the calls whose future was dropped
  before its end: it comes back to zero exactly when everything is gone, as long as no call is abandoned.\<close>

theorem connections_balanced:
  assumes "conn_reachable nl m s" and "pending_calls s + live_guards s + abandoned s < 2 ^ 64"
  shows "active_connections m = 0 \<longleftrightarrow> pending_calls s = 0 \<and> live_guards s = 0 \<and> abandoned s = 0"
proof -
  have "unat (active_connections m) = pending_calls s + live_guards s + abandoned s"
    unfolding conn_count[OF assms(1)] using assms(2) by (simp only: unat_of_nat) simp
  then show ?thesis by (metis add_is_0 unat_eq_zero)
qed

theorem connections_balanced_witness:
  "\<exists>m :: nat manager. active_connections m \<noteq> 0 \<and>
     conn_reachable count_notify m \<lparr>pending_calls = 0, live_guards = 0, abandoned = 1\<rparr>"
proof -
  let ?m = "manager_new count_notify"
  have "conn_reachable count_notify (increment_connections ?m) \<lparr>pending_calls = 1, live_guards = 0, abandoned = 0\<rparr>"
    by (rule conn_reachable.step[OF conn_reachable.start, of CallService]) simp_all
  then have r: "conn_reachable count_notify (increment_connections ?m) \<lparr>pending_calls = 0, live_guards = 0, abandoned = 1\<rparr>"
    by (rule conn_reachable.step[of _ _ _ CallDropped]) simp_all
  then show ?thesis using connections_balanced[OF r] by (intro exI[of _ "increment_connections ?m"]) simp
qed

lemma wait_for_connections_late:
  "i < length rs \<Longrightarrow> timeout \<le> fst (rs ! i) \<Longrightarrow> wait_for_connections timeout rs \<noteq> None"
proof (induction rs arbitrary: i)
  case (Cons r rs)
  then show ?case by (cases r; cases i) auto
qed simp

text \<open>Waiting for connections ends: with readings at least 100 ms apart it has an answer after at most \<open>timeout / 100 + 2\<close>
  of them, whatever the counter does.\<close>

theorem wait_for_connections_ends:
  assumes "\<forall>i < length rs. 100 * i \<le> fst (rs ! i)" and "timeout div 100 + 1 < length rs"
  shows "wait_for_connections timeout rs \<noteq> None"
proof (rule wait_for_connections_late[OF assms(2)])
  have "timeout \<le> 100 * (timeout div 100 + 1)" by simp
  then show "timeout \<le> fst (rs ! (timeout div 100 + 1))" using assms by (meson le_trans)
qed

theorem wait_for_connections_ends_witness: "wait_for_connections 150 [(0, 1), (101, 1), (205, 1)] \<noteq> None"
  by (rule wait_for_connections_ends) (auto simp: less_Suc_eq numeral_3_eq_3)

end
