(* ===== verification/ConfigToml.thy ===== *)
theory ConfigToml
  imports ConfigTypes Float64
    "HOL-Library.Monad_Syntax" "HOL-Library.Char_ord" "HOL-Library.List_Lexorder"
begin

text \<open>
  The configuration as TOML: how the \<open>serde\<close> derives of \<open>src/config/types.rs\<close> read every struct from a
  table and write it back (field names, the \<open>#[serde(default)]\<close> and \<open>default = "..."\<close> attributes, the
  renamed field, the \<open>snake_case\<close> variants), and that reading what was written gives the
  configuration back.  The text of a TOML document belongs to the \<open>toml\<close> crate: its parser and
  printer are parameters (\<open>toml_codec\<close>).  A reader answers \<open>None\<close> where \<open>serde\<close> refuses the value.
  An enumeration is read from its name and a struct from a table; the other spellings
  \<open>serde\<close> knows (a one-entry table, an array of the fields) are refused here.
\<close>

section \<open>Values\<close>

text \<open>\<open>toml::Value\<close>.  An integer is an \<open>i64\<close>, a float its 64 bits.\<close>

datatype toml =
    TStr string
  | TInt "64 word"
  | TFloat f64
  | TBool bool
  | TDatetime string
  | TArr "toml list"
  | TTable "(string \<times> toml) list"

type_synonym table = "(string \<times> toml) list"

text \<open>The tables of \<open>toml\<close> are ordered maps: a parsed document has its keys in ascending order.\<close>

primrec toml_sorted :: "toml \<Rightarrow> toml" where
  "toml_sorted (TStr s) = TStr s"
| "toml_sorted (TInt i) = TInt i"
| "toml_sorted (TFloat f) = TFloat f"
| "toml_sorted (TBool b) = TBool b"
| "toml_sorted (TDatetime s) = TDatetime s"
| "toml_sorted (TArr vs) = TArr (map toml_sorted vs)"
| "toml_sorted (TTable kvs) = TTable (sort_key fst (map (map_prod id toml_sorted) kvs))"

record toml_codec =
  tc_parse :: "string \<Rightarrow> toml option"
  tc_print :: "toml \<Rightarrow> string option"

text \<open>What the crate documents: a printed value parses to the same value, its tables in key order.\<close>

definition codec_ok :: "toml_codec \<Rightarrow> toml \<Rightarrow> bool" where
  "codec_ok tc t \<longleftrightarrow> (\<forall>s. tc_print tc t = Some s \<longrightarrow> tc_parse tc s = Some (toml_sorted t))"

section \<open>Reading primitive values\<close>

fun toml_str :: "toml \<Rightarrow> string option" where
  "toml_str (TStr s) = Some s"
| "toml_str _ = None"

fun toml_bool :: "toml \<Rightarrow> bool option" where
  "toml_bool (TBool b) = Some b"
| "toml_bool _ = None"

text \<open>Unsigned fields: a negative or too large integer is refused.\<close>

fun toml_nat :: "toml \<Rightarrow> nat option" where
  "toml_nat (TInt i) = (if sint i < 0 then None else Some (unat i))"
| "toml_nat _ = None"

definition toml_u32 :: "toml \<Rightarrow> u32 option" where
  "toml_u32 v = do { n \<leftarrow> toml_nat v; if n < 2 ^ 32 then Some (of_nat n) else None }"

definition toml_u64 :: "toml \<Rightarrow> u64 option" where
  "toml_u64 v = map_option of_nat (toml_nat v)"

definition f64_of_int :: "int \<Rightarrow> f64" where
  "f64_of_int i = (if i < 0 then f64_ratio (nat (- i)) 1 + 2 ^ 63 else f64_ratio (nat i) 1)"

fun toml_f64 :: "toml \<Rightarrow> f64 option" where
  "toml_f64 (TFloat f) = Some f"
| "toml_f64 (TInt i) = Some (f64_of_int (sint i))"
| "toml_f64 _ = None"

fun toml_table :: "toml \<Rightarrow> table option" where
  "toml_table (TTable t) = Some t"
| "toml_table _ = None"

fun toml_list :: "(toml \<Rightarrow> 'a option) \<Rightarrow> toml \<Rightarrow> 'a list option" where
  "toml_list f (TArr vs) = those (map f vs)"
| "toml_list f _ = None"

definition toml_opt :: "(toml \<Rightarrow> 'a option) \<Rightarrow> toml \<Rightarrow> 'a option option" where
  "toml_opt f v = map_option Some (f v)"

text \<open>A field without a default must be there; one with a default may be missing.\<close>

definition field :: "table \<Rightarrow> string \<Rightarrow> (toml \<Rightarrow> 'a option) \<Rightarrow> 'a option" where
  "field t k f = do { v \<leftarrow> map_of t k; f v }"

definition field_or :: "table \<Rightarrow> string \<Rightarrow> (toml \<Rightarrow> 'a option) \<Rightarrow> 'a \<Rightarrow> 'a option" where
  "field_or t k f d = (case map_of t k of None \<Rightarrow> Some d | Some v \<Rightarrow> f v)"

section \<open>Reading the structs\<close>

definition pricing_of_toml :: "toml \<Rightarrow> backend_pricing option" where
  "pricing_of_toml v = do {
     t \<leftarrow> toml_table v;
     i \<leftarrow> field t ''input_per_million'' toml_f64;
     out \<leftarrow> field t ''output_per_million'' toml_f64;
     Some \<lparr>input_per_million = i, output_per_million = out\<rparr> }"

definition backend_of_toml :: "toml \<Rightarrow> backend option" where
  "backend_of_toml v = do {
     t \<leftarrow> toml_table v;
     n \<leftarrow> field t ''name'' toml_str;
     dn \<leftarrow> field t ''display_name'' toml_str;
     url \<leftarrow> field t ''base_url'' toml_str;
     auth \<leftarrow> field t ''auth_type'' toml_str;
     key \<leftarrow> field_or t ''api_key'' (toml_opt toml_str) None;
     pr \<leftarrow> field_or t ''pricing'' (toml_opt pricing_of_toml) None;
     tc \<leftarrow> field_or t ''thinking_compat'' (toml_opt toml_bool) None;
     tb \<leftarrow> field_or t ''thinking_budget_tokens'' (toml_opt toml_u32) None;
     mo \<leftarrow> field_or t ''model_opus'' (toml_opt toml_str) None;
     moe \<leftarrow> field_or t ''model_opus_max_effort'' (toml_opt toml_str) None;
     ms \<leftarrow> field_or t ''model_sonnet'' (toml_opt toml_str) None;
     mse \<leftarrow> field_or t ''model_sonnet_max_effort'' (toml_opt toml_str) None;
     mh \<leftarrow> field_or t ''model_haiku'' (toml_opt toml_str) None;
     mhe \<leftarrow> field_or t ''model_haiku_max_effort'' (toml_opt toml_str) None;
     mp \<leftarrow> field_or t ''models_path'' (toml_opt toml_str) None;
     wa \<leftarrow> field_or t ''wire_api'' (toml_opt toml_str) None;
     sp \<leftarrow> field_or t ''strip_request_prefix'' (toml_opt toml_str) None;
     Some \<lparr>name = n, display_name = dn, base_url = url, auth_type_str = auth, api_key = key, pricing = pr,
           thinking_compat = tc, thinking_budget_tokens = tb, model_opus = mo, model_opus_max_effort = moe,
           model_sonnet = ms, model_sonnet_max_effort = mse, model_haiku = mh, model_haiku_max_effort = mhe,
           models_path = mp, wire_api = wa, strip_request_prefix = sp\<rparr> }"

definition defaults_of_toml :: "toml \<Rightarrow> defaults_config option" where
  "defaults_of_toml v = do {
     t \<leftarrow> toml_table v;
     a \<leftarrow> field t ''active'' toml_str;
     ts \<leftarrow> field_or t ''timeout_seconds'' toml_u32 30;
     ct \<leftarrow> field_or t ''connect_timeout_seconds'' toml_u32 5;
     it \<leftarrow> field_or t ''idle_timeout_seconds'' toml_u32 60;
     pt \<leftarrow> field_or t ''pool_idle_timeout_seconds'' toml_u32 90;
     pm \<leftarrow> field_or t ''pool_max_idle_per_host'' toml_u32 8;
     mr \<leftarrow> field_or t ''max_retries'' toml_u32 3;
     rb \<leftarrow> field_or t ''retry_backoff_base_ms'' toml_u64 100;
     Some \<lparr>active = a, timeout_seconds = ts, connect_timeout_seconds = ct, idle_timeout_seconds = it,
           pool_idle_timeout_seconds = pt, pool_max_idle_per_host = pm, max_retries = mr,
           retry_backoff_base_ms = rb\<rparr> }"

definition agents_of_toml :: "toml \<Rightarrow> agents_config option" where
  "agents_of_toml v = do {
     t \<leftarrow> toml_table v;
     tb \<leftarrow> field t ''teammate_backend'' toml_str;
     sb \<leftarrow> field_or t ''subagent_backend'' (toml_opt toml_str) None;
     Some \<lparr>teammate_backend_name = tb, subagent_backend_name = sb\<rparr> }"

definition setting_of_toml :: "string \<times> toml \<Rightarrow> (string \<times> bool) option" where
  "setting_of_toml e = do { b \<leftarrow> toml_bool (snd e); Some (fst e, b) }"

definition settings_of_toml :: "toml \<Rightarrow> (string \<times> bool) list option" where
  "settings_of_toml v = do { t \<leftarrow> toml_table v; those (map setting_of_toml t) }"

definition profile_of_toml :: "toml \<Rightarrow> cli_profile option" where
  "profile_of_toml v = do {
     t \<leftarrow> toml_table v;
     d \<leftarrow> field_or t ''defaults'' defaults_of_toml default_defaults;
     bs \<leftarrow> field_or t ''backends'' (toml_list backend_of_toml) [];
     ag \<leftarrow> field_or t ''agents'' (toml_opt agents_of_toml) None;
     cs \<leftarrow> field_or t ''claude_settings'' settings_of_toml [];
     Some \<lparr>defaults = d, backends = bs, agents = ag, claude_settings = cs\<rparr> }"

definition proxy_of_toml :: "toml \<Rightarrow> proxy_config option" where
  "proxy_of_toml v = do {
     t \<leftarrow> toml_table v;
     a \<leftarrow> field_or t ''bind_addr'' toml_str ''127.0.0.1:47190'';
     u \<leftarrow> field_or t ''base_url'' toml_str ''http://127.0.0.1:47190'';
     Some \<lparr>bind_addr = a, proxy_base_url = u\<rparr> }"

definition webui_of_toml :: "toml \<Rightarrow> webui_config option" where
  "webui_of_toml v = do {
     t \<leftarrow> toml_table v;
     a \<leftarrow> field_or t ''bind_addr'' toml_str ''127.0.0.1:47191'';
     u \<leftarrow> field_or t ''username'' (toml_opt toml_str) None;
     p \<leftarrow> field_or t ''password'' (toml_opt toml_str) None;
     Some \<lparr>webui_bind_addr = a, username = u, password = p\<rparr> }"

definition terminal_of_toml :: "toml \<Rightarrow> terminal_config option" where
  "terminal_of_toml v = do {
     t \<leftarrow> toml_table v;
     n \<leftarrow> field_or t ''scrollback_lines'' toml_nat 10000;
     Some \<lparr>scrollback_lines = n\<rparr> }"

definition level_of_toml :: "toml \<Rightarrow> debug_log_level option" where
  "level_of_toml v = do {
     s \<leftarrow> toml_str v;
     if s = ''off'' then Some LevelOff else if s = ''basic'' then Some LevelBasic
     else if s = ''verbose'' then Some LevelVerbose else if s = ''full'' then Some LevelFull else None }"

definition format_of_toml :: "toml \<Rightarrow> debug_log_format option" where
  "format_of_toml v = do {
     s \<leftarrow> toml_str v;
     if s = ''console'' then Some FormatConsole else if s = ''json'' then Some FormatJson else None }"

definition destination_of_toml :: "toml \<Rightarrow> debug_log_destination option" where
  "destination_of_toml v = do {
     s \<leftarrow> toml_str v;
     if s = ''stderr'' then Some DestStderr else if s = ''file'' then Some DestFile
     else if s = ''both'' then Some DestBoth else None }"

definition rotation_mode_of_toml :: "toml \<Rightarrow> debug_rotation_mode option" where
  "rotation_mode_of_toml v = do {
     s \<leftarrow> toml_str v;
     if s = ''none'' then Some RotationNone else if s = ''size'' then Some RotationSize
     else if s = ''daily'' then Some RotationDaily else None }"

definition rotation_of_toml :: "toml \<Rightarrow> debug_log_rotation option" where
  "rotation_of_toml v = do {
     t \<leftarrow> toml_table v;
     m \<leftarrow> field_or t ''mode'' rotation_mode_of_toml RotationNone;
     mb \<leftarrow> field_or t ''max_bytes'' toml_u64 (10 * 1024 * 1024);
     mf \<leftarrow> field_or t ''max_files'' toml_nat 5;
     Some \<lparr>rotation_mode = m, max_bytes = mb, max_files = mf\<rparr> }"

definition debug_of_toml :: "toml \<Rightarrow> debug_logging_config option" where
  "debug_of_toml v = do {
     t \<leftarrow> toml_table v;
     l \<leftarrow> field_or t ''level'' level_of_toml LevelOff;
     f \<leftarrow> field_or t ''format'' format_of_toml FormatConsole;
     d \<leftarrow> field_or t ''destination'' destination_of_toml DestStderr;
     p \<leftarrow> field_or t ''file_path'' toml_str ''~/.config/anycode/logs/debug.log'';
     b \<leftarrow> field_or t ''body_preview_bytes'' toml_nat 1024;
     h \<leftarrow> field_or t ''header_preview'' toml_bool True;
     fb \<leftarrow> field_or t ''full_body'' toml_bool False;
     pp \<leftarrow> field_or t ''pretty_print'' toml_bool True;
     r \<leftarrow> field_or t ''rotation'' rotation_of_toml default_rotation;
     Some \<lparr>level = l, log_format = f, destination = d, file_path = p, body_preview_bytes = b,
           header_preview = h, full_body = fb, pretty_print = pp, rotation = r\<rparr> }"

text \<open>A section missing from the file is the \<open>Default\<close> of its type: for a profile, one without backends.\<close>

definition config_of_toml :: "toml \<Rightarrow> config option" where
  "config_of_toml v = do {
     t \<leftarrow> toml_table v;
     px \<leftarrow> field_or t ''proxy'' proxy_of_toml (proxy default_config);
     w \<leftarrow> field_or t ''webui'' webui_of_toml (webui default_config);
     tm \<leftarrow> field_or t ''terminal'' terminal_of_toml (terminal default_config);
     dl \<leftarrow> field_or t ''debug_logging'' debug_of_toml default_debug_logging;
     cl \<leftarrow> field_or t ''claude'' profile_of_toml default_profile;
     co \<leftarrow> field_or t ''copilot'' profile_of_toml default_profile;
     Some \<lparr>proxy = px, webui = w, terminal = tm, debug_logging = dl, claude = cl, copilot = co\<rparr> }"

section \<open>Writing the structs\<close>

text \<open>An absent option writes no entry; an unsigned number beyond \<open>i64::MAX\<close> cannot be written.\<close>

definition entry :: "string \<Rightarrow> ('a \<Rightarrow> toml) \<Rightarrow> 'a option \<Rightarrow> table" where
  "entry k f x = (case x of None \<Rightarrow> [] | Some y \<Rightarrow> [(k, f y)])"

definition toml_of_nat :: "nat \<Rightarrow> toml option" where
  "toml_of_nat n = (if n < 2 ^ 63 then Some (TInt (of_nat n)) else None)"

definition toml_of_u32 :: "u32 \<Rightarrow> toml" where
  "toml_of_u32 w = TInt (of_nat (unat w))"

definition toml_of_pricing :: "backend_pricing \<Rightarrow> toml" where
  "toml_of_pricing p = TTable [(''input_per_million'', TFloat (input_per_million p)),
                               (''output_per_million'', TFloat (output_per_million p))]"

definition toml_of_backend :: "backend \<Rightarrow> toml" where
  "toml_of_backend b = TTable (
     [(''name'', TStr (name b)), (''display_name'', TStr (display_name b)), (''base_url'', TStr (base_url b)),
      (''auth_type'', TStr (auth_type_str b))]
     @ entry ''api_key'' TStr (api_key b) @ entry ''pricing'' toml_of_pricing (pricing b)
     @ entry ''thinking_compat'' TBool (thinking_compat b)
     @ entry ''thinking_budget_tokens'' toml_of_u32 (thinking_budget_tokens b)
     @ entry ''model_opus'' TStr (model_opus b) @ entry ''model_opus_max_effort'' TStr (model_opus_max_effort b)
     @ entry ''model_sonnet'' TStr (model_sonnet b)
     @ entry ''model_sonnet_max_effort'' TStr (model_sonnet_max_effort b)
     @ entry ''model_haiku'' TStr (model_haiku b) @ entry ''model_haiku_max_effort'' TStr (model_haiku_max_effort b)
     @ entry ''models_path'' TStr (models_path b) @ entry ''wire_api'' TStr (wire_api b)
     @ entry ''strip_request_prefix'' TStr (strip_request_prefix b))"

definition toml_of_defaults :: "defaults_config \<Rightarrow> toml option" where
  "toml_of_defaults d = do {
     rb \<leftarrow> toml_of_nat (unat (retry_backoff_base_ms d));
     Some (TTable [(''active'', TStr (active d)), (''timeout_seconds'', toml_of_u32 (timeout_seconds d)),
       (''connect_timeout_seconds'', toml_of_u32 (connect_timeout_seconds d)),
       (''idle_timeout_seconds'', toml_of_u32 (idle_timeout_seconds d)),
       (''pool_idle_timeout_seconds'', toml_of_u32 (pool_idle_timeout_seconds d)),
       (''pool_max_idle_per_host'', toml_of_u32 (pool_max_idle_per_host d)),
       (''max_retries'', toml_of_u32 (max_retries d)), (''retry_backoff_base_ms'', rb)]) }"

definition toml_of_agents :: "agents_config \<Rightarrow> toml" where
  "toml_of_agents a = TTable ((''teammate_backend'', TStr (teammate_backend_name a))
     # entry ''subagent_backend'' TStr (subagent_backend_name a))"

definition toml_of_settings :: "(string \<times> bool) list \<Rightarrow> toml" where
  "toml_of_settings cs = TTable (map (map_prod id TBool) cs)"

definition toml_of_profile :: "cli_profile \<Rightarrow> toml option" where
  "toml_of_profile p = do {
     d \<leftarrow> toml_of_defaults (defaults p);
     Some (TTable ([(''defaults'', d), (''backends'', TArr (map toml_of_backend (backends p)))]
       @ entry ''agents'' toml_of_agents (agents p)
       @ [(''claude_settings'', toml_of_settings (claude_settings p))])) }"

definition toml_of_webui :: "webui_config \<Rightarrow> toml" where
  "toml_of_webui w = TTable ((''bind_addr'', TStr (webui_bind_addr w))
     # entry ''username'' TStr (username w) @ entry ''password'' TStr (password w))"

definition toml_of_proxy :: "proxy_config \<Rightarrow> toml" where
  "toml_of_proxy p = TTable [(''bind_addr'', TStr (bind_addr p)), (''base_url'', TStr (proxy_base_url p))]"

fun toml_of_level :: "debug_log_level \<Rightarrow> toml" where
  "toml_of_level LevelOff = TStr ''off''"
| "toml_of_level LevelBasic = TStr ''basic''"
| "toml_of_level LevelVerbose = TStr ''verbose''"
| "toml_of_level LevelFull = TStr ''full''"

fun toml_of_format :: "debug_log_format \<Rightarrow> toml" where
  "toml_of_format FormatConsole = TStr ''console''"
| "toml_of_format FormatJson = TStr ''json''"

fun toml_of_destination :: "debug_log_destination \<Rightarrow> toml" where
  "toml_of_destination DestStderr = TStr ''stderr''"
| "toml_of_destination DestFile = TStr ''file''"
| "toml_of_destination DestBoth = TStr ''both''"

fun toml_of_rotation_mode :: "debug_rotation_mode \<Rightarrow> toml" where
  "toml_of_rotation_mode RotationNone = TStr ''none''"
| "toml_of_rotation_mode RotationSize = TStr ''size''"
| "toml_of_rotation_mode RotationDaily = TStr ''daily''"

definition toml_of_rotation :: "debug_log_rotation \<Rightarrow> toml option" where
  "toml_of_rotation r = do {
     mb \<leftarrow> toml_of_nat (unat (max_bytes r));
     mf \<leftarrow> toml_of_nat (max_files r);
     Some (TTable [(''mode'', toml_of_rotation_mode (rotation_mode r)), (''max_bytes'', mb), (''max_files'', mf)]) }"

definition toml_of_debug :: "debug_logging_config \<Rightarrow> toml option" where
  "toml_of_debug c = do {
     bp \<leftarrow> toml_of_nat (body_preview_bytes c);
     r \<leftarrow> toml_of_rotation (rotation c);
     Some (TTable [(''level'', toml_of_level (level c)), (''format'', toml_of_format (log_format c)),
       (''destination'', toml_of_destination (destination c)), (''file_path'', TStr (file_path c)),
       (''body_preview_bytes'', bp), (''header_preview'', TBool (header_preview c)),
       (''full_body'', TBool (full_body c)), (''pretty_print'', TBool (pretty_print c)), (''rotation'', r)]) }"

definition toml_of_config :: "config \<Rightarrow> toml option" where
  "toml_of_config c = do {
     sb \<leftarrow> toml_of_nat (scrollback_lines (terminal c));
     dl \<leftarrow> toml_of_debug (debug_logging c);
     cl \<leftarrow> toml_of_profile (claude c);
     co \<leftarrow> toml_of_profile (copilot c);
     Some (TTable [(''proxy'', toml_of_proxy (proxy c)), (''webui'', toml_of_webui (webui c)),
       (''terminal'', TTable [(''scrollback_lines'', sb)]), (''debug_logging'', dl),
       (''claude'', cl), (''copilot'', co)]) }"

section \<open>Reading back what was written\<close>

lemma map_of_filter_key: "map_of xs k = (case filter (\<lambda>y. fst y = k) xs of [] \<Rightarrow> None | y # _ \<Rightarrow> Some (snd y))"
  by (induction xs) auto

lemma map_of_sort_key [simp]: "map_of (sort_key fst xs) k = map_of xs k"
  by (simp add: map_of_filter_key sort_key_stable)

lemma map_of_map_prod [simp]: "map_of (map (map_prod id g) t) k = map_option g (map_of t k)"
  by (induction t) auto

lemma map_of_entry [simp]: "map_of (entry k f x) k' = (if k = k' then map_option f x else None)"
  by (cases x) (auto simp: entry_def)

lemma those_map_Some: "(\<And>x. x \<in> set xs \<Longrightarrow> f x = Some (g x)) \<Longrightarrow> those (map f xs) = Some (map g xs)"
  by (induction xs) auto

lemma insort_key_map_prod:
  "insort_key fst (k, g v) (map (map_prod id g) xs) = map (map_prod id g) (insort_key fst (k, v) xs)"
  by (induction xs) (auto simp del: map_prod_ident)

lemma sort_key_map_prod: "sort_key fst (map (map_prod id g) xs) = map (map_prod id g) (sort_key fst xs)"
proof (induction xs)
  case (Cons x xs)
  obtain k v where x: "x = (k, v)" by fastforce
  show ?case using Cons.IH by (simp add: x id_def insort_key_map_prod[unfolded id_def])
qed simp

definition sorted_entries :: "table \<Rightarrow> table" where
  "sorted_entries t = sort_key fst (map (map_prod id toml_sorted) t)"

lemma toml_sorted_table: "toml_sorted (TTable t) = TTable (sorted_entries t)"
  by (simp add: sorted_entries_def)

declare toml_sorted.simps(7) [simp del]
declare toml_sorted_table [simp]

lemma field_sorted [simp]:
  "field (sorted_entries t) k f = (case map_of t k of None \<Rightarrow> None | Some v \<Rightarrow> f (toml_sorted v))"
  by (simp add: field_def sorted_entries_def split: option.splits del: map_prod_ident)

lemma field_or_sorted [simp]:
  "field_or (sorted_entries t) k f d = (case map_of t k of None \<Rightarrow> Some d | Some v \<Rightarrow> f (toml_sorted v))"
  by (simp add: field_or_def sorted_entries_def split: option.splits del: map_prod_ident)

text \<open>An optional field reads back as the option that was written.\<close>

lemma opt_read [simp]:
  "(\<And>y. f (toml_sorted (g y)) = Some y) \<Longrightarrow>
   (case x of None \<Rightarrow> Some None | Some y \<Rightarrow> ((\<lambda>v. toml_opt f (toml_sorted v)) \<circ> g) y) = Some x"
  by (cases x) (auto simp: toml_opt_def)

text \<open>Lookup in joined lists of entries, with the alternative as a function so that the simplifier reaches
  both sides.\<close>

definition alt :: "'a option \<Rightarrow> 'a option \<Rightarrow> 'a option" where
  "alt x y = (case x of None \<Rightarrow> y | Some v \<Rightarrow> Some v)"

lemma alt_simps [simp]: "alt x None = x" "alt None x = x"
  by (simp_all add: alt_def split: option.splits)

lemma map_of_append_alt: "map_of (xs @ ys) k = alt (map_of xs k) (map_of ys k)"
  by (simp add: alt_def map_add_def map_of_append split: option.splits)

lemma i64_read: "n < 2 ^ 63 \<Longrightarrow> toml_nat (TInt (of_nat n)) = Some n"
  by (simp add: signed_of_nat signed_take_bit_int_eq_self unsigned_of_nat take_bit_nat_eq_self)

lemma toml_u32_read [simp]: "toml_u32 (toml_sorted (toml_of_u32 w)) = Some w"
proof -
  have lt: "unat w < 2 ^ 32" using unsigned_less[of w] by simp
  then have "toml_nat (TInt (of_nat (unat w))) = Some (unat w)" by (intro i64_read) simp
  then show ?thesis using lt by (simp add: toml_u32_def toml_of_u32_def del: toml_nat.simps)
qed

lemma toml_nat_read: "toml_of_nat n = Some v \<Longrightarrow> toml_nat (toml_sorted v) = Some n"
  by (auto simp: toml_of_nat_def i64_read simp del: toml_nat.simps split: if_splits)

lemma toml_u64_read: "toml_of_nat (unat w) = Some v \<Longrightarrow> toml_u64 (toml_sorted v) = Some w"
  by (simp add: toml_u64_def toml_nat_read)

lemma pricing_read [simp]: "pricing_of_toml (toml_sorted (toml_of_pricing p)) = Some p"
  by (simp add: pricing_of_toml_def toml_of_pricing_def)

lemma backend_read [simp]: "backend_of_toml (toml_sorted (toml_of_backend b)) = Some b"
  by (simp add: backend_of_toml_def toml_of_backend_def map_of_append_alt del: map_of_append)

lemma defaults_read: "toml_of_defaults d = Some v \<Longrightarrow> defaults_of_toml (toml_sorted v) = Some d"
  by (auto simp: toml_of_defaults_def defaults_of_toml_def toml_u64_read bind_eq_Some_conv)

lemma agents_read [simp]: "agents_of_toml (toml_sorted (toml_of_agents a)) = Some a"
  by (simp add: agents_of_toml_def toml_of_agents_def)

text \<open>A hash map read from a file holds its entries in key order.\<close>

definition canon_settings :: "(string \<times> bool) list \<Rightarrow> (string \<times> bool) list" where
  "canon_settings = sort_key fst"

definition canon_profile :: "cli_profile \<Rightarrow> cli_profile" where
  "canon_profile p = p\<lparr>claude_settings := canon_settings (claude_settings p)\<rparr>"

definition canon_config :: "config \<Rightarrow> config" where
  "canon_config c = c\<lparr>claude := canon_profile (claude c), copilot := canon_profile (copilot c)\<rparr>"

lemma settings_read [simp]: "settings_of_toml (toml_sorted (toml_of_settings cs)) = Some (canon_settings cs)"
proof -
  have *: "map (map_prod id toml_sorted) (map (map_prod id TBool) cs) = map (map_prod id TBool) cs"
    by (simp add: map_prod_def split_beta)
  have "sorted_entries (map (map_prod id TBool) cs) = map (map_prod id TBool) (sort_key fst cs)"
    unfolding sorted_entries_def * by (rule sort_key_map_prod)
  moreover have "those (map setting_of_toml (map (map_prod id TBool) (sort_key fst cs))) = Some (sort_key fst cs)"
    by (induction "sort_key fst cs") (auto simp: setting_of_toml_def those_map_Some[where g = id, simplified])
  ultimately show ?thesis
    by (simp add: settings_of_toml_def toml_of_settings_def canon_settings_def)
qed

lemma profile_read: "toml_of_profile p = Some v \<Longrightarrow> profile_of_toml (toml_sorted v) = Some (canon_profile p)"
  by (auto simp: toml_of_profile_def profile_of_toml_def bind_eq_Some_conv map_of_append_alt defaults_read
      those_map_Some[where g = id, simplified] canon_profile_def comp_def
      simp del: map_of_append)

lemma level_read [simp]: "level_of_toml (toml_sorted (toml_of_level l)) = Some l"
  by (cases l) (simp_all add: level_of_toml_def)

lemma format_read [simp]: "format_of_toml (toml_sorted (toml_of_format f)) = Some f"
  by (cases f) (simp_all add: format_of_toml_def)

lemma destination_read [simp]: "destination_of_toml (toml_sorted (toml_of_destination d)) = Some d"
  by (cases d) (simp_all add: destination_of_toml_def)

lemma rotation_mode_read [simp]: "rotation_mode_of_toml (toml_sorted (toml_of_rotation_mode m)) = Some m"
  by (cases m) (simp_all add: rotation_mode_of_toml_def)

lemma rotation_read: "toml_of_rotation r = Some v \<Longrightarrow> rotation_of_toml (toml_sorted v) = Some r"
  by (auto simp: toml_of_rotation_def rotation_of_toml_def bind_eq_Some_conv toml_u64_read toml_nat_read)

lemma debug_read: "toml_of_debug c = Some v \<Longrightarrow> debug_of_toml (toml_sorted v) = Some c"
  by (auto simp: toml_of_debug_def debug_of_toml_def bind_eq_Some_conv rotation_read toml_nat_read)

lemma proxy_read [simp]: "proxy_of_toml (toml_sorted (toml_of_proxy p)) = Some p"
  by (simp add: proxy_of_toml_def toml_of_proxy_def)

lemma webui_read [simp]: "webui_of_toml (toml_sorted (toml_of_webui w)) = Some w"
  by (simp add: webui_of_toml_def toml_of_webui_def map_of_append_alt del: map_of_append)

lemma config_read:
  assumes "toml_of_config c = Some t"
  shows "config_of_toml (toml_sorted t) = Some (canon_config c)"
  using assms
  by (auto simp: toml_of_config_def config_of_toml_def terminal_of_toml_def bind_eq_Some_conv debug_read
      profile_read toml_nat_read canon_config_def)

end
