(* ===== verification/ConfigFile.thy ===== *)
theory ConfigFile
  imports ConfigToml Credentials ProxyError
begin

text \<open>
  The configuration file (\<open>src/config/loader.rs\<close>) and the store that keeps it in memory
  (\<open>src/config/store.rs\<close>): loading with the migration of the old flat layout, validation, and the three
  ways the file is written.  The file is its content, \<open>None\<close> when it does not exist.  Every system
  call that can fail is a field of a fault record: \<open>None\<close> when it succeeds, the error text when not;
  a failing write has stored some prefix.
\<close>

section \<open>Errors and paths\<close>

datatype config_error =
    ReadError string string
  | ParseError string string
  | ValidationError string

fun show_config_error :: "config_error \<Rightarrow> string" where
  "show_config_error (ReadError p e) = ''Failed to read config file '' @ quoted p @ '': '' @ e"
| "show_config_error (ParseError p e) = ''Failed to parse config file '' @ quoted p @ '': '' @ e"
| "show_config_error (ValidationError m) = ''Config validation failed: '' @ m"

definition config_dir_of :: "string option \<Rightarrow> string" where
  "config_dir_of home = (case home of Some h \<Rightarrow> path_join h ''.config'' | None \<Rightarrow> ''.'')"

definition config_path :: "string option \<Rightarrow> string" where
  "config_path home = path_join (path_join (config_dir_of home) ''anycode'') ''config.toml''"

definition legacy_config_path :: "string option \<Rightarrow> string" where
  "legacy_config_path home = path_join (path_join (config_dir_of home) ''anyclaude'') ''config.toml''"

section \<open>Migration of the flat layout\<close>

definition carry :: "string \<Rightarrow> table \<Rightarrow> table \<Rightarrow> table" where
  "carry k old sec = (case map_of old k of Some v \<Rightarrow> AList.update k v sec | None \<Rightarrow> sec)"

definition migrate_toml_value :: "toml \<Rightarrow> toml \<times> bool" where
  "migrate_toml_value v =
     (case v of
        TTable t \<Rightarrow>
          if map_of t ''claude'' \<noteq> None then (v, False)
          else if map_of t ''backends'' = None \<and> map_of t ''defaults'' = None then (v, False)
          else
            let rest = AList.delete ''claude_settings'' (AList.delete ''agents''
                         (AList.delete ''defaults'' (AList.delete ''backends'' t)));
                sec = carry ''claude_settings'' t (carry ''agents'' t (carry ''backends'' t (carry ''defaults'' t [])))
            in (TTable (AList.update ''claude'' (TTable sec) rest), True)
      | _ \<Rightarrow> (v, False))"

definition migrate_config_content :: "toml_codec \<Rightarrow> string \<Rightarrow> string" where
  "migrate_config_content tc content =
     (case tc_parse tc content of
        None \<Rightarrow> content
      | Some v \<Rightarrow> (case migrate_toml_value v of
          (v', True) \<Rightarrow> (case tc_print tc v' of Some s \<Rightarrow> s | None \<Rightarrow> content)
        | (_, False) \<Rightarrow> content))"

text \<open>\<open>toml::from_str::<Config>\<close> and \<open>toml::to_string_pretty\<close>; \<open>toml_refused\<close> is the crate's message.\<close>

definition config_from_str :: "toml_codec \<Rightarrow> string \<Rightarrow> config option" where
  "config_from_str tc s = do { v \<leftarrow> tc_parse tc s; config_of_toml v }"

definition config_to_str :: "toml_codec \<Rightarrow> config \<Rightarrow> string option" where
  "config_to_str tc c = do { v \<leftarrow> toml_of_config c; tc_print tc v }"

section \<open>Loading\<close>

record io_faults =
  f_dir :: "string option"
  f_open :: "string option"
  f_lock :: "string option"
  f_read :: "string option"
  f_seek :: "string option"
  f_trunc :: "string option"
  f_write :: "(string \<times> nat) option"
  f_copy :: "string option option"

definition no_faults :: io_faults where
  "no_faults = \<lparr>f_dir = None, f_open = None, f_lock = None, f_read = None, f_seek = None, f_trunc = None,
                f_write = None, f_copy = None\<rparr>"

text \<open>The first failing call of a sequence decides the error.\<close>

definition first_fault :: "string \<Rightarrow> string option list \<Rightarrow> config_error option" where
  "first_fault path fs = (case List.map_filter (\<lambda>x. x) fs of [] \<Rightarrow> None | e # _ \<Rightarrow> Some (ReadError path e))"

text \<open>The crate's message for a document it refuses, and for a configuration it cannot write.\<close>

record messages =
  m_parse :: "string \<Rightarrow> string"
  m_print :: "config \<Rightarrow> string"

definition load_from :: "toml_codec \<Rightarrow> messages \<Rightarrow> io_faults \<Rightarrow> string \<Rightarrow> string option \<Rightarrow> config_error + config" where
  "load_from tc ms io path file =
     (case file of
        None \<Rightarrow> Inr default_config
      | Some raw \<Rightarrow>
          (case first_fault path [f_open io, f_lock io, f_read io] of
             Some e \<Rightarrow> Inl e
           | None \<Rightarrow>
               let content = migrate_config_content tc raw in
               (case config_from_str tc content of
                  Some c \<Rightarrow> Inr c
                | None \<Rightarrow> Inl (ParseError path (m_parse ms content)))))"

text \<open>Loading from the default place copies the file of the old program when the new one is missing.\<close>

definition config_load ::
    "toml_codec \<Rightarrow> messages \<Rightarrow> io_faults \<Rightarrow> string option \<Rightarrow> (string \<Rightarrow> string option)
     \<Rightarrow> (config_error + config) \<times> (string \<Rightarrow> string option)" where
  "config_load tc ms io home disk =
     (let path = config_path home; legacy = legacy_config_path home;
          disk' = (if disk path = None \<and> disk legacy \<noteq> None
                   then disk(path := case f_copy io of None \<Rightarrow> disk legacy | Some left \<Rightarrow> left)
                   else disk)
      in (load_from tc ms io path (disk' path), disk'))"

section \<open>Validation\<close>

definition validate_agents :: "string \<Rightarrow> cli_profile \<Rightarrow> config_error + unit" where
  "validate_agents key p =
     (let known = (\<lambda>n. \<exists>b \<in> set (backends p). name b = n) in
      case agents p of
        None \<Rightarrow> Inr ()
      | Some a \<Rightarrow>
          if \<not> known (teammate_backend_name a)
          then Inl (ValidationError (''['' @ key @ ''] agents.teammate_backend '' @ quoted (teammate_backend_name a)
                    @ '' not found in configured backends''))
          else (case subagent_backend_name a of
                  Some sb \<Rightarrow>
                    if \<not> known sb
                    then Inl (ValidationError (''['' @ key @ ''] agents.subagent_backend '' @ quoted sb
                              @ '' not found in configured backends''))
                    else Inr ()
                | None \<Rightarrow> Inr ()))"

definition profile_key :: "cli_mode \<Rightarrow> string" where
  "profile_key m = (case m of ModeClaude \<Rightarrow> ''claude'' | ModeCopilot \<Rightarrow> ''copilot'')"

definition em_dash :: string where
  "em_dash = [CHR 0xE2, CHR 0x80, CHR 0x94]"

definition validate_for :: "cli_mode \<Rightarrow> config \<Rightarrow> config_error + unit" where
  "validate_for m c =
     (let p = profile m c; key = profile_key m in
      if backends p = [] then
        (if m = ModeCopilot then Inr ()
         else Inl (ValidationError (''No backends configured for '' @ key @ '' profile'')))
      else
        (case List.find (\<lambda>b. name b = active (defaults p)) (backends p) of
           None \<Rightarrow> Inl (ValidationError (''['' @ key @ ''] Active backend '' @ quoted (active (defaults p))
                      @ '' not found in configured backends''))
         | Some b \<Rightarrow>
             if \<not> is_configured b
             then Inl (ValidationError (''['' @ key @ ''] Active backend '' @ quoted (name b)
                       @ '' is not configured '' @ em_dash @ '' set api_key in config''))
             else validate_agents key p))"

definition validate :: "config \<Rightarrow> config_error + unit" where
  "validate c = validate_for ModeClaude c"

definition log_backend_status :: "config \<Rightarrow> string list" where
  "log_backend_status c = map (\<lambda>b.
     case resolve_credential b of
       Unconfigured reason \<Rightarrow> ''Warning: Backend '' @ quoted (name b) @ '' is unconfigured - '' @ reason
     | Configured _ \<Rightarrow> ''Backend '' @ quoted (name b) @ '' configured''
     | NoAuth \<Rightarrow> ''Backend '' @ quoted (name b) @ '' configured (no auth required)'') (backends (claude c))"

definition configured_backends :: "config \<Rightarrow> backend list" where
  "configured_backends c = filter is_configured (backends (claude c))"

definition config_active_backend :: "config \<Rightarrow> backend option" where
  "config_active_backend c =
     List.find (\<lambda>b. name b = active (defaults (claude c)) \<and> is_configured b) (backends (claude c))"

section \<open>Writing\<close>

text \<open>\<open>write_all\<close>: everything, or a prefix and an error.\<close>

definition write_file :: "string \<Rightarrow> io_faults \<Rightarrow> string \<Rightarrow> (config_error + unit) \<times> string option" where
  "write_file path io content =
     (case f_write io of
        None \<Rightarrow> (Inr (), Some content)
      | Some (e, n) \<Rightarrow> (Inl (ReadError path e), Some (take n content)))"

text \<open>\<open>save_config\<close> opens with \<open>truncate\<close>: the old content is gone before the lock is taken.\<close>

definition save_config ::
    "toml_codec \<Rightarrow> messages \<Rightarrow> io_faults \<Rightarrow> string \<Rightarrow> config \<Rightarrow> string option
     \<Rightarrow> (config_error + unit) \<times> string option" where
  "save_config tc ms io path c file =
     (case first_fault path [f_dir io] of
        Some e \<Rightarrow> (Inl e, file)
      | None \<Rightarrow>
          (case config_to_str tc c of
             None \<Rightarrow> (Inl (ValidationError (''Failed to serialize config: '' @ m_print ms c)), file)
           | Some content \<Rightarrow>
               (case first_fault path [f_open io] of
                  Some e \<Rightarrow> (Inl e, file)
                | None \<Rightarrow>
                    (case first_fault path [f_lock io] of
                       Some e \<Rightarrow> (Inl e, Some [])
                     | None \<Rightarrow> write_file path io content))))"

text \<open>\<open>save_profile\<close> and \<open>save_claude_settings\<close> read, change and rewrite the file under one lock.\<close>

definition rewrite_config ::
    "toml_codec \<Rightarrow> messages \<Rightarrow> io_faults \<Rightarrow> string \<Rightarrow> (config \<Rightarrow> config) \<Rightarrow> string option
     \<Rightarrow> (config_error + unit) \<times> string option" where
  "rewrite_config tc ms io path f file =
     (case first_fault path [f_dir io, f_open io] of
        Some e \<Rightarrow> (Inl e, file)
      | None \<Rightarrow>
          let raw = (case file of Some s \<Rightarrow> s | None \<Rightarrow> []) in
          (case first_fault path [f_lock io, f_read io] of
             Some e \<Rightarrow> (Inl e, Some raw)
           | None \<Rightarrow>
               let migrated = migrate_config_content tc raw in
               (case (if str_trim raw = [] then Some default_config else config_from_str tc migrated) of
                  None \<Rightarrow> (Inl (ValidationError (''Failed to parse config: '' @ m_parse ms migrated)), Some raw)
                | Some c \<Rightarrow>
                    (case config_to_str tc (f c) of
                       None \<Rightarrow> (Inl (ValidationError (''Failed to serialize config: '' @ m_print ms (f c))), Some raw)
                     | Some content \<Rightarrow>
                         (case first_fault path [f_seek io, f_trunc io] of
                            Some e \<Rightarrow> (Inl e, Some raw)
                          | None \<Rightarrow> write_file path io content)))))"

definition save_claude_settings ::
    "toml_codec \<Rightarrow> messages \<Rightarrow> io_faults \<Rightarrow> string \<Rightarrow> (string \<times> bool) list \<Rightarrow> string option
     \<Rightarrow> (config_error + unit) \<times> string option" where
  "save_claude_settings tc ms io path settings =
     rewrite_config tc ms io path (\<lambda>c. c\<lparr>claude := (claude c)\<lparr>claude_settings := settings\<rparr>\<rparr>)"

definition save_profile ::
    "toml_codec \<Rightarrow> messages \<Rightarrow> io_faults \<Rightarrow> string \<Rightarrow> cli_mode \<Rightarrow> cli_profile \<Rightarrow> string option
     \<Rightarrow> (config_error + unit) \<times> string option" where
  "save_profile tc ms io path m p = rewrite_config tc ms io path (profile_update m (\<lambda>_. p))"

section \<open>The store\<close>

record config_store =
  cs_config :: config
  cs_path :: string

definition new_store :: "config \<Rightarrow> string \<Rightarrow> config_store" where
  "new_store c p = \<lparr>cs_config = c, cs_path = p\<rparr>"

definition store_get :: "config_store \<Rightarrow> config" where
  "store_get s = cs_config s"

definition store_path :: "config_store \<Rightarrow> string" where
  "store_path s = cs_path s"

text \<open>A reload that fails keeps the configuration and returns the error.\<close>

definition store_reload ::
    "toml_codec \<Rightarrow> messages \<Rightarrow> io_faults \<Rightarrow> string option \<Rightarrow> config_store
     \<Rightarrow> (config_error + unit) \<times> config_store" where
  "store_reload tc ms io file s =
     (case load_from tc ms io (cs_path s) file of
        Inl e \<Rightarrow> (Inl e, s)
      | Inr c \<Rightarrow> (Inr (), s\<lparr>cs_config := c\<rparr>))"

end
