(* ===== verification/ConfigFileProps.thy ===== *)
theory ConfigFileProps
  imports ConfigFile BackendState
begin

text \<open>
  What the configuration file promises: a saved configuration loads as itself, rewriting one part
  keeps the others, the old flat layout is read with nothing lost, a validated profile starts the
  proxy with the backend it names; and where these promises end.
\<close>

section \<open>The codec\<close>

definition codec_good :: "toml_codec \<Rightarrow> bool" where
  "codec_good tc \<longleftrightarrow> (\<forall>t. codec_ok tc t)"

text \<open>A codec for finitely many documents: the n-th is written as n+1 letters.\<close>

fun doc_index :: "toml \<Rightarrow> toml list \<Rightarrow> nat option" where
  "doc_index t [] = None"
| "doc_index t (u # us) = (if t = u then Some 0 else map_option Suc (doc_index t us))"

definition docs_codec :: "toml list \<Rightarrow> toml_codec" where
  "docs_codec ts =
     \<lparr>tc_parse = (\<lambda>s. if s = [] then Some (TTable [])
                     else if length s \<le> length ts then Some (toml_sorted (ts ! (length s - 1))) else None),
      tc_print = (\<lambda>t. map_option (\<lambda>i. replicate (Suc i) (CHR ''x'')) (doc_index t ts))\<rparr>"

lemma doc_index_nth: "doc_index t ts = Some i \<Longrightarrow> i < length ts \<and> ts ! i = t"
  by (induction ts arbitrary: i) (auto split: if_splits)

lemma docs_codec_good [simp]: "codec_good (docs_codec ts)"
  by (auto simp: codec_good_def codec_ok_def docs_codec_def dest!: doc_index_nth)

section \<open>Saving and loading\<close>

lemma first_fault_Nil [simp]: "first_fault p [] = None"
  by (simp add: first_fault_def List.map_filter_simps)

lemma first_fault_Cons [simp]:
  "first_fault p (x # xs) = (case x of Some e \<Rightarrow> Some (ReadError p e) | None \<Rightarrow> first_fault p xs)"
  by (simp add: first_fault_def List.map_filter_simps split: option.splits)

lemma no_faults_simps [simp]:
  "f_dir no_faults = None" "f_open no_faults = None" "f_lock no_faults = None" "f_read no_faults = None"
  "f_seek no_faults = None" "f_trunc no_faults = None" "f_write no_faults = None" "f_copy no_faults = None"
  by (simp_all add: no_faults_def)

text \<open>A document of the new layout is not migrated.\<close>

lemma written_has_claude:
  "toml_of_config c = Some t \<Longrightarrow> \<exists>t'. toml_sorted t = TTable t' \<and> map_of t' ''claude'' \<noteq> None"
  by (auto simp: toml_of_config_def bind_eq_Some_conv sorted_entries_def)

lemma written_not_migrated:
  assumes "codec_good tc" "config_to_str tc c = Some s"
  shows "migrate_config_content tc s = s" "config_from_str tc s = Some (canon_config c)"
proof -
  obtain t where t: "toml_of_config c = Some t" "tc_print tc t = Some s"
    using assms(2) by (auto simp: config_to_str_def bind_eq_Some_conv)
  then have p: "tc_parse tc s = Some (toml_sorted t)"
    using assms(1) by (auto simp: codec_good_def codec_ok_def)
  show "migrate_config_content tc s = s"
    using written_has_claude[OF t(1)] p by (auto simp: migrate_config_content_def migrate_toml_value_def)
  show "config_from_str tc s = Some (canon_config c)"
    using config_read[OF t(1)] p by (simp add: config_from_str_def)
qed

lemma load_written:
  assumes "codec_good tc" "config_to_str tc c = Some s"
  shows "load_from tc ms no_faults path (Some s) = Inr (canon_config c)"
  by (simp add: load_from_def written_not_migrated[OF assms])

lemma write_file_ok: "write_file path io s = (Inr (), file') \<Longrightarrow> file' = Some s"
  by (auto simp: write_file_def split: option.splits prod.splits)

lemma save_config_ok:
  "save_config tc ms io path c file = (Inr (), file') \<Longrightarrow> \<exists>s. config_to_str tc c = Some s \<and> file' = Some s"
  by (auto simp: save_config_def split: option.splits dest: write_file_ok)

theorem save_then_load:
  assumes "codec_good tc" "save_config tc ms io path c file = (Inr (), file')"
  shows "load_from tc ms no_faults path file' = Inr (canon_config c)"
  using save_config_ok[OF assms(2)] load_written[OF assms(1)] by auto

lemma str_trim_Nil [simp]: "str_trim [] = []"
  by (simp add: str_trim_def)

lemma rewrite_config_ok:
  assumes "rewrite_config tc ms io path f file = (Inr (), file')"
    and "load_from tc ms no_faults path file = Inr c" "\<forall>raw. file = Some raw \<longrightarrow> str_trim raw \<noteq> []"
  shows "\<exists>s. config_to_str tc (f c) = Some s \<and> file' = Some s"
  using assms
  by (cases "file")
     (auto simp: rewrite_config_def load_from_def Let_def split: option.splits if_splits dest: write_file_ok)

text \<open>Saving one profile changes that profile of the file and nothing else: the other profile, the proxy, the
  web interface, the terminal and the log settings are read back as they were.\<close>

theorem save_profile_frame:
  assumes "codec_good tc" "load_from tc ms no_faults path file = Inr c"
    and "\<forall>raw. file = Some raw \<longrightarrow> str_trim raw \<noteq> []"
    and "save_profile tc ms io path m p file = (Inr (), file')"
  shows "load_from tc ms no_faults path file' = Inr (canon_config (profile_update m (\<lambda>_. p) c))"
  using rewrite_config_ok[OF assms(4)[unfolded save_profile_def] assms(2,3)] load_written[OF assms(1)] by auto

theorem save_settings_frame:
  assumes "codec_good tc" "load_from tc ms no_faults path file = Inr c"
    and "\<forall>raw. file = Some raw \<longrightarrow> str_trim raw \<noteq> []"
    and "save_claude_settings tc ms io path settings file = (Inr (), file')"
  shows "load_from tc ms no_faults path file'
       = Inr (canon_config (c\<lparr>claude := (claude c)\<lparr>claude_settings := settings\<rparr>\<rparr>))"
  using rewrite_config_ok[OF assms(4)[unfolded save_claude_settings_def] assms(2,3)] load_written[OF assms(1)] by auto

section \<open>Failing writes\<close>

definition empty_config :: config where
  "empty_config = default_config\<lparr>claude := default_profile\<rparr>"

lemma empty_document: "config_of_toml (TTable []) = Some empty_config"
  by (simp add: config_of_toml_def field_or_def empty_config_def default_config_def)

text \<open>An empty file is not a missing one: it loads as a configuration without backends, which does not validate,
  while saving the settings into it starts from the default configuration.\<close>

theorem blank_file_has_no_backends:
  assumes "tc_parse tc [] = Some (TTable [])"
  shows "load_from tc ms no_faults path (Some []) = Inr empty_config \<and>
         validate empty_config = Inl (ValidationError ''No backends configured for claude profile'') \<and>
         validate default_config = Inr ()"
proof (intro conjI)
  have "migrate_config_content tc [] = []"
    using assms by (simp add: migrate_config_content_def migrate_toml_value_def)
  then show "load_from tc ms no_faults path (Some []) = Inr empty_config"
    using assms by (simp add: load_from_def config_from_str_def empty_document)
  show "validate empty_config = Inl (ValidationError ''No backends configured for claude profile'')"
    by (simp add: validate_def validate_for_def profile_def empty_config_def default_profile_def profile_key_def)
  show "validate default_config = Inr ()" by code_simp
qed

section \<open>Migration\<close>

lemma lookup_carry: "map_of (carry k old sec) k' = (if k = k' \<and> map_of old k \<noteq> None then map_of old k else map_of sec k')"
  by (auto simp: carry_def split: option.splits)

text \<open>\<open>save_config\<close> is not atomic: the file is emptied before the lock is asked for, so a save that fails there
  leaves a configuration that loads without any backend, and the proxy cannot start from it.\<close>

theorem failed_save_empties_file:
  assumes "config_to_str tc c = Some s" "f_dir io = None" "f_open io = None" "f_lock io = Some e"
    and "tc_parse tc [] = Some (TTable [])"
  shows "\<exists>file'. save_config tc ms io path c file = (Inl (ReadError path e), file')
           \<and> load_from tc ms no_faults path file' = Inr empty_config
           \<and> from_config now (profile m empty_config) = Inl ErrNoBackendsConfigured"
proof -
  have "save_config tc ms io path c file = (Inl (ReadError path e), Some [])"
    using assms by (simp add: save_config_def)
  moreover have "load_from tc ms no_faults path (Some []) = Inr empty_config"
    using blank_file_has_no_backends[OF assms(5)] by simp
  moreover have "from_config now (profile m empty_config) = Inl ErrNoBackendsConfigured"
    by (cases m) (simp_all add: from_config_def profile_def empty_config_def default_config_def default_profile_def)
  ultimately show ?thesis by blast
qed

text \<open>C36: the section made by the migration reads exactly as the old root did, every other key of the root stays, and
  a second migration does nothing.\<close>

theorem migration_lossless:
  assumes "migrate_toml_value v = (v', True)"
  shows "\<exists>t t' sec. v = TTable t \<and> v' = TTable t' \<and> map_of t' ''claude'' = Some sec
           \<and> profile_of_toml sec = profile_of_toml v
           \<and> (\<forall>k. k \<notin> {''claude'', ''defaults'', ''backends'', ''agents'', ''claude_settings''} \<longrightarrow> map_of t' k = map_of t k)
           \<and> migrate_toml_value v' = (v', False)"
proof -
  obtain t where t: "v = TTable t" "map_of t ''claude'' = None"
    using assms by (auto simp: migrate_toml_value_def split: toml.splits if_splits)
  define sec where "sec = carry ''claude_settings'' t (carry ''agents'' t (carry ''backends'' t (carry ''defaults'' t [])))"
  define rest where "rest = AList.delete ''claude_settings'' (AList.delete ''agents''
                         (AList.delete ''defaults'' (AList.delete ''backends'' t)))"
  have v': "v' = TTable (AList.update ''claude'' (TTable sec) rest)"
    using assms t by (auto simp: migrate_toml_value_def Let_def sec_def rest_def split: if_splits)
  have "map_of sec k = map_of t k" if "k \<in> {''defaults'', ''backends'', ''agents'', ''claude_settings''}" for k
    using that by (elim insertE emptyE) (simp_all add: sec_def lookup_carry)
  then have "profile_of_toml (TTable sec) = profile_of_toml v"
    by (simp add: profile_of_toml_def t field_or_def)
  moreover have "\<forall>k. k \<notin> {''claude'', ''defaults'', ''backends'', ''agents'', ''claude_settings''} \<longrightarrow>
      map_of (AList.update ''claude'' (TTable sec) rest) k = map_of t k"
    by (simp add: rest_def)
  moreover have "migrate_toml_value v' = (v', False)"
    by (simp add: v' migrate_toml_value_def)
  ultimately show ?thesis using t v' by (intro exI[of _ t] exI[of _ "AList.update ''claude'' (TTable sec) rest"] exI[of _ "TTable sec"]) simp
qed

section \<open>Validation\<close>

lemma validate_agents_ok:
  "validate_agents key p = Inr () \<longleftrightarrow>
     (\<forall>a. agents p = Some a \<longrightarrow> has_backend (teammate_backend_name a) p
        \<and> (\<forall>sb. subagent_backend_name a = Some sb \<longrightarrow> has_backend sb p))"
  by (auto simp: validate_agents_def Let_def has_backend_def split: option.splits)

lemma validate_for_ok:
  "validate_for m c = Inr () \<longleftrightarrow>
     (let p = profile m c in
      if backends p = [] then m = ModeCopilot
      else (\<exists>b. List.find (\<lambda>b. name b = active (defaults p)) (backends p) = Some b \<and> is_configured b)
           \<and> validate_agents (profile_key m) p = Inr ())"
  by (auto simp: validate_for_def Let_def split: option.splits if_splits)

text \<open>A profile that validates and has backends starts the proxy: the backend state is built, with the active
  backend the profile names, and that backend has its credential.\<close>

theorem validated_profile_starts:
  assumes "validate_for m c = Inr ()" "backends (profile m c) \<noteq> []" "active (defaults (profile m c)) \<noteq> []"
  shows "\<exists>s b. from_config now (profile m c) = Inr s \<and> active_backend s = active (defaults (profile m c))
            \<and> get_active_backend_config s = Inr b \<and> is_configured b"
proof -
  obtain b where b: "List.find (\<lambda>b. name b = active (defaults (profile m c))) (backends (profile m c)) = Some b"
      "is_configured b"
    using assms(1,2) by (auto simp: validate_for_ok Let_def)
  then have "has_backend (active (defaults (profile m c))) (profile m c)"
    by (auto simp: has_backend_def find_Some_iff)
  then show ?thesis using assms b
    by (simp add: from_config_def Let_def get_active_backend_config_def find_backend_def)
qed

section \<open>Concrete instances\<close>

lemma default_config_written: "\<exists>t. toml_of_config default_config = Some t"
  by (simp add: toml_of_config_def toml_of_nat_def toml_of_debug_def toml_of_rotation_def toml_of_profile_def
      toml_of_defaults_def default_config_def default_debug_logging_def default_rotation_def default_defaults_def
      default_profile_def)

definition demo_doc :: toml where
  "demo_doc = the (toml_of_config default_config)"

definition demo_tc :: toml_codec where
  "demo_tc = docs_codec [demo_doc]"

definition demo_messages :: messages where
  "demo_messages = \<lparr>m_parse = (\<lambda>_. ''bad document''), m_print = (\<lambda>_. ''bad configuration'')\<rparr>"

lemma demo_tc_good: "codec_good demo_tc"
  by (simp add: demo_tc_def)

lemma demo_written: "config_to_str demo_tc default_config = Some ''x''"
  using default_config_written by (auto simp: config_to_str_def demo_tc_def demo_doc_def docs_codec_def)

lemma default_config_canon [simp]: "canon_config default_config = default_config"
  by (simp add: canon_config_def canon_profile_def canon_settings_def default_config_def default_profile_def)

lemma demo_save: "save_config demo_tc demo_messages no_faults ''c'' default_config None = (Inr (), Some ''x'')"
  by (simp add: save_config_def demo_written write_file_def)

theorem save_then_load_witness:
  "load_from demo_tc demo_messages no_faults ''c'' (Some ''x'') = Inr default_config"
  using save_then_load[OF demo_tc_good demo_save] by simp

lemma demo_profile_save:
  "save_profile demo_tc demo_messages no_faults ''c'' ModeCopilot default_profile (Some ''x'') = (Inr (), Some ''x'')"
proof -
  have "profile_update ModeCopilot (\<lambda>_. default_profile) default_config = default_config"
    by (simp add: profile_update_def default_config_def)
  then show ?thesis
    using written_not_migrated[OF demo_tc_good demo_written] demo_written
    by (simp add: save_profile_def rewrite_config_def write_file_def str_trim_all_graphic is_graphic_def)
qed

theorem save_profile_frame_witness:
  "load_from demo_tc demo_messages no_faults ''c'' (Some ''x'')
   = Inr (canon_config (profile_update ModeCopilot (\<lambda>_. default_profile) default_config))"
  using save_profile_frame[OF demo_tc_good save_then_load_witness _ demo_profile_save]
  by (simp add: str_trim_all_graphic is_graphic_def)

theorem failed_save_empties_file_witness:
  "\<exists>file'. save_config demo_tc demo_messages (no_faults\<lparr>f_lock := Some ''busy''\<rparr>) ''c'' default_config (Some ''old'')
     = (Inl (ReadError ''c'' ''busy''), file') \<and> load_from demo_tc demo_messages no_faults ''c'' file' = Inr empty_config"
  using failed_save_empties_file[OF demo_written, of "no_faults\<lparr>f_lock := Some ''busy''\<rparr>" "''busy''" demo_messages "''c''"
      "Some ''old''" 0 ModeClaude]
  by (auto simp: demo_tc_def docs_codec_def)

theorem blank_file_has_no_backends_witness:
  "load_from demo_tc demo_messages no_faults ''c'' (Some []) = Inr empty_config"
  using blank_file_has_no_backends[of demo_tc demo_messages "''c''"] by (simp add: demo_tc_def docs_codec_def)

definition old_doc :: toml where
  "old_doc = TTable [(''backends'', TArr []), (''defaults'', TTable [(''active'', TStr ''x'')]), (''proxy'', TTable [])]"

lemma old_doc_migrates:
  "migrate_toml_value old_doc = (TTable [(''proxy'', TTable []),
     (''claude'', TTable [(''defaults'', TTable [(''active'', TStr ''x'')]), (''backends'', TArr [])])], True)"
  by (simp add: old_doc_def migrate_toml_value_def carry_def Let_def)

theorem migration_lossless_witness:
  "\<exists>sec. map_of [(''proxy'', TTable []),
     (''claude'', TTable [(''defaults'', TTable [(''active'', TStr ''x'')]), (''backends'', TArr [])])] ''claude'' = Some sec
     \<and> profile_of_toml sec = profile_of_toml old_doc"
  using migration_lossless[OF old_doc_migrates] by auto

theorem validated_profile_starts_witness:
  "\<exists>s b. from_config 5 (claude default_config) = Inr s \<and> active_backend s = ''claude''
      \<and> get_active_backend_config s = Inr b \<and> is_configured b"
proof -
  have "validate_for ModeClaude default_config = Inr ()" by code_simp
  then show ?thesis using validated_profile_starts[of ModeClaude default_config 5]
    by (simp add: profile_def default_config_def default_defaults_def)
qed

text \<open>C13: a configuration that can be written reads back as itself: no field is lost, renamed or defaulted, in the
  document or through the text of the file.\<close>

theorem config_roundtrip:
  assumes "toml_of_config c = Some t" "codec_ok tc t"
  shows "config_of_toml (toml_sorted t) = Some (canon_config c)
         \<and> (\<forall>s. config_to_str tc c = Some s \<longrightarrow> config_from_str tc s = Some (canon_config c))"
  using assms config_read[OF assms(1)] by (auto simp: config_to_str_def config_from_str_def codec_ok_def)

theorem config_roundtrip_witness: "config_of_toml (toml_sorted demo_doc) = Some default_config"
proof -
  have "toml_of_config default_config = Some demo_doc" using default_config_written by (auto simp: demo_doc_def)
  moreover have "codec_ok demo_tc demo_doc" using demo_tc_good by (simp add: codec_good_def)
  ultimately show ?thesis using config_roundtrip[of default_config demo_doc demo_tc] by simp
qed

end
