(* ===== verification/WebApi.thy ===== *)
theory WebApi
  imports ConfigFileProps Models
begin

text \<open>
  The REST interface of the web configuration page (\<open>src/proxy/webui/api.rs\<close>): what the browser is shown
  of a profile, how its edits come back, and the handlers, with the file they write, the store they
  reload and the running backend state they update.  The extraction of the query and of the JSON body
  belongs to \<open>axum\<close> and \<open>serde\<close>: a handler receives them parsed, and a body it answers is the data
  that is then printed.
\<close>

section \<open>The data shown\<close>

record backend_dto =
  bd_name :: string
  bd_display_name :: string
  bd_base_url :: string
  bd_auth_type :: string
  bd_api_key_set :: bool
  bd_api_key_input :: "string option"
  bd_thinking_compat :: "bool option"
  bd_thinking_budget_tokens :: "u32 option"
  bd_model_opus :: "string option"
  bd_model_opus_max_effort :: "string option"
  bd_model_sonnet :: "string option"
  bd_model_sonnet_max_effort :: "string option"
  bd_model_haiku :: "string option"
  bd_model_haiku_max_effort :: "string option"
  bd_pricing :: "backend_pricing option"
  bd_models_path :: "string option"
  bd_wire_api :: "string option"
  bd_strip_request_prefix :: "string option"

record config_dto =
  dt_defaults :: defaults_config
  dt_backends :: "backend_dto list"
  dt_agents :: "agents_config option"
  dt_profile :: "string option"

record profiles_info =
  pi_current :: string
  pi_available :: "string list"

datatype web_body =
    BodyNone
  | BodyText string
  | BodyPage string
  | BodyConfig config_dto
  | BodyBackend backend_dto
  | BodyProfiles profiles_info

record web_response =
  wr_status :: nat
  wr_headers :: "(string \<times> string) list"
  wr_body :: web_body

definition json_reply :: "web_body \<Rightarrow> web_response" where
  "json_reply b = \<lparr>wr_status = 200, wr_headers = [], wr_body = b\<rparr>"

definition refuse :: "nat \<Rightarrow> string \<Rightarrow> web_response" where
  "refuse status message = \<lparr>wr_status = status, wr_headers = [], wr_body = BodyText message\<rparr>"

definition resolve_profile :: "string option \<Rightarrow> cli_mode \<Rightarrow> string + cli_mode" where
  "resolve_profile q m =
     (case q of
        None \<Rightarrow> Inr m
      | Some p \<Rightarrow>
          if p = [] then Inr m else if p = ''claude'' then Inr ModeClaude
          else if p = ''copilot'' then Inr ModeCopilot
          else Inl (''Invalid profile '' @ quoted p @ ''. Must be '' @ quoted ''claude'' @ '' or '' @ quoted ''copilot'' @ ''.''))"

section \<open>Conversions\<close>

definition key_set :: "backend \<Rightarrow> bool" where
  "key_set b = (case api_key b of Some k \<Rightarrow> k \<noteq> [] | None \<Rightarrow> False)"

definition backend_to_dto :: "backend \<Rightarrow> backend_dto" where
  "backend_to_dto b =
     \<lparr>bd_name = name b, bd_display_name = display_name b, bd_base_url = base_url b,
      bd_auth_type = auth_type_str b, bd_api_key_set = key_set b, bd_api_key_input = None,
      bd_thinking_compat = thinking_compat b, bd_thinking_budget_tokens = thinking_budget_tokens b,
      bd_model_opus = model_opus b, bd_model_opus_max_effort = model_opus_max_effort b,
      bd_model_sonnet = model_sonnet b, bd_model_sonnet_max_effort = model_sonnet_max_effort b,
      bd_model_haiku = model_haiku b, bd_model_haiku_max_effort = model_haiku_max_effort b,
      bd_pricing = pricing b, bd_models_path = models_path b, bd_wire_api = wire_api b,
      bd_strip_request_prefix = strip_request_prefix b\<rparr>"

definition profile_to_dto :: "cli_profile \<Rightarrow> string \<Rightarrow> config_dto" where
  "profile_to_dto p key =
     \<lparr>dt_defaults = defaults p, dt_backends = map backend_to_dto (backends p), dt_agents = agents p,
      dt_profile = Some key\<rparr>"

definition dto_key :: "backend_dto \<Rightarrow> string option \<Rightarrow> string option" where
  "dto_key d existing =
     (case bd_api_key_input d of
        Some k \<Rightarrow> if k \<noteq> [] then Some k else None
      | None \<Rightarrow> existing)"

definition dto_to_backend :: "backend_dto \<Rightarrow> string option \<Rightarrow> backend" where
  "dto_to_backend d existing =
     \<lparr>name = bd_name d, display_name = bd_display_name d, base_url = bd_base_url d,
      auth_type_str = bd_auth_type d, api_key = dto_key d existing, pricing = bd_pricing d,
      thinking_compat = bd_thinking_compat d, thinking_budget_tokens = bd_thinking_budget_tokens d,
      model_opus = bd_model_opus d, model_opus_max_effort = bd_model_opus_max_effort d,
      model_sonnet = bd_model_sonnet d, model_sonnet_max_effort = bd_model_sonnet_max_effort d,
      model_haiku = bd_model_haiku d, model_haiku_max_effort = bd_model_haiku_max_effort d,
      models_path = bd_models_path d, wire_api = bd_wire_api d,
      strip_request_prefix = bd_strip_request_prefix d\<rparr>"

definition self_heal_active :: "cli_profile \<Rightarrow> cli_profile" where
  "self_heal_active p =
     (if backends p \<noteq> [] \<and> \<not> has_backend (active (defaults p)) p
      then p\<lparr>defaults := (defaults p)\<lparr>active := name (backends p ! 0)\<rparr>\<rparr> else p)"

definition named_backend :: "string \<Rightarrow> cli_profile \<Rightarrow> backend option" where
  "named_backend n p = List.find (\<lambda>b. name b = n) (backends p)"

section \<open>The state of the web interface\<close>

text \<open>The configuration file's content is part of the world; \<open>ww_models\<close> is the proxy's cache of model lists,
  which a switch clears.\<close>

record web_world =
  ww_store :: config_store
  ww_state :: backend_state
  ww_models :: models_cache
  ww_file :: "string option"

record web_env =
  we_mode :: cli_mode
  we_codec :: toml_codec
  we_messages :: messages
  we_save_io :: io_faults
  we_load_io :: io_faults
  we_now :: nat

definition not_in_profile :: "string \<Rightarrow> cli_mode \<Rightarrow> string" where
  "not_in_profile n m = ''Backend '' @ quoted n @ '' not found in '' @ profile_key m @ '' profile''"

text \<open>Save, then reload the store; a reload that fails is ignored.\<close>

definition persist :: "web_env \<Rightarrow> config \<Rightarrow> web_world \<Rightarrow> (config_error + unit) \<times> web_world" where
  "persist env c w =
     (case save_config (we_codec env) (we_messages env) (we_save_io env) (store_path (ww_store w)) c (ww_file w) of
        (Inl e, f) \<Rightarrow> (Inl e, w\<lparr>ww_file := f\<rparr>)
      | (Inr _, f) \<Rightarrow>
          (Inr (), w\<lparr>ww_file := f,
                     ww_store := snd (store_reload (we_codec env) (we_messages env) (we_load_io env) f (ww_store w))\<rparr>))"

text \<open>The running state follows only when its own profile was edited.\<close>

definition hot_update :: "web_env \<Rightarrow> cli_mode \<Rightarrow> config \<Rightarrow> web_world \<Rightarrow> (backend_error + unit) \<times> web_world" where
  "hot_update env target c w =
     (if target \<noteq> we_mode env then (Inr (), w)
      else (case update_config (we_now env) (profile target c) (ww_state w) of
              Inl e \<Rightarrow> (Inl e, w)
            | Inr s \<Rightarrow> (Inr (), w\<lparr>ww_state := s\<rparr>)))"

text \<open>The common end of \<open>put_config\<close> and \<open>post_copy_backend\<close>: validate, save, reload, update, answer.\<close>

definition commit_config :: "web_env \<Rightarrow> cli_mode \<Rightarrow> config \<Rightarrow> web_world \<Rightarrow> web_response \<times> web_world" where
  "commit_config env target c w =
     (case validate_for target c of
        Inl e \<Rightarrow> (refuse 400 (show_config_error e), w)
      | Inr _ \<Rightarrow>
          (case persist env c w of
             (Inl e, w1) \<Rightarrow> (refuse 500 (show_config_error e), w1)
           | (Inr _, w1) \<Rightarrow>
               (case hot_update env target c w1 of
                  (Inl e, w2) \<Rightarrow> (refuse 500 (''Config saved but runtime update failed: '' @ show_backend_error e), w2)
                | (Inr _, w2) \<Rightarrow> (json_reply (BodyConfig (profile_to_dto (profile target c) (profile_key target))), w2))))"

section \<open>Handlers\<close>

definition get_profiles :: "web_env \<Rightarrow> web_response" where
  "get_profiles env = json_reply (BodyProfiles
     \<lparr>pi_current = profile_key (we_mode env), pi_available = [''claude'', ''copilot'']\<rparr>)"

definition get_config :: "web_env \<Rightarrow> string option \<Rightarrow> web_world \<Rightarrow> web_response" where
  "get_config env q w =
     (case resolve_profile q (we_mode env) of
        Inl e \<Rightarrow> refuse 400 e
      | Inr target \<Rightarrow>
          json_reply (BodyConfig (profile_to_dto (profile target (store_get (ww_store w))) (profile_key target))))"

definition edited_backends :: "config_dto \<Rightarrow> cli_profile \<Rightarrow> backend list" where
  "edited_backends d old =
     map (\<lambda>b. dto_to_backend b (Option.bind (named_backend (bd_name b) old) api_key)) (dt_backends d)"

definition edited_profile :: "config_dto \<Rightarrow> cli_profile \<Rightarrow> cli_profile" where
  "edited_profile d old =
     self_heal_active (old\<lparr>defaults := dt_defaults d, backends := edited_backends d old, agents := dt_agents d\<rparr>)"

definition put_config :: "web_env \<Rightarrow> string option \<Rightarrow> config_dto \<Rightarrow> web_world \<Rightarrow> web_response \<times> web_world" where
  "put_config env q d w =
     (case resolve_profile q (we_mode env) of
        Inl e \<Rightarrow> (refuse 400 e, w)
      | Inr target \<Rightarrow>
          commit_config env target (profile_update target (edited_profile d) (store_get (ww_store w))) w)"

definition post_active_backend ::
    "web_env \<Rightarrow> string option \<Rightarrow> string \<Rightarrow> web_world \<Rightarrow> web_response \<times> web_world" where
  "post_active_backend env q n w =
     (case resolve_profile q (we_mode env) of
        Inl e \<Rightarrow> (refuse 400 e, w)
      | Inr target \<Rightarrow>
          (case (if target = we_mode env then switch_backend (we_now env) n (ww_state w) else Inr (ww_state w, False)) of
             Inl e \<Rightarrow> (refuse 400 (show_backend_error e), w)
           | Inr (s, cleared) \<Rightarrow>
               let w1 = w\<lparr>ww_state := s, ww_models := (if cleared then invalidate_cache (ww_models w) else ww_models w)\<rparr>;
                   c = store_get (ww_store w1)
               in if \<not> has_backend n (profile target c) then (refuse 400 (not_in_profile n target), w1)
                  else
                    (case persist env (profile_update target (\<lambda>p. p\<lparr>defaults := (defaults p)\<lparr>active := n\<rparr>\<rparr>) c) w1 of
                       (Inl e, w2) \<Rightarrow> (refuse 500 (show_config_error e), w2)
                     | (Inr _, w2) \<Rightarrow> (json_reply BodyNone, w2))))"

definition get_backend :: "web_env \<Rightarrow> string option \<Rightarrow> string \<Rightarrow> web_world \<Rightarrow> web_response" where
  "get_backend env q n w =
     (case resolve_profile q (we_mode env) of
        Inl e \<Rightarrow> refuse 400 e
      | Inr target \<Rightarrow>
          (case named_backend n (profile target (store_get (ww_store w))) of
             Some b \<Rightarrow> json_reply (BodyBackend (backend_to_dto b))
           | None \<Rightarrow> refuse 404 (not_in_profile n target)))"

record copy_request =
  cr_target_profile :: string
  cr_new_name :: string
  cr_new_display_name :: "string option"

definition copy_target :: "copy_request \<Rightarrow> string + cli_mode" where
  "copy_target rq =
     (if cr_target_profile rq = ''claude'' then Inr ModeClaude
      else if cr_target_profile rq = ''copilot'' then Inr ModeCopilot
      else Inl (''Invalid target_profile '' @ quoted (cr_target_profile rq) @ ''. Must be '' @ quoted ''claude''
                @ '' or '' @ quoted ''copilot'' @ ''.''))"

definition copied_backend :: "copy_request \<Rightarrow> backend \<Rightarrow> backend" where
  "copied_backend rq b =
     (let b' = b\<lparr>name := str_trim (cr_new_name rq)\<rparr> in
      case cr_new_display_name rq of
        Some dn \<Rightarrow> if str_trim dn \<noteq> [] then b'\<lparr>display_name := str_trim dn\<rparr> else b'
      | None \<Rightarrow> b')"

definition add_backend :: "backend \<Rightarrow> cli_profile \<Rightarrow> cli_profile" where
  "add_backend b p = self_heal_active (p\<lparr>backends := backends p @ [b]\<rparr>)"

definition post_copy_backend ::
    "web_env \<Rightarrow> string option \<Rightarrow> string \<Rightarrow> copy_request \<Rightarrow> web_world \<Rightarrow> web_response \<times> web_world" where
  "post_copy_backend env q n rq w =
     (case resolve_profile q (we_mode env) of
        Inl e \<Rightarrow> (refuse 400 e, w)
      | Inr src \<Rightarrow>
     (case copy_target rq of
        Inl e \<Rightarrow> (refuse 400 e, w)
      | Inr target \<Rightarrow>
          let nn = str_trim (cr_new_name rq); c = store_get (ww_store w) in
          if nn = [] then (refuse 400 ''new_name must not be empty'', w)
          else
            (case named_backend n (profile src c) of
               None \<Rightarrow> (refuse 404 (not_in_profile n src), w)
             | Some b \<Rightarrow>
                 if has_backend nn (profile target c)
                 then (refuse 409 (''Backend '' @ quoted nn @ '' already exists in '' @ profile_key target @ '' profile''), w)
                 else commit_config env target (profile_update target (add_backend (copied_backend rq b)) c) w)))"

end
