(* ===== verification/WebApiProps.thy ===== *)
theory WebApiProps
  imports WebApi
begin

text \<open>
  The web interface: what the browser never sees, what an edit keeps, what a success means on disk, in
  the store and in the running proxy, and the invariant of the backend state under every sequence of
  edits.
\<close>

section \<open>Keys stay on the server\<close>

text \<open>A configuration as the browser may know it: for each backend, only whether it has a key.\<close>

definition mask_backend :: "backend \<Rightarrow> backend" where
  "mask_backend b = b\<lparr>api_key := (if key_set b then Some ''*'' else None)\<rparr>"

definition mask_profile :: "cli_profile \<Rightarrow> cli_profile" where
  "mask_profile p = p\<lparr>backends := map mask_backend (backends p)\<rparr>"

lemma dto_mask [simp]: "backend_to_dto (mask_backend b) = backend_to_dto b"
  by (simp add: backend_to_dto_def mask_backend_def key_set_def)

lemma profile_dto_mask [simp]: "profile_to_dto (mask_profile p) k = profile_to_dto p k"
  by (simp add: profile_to_dto_def mask_profile_def)

lemma named_mask: "named_backend n (mask_profile p) = map_option mask_backend (named_backend n p)"
proof -
  have "List.find (\<lambda>b. name b = n) (map mask_backend bs) = map_option mask_backend (List.find (\<lambda>b. name b = n) bs)" for bs
    by (induction bs) (auto simp: mask_backend_def)
  then show ?thesis by (simp add: named_backend_def mask_profile_def)
qed

lemma get_config_masked:
  "get_config env q w = (case resolve_profile q (we_mode env) of Inl e \<Rightarrow> refuse 400 e
     | Inr m \<Rightarrow> json_reply (BodyConfig (profile_to_dto (mask_profile (profile m (store_get (ww_store w)))) (profile_key m))))"
  by (simp add: get_config_def split: sum.splits)

lemma get_backend_masked:
  "get_backend env q n w = (case resolve_profile q (we_mode env) of Inl e \<Rightarrow> refuse 400 e
     | Inr m \<Rightarrow> (case named_backend n (mask_profile (profile m (store_get (ww_store w)))) of
         Some b \<Rightarrow> json_reply (BodyBackend (backend_to_dto b)) | None \<Rightarrow> refuse 404 (not_in_profile n m)))"
  by (auto simp: get_backend_def named_mask split: sum.splits option.splits)

text \<open>C18: two servers whose configurations differ only in the values of their keys answer every query alike.\<close>

theorem keys_never_shown:
  assumes "\<forall>m. mask_profile (profile m (store_get (ww_store w1))) = mask_profile (profile m (store_get (ww_store w2)))"
  shows "get_config env q w1 = get_config env q w2 \<and> get_backend env q n w1 = get_backend env q n w2"
  unfolding get_config_masked get_backend_masked using assms by (simp split: sum.splits)

section \<open>Edits\<close>

lemma profile_update_same [simp]: "profile m (profile_update m f c) = f (profile m c)"
  by (cases m) (simp_all add: profile_def profile_update_def)

lemma profile_update_other: "m' \<noteq> m \<Longrightarrow> profile m' (profile_update m f c) = profile m' c"
  by (cases m; cases m') (simp_all add: profile_def profile_update_def)

lemma profile_canon: "profile m (canon_config c) = canon_profile (profile m c)"
  by (cases m) (simp_all add: profile_def canon_config_def)

lemma has_backend_healed [simp]: "has_backend n (self_heal_active p) = has_backend n p"
  by (simp add: self_heal_active_def has_backend_def)

lemma backends_healed [simp]: "backends (self_heal_active p) = backends p"
  by (simp add: self_heal_active_def)

lemma healed_active: "backends p \<noteq> [] \<Longrightarrow> has_backend (active (defaults (self_heal_active p))) p"
  by (auto simp: self_heal_active_def has_backend_def)

lemma healed_id: "backends p = [] \<or> has_backend (active (defaults p)) p \<Longrightarrow> self_heal_active p = p"
  by (auto simp: self_heal_active_def)

lemma find_distinct_names:
  "distinct (map name bs) \<Longrightarrow> b \<in> set bs \<Longrightarrow> List.find (\<lambda>x. name x = name b) bs = Some b"
  by (induction bs) (auto simp: image_iff)

lemma dto_round: "dto_to_backend (backend_to_dto b) (api_key b) = b"
  by (simp add: dto_to_backend_def backend_to_dto_def dto_key_def)

text \<open>Sending back what was shown changes nothing, keys included.\<close>

theorem unchanged_edit_is_identity:
  assumes "distinct (map name (backends p))" "backends p = [] \<or> has_backend (active (defaults p)) p"
  shows "edited_profile (profile_to_dto p key) p = p"
proof -
  have "edited_backends (profile_to_dto p key) p = backends p"
    unfolding edited_backends_def profile_to_dto_def
    by (simp add: map_idI dto_round find_distinct_names[OF assms(1)] named_backend_def
        backend_to_dto_def[THEN arg_cong[where f = bd_name]])
  then show ?thesis using assms(2) healed_id[of p]
    by (simp add: edited_profile_def profile_to_dto_def)
qed

text \<open>Without a new key, a backend keeps the key stored under its name; renamed, it loses it, whatever the browser
  was shown.\<close>

theorem rename_drops_key:
  assumes "bd_api_key_input d = None" "\<not> has_backend (bd_name d) old"
  shows "api_key (dto_to_backend d (Option.bind (named_backend (bd_name d) old) api_key)) = None"
proof -
  have "named_backend (bd_name d) old = None"
    using assms(2) by (auto simp: named_backend_def find_None_iff has_backend_def)
  then show ?thesis using assms(1) by (simp add: dto_to_backend_def dto_key_def)
qed

section \<open>What a success means\<close>

lemma refuse_status [simp]: "wr_status (refuse s m) = s"
  by (simp add: refuse_def)

lemma json_status [simp]: "wr_status (json_reply b) = 200"
  by (simp add: json_reply_def)

lemma persist_ok:
  assumes "codec_good (we_codec env)" "we_load_io env = no_faults" "persist env c w = (Inr u, w')"
  shows "store_get (ww_store w') = canon_config c \<and> store_path (ww_store w') = store_path (ww_store w)
       \<and> load_from (we_codec env) (we_messages env) no_faults (store_path (ww_store w)) (ww_file w') = Inr (canon_config c)
       \<and> ww_state w' = ww_state w \<and> ww_models w' = ww_models w"
proof -
  obtain f where f: "save_config (we_codec env) (we_messages env) (we_save_io env) (store_path (ww_store w)) c (ww_file w) = (Inr (), f)"
    using assms(3) by (auto simp: persist_def split: prod.splits sum.splits)
  note l = save_then_load[OF assms(1) f]
  have l': "load_from (we_codec env) (we_messages env) no_faults (cs_path (ww_store w)) f = Inr (canon_config c)"
    using l by (simp add: store_path_def)
  show ?thesis using assms(3) assms(2) f l'
    by (auto simp: persist_def store_reload_def store_get_def store_path_def)
qed

lemma persist_error: "persist env c w = (Inl e, w') \<Longrightarrow> \<exists>f. w' = w\<lparr>ww_file := f\<rparr>"
  by (auto simp: persist_def split: prod.splits sum.splits)

text \<open>The end state of a successful edit: the file, the store and, for the running profile, the proxy agree.\<close>

definition committed :: "web_env \<Rightarrow> cli_mode \<Rightarrow> config \<Rightarrow> web_world \<Rightarrow> web_world \<Rightarrow> bool" where
  "committed env m c w w' \<longleftrightarrow>
     validate_for m c = Inr () \<and> store_get (ww_store w') = canon_config c
     \<and> load_from (we_codec env) (we_messages env) no_faults (store_path (ww_store w)) (ww_file w') = Inr (canon_config c)
     \<and> ww_models w' = ww_models w
     \<and> (if m = we_mode env
        then cfg (ww_state w') = profile m c \<and> has_backend (active_backend (ww_state w')) (profile m c)
             \<and> (has_backend (active_backend (ww_state w)) (profile m c)
                \<longrightarrow> active_backend (ww_state w') = active_backend (ww_state w))
        else ww_state w' = ww_state w)"

lemma validated_active:
  "validate_for m c = Inr () \<Longrightarrow> backends (profile m c) \<noteq> [] \<Longrightarrow> has_backend (active (defaults (profile m c))) (profile m c)"
  by (auto simp: validate_for_ok Let_def has_backend_def find_Some_iff)

lemma update_config_cases:
  "update_config now p s = Inr s' \<Longrightarrow> backends p \<noteq> [] \<and> cfg s' = p \<and>
     (has_backend (active_backend s) p \<longrightarrow> active_backend s' = active_backend s)"
  by (auto simp: update_config_def Let_def split: if_splits)

lemma commit_ok:
  assumes "codec_good (we_codec env)" "we_load_io env = no_faults"
    and "commit_config env m c w = (r, w')" "wr_status r = 200"
  shows "committed env m c w w' \<and> r = json_reply (BodyConfig (profile_to_dto (profile m c) (profile_key m)))"
proof -
  have v: "validate_for m c = Inr ()"
    using assms(3,4) by (auto simp: commit_config_def split: sum.splits)
  obtain w1 where w1: "persist env c w = (Inr (), w1)"
    using assms(3,4) v by (auto simp: commit_config_def split: prod.splits sum.splits)
  note p = persist_ok[OF assms(1,2) w1]
  show ?thesis
  proof (cases "m = we_mode env")
    case False
    then show ?thesis using assms(3,4) v w1 p by (auto simp: commit_config_def hot_update_def committed_def)
  next
    case True
    then obtain s where s: "update_config (we_now env) (profile m c) (ww_state w) = Inr s"
        "w' = w1\<lparr>ww_state := s\<rparr>" "r = json_reply (BodyConfig (profile_to_dto (profile m c) (profile_key m)))"
      using assms(3,4) v w1 p by (auto simp: commit_config_def hot_update_def split: sum.splits)
    note u = update_config_cases[OF s(1)]
    have "active_ok s" using update_active_ok[OF s(1)] validated_active[OF v] u by simp
    then show ?thesis using s u v p True by (auto simp: committed_def active_ok_def)
  qed
qed


lemma copy_ok:
  assumes "codec_good (we_codec env)" "we_load_io env = no_faults"
    and "post_copy_backend env q n rq w = (r, w')" "wr_status r = 200"
  obtains src m b where "resolve_profile q (we_mode env) = Inr src" "copy_target rq = Inr m"
    "named_backend n (profile src (store_get (ww_store w))) = Some b"
    "\<not> has_backend (str_trim (cr_new_name rq)) (profile m (store_get (ww_store w)))"
    "committed env m (profile_update m (add_backend (copied_backend rq b)) (store_get (ww_store w))) w w'"
proof -
  obtain src m b where o: "resolve_profile q (we_mode env) = Inr src" "copy_target rq = Inr m"
      "named_backend n (profile src (store_get (ww_store w))) = Some b"
      "\<not> has_backend (str_trim (cr_new_name rq)) (profile m (store_get (ww_store w)))"
    and c: "commit_config env m (profile_update m (add_backend (copied_backend rq b)) (store_get (ww_store w))) w = (r, w')"
    using assms(3,4) by (auto simp: post_copy_backend_def Let_def split: sum.splits option.splits if_splits)
  from commit_ok[OF assms(1,2) c assms(4)] o that show thesis by blast
qed

text \<open>A copy answered 200 has appended one backend to the target profile, under a name that was free, with the key of
  its source, which the browser never held.\<close>

theorem copy_keeps_key:
  assumes "codec_good (we_codec env)" "we_load_io env = no_faults"
    and "post_copy_backend env q n rq w = (r, w')" "wr_status r = 200"
  shows "\<exists>src m b nb. resolve_profile q (we_mode env) = Inr src \<and> copy_target rq = Inr m
           \<and> named_backend n (profile src (store_get (ww_store w))) = Some b \<and> api_key nb = api_key b
           \<and> name nb = str_trim (cr_new_name rq) \<and> \<not> has_backend (name nb) (profile m (store_get (ww_store w)))
           \<and> backends (profile m (store_get (ww_store w'))) = backends (profile m (store_get (ww_store w))) @ [nb]
           \<and> (\<forall>m'. m' \<noteq> m \<longrightarrow> profile m' (store_get (ww_store w')) = canon_profile (profile m' (store_get (ww_store w))))"
proof -
  obtain src m b where o: "resolve_profile q (we_mode env) = Inr src" "copy_target rq = Inr m"
      "named_backend n (profile src (store_get (ww_store w))) = Some b"
      "\<not> has_backend (str_trim (cr_new_name rq)) (profile m (store_get (ww_store w)))"
      "committed env m (profile_update m (add_backend (copied_backend rq b)) (store_get (ww_store w))) w w'"
    using copy_ok[OF assms] by blast
  have nb: "name (copied_backend rq b) = str_trim (cr_new_name rq)" "api_key (copied_backend rq b) = api_key b"
    by (auto simp: copied_backend_def Let_def split: option.splits)
  show ?thesis
    using o nb
    by (intro exI[of _ src] exI[of _ m] exI[of _ b] exI[of _ "copied_backend rq b"])
       (auto simp: committed_def profile_canon profile_update_other canon_profile_def add_backend_def)
qed

section \<open>Sequences of edits\<close>

datatype web_op =
    WebPut web_env "string option" config_dto
  | WebActivate web_env "string option" string
  | WebCopy web_env "string option" string copy_request

fun run_web :: "web_op \<Rightarrow> web_world \<Rightarrow> web_world" where
  "run_web (WebPut env q d) w = snd (put_config env q d w)"
| "run_web (WebActivate env q n) w = snd (post_active_backend env q n w)"
| "run_web (WebCopy env q n rq) w = snd (post_copy_backend env q n rq w)"

definition state_ok :: "backend_state \<Rightarrow> bool" where
  "state_ok s \<longleftrightarrow> active_ok s \<and> log_ok s"

lemma persist_state [simp]: "ww_state (snd (persist env c w)) = ww_state w"
  by (auto simp: persist_def split: prod.splits sum.splits)

lemma hot_update_state:
  assumes "validate_for m c = Inr ()" "state_ok (ww_state w)"
  shows "state_ok (ww_state (snd (hot_update env m c w)))"
proof (cases "m = we_mode env")
  case True
  show ?thesis
  proof (cases "update_config (we_now env) (profile m c) (ww_state w)")
    case (Inr s)
    then have "active_ok s"
      using update_active_ok[OF Inr] update_config_cases[OF Inr] validated_active[OF assms(1)] by simp
    then show ?thesis using Inr assms(2) True update_log_ok[OF Inr] by (simp add: hot_update_def state_ok_def)
  qed (use assms True in \<open>simp add: hot_update_def\<close>)
qed (use assms in \<open>simp add: hot_update_def\<close>)

lemma commit_state:
  assumes "state_ok (ww_state w)"
  shows "state_ok (ww_state (snd (commit_config env m c w)))"
proof (cases "validate_for m c")
  case (Inr u)
  obtain x w1 where w1: "persist env c w = (x, w1)" by fastforce
  then have "state_ok (ww_state w1)" using assms persist_state[of env c w] by simp
  then show ?thesis using Inr hot_update_state[of m c w1 env] w1
    by (auto simp: commit_config_def split: prod.splits sum.splits)
qed (use assms in \<open>simp add: commit_config_def\<close>)

lemma put_state: "state_ok (ww_state w) \<Longrightarrow> state_ok (ww_state (snd (put_config env q d w)))"
  by (auto simp: put_config_def commit_state split: sum.splits)

lemma copy_state: "state_ok (ww_state w) \<Longrightarrow> state_ok (ww_state (snd (post_copy_backend env q n rq w)))"
  by (auto simp: post_copy_backend_def commit_state Let_def split: sum.splits option.splits)

lemma switch_state: "switch_backend now n s = Inr (s', c) \<Longrightarrow> state_ok s \<Longrightarrow> state_ok s'"
  using switch_ok[of now n s s' c] by (simp add: state_ok_def)

lemma activate_state: "state_ok (ww_state w) \<Longrightarrow> state_ok (ww_state (snd (post_active_backend env q n w)))"
proof -
  assume ok: "state_ok (ww_state w)"
  have p: "persist env c w1 = (x, w2) \<Longrightarrow> ww_state w2 = ww_state w1" for c w1 x w2
    using persist_state[of env c w1] by simp
  show ?thesis using ok
    by (auto simp: post_active_backend_def Let_def dest!: p dest: switch_state split: sum.splits prod.splits if_splits)
qed

text \<open>C11: whatever the browser sends, in any order, with any failure of the disk, the running proxy keeps an active backend
  that its configuration has, and a log that ends with it; a bare reload of the same configurations can
  lose it.\<close>

theorem web_keeps_backend_state:
  assumes "from_config now p = Inr (ww_state w)"
  shows "log_ok (ww_state (fold run_web ops w)) \<and>
         (\<exists>b. get_active_backend_config (ww_state (fold run_web ops w)) = Inr b
              \<and> name b = active_backend (ww_state (fold run_web ops w)))"
proof -
  have stp: "state_ok (ww_state w) \<Longrightarrow> state_ok (ww_state (run_web c w))" for c w
    by (cases c) (simp_all add: put_state copy_state activate_state)
  have "state_ok (ww_state w) \<Longrightarrow> state_ok (ww_state (fold run_web ops w))" for w
    by (induction ops arbitrary: w) (auto simp: stp)
  then have "state_ok (ww_state (fold run_web ops w))"
    using from_config_ok[OF assms] by (simp add: state_ok_def)
  then show ?thesis
    using find_backend_ok by (fastforce simp: state_ok_def active_ok_def get_active_backend_config_def)
qed

text \<open>An activation answered 200 has switched the running proxy (for its own profile) and is in the file.\<close>

theorem activation_effect:
  assumes "codec_good (we_codec env)" "we_load_io env = no_faults"
    and "post_active_backend env q n w = (r, w')" "wr_status r = 200"
  shows "\<exists>m. resolve_profile q (we_mode env) = Inr m
           \<and> active (defaults (profile m (store_get (ww_store w')))) = n
           \<and> load_from (we_codec env) (we_messages env) no_faults (store_path (ww_store w)) (ww_file w') = Inr (store_get (ww_store w'))
           \<and> active_backend (ww_state w') = (if m = we_mode env then n else active_backend (ww_state w))"
proof -
  obtain m s cleared where m: "resolve_profile q (we_mode env) = Inr m"
      and s: "(if m = we_mode env then switch_backend (we_now env) n (ww_state w) else Inr (ww_state w, False)) = Inr (s, cleared)"
    using assms(3,4) by (auto simp: post_active_backend_def split: sum.splits)
  define w1 where "w1 = w\<lparr>ww_state := s, ww_models := (if cleared then invalidate_cache (ww_models w) else ww_models w)\<rparr>"
  define c where "c = profile_update m (\<lambda>p. p\<lparr>defaults := (defaults p)\<lparr>active := n\<rparr>\<rparr>) (store_get (ww_store w))"
  obtain w2 where w2: "persist env c w1 = (Inr (), w2)" "w' = w2"
    using assms(3,4) m s by (auto simp: post_active_backend_def Let_def w1_def c_def split: sum.splits prod.splits if_splits)
  have "active_backend s = (if m = we_mode env then n else active_backend (ww_state w))"
    using s switch_ok by (auto split: if_splits)
  then show ?thesis
    using persist_ok[OF assms(1,2) w2(1)] w2(2) m
    by (auto simp: profile_canon c_def canon_profile_def w1_def)
qed

text \<open>An activation that is refused may have switched the proxy all the same: the running state is changed before the
  store is asked for the backend and before the file is written.\<close>

theorem refused_activation_switches:
  assumes "resolve_profile q (we_mode env) = Inr (we_mode env)"
    and "has_backend n (cfg (ww_state w))" "\<not> has_backend n (profile (we_mode env) (store_get (ww_store w)))"
  shows "\<exists>w'. post_active_backend env q n w = (refuse 400 (not_in_profile n (we_mode env)), w')
            \<and> active_backend (ww_state w') = n"
  using assms by (auto simp: post_active_backend_def switch_backend_def Let_def)

section \<open>Concrete instances\<close>

definition key_backend :: backend where
  "key_backend = default_backend\<lparr>name := ''k'', auth_type_str := ''bearer'', api_key := Some ''sk-1''\<rparr>"

definition web_config :: config where
  "web_config = default_config\<lparr>copilot := default_profile\<lparr>backends := [key_backend]\<rparr>\<rparr>"

definition web_config_after :: config where
  "web_config_after = profile_update ModeCopilot (edited_profile (profile_to_dto (copilot web_config) ''copilot'')) web_config"

definition copied_config :: config where
  "copied_config = profile_update ModeClaude (add_backend (key_backend\<lparr>name := ''k2''\<rparr>)) web_config"

definition activated_config :: config where
  "activated_config = profile_update ModeClaude (\<lambda>p. p\<lparr>defaults := (defaults p)\<lparr>active := ''claude''\<rparr>\<rparr>) web_config"

definition web_docs :: "toml list" where
  "web_docs = List.map_filter toml_of_config [web_config_after, copied_config, activated_config]"

definition demo_env :: web_env where
  "demo_env = \<lparr>we_mode = ModeClaude, we_codec = docs_codec web_docs, we_messages = demo_messages,
               we_save_io = no_faults, we_load_io = no_faults, we_now = 7\<rparr>"

definition demo_world :: web_world where
  "demo_world = \<lparr>ww_store = new_store web_config ''c'', ww_state = demo_state, ww_models = [], ww_file = None\<rparr>"


lemma doc_index_in: "t \<in> set ts \<Longrightarrow> \<exists>i. doc_index t ts = Some i"
  by (induction ts) auto

lemma set_map_filter_iff: "y \<in> set (List.map_filter f xs) \<longleftrightarrow> (\<exists>x \<in> set xs. f x = Some y)"
  by (induction xs) (auto simp: List.map_filter_simps split: option.splits)

lemma docs_written:
  assumes "c \<in> set cs" "toml_of_config c = Some t"
  shows "\<exists>s. config_to_str (docs_codec (List.map_filter toml_of_config cs)) c = Some s"
proof -
  have "t \<in> set (List.map_filter toml_of_config cs)" using assms by (auto simp: set_map_filter_iff)
  then show ?thesis using doc_index_in[of t] assms(2) by (auto simp: config_to_str_def docs_codec_def)
qed

lemma with_backends_written:
  assumes "terminal c = terminal default_config" "debug_logging c = debug_logging default_config"
    "unat (retry_backoff_base_ms (defaults (claude c))) < 2 ^ 63" "unat (retry_backoff_base_ms (defaults (copilot c))) < 2 ^ 63"
  shows "\<exists>t. toml_of_config c = Some t"
  using assms by (simp add: toml_of_config_def toml_of_nat_def toml_of_debug_def toml_of_rotation_def toml_of_profile_def
      toml_of_defaults_def default_config_def default_debug_logging_def default_rotation_def)

lemmas web_demo_defs = web_config_def web_config_after_def copied_config_def activated_config_def profile_update_def
  edited_profile_def self_heal_active_def add_backend_def default_config_def default_profile_def default_defaults_def
  profile_to_dto_def

lemma web_docs_written:
  "\<exists>s. config_to_str (we_codec demo_env) web_config_after = Some s"
  "\<exists>s. config_to_str (we_codec demo_env) copied_config = Some s"
  "\<exists>s. config_to_str (we_codec demo_env) activated_config = Some s"
proof -
  have w: "\<exists>t. toml_of_config c = Some t" if "c \<in> {web_config_after, copied_config, activated_config}" for c
    using that by (intro with_backends_written) (auto simp: web_demo_defs)
  have *: "\<exists>s. config_to_str (we_codec demo_env) c = Some s" if "c \<in> {web_config_after, copied_config, activated_config}" for c
    using that w[OF that] docs_written[of c "[web_config_after, copied_config, activated_config]"]
    by (auto simp: demo_env_def web_docs_def)
  show "\<exists>s. config_to_str (we_codec demo_env) web_config_after = Some s" by (rule *) simp
  show "\<exists>s. config_to_str (we_codec demo_env) copied_config = Some s" by (rule *) simp
  show "\<exists>s. config_to_str (we_codec demo_env) activated_config = Some s" by (rule *) simp
qed

lemma demo_env_simps [simp]:
  "we_mode demo_env = ModeClaude" "we_messages demo_env = demo_messages" "we_save_io demo_env = no_faults"
  "we_load_io demo_env = no_faults" "codec_good (we_codec demo_env)"
  by (simp_all add: demo_env_def)

lemma demo_world_simps [simp]:
  "store_get (ww_store demo_world) = web_config" "ww_state demo_world = demo_state"
  by (simp_all add: demo_world_def new_store_def store_get_def)

lemma demo_persist: "\<exists>s. config_to_str (we_codec demo_env) c = Some s \<Longrightarrow> \<exists>w'. persist demo_env c w = (Inr (), w')"
  by (auto simp: persist_def save_config_def write_file_def)

lemma demo_put_valid: "validate_for ModeCopilot web_config_after = Inr ()"
  by code_simp

lemma demo_put:
  "\<exists>r w'. put_config demo_env (Some ''copilot'') (profile_to_dto (copilot web_config) ''copilot'') demo_world = (r, w') \<and> wr_status r = 200"
  using demo_persist[OF web_docs_written(1), of demo_world] demo_put_valid
  by (auto simp: put_config_def resolve_profile_def commit_config_def hot_update_def web_config_after_def[symmetric])


lemma demo_copy_request: "copied_backend \<lparr>cr_target_profile = ''claude'', cr_new_name = ''k2'', cr_new_display_name = None\<rparr> key_backend
    = key_backend\<lparr>name := ''k2''\<rparr>"
  by (simp add: copied_backend_def str_trim_all_graphic is_graphic_def)

lemma copied_config_valid: "validate_for ModeClaude copied_config = Inr ()"
  by code_simp

lemma demo_copy:
  "\<exists>r w'. post_copy_backend demo_env (Some ''copilot'') ''k''
      \<lparr>cr_target_profile = ''claude'', cr_new_name = ''k2'', cr_new_display_name = None\<rparr> demo_world = (r, w') \<and> wr_status r = 200"
proof -
  note v = copied_config_valid
  have f: "named_backend ''k'' (profile ModeCopilot web_config) = Some key_backend"
          "\<not> has_backend ''k2'' (profile ModeClaude web_config)" by code_simp+
  obtain w1 where w1: "persist demo_env copied_config demo_world = (Inr (), w1)"
    using demo_persist[OF web_docs_written(2)] by blast
  have "ww_state w1 = demo_state" using persist_state[of demo_env copied_config demo_world] w1 by simp
  then have "\<exists>s. update_config (we_now demo_env) (profile ModeClaude copied_config) (ww_state w1) = Inr s"
    by (simp add: update_config_def Let_def copied_config_def profile_update_def profile_def add_backend_def)
  then show ?thesis using v f w1
    by (auto simp: post_copy_backend_def resolve_profile_def copy_target_def Let_def commit_config_def hot_update_def
        demo_copy_request copied_config_def[symmetric] str_trim_all_graphic is_graphic_def)
qed

theorem copy_keeps_key_witness:
  "\<exists>(w' :: web_world) (nb :: backend). api_key nb = Some ''sk-1'' \<and> name nb = ''k2''
      \<and> backends (profile ModeClaude (store_get (ww_store w'))) = backends (claude web_config) @ [nb]"
proof -
  obtain r w' where p: "post_copy_backend demo_env (Some ''copilot'') ''k''
      \<lparr>cr_target_profile = ''claude'', cr_new_name = ''k2'', cr_new_display_name = None\<rparr> demo_world = (r, w')" "wr_status r = 200"
    using demo_copy by blast
  have f: "named_backend ''k'' (profile ModeCopilot web_config) = Some key_backend" by code_simp
  have k: "api_key key_backend = Some ''sk-1''" by (simp add: key_backend_def)
  show ?thesis using copy_keeps_key[OF _ _ p] f k
    by (auto simp: resolve_profile_def copy_target_def str_trim_all_graphic is_graphic_def profile_def)
qed

lemma demo_activate:
  "\<exists>r w'. post_active_backend demo_env None ''claude'' demo_world = (r, w') \<and> wr_status r = 200"
proof -
  have f: "has_backend ''claude'' (profile ModeClaude web_config)" by code_simp
  have sw: "switch_backend (we_now demo_env) ''claude'' demo_state = Inr (demo_state, False)"
    by (simp add: switch_backend_def has_backend_def demo_state_def demo_profile_def default_backend_def)
  obtain w1 where w1: "persist demo_env activated_config
      (demo_world\<lparr>ww_state := demo_state, ww_models := ww_models demo_world\<rparr>) = (Inr (), w1)"
    using demo_persist[OF web_docs_written(3)] by blast
  show ?thesis using f sw w1
    by (auto simp: post_active_backend_def resolve_profile_def Let_def activated_config_def[symmetric])
qed

theorem activation_effect_witness:
  "\<exists>w' :: web_world. active (defaults (claude (store_get (ww_store w')))) = ''claude'' \<and> active_backend (ww_state w') = ''claude''"
proof -
  obtain r w' where p: "post_active_backend demo_env None ''claude'' demo_world = (r, w')" "wr_status r = 200"
    using demo_activate by blast
  show ?thesis using activation_effect[OF _ _ p] by (auto simp: resolve_profile_def profile_def)
qed

definition other_world :: web_world where
  "other_world = demo_world\<lparr>ww_store := new_store
     (web_config\<lparr>copilot := default_profile\<lparr>backends := [key_backend\<lparr>api_key := Some ''other''\<rparr>]\<rparr>\<rparr>) ''c''\<rparr>"

lemma same_masked:
  "mask_profile (profile m (store_get (ww_store demo_world))) = mask_profile (profile m (store_get (ww_store other_world)))"
  by (cases m) (simp_all add: other_world_def demo_world_def new_store_def store_get_def profile_def web_config_def mask_profile_def
      mask_backend_def key_set_def key_backend_def default_backend_def)

theorem keys_never_shown_witness:
  "get_config demo_env (Some ''copilot'') demo_world = get_config demo_env (Some ''copilot'') other_world"
  using keys_never_shown[of demo_world other_world] same_masked by blast

theorem unchanged_edit_is_identity_witness:
  "edited_profile (profile_to_dto demo_profile ''claude'') demo_profile = demo_profile"
  by (rule unchanged_edit_is_identity) code_simp+

theorem rename_drops_key_witness:
  "api_key (dto_to_backend ((backend_to_dto key_backend)\<lparr>bd_name := ''renamed''\<rparr>)
      (Option.bind (named_backend ''renamed'' (copilot web_config)) api_key)) = None"
  using rename_drops_key[of "(backend_to_dto key_backend)\<lparr>bd_name := ''renamed''\<rparr>" "copilot web_config"]
  by (simp add: backend_to_dto_def has_backend_def web_config_def key_backend_def)

theorem web_keeps_backend_state_witness:
  "log_ok (ww_state (fold run_web [WebActivate demo_env None ''b'', WebActivate demo_env None ''zz''] demo_world))"
proof -
  have "from_config 0 demo_profile = Inr (ww_state demo_world)" using demo_from_config by simp
  from web_keeps_backend_state[OF this] show ?thesis by blast
qed

theorem refused_activation_switches_witness:
  "\<exists>w'. post_active_backend demo_env None ''b'' demo_world = (refuse 400 (not_in_profile ''b'' ModeClaude), w')
      \<and> active_backend (ww_state w') = ''b''"
proof -
  have "has_backend ''b'' (cfg demo_state)" "\<not> has_backend ''b'' (profile ModeClaude web_config)" by code_simp+
  then show ?thesis using refused_activation_switches[of None demo_env "''b''" demo_world]
    by (simp add: resolve_profile_def)
qed

end
