(* ===== verification/WebAuth.thy ===== *)
theory WebAuth
  imports WebApi Server
begin

text \<open>
  The web interface's own HTTP server (\<open>src/proxy/webui/mod.rs\<close>): login sessions, the cookie, the
  authentication layer around every route, the login and logout handlers and the route table.
  Routing and the extraction of queries, forms and JSON bodies are \<open>axum\<close>'s: a request carries what was
  extracted, or the status with which the extractor refused it.  A session token is a fresh UUID, passed
  in; an \<open>Instant\<close> is a number of nanoseconds.
\<close>

section \<open>Sessions\<close>

definition session_ttl_secs :: nat where
  "session_ttl_secs = 24 * 3600"

definition session_ttl :: nat where
  "session_ttl = session_ttl_secs * 10 ^ 9"

definition session_cookie :: string where
  "session_cookie = ''ac_session''"

type_synonym session_store = "(string \<times> nat) list"

definition session_create :: "nat \<Rightarrow> string \<Rightarrow> session_store \<Rightarrow> session_store" where
  "session_create now token m = AList.update token (now + session_ttl) (filter (\<lambda>(_, expiry). now < expiry) m)"

definition session_valid :: "nat \<Rightarrow> string \<Rightarrow> session_store \<Rightarrow> bool" where
  "session_valid now token m = (case map_of m token of Some expiry \<Rightarrow> now < expiry | None \<Rightarrow> False)"

definition session_revoke :: "string \<Rightarrow> session_store \<Rightarrow> session_store" where
  "session_revoke token m = AList.delete token m"

section \<open>Credentials and cookies\<close>

definition constant_time_eq :: "u8 list \<Rightarrow> u8 list \<Rightarrow> bool" where
  "constant_time_eq a b =
     (if length a \<noteq> length b then False
      else fold (\<lambda>(x, y) acc. or acc (xor x y)) (zip a b) 0 = 0)"

definition str_bytes :: "string \<Rightarrow> u8 list" where
  "str_bytes s = map (\<lambda>c. of_nat (code c)) s"

text \<open>\<open>split_once\<close> at the first occurrence.\<close>

definition split_once :: "char \<Rightarrow> string \<Rightarrow> (string \<times> string) option" where
  "split_once c s = (if c \<in> set s then Some (takeWhile (\<lambda>x. x \<noteq> c) s, tl (dropWhile (\<lambda>x. x \<noteq> c) s)) else None)"

definition cookie_part :: "string \<Rightarrow> string \<Rightarrow> string option" where
  "cookie_part n part =
     (case split_once (CHR ''='') (str_trim part) of
        Some (k, v) \<Rightarrow> if str_trim k = n then Some (str_trim v) else None
      | None \<Rightarrow> None)"

definition get_cookie :: "in_headers \<Rightarrow> string \<Rightarrow> string option" where
  "get_cookie hs n =
     (case header_str ''cookie'' hs of
        None \<Rightarrow> None
      | Some cookies \<Rightarrow>
          (case List.map_filter (cookie_part n) (split_on (\<lambda>c. c = CHR '';'') cookies) of
             [] \<Rightarrow> None | v # _ \<Rightarrow> Some v))"

section \<open>The redirect to the login page\<close>

definition is_ascii_alnum :: "nat \<Rightarrow> bool" where
  "is_ascii_alnum n \<longleftrightarrow> (48 \<le> n \<and> n \<le> 57) \<or> (65 \<le> n \<and> n \<le> 90) \<or> (97 \<le> n \<and> n \<le> 122)"

definition hex_char :: "nat \<Rightarrow> char" where
  "hex_char d = char_of (if d < 10 then 48 + d else 55 + d)"

fun show_hex :: "nat \<Rightarrow> string" where
  "show_hex n = (if n < 16 then [hex_char n] else show_hex (n div 16) @ [hex_char (n mod 16)])"

declare show_hex.simps [simp del]

text \<open>\<open>format!("%{:02X}", c as u32)\<close>: at least two digits.\<close>

definition hex_escape :: "nat \<Rightarrow> string" where
  "hex_escape n = CHR 0x25 # (if n < 16 then [CHR ''0''] else []) @ show_hex n"

definition encode_char :: "nat \<Rightarrow> string" where
  "encode_char n = (if is_ascii_alnum n \<or> n \<in> {45, 95, 46, 47} then [char_of n] else hex_escape n)"

definition str_scalars :: "string \<Rightarrow> nat list" where
  "str_scalars s = List.map_filter (\<lambda>x. x) (utf8_chars (map code s))"

definition urlencoded :: "string \<Rightarrow> string" where
  "urlencoded s = concat (map encode_char (str_scalars s))"

definition redirect_to :: "string \<Rightarrow> web_response" where
  "redirect_to u = \<lparr>wr_status = 303, wr_headers = [(''location'', u)], wr_body = BodyNone\<rparr>"

definition redirect_permanent :: "string \<Rightarrow> web_response" where
  "redirect_permanent u = \<lparr>wr_status = 308, wr_headers = [(''location'', u)], wr_body = BodyNone\<rparr>"

section \<open>Requests and routes\<close>

datatype web_input =
    InputNone
  | InputRefused nat
  | InputForm string string
  | InputConfig config_dto
  | InputName string
  | InputCopy copy_request

record web_request =
  wq_method :: string
  wq_path :: string
  wq_headers :: in_headers
  wq_profile :: "nat + string option"
  wq_input :: web_input

datatype web_route =
    RtRoot | RtIndex | RtLoginGet | RtLoginPost | RtLogout
  | RtGetConfig | RtPutConfig | RtActive | RtBackend string | RtCopy string | RtProfiles
  | RtWrongMethod | RtNotFound

definition on_method :: "(string \<times> web_route) list \<Rightarrow> string \<Rightarrow> web_route" where
  "on_method rs m = (case map_of rs m of Some r \<Rightarrow> r | None \<Rightarrow> RtWrongMethod)"

definition on_get :: "web_route \<Rightarrow> string \<Rightarrow> web_route" where
  "on_get r = on_method [(''GET'', r), (''HEAD'', r)]"

text \<open>The two routes with a \<open>{name}\<close> segment; the name reaches the handler percent-decoded.\<close>

definition named_route :: "(string \<Rightarrow> string) \<Rightarrow> string \<Rightarrow> string \<Rightarrow> web_route" where
  "named_route decode m rest =
     (case split_on (\<lambda>c. c = CHR ''/'') rest of
        [n] \<Rightarrow> if n = [] then RtNotFound else on_get (RtBackend (decode n)) m
      | [n, sub] \<Rightarrow> if n \<noteq> [] \<and> sub = ''copy'' then on_method [(''POST'', RtCopy (decode n))] m else RtNotFound
      | _ \<Rightarrow> RtNotFound)"

definition web_route_of :: "(string \<Rightarrow> string) \<Rightarrow> string \<Rightarrow> string \<Rightarrow> web_route" where
  "web_route_of decode m p =
     (if p = ''/'' \<or> p = ''/ui'' then on_get RtRoot m
      else if p = ''/ui/'' then on_get RtIndex m
      else if p = ''/login'' then on_method [(''GET'', RtLoginGet), (''HEAD'', RtLoginGet), (''POST'', RtLoginPost)] m
      else if p = ''/logout'' then on_method [(''POST'', RtLogout)] m
      else if p = ''/api/config'' then
        on_method [(''GET'', RtGetConfig), (''HEAD'', RtGetConfig), (''PUT'', RtPutConfig)] m
      else if p = ''/api/config/active'' then on_method [(''POST'', RtActive)] m
      else if p = ''/api/profiles'' then on_get RtProfiles m
      else case strip_prefix ''/api/config/backends/'' p of
             Some rest \<Rightarrow> named_route decode m rest
           | None \<Rightarrow> RtNotFound)"

section \<open>The server\<close>

record web_server =
  sv_credentials :: "(string \<times> string) option"
  sv_sessions :: session_store
  sv_world :: web_world

record web_pages =
  pg_index :: string
  pg_login :: string
  pg_decode :: "string \<Rightarrow> string"

text \<open>\<open>serve_webui\<close>: authentication is on only when both the user name and the password are set.\<close>

definition web_credentials :: "webui_config \<Rightarrow> (string \<times> string) option" where
  "web_credentials c = (case (username c, password c) of (Some u, Some p) \<Rightarrow> Some (u, p) | _ \<Rightarrow> None)"

definition new_web_server :: "webui_config \<Rightarrow> web_world \<Rightarrow> web_server" where
  "new_web_server c w = \<lparr>sv_credentials = web_credentials c, sv_sessions = [], sv_world = w\<rparr>"

definition auth_admits :: "nat \<Rightarrow> web_server \<Rightarrow> web_request \<Rightarrow> bool" where
  "auth_admits now s rq =
     (case sv_credentials s of
        None \<Rightarrow> True
      | Some _ \<Rightarrow>
          wq_path rq = ''/login''
          \<or> (case get_cookie (wq_headers rq) session_cookie of
               Some token \<Rightarrow> session_valid now token (sv_sessions s)
             | None \<Rightarrow> False))"

definition login_redirect :: "web_request \<Rightarrow> web_response" where
  "login_redirect rq = redirect_to (''/login?next='' @ urlencoded (wq_path rq))"

definition session_header :: "string \<Rightarrow> nat \<Rightarrow> string" where
  "session_header token age =
     session_cookie @ ''='' @ token @ ''; HttpOnly; SameSite=Strict; Path=/; Max-Age='' @ show_nat age"

definition credentials_match :: "string \<times> string \<Rightarrow> string \<Rightarrow> string \<Rightarrow> bool" where
  "credentials_match creds u p \<longleftrightarrow>
     constant_time_eq (str_bytes u) (str_bytes (fst creds)) \<and> constant_time_eq (str_bytes p) (str_bytes (snd creds))"

definition handler_login_post ::
    "nat \<Rightarrow> string \<Rightarrow> web_server \<Rightarrow> string \<Rightarrow> string \<Rightarrow> web_response \<times> web_server" where
  "handler_login_post now token s u p =
     (case sv_credentials s of
        None \<Rightarrow> (redirect_to ''/ui/'', s)
      | Some creds \<Rightarrow>
          if credentials_match creds u p
          then (\<lparr>wr_status = 200, wr_headers = [(''set-cookie'', session_header token session_ttl_secs)], wr_body = BodyNone\<rparr>,
                s\<lparr>sv_sessions := session_create now token (sv_sessions s)\<rparr>)
          else (refuse 401 ''Invalid credentials'', s))"

definition handler_logout :: "web_server \<Rightarrow> web_request \<Rightarrow> web_response \<times> web_server" where
  "handler_logout s rq =
     (\<lparr>wr_status = 200, wr_headers = [(''set-cookie'', session_header [] 0)], wr_body = BodyNone\<rparr>,
      case get_cookie (wq_headers rq) session_cookie of
        Some token \<Rightarrow> s\<lparr>sv_sessions := session_revoke token (sv_sessions s)\<rparr>
      | None \<Rightarrow> s)"

definition page :: "string \<Rightarrow> web_response" where
  "page html = json_reply (BodyPage html)"

definition bare_status :: "nat \<Rightarrow> web_response" where
  "bare_status n = \<lparr>wr_status = n, wr_headers = [], wr_body = BodyNone\<rparr>"

text \<open>A refused extraction answers its status before the handler runs; the query is extracted before the body.\<close>

definition with_profile ::
    "web_request \<Rightarrow> web_server \<Rightarrow> (string option \<Rightarrow> web_response \<times> web_world) \<Rightarrow> web_response \<times> web_server" where
  "with_profile rq s h =
     (case wq_profile rq of
        Inl status \<Rightarrow> (bare_status status, s)
      | Inr q \<Rightarrow> (case h q of (r, w) \<Rightarrow> (r, s\<lparr>sv_world := w\<rparr>)))"

definition refused_input :: "web_input \<Rightarrow> nat" where
  "refused_input i = (case i of InputRefused status \<Rightarrow> status | _ \<Rightarrow> 422)"

definition route_handler ::
    "web_pages \<Rightarrow> web_env \<Rightarrow> nat \<Rightarrow> string \<Rightarrow> web_request \<Rightarrow> web_route \<Rightarrow> web_server \<Rightarrow> web_response \<times> web_server" where
  "route_handler pg env now token rq r s =
     (let w = sv_world s; i = wq_input rq in
      case r of
        RtRoot \<Rightarrow> (redirect_permanent ''/ui/'', s)
      | RtIndex \<Rightarrow> (page (pg_index pg), s)
      | RtLoginGet \<Rightarrow> (page (pg_login pg), s)
      | RtLoginPost \<Rightarrow> (case i of InputForm u p \<Rightarrow> handler_login_post now token s u p | _ \<Rightarrow> (bare_status (refused_input i), s))
      | RtLogout \<Rightarrow> handler_logout s rq
      | RtGetConfig \<Rightarrow> with_profile rq s (\<lambda>q. (get_config env q w, w))
      | RtPutConfig \<Rightarrow> with_profile rq s (\<lambda>q.
          case i of InputConfig d \<Rightarrow> put_config env q d w | _ \<Rightarrow> (bare_status (refused_input i), w))
      | RtActive \<Rightarrow> with_profile rq s (\<lambda>q.
          case i of InputName n \<Rightarrow> post_active_backend env q n w | _ \<Rightarrow> (bare_status (refused_input i), w))
      | RtBackend n \<Rightarrow> with_profile rq s (\<lambda>q. (get_backend env q n w, w))
      | RtCopy n \<Rightarrow> with_profile rq s (\<lambda>q.
          case i of InputCopy c \<Rightarrow> post_copy_backend env q n c w | _ \<Rightarrow> (bare_status (refused_input i), w))
      | RtProfiles \<Rightarrow> (get_profiles env, s)
      | RtWrongMethod \<Rightarrow> (bare_status 405, s)
      | RtNotFound \<Rightarrow> (bare_status 404, s))"

definition web_serve ::
    "web_pages \<Rightarrow> web_env \<Rightarrow> nat \<Rightarrow> string \<Rightarrow> web_request \<Rightarrow> web_server \<Rightarrow> web_response \<times> web_server" where
  "web_serve pg env now token rq s =
     (if auth_admits now s rq
      then route_handler pg env now token rq (web_route_of (pg_decode pg) (wq_method rq) (wq_path rq)) s
      else (login_redirect rq, s))"

end
