(* ===== verification/WebAuthProps.thy ===== *)
theory WebAuthProps
  imports WebAuth WebApiProps
begin

text \<open>
  Who may use the web interface: an outsider changes nothing and learns nothing, a session exists only
  after a login with the configured credentials and for one day, a logout ends it; and what the redirect
  to the login page carries.
\<close>

section \<open>Comparing credentials\<close>

lemma xor_zero_iff: "xor x y = (0 :: 'a::len word) \<longleftrightarrow> x = y"
  by (metis xor.assoc xor.right_neutral xor_self_eq xor.left_neutral)

lemma fold_or_zero:
  "fold (\<lambda>(x, y) acc. or acc (xor x y)) ps (a :: 'a::len word) = 0 \<longleftrightarrow> a = 0 \<and> (\<forall>(x, y) \<in> set ps. x = y)"
  by (induction ps arbitrary: a) (auto simp: or_eq_0_iff xor_zero_iff)

text \<open>The comparison that never stops early decides equality.\<close>

theorem constant_time_eq_iff: "constant_time_eq a b \<longleftrightarrow> a = b"
proof (cases "length a = length b")
  case True
  then have "(\<forall>(x, y) \<in> set (zip a b). x = y) \<longleftrightarrow> a = b"
    by (induction a b rule: list_induct2) auto
  then show ?thesis using True by (simp add: constant_time_eq_def fold_or_zero)
qed (auto simp: constant_time_eq_def)

lemma str_bytes_inj: "str_bytes s = str_bytes t \<longleftrightarrow> s = t"
proof -
  have "inj (\<lambda>c. of_nat (code c) :: u8)"
  proof (rule injI)
    fix c d :: char
    assume "(of_nat (code c) :: u8) = of_nat (code d)"
    then have "unat (of_nat (code c) :: u8) = unat (of_nat (code d) :: u8)" by simp
    then have "code c = code d" by (simp add: unat_of_nat)
    then show "c = d" by (metis char_of_char)
  qed
  then show ?thesis by (simp add: str_bytes_def inj_map_eq_map)
qed

lemma credentials_match_iff: "credentials_match creds u p \<longleftrightarrow> creds = (u, p)"
  by (cases creds) (auto simp: credentials_match_def constant_time_eq_iff str_bytes_inj)

section \<open>Sequences of requests\<close>

text \<open>One request: the environment of its handler, the clock, the UUID a login would issue, the request.\<close>

type_synonym web_event = "web_env \<times> nat \<times> string \<times> web_request"

fun web_run :: "web_pages \<Rightarrow> web_event list \<Rightarrow> web_server \<Rightarrow> web_response list \<times> web_server" where
  "web_run pg [] s = ([], s)"
| "web_run pg ((env, now, token, rq) # es) s =
     (let (r, s1) = web_serve pg env now token rq s; (rs, s2) = web_run pg es s1 in (r # rs, s2))"

definition knows :: "string \<times> string \<Rightarrow> web_request \<Rightarrow> bool" where
  "knows creds rq \<longleftrightarrow> wq_input rq = InputForm (fst creds) (snd creds)"

text \<open>What an outsider can receive.\<close>

definition harmless :: "web_pages \<Rightarrow> web_response \<Rightarrow> bool" where
  "harmless pg r \<longleftrightarrow> wr_body r \<in> {BodyNone, BodyText ''Invalid credentials'', BodyPage (pg_login pg)}
     \<and> \<not> (\<exists>v. (''set-cookie'', v) \<in> set (wr_headers r))"

lemma login_route: "web_route_of dec m ''/login'' \<in> {RtLoginGet, RtLoginPost, RtWrongMethod}"
  by (simp add: web_route_of_def on_method_def split: option.splits)

lemma outsider_step:
  assumes "sv_credentials s = Some creds" "sv_sessions s = []" "\<not> knows creds rq"
  shows "\<exists>r. web_serve pg env now token rq s = (r, s) \<and> harmless pg r"
proof (cases "wq_path rq = ''/login''")
  case False
  then have "\<not> auth_admits now s rq" using assms by (simp add: auth_admits_def session_valid_def split: option.splits)
  then show ?thesis by (simp add: web_serve_def login_redirect_def redirect_to_def harmless_def)
next
  case True
  then have a: "auth_admits now s rq" using assms by (simp add: auth_admits_def)
  have no: "handler_login_post now token s u p = (refuse 401 ''Invalid credentials'', s)" if "wq_input rq = InputForm u p" for u p
    using that assms by (auto simp: handler_login_post_def credentials_match_iff knows_def)
  show ?thesis using login_route[of "pg_decode pg" "wq_method rq"] a True
    by (cases "wq_input rq")
       (auto simp: web_serve_def route_handler_def Let_def no page_def json_reply_def bare_status_def refuse_def harmless_def)
qed


section \<open>Where a session comes from\<close>

lemma with_profile_sessions [simp]:
  "sv_sessions (snd (with_profile rq s h)) = sv_sessions s" "sv_credentials (snd (with_profile rq s h)) = sv_credentials s"
  by (simp_all add: with_profile_def split: sum.splits prod.splits)

lemma route_credentials [simp]: "sv_credentials (snd (route_handler pg env now token rq r s)) = sv_credentials s"
  by (cases r) (auto simp: route_handler_def Let_def handler_login_post_def handler_logout_def
      split: web_input.splits option.splits)

lemma serve_credentials [simp]: "sv_credentials (snd (web_serve pg env now token rq s)) = sv_credentials s"
  by (simp add: web_serve_def)

text \<open>A request touches the sessions in one of three ways.\<close>

lemma serve_sessions:
  "sv_sessions (snd (web_serve pg env now token rq s)) = sv_sessions s
   \<or> (\<exists>creds. sv_credentials s = Some creds \<and> knows creds rq
        \<and> sv_sessions (snd (web_serve pg env now token rq s)) = session_create now token (sv_sessions s))
   \<or> (\<exists>t. sv_sessions (snd (web_serve pg env now token rq s)) = session_revoke t (sv_sessions s))"
proof (cases "web_route_of (pg_decode pg) (wq_method rq) (wq_path rq)")
  case RtLoginPost
  then show ?thesis
    by (auto simp: web_serve_def route_handler_def Let_def handler_login_post_def credentials_match_iff knows_def
        split: web_input.splits option.splits)
qed (auto simp: web_serve_def route_handler_def Let_def handler_logout_def split: option.splits)

lemma web_run_snoc:
  "snd (web_run pg (es @ [(env, now, token, rq)]) s) = snd (web_serve pg env now token rq (snd (web_run pg es s)))"
  by (induction pg es s rule: web_run.induct) (auto simp: Let_def split: prod.splits)

lemma run_credentials [simp]: "sv_credentials (snd (web_run pg es s)) = sv_credentials s"
  by (induction es rule: rev_induct) (auto simp: web_run_snoc)

lemma set_alist_update: "set (AList.update k v m) \<subseteq> insert (k, v) (set m)"
  by (induction m) auto

lemma set_session_create: "set (session_create now token m) \<subseteq> insert (token, now + session_ttl) (set m)"
  using set_alist_update[of token "now + session_ttl" "filter (\<lambda>(_, expiry). now < expiry) m"]
  by (auto simp: session_create_def)

lemma set_session_revoke: "set (session_revoke t m) \<subseteq> set m"
  by (auto simp: session_revoke_def AList.delete_eq)

lemma session_history:
  "(t, x) \<in> set (sv_sessions (snd (web_run pg es (new_web_server c w)))) \<Longrightarrow>
   \<exists>env issued rq creds. (env, issued, t, rq) \<in> set es \<and> web_credentials c = Some creds \<and> knows creds rq \<and> x = issued + session_ttl"
proof (induction es rule: rev_induct)
  case Nil
  then show ?case by (simp add: new_web_server_def)
next
  case (snoc e es)
  obtain env now token rq where e: "e = (env, now, token, rq)" by (cases e)
  define s where "s = snd (web_run pg es (new_web_server c w))"
  have cr: "sv_credentials s = web_credentials c" by (simp add: s_def new_web_server_def)
  have mem: "(t, x) \<in> set (sv_sessions (snd (web_serve pg env now token rq s)))"
    using snoc.prems by (simp add: e web_run_snoc s_def)
  have old: ?case if "(t, x) \<in> set (sv_sessions s)"
    using snoc.IH that by (fastforce simp: s_def)
  consider "sv_sessions (snd (web_serve pg env now token rq s)) = sv_sessions s"
    | creds where "sv_credentials s = Some creds" "knows creds rq"
        "sv_sessions (snd (web_serve pg env now token rq s)) = session_create now token (sv_sessions s)"
    | k where "sv_sessions (snd (web_serve pg env now token rq s)) = session_revoke k (sv_sessions s)"
    using serve_sessions[of pg env now token rq s] by blast
  then show ?case
  proof cases
    case 3
    then have "(t, x) \<in> set (sv_sessions s)"
      using mem set_session_revoke[of k "sv_sessions s"] by (metis subsetD)
    then show ?thesis by (rule old)
  next
    case 2
    then have "(t, x) = (token, now + session_ttl) \<or> (t, x) \<in> set (sv_sessions s)"
      using mem set_session_create[of now token "sv_sessions s"] by auto
    then show ?thesis using old 2 cr e by auto
  qed (use mem old in auto)
qed

text \<open>C17: a session that is accepted was issued, under that token, by a login with the configured credentials less than a
  day before.\<close>

theorem session_needs_login:
  assumes "session_valid now t (sv_sessions (snd (web_run pg es (new_web_server c w))))"
  shows "\<exists>env issued rq creds. (env, issued, t, rq) \<in> set es \<and> web_credentials c = Some creds \<and> knows creds rq
           \<and> now < issued + session_ttl"
proof -
  obtain x where "(t, x) \<in> set (sv_sessions (snd (web_run pg es (new_web_server c w))))" "now < x"
    using assms by (auto simp: session_valid_def dest: map_of_SomeD split: option.splits)
  then show ?thesis using session_history by blast
qed

text \<open>A session that is gone stays gone unless its token is issued again.\<close>

lemma web_run_Cons:
  "snd (web_run pg ((env, now, token, rq) # es) s) = snd (web_run pg es (snd (web_serve pg env now token rq s)))"
  by (simp split: prod.splits)

lemma filter_gone: "map_of m t = None \<Longrightarrow> map_of (filter P m) t = None"
  by (induction m) (auto split: if_splits)

lemma gone_stays:
  "\<forall>(env, now, token, rq) \<in> set es. token \<noteq> t \<Longrightarrow> map_of (sv_sessions s) t = None \<Longrightarrow>
   map_of (sv_sessions (snd (web_run pg es s))) t = None"
proof (induction es arbitrary: s)
  case (Cons e es)
  obtain env now token rq where e: "e = (env, now, token, rq)" by (cases e)
  have "map_of (sv_sessions (snd (web_serve pg env now token rq s))) t = None"
    using serve_sessions[of pg env now token rq s] Cons.prems e
    by (auto simp: session_create_def session_revoke_def filter_gone)
  then show ?case using Cons unfolding e web_run_Cons by simp
qed simp

theorem logout_ends_session:
  assumes "wq_path rq = ''/logout''" "wq_method rq = ''POST''" "get_cookie (wq_headers rq) session_cookie = Some t"
    and "auth_admits now s rq"
    and "\<forall>(env, now, token, rq) \<in> set es. token \<noteq> t"
  shows "\<not> session_valid later t (sv_sessions (snd (web_run pg es (snd (web_serve pg env now token rq s)))))"
proof -
  have "map_of (sv_sessions (snd (web_serve pg env now token rq s))) t = None"
    using assms(1-4) by (simp add: web_serve_def web_route_of_def on_method_def route_handler_def handler_logout_def session_revoke_def)
  then show ?thesis using gone_stays[OF assms(5)] by (simp add: session_valid_def)
qed

section \<open>The path in the redirect\<close>

text \<open>Percent-decoding, as a browser does it to the \<open>next\<close> parameter.\<close>

fun hex_value :: "char \<Rightarrow> nat option" where
  "hex_value c =
     (let n = code c in
      if 48 \<le> n \<and> n \<le> 57 then Some (n - 48) else if 65 \<le> n \<and> n \<le> 70 then Some (n - 55)
      else if 97 \<le> n \<and> n \<le> 102 then Some (n - 87) else None)"

fun percent_decode :: "string \<Rightarrow> string" where
  "percent_decode (c # h # l # r) =
     (if c = CHR 0x25 then
        (case (hex_value h, hex_value l) of
           (Some a, Some b) \<Rightarrow> char_of (16 * a + b) # percent_decode r
         | _ \<Rightarrow> c # percent_decode (h # l # r))
      else c # percent_decode (h # l # r))"
| "percent_decode s = s"

lemma hex_value_char: "d < 16 \<Longrightarrow> hex_value (hex_char d) = Some d"
  by (auto simp: hex_char_def hex_value.simps)

lemma show_hex_digit: "n < 16 \<Longrightarrow> show_hex n = [hex_char n]"
  by (simp add: show_hex.simps)

lemma show_hex_two: "16 \<le> n \<Longrightarrow> n < 256 \<Longrightarrow> show_hex n = [hex_char (n div 16), hex_char (n mod 16)]"
  by (subst show_hex.simps) (simp add: show_hex_digit)

lemma hex_char_zero: "hex_char 0 = CHR ''0''"
  by code_simp

lemma hex_escape_two: "n < 256 \<Longrightarrow> hex_escape n = [CHR 0x25, hex_char (n div 16), hex_char (n mod 16)]"
  by (cases "n < 16") (simp_all add: hex_escape_def show_hex_two show_hex_digit hex_char_zero)

declare hex_value.simps [simp del]

lemma decode_plain: "c \<noteq> CHR 0x25 \<Longrightarrow> percent_decode (c # r) = c # percent_decode r"
proof (cases r)
  case (Cons h r')
  then show "c \<noteq> CHR 0x25 \<Longrightarrow> ?thesis" by (cases r') simp_all
qed simp

lemma decode_encode_char: "n < 128 \<Longrightarrow> percent_decode (encode_char n @ r) = char_of n # percent_decode r"
proof (cases "is_ascii_alnum n \<or> n \<in> {45, 95, 46, 47}")
  case True
  assume n: "n < 128"
  have "n \<noteq> 37" using True by (auto simp: is_ascii_alnum_def)
  moreover have "code (char_of n) = n" using n by simp
  moreover have "code (CHR 0x25) = 37" by simp
  ultimately have "char_of n \<noteq> CHR 0x25" by metis
  then show ?thesis using True by (simp add: encode_char_def decode_plain)
next
  case False
  assume n: "n < 128"
  have "hex_value (hex_char (n div 16)) = Some (n div 16)" "hex_value (hex_char (n mod 16)) = Some (n mod 16)"
    using n by (simp_all add: hex_value_char)
  moreover have "encode_char n = [CHR 0x25, hex_char (n div 16), hex_char (n mod 16)]"
    unfolding encode_char_def if_not_P[OF False] using n by (simp add: hex_escape_two)
  ultimately show ?thesis by simp
qed

lemma utf8_chars_ascii: "\<forall>b \<in> set bs. b < 128 \<Longrightarrow> utf8_chars bs = map Some bs"
  by (induction bs) (auto simp: utf8_step.simps)

text \<open>For a path in ASCII the redirect carries the path: decoding the parameter gives it back.\<close>

theorem urlencoded_roundtrip:
  assumes "\<forall>c \<in> set s. code c < 128"
  shows "percent_decode (urlencoded s) = s"
proof -
  have "str_scalars s = map code s"
    using assms by (simp add: str_scalars_def utf8_chars_ascii List.map_filter_def)
  then have "urlencoded s = concat (map (\<lambda>c. encode_char (code c)) s)"
    by (simp add: urlencoded_def comp_def)
  moreover have "percent_decode (concat (map (\<lambda>c. encode_char (code c)) s)) = s"
    using assms by (induction s) (auto simp: decode_encode_char)
  ultimately show ?thesis by simp
qed

text \<open>Other characters are escaped by their code point instead of their UTF-8 bytes: the path of U+4E2D comes back as
  another path.\<close>

theorem urlencoded_not_utf8:
  "urlencoded [CHR 0xE4, CHR 0xB8, CHR 0xAD] = ''%4E2D'' \<and> percent_decode ''%4E2D'' = ''N2D''"
proof
  have h: "hex_char 4 = CHR ''4''" "hex_char 14 = CHR ''E''" "hex_char 2 = CHR ''2''" "hex_char 13 = CHR ''D''"
    by code_simp+
  have "str_scalars [CHR 0xE4, CHR 0xB8, CHR 0xAD] = [20013]"
    by (simp add: str_scalars_def utf8_step.simps second_of_three_def List.map_filter_simps)
  then show "urlencoded [CHR 0xE4, CHR 0xB8, CHR 0xAD] = ''%4E2D''"
    by (simp add: urlencoded_def encode_char_def is_ascii_alnum_def hex_escape_def show_hex.simps h)
  show "percent_decode ''%4E2D'' = ''N2D''" by code_simp
qed

text \<open>Whatever the path, the header value is made of letters, digits and \<open>- _ . / %\<close> only.\<close>

definition url_safe :: "char \<Rightarrow> bool" where
  "url_safe c \<longleftrightarrow> is_ascii_alnum (code c) \<or> code c \<in> {37, 45, 46, 47, 95}"

lemma hex_char_safe: "d < 16 \<Longrightarrow> url_safe (hex_char d)"
  by (auto simp: hex_char_def url_safe_def is_ascii_alnum_def)

lemma show_hex_safe: "c \<in> set (show_hex n) \<Longrightarrow> url_safe c"
proof (induction n rule: show_hex.induct)
  case (1 n)
  then show ?case by (subst (asm) show_hex.simps) (auto simp: hex_char_safe split: if_splits)
qed

lemma encode_char_safe: "c \<in> set (encode_char n) \<Longrightarrow> url_safe c"
proof -
  have z: "url_safe (CHR ''0'')" "url_safe (CHR 0x25)" by code_simp+
  assume c: "c \<in> set (encode_char n)"
  show ?thesis
  proof (cases "is_ascii_alnum n \<or> n \<in> {45, 95, 46, 47}")
    case True
    then have "n < 256" by (auto simp: is_ascii_alnum_def)
    then show ?thesis using c True by (auto simp: encode_char_def url_safe_def)
  next
    case False
    then show ?thesis using c z show_hex_safe by (auto simp: encode_char_def hex_escape_def split: if_splits)
  qed
qed

theorem urlencoded_safe: "c \<in> set (urlencoded s) \<Longrightarrow> url_safe c"
  by (auto simp: urlencoded_def encode_char_safe)

text \<open>A user name without a password, or a password without a user name, leaves the interface open to everyone.\<close>

theorem half_credentials_open:
  assumes "username c = None \<or> password c = None"
  shows "auth_admits now (new_web_server c w) rq"
  using assms by (auto simp: auth_admits_def new_web_server_def web_credentials_def split: option.splits)

section \<open>Concrete instances\<close>

definition demo_webui :: webui_config where
  "demo_webui = \<lparr>webui_bind_addr = ''127.0.0.1:47191'', username = Some ''u'', password = Some ''p''\<rparr>"

definition demo_pages :: web_pages where
  "demo_pages = \<lparr>pg_index = ''index'', pg_login = ''login'', pg_decode = (\<lambda>s. s)\<rparr>"

definition demo_request :: "string \<Rightarrow> string \<Rightarrow> web_input \<Rightarrow> web_request" where
  "demo_request m p i = \<lparr>wq_method = m, wq_path = p, wq_headers = [(''cookie'', Some ''a=b; ac_session=t1'')],
                         wq_profile = Inr None, wq_input = i\<rparr>"

lemma demo_credentials: "web_credentials demo_webui = Some (''u'', ''p'')"
  by (simp add: web_credentials_def demo_webui_def)


definition demo_login :: "web_event list" where
  "demo_login = [(demo_env, 5, ''t1'', demo_request ''POST'' ''/login'' (InputForm ''u'' ''p''))]"

lemma demo_login_sessions:
  "sv_sessions (snd (web_run demo_pages demo_login (new_web_server demo_webui demo_world))) = [(''t1'', 5 + session_ttl)]"
  by (simp add: demo_login_def web_serve_def auth_admits_def new_web_server_def demo_credentials demo_request_def
      web_route_of_def on_method_def route_handler_def Let_def handler_login_post_def credentials_match_iff session_create_def)

theorem session_needs_login_witness:
  "\<exists>env issued rq. (env, issued, ''t1'', rq) \<in> set demo_login \<and> knows (''u'', ''p'') rq \<and> 9 < issued + session_ttl"
proof -
  have "session_valid 9 ''t1'' (sv_sessions (snd (web_run demo_pages demo_login (new_web_server demo_webui demo_world))))"
    by (simp add: demo_login_sessions session_valid_def session_ttl_def session_ttl_secs_def)
  from session_needs_login[OF this] show ?thesis by (auto simp: demo_credentials)
qed

lemma demo_cookie: "get_cookie [(''cookie'', Some ''a=b; ac_session=t1'')] session_cookie = Some ''t1''"
  by code_simp

theorem logout_ends_session_witness:
  "\<not> session_valid 20 ''t1'' (sv_sessions (snd (web_run demo_pages
      [(demo_env, 11, ''t9'', demo_request ''GET'' ''/ui/'' InputNone)]
      (snd (web_serve demo_pages demo_env 10 ''t2'' (demo_request ''POST'' ''/logout'' InputNone)
        (snd (web_run demo_pages demo_login (new_web_server demo_webui demo_world))))))))"
proof -
  define s where "s = snd (web_run demo_pages demo_login (new_web_server demo_webui demo_world))"
  have "auth_admits 10 s (demo_request ''POST'' ''/logout'' InputNone)"
    using demo_login_sessions by (simp add: s_def auth_admits_def demo_request_def demo_cookie session_valid_def session_ttl_def
        session_ttl_secs_def new_web_server_def demo_credentials)
  from logout_ends_session[OF _ _ _ this, of "''t1''" "[(demo_env, 11, ''t9'', demo_request ''GET'' ''/ui/'' InputNone)]"]
  show ?thesis by (simp add: s_def demo_request_def demo_cookie)
qed

theorem urlencoded_roundtrip_witness: "percent_decode (urlencoded ''/api/config?x=1 %'') = ''/api/config?x=1 %''"
  by (rule urlencoded_roundtrip) simp

theorem urlencoded_safe_witness: "url_safe (CHR ''%'')"
proof -
  have "CHR ''%'' \<in> set (urlencoded '' '')"
    by code_simp
  then show ?thesis by (rule urlencoded_safe)
qed

theorem half_credentials_open_witness:
  "auth_admits 0 (new_web_server (demo_webui\<lparr>username := None\<rparr>) demo_world) (demo_request ''PUT'' ''/api/config'' InputNone)"
  by (rule half_credentials_open) simp

end
