(* ===== verification/DebugLog.thy ===== *)
theory DebugLog
  imports Metrics ConfigTypes "HOL-Library.Sublist"
begin

text \<open>
  The debug logger (\<open>src/metrics/debug_logger.rs\<close>, first half): its events, the bounded channel to the
  writer thread, the level filter, and the text of a line in the two formats.  The printers of the
  standard library and of \<open>serde_json\<close> a line uses for a float, a header list, upper case and a JSON
  value are parameters (\<open>log_printer\<close>).  A time is a number of nanoseconds since the epoch.
\<close>

section \<open>Events\<close>

record debug_log_event =
  ev_timestamp :: nat
  ev_level :: debug_log_level
  ev_request_id :: string
  ev_backend :: string
  ev_status :: "u16 option"
  ev_latency_ms :: "u64 option"
  ev_ttfb_ms :: "u64 option"
  ev_request_bytes :: u64
  ev_response_bytes :: u64
  ev_request_analysis :: "request_analysis option"
  ev_response_analysis :: "response_analysis option"
  ev_routing_decision :: "routing_decision option"
  ev_request_meta :: "request_meta option"
  ev_response_meta :: "response_meta option"

record aux_log_event =
  ax_timestamp :: nat
  ax_operation :: string
  ax_status :: "u16 option"
  ax_latency_ms :: "u64 option"
  ax_message :: "string option"
  ax_error :: "string option"
  ax_request_body :: "string option"
  ax_response_body :: "string option"

datatype log_event = LogRequest debug_log_event | LogAuxiliary aux_log_event

definition event_from_record :: "nat \<Rightarrow> request_record \<Rightarrow> debug_log_level \<Rightarrow> debug_log_event" where
  "event_from_record now r l =
     \<lparr>ev_timestamp = (case completed_at r of Some t \<Rightarrow> t | None \<Rightarrow> now), ev_level = l, ev_request_id = rec_id r,
      ev_backend = rec_backend r, ev_status = rec_status r, ev_latency_ms = latency_ms r, ev_ttfb_ms = ttfb_ms r,
      ev_request_bytes = request_bytes r, ev_response_bytes = response_bytes r,
      ev_request_analysis = rec_request_analysis r, ev_response_analysis = rec_response_analysis r,
      ev_routing_decision = rec_routing_decision r, ev_request_meta = rec_request_meta r,
      ev_response_meta = rec_response_meta r\<rparr>"

section \<open>The logger\<close>

definition log_channel_size :: nat where
  "log_channel_size = 512"

record debug_logger =
  lg_config :: debug_logging_config
  lg_queue :: "log_event list"

definition new_logger :: "debug_logging_config \<Rightarrow> debug_logger" where
  "new_logger c = \<lparr>lg_config = c, lg_queue = []\<rparr>"

definition log_level :: "debug_logger \<Rightarrow> debug_log_level" where
  "log_level l = level (lg_config l)"

definition log_set_config :: "debug_logging_config \<Rightarrow> debug_logger \<Rightarrow> debug_logger" where
  "log_set_config c l = l\<lparr>lg_config := c\<rparr>"

text \<open>\<open>log_try_send\<close> on the bounded channel: an event that finds it full is dropped.\<close>

definition log_try_send :: "log_event \<Rightarrow> debug_logger \<Rightarrow> debug_logger" where
  "log_try_send e l = (if length (lg_queue l) < log_channel_size then l\<lparr>lg_queue := lg_queue l @ [e]\<rparr> else l)"

definition log_auxiliary ::
    "nat \<Rightarrow> string \<Rightarrow> u16 option \<Rightarrow> u64 option \<Rightarrow> string option \<Rightarrow> string option \<Rightarrow> debug_logger \<Rightarrow> debug_logger" where
  "log_auxiliary now operation st latency message err l =
     (if log_level l = LevelOff then l
      else log_try_send (LogAuxiliary \<lparr>ax_timestamp = now, ax_operation = operation, ax_status = st, ax_latency_ms = latency,
             ax_message = message, ax_error = err, ax_request_body = None, ax_response_body = None\<rparr>) l)"

definition log_post_response :: "nat \<Rightarrow> request_record \<Rightarrow> debug_logger \<Rightarrow> debug_logger" where
  "log_post_response now r l =
     (if log_level l = LevelOff then l else log_try_send (LogRequest (event_from_record now r (log_level l))) l)"

text \<open>The global logger is set once; before that a message goes nowhere.\<close>

definition init_global_logger :: "debug_logger \<Rightarrow> debug_logger option \<Rightarrow> debug_logger option" where
  "init_global_logger l g = (case g of Some l' \<Rightarrow> Some l' | None \<Rightarrow> Some l)"

definition app_log :: "nat \<Rightarrow> string \<Rightarrow> string \<Rightarrow> debug_logger option \<Rightarrow> debug_logger option" where
  "app_log now operation message g = map_option (log_auxiliary now operation None None (Some message) None) g"

definition app_log_error :: "nat \<Rightarrow> string \<Rightarrow> string \<Rightarrow> string \<Rightarrow> debug_logger option \<Rightarrow> debug_logger option" where
  "app_log_error now operation message err g =
     map_option (log_auxiliary now operation None None (Some message) (Some err)) g"

section \<open>Console lines\<close>

record log_printer =
  lp_cost :: "f64 \<Rightarrow> string"
  lp_headers :: "(string \<times> string) list \<Rightarrow> string"
  lp_upper :: "string \<Rightarrow> string"
  lp_json :: "json \<Rightarrow> string"

definition dash :: string where
  "dash = ''-''"

definition newline :: char where
  "newline = CHR 0x0A"

definition sgr :: "string \<Rightarrow> string \<Rightarrow> string" where
  "sgr color s = CHR 0x1B # ''['' @ color @ ''m'' @ s @ CHR 0x1B # ''[0m''"

definition format_timestamp :: "nat \<Rightarrow> string" where
  "format_timestamp t = show_nat (t div 10 ^ 9) @ ''.'' @ show_nat (t mod 10 ^ 9 div 10 ^ 6)"

definition show_opt :: "('a :: len) word option \<Rightarrow> string" where
  "show_opt x = (case x of Some v \<Rightarrow> show_nat (unat v) | None \<Rightarrow> dash)"

definition colorize_status :: "string \<Rightarrow> u16 option \<Rightarrow> string" where
  "colorize_status v st =
     (let n = (case st of Some s \<Rightarrow> unat s | None \<Rightarrow> 0);
          color = (if 200 \<le> n \<and> n \<le> 299 then ''32'' else if 300 \<le> n \<and> n \<le> 499 then ''33''
                   else if 500 \<le> n \<and> n \<le> 599 then ''31'' else ''0'')
      in if color = ''0'' then v else sgr color v)"

definition format_status_line :: "u16 option \<Rightarrow> u64 option \<Rightarrow> bool \<Rightarrow> string \<times> string" where
  "format_status_line st latency use_color =
     ((if use_color then (case st of Some s \<Rightarrow> colorize_status (show_nat (unat s)) st | None \<Rightarrow> dash) else show_opt st),
      show_opt latency)"

definition or_dash :: "string option \<Rightarrow> string" where
  "or_dash x = (case x of Some v \<Rightarrow> v | None \<Rightarrow> dash)"

definition tokens_summary :: "log_printer \<Rightarrow> debug_log_event \<Rightarrow> string \<times> string \<times> string \<times> string" where
  "tokens_summary pr e =
     (let rp = ev_response_analysis e;
          measured = Option.bind rp rp_input_tokens;
          estimated = Option.bind (ev_request_analysis e) ra_estimated_input_tokens
      in (show_opt (case measured of Some t \<Rightarrow> Some t | None \<Rightarrow> estimated),
          show_opt (Option.bind rp rp_output_tokens),
          or_dash (Option.bind rp rp_stop_reason),
          or_dash (map_option (lp_cost pr) (Option.bind rp rp_cost_usd))))"

definition path_with_query :: "string \<Rightarrow> string option \<Rightarrow> string" where
  "path_with_query path q = (case q of Some v \<Rightarrow> if v \<noteq> [] then path @ ''?'' @ v else path | None \<Rightarrow> path)"

definition console_head :: "debug_log_event \<Rightarrow> bool \<Rightarrow> string" where
  "console_head e use_color =
     (let (m, p, q) = (case ev_request_meta e of Some x \<Rightarrow> (rm_method x, rm_path x, rm_query x) | None \<Rightarrow> (dash, dash, None));
          (st, latency) = format_status_line (ev_status e) (ev_latency_ms e) use_color
      in format_timestamp (ev_timestamp e) @ '' '' @ m @ '' '' @ path_with_query p q @ '' backend='' @ ev_backend e
         @ '' status='' @ st @ '' latency_ms='' @ latency)"

definition console_verbose :: "log_printer \<Rightarrow> debug_log_event \<Rightarrow> string" where
  "console_verbose pr e =
     (let (inp, out, stop, cost) = tokens_summary pr e in
      newline # ''model='' @ or_dash (Option.bind (ev_request_analysis e) ra_model)
      @ '' input_tokens='' @ inp @ '' output_tokens='' @ out
      @ '' images='' @ show_nat (case ev_request_analysis e of Some a \<Rightarrow> unat (ra_image_count a) | None \<Rightarrow> 0)
      @ '' stop_reason='' @ stop
      @ '' routing='' @ or_dash (map_option (\<lambda>d. dec_backend d @ '':'' @ dec_reason d) (ev_routing_decision e))
      @ '' cost_usd='' @ cost)"

definition preview_part :: "string \<Rightarrow> ('a \<Rightarrow> string) \<Rightarrow> 'a option \<Rightarrow> string" where
  "preview_part label f x = (case x of Some v \<Rightarrow> newline # label @ f v | None \<Rightarrow> [])"

definition console_full :: "log_printer \<Rightarrow> debug_log_event \<Rightarrow> string" where
  "console_full pr e =
     (case ev_request_meta e of
        Some m \<Rightarrow> preview_part ''request_headers='' (lp_headers pr) (rm_headers m)
                  @ preview_part ''request_body_preview='' (\<lambda>s. s) (rm_body_preview m)
      | None \<Rightarrow> [])
     @ (case ev_response_meta e of
          Some m \<Rightarrow> preview_part ''response_headers='' (lp_headers pr) (pm_headers m)
                    @ preview_part ''response_body_preview='' (\<lambda>s. s) (pm_body_preview m)
        | None \<Rightarrow> [])"

definition format_console :: "log_printer \<Rightarrow> debug_log_event \<Rightarrow> debug_log_level \<Rightarrow> bool \<Rightarrow> string" where
  "format_console pr e l use_color =
     console_head e use_color
     @ (if LevelVerbose \<le> l then console_verbose pr e else [])
     @ (if LevelFull \<le> l then console_full pr e else [])"

definition separator_line :: string where
  "separator_line = concat (replicate 71 [CHR 0xE2, CHR 0x94, CHR 0x80])"

definition indent_text :: "string \<Rightarrow> nat \<Rightarrow> string" where
  "indent_text s n = str_join [newline] (map (\<lambda>l. replicate n (CHR '' '') @ l) (str_lines s))"

definition format_auxiliary_console :: "log_printer \<Rightarrow> aux_log_event \<Rightarrow> bool \<Rightarrow> string" where
  "format_auxiliary_console pr e use_color =
     (let (st, latency) = format_status_line (ax_status e) (ax_latency_ms e) use_color;
          op = ''['' @ lp_upper pr (ax_operation e) @ '']''
      in (if use_color then sgr ''36'' separator_line else separator_line)
         @ newline # format_timestamp (ax_timestamp e) @ '' '' @ (if use_color then sgr ''1;33'' op else op)
         @ '' status='' @ st @ '' latency_ms='' @ latency
         @ preview_part ''  message: '' (\<lambda>s. s) (ax_message e)
         @ preview_part ''  error: '' (\<lambda>s. if use_color then sgr ''31'' s else s) (ax_error e)
         @ preview_part ''  request_body:'' (\<lambda>s. newline # indent_text s 4) (ax_request_body e)
         @ preview_part ''  response_body:'' (\<lambda>s. newline # indent_text s 4) (ax_response_body e))"

section \<open>JSON lines\<close>

definition jopt :: "('a \<Rightarrow> json) \<Rightarrow> 'a option \<Rightarrow> json" where
  "jopt f x = (case x of Some v \<Rightarrow> f v | None \<Rightarrow> JNull)"

definition jword :: "('a :: len) word \<Rightarrow> json" where
  "jword w = JNum (PosInt (of_nat (unat w)))"

definition jheaders :: "(string \<times> string) list \<Rightarrow> json" where
  "jheaders hs = JArr (map (\<lambda>(n, v). JArr [JStr n, JStr v]) hs)"

definition json_of_request_meta :: "request_meta \<Rightarrow> json" where
  "json_of_request_meta m = JObj
     [(''method'', JStr (rm_method m)), (''path'', JStr (rm_path m)), (''query'', jopt JStr (rm_query m)),
      (''headers'', jopt jheaders (rm_headers m)), (''body_preview'', jopt JStr (rm_body_preview m))]"

definition json_of_response_meta :: "response_meta \<Rightarrow> json" where
  "json_of_response_meta m = JObj
     [(''headers'', jopt jheaders (pm_headers m)), (''body_preview'', jopt JStr (pm_body_preview m))]"

fun level_name :: "debug_log_level \<Rightarrow> string" where
  "level_name LevelOff = ''off''"
| "level_name LevelBasic = ''basic''"
| "level_name LevelVerbose = ''verbose''"
| "level_name LevelFull = ''full''"

definition json_line :: "log_printer \<Rightarrow> debug_log_event \<Rightarrow> debug_log_level \<Rightarrow> json" where
  "json_line pr e l =
     (let (m, p, q) = (case ev_request_meta e of Some x \<Rightarrow> (rm_method x, rm_path x, rm_query x) | None \<Rightarrow> (dash, dash, None));
          (inp, out, stop, cost) = tokens_summary pr e
      in JObj [(''ts'', JStr (format_timestamp (ev_timestamp e))), (''level'', JStr (level_name l)),
           (''request_id'', JStr (ev_request_id e)), (''method'', JStr m), (''path'', JStr p), (''query'', jopt JStr q),
           (''backend'', JStr (ev_backend e)), (''status'', jopt jword (ev_status e)),
           (''latency_ms'', jopt jword (ev_latency_ms e)), (''ttfb_ms'', jopt jword (ev_ttfb_ms e)),
           (''request_bytes'', jword (ev_request_bytes e)), (''response_bytes'', jword (ev_response_bytes e)),
           (''model'', jopt JStr (Option.bind (ev_request_analysis e) ra_model)),
           (''input_tokens'', JStr inp), (''output_tokens'', JStr out),
           (''images'', jopt (\<lambda>a. jword (ra_image_count a)) (ev_request_analysis e)),
           (''stop_reason'', JStr stop),
           (''routing'', jopt (\<lambda>d. JObj [(''backend'', JStr (dec_backend d)), (''reason'', JStr (dec_reason d))])
              (ev_routing_decision e)),
           (''cost_usd'', JStr cost), (''request'', jopt json_of_request_meta (ev_request_meta e)),
           (''response'', jopt json_of_response_meta (ev_response_meta e))])"

definition format_json :: "log_printer \<Rightarrow> debug_log_event \<Rightarrow> debug_log_level \<Rightarrow> string" where
  "format_json pr e l = lp_json pr (json_line pr e l)"

definition format_auxiliary_json :: "log_printer \<Rightarrow> aux_log_event \<Rightarrow> string" where
  "format_auxiliary_json pr e = lp_json pr (JObj
     [(''ts'', JStr (format_timestamp (ax_timestamp e))), (''type'', JStr ''auxiliary''),
      (''operation'', JStr (ax_operation e)), (''status'', jopt jword (ax_status e)),
      (''latency_ms'', jopt jword (ax_latency_ms e)), (''message'', jopt JStr (ax_message e)),
      (''error'', jopt JStr (ax_error e)), (''request_body'', jopt JStr (ax_request_body e)),
      (''response_body'', jopt JStr (ax_response_body e))])"

section \<open>One event of the writer\<close>

text \<open>The console's and the file's line; nothing when the level has been turned off since.\<close>

definition event_lines :: "log_printer \<Rightarrow> bool \<Rightarrow> debug_logging_config \<Rightarrow> log_event \<Rightarrow> (string \<times> string) option" where
  "event_lines pr is_terminal c e =
     (let use_color = (is_terminal \<and> log_format c = FormatConsole) in
      if level c = LevelOff then None
      else case e of
        LogRequest r \<Rightarrow>
          (let l = min (ev_level r) (level c) in
           case log_format c of
             FormatConsole \<Rightarrow> Some (format_console pr r l use_color, format_console pr r l False)
           | FormatJson \<Rightarrow> (let line = format_json pr r l in Some (line, line)))
      | LogAuxiliary a \<Rightarrow>
          (case log_format c of
             FormatConsole \<Rightarrow> Some (format_auxiliary_console pr a use_color, format_auxiliary_console pr a False)
           | FormatJson \<Rightarrow> (let line = format_auxiliary_json pr a in Some (line, line))))"

end
