(* ===== verification/LogFile.thy ===== *)
theory LogFile
  imports DebugLog "HOL-Library.Option_ord"
begin

text \<open>
  The debug logger, second half (\<open>src/metrics/debug_logger.rs\<close>): the file behind the writer thread, its rotation
  by size and by day, the pruning of rotated files, the clean-up of old session logs, and the writer loop;
  with the path a session's log gets (\<open>run\<close> in \<open>src/ui/runtime.rs\<close>).  The directory of the log is the list of
  its entries in the order \<open>read_dir\<close> gives them.  An open file is known by the name its inode has, if
  any: a file can be written after its name is gone.
\<close>

section \<open>The directory\<close>

record log_entry =
  le_content :: string
  le_modified :: "nat option"

type_synonym log_dir = "(string \<times> log_entry) list"

definition fresh_entry :: "nat \<Rightarrow> log_entry" where
  "fresh_entry now = \<lparr>le_content = [], le_modified = Some now\<rparr>"

text \<open>Appending through an open file; without a name the text is lost with the inode.\<close>

definition append_file :: "nat \<Rightarrow> string option \<Rightarrow> string \<Rightarrow> log_dir \<Rightarrow> log_dir" where
  "append_file now h s d =
     (case h of
        None \<Rightarrow> d
      | Some n \<Rightarrow> (case map_of d n of
          Some e \<Rightarrow> AList.update n \<lparr>le_content = le_content e @ s, le_modified = Some now\<rparr> d
        | None \<Rightarrow> d))"

definition rename_file :: "string \<Rightarrow> string \<Rightarrow> log_dir \<Rightarrow> log_dir" where
  "rename_file a b d =
     (case map_of d a of Some e \<Rightarrow> AList.update b e (AList.delete a d) | None \<Rightarrow> d)"

section \<open>The rotating file\<close>

record rotating_file =
  rf_name :: string
  rf_mode :: debug_rotation_mode
  rf_max_bytes :: u64
  rf_max_files :: nat
  rf_size :: u64
  rf_day :: "nat option"
  rf_handle :: "string option"
  rf_listable :: bool

text \<open>A path without a directory part has the empty path as its parent, which cannot be listed: \<open>rf_listable\<close>
  is false and nothing is ever pruned.\<close>

definition current_day :: "nat \<Rightarrow> nat" where
  "current_day now = now div 10 ^ 9 div 86400"

definition rotated_name :: "nat \<Rightarrow> string \<Rightarrow> string" where
  "rotated_name now base = base @ ''.'' @ show_nat (now div 10 ^ 9)"

text \<open>The entries whose name starts with the log's, oldest first; a file without a time counts as oldest.\<close>

definition rotated_entries :: "string \<Rightarrow> log_dir \<Rightarrow> log_dir" where
  "rotated_entries base d = sort_key (\<lambda>(_, e). le_modified e) (filter (\<lambda>(n, _). str_starts base n) d)"

definition pruned_names :: "string \<Rightarrow> nat \<Rightarrow> log_dir \<Rightarrow> string list" where
  "pruned_names base keep d =
     (let es = rotated_entries base d in if length es \<le> keep then [] else map fst (take (length es - keep) es))"

definition remove_names :: "string list \<Rightarrow> log_dir \<Rightarrow> log_dir" where
  "remove_names ns d = filter (\<lambda>(n, _). n \<notin> set ns) d"

definition cleanup_rotated :: "string \<Rightarrow> nat \<Rightarrow> log_dir \<Rightarrow> log_dir" where
  "cleanup_rotated base keep d = remove_names (pruned_names base keep d) d"

text \<open>Whether a write of \<open>incoming\<close> bytes rotates first, and the file with the day it remembers.\<close>

definition rotation_due :: "nat \<Rightarrow> u64 \<Rightarrow> rotating_file \<Rightarrow> bool \<times> rotating_file" where
  "rotation_due now incoming f =
     (case rf_mode f of
        RotationNone \<Rightarrow> (False, f)
      | RotationSize \<Rightarrow> (\<not> rf_size f + incoming \<le> rf_max_bytes f, f)
      | RotationDaily \<Rightarrow>
          (case rf_day f of
             None \<Rightarrow> (False, f\<lparr>rf_day := Some (current_day now)\<rparr>)
           | Some day \<Rightarrow>
               if day = current_day now then (False, f) else (True, f\<lparr>rf_day := Some (current_day now)\<rparr>)))"

text \<open>The renaming may fail unnoticed; a failing creation ends the call with the old file still open.\<close>

record rotation_io =
  ri_rename_ok :: bool
  ri_create_ok :: bool

definition rotate ::
    "rotation_io \<Rightarrow> nat \<Rightarrow> rotating_file \<Rightarrow> log_dir \<Rightarrow> bool \<times> rotating_file \<times> log_dir" where
  "rotate io now f d =
     (let to = rotated_name now (rf_name f);
          d1 = (if ri_rename_ok io then rename_file (rf_name f) to d else d);
          h1 = (if ri_rename_ok io \<and> rf_handle f = Some (rf_name f) then Some to
                else if ri_rename_ok io \<and> rf_handle f = Some to \<and> map_of d (rf_name f) \<noteq> None then None
                else rf_handle f)
      in if \<not> ri_create_ok io then (False, f\<lparr>rf_handle := h1\<rparr>, d1)
         else
           let d2 = AList.update (rf_name f) (fresh_entry now) d1;
               gone = (if rf_listable f then pruned_names (rf_name f) (rf_max_files f) d2 else [])
           in (True, f\<lparr>rf_size := 0, rf_handle := (if rf_name f \<in> set gone then None else Some (rf_name f))\<rparr>,
               remove_names gone d2))"

definition rotate_if_needed ::
    "rotation_io \<Rightarrow> nat \<Rightarrow> u64 \<Rightarrow> rotating_file \<Rightarrow> log_dir \<Rightarrow> bool \<times> rotating_file \<times> log_dir" where
  "rotate_if_needed io now incoming f d =
     (case rotation_due now incoming f of
        (False, f1) \<Rightarrow> (True, f1, d)
      | (True, f1) \<Rightarrow> rotate io now f1 d)"

definition write_line :: "rotation_io \<Rightarrow> nat \<Rightarrow> string \<Rightarrow> rotating_file \<times> log_dir \<Rightarrow> rotating_file \<times> log_dir" where
  "write_line io now line = (\<lambda>(f, d).
     case rotate_if_needed io now (of_nat (length line)) f d of
       (False, f1, d1) \<Rightarrow> (f1, d1)
     | (True, f1, d1) \<Rightarrow>
         (f1\<lparr>rf_size := sat_add (rf_size f1) (of_nat (length line) + 1)\<rparr>,
          append_file now (rf_handle f1) (line @ [newline]) d1))"

section \<open>Old session logs\<close>

definition session_log_days :: nat where
  "session_log_days = 7"

definition log_base :: "string \<Rightarrow> string" where
  "log_base n = hd (split_on (\<lambda>c. c = CHR ''.'') n)"

text \<open>\<open>debug.{session}.log\<close> and its rotated forms.\<close>

definition is_session_log :: "string \<Rightarrow> string \<Rightarrow> bool" where
  "is_session_log base n =
     (case split_on (\<lambda>c. c = CHR ''.'') n of
        [b, _, ext] \<Rightarrow> b = base \<and> ext = ''log''
      | [b, _, ext, _] \<Rightarrow> b = base \<and> ext = ''log''
      | _ \<Rightarrow> False)"

definition is_stale :: "nat \<Rightarrow> log_entry \<Rightarrow> bool" where
  "is_stale now e =
     (case le_modified e of Some t \<Rightarrow> t < now - session_log_days * 24 * 60 * 60 * 10 ^ 9 | None \<Rightarrow> False)"

definition cleanup_old_session_logs :: "nat \<Rightarrow> string \<Rightarrow> log_dir \<Rightarrow> log_dir" where
  "cleanup_old_session_logs now current d =
     filter (\<lambda>(n, e). n = current \<or> \<not> str_starts (log_base current) n
                     \<or> \<not> is_session_log (log_base current) n \<or> \<not> is_stale now e) d"

text \<open>\<open>RotatingFile::new\<close>: opened for appending, created if missing; \<open>/dev/null\<close> if that fails.\<close>

definition open_log ::
    "bool \<Rightarrow> bool \<Rightarrow> nat \<Rightarrow> string \<Rightarrow> debug_log_rotation \<Rightarrow> log_dir \<Rightarrow> rotating_file \<times> log_dir" where
  "open_log ok listable now n r d =
     (let d1 = (if ok \<and> map_of d n = None then AList.update n (fresh_entry now) d else d);
          d2 = (if listable then cleanup_old_session_logs now n d1 else d1)
      in (\<lparr>rf_name = n, rf_mode = rotation_mode r, rf_max_bytes = max_bytes r, rf_max_files = max_files r,
           rf_size = (if ok then (case map_of d2 n of Some e \<Rightarrow> of_nat (length (le_content e)) | None \<Rightarrow> 0) else 0),
           rf_day = None, rf_handle = (if ok then Some n else None), rf_listable = listable\<rparr>, d2))"

section \<open>The path of a session's log\<close>

text \<open>\<open>rfind('.')\<close> looks at the whole path.\<close>

definition session_log_path :: "string \<Rightarrow> string \<Rightarrow> string" where
  "session_log_path path sid =
     (if sid = [] then path
      else if CHR ''.'' \<in> set path then
        (let ext = rev (takeWhile (\<lambda>c. c \<noteq> CHR ''.'') (rev path));
             stem = butlast (rev (dropWhile (\<lambda>c. c \<noteq> CHR ''.'') (rev path)))
         in stem @ ''.'' @ sid @ ''.'' @ ext)
      else path @ ''.'' @ sid)"

definition session_debug_config :: "string \<Rightarrow> debug_logging_config \<Rightarrow> debug_logging_config" where
  "session_debug_config sid c = c\<lparr>file_path := session_log_path (file_path c) sid\<rparr>"

section \<open>The writer loop\<close>

text \<open>One directory per path: the files a configuration names may lie in different ones.\<close>

record writer_state =
  ws_file :: "rotating_file option"
  ws_last_path :: "string option"
  ws_dirs :: "string \<Rightarrow> log_dir"
  ws_console :: "string list"

record writer_env =
  wv_printer :: log_printer
  wv_terminal :: bool
  wv_open_ok :: bool
  wv_io :: rotation_io
  wv_now :: nat
  wv_split :: "string \<Rightarrow> string \<times> string"

text \<open>\<open>wv_split\<close> is the directory and the file name of a path, its tilde expanded.\<close>

definition split_log_path :: "string option \<Rightarrow> string \<Rightarrow> string \<times> string" where
  "split_log_path home path =
     (let full = (case strip_prefix ''~/'' path of
                    Some rest \<Rightarrow> (case home of Some h \<Rightarrow> h @ ''/'' @ rest | None \<Rightarrow> path)
                  | None \<Rightarrow> path);
          n = rev (takeWhile (\<lambda>c. c \<noteq> CHR ''/'') (rev full))
      in (take (length full - length n) full, n))"

definition ensure_file_writer ::
    "writer_env \<Rightarrow> debug_logging_config \<Rightarrow> writer_state \<Rightarrow> writer_state" where
  "ensure_file_writer env c w =
     (if destination c = DestStderr then w\<lparr>ws_file := None\<rparr>
      else if ws_last_path w = Some (file_path c) then w
      else
        let (dir, n) = wv_split env (file_path c);
            (f, d) = open_log (wv_open_ok env) (dir \<noteq> []) (wv_now env) n (rotation c) (ws_dirs w dir)
        in w\<lparr>ws_file := Some f, ws_last_path := Some (file_path c), ws_dirs := (ws_dirs w)(dir := d)\<rparr>)"

definition write_to_file :: "writer_env \<Rightarrow> debug_logging_config \<Rightarrow> string \<Rightarrow> writer_state \<Rightarrow> writer_state" where
  "write_to_file env c line w =
     (let w1 = ensure_file_writer env c w;
          dir = fst (wv_split env (file_path c))
      in case ws_file w1 of
           None \<Rightarrow> w1
         | Some f \<Rightarrow> (case write_line (wv_io env) (wv_now env) line (f, ws_dirs w1 dir) of
             (f', d') \<Rightarrow> w1\<lparr>ws_file := Some f', ws_dirs := (ws_dirs w1)(dir := d')\<rparr>))"

definition write_console :: "string \<Rightarrow> writer_state \<Rightarrow> writer_state" where
  "write_console line w = w\<lparr>ws_console := ws_console w @ [line]\<rparr>"

definition writer_step :: "writer_env \<Rightarrow> debug_logging_config \<Rightarrow> log_event \<Rightarrow> writer_state \<Rightarrow> writer_state" where
  "writer_step env c e w =
     (case event_lines (wv_printer env) (wv_terminal env) c e of
        None \<Rightarrow> w
      | Some (console, in_file) \<Rightarrow>
          (case destination c of
             DestStderr \<Rightarrow> write_console console w
           | DestFile \<Rightarrow> write_to_file env c in_file w
           | DestBoth \<Rightarrow> write_to_file env c in_file (write_console console w)))"

text \<open>The thread takes the oldest event of the channel and reads the configuration anew for each.\<close>

definition writer_turn :: "writer_env \<Rightarrow> debug_logger \<times> writer_state \<Rightarrow> debug_logger \<times> writer_state" where
  "writer_turn env = (\<lambda>(l, w).
     case lg_queue l of
       [] \<Rightarrow> (l, w)
     | e # q \<Rightarrow> (l\<lparr>lg_queue := q\<rparr>, writer_step env (lg_config l) e w))"

end
