(* ===== verification/LogProps.thy ===== *)
theory LogProps
  imports LogFile "HOL-Library.Multiset"
begin

text \<open>
  The debug log: events are written in order and never more verbosely than asked on the console, the live file stays
  within its size, pruning keeps what it must and touches only the log's own files; and the
  cases in which lines are lost.
\<close>

section \<open>The channel\<close>

datatype logger_op =
    LogOp log_event
  | ConfigOp debug_logging_config
  | TakeOp

text \<open>The logger with the events posted and the events taken by the writer so far.\<close>

fun run_logger :: "logger_op \<Rightarrow> debug_logger \<times> log_event list \<times> log_event list
    \<Rightarrow> debug_logger \<times> log_event list \<times> log_event list" where
  "run_logger (LogOp e) (l, posted, taken) = (log_try_send e l, posted @ [e], taken)"
| "run_logger (ConfigOp c) (l, posted, taken) = (log_set_config c l, posted, taken)"
| "run_logger TakeOp (l, posted, taken) =
     (case lg_queue l of [] \<Rightarrow> (l, posted, taken) | e # q \<Rightarrow> (l\<lparr>lg_queue := q\<rparr>, posted, taken @ [e]))"

definition channel_ok :: "debug_logger \<times> log_event list \<times> log_event list \<Rightarrow> bool" where
  "channel_ok = (\<lambda>(l, posted, taken). subseq (taken @ lg_queue l) posted \<and> length (lg_queue l) \<le> log_channel_size)"

lemma run_logger_ok: "channel_ok s \<Longrightarrow> channel_ok (run_logger c s)"
proof (cases s)
  case (fields l posted taken)
  assume ok: "channel_ok s"
  have drop: "subseq xs ys \<Longrightarrow> subseq xs (ys @ zs)" for xs ys zs :: "log_event list"
    using list_emb_append_mono[of "(=)" xs ys "[]" zs] by simp
  have snoc: "subseq (xs @ [e]) (ys @ [e])" if "subseq xs ys" for xs ys :: "log_event list" and e
    using that by simp
  show ?thesis
  proof (cases c)
    case (LogOp e)
    then show ?thesis using ok drop snoc[of "taken @ lg_queue l" posted e]
      by (auto simp: fields channel_ok_def log_try_send_def)
  qed (use ok in \<open>auto simp: fields channel_ok_def log_set_config_def split: list.splits\<close>)
qed


section \<open>Verbosity\<close>

text \<open>An event without the headers and bodies it carries.\<close>

definition without_previews :: "debug_log_event \<Rightarrow> debug_log_event" where
  "without_previews e = e\<lparr>
     ev_request_meta := map_option (\<lambda>m. m\<lparr>rm_headers := None, rm_body_preview := None\<rparr>) (ev_request_meta e),
     ev_response_meta := None\<rparr>"

lemma console_head_previews: "console_head (without_previews e) uc = console_head e uc"
  by (simp add: console_head_def without_previews_def Let_def split: option.splits)

lemma console_verbose_previews: "console_verbose pr (without_previews e) = console_verbose pr e"
  by (simp add: console_verbose_def without_previews_def tokens_summary_def)

text \<open>Below the full level, recorded or configured, no header and no body reaches a console line.\<close>

theorem console_hides_previews:
  assumes "\<not> LevelFull \<le> min (ev_level e) (level c)" "log_format c = FormatConsole"
  shows "event_lines pr tty c (LogRequest e) = event_lines pr tty c (LogRequest (without_previews e))"
proof -
  define m where "m = min (ev_level e) (level c)"
  have "ev_level (without_previews e) = ev_level e" by (simp add: without_previews_def)
  moreover have "format_console pr (without_previews e) m uc = format_console pr e m uc" for uc
    using assms(1) by (simp add: m_def[symmetric] format_console_def console_head_previews console_verbose_previews)
  ultimately show ?thesis using assms(2) by (simp add: event_lines_def Let_def m_def)
qed

text \<open>A JSON line ignores the level but for printing its name: the previews are in it at every level.\<close>

theorem json_ignores_level:
  "jget ''request'' (json_line pr e l) = Some (jopt json_of_request_meta (ev_request_meta e)) \<and>
   jget ''response'' (json_line pr e l) = Some (jopt json_of_response_meta (ev_response_meta e))"
  by (auto simp: json_line_def Let_def split: prod.splits option.splits)

text \<open>The milliseconds of a timestamp are not padded: 5.007 s is printed as 5.7, before 5.010 s as 5.10.\<close>

theorem timestamp_not_padded:
  "format_timestamp 5007000000 = ''5.7'' \<and> format_timestamp 5010000000 = ''5.10''"
proof -
  have "digit_char 5 = CHR ''5''" "digit_char 7 = CHR ''7''" "digit_char 1 = CHR ''1''" "digit_char 0 = CHR ''0''"
    by code_simp+
  then show ?thesis by (simp add: format_timestamp_def show_nat.simps)
qed

section \<open>Pruning\<close>

lemma distinct_entries: "hm_ok d \<Longrightarrow> distinct (map fst (rotated_entries base d))"
proof -
  assume "hm_ok d"
  then have "distinct (map fst (filter (\<lambda>(n, _). str_starts base n) d))" by (auto simp: hm_ok_def distinct_map_filter)
  moreover have "mset (map fst (rotated_entries base d)) = mset (map fst (filter (\<lambda>(n, _). str_starts base n) d))"
    by (simp add: rotated_entries_def)
  ultimately show ?thesis using mset_eq_imp_distinct_iff by blast
qed

lemma pruned_own: "n \<in> set (pruned_names base keep d) \<Longrightarrow> str_starts base n \<and> map_of d n \<noteq> None"
  by (auto simp: pruned_names_def rotated_entries_def Let_def map_of_eq_None_iff dest!: in_set_takeD split: if_splits)

lemma lookup_remove: "n \<notin> set ns \<Longrightarrow> map_of (remove_names ns d) n = map_of d n"
  by (induction d) (auto simp: remove_names_def)

lemma lookup_removed: "n \<in> set ns \<Longrightarrow> map_of (remove_names ns d) n = None"
  by (induction d) (auto simp: remove_names_def)

lemma filter_after_take:
  "distinct (map fst es) \<Longrightarrow> filter (\<lambda>(n, _). n \<notin> set (map fst (take k es))) es = drop k es"
proof (induction es arbitrary: k)
  case (Cons e es)
  show ?case
  proof (cases k)
    case 0
    then show ?thesis by (simp add: filter_id_conv)
  next
    case (Suc j)
    have "filter (\<lambda>(n, _). n \<notin> set (map fst (take k (e # es)))) es = filter (\<lambda>(n, _). n \<notin> set (map fst (take j es))) es"
      using Cons.prems Suc by (intro filter_cong) (auto simp: image_iff)
    then show ?thesis using Cons Suc by (cases e) auto
  qed
qed simp

lemma length_filter_mset: "mset xs = mset ys \<Longrightarrow> length (filter P xs) = length (filter P ys)"
  by (metis mset_filter size_mset)

text \<open>After pruning, at most the configured number of the log's files is left, each unchanged, and no other file of
  the directory is touched.\<close>

theorem pruning_keeps_bound:
  assumes "hm_ok d"
  shows "length (filter (\<lambda>(n, _). str_starts base n) (cleanup_rotated base keep d)) \<le> keep \<and>
         (\<forall>n. \<not> str_starts base n \<longrightarrow> map_of (cleanup_rotated base keep d) n = map_of d n)"
proof
  define own where "own = filter (\<lambda>(n, _). str_starts base n) d"
  define es where "es = rotated_entries base d"
  define gone where "gone = pruned_names base keep d"
  have "mset own = mset es" by (simp add: own_def es_def rotated_entries_def)
  then have len: "length (filter (\<lambda>(n, _). n \<notin> set gone) own) = length (filter (\<lambda>(n, _). n \<notin> set gone) es)"
    by (rule length_filter_mset)
  have "length (filter (\<lambda>(n, _). n \<notin> set gone) es) \<le> keep"
  proof (cases "length es \<le> keep")
    case True
    then show ?thesis by (meson le_trans length_filter_le)
  next
    case False
    then have "gone = map fst (take (length es - keep) es)" by (simp add: gone_def pruned_names_def es_def Let_def)
    then show ?thesis using filter_after_take[OF distinct_entries[OF assms, of base], of "length es - keep"] False
      by (simp add: es_def)
  qed
  moreover have "filter (\<lambda>(n, _). str_starts base n) (cleanup_rotated base keep d) = filter (\<lambda>(n, _). n \<notin> set gone) own"
    by (auto simp: cleanup_rotated_def remove_names_def own_def gone_def intro!: filter_cong)
  ultimately show "length (filter (\<lambda>(n, _). str_starts base n) (cleanup_rotated base keep d)) \<le> keep"
    using len by simp
  show "\<forall>n. \<not> str_starts base n \<longrightarrow> map_of (cleanup_rotated base keep d) n = map_of d n"
  proof (intro allI impI)
    fix n
    assume "\<not> str_starts base n"
    then have "n \<notin> set (pruned_names base keep d)" using pruned_own by blast
    then show "map_of (cleanup_rotated base keep d) n = map_of d n" by (simp add: cleanup_rotated_def lookup_remove)
  qed
qed

section \<open>The size of the live file\<close>

definition live_ok :: "nat \<Rightarrow> rotating_file \<times> log_dir \<Rightarrow> bool" where
  "live_ok bound = (\<lambda>(f, d).
     (case map_of d (rf_name f) of
        None \<Rightarrow> rf_handle f = None
      | Some e \<Rightarrow> rf_handle f = Some (rf_name f) \<and> unat (rf_size f) = length (le_content e) \<and> length (le_content e) \<le> bound))"

definition disk_fine :: rotation_io where
  "disk_fine = \<lparr>ri_rename_ok = True, ri_create_ok = True\<rparr>"

lemma rotated_name_other: "rotated_name now base \<noteq> base"
  by (simp add: rotated_name_def)

lemma rotate_live:
  "rotate disk_fine now f d = (ok, f', d') \<Longrightarrow> ok \<and> rf_name f' = rf_name f \<and> rf_mode f' = rf_mode f
     \<and> rf_max_bytes f' = rf_max_bytes f \<and> rf_size f' = 0
     \<and> (map_of d' (rf_name f) = None \<and> rf_handle f' = None
        \<or> map_of d' (rf_name f) = Some (fresh_entry now) \<and> rf_handle f' = Some (rf_name f))"
  by (auto simp: rotate_def disk_fine_def Let_def lookup_remove lookup_removed split: if_splits)

lemma append_live: "map_of (append_file now (Some n) s d) n = map_option (\<lambda>e. \<lparr>le_content = le_content e @ s, le_modified = Some now\<rparr>) (map_of d n)"
  by (simp add: append_file_def split: option.splits)

lemma append_nowhere [simp]: "append_file now None s d = d"
  by (simp add: append_file_def)

lemma write_line_live:
  assumes "live_ok bound (f, d)" "rf_mode f = RotationSize" "length line \<le> l"
    and "bound = max (unat (rf_max_bytes f) + 1) (l + 1)" "unat (rf_max_bytes f) < 2 ^ 62" "l < 2 ^ 62"
    and w: "write_line disk_fine now line (f, d) = (f', d')"
  shows "live_ok bound (f', d') \<and> rf_mode f' = RotationSize \<and> rf_max_bytes f' = rf_max_bytes f \<and> rf_name f' = rf_name f"
proof -
  have len: "unat (of_nat (length line) :: u64) = length line"
    using assms(3,6) by (simp add: unsigned_of_nat take_bit_nat_eq_self)
  then have len: "unat (of_nat (length line) :: u64) = length line" "unat (of_nat (length line) + 1 :: u64) = length line + 1"
    using assms(3,6) by (simp_all add: unat_word_ariths(1))
  show ?thesis
  proof (cases "rf_size f + of_nat (length line) \<le> rf_max_bytes f")
    case False
    obtain ok f1 d1 where r0: "rotate disk_fine now f d = (ok, f1, d1)" by (metis prod_cases3)
    note rl = rotate_live[OF r0]
    then have r: "rotate disk_fine now f d = (True, f1, d1)" using r0 by simp
    have "write_line disk_fine now line (f, d)
        = (f1\<lparr>rf_size := sat_add (rf_size f1) (of_nat (length line) + 1)\<rparr>, append_file now (rf_handle f1) (line @ [newline]) d1)"
      using False assms(2) r by (simp add: write_line_def rotate_if_needed_def rotation_due_def)
    moreover have "rf_size f1 = 0" using rl by blast
    ultimately have w': "f' = f1\<lparr>rf_size := sat_add 0 (of_nat (length line) + 1)\<rparr>" "d' = append_file now (rf_handle f1) (line @ [newline]) d1"
      using w by simp_all
    have "unat (sat_add 0 (of_nat (length line) + 1 :: u64)) = length line + 1"
      using len assms(3,6) by (simp add: sat_simps)
    then show ?thesis using rl w' assms(2,3,4)
      by (auto simp: live_ok_def append_live fresh_entry_def)
  next
    case True
    then have w': "f' = f\<lparr>rf_size := sat_add (rf_size f) (of_nat (length line) + 1)\<rparr>"
        "d' = append_file now (rf_handle f) (line @ [newline]) d"
      using w assms(2) by (simp_all add: write_line_def rotate_if_needed_def rotation_due_def)
    show ?thesis
    proof (cases "map_of d (rf_name f)")
      case None
      then show ?thesis using assms(1,2) w' by (auto simp: live_ok_def)
    next
      case (Some e)
      have e: "rf_handle f = Some (rf_name f)" "unat (rf_size f) = length (le_content e)" "length (le_content e) \<le> bound"
        using assms(1) Some by (auto simp: live_ok_def)
      have small: "length (le_content e) + length line + 1 < 2 ^ 64" using e(3) assms(3-6) by auto
      then have "unat (rf_size f + of_nat (length line)) = length (le_content e) + length line"
        using e(2) len(1) by (simp add: unat_word_ariths(1))
      then have fit: "length (le_content e) + length line \<le> unat (rf_max_bytes f)"
        using True by (simp add: word_le_nat_alt)
      have "unat (sat_add (rf_size f) (of_nat (length line) + 1)) = length (le_content e) + length line + 1"
        using e(2) len(2) small by (simp add: sat_simps)
      then show ?thesis using fit e w' Some assms(2,4) by (auto simp: live_ok_def append_live)
    qed
  qed
qed

lemma filter_keeps_key: "(\<And>e. P (n, e)) \<Longrightarrow> map_of (filter P d) n = map_of d n"
  by (induction d) auto

lemma cleanup_keeps_current: "map_of (cleanup_old_session_logs now n d) n = map_of d n"
  unfolding cleanup_old_session_logs_def by (rule filter_keeps_key) simp

lemma open_log_live:
  assumes "\<forall>e. map_of d n = Some e \<longrightarrow> length (le_content e) \<le> bound" "bound < 2 ^ 63"
    and "open_log True listable t n r d = (f, d')"
  shows "live_ok bound (f, d') \<and> rf_mode f = rotation_mode r \<and> rf_max_bytes f = max_bytes r \<and> rf_name f = n"
proof (cases "map_of d n")
  case None
  then show ?thesis using assms(3)
    by (auto simp: open_log_def Let_def live_ok_def cleanup_keeps_current fresh_entry_def split: if_splits)
next
  case (Some e)
  have b: "length (le_content e) \<le> bound" using assms(1) Some by blast
  then have "unat (of_nat (length (le_content e)) :: u64) = length (le_content e)"
    using assms(2) by (simp add: unsigned_of_nat take_bit_nat_eq_self)
  then show ?thesis using assms(3) Some b
    by (auto simp: open_log_def Let_def live_ok_def cleanup_keeps_current split: if_splits)
qed

definition write_lines :: "(nat \<times> string) list \<Rightarrow> rotating_file \<times> log_dir \<Rightarrow> rotating_file \<times> log_dir" where
  "write_lines ls = fold (\<lambda>(now, line). write_line disk_fine now line) ls"

text \<open>C24: with rotation by size, the live file is never longer than the limit and one line feed, or than one line: whatever is
  written and whenever, starting from a log within those bounds.\<close>

theorem live_log_bounded:
  assumes "\<forall>(now, line) \<in> set ls. length line \<le> l" "l < 2 ^ 62" "unat (max_bytes r) < 2 ^ 62" "rotation_mode r = RotationSize"
    and "\<forall>e. map_of d n = Some e \<longrightarrow> length (le_content e) \<le> max (unat (max_bytes r) + 1) (l + 1)"
    and "write_lines ls (open_log True listable t n r d) = (f', d')"
  shows "\<forall>e. map_of d' n = Some e \<longrightarrow> length (le_content e) \<le> max (unat (max_bytes r) + 1) (l + 1)"
proof -
  define bound where "bound = max (unat (max_bytes r) + 1) (l + 1)"
  have run: "live_ok bound (f, d) \<Longrightarrow> rf_mode f = RotationSize \<Longrightarrow> rf_max_bytes f = max_bytes r \<Longrightarrow> rf_name f = n \<Longrightarrow>
      write_lines ls (f, d) = (f', d') \<Longrightarrow> live_ok bound (f', d') \<and> rf_name f' = n" for f d
    using assms(1)
  proof (induction ls arbitrary: f d)
    case (Cons x ls)
    obtain now line where x: "x = (now, line)" by fastforce
    obtain f1 d1 where w: "write_line disk_fine now line (f, d) = (f1, d1)" by fastforce
    note s = write_line_live[OF Cons.prems(1,2) _ _ _ _ w, of l]
    have "live_ok bound (f1, d1) \<and> rf_mode f1 = RotationSize \<and> rf_max_bytes f1 = rf_max_bytes f \<and> rf_name f1 = rf_name f"
      using s Cons.prems(3,6) assms(2,3) x by (auto simp: bound_def)
    then show ?case using Cons.IH[of f1 d1] Cons.prems w x by (simp add: write_lines_def)
  qed (simp add: write_lines_def)
  obtain f0 d0 where o: "open_log True listable t n r d = (f0, d0)" by fastforce
  have "live_ok bound (f0, d0) \<and> rf_mode f0 = RotationSize \<and> rf_max_bytes f0 = max_bytes r \<and> rf_name f0 = n"
    using open_log_live[OF assms(5) _ o] assms(2,3,4) by (simp add: bound_def)
  then show ?thesis using run[of f0 d0] assms(6) o by (auto simp: live_ok_def bound_def split: option.splits)
qed

section \<open>What a rotation keeps and what it loses\<close>

lemma length_update_le: "length (AList.update k v m) \<le> length m + 1"
  by (induction m) auto

lemma length_rename_le: "length (rename_file a b d) \<le> length d + 1"
proof (cases "map_of d a")
  case (Some e)
  have "length (AList.delete a d) \<le> length d" by (simp add: length_delete_le)
  then show ?thesis using Some length_update_le[of b e "AList.delete a d"] by (simp add: rename_file_def)
qed (simp add: rename_file_def)

lemma no_pruning: "length d \<le> keep \<Longrightarrow> pruned_names base keep d = []"
proof -
  have "length (rotated_entries base d) \<le> length d" by (simp add: rotated_entries_def)
  then show "length d \<le> keep \<Longrightarrow> pruned_names base keep d = []" by (simp add: pruned_names_def Let_def)
qed

lemma remove_none [simp]: "remove_names [] d = d"
  by (simp add: remove_names_def)

text \<open>With room for one more file, a rotation moves the live file's content under the dated name, starts an empty live
  file, and changes no other file.\<close>

lemma rotate_room:
  assumes "length d + 2 \<le> rf_max_files f" "map_of d (rf_name f) = Some e" "rotate disk_fine now f d = (ok, f', d')"
  shows "map_of d' (rotated_name now (rf_name f)) = Some e \<and> map_of d' (rf_name f) = Some (fresh_entry now)
       \<and> (\<forall>n. n \<notin> {rf_name f, rotated_name now (rf_name f)} \<longrightarrow> map_of d' n = map_of d n)
       \<and> rf_name f' = rf_name f \<and> rf_max_files f' = rf_max_files f \<and> length d' \<le> length d + 2"
proof -
  define d2 where "d2 = AList.update (rf_name f) (fresh_entry now) (rename_file (rf_name f) (rotated_name now (rf_name f)) d)"
  have len: "length d2 \<le> length d + 2"
    using length_update_le[of "rf_name f" "fresh_entry now" "rename_file (rf_name f) (rotated_name now (rf_name f)) d"]
      length_rename_le[of "rf_name f" "rotated_name now (rf_name f)" d] unfolding d2_def by linarith
  then have "pruned_names (rf_name f) (rf_max_files f) d2 = []" using assms(1) by (intro no_pruning) simp
  then have "d' = d2 \<and> rf_name f' = rf_name f \<and> rf_max_files f' = rf_max_files f"
    using assms(3) by (auto simp: rotate_def disk_fine_def Let_def d2_def split: if_splits)
  then show ?thesis using assms(2) len by (auto simp: d2_def rename_file_def rotated_name_other)
qed

theorem rotation_moves_live_file:
  assumes "length d + 2 \<le> rf_max_files f" "map_of d (rf_name f) = Some e" "rotate disk_fine now f d = (ok, f', d')"
  shows "map_of d' (rotated_name now (rf_name f)) = Some e \<and> map_of d' (rf_name f) = Some (fresh_entry now)
       \<and> (\<forall>n. n \<notin> {rf_name f, rotated_name now (rf_name f)} \<longrightarrow> map_of d' n = map_of d n)"
  using rotate_room[OF assms] by blast

text \<open>The dated name has a resolution of one second: a second rotation within it replaces what the first one
  saved.\<close>

theorem same_second_rotation_loses:
  assumes "length d + 4 \<le> rf_max_files f" "map_of d (rf_name f) = Some e" "rotate disk_fine now f d = (ok, f1, d1)"
    and "now' div 10 ^ 9 = now div 10 ^ 9" "rotate disk_fine now' f1 (append_file t (Some (rf_name f)) s d1) = (ok', f2, d2)"
  shows "map_of d2 (rotated_name now (rf_name f)) = Some \<lparr>le_content = s, le_modified = Some t\<rparr>"
proof -
  have r1: "map_of d1 (rf_name f) = Some (fresh_entry now)" "rf_name f1 = rf_name f" "rf_max_files f1 = rf_max_files f"
      "length d1 \<le> length d + 2"
    using rotate_room[OF _ assms(2,3)] assms(1) by auto
  define da where "da = append_file t (Some (rf_name f)) s d1"
  have "length (AList.update k v m) = length m" if "map_of m k \<noteq> None" for k v and m :: log_dir
    using that by (induction m) auto
  then have "length da = length d1" using r1(1) by (simp add: da_def append_file_def)
  moreover have "map_of da (rf_name f1) = Some \<lparr>le_content = s, le_modified = Some t\<rparr>"
    using r1 by (simp add: da_def append_live fresh_entry_def)
  moreover have "rotated_name now' (rf_name f1) = rotated_name now (rf_name f)"
    using assms(4) r1(2) by (simp add: rotated_name_def)
  ultimately show ?thesis using rotate_room[of da f1 _ now' ok' f2 d2] assms(1,5) r1 by (auto simp: da_def)
qed

text \<open>With \<open>max_files\<close> zero the pruning removes the file just created, and what is written until the next rotation is
  lost.\<close>

theorem no_files_kept_loses_lines:
  assumes "rf_max_files f = 0" "rf_listable f" "rotate disk_fine now f d = (ok, f', d')"
  shows "map_of d' (rf_name f) = None \<and> append_file t (rf_handle f') s d' = d'"
proof -
  define d2 where "d2 = AList.update (rf_name f) (fresh_entry now) (rename_file (rf_name f) (rotated_name now (rf_name f)) d)"
  have "(rf_name f, fresh_entry now) \<in> set (rotated_entries (rf_name f) d2)"
  proof -
    have "map_of d2 (rf_name f) = Some (fresh_entry now)" by (simp add: d2_def)
    moreover have "str_starts (rf_name f) (rf_name f)" using str_starts_append[of "rf_name f" "[]"] by simp
    ultimately show ?thesis by (auto simp: rotated_entries_def dest: map_of_SomeD)
  qed
  then have "rf_name f \<in> set (pruned_names (rf_name f) 0 d2)"
    by (auto simp: pruned_names_def Let_def image_iff intro: bexI[of _ "(rf_name f, fresh_entry now)"])
  then show ?thesis using assms
    by (auto simp: rotate_def disk_fine_def Let_def d2_def lookup_removed)
qed

section \<open>Old session logs\<close>

text \<open>Opening a session's log removes only files named like the log of another session and untouched for a week.\<close>

theorem session_cleanup_safe:
  assumes "hm_ok d" "map_of d n = Some e" "map_of (cleanup_old_session_logs now current d) n = None"
  shows "n \<noteq> current \<and> is_session_log (log_base current) n \<and> is_stale now e"
proof (rule ccontr)
  assume no: "\<not> ?thesis"
  have "(n, e) \<in> set (cleanup_old_session_logs now current d)"
    using no map_of_SomeD[OF assms(2)] by (auto simp: cleanup_old_session_logs_def)
  then show False using assms(3) by (force simp: map_of_eq_None_iff)
qed

lemma split_dots:
  "CHR ''.'' \<notin> set a \<Longrightarrow> split_on (\<lambda>c. c = CHR ''.'') (a @ ''.'' @ r) = a # split_on (\<lambda>c. c = CHR ''.'') r"
  using split_on_append_sep[of a "\<lambda>c. c = CHR ''.''" "CHR ''.''" r] by auto

lemma split_no_dot: "CHR ''.'' \<notin> set a \<Longrightarrow> split_on (\<lambda>c. c = CHR ''.'') a = [a]"
  by (rule split_on_no_sep) auto

lemma session_log_path_ext:
  "sid \<noteq> [] \<Longrightarrow> CHR ''.'' \<notin> set ext \<Longrightarrow> session_log_path (stem @ ''.'' @ ext) sid = stem @ ''.'' @ sid @ ''.'' @ ext"
proof -
  assume s: "sid \<noteq> []" "CHR ''.'' \<notin> set ext"
  then have no: "\<And>c. c \<in> set (rev ext) \<Longrightarrow> c \<noteq> CHR ''.''" by auto
  have "takeWhile (\<lambda>c. c \<noteq> CHR ''.'') (rev ext @ CHR ''.'' # rev stem) = rev ext"
    "dropWhile (\<lambda>c. c \<noteq> CHR ''.'') (rev ext @ CHR ''.'' # rev stem) = CHR ''.'' # rev stem"
    using takeWhile_append2[of "rev ext" "\<lambda>c. c \<noteq> CHR ''.''"] dropWhile_append2[of "rev ext" "\<lambda>c. c \<noteq> CHR ''.''"] no by simp_all
  then show ?thesis using s by (simp add: session_log_path_def Let_def)
qed

text \<open>The logs of other sessions of the same stem are recognised, so they go after a week.\<close>

theorem old_session_logs_go:
  assumes "CHR ''.'' \<notin> set stem" "CHR ''.'' \<notin> set sid" "CHR ''.'' \<notin> set old" "sid \<noteq> []" "old \<noteq> sid" "is_stale now e"
  shows "(stem @ ''.'' @ old @ ''.log'', e) \<notin> set (cleanup_old_session_logs now (session_log_path (stem @ ''.log'') sid) d)"
proof -
  have p: "session_log_path (stem @ ''.log'') sid = stem @ ''.'' @ sid @ ''.log''"
    using session_log_path_ext[OF assms(4), of "''log''" stem] by simp
  have b: "log_base (stem @ ''.'' @ sid @ ''.log'') = stem"
    using split_dots[OF assms(1), of "sid @ ''.log''"] by (simp add: log_base_def)
  have "split_on (\<lambda>c. c = CHR ''.'') (stem @ ''.'' @ old @ ''.log'') = [stem, old, ''log'']"
    using split_dots[OF assms(1), of "old @ ''.log''"] split_dots[OF assms(3), of "''log''"] split_no_dot[of "''log''"] by simp
  then have "is_session_log stem (stem @ ''.'' @ old @ ''.log'')" by (simp add: is_session_log_def)
  then show ?thesis using assms(5,6) by (auto simp: cleanup_old_session_logs_def p[simplified] b[simplified])
qed

text \<open>A stem with a dot is not: those logs are never removed.\<close>

theorem dotted_stem_never_cleaned:
  assumes "CHR ''.'' \<notin> set a" "CHR ''.'' \<notin> set b" "CHR ''.'' \<notin> set old" "old \<noteq> ''log''" "old \<noteq> []"
  shows "\<not> is_session_log (log_base current) (session_log_path (a @ ''.'' @ b @ ''.log'') old)"
proof -
  have p: "session_log_path (a @ ''.'' @ b @ ''.log'') old = a @ ''.'' @ b @ ''.'' @ old @ ''.log''"
    using session_log_path_ext[OF assms(5), of "''log''" "a @ ''.'' @ b"] by simp
  have "split_on (\<lambda>c. c = CHR ''.'') (a @ ''.'' @ b @ ''.'' @ old @ ''.log'') = [a, b, old, ''log'']"
    using split_dots[OF assms(1), of "b @ ''.'' @ old @ ''.log''"] split_dots[OF assms(2), of "old @ ''.log''"]
      split_dots[OF assms(3), of "''log''"] split_no_dot[of "''log''"] by simp
  then show ?thesis using assms(4) by (simp add: p[simplified] is_session_log_def)
qed

text \<open>The last dot of the whole path is taken for the extension: a log without one under a dotted directory moves to a
  new directory.\<close>

theorem session_path_breaks_directory:
  "session_log_path ''/home/u/.config/logs/debug'' ''S1'' = ''/home/u/.S1.config/logs/debug''"
  by code_simp

section \<open>Concrete instances\<close>

definition demo_rotation :: debug_log_rotation where
  "demo_rotation = \<lparr>rotation_mode = RotationSize, max_bytes = 6, max_files = 9\<rparr>"

theorem live_log_bounded_witness:
  "\<exists>f d. write_lines [(1, ''abc''), (2, ''de''), (3, ''fgh'')] (open_log True True 0 ''x.log'' demo_rotation []) = (f, d)
     \<and> (\<forall>e. map_of d ''x.log'' = Some e \<longrightarrow> length (le_content e) \<le> 7)"
proof -
  obtain f d where w: "write_lines [(1, ''abc''), (2, ''de''), (3, ''fgh'')] (open_log True True 0 ''x.log'' demo_rotation []) = (f, d)"
    by fastforce
  have "\<forall>e. map_of d ''x.log'' = Some e \<longrightarrow> length (le_content e) \<le> max (unat (max_bytes demo_rotation) + 1) (3 + 1)"
    by (rule live_log_bounded[OF _ _ _ _ _ w]) (simp_all add: demo_rotation_def)
  then show ?thesis using w by (auto simp: demo_rotation_def)
qed

definition demo_dir :: log_dir where
  "demo_dir = [(''x.log'', \<lparr>le_content = ''new'', le_modified = Some 9\<rparr>), (''x.log.1'', \<lparr>le_content = ''old'', le_modified = Some 3\<rparr>),
               (''y'', fresh_entry 1)]"

theorem pruning_keeps_bound_witness:
  "length (filter (\<lambda>(n, _). str_starts ''x.log'' n) (cleanup_rotated ''x.log'' 1 demo_dir)) \<le> 1"
proof -
  have "hm_ok demo_dir" by (simp add: hm_ok_def demo_dir_def)
  from pruning_keeps_bound[OF this, of "''x.log''" 1] show ?thesis by blast
qed

definition demo_file :: "nat \<Rightarrow> rotating_file" where
  "demo_file keep = \<lparr>rf_name = ''x.log'', rf_mode = RotationSize, rf_max_bytes = 6, rf_max_files = keep, rf_size = 3,
                     rf_day = None, rf_handle = Some ''x.log'', rf_listable = True\<rparr>"

theorem rotation_moves_live_file_witness:
  "\<exists>d'. map_of d' (rotated_name 0 ''x.log'') = Some \<lparr>le_content = ''new'', le_modified = Some 9\<rparr>"
proof -
  obtain ok f' d' where r: "rotate disk_fine 0 (demo_file 9) demo_dir = (ok, f', d')" by (metis prod_cases3)
  from rotation_moves_live_file[OF _ _ r] show ?thesis by (auto simp: demo_file_def demo_dir_def)
qed

theorem same_second_rotation_loses_witness:
  "\<exists>d2. map_of d2 (rotated_name 1 ''x.log'') = Some \<lparr>le_content = ''more'', le_modified = Some 5\<rparr>"
proof -
  obtain ok f1 d1 where r: "rotate disk_fine 1 (demo_file 9) demo_dir = (ok, f1, d1)" by (metis prod_cases3)
  obtain ok' f2 d2 where r2: "rotate disk_fine 2 f1 (append_file 5 (Some (rf_name (demo_file 9))) ''more'' d1) = (ok', f2, d2)"
    by (metis prod_cases3)
  from same_second_rotation_loses[OF _ _ r _ r2] show ?thesis by (auto simp: demo_file_def demo_dir_def)
qed

theorem no_files_kept_loses_lines_witness:
  "\<exists>(f' :: rotating_file) d'. map_of d' ''x.log'' = None \<and> append_file 5 (rf_handle f') ''line'' d' = d'"
proof -
  obtain ok f' d' where r: "rotate disk_fine 0 (demo_file 0) demo_dir = (ok, f', d')" by (metis prod_cases3)
  from no_files_kept_loses_lines[OF _ _ r] show ?thesis by (auto simp: demo_file_def)
qed

definition demo_session_dir :: log_dir where
  "demo_session_dir = [(''debug.a.log'', fresh_entry 1), (''debug.b.log'', fresh_entry (8 * 86400 * 10 ^ 9))]"

lemma stale_day: "is_stale (9 * 86400 * 10 ^ 9) (fresh_entry 1)"
  by (simp add: is_stale_def fresh_entry_def session_log_days_def)

theorem old_session_logs_go_witness:
  "(''debug.a.log'', fresh_entry 1) \<notin> set (cleanup_old_session_logs (9 * 86400 * 10 ^ 9) (session_log_path ''debug.log'' ''b'') demo_session_dir)"
  using old_session_logs_go[of "''debug''" "''b''" "''a''" "9 * 86400 * 10 ^ 9" "fresh_entry 1" demo_session_dir] stale_day by simp

end
