(* ===== verification/Commands.thy ===== *)
theory Commands
  imports ConfigFile BackendState WebAuth Spawn
begin

text \<open>
  The command line (\<open>src/main.rs\<close>): the registry of running instances kept as one file per process, the
  commands that read it or signal its processes, the web interface's daemon file, the commands that
  edit the web settings, and the checks before the interface starts.  What is printed for the user is left
  out; a command is its effect on the machine and its exit.  The machine is a record: the
  files of the instances directory in \<open>read_dir\<close> order, the daemon's file, the live processes with the command
  each runs, and the termination signals sent.
\<close>

section \<open>The machine\<close>

record machine =
  mc_instances :: "(string \<times> string) list"
  mc_webui_pid :: "string option"
  mc_processes :: "(u32 \<times> string) list"
  mc_protected :: "u32 list"
  mc_signalled :: "u32 list"
  mc_claude_dirs :: "string list"

datatype exit = ExitOk | ExitFail nat

text \<open>\<open>str::parse::<u32>\<close>: digits after an optional plus sign, no overflow.\<close>

definition parse_u32 :: "string \<Rightarrow> u32 option" where
  "parse_u32 s =
     (let ds = (case s of c # r \<Rightarrow> if c = CHR ''+'' then r else s | [] \<Rightarrow> []);
          n = fold (\<lambda>c acc. 10 * acc + (code c - 48)) ds 0
      in if ds = [] \<or> \<not> list_all is_ascii_digit ds \<or> 2 ^ 32 \<le> n then None else Some (of_nat n))"

definition is_process_running :: "machine \<Rightarrow> u32 \<Rightarrow> bool" where
  "is_process_running m p \<longleftrightarrow> map_of (mc_processes m) p \<noteq> None"

definition read_webui_pid :: "machine \<Rightarrow> u32 option" where
  "read_webui_pid m = Option.bind (mc_webui_pid m) (\<lambda>s. parse_u32 (str_trim s))"

text \<open>\<open>libc::kill(pid, SIGTERM)\<close>: refused for a process that is gone or not ours.\<close>

definition kill_term :: "u32 \<Rightarrow> machine \<Rightarrow> bool \<times> machine" where
  "kill_term p m =
     (if is_process_running m p \<and> p \<notin> set (mc_protected m)
      then (True, m\<lparr>mc_signalled := mc_signalled m @ [p]\<rparr>) else (False, m))"

section \<open>Instances\<close>

definition instance_pid_file :: "u32 \<Rightarrow> string" where
  "instance_pid_file p = show_nat (unat p) @ ''.pid''"

definition write_instance_pid :: "u32 \<Rightarrow> string \<Rightarrow> machine \<Rightarrow> machine" where
  "write_instance_pid p mode m =
     m\<lparr>mc_instances := AList.update (instance_pid_file p)
        (show_nat (unat p) @ [CHR 0x0A] @ mode @ [CHR 0x0A]) (mc_instances m)\<rparr>"

text \<open>The guard of \<open>run_main\<close> removes the file on every return.\<close>

definition drop_pid_guard :: "u32 \<Rightarrow> machine \<Rightarrow> machine" where
  "drop_pid_guard p m = m\<lparr>mc_instances := AList.delete (instance_pid_file p) (mc_instances m)\<rparr>"

record instance_info =
  ii_pid :: u32
  ii_mode :: string

definition is_pid_file :: "string \<Rightarrow> bool" where
  "is_pid_file n \<longleftrightarrow> 4 < length n \<and> drop (length n - 4) n = ''.pid'' \<and> n \<noteq> ''webui.pid''"

definition read_instance :: "string \<times> string \<Rightarrow> instance_info option" where
  "read_instance = (\<lambda>(n, content).
     if \<not> is_pid_file n then None
     else case str_lines content of
       [] \<Rightarrow> None
     | l # ls \<Rightarrow> map_option (\<lambda>p. \<lparr>ii_pid = p, ii_mode = str_trim (case ls of [] \<Rightarrow> ''anycode'' | x # _ \<Rightarrow> x)\<rparr>)
                  (parse_u32 (str_trim l)))"

definition is_live :: "machine \<Rightarrow> string \<times> string \<Rightarrow> bool" where
  "is_live m f = (case read_instance f of Some i \<Rightarrow> is_process_running m (ii_pid i) | None \<Rightarrow> True)"

text \<open>The files of dead processes are removed on the way; unreadable ones stay.\<close>

definition list_running_instances :: "machine \<Rightarrow> instance_info list \<times> machine" where
  "list_running_instances m =
     (filter (\<lambda>i. is_process_running m (ii_pid i)) (List.map_filter read_instance (mc_instances m)),
      m\<lparr>mc_instances := filter (is_live m) (mc_instances m)\<rparr>)"

section \<open>Commands on instances\<close>

fun signal_all :: "instance_info list \<Rightarrow> machine \<Rightarrow> nat \<times> machine" where
  "signal_all [] m = (0, m)"
| "signal_all (i # is) m =
     (case kill_term (ii_pid i) m of
        (ok, m1) \<Rightarrow> (case signal_all is m1 of (n, m2) \<Rightarrow> ((if ok then n + 1 else n), m2)))"

definition cmd_stop :: "machine \<Rightarrow> exit \<times> machine" where
  "cmd_stop m =
     (case list_running_instances m of
        ([], m1) \<Rightarrow> (ExitOk, m1)
      | (is, m1) \<Rightarrow> (case signal_all is m1 of (n, m2) \<Rightarrow> (if n = 0 then ExitFail 1 else ExitOk, m2)))"

definition clear_webui_pid :: "machine \<Rightarrow> machine" where
  "clear_webui_pid m = m\<lparr>mc_webui_pid := None\<rparr>"

definition cmd_status :: "machine \<Rightarrow> exit \<times> machine" where
  "cmd_status m =
     (let m1 = snd (list_running_instances m) in
      (ExitOk, case read_webui_pid m1 of
                 Some p \<Rightarrow> if is_process_running m1 p then m1 else clear_webui_pid m1
               | None \<Rightarrow> m1))"

definition cmd_webui_stop :: "machine \<Rightarrow> exit \<times> machine" where
  "cmd_webui_stop m =
     (case read_webui_pid m of
        None \<Rightarrow> (ExitOk, m)
      | Some p \<Rightarrow>
          if is_process_running m p
          then (case kill_term p m of (True, m1) \<Rightarrow> (ExitOk, clear_webui_pid m1) | (False, m1) \<Rightarrow> (ExitFail 1, m1))
          else (ExitOk, clear_webui_pid m))"

text \<open>The answer to a prompt: at most four bytes are read.\<close>

definition confirmed :: "bool \<Rightarrow> string \<Rightarrow> bool" where
  "confirmed yes input \<longleftrightarrow> yes
     \<or> (let s = take 4 input in utf8_valid (map code s) \<and> str_lower (str_trim s) = ''y'')"

fun stop_and_forget :: "instance_info list \<Rightarrow> machine \<Rightarrow> machine" where
  "stop_and_forget [] m = m"
| "stop_and_forget (i # is) m =
     (case kill_term (ii_pid i) m of
        (ok, m1) \<Rightarrow> stop_and_forget is (if ok then drop_pid_guard (ii_pid i) m1 else m1))"

definition cmd_reset :: "bool \<Rightarrow> string \<Rightarrow> machine \<Rightarrow> exit \<times> machine" where
  "cmd_reset yes input m =
     (if \<not> confirmed yes input then (ExitOk, m)
      else case list_running_instances m of
        (is, m1) \<Rightarrow>
          (let m2 = stop_and_forget is m1 in
           (ExitOk, m2\<lparr>mc_claude_dirs := filter (\<lambda>d. d \<notin> {''session-env'', ''sessions''}) (mc_claude_dirs m2)\<rparr>)))"

text \<open>\<open>webui --daemon\<close>: the child's number replaces whatever the file held.\<close>

definition cmd_webui_daemon :: "u32 \<Rightarrow> string \<Rightarrow> machine \<Rightarrow> exit \<times> machine" where
  "cmd_webui_daemon child command m =
     (ExitOk, m\<lparr>mc_processes := AList.update child command (mc_processes m),
                mc_webui_pid := Some (show_nat (unat child))\<rparr>)"

section \<open>Web settings\<close>

definition bind_address :: "string \<Rightarrow> string option" where
  "bind_address mode =
     (if mode = ''local'' \<or> mode = ''localhost'' then Some ''127.0.0.1:47191''
      else if mode = ''lan'' \<or> mode = ''public'' then Some ''0.0.0.0:47191''
      else if CHR '':'' \<in> set mode then Some mode
      else None)"

definition apply_bind :: "string \<Rightarrow> config \<Rightarrow> config option" where
  "apply_bind mode c = map_option (\<lambda>a. c\<lparr>webui := (webui c)\<lparr>webui_bind_addr := a\<rparr>\<rparr>) (bind_address mode)"

definition warns_open :: "config \<Rightarrow> bool" where
  "warns_open c \<longleftrightarrow> str_starts ''0.0.0.0'' (webui_bind_addr (webui c)) \<and> password (webui c) = None"

definition apply_passwd :: "string \<Rightarrow> string \<Rightarrow> webui_config \<Rightarrow> webui_config" where
  "apply_passwd user_line pass_line w =
     (let u = str_trim user_line; p = str_trim pass_line;
          w1 = (if u = [] then w else if u = ''-'' then w\<lparr>username := None\<rparr> else w\<lparr>username := Some u\<rparr>);
          w2 = (if p = [] then w1 else if p = ''-'' then w1\<lparr>password := None, username := None\<rparr> else w1\<lparr>password := Some p\<rparr>)
      in if password w2 \<noteq> None \<and> username w2 = None then w2\<lparr>username := Some ''admin''\<rparr> else w2)"

text \<open>Both commands load the configuration, change it and save it; a load error exits before anything is written.\<close>

definition edit_config ::
    "toml_codec \<Rightarrow> messages \<Rightarrow> io_faults \<Rightarrow> io_faults \<Rightarrow> string option \<Rightarrow> (config \<Rightarrow> config)
     \<Rightarrow> (string \<Rightarrow> string option) \<Rightarrow> exit \<times> (string \<Rightarrow> string option)" where
  "edit_config tc ms load_io save_io home f disk =
     (case config_load tc ms load_io home disk of
        (Inl _, disk1) \<Rightarrow> (ExitFail 1, disk1)
      | (Inr c, disk1) \<Rightarrow>
          (case save_config tc ms save_io (config_path home) (f c) (disk1 (config_path home)) of
             (r, file') \<Rightarrow> (case r of Inl _ \<Rightarrow> ExitFail 1 | Inr _ \<Rightarrow> ExitOk, disk1(config_path home := file'))))"

definition cmd_bind ::
    "toml_codec \<Rightarrow> messages \<Rightarrow> io_faults \<Rightarrow> io_faults \<Rightarrow> string option \<Rightarrow> string
     \<Rightarrow> (string \<Rightarrow> string option) \<Rightarrow> exit \<times> (string \<Rightarrow> string option)" where
  "cmd_bind tc ms load_io save_io home mode disk =
     (case bind_address mode of
        None \<Rightarrow> (ExitFail 1, disk)
      | Some a \<Rightarrow> edit_config tc ms load_io save_io home (\<lambda>c. c\<lparr>webui := (webui c)\<lparr>webui_bind_addr := a\<rparr>\<rparr>) disk)"

definition cmd_passwd ::
    "toml_codec \<Rightarrow> messages \<Rightarrow> io_faults \<Rightarrow> io_faults \<Rightarrow> string option \<Rightarrow> string \<Rightarrow> string
     \<Rightarrow> (string \<Rightarrow> string option) \<Rightarrow> exit \<times> (string \<Rightarrow> string option)" where
  "cmd_passwd tc ms load_io save_io home user_line pass_line disk =
     edit_config tc ms load_io save_io home (\<lambda>c. c\<lparr>webui := apply_passwd user_line pass_line (webui c)\<rparr>) disk"

section \<open>Starting the interface\<close>

datatype start_refusal = NoSuchBackend string | EmptyProfile

text \<open>The checks of \<open>run_main\<close> on a loaded configuration.\<close>

definition start_checks :: "cli_mode \<Rightarrow> string option \<Rightarrow> config \<Rightarrow> start_refusal option" where
  "start_checks mode override c =
     (case override of
        Some b \<Rightarrow>
          if \<not> has_backend b (profile mode c) then Some (NoSuchBackend b)
          else if backends (profile mode c) = [] then Some EmptyProfile else None
      | None \<Rightarrow> if backends (profile mode c) = [] then Some EmptyProfile else None)"

definition run_main :: "cli_mode \<Rightarrow> u32 \<Rightarrow> string option \<Rightarrow> config \<Rightarrow> machine \<Rightarrow> exit \<times> machine" where
  "run_main mode pid override c m =
     (case start_checks mode override c of
        Some _ \<Rightarrow> (ExitFail 1, m)
      | None \<Rightarrow> (ExitOk, write_instance_pid pid (mode_binary mode) m))"

section \<open>Logs, the web server and removal\<close>

datatype logs_result = NoLogFile string | Tail nat bool string

text \<open>A configuration that does not load means the default path.\<close>

definition log_path :: "string option \<Rightarrow> (config_error + config) \<Rightarrow> string" where
  "log_path home r =
     (let raw = (case r of Inr c \<Rightarrow> file_path (debug_logging c) | Inl _ \<Rightarrow> ''~/.config/anycode/logs/debug.log'')
      in case strip_prefix ''~/'' raw of
           Some rest \<Rightarrow> (case home of Some h \<Rightarrow> path_join h rest | None \<Rightarrow> raw)
         | None \<Rightarrow> raw)"

definition cmd_logs :: "string option \<Rightarrow> (config_error + config) \<Rightarrow> (string \<Rightarrow> bool) \<Rightarrow> nat \<Rightarrow> bool \<Rightarrow> logs_result" where
  "cmd_logs home r present n follow =
     (let p = log_path home r in if present p then Tail n follow p else NoLogFile p)"

text \<open>\<open>cmd_webui\<close> in the foreground: the state behind the pages is built from the profile first.\<close>

datatype webui_start = WebuiFails exit | WebuiServes string web_server

definition cmd_webui ::
    "nat \<Rightarrow> cli_mode \<Rightarrow> string \<Rightarrow> string option \<Rightarrow> (string \<Rightarrow> bool) \<Rightarrow> string option \<Rightarrow> (config_error + config) \<Rightarrow> webui_start" where
  "cmd_webui now mode path override bindable file r =
     (case r of
        Inl _ \<Rightarrow> WebuiFails (ExitFail 1)
      | Inr c \<Rightarrow>
          (let addr = (case override of Some a \<Rightarrow> a | None \<Rightarrow> webui_bind_addr (webui c)) in
           case from_config now (profile mode c) of
             Inl _ \<Rightarrow> WebuiFails (ExitFail 1)
           | Inr s \<Rightarrow>
               if bindable addr
               then WebuiServes addr (new_web_server (webui c)
                 \<lparr>ww_store = new_store c path, ww_state = s, ww_models = [], ww_file = file\<rparr>)
               else WebuiFails (ExitFail 1)))"

text \<open>\<open>cmd_uninstall\<close>: a companion is a file or a symbolic link with the file it resolves to, none when it
  dangles; \<open>path.exists()\<close> follows links.\<close>

datatype install_entry = RealFile | SymLink "string option"

record install =
  in_dir :: "(string \<times> install_entry) list"
  in_binary :: string
  in_instances :: bool
  in_config :: bool

definition removes_companion :: "install \<Rightarrow> string \<Rightarrow> bool" where
  "removes_companion d n =
     (case map_of (in_dir d) n of
        Some (SymLink (Some t)) \<Rightarrow> t = in_binary d \<or> n = ''anyclaude''
      | Some (SymLink None) \<Rightarrow> False
      | Some RealFile \<Rightarrow> n = ''anyclaude''
      | None \<Rightarrow> False)"

definition cmd_uninstall :: "bool \<Rightarrow> bool \<Rightarrow> string \<Rightarrow> install \<Rightarrow> install" where
  "cmd_uninstall purge yes input d =
     (if \<not> confirmed yes input then d
      else d\<lparr>in_dir := AList.delete (in_binary d)
               (filter (\<lambda>(n, _). \<not> (n \<in> {''anycopilot'', ''anyclaude''} \<and> removes_companion d n)) (in_dir d)),
             in_instances := False,
             in_config := (in_config d \<and> \<not> purge)\<rparr>)"

end
