(* ===== verification/CommandsProps.thy ===== *)
theory CommandsProps
  imports Commands
begin

text \<open>
  What the commands guarantee: a running instance is found again by its file and forgotten when it
  ends; a password never stays without a user name; which processes a stop reaches; and which configurations the
  start accepts that the state behind it refuses.
\<close>

section \<open>Numbers in files\<close>


lemma digits_value: "fold (\<lambda>c acc. 10 * acc + (code c - 48)) (show_nat n) 0 = n"
proof (induction n rule: show_nat.induct)
  case (1 n)
  have d: "code (digit_char k) - 48 = k" if "k < 10" for k using that by (simp add: digit_char_def)
  show ?case
  proof (cases "n < 10")
    case True
    then show ?thesis by (subst show_nat.simps) (simp add: d)
  next
    case False
    then show ?thesis using 1 by (subst show_nat.simps) (simp add: d)
  qed
qed

lemma show_nat_nonempty [simp]: "show_nat n \<noteq> []"
  by (subst show_nat.simps) simp

lemma parse_show_u32: "parse_u32 (show_nat (unat p)) = Some p"
proof -
  obtain c r where s: "show_nat (unat p) = c # r" by (cases "show_nat (unat p)") auto
  have all: "\<forall>c \<in> set (show_nat (unat p)). is_ascii_digit c" using show_nat_all_digits by blast
  have "is_ascii_digit c" using all s by simp
  then have "c \<noteq> CHR ''+''" by (auto simp: is_ascii_digit_def)
  then have "(case show_nat (unat p) of c # r \<Rightarrow> if c = CHR ''+'' then r else show_nat (unat p) | [] \<Rightarrow> [])
             = show_nat (unat p)"
    using s by simp
  moreover have "unat p < 2 ^ 32" using unsigned_less[of p] by simp
  ultimately show ?thesis
    using all by (simp add: parse_u32_def digits_value list_all_iff)
qed

lemma digit_graphic: "is_ascii_digit c \<Longrightarrow> is_graphic c"
  by (simp add: is_ascii_digit_def is_graphic_def)

lemma pid_file_is_pid_file: "is_pid_file (instance_pid_file p)"
proof -
  obtain c r where s: "show_nat (unat p) = c # r" by (cases "show_nat (unat p)") auto
  have "is_ascii_digit c" using show_nat_all_digits[of c "unat p"] s by simp
  then have "c \<noteq> CHR ''w''" by (auto simp: is_ascii_digit_def)
  then show ?thesis using s by (simp add: is_pid_file_def instance_pid_file_def)
qed

lemma read_written:
  "read_instance (instance_pid_file p, show_nat (unat p) @ [CHR 0x0A] @ mode_binary m @ [CHR 0x0A])
   = Some \<lparr>ii_pid = p, ii_mode = mode_binary m\<rparr>"
proof -
  have d: "\<forall>c \<in> set (show_nat (unat p)). is_graphic c" using show_nat_all_digits digit_graphic by blast
  then have n: "CHR 0x0A \<notin> set (show_nat (unat p))" "CHR 0x0D \<notin> set (show_nat (unat p))"
    by (auto simp: is_graphic_def)
  have b: "\<forall>c \<in> set (mode_binary m). is_graphic c"
    by (cases m) (simp_all add: mode_binary_def is_graphic_def)
  then have nb: "CHR 0x0A \<notin> set (mode_binary m)" "CHR 0x0D \<notin> set (mode_binary m)"
    by (auto simp: is_graphic_def)
  have l: "str_lines (show_nat (unat p) @ [CHR 0x0A] @ mode_binary m @ [CHR 0x0A])
           = strip_cr (show_nat (unat p)) # strip_cr (mode_binary m) # []"
    using str_lines_append[OF n(1), of "mode_binary m @ [CHR 0x0A]"] str_lines_append[OF nb(1), of "[]"] by simp
  have c: "strip_cr (show_nat (unat p)) = show_nat (unat p)" "strip_cr (mode_binary m) = mode_binary m"
    using n(2) nb(2) by (metis strip_cr_def last_in_set)+
  show ?thesis
    using d b by (simp add: read_instance_def pid_file_is_pid_file l[simplified] c str_trim_all_graphic parse_show_u32)
qed

section \<open>Instances\<close>

lemma update_keys_fresh: "k \<notin> fst ` set xs \<Longrightarrow> AList.update k v xs = xs @ [(k, v)]"
  by (induction xs) auto

lemma delete_last_fresh: "k \<notin> fst ` set xs \<Longrightarrow> AList.delete k (xs @ [(k, v)]) = xs"
  by (force simp: AList.delete_eq filter_id_conv)

lemma in_map_filter: "y \<in> set (List.map_filter f xs) \<longleftrightarrow> (\<exists>x \<in> set xs. f x = Some y)"
  by (force simp: List.map_filter_def)

lemma kill_term_frame:
  "kill_term p m = (ok, m') \<Longrightarrow> mc_processes m' = mc_processes m \<and> mc_protected m' = mc_protected m
     \<and> mc_instances m' = mc_instances m \<and> set (mc_signalled m) \<subseteq> set (mc_signalled m')
     \<and> (is_process_running m p \<and> p \<notin> set (mc_protected m) \<longrightarrow> p \<in> set (mc_signalled m'))"
  by (auto simp: kill_term_def split: if_splits)

lemma signal_all_reaches:
  "signal_all is m = (n, m') \<Longrightarrow> set (mc_signalled m) \<subseteq> set (mc_signalled m')
     \<and> (\<forall>i \<in> set is. is_process_running m (ii_pid i) \<and> ii_pid i \<notin> set (mc_protected m)
          \<longrightarrow> ii_pid i \<in> set (mc_signalled m'))"
proof (induction "is" arbitrary: m n)
  case (Cons i "is")
  obtain ok m1 where k: "kill_term (ii_pid i) m = (ok, m1)" by fastforce
  obtain n1 where r: "signal_all is m1 = (n1, m')" using Cons.prems k by (auto split: prod.splits)
  show ?case using kill_term_frame[OF k] Cons.IH[OF r] by (auto simp: is_process_running_def)
qed simp

text \<open>An instance that started is listed by every later command while it runs, under its own number and
  program, and once its guard has run no file speaks of it: the directory is what it was before.\<close>

theorem instance_roundtrip:
  assumes "run_main mode p override c m = (ExitOk, m')" "is_process_running m p"
    "map_of (mc_instances m) (instance_pid_file p) = None"
  shows "\<lparr>ii_pid = p, ii_mode = mode_binary mode\<rparr> \<in> set (fst (list_running_instances m'))
         \<and> map_of (mc_instances (snd (list_running_instances m'))) (instance_pid_file p) \<noteq> None
         \<and> drop_pid_guard p m' = m"
proof -
  let ?f = "(instance_pid_file p, show_nat (unat p) @ [CHR 0x0A] @ mode_binary mode @ [CHR 0x0A])"
  have fresh: "instance_pid_file p \<notin> fst ` set (mc_instances m)"
    using assms(3) by (simp add: map_of_eq_None_iff)
  have m': "m' = m\<lparr>mc_instances := mc_instances m @ [?f]\<rparr>"
    using assms(1) fresh by (auto simp: run_main_def write_instance_pid_def update_keys_fresh split: option.splits)
  have live: "is_live m' ?f" "is_process_running m' p"
    using assms(2) by (simp_all add: is_live_def read_written[simplified] m' is_process_running_def)
  have "\<lparr>ii_pid = p, ii_mode = mode_binary mode\<rparr> \<in> set (fst (list_running_instances m'))"
    using live read_written[of p mode]
    by (auto simp: list_running_instances_def m' in_map_filter intro!: bexI[of _ ?f])
  moreover have "?f \<in> set (mc_instances (snd (list_running_instances m')))"
    using live by (simp add: list_running_instances_def m')
  then have "map_of (mc_instances (snd (list_running_instances m'))) (instance_pid_file p) \<noteq> None"
    using image_eqI[of "instance_pid_file p" fst ?f] by (simp only: map_of_eq_None_iff fst_conv not_not)
  moreover have "drop_pid_guard p m' = m"
    using fresh by (simp add: drop_pid_guard_def m' delete_last_fresh)
  ultimately show ?thesis by simp
qed

definition one_backend :: config where
  "one_backend = default_config\<lparr>claude := default_profile\<lparr>defaults := default_defaults\<lparr>active := ''gone''\<rparr>,
     backends := [default_backend]\<rparr>\<rparr>"

definition quiet_machine :: machine where
  "quiet_machine = \<lparr>mc_instances = [], mc_webui_pid = None, mc_processes = [(7, ''anycode'')], mc_protected = [],
     mc_signalled = [], mc_claude_dirs = []\<rparr>"

theorem instance_roundtrip_witness:
  "drop_pid_guard 7 (snd (run_main ModeClaude 7 None one_backend quiet_machine)) = quiet_machine"
proof -
  have "run_main ModeClaude 7 None one_backend quiet_machine
        = (ExitOk, snd (run_main ModeClaude 7 None one_backend quiet_machine))"
    by (simp add: run_main_def start_checks_def one_backend_def profile_def)
  then show ?thesis
    using instance_roundtrip[of ModeClaude 7 None one_backend quiet_machine]
    by (simp add: is_process_running_def quiet_machine_def)
qed

text \<open>Nothing ties a listed number to the program that wrote it: after the process has died without its guard
  and the number has gone to another program, \<open>anycode stop\<close> terminates that program.\<close>

theorem stop_reaches_recycled_number:
  assumes "f \<in> set (mc_instances m)" "read_instance f = Some i" "map_of (mc_processes m) (ii_pid i) = Some other"
    "ii_pid i \<notin> set (mc_protected m)"
  shows "ii_pid i \<in> set (mc_signalled (snd (cmd_stop m)))"
proof -
  obtain ls m1 where l: "list_running_instances m = (ls, m1)" by fastforce
  have i: "i \<in> set ls" "is_process_running m1 (ii_pid i)" "ii_pid i \<notin> set (mc_protected m1)"
    using l assms by (auto simp: list_running_instances_def is_process_running_def in_map_filter)
  obtain n m2 where s: "signal_all ls m1 = (n, m2)" by fastforce
  have "snd (cmd_stop m) = m2"
    using i(1) l s by (cases ls) (auto simp: cmd_stop_def simp del: signal_all.simps)
  then show ?thesis using signal_all_reaches[OF s] i by auto
qed

definition reborn_machine :: machine where
  "reborn_machine = quiet_machine\<lparr>mc_processes := [(7, ''sshd'')],
     mc_instances := [(''7.pid'', ''7'' @ [CHR 0x0A] @ ''claude'' @ [CHR 0x0A])]\<rparr>"

lemma read_reborn:
  "read_instance (''7.pid'', ''7'' @ [CHR 0x0A] @ ''claude'' @ [CHR 0x0A]) = Some \<lparr>ii_pid = 7, ii_mode = ''claude''\<rparr>"
proof -
  have "(char_of (55 :: nat) :: char) = CHR ''7''" by code_simp
  then have "show_nat (unat (7 :: u32)) = ''7''" by (simp add: show_nat.simps digit_char_def)
  then show ?thesis using read_written[of 7 ModeClaude] by (simp add: instance_pid_file_def mode_binary_def)
qed

theorem stop_reaches_recycled_number_witness:
  "7 \<in> set (mc_signalled (snd (cmd_stop reborn_machine)))"
proof -
  let ?f = "(''7.pid'', ''7'' @ [CHR 0x0A] @ ''claude'' @ [CHR 0x0A])"
  have "?f \<in> set (mc_instances reborn_machine)" "map_of (mc_processes reborn_machine) 7 = Some ''sshd''"
    "7 \<notin> set (mc_protected reborn_machine)"
    by (simp_all add: reborn_machine_def quiet_machine_def)
  then show ?thesis
    using stop_reaches_recycled_number[of ?f reborn_machine "\<lparr>ii_pid = 7, ii_mode = ''claude''\<rparr>" "''sshd''"]
      read_reborn by (simp only: instance_info.simps HOL.simp_thms)
qed

text \<open>\<open>anycode passwd\<close> never leaves a password without a user name, so the server protects its pages exactly when a
  password is set, whatever the two settings were before.\<close>

theorem passwd_protects:
  "(\<exists>u p. web_credentials (apply_passwd user_line pass_line w) = Some (u, p))
   \<longleftrightarrow> password (apply_passwd user_line pass_line w) \<noteq> None"
  by (auto simp: web_credentials_def apply_passwd_def Let_def split: option.splits)

text \<open>The start accepts exactly the configurations with a backend that name, when asked, a configured one; the
  default it does not look at: a profile whose default names no backend starts and is then refused by the
  state behind the interface, and its number is on file by then.\<close>

theorem start_ignores_default:
  assumes "backends (profile mode c) \<noteq> []" "active (defaults (profile mode c)) \<noteq> []"
    "\<not> has_backend (active (defaults (profile mode c))) (profile mode c)"
  shows "run_main mode p None c m = (ExitOk, write_instance_pid p (mode_binary mode) m)
         \<and> from_config now (profile mode c) = Inl (ErrBackendNotFound (active (defaults (profile mode c))))
         \<and> validate_for mode c \<noteq> Inr ()"
proof -
  have "List.find (\<lambda>b. name b = active (defaults (profile mode c))) (backends (profile mode c)) = None"
    using assms(3) by (auto simp: has_backend_def find_None_iff)
  then show ?thesis
    using assms by (auto simp: run_main_def start_checks_def from_config_def validate_for_def Let_def)
qed

theorem start_ignores_default_witness:
  "from_config 0 (claude one_backend) = Inl (ErrBackendNotFound ''gone'')
   \<and> fst (run_main ModeClaude 7 None one_backend quiet_machine) = ExitOk"
  using start_ignores_default[of ModeClaude one_backend 7 quiet_machine 0]
  by (simp add: one_backend_def profile_def has_backend_def default_backend_def)

text \<open>With no backends the interface points the user at the web pages; they cannot be served either.\<close>

theorem empty_profile_locked_out:
  assumes "backends (profile mode c) = []"
  shows "run_main mode p override c m = (ExitFail 1, m)
         \<and> cmd_webui now mode path addr bindable file (Inr c) = WebuiFails (ExitFail 1)"
  using assms by (auto simp: run_main_def start_checks_def has_backend_def cmd_webui_def from_config_def split: option.splits)

theorem empty_profile_locked_out_witness:
  "validate_for ModeCopilot default_config = Inr ()
   \<and> cmd_webui 0 ModeCopilot ''c.toml'' None (\<lambda>_. True) None (Inr default_config) = WebuiFails (ExitFail 1)"
  using empty_profile_locked_out[of ModeCopilot default_config 7 None quiet_machine 0 "''c.toml''" None "\<lambda>_. True" None]
  by (simp add: validate_for_def default_config_def profile_def default_profile_def)

end
