(* ===== verification/TtyReader.thy ===== *)
theory TtyReader
  imports Runtime InputParserProps
begin

text \<open>
  Reading the terminal (\<open>crates/term_input/src/reader.rs\<close>) and the thread that feeds the event loop
  (\<open>EventHandler\<close> in \<open>src/ui/events.rs\<close>).  The terminal is what is still going to happen on the descriptor: pauses in
  milliseconds, bytes, its end or an error.  A read that finds nothing more to happen never returns: its value is
  \<open>None\<close>.  The state of the modifier keys, which only macOS reports, is a parameter.
\<close>

section \<open>The terminal\<close>

datatype tty_item = TtyQuiet nat | TtyBytes u8 "u8 list" | TtyEnd | TtyFails string

datatype read_result = ReadGot "u8 list" | ReadEnd | ReadFails string

definition read_buffer :: nat where
  "read_buffer = 1024"

definition esc_timeout_ms :: nat where
  "esc_timeout_ms = 2"

text \<open>\<open>select\<close> with a timeout: whether a read would not block.  An interrupted call is repeated by the code.\<close>

fun tty_select :: "nat \<Rightarrow> tty_item list \<Rightarrow> bool \<times> tty_item list" where
  "tty_select t [] = (False, [])"
| "tty_select t (TtyQuiet n # s) = (if n \<le> t then tty_select (t - n) s else (False, TtyQuiet (n - t) # s))"
| "tty_select t (x # s) = (True, x # s)"

fun tty_read :: "tty_item list \<Rightarrow> (read_result \<times> tty_item list) option" where
  "tty_read [] = None"
| "tty_read (TtyQuiet _ # s) = tty_read s"
| "tty_read (TtyBytes b bs # s) =
     Some (ReadGot (take read_buffer (b # bs)),
           (case drop read_buffer (b # bs) of [] \<Rightarrow> s | c # cs \<Rightarrow> TtyBytes c cs # s))"
| "tty_read (TtyEnd # s) = Some (ReadEnd, TtyEnd # s)"
| "tty_read (TtyFails e # s) = Some (ReadFails e, s)"

fun item_size :: "tty_item \<Rightarrow> nat" where
  "item_size (TtyBytes b bs) = Suc (length bs) + 1"
| "item_size _ = 1"

definition script_size :: "tty_item list \<Rightarrow> nat" where
  "script_size s = sum_list (map item_size s)"

lemma read_shrinks: "tty_read s = Some (ReadGot bytes, s') \<Longrightarrow> script_size s' < script_size s"
proof (induction s rule: tty_read.induct)
  case (3 b bs s)
  then show ?case
    by (cases "drop read_buffer (b # bs)")
       (auto simp: script_size_def read_buffer_def dest!: arg_cong[of _ _ length])
qed (auto simp: script_size_def)

section \<open>The reader\<close>

record tty_reader =
  tr_parser :: input_parser
  tr_pending :: "input_event list"

datatype tty_error = TtyClosed | TtyError string | TtyPanic parser_panic

definition open_reader :: tty_reader where
  "open_reader = \<lparr>tr_parser = new_parser, tr_pending = []\<rparr>"

text \<open>\<open>self.parser.feed\<close> and \<open>self.parser.flush\<close>, their events queued.\<close>

definition reader_feed :: "u8 list \<Rightarrow> tty_reader \<Rightarrow> tty_error + tty_reader" where
  "reader_feed bytes r =
     (case feed bytes (tr_parser r) of
        Inl e \<Rightarrow> Inl (TtyPanic e)
      | Inr (es, p) \<Rightarrow> Inr \<lparr>tr_parser = p, tr_pending = tr_pending r @ es\<rparr>)"

definition reader_flush :: "tty_reader \<Rightarrow> tty_reader" where
  "reader_flush r =
     (case flush (tr_parser r) of (es, p) \<Rightarrow> \<lparr>tr_parser = p, tr_pending = tr_pending r @ es\<rparr>)"

definition reader_pop :: "tty_reader \<Rightarrow> input_event option \<times> tty_reader" where
  "reader_pop r = (case tr_pending r of [] \<Rightarrow> (None, r) | e # es \<Rightarrow> (Some e, r\<lparr>tr_pending := es\<rparr>))"

text \<open>The two repairs for terminals that do not report the modifier; the pair says which keys are held.\<close>

definition enrich_with_modifiers :: "bool \<times> bool \<Rightarrow> input_event \<Rightarrow> input_event" where
  "enrich_with_modifiers held e =
     (case e of
        Key k \<Rightarrow>
          if kind k = KeyBackspace
          then (if fst held then Key \<lparr>raw = [0x1b, 0x7f], kind = KeyAlt KeyBackspace\<rparr> else e)
          else if kind k = KeyEnter
          then (if snd held then Key \<lparr>raw = [0x1b, 0x5b, 0x31, 0x33, 0x3b, 0x32, 0x75], kind = KeyEnter\<rparr> else e)
          else e
      | _ \<Rightarrow> e)"

text \<open>Inside a bracketed paste the reader waits for its end, without a timeout.\<close>

function read_paste ::
    "tty_reader \<Rightarrow> tty_item list \<Rightarrow> ((tty_error + unit) \<times> tty_reader \<times> tty_item list) option" where
  "read_paste r s =
     (if \<not> is_in_paste (tr_parser r) then Some (Inr (), r, s)
      else case tty_read s of
        None \<Rightarrow> None
      | Some (ReadEnd, s') \<Rightarrow> Some (Inl TtyClosed, r, s')
      | Some (ReadFails e, s') \<Rightarrow> Some (Inl (TtyError e), r, s')
      | Some (ReadGot bytes, s') \<Rightarrow>
          (case reader_feed bytes r of
             Inl e \<Rightarrow> Some (Inl e, r, s')
           | Inr r' \<Rightarrow> read_paste r' s'))"
  by pat_completeness auto
termination
  by (relation "measure (\<lambda>(_, s). script_size s)") (auto dest: read_shrinks)

declare read_paste.simps [simp del]

text \<open>An unfinished sequence gets two milliseconds for its next bytes; then it is given up.\<close>

definition settle_pending ::
    "tty_reader \<Rightarrow> tty_item list \<Rightarrow> ((tty_error + unit) \<times> tty_reader \<times> tty_item list) option" where
  "settle_pending r s =
     (if \<not> has_pending (tr_parser r) then Some (Inr (), r, s)
      else case tty_select esc_timeout_ms s of
        (False, s1) \<Rightarrow> Some (Inr (), reader_flush r, s1)
      | (True, s1) \<Rightarrow>
          (case tty_read s1 of
             None \<Rightarrow> None
           | Some (ReadEnd, s2) \<Rightarrow> Some (Inr (), r, s2)
           | Some (ReadFails e, s2) \<Rightarrow> Some (Inl (TtyError e), r, s2)
           | Some (ReadGot bytes, s2) \<Rightarrow>
               (case reader_feed bytes r of
                  Inl e \<Rightarrow> Some (Inl e, r, s2)
                | Inr r' \<Rightarrow> Some (Inr (), r', s2))))"

definition read_ready ::
    "tty_reader \<Rightarrow> tty_item list \<Rightarrow> ((tty_error + unit) \<times> tty_reader \<times> tty_item list) option" where
  "read_ready r s =
     (case tty_read s of
        None \<Rightarrow> None
      | Some (ReadEnd, s1) \<Rightarrow> Some (Inl TtyClosed, r, s1)
      | Some (ReadFails e, s1) \<Rightarrow> Some (Inl (TtyError e), r, s1)
      | Some (ReadGot bytes, s1) \<Rightarrow>
          (case reader_feed bytes r of
             Inl e \<Rightarrow> Some (Inl e, r, s1)
           | Inr r1 \<Rightarrow>
               (case read_paste r1 s1 of
                  None \<Rightarrow> None
                | Some (Inl e, r2, s2) \<Rightarrow> Some (Inl e, r2, s2)
                | Some (Inr _, r2, s2) \<Rightarrow> settle_pending r2 s2)))"

text \<open>\<open>TtyReader::read\<close>.  Only an event of a fresh read is enriched, not one that waited.\<close>

definition reader_read ::
    "bool \<times> bool \<Rightarrow> nat \<Rightarrow> tty_reader \<Rightarrow> tty_item list
     \<Rightarrow> ((tty_error + input_event option) \<times> tty_reader \<times> tty_item list) option" where
  "reader_read held timeout r s =
     (case tr_pending r of
        e # es \<Rightarrow> Some (Inr (Some e), r\<lparr>tr_pending := es\<rparr>, s)
      | [] \<Rightarrow>
          (case tty_select (min timeout (2 ^ 31 - 1)) s of
             (False, s1) \<Rightarrow>
               if has_pending (tr_parser r)
               then (case reader_pop (reader_flush r) of (e, r') \<Rightarrow> Some (Inr e, r', s1))
               else Some (Inr None, r, s1)
           | (True, s1) \<Rightarrow>
               (case read_ready r s1 of
                  None \<Rightarrow> None
                | Some (Inl e, r', s2) \<Rightarrow> Some (Inl e, r', s2)
                | Some (Inr _, r', s2) \<Rightarrow>
                    (case reader_pop r' of
                       (e, r2) \<Rightarrow> Some (Inr (map_option (enrich_with_modifiers held) e), r2, s2)))))"

section \<open>The thread of the event loop\<close>

record event_thread =
  et_reader :: tty_reader
  et_script :: "tty_item list"
  et_last_tick :: nat
  et_alive :: bool
  et_sent :: "app_event list"

text \<open>What one turn of the loop finds: the shutdown flag, whether the window changed since the last turn and
  its size, the instant before the read and the one after.\<close>

record turn_env =
  tn_shutdown :: bool
  tn_winch :: bool
  tn_size :: "(u16 \<times> u16) option"
  tn_before :: nat
  tn_after :: nat
  tn_held :: "bool \<times> bool"

definition start_thread :: "nat \<Rightarrow> tty_item list \<Rightarrow> event_thread" where
  "start_thread now s =
     \<lparr>et_reader = open_reader, et_script = s, et_last_tick = now, et_alive = True, et_sent = []\<rparr>"

fun app_event_of :: "input_event \<Rightarrow> app_event" where
  "app_event_of (Key k) = EvKey k"
| "app_event_of (Mouse m) = EvMouse m"
| "app_event_of (Paste t) = EvPaste t"

definition resize_event :: "turn_env \<Rightarrow> app_event list" where
  "resize_event tn =
     (if tn_winch tn then (case tn_size tn of Some (cols, rows) \<Rightarrow> [EvResize cols rows] | None \<Rightarrow> []) else [])"

definition poll_timeout :: "nat \<Rightarrow> nat \<Rightarrow> nat" where
  "poll_timeout rate elapsed = min (rate - elapsed) 50"

definition tick_step :: "nat \<Rightarrow> nat \<Rightarrow> event_thread \<Rightarrow> event_thread" where
  "tick_step rate now th =
     (if rate \<le> now - et_last_tick th
      then th\<lparr>et_sent := et_sent th @ [EvTick], et_last_tick := now\<rparr> else th)"

definition thread_turn :: "nat \<Rightarrow> turn_env \<Rightarrow> event_thread \<Rightarrow> event_thread option" where
  "thread_turn rate tn th =
     (if \<not> et_alive th then Some th
      else if tn_shutdown tn then Some (th\<lparr>et_alive := False\<rparr>)
      else
        let th1 = th\<lparr>et_sent := et_sent th @ resize_event tn\<rparr> in
        (case reader_read (tn_held tn) (poll_timeout rate (tn_before tn - et_last_tick th)) (et_reader th) (et_script th) of
           None \<Rightarrow> None
         | Some (Inl _, r, s) \<Rightarrow> Some (th1\<lparr>et_reader := r, et_script := s, et_alive := False\<rparr>)
         | Some (Inr ev, r, s) \<Rightarrow>
             Some (tick_step rate (tn_after tn)
               (th1\<lparr>et_reader := r, et_script := s,
                    et_sent := et_sent th1 @ (case ev of Some e \<Rightarrow> [app_event_of e] | None \<Rightarrow> [])\<rparr>))))"

fun thread_run :: "nat \<Rightarrow> turn_env list \<Rightarrow> event_thread \<Rightarrow> event_thread option" where
  "thread_run rate [] th = Some th"
| "thread_run rate (tn # tns) th = (case thread_turn rate tn th of None \<Rightarrow> None | Some th' \<Rightarrow> thread_run rate tns th')"

end
