(* ===== verification/TtyProps.thy ===== *)
theory TtyProps
  imports TtyReader
begin

text \<open>
  From the bytes of the terminal to the queue of the event loop: what is delivered is exactly what the parser makes of
  the bytes read, in order and once, through partial reads, pauses, pastes and errors; ticks keep their
  distance; and where the reader waits or repairs keys differently than one would expect.
\<close>

section \<open>The parser behind the reader\<close>

lemma feed_total: "wf_parser p \<Longrightarrow> \<exists>es p'. feed bs p = Inr (es, p') \<and> wf_parser p' \<and> evq p' = []"
  using parser_run.run_ok[of p bs] by (auto simp: feed_def wf_parser_def)

lemma flush_total: "wf_parser p \<Longrightarrow> evq p = [] \<Longrightarrow> wf_parser (snd (flush p)) \<and> evq (snd (flush p)) = []"
  by (cases p; cases "pst p") (auto simp: flush_def wf_parser_def parser_updates)

datatype parser_op = FeedOp "u8 list" | FlushOp

fun run_parser_ops :: "parser_op list \<Rightarrow> input_parser \<Rightarrow> (input_event list \<times> input_parser) option" where
  "run_parser_ops [] p = Some ([], p)"
| "run_parser_ops (FeedOp bs # ops) p =
     (case feed bs p of
        Inl _ \<Rightarrow> None
      | Inr (es, p1) \<Rightarrow> map_option (\<lambda>(es', p'). (es @ es', p')) (run_parser_ops ops p1))"
| "run_parser_ops (FlushOp # ops) p =
     (if \<not> has_pending p then None
      else case flush p of (es, p1) \<Rightarrow> map_option (\<lambda>(es', p'). (es @ es', p')) (run_parser_ops ops p1))"

fun fed_bytes :: "parser_op list \<Rightarrow> u8 list" where
  "fed_bytes [] = []"
| "fed_bytes (FeedOp bs # ops) = bs @ fed_bytes ops"
| "fed_bytes (FlushOp # ops) = fed_bytes ops"

fun item_bytes :: "tty_item \<Rightarrow> u8 list" where
  "item_bytes (TtyBytes b bs) = b # bs"
| "item_bytes _ = []"

definition script_bytes :: "tty_item list \<Rightarrow> u8 list" where
  "script_bytes s = concat (map item_bytes s)"

lemma fed_bytes_append [simp]: "fed_bytes (a @ b) = fed_bytes a @ fed_bytes b"
  by (induction a rule: fed_bytes.induct) auto

lemma run_ops_append:
  "run_parser_ops a p = Some (es, p1) \<Longrightarrow> run_parser_ops b p1 = Some (es', p2) \<Longrightarrow>
   run_parser_ops (a @ b) p = Some (es @ es', p2)"
  by (induction a p arbitrary: es rule: run_parser_ops.induct) (auto split: sum.splits prod.splits if_splits)

text \<open>\<open>follows ops r s r' s'\<close>: going from \<open>r\<close> to \<open>r'\<close>, the reader took the bytes of \<open>ops\<close> from the terminal and queued
  the events the parser made of them.\<close>

definition follows ::
    "parser_op list \<Rightarrow> tty_reader \<Rightarrow> tty_item list \<Rightarrow> tty_reader \<Rightarrow> tty_item list \<Rightarrow> bool" where
  "follows ops r s r' s' \<longleftrightarrow> script_bytes s = fed_bytes ops @ script_bytes s'
     \<and> (\<exists>es. run_parser_ops ops (tr_parser r) = Some (es, tr_parser r') \<and> tr_pending r' = tr_pending r @ es)"

lemma follows_refl: "script_bytes s = script_bytes s' \<Longrightarrow> follows [] r s r s'"
  by (simp add: follows_def)

lemma follows_trans: "follows a r s r1 s1 \<Longrightarrow> follows b r1 s1 r2 s2 \<Longrightarrow> follows (a @ b) r s r2 s2"
  by (auto simp: follows_def dest: run_ops_append)

lemma select_bytes: "tty_select t s = (b, s') \<Longrightarrow> script_bytes s' = script_bytes s"
  by (induction t s arbitrary: s' rule: tty_select.induct) (auto simp: script_bytes_def split: if_splits)

lemma read_bytes:
  "tty_read s = Some (x, s') \<Longrightarrow> script_bytes s = (case x of ReadGot bs \<Rightarrow> bs | _ \<Rightarrow> []) @ script_bytes s'"
proof (induction s rule: tty_read.induct)
  case (3 b bs s)
  have "take read_buffer (b # bs) @ drop read_buffer (b # bs) = b # bs" by (rule append_take_drop_id)
  then show ?case using 3
    by (cases "drop read_buffer (b # bs)") (auto simp: script_bytes_def simp del: append_take_drop_id)
qed (auto simp: script_bytes_def)

lemma feed_follows:
  "reader_feed bs r = Inr r' \<Longrightarrow> script_bytes s = bs @ script_bytes s' \<Longrightarrow> follows [FeedOp bs] r s r' s'"
  by (auto simp: reader_feed_def follows_def split: sum.splits prod.splits)

lemma flush_follows:
  "has_pending (tr_parser r) \<Longrightarrow> script_bytes s = script_bytes s' \<Longrightarrow> follows [FlushOp] r s (reader_flush r) s'"
  by (auto simp: reader_flush_def follows_def split: prod.splits)

text \<open>\<open>advances\<close>: from a parser state that can be reached, without a panic, to another one.\<close>

definition reader_ok :: "tty_reader \<Rightarrow> bool" where
  "reader_ok r \<longleftrightarrow> wf_parser (tr_parser r) \<and> evq (tr_parser r) = []"

definition advances ::
    "tty_reader \<Rightarrow> tty_item list \<Rightarrow> (tty_error + 'a) \<Rightarrow> tty_reader \<Rightarrow> tty_item list \<Rightarrow> bool" where
  "advances r s x r' s' \<longleftrightarrow> reader_ok r' \<and> (\<forall>e. x \<noteq> Inl (TtyPanic e)) \<and> (\<exists>ops. follows ops r s r' s')"

lemma advances_stay: "reader_ok r \<Longrightarrow> script_bytes s = script_bytes s' \<Longrightarrow> \<forall>e. x \<noteq> Inl (TtyPanic e) \<Longrightarrow> advances r s x r s'"
  unfolding advances_def using follows_refl by blast

lemma advances_ok: "advances r s x r' s' \<Longrightarrow> reader_ok r'"
  by (simp add: advances_def)

lemma advances_trans: "advances r s x r1 s1 \<Longrightarrow> advances r1 s1 y r2 s2 \<Longrightarrow> advances r s y r2 s2"
  unfolding advances_def using follows_trans by blast

lemma feed_advances:
  assumes "reader_ok r" "tty_read s = Some (ReadGot bs, s')"
  obtains r' where "reader_feed bs r = Inr r'" "advances r s (Inr ()) r' s'"
proof -
  obtain es p' where f: "feed bs (tr_parser r) = Inr (es, p')" "wf_parser p'" "evq p' = []"
    using assms(1) feed_total[of "tr_parser r" bs] by (auto simp: reader_ok_def)
  let ?r' = "\<lparr>tr_parser = p', tr_pending = tr_pending r @ es\<rparr>"
  have r': "reader_feed bs r = Inr ?r'" using f by (simp add: reader_feed_def)
  have "script_bytes s = bs @ script_bytes s'" using read_bytes[OF assms(2)] by simp
  then have "advances r s (Inr ()) ?r' s'"
    using feed_follows[OF r'] f by (auto simp: advances_def reader_ok_def)
  with r' show thesis by (rule that)
qed

lemma flush_advances:
  "reader_ok r \<Longrightarrow> has_pending (tr_parser r) \<Longrightarrow> script_bytes s = script_bytes s' \<Longrightarrow>
   advances r s (Inr ()) (reader_flush r) s'"
  using flush_total[of "tr_parser r"] flush_follows[of r s s']
  by (auto simp: advances_def reader_ok_def reader_flush_def split: prod.splits)

lemma read_paste_advances:
  "reader_ok r \<Longrightarrow> read_paste r s = Some (x, r', s') \<Longrightarrow> advances r s x r' s'"
proof (induction r s rule: read_paste.induct)
  case (1 r s)
  show ?case
  proof (cases "is_in_paste (tr_parser r)")
    case False
    then show ?thesis using 1 by (auto simp: read_paste.simps[of r s] intro: advances_stay)
  next
    case True
    then obtain y s1 where y: "tty_read s = Some (y, s1)"
      using 1 by (auto simp: read_paste.simps[of r s] split: option.splits)
    show ?thesis
    proof (cases y)
      case (ReadGot bs)
      obtain r1 where r1: "reader_feed bs r = Inr r1" "advances r s (Inr ()) r1 s1"
        using feed_advances[OF 1(2)] y ReadGot by blast
      have "read_paste r1 s1 = Some (x, r', s')"
        using 1(3) True y ReadGot r1 by (simp add: read_paste.simps[of r s])
      moreover have "reader_ok r1" using r1(2) advances_ok by blast
      ultimately have "advances r1 s1 x r' s'" using 1(1) True y ReadGot r1(1) by auto
      then show ?thesis using advances_trans r1 by blast
    qed (use 1 True y read_bytes[OF y] in \<open>auto simp: read_paste.simps[of r s] intro!: advances_stay\<close>)
  qed
qed

lemma settle_advances:
  assumes "reader_ok r" "settle_pending r s = Some (x, r', s')"
  shows "advances r s x r' s'"
proof (cases "has_pending (tr_parser r)")
  case False
  then show ?thesis using assms by (auto simp: settle_pending_def intro: advances_stay)
next
  case True
  obtain b s1 where b: "tty_select esc_timeout_ms s = (b, s1)" by fastforce
  note sb = select_bytes[OF b]
  show ?thesis
  proof (cases b)
    case False
    then show ?thesis using assms True b sb by (auto simp: settle_pending_def intro: flush_advances)
  next
    case t: True
    then obtain y s2 where y: "tty_read s1 = Some (y, s2)"
      using assms True b by (auto simp: settle_pending_def split: option.splits)
    have stay: "advances r s (Inr ()) r s1" using assms(1) sb by (simp add: advances_stay)
    show ?thesis
    proof (cases y)
      case (ReadGot bs)
      obtain r1 where "reader_feed bs r = Inr r1" "advances r s1 (Inr ()) r1 s2"
        using feed_advances[OF assms(1)] y ReadGot by blast
      then show ?thesis
        using assms(2) True t b y ReadGot advances_trans[OF stay] by (auto simp: settle_pending_def)
    qed (use assms True t b y sb read_bytes[OF y] in \<open>auto simp: settle_pending_def intro!: advances_stay\<close>)
  qed
qed

lemma read_ready_advances:
  assumes "reader_ok r" "read_ready r s = Some (x, r', s')"
  shows "advances r s x r' s'"
proof -
  obtain y s1 where y: "tty_read s = Some (y, s1)" using assms(2) by (auto simp: read_ready_def split: option.splits)
  show ?thesis
  proof (cases y)
    case (ReadGot bs)
    obtain r1 where r1: "reader_feed bs r = Inr r1" "advances r s (Inr ()) r1 s1"
      using feed_advances[OF assms(1)] y ReadGot by blast
    then obtain z r2 s2 where z: "read_paste r1 s1 = Some (z, r2, s2)"
      using assms(2) y ReadGot by (auto simp: read_ready_def split: option.splits)
    have a: "advances r s z r2 s2"
      using read_paste_advances[OF advances_ok[OF r1(2)] z] advances_trans[OF r1(2)] by blast
    show ?thesis
    proof (cases z)
      case (Inl e)
      then show ?thesis using assms(2) y ReadGot r1 z a by (auto simp: read_ready_def)
    next
      case (Inr u)
      then have "settle_pending r2 s2 = Some (x, r', s')"
        using assms(2) y ReadGot r1 z by (auto simp: read_ready_def)
      then show ?thesis using settle_advances advances_ok[OF a] advances_trans[OF a] by blast
    qed
  qed (use assms y read_bytes[OF y] in \<open>auto simp: read_ready_def intro!: advances_stay\<close>)
qed


lemma enrich_none [simp]: "enrich_with_modifiers (False, False) = (\<lambda>e. e)" "enrich_with_modifiers (False, False) e = e"
  by (auto simp: enrich_with_modifiers_def fun_eq_iff split: input_event.split)

text \<open>What a read hands out is taken from the front of the events the reader holds.\<close>

definition handed :: "(tty_error + input_event option) \<Rightarrow> input_event list" where
  "handed res = (case res of Inr (Some e) \<Rightarrow> [e] | _ \<Rightarrow> [])"

definition with_handed :: "(tty_error + input_event option) \<Rightarrow> tty_reader \<Rightarrow> tty_reader" where
  "with_handed res r = r\<lparr>tr_pending := handed res @ tr_pending r\<rparr>"

lemma handed_simps [simp]: "handed (Inl e) = []" "handed (Inr None) = []" "handed (Inr (Some x)) = [x]"
  by (simp_all add: handed_def)

lemma with_handed_parser [simp]: "tr_parser (with_handed res r) = tr_parser r"
  by (simp add: with_handed_def)

lemma pop_handed: "reader_pop r = (e, r') \<Longrightarrow> with_handed (Inr e) r' = r \<and> tr_parser r' = tr_parser r"
  by (cases "tr_pending r") (auto simp: reader_pop_def with_handed_def)

lemma follows_parser: "follows ops r s r1 s1 \<Longrightarrow> tr_parser r1 = tr_parser r2 \<Longrightarrow> tr_pending r1 = tr_pending r2 \<Longrightarrow> follows ops r s r2 s1"
  by (simp add: follows_def)

lemma read_advances:
  assumes "reader_ok r" "reader_read (False, False) t r s = Some (res, r', s')"
  shows "advances r s res (with_handed res r') s'"
proof (cases "tr_pending r")
  case (Cons e es)
  then have "res = Inr (Some e)" "with_handed res r' = r" "s' = s"
    using assms(2) by (auto simp: reader_read_def with_handed_def)
  then show ?thesis using assms(1) by (simp add: advances_stay)
next
  case Nil
  obtain b s1 where b: "tty_select (min t (2 ^ 31 - 1)) s = (b, s1)" by fastforce
  note sb = select_bytes[OF b]
  show ?thesis
  proof (cases b)
    case False
    show ?thesis
    proof (cases "has_pending (tr_parser r)")
      case True
      obtain e r1 where e: "reader_pop (reader_flush r) = (e, r1)" by fastforce
      have "res = Inr e" "r' = r1" "s' = s1" using assms(2) Nil b False True e by (auto simp: reader_read_def)
      then show ?thesis
        using flush_advances[OF assms(1) True, of s s1] pop_handed[OF e] sb by (simp add: advances_def)
    next
      case False
      then have "res = Inr None" "with_handed res r' = r" "s' = s1"
        using assms(2) Nil b \<open>\<not> b\<close> by (auto simp: reader_read_def with_handed_def)
      then show ?thesis using assms(1) sb by (simp add: advances_stay)
    qed
  next
    case True
    then obtain x r1 s2 where x: "read_ready r s1 = Some (x, r1, s2)"
      using assms(2) Nil b by (auto simp: reader_read_def split: option.splits)
    have a: "advances r s x r1 s2"
      using read_ready_advances[OF assms(1) x] advances_trans[OF advances_stay[of r s s1 "Inr ()"]] assms(1) sb by simp
    show ?thesis
    proof (cases x)
      case (Inl e)
      then show ?thesis using assms(2) Nil b True x a by (auto simp: reader_read_def with_handed_def advances_def follows_def)
    next
      case (Inr u)
      obtain e r2 where e: "reader_pop r1 = (e, r2)" by fastforce
      have "res = Inr e" "r' = r2" "s' = s2"
        using assms(2) Nil b True x Inr e by (auto simp: reader_read_def option.map_ident)
      then show ?thesis using a pop_handed[OF e] by (simp add: advances_def)
    qed
  qed
qed

section \<open>Every keystroke reaches the loop\<close>

fun is_input :: "app_event \<Rightarrow> bool" where
  "is_input (EvKey _) = True"
| "is_input (EvMouse _) = True"
| "is_input (EvPaste _) = True"
| "is_input _ = False"

lemma app_event_is_input [simp]: "is_input (app_event_of e)"
  by (cases e) auto

lemma resize_shape: "resize_event tn = [] \<or> (\<exists>cols rows. resize_event tn = [EvResize cols rows])"
proof (cases "tn_size tn")
  case (Some sz)
  then show ?thesis by (cases sz) (simp add: resize_event_def)
qed (simp add: resize_event_def)

lemma resize_not_input [simp]: "filter is_input (resize_event tn) = []"
  using resize_shape[of tn] by auto

lemma tick_fields [simp]:
  "et_reader (tick_step rate now th) = et_reader th" "et_script (tick_step rate now th) = et_script th"
  "filter is_input (et_sent (tick_step rate now th)) = filter is_input (et_sent th)"
  by (simp_all add: tick_step_def)

text \<open>The thread from its start: the parser has run on the bytes taken from the terminal, and its events are the
  input events sent followed by those still waiting in the reader.\<close>

definition thread_inv :: "tty_item list \<Rightarrow> event_thread \<Rightarrow> bool" where
  "thread_inv s0 th \<longleftrightarrow> reader_ok (et_reader th)
     \<and> (\<exists>ops es. script_bytes s0 = fed_bytes ops @ script_bytes (et_script th)
          \<and> run_parser_ops ops new_parser = Some (es, tr_parser (et_reader th))
          \<and> map app_event_of es = filter is_input (et_sent th) @ map app_event_of (tr_pending (et_reader th)))"

lemma thread_inv_start: "thread_inv s (start_thread now s)"
  using wf_new_parser
  by (auto simp: thread_inv_def start_thread_def open_reader_def reader_ok_def new_parser_def intro!: exI[of _ "[]"])

lemma thread_inv_advance:
  assumes "thread_inv s0 th" "advances (et_reader th) (et_script th) res (with_handed res r') s'"
    and "et_reader th' = r'" "et_script th' = s'"
    and "filter is_input (et_sent th') = filter is_input (et_sent th) @ map app_event_of (handed res)"
  shows "thread_inv s0 th'"
proof -
  obtain ops es where o: "script_bytes s0 = fed_bytes ops @ script_bytes (et_script th)"
      "run_parser_ops ops new_parser = Some (es, tr_parser (et_reader th))"
      "map app_event_of es = filter is_input (et_sent th) @ map app_event_of (tr_pending (et_reader th))"
    using assms(1) by (auto simp: thread_inv_def)
  obtain ops' es' where f: "script_bytes (et_script th) = fed_bytes ops' @ script_bytes s'"
      "run_parser_ops ops' (tr_parser (et_reader th)) = Some (es', tr_parser r')"
      "handed res @ tr_pending r' = tr_pending (et_reader th) @ es'"
    using assms(2) by (auto simp: advances_def follows_def with_handed_def)
  have "map app_event_of (handed res) @ map app_event_of (tr_pending r')
        = map app_event_of (tr_pending (et_reader th)) @ map app_event_of es'"
    using f(3) by (metis map_append)
  then have "map app_event_of (es @ es') = filter is_input (et_sent th') @ map app_event_of (tr_pending r')"
    using o(3) assms(5) by simp
  moreover have "reader_ok r'" using assms(2) by (simp add: advances_def reader_ok_def)
  ultimately show ?thesis
    using o f assms(3,4) run_ops_append[OF o(2) f(2)]
    by (auto simp: thread_inv_def intro!: exI[of _ "ops @ ops'"] exI[of _ "es @ es'"])
qed


lemma thread_turn_inv:
  assumes "thread_inv s0 th" "tn_held tn = (False, False)" "thread_turn rate tn th = Some th'"
  shows "thread_inv s0 th'"
proof (cases "et_alive th \<and> \<not> tn_shutdown tn")
  case False
  then have "et_reader th' = et_reader th" "et_script th' = et_script th" "et_sent th' = et_sent th"
    using assms(3) by (auto simp: thread_turn_def split: if_splits)
  then show ?thesis using assms(1) by (simp add: thread_inv_def)
next
  case True
  let ?t = "poll_timeout rate (tn_before tn - et_last_tick th)"
  obtain res r s where r: "reader_read (False, False) ?t (et_reader th) (et_script th) = Some (res, r, s)"
    using assms(2,3) True by (auto simp: thread_turn_def Let_def split: option.splits)
  have a: "advances (et_reader th) (et_script th) res (with_handed res r) s"
    using read_advances[OF _ r] assms(1) by (simp add: thread_inv_def)
  show ?thesis
  proof (rule thread_inv_advance[OF assms(1) a])
    show "et_reader th' = r" "et_script th' = s"
      using assms(2,3) True r by (cases res; auto simp: thread_turn_def Let_def)+
    show "filter is_input (et_sent th') = filter is_input (et_sent th) @ map app_event_of (handed res)"
    proof (cases res)
      case (Inl e)
      then show ?thesis using assms(2,3) True r by (auto simp: thread_turn_def Let_def)
    next
      case (Inr ev)
      then show ?thesis using assms(2,3) True r by (cases ev) (auto simp: thread_turn_def Let_def)
    qed
  qed
qed

lemma thread_run_inv:
  "thread_inv s0 th \<Longrightarrow> \<forall>tn \<in> set tns. tn_held tn = (False, False) \<Longrightarrow> thread_run rate tns th = Some th' \<Longrightarrow> thread_inv s0 th'"
  by (induction tns arbitrary: th) (auto split: option.splits dest: thread_turn_inv)



definition typed_ab :: "tty_item list" where
  "typed_ab = [TtyBytes 0x61 [0x62]]"

definition calm_turn :: turn_env where
  "calm_turn = \<lparr>tn_shutdown = False, tn_winch = False, tn_size = None, tn_before = 0, tn_after = 0, tn_held = (False, False)\<rparr>"

lemma typed_ab_run:
  "thread_run 250 [calm_turn, calm_turn] (start_thread 0 typed_ab)
   = Some \<lparr>et_reader = open_reader, et_script = [], et_last_tick = 0, et_alive = True,
      et_sent = [EvKey \<lparr>raw = [0x61], kind = KeyChar 0x61\<rparr>, EvKey \<lparr>raw = [0x62], kind = KeyChar 0x62\<rparr>]\<rparr>"
proof -
  have f: "feed [0x61, 0x62] new_parser = Inr ([Key \<lparr>raw = [0x61], kind = KeyChar 0x61\<rparr>,
      Key \<lparr>raw = [0x62], kind = KeyChar 0x62\<rparr>], new_parser)"
    by code_simp
  have p: "is_in_paste new_parser = False" "has_pending new_parser = False"
    by (simp_all add: is_in_paste_def has_pending_def new_parser_def)
  show ?thesis
    by (simp add: typed_ab_def calm_turn_def start_thread_def thread_turn_def resize_event_def Let_def poll_timeout_def
        reader_read_def read_ready_def reader_feed_def open_reader_def f p read_buffer_def read_paste.simps
        settle_pending_def reader_pop_def tick_step_def)
qed


section \<open>Ticks\<close>

definition tick_count :: "event_thread \<Rightarrow> nat" where
  "tick_count th = length (filter (\<lambda>e. e = EvTick) (et_sent th))"

lemma no_tick: "app_event_of e \<noteq> EvTick" "EvTick \<notin> set (resize_event tn)"
  using resize_shape[of tn] by (cases e; auto)+

lemma tick_step_spaced:
  "start + tick_count th * rate \<le> et_last_tick th \<Longrightarrow> 0 < rate \<Longrightarrow>
   start + tick_count (tick_step rate now th) * rate \<le> et_last_tick (tick_step rate now th)"
  by (auto simp: tick_step_def tick_count_def)

lemma thread_turn_spaced:
  assumes "start + tick_count th * rate \<le> et_last_tick th" "0 < rate" "thread_turn rate tn th = Some th'"
  shows "start + tick_count th' * rate \<le> et_last_tick th'"
proof -
  have nr: "filter (\<lambda>e. e = EvTick) (resize_event tn) = []"
    using no_tick(2) by (auto simp: filter_empty_conv)
  have step: "start + tick_count (tick_step rate now x) * rate \<le> et_last_tick (tick_step rate now x)"
    if "tick_count x = tick_count th" "et_last_tick x = et_last_tick th" for now x
    using tick_step_spaced[of start x rate now] assms(1,2) that by simp
  show ?thesis
    using assms nr no_tick(1)
    by (auto simp: thread_turn_def Let_def tick_count_def
        split: if_splits option.splits sum.splits prod.splits intro!: step[unfolded tick_count_def])
qed

text \<open>Whatever is typed, the loop gets no more than one tick per period.\<close>

theorem ticks_spaced:
  assumes "thread_run rate tns (start_thread now s) = Some th" "0 < rate"
  shows "now + tick_count th * rate \<le> et_last_tick th"
proof -
  have "now + tick_count th0 * rate \<le> et_last_tick th0 \<Longrightarrow> thread_run rate tns th0 = Some th \<Longrightarrow> ?thesis" for th0
    by (induction tns arbitrary: th0)
      (auto split: option.splits dest: thread_turn_spaced[OF _ assms(2), of now])
  from this[of "start_thread now s"] assms(1) show ?thesis by (simp add: start_thread_def tick_count_def)
qed

theorem ticks_spaced_witness:
  "tick_count \<lparr>et_reader = open_reader, et_script = [], et_last_tick = 0, et_alive = True,
      et_sent = [EvKey \<lparr>raw = [0x61], kind = KeyChar 0x61\<rparr>, EvKey \<lparr>raw = [0x62], kind = KeyChar 0x62\<rparr>]\<rparr> = 0"
  using ticks_spaced[OF typed_ab_run] by simp

section \<open>Waiting in a paste, and held keys\<close>

lemma quiet_never_reads: "\<forall>x \<in> set s. \<exists>n. x = TtyQuiet n \<Longrightarrow> tty_read s = None"
  by (induction s rule: tty_read.induct) auto

text \<open>A paste whose end never comes blocks the thread for good: no tick, no resize, and the shutdown flag, which is
  looked at between reads only, is never seen.\<close>

theorem open_paste_blocks:
  assumes "b # bs = paste_start @ t" "\<not> str_contains end_marker t" "length (b # bs) \<le> read_buffer"
    and "\<forall>x \<in> set quiet. \<exists>n. x = TtyQuiet n" "\<not> tn_shutdown tn"
  shows "thread_run rate (tn # tns) (start_thread now (TtyBytes b bs # quiet)) = None"
proof -
  have quiet: "\<not> ends_paste (take k t)" for k
  proof
    assume "ends_paste (take k t)"
    then obtain a where "take k t = a @ end_marker" by (auto simp: ends_paste_iff)
    then have "t = a @ end_marker @ drop k t" by (metis append.assoc append_take_drop_id)
    then show False using assms(2) by (auto simp: str_contains_iff)
  qed
  let ?p = "new_parser\<lparr>pst := PasteBuf\<rparr>"
  have "steps (b # bs) new_parser = Inr (?p\<lparr>buf := t\<rparr>)"
    using steps_in_paste[of ?p t] quiet
    by (simp only: assms(1) parser_run.run_append steps_paste_start sum.case) (simp add: new_parser_def)
  then have f: "reader_feed (b # bs) open_reader = Inr \<lparr>tr_parser = ?p\<lparr>buf := t, evq := []\<rparr>, tr_pending = []\<rparr>"
    by (simp add: reader_feed_def feed_def open_reader_def new_parser_def)
  have "read_paste \<lparr>tr_parser = ?p\<lparr>buf := t, evq := []\<rparr>, tr_pending = []\<rparr> quiet = None"
    using quiet_never_reads[OF assms(4)] by (simp add: read_paste.simps is_in_paste_def)
  then have "read_ready open_reader (TtyBytes b bs # quiet) = None"
    using f assms(3) by (simp add: read_ready_def)
  then have "reader_read held n open_reader (TtyBytes b bs # quiet) = None" for held n
    by (simp add: reader_read_def open_reader_def)
  then show ?thesis using assms(5) by (simp add: thread_turn_def start_thread_def Let_def)
qed

theorem open_paste_blocks_witness:
  "thread_run 250 [calm_turn, calm_turn\<lparr>tn_shutdown := True\<rparr>]
     (start_thread 0 [TtyBytes 0x1b [0x5b, 0x32, 0x30, 0x30, 0x7e, 0x68, 0x69]]) = None"
  using open_paste_blocks[of "0x1b" "[0x5b, 0x32, 0x30, 0x30, 0x7e, 0x68, 0x69]" "[0x68, 0x69]" "[]" calm_turn 250
      "[calm_turn\<lparr>tn_shutdown := True\<rparr>]" 0]
  by (simp add: paste_start_def read_buffer_def calm_turn_def end_marker_def str_contains_iff)

text \<open>Of two Enter keys in one read with Shift held, only the first is repaired: the second waits in the queue and
  is handed out as it is.\<close>

theorem waiting_keys_not_enriched:
  "map_option (\<lambda>(res, r, s). (handed res, tr_pending r)) (reader_read (False, True) 50 open_reader [TtyBytes 0x0d [0x0d]])
   = Some ([Key \<lparr>raw = [0x1b, 0x5b, 0x31, 0x33, 0x3b, 0x32, 0x75], kind = KeyEnter\<rparr>], [Key \<lparr>raw = [0x0d], kind = KeyEnter\<rparr>])
   \<and> reader_read held 50 \<lparr>tr_parser = new_parser, tr_pending = [Key \<lparr>raw = [0x0d], kind = KeyEnter\<rparr>]\<rparr> []
     = Some (Inr (Some (Key \<lparr>raw = [0x0d], kind = KeyEnter\<rparr>)), open_reader, [])"
proof -
  have f: "feed [0x0d, 0x0d] new_parser = Inr ([Key \<lparr>raw = [0x0d], kind = KeyEnter\<rparr>,
      Key \<lparr>raw = [0x0d], kind = KeyEnter\<rparr>], new_parser)"
    by code_simp
  have p: "is_in_paste new_parser = False" "has_pending new_parser = False"
    by (simp_all add: is_in_paste_def has_pending_def new_parser_def)
  show ?thesis
    by (simp add: reader_read_def read_ready_def reader_feed_def open_reader_def f p read_buffer_def read_paste.simps
        settle_pending_def reader_pop_def enrich_with_modifiers_def)
qed

end
