(* ===== verification/PtySession.thy ===== *)
theory PtySession
  imports Runtime InputParser
begin

text \<open>
  The session around the child (\<open>src/pty/session.rs\<close>): the environment and the size it starts with, what a failing
  start leaves behind, the thread that reads its output, and the shutdown; and the pass-through of
  \<open>src/pty/manager.rs\<close>.  The pseudo terminal, the emulator and the operating system are parameters: which call fails,
  what a read returns, when the child has ended.
\<close>

section \<open>Starting\<close>

text \<open>The size of the terminal, with its fall-back and a floor of one cell.\<close>

definition pty_dims :: "(u16 \<times> u16) option \<Rightarrow> u16 \<times> u16" where
  "pty_dims window = (case window of Some (cols, rows) \<Rightarrow> (max cols 1, max rows 1) | None \<Rightarrow> (80, 24))"

text \<open>The child inherits the environment, then \<open>TERM\<close>, then the variables given, a later one over an earlier.\<close>

definition command_env ::
    "(string \<rightharpoonup> string) \<Rightarrow> (string \<times> string) list \<Rightarrow> (string \<rightharpoonup> string)" where
  "command_env inherited env = fold (\<lambda>(k, v) m. m(k \<mapsto> v)) env (inherited(''TERM'' \<mapsto> ''xterm-256color''))"

record spawn_faults =
  sf_openpty :: "string option"
  sf_cwd :: "string option"
  sf_spawn :: "string option"
  sf_reader :: "string option"
  sf_writer :: "string option"

text \<open>The result, and whether a child was started: the last two calls come after it.\<close>

definition pty_spawn :: "spawn_faults \<Rightarrow> (string + unit) \<times> bool" where
  "pty_spawn f =
     (case sf_openpty f of Some e \<Rightarrow> (Inl e, False) | None \<Rightarrow>
      (case sf_cwd f of Some e \<Rightarrow> (Inl e, False) | None \<Rightarrow>
      (case sf_spawn f of Some e \<Rightarrow> (Inl e, False) | None \<Rightarrow>
      (case sf_reader f of Some e \<Rightarrow> (Inl e, True) | None \<Rightarrow>
      (case sf_writer f of Some e \<Rightarrow> (Inl e, True) | None \<Rightarrow> (Inr (), True))))))"

section \<open>The reader thread\<close>

datatype pty_read = PtyChunk "u8 list" | PtyEof | PtyReadFails string

record 'e pty_output =
  po_screen :: 'e
  po_tail :: "u8 list"
  po_sent :: "app_event list"
  po_done :: bool
  po_trace :: "u8 list option"

definition new_output :: "'e \<Rightarrow> 'e pty_output" where
  "new_output emu = \<lparr>po_screen = emu, po_tail = [], po_sent = [], po_done = False, po_trace = None\<rparr>"

definition output_read :: "(u8 list \<Rightarrow> 'e \<Rightarrow> 'e) \<Rightarrow> u64 \<Rightarrow> pty_read \<Rightarrow> 'e pty_output \<Rightarrow> 'e pty_output" where
  "output_read process gen x o1 =
     (if po_done o1 then o1
      else case x of
        PtyChunk bs \<Rightarrow> o1\<lparr>po_screen := process bs (po_screen o1), po_tail := push_tail bs (po_tail o1),
                         po_sent := po_sent o1 @ [EvPtyOutput]\<rparr>
      | PtyEof \<Rightarrow> o1\<lparr>po_sent := po_sent o1 @ [EvProcessExit gen], po_done := True,
                     po_trace := Some (strip_ansi (lossy_bytes (po_tail o1)))\<rparr>
      | PtyReadFails e \<Rightarrow> o1\<lparr>po_sent := po_sent o1 @ [EvPtyError (PtyReadError e)], po_done := True\<rparr>)"

definition reader_loop :: "(u8 list \<Rightarrow> 'e \<Rightarrow> 'e) \<Rightarrow> u64 \<Rightarrow> pty_read list \<Rightarrow> 'e \<Rightarrow> 'e pty_output" where
  "reader_loop process gen xs emu = fold (output_read process gen) xs (new_output emu)"

section \<open>Shutting down\<close>

text \<open>\<open>try_wait\<close> at an instant (milliseconds) is an error or whether the child has ended; each pause takes ten.
  A killed child is taken to be reaped at once (\<open>wait\<close> after \<open>kill\<close>).\<close>

datatype wait_result = WaitEnded | WaitKilled | WaitFailed string

function wait_exit :: "(nat \<Rightarrow> string + bool) \<Rightarrow> nat \<Rightarrow> nat \<Rightarrow> wait_result \<times> nat" where
  "wait_exit tw deadline now =
     (case tw now of
        Inl e \<Rightarrow> (WaitFailed e, now)
      | Inr ended \<Rightarrow>
          if ended then (WaitEnded, now)
          else if deadline \<le> now then (WaitKilled, now)
          else wait_exit tw deadline (now + 10))"
  by pat_completeness auto
termination
  by (relation "measure (\<lambda>(_, deadline, now). deadline - now)") auto

declare wait_exit.simps [simp del]

function join_reader :: "(nat \<Rightarrow> bool) \<Rightarrow> nat \<Rightarrow> nat \<Rightarrow> nat" where
  "join_reader finished deadline now =
     (if finished now \<or> deadline \<le> now then now else join_reader finished deadline (now + 10))"
  by pat_completeness auto
termination
  by (relation "measure (\<lambda>(_, deadline, now). deadline - now)") auto

declare join_reader.simps [simp del]

record pty_session =
  ps_handle :: pty_handle
  ps_pid :: "u32 option"
  ps_reaped :: bool
  ps_joinable :: bool
  ps_signals :: "(u32 \<times> bool) list"

text \<open>\<open>ps_signals\<close> are the termination signals sent, each with whether the child was already reaped then: its number
  is free for another process from that moment.\<close>

definition signal_child :: "pty_session \<Rightarrow> pty_session" where
  "signal_child s = (case ps_pid s of Some p \<Rightarrow> s\<lparr>ps_signals := ps_signals s @ [(p, ps_reaped s)]\<rparr> | None \<Rightarrow> s)"

definition pty_shutdown ::
    "(nat \<Rightarrow> string + bool) \<Rightarrow> (nat \<Rightarrow> bool) \<Rightarrow> nat \<Rightarrow> pty_session \<Rightarrow> (string + unit) \<times> nat \<times> pty_session" where
  "pty_shutdown tw finished now s =
     (let s1 = signal_child (s\<lparr>ps_handle := close_writer (ps_handle s)\<rparr>) in
      case wait_exit (\<lambda>t. if ps_reaped s then Inr True else tw t) (now + 300) now of
        (WaitFailed e, t) \<Rightarrow> (Inl e, t, s1)
      | (_, t) \<Rightarrow>
          (Inr (), if ps_joinable s then join_reader finished (t + 2000) t else t,
           s1\<lparr>ps_reaped := True, ps_joinable := False\<rparr>))"

text \<open>Dropping the session shuts it down (again).\<close>

definition pty_drop ::
    "(nat \<Rightarrow> string + bool) \<Rightarrow> (nat \<Rightarrow> bool) \<Rightarrow> nat \<Rightarrow> pty_session \<Rightarrow> nat \<times> pty_session" where
  "pty_drop tw finished now s = snd (pty_shutdown tw finished now s)"

section \<open>Passing input through\<close>

datatype stdin_read = StdinGot "u8 list" | StdinEnd | StdinFails

text \<open>The writer thread of \<open>run_command\<close>; \<open>works n\<close> says whether writing and flushing succeed after \<open>n\<close> bytes.\<close>

fun forward_stdin :: "(nat \<Rightarrow> bool) \<Rightarrow> stdin_read list \<Rightarrow> u8 list \<Rightarrow> u8 list" where
  "forward_stdin works (StdinGot bs # xs) written =
     (if without_hotkeys bs = [] then forward_stdin works xs written
      else if works (length written) then forward_stdin works xs (written @ without_hotkeys bs)
      else written)"
| "forward_stdin works _ written = written"

text \<open>The status of the child becomes the status of the program.\<close>

definition run_command_exit :: "u32 \<Rightarrow> (32 word) option" where
  "run_command_exit status = (if status = 0 then None else Some status)"

section \<open>What a session guarantees\<close>

fun read_chunks :: "pty_read list \<Rightarrow> u8 list list" where
  "read_chunks (PtyChunk bs # xs) = bs # read_chunks xs"
| "read_chunks _ = []"

fun read_end :: "u64 \<Rightarrow> pty_read list \<Rightarrow> app_event option" where
  "read_end gen (PtyChunk _ # xs) = read_end gen xs"
| "read_end gen (PtyEof # _) = Some (EvProcessExit gen)"
| "read_end gen (PtyReadFails e # _) = Some (EvPtyError (PtyReadError e))"
| "read_end gen [] = None"

lemma output_done: "po_done o1 \<Longrightarrow> fold (output_read process gen) xs o1 = o1"
  by (induction xs) (simp_all add: output_read_def)

lemma output_shape:
  assumes "\<not> po_done o1"
  shows "po_screen (fold (output_read process gen) xs o1) = fold process (read_chunks xs) (po_screen o1)
    \<and> po_tail (fold (output_read process gen) xs o1) = fold push_tail (read_chunks xs) (po_tail o1)
    \<and> po_sent (fold (output_read process gen) xs o1)
        = po_sent o1 @ map (\<lambda>_. EvPtyOutput) (read_chunks xs) @ (case read_end gen xs of Some e \<Rightarrow> [e] | None \<Rightarrow> [])
    \<and> po_done (fold (output_read process gen) xs o1) = (read_end gen xs \<noteq> None)"
  using assms
proof (induction gen xs arbitrary: o1 rule: read_end.induct)
  case (1 gen bs xs)
  show ?case using 1(1)[of "output_read process gen (PtyChunk bs) o1"] 1(2) by (simp add: output_read_def)
qed (simp_all add: output_read_def output_done)

text \<open>C30: the screen is what the emulator makes of the whole output in order; every chunk is announced after it is on the
  screen, and the last event, and only it, says how the output ended: an exit with the generation of this child or the
  read error, never both.\<close>

theorem output_announced_exactly:
  "po_screen (reader_loop process gen xs emu) = fold process (read_chunks xs) emu
   \<and> po_tail (reader_loop process gen xs emu) = last_n tail_limit (concat (read_chunks xs))
   \<and> po_sent (reader_loop process gen xs emu)
       = replicate (length (read_chunks xs)) EvPtyOutput @ (case read_end gen xs of Some e \<Rightarrow> [e] | None \<Rightarrow> [])"
  using output_shape[of "new_output emu" process gen xs] tail_is_suffix[of "read_chunks xs"]
  by (simp add: reader_loop_def new_output_def map_replicate_const)

lemma wait_exit_bound: "wait_exit tw deadline now = (r, t) \<Longrightarrow> now \<le> t \<and> t \<le> max now (deadline + 9)"
proof (induction tw deadline now rule: wait_exit.induct)
  case (1 tw deadline now)
  show ?case
  proof (cases "tw now = Inr False \<and> \<not> deadline \<le> now")
    case True
    then have "wait_exit tw deadline (now + 10) = (r, t)" using 1(2) by (simp add: wait_exit.simps[of tw deadline now])
    with 1(1)[of False] True have "now + 10 \<le> t \<and> t \<le> max (now + 10) (deadline + 9)" by simp
    with True show ?thesis by auto
  next
    case False
    then show ?thesis using 1(2) by (auto simp: wait_exit.simps[of tw deadline now] split: sum.splits if_splits)
  qed
qed

lemma join_bound: "now \<le> join_reader finished deadline now \<and> join_reader finished deadline now \<le> max now (deadline + 9)"
proof (induction finished deadline now rule: join_reader.induct)
  case (1 finished deadline now)
  then show ?case by (subst (1 2) join_reader.simps) auto
qed

lemma shutdown_leaves_nothing:
  assumes "pty_shutdown tw finished now s = (r, t, s')" "\<forall>t. \<exists>b. tw t = Inr b"
  shows "r = Inr () \<and> t \<le> now + 2318 \<and> ps_reaped s' \<and> \<not> ph_open (ps_handle s') \<and> \<not> ps_joinable s'"
proof -
  let ?tw = "\<lambda>t. if ps_reaped s then Inr True else tw t"
  obtain w u where w: "wait_exit ?tw (now + 300) now = (w, u)" by fastforce
  have nf: "wait_exit g d n \<noteq> (WaitFailed e, v)" if "\<forall>t. \<exists>b. g t = Inr b" for g d n e v
    using that
  proof (induction g d n rule: wait_exit.induct)
    case (1 g d n)
    obtain b where "g n = Inr b" using 1(2) by blast
    then show ?case using 1(1)[of b] 1(2) by (simp add: wait_exit.simps[of g d n])
  qed
  have "\<forall>t. \<exists>b. ?tw t = Inr b" using assms(2) by (cases "ps_reaped s") auto
  then have "w \<noteq> WaitFailed e" for e using nf[of ?tw "now + 300" now e u] w by blast
  moreover have "u \<le> now + 309" using wait_exit_bound[OF w] by simp
  moreover have "join_reader finished (u + 2000) u \<le> u + 2009" using join_bound[of u finished "u + 2000"] by simp
  ultimately show ?thesis
    using assms(1) w
    by (cases w) (auto simp: pty_shutdown_def signal_child_def close_writer_def Let_def split: option.splits if_splits)
qed

text \<open>A shutdown returns within 2.32 seconds whatever child and reader do, and unless asking for the child fails, the child
  is gone then: ended or killed, and reaped.\<close>

theorem shutdown_ends_child:
  assumes "pty_shutdown tw finished now s = (r, t, s')" "\<forall>t. \<exists>b. tw t = Inr b"
  shows "r = Inr () \<and> t \<le> now + 2318 \<and> ps_reaped s' \<and> \<not> ph_open (ps_handle s') \<and> \<not> ps_joinable s'"
  by (rule shutdown_leaves_nothing[OF assms])

definition idle_session :: pty_session where
  "idle_session = \<lparr>ps_handle = \<lparr>ph_written = [], ph_open = True, ph_broken = False, ph_scrollback = 0, ph_size = None\<rparr>,
     ps_pid = Some 7, ps_reaped = False, ps_joinable = True, ps_signals = []\<rparr>"

text \<open>A child and a reader that never end.\<close>

theorem shutdown_ends_child_witness:
  "case pty_shutdown (\<lambda>_. Inr False) (\<lambda>_. False) 0 idle_session of
     (r, t, s') \<Rightarrow> r = Inr () \<and> t \<le> 2318 \<and> ps_reaped s' \<and> \<not> ph_open (ps_handle s') \<and> \<not> ps_joinable s'"
  using shutdown_ends_child[of "\<lambda>_. Inr False" "\<lambda>_. False" 0 idle_session] by (auto split: prod.splits)

text \<open>The drop that follows signals the number again, when the child behind it has been reaped: by then it may be
  another process's.\<close>

theorem drop_signals_reaped_number:
  assumes "pty_shutdown tw finished now s = (Inr (), t, s')" "ps_pid s = Some p"
  shows "(p, True) \<in> set (ps_signals (snd (pty_drop tw finished t s')))"
  using assms
  by (auto simp: pty_shutdown_def pty_drop_def signal_child_def wait_exit.simps Let_def
      split: prod.splits wait_result.splits)

theorem drop_signals_reaped_number_witness:
  "(7, True) \<in> set (ps_signals (snd (pty_drop (\<lambda>_. Inr True) (\<lambda>_. True) 0
     (snd (snd (pty_shutdown (\<lambda>_. Inr True) (\<lambda>_. True) 0 idle_session))))))"
proof -
  have "pty_shutdown (\<lambda>_. Inr True) (\<lambda>_. True) 0 idle_session
      = (Inr (), 0, snd (snd (pty_shutdown (\<lambda>_. Inr True) (\<lambda>_. True) 0 idle_session)))"
    by (simp add: pty_shutdown_def wait_exit.simps join_reader.simps Let_def idle_session_def)
  from drop_signals_reaped_number[OF this] show ?thesis by (simp add: idle_session_def)
qed

text \<open>A start that fails after the child was started leaves it running.\<close>

theorem failed_spawn_leaves_child:
  "pty_spawn f = (Inl e, True) \<longleftrightarrow>
     sf_openpty f = None \<and> sf_cwd f = None \<and> sf_spawn f = None
     \<and> (case sf_reader f of Some e' \<Rightarrow> e' = e | None \<Rightarrow> sf_writer f = Some e)"
  by (auto simp: pty_spawn_def split: option.splits)

lemma command_env_last: "command_env inherited (env @ [(k, v)]) = (command_env inherited env)(k \<mapsto> v)"
  by (simp add: command_env_def)

text \<open>A terminal name is only given when the caller does not give one.\<close>

lemma command_term: "''TERM'' \<notin> fst ` set env \<Longrightarrow> command_env inherited env ''TERM'' = Some ''xterm-256color''"
proof (induction env rule: rev_induct)
  case (snoc e env)
  then show ?case by (cases e) (simp add: command_env_last)
qed (simp add: command_env_def)

lemma forward_written: "\<forall>n. works n \<Longrightarrow> \<forall>x \<in> set xs. \<exists>bs. x = StdinGot bs \<Longrightarrow>
   forward_stdin works xs w = w @ without_hotkeys (concat (map (\<lambda>x. case x of StdinGot bs \<Rightarrow> bs | _ \<Rightarrow> []) xs))"
  by (induction works xs w rule: forward_stdin.induct) (auto simp: without_hotkeys_def)

end
