(* ===== verification/Screen.thy ===== *)
theory Screen
  imports Runtime
begin

text \<open>
  Drawing (\<open>src/ui/render.rs\<close>, \<open>terminal.rs\<close>, \<open>theme.rs\<close>, \<open>components/popup.rs\<close>, \<open>backend_switch/dialog.rs\<close>,
  \<open>history/dialog.rs\<close>): which cell of the frame shows which cell of the child's terminal, where the cursor stands,
  and the lines, the place and the scrollbar of the three dialogs.  What the drawing library does with a symbol and a style,
  and how wide it takes a line to be, are parameters; its buffer is an area with a cell for every position, where
  an access outside the area by index panics.
\<close>

section \<open>Colours and styles\<close>

datatype color = IndexedColor u8 | RgbColor u8 u8 u8

definition CLAUDE_ORANGE :: color where "CLAUDE_ORANGE = RgbColor 0xda 0x77 0x56"
definition HEADER_TEXT :: color where "HEADER_TEXT = RgbColor 0xe5 0xe5 0xe5"
definition HEADER_SEPARATOR :: color where "HEADER_SEPARATOR = RgbColor 0x6b 0x72 0x80"
definition POPUP_BORDER :: color where "POPUP_BORDER = RgbColor 0xe5 0xe5 0xe5"
definition STATUS_OK :: color where "STATUS_OK = RgbColor 0x22 0xc5 0x5e"
definition STATUS_ERROR :: color where "STATUS_ERROR = RgbColor 0xef 0x44 0x44"
definition ACTIVE_HIGHLIGHT :: color where "ACTIVE_HIGHLIGHT = RgbColor 0x3a 0x3a 0x3a"
definition SELECTION_BG :: color where "SELECTION_BG = RgbColor 0x33 0x4e 0x78"

text \<open>The attributes the code asks for.\<close>

record style =
  sy_fg :: "color option"
  sy_bg :: "color option"
  sy_bold :: bool
  sy_italic :: bool
  sy_underlined :: bool
  sy_reversed :: bool

definition default_style :: style where
  "default_style = \<lparr>sy_fg = None, sy_bg = None, sy_bold = False, sy_italic = False, sy_underlined = False, sy_reversed = False\<rparr>"

definition fg_style :: "color \<Rightarrow> style" where
  "fg_style c = default_style\<lparr>sy_fg := Some c\<rparr>"

definition color_from_term :: "term_color \<Rightarrow> color option" where
  "color_from_term c =
     (case c of ColDefault \<Rightarrow> None | ColIndexed i \<Rightarrow> Some (IndexedColor i) | ColRgb r g b \<Rightarrow> Some (RgbColor r g b))"

definition style_from_cell :: "term_cell \<Rightarrow> style" where
  "style_from_cell c =
     \<lparr>sy_fg = color_from_term (tc_fg c), sy_bg = color_from_term (tc_bg c), sy_bold = tc_bold c, sy_italic = tc_italic c,
      sy_underlined = tc_underline c, sy_reversed = tc_inverse c\<rparr>"

section \<open>The child's terminal in the frame\<close>

record 'c buffer =
  bf_area :: rect
  bf_cells :: "u16 \<times> u16 \<Rightarrow> 'c"

definition in_area :: "rect \<Rightarrow> u16 \<times> u16 \<Rightarrow> bool" where
  "in_area a p \<longleftrightarrow> unat (rx a) \<le> unat (fst p) \<and> unat (fst p) < unat (rx a) + unat (rwidth a)
     \<and> unat (ry a) \<le> unat (snd p) \<and> unat (snd p) < unat (ry a) + unat (rheight a)"

text \<open>\<open>Buffer::cell_mut\<close> gives no cell outside the area.\<close>

definition cell_mut :: "u16 \<times> u16 \<Rightarrow> ('c \<Rightarrow> 'c) \<Rightarrow> 'c buffer \<Rightarrow> 'c buffer" where
  "cell_mut p f b = (if in_area (bf_area b) p then b\<lparr>bf_cells := (bf_cells b)(p := f (bf_cells b p))\<rparr> else b)"

text \<open>What is written to one cell of the frame; \<open>put\<close> sets the symbol and the style.\<close>

definition draw_cell ::
    "(string \<Rightarrow> style \<Rightarrow> 'c \<Rightarrow> 'c) \<Rightarrow> grid \<Rightarrow> text_selection option \<Rightarrow> nat \<Rightarrow> nat \<Rightarrow> 'c \<Rightarrow> 'c" where
  "draw_cell put g sel row col old =
     (case cell g row col of
        None \<Rightarrow> old
      | Some c \<Rightarrow>
          if is_wide_continuation c then old
          else let in_selection = (case sel of Some s \<Rightarrow> sel_contains s (of_nat row) (of_nat col) | None \<Rightarrow> False);
                   style = (if in_selection then (style_from_cell c)\<lparr>sy_bg := Some SELECTION_BG\<rparr> else style_from_cell c)
               in if has_contents c then put (symbol c) style old
                  else if tc_bg c \<noteq> ColDefault \<or> tc_inverse c \<or> in_selection then put '' '' style old
                  else old)"

definition render_body ::
    "(string \<Rightarrow> style \<Rightarrow> 'c \<Rightarrow> 'c) \<Rightarrow> grid \<Rightarrow> text_selection option \<Rightarrow> rect \<Rightarrow> 'c buffer \<Rightarrow> 'c buffer" where
  "render_body put g sel area b =
     fold (\<lambda>row. fold (\<lambda>col. cell_mut (rx area + of_nat col, ry area + of_nat row) (draw_cell put g sel row col))
                   [0..<unat (rwidth area)])
          [0..<unat (rheight area)] b"

record cursor_state =
  cu_row :: u16
  cu_col :: u16
  cu_visible :: bool

section \<open>Popups\<close>

type_synonym text_span = "string \<times> style"
type_synonym text_line = "text_span list"

definition plain_line :: "string \<Rightarrow> text_line" where
  "plain_line s = [(s, default_style)]"

record popup_dialog =
  pd_title :: string
  pd_lines :: "text_line list"
  pd_footer :: "string option"
  pd_min_width :: u16
  pd_fixed_width :: "u16 option"
  pd_scrollbar :: "(nat \<times> nat) option"

definition new_popup :: "string \<Rightarrow> text_line list \<Rightarrow> popup_dialog" where
  "new_popup title ls = \<lparr>pd_title = title, pd_lines = ls, pd_footer = None, pd_min_width = 0, pd_fixed_width = None, pd_scrollbar = None\<rparr>"

definition popup_content :: "popup_dialog \<Rightarrow> text_line list" where
  "popup_content p = pd_lines p @ (case pd_footer p of Some t \<Rightarrow> [plain_line [], [(t, fg_style HEADER_TEXT)]] | None \<Rightarrow> [])"

definition popup_rect :: "(text_line \<Rightarrow> nat) \<Rightarrow> popup_dialog \<Rightarrow> rect \<Rightarrow> rect" where
  "popup_rect width p area =
     (let w = (case pd_fixed_width p of
                 Some w \<Rightarrow> w
               | None \<Rightarrow> max (sat_add (of_nat (fold (max \<circ> width) (popup_content p) 0)) 4) (pd_min_width p))
      in centered_rect_by_size area w (sat_add (of_nat (length (popup_content p))) 2))"

text \<open>The thumb of the scrollbar: its first row in the track and its size.\<close>

definition scroll_thumb :: "nat \<Rightarrow> nat \<Rightarrow> nat \<Rightarrow> nat \<times> nat" where
  "scroll_thumb visible tot offset =
     (let size = max (visible * visible div tot) 1;
          max_offset = tot - visible
      in (if 0 < max_offset then offset * (visible - size) div max_offset else 0, size))"

text \<open>Every row of the track is looked up in the buffer, by index; the rows of the thumb are then drawn.\<close>

definition track_cells :: "rect \<Rightarrow> nat \<Rightarrow> (u16 \<times> u16) list" where
  "track_cells r visible = map (\<lambda>i. (rx r + rwidth r - 2, ry r + 1 + of_nat i)) [0..<visible]"

definition thumb_cells :: "rect \<Rightarrow> nat \<Rightarrow> nat \<Rightarrow> nat \<Rightarrow> (u16 \<times> u16) list" where
  "thumb_cells r visible tot offset =
     (case scroll_thumb visible tot offset of
        (start, n) \<Rightarrow> map ((!) (track_cells r visible)) (filter (\<lambda>i. start \<le> i \<and> i < start + n) [0..<visible]))"

definition show_scrollbar :: "rect \<Rightarrow> popup_dialog \<Rightarrow> rect \<Rightarrow> (u16 \<times> u16) list option" where
  "show_scrollbar frame p r =
     (let visible = length (pd_lines p) in
      case pd_scrollbar p of
        None \<Rightarrow> Some []
      | Some (tot, offset) \<Rightarrow>
          if visible < tot \<and> 0 < visible
          then if \<forall>q \<in> set (track_cells r visible). in_area frame q then Some (thumb_cells r visible tot offset) else None
          else Some [])"

text \<open>\<open>PopupDialog::render\<close>: where it is drawn and the cells of the thumb; \<open>None\<close> is the panic of an access outside the
  frame.\<close>

definition render_popup ::
    "(text_line \<Rightarrow> nat) \<Rightarrow> rect \<Rightarrow> rect \<Rightarrow> popup_dialog \<Rightarrow> (rect \<times> (u16 \<times> u16) list) option" where
  "render_popup width frame area p =
     (let r = popup_rect width p area in map_option (Pair r) (show_scrollbar frame p r))"

section \<open>The history\<close>

definition two_digits :: "nat \<Rightarrow> string" where
  "two_digits n = (if n < 10 then ''0'' else []) @ show_nat n"

text \<open>The time of day of an instant in seconds; the offset of the local zone is asked from the system.\<close>

definition format_time :: "int \<Rightarrow> nat \<Rightarrow> string" where
  "format_time local_offset secs =
     (let t = nat ((int secs + local_offset) mod 86400)
      in two_digits (t div 3600) @ '':'' @ two_digits (t div 60 mod 60) @ '':'' @ two_digits (t mod 60))"

definition arrow :: string where
  "arrow = [CHR 0xE2, CHR 0x86, CHR 0x92]"

definition dialog_width :: u16 where
  "dialog_width = 50"

definition history_inner_width :: "bool \<Rightarrow> nat" where
  "history_inner_width can_scroll = unat (sat_sub dialog_width (if can_scroll then 3 else 2))"

definition describe_entry :: "history_entry \<Rightarrow> string" where
  "describe_entry e =
     (case from_backend e of
        None \<Rightarrow> ''Started on '' @ to_backend e
      | Some b \<Rightarrow> b @ '' '' @ arrow @ '' '' @ to_backend e)"

definition history_line :: "int \<Rightarrow> bool \<Rightarrow> history_entry \<Rightarrow> text_line" where
  "history_line local_offset can_scroll e =
     (let time = format_time local_offset (he_timestamp e);
          padding = history_inner_width can_scroll - char_count (describe_entry e) - length time - (if can_scroll then 1 else 2)
      in [('' '', default_style), (describe_entry e, fg_style HEADER_TEXT), (replicate (max padding 1) (CHR 0x20), default_style),
          (time, fg_style POPUP_BORDER)] @ (if can_scroll then [] else [('' '', default_style)]))"

definition history_popup :: "int \<Rightarrow> history_state \<Rightarrow> popup_dialog option" where
  "history_popup local_offset s =
     (case s of
        HistHidden \<Rightarrow> None
      | HistVisible es offset \<Rightarrow>
          if es = [] then None
          else let can_scroll = MAX_VISIBLE_ROWS < length es
               in Some ((new_popup ''Backend History'' (map (history_line local_offset can_scroll) (take MAX_VISIBLE_ROWS (drop offset es))))
                        \<lparr>pd_fixed_width := Some dialog_width, pd_scrollbar := Some (length es, offset),
                         pd_footer := Some (if can_scroll then ''Up/Down: Scroll  Esc/Ctrl+H: Close'' else ''Esc/Ctrl+H: Close'')\<rparr>))"

section \<open>The settings\<close>

definition rule :: "nat \<Rightarrow> string" where
  "rule n = concat (replicate n [CHR 0xE2, CHR 0x94, CHR 0x80])"

definition row_style :: "bool \<Rightarrow> style" where
  "row_style selected = (if selected then default_style\<lparr>sy_bg := Some ACTIVE_HIGHLIGHT\<rparr> else default_style)"

definition row_prefix :: "bool \<Rightarrow> string" where
  "row_prefix selected = (if selected then ''  '' @ arrow @ '' '' else ''    '')"

definition setting_lines :: "bool \<Rightarrow> field_snapshot \<Rightarrow> text_line list" where
  "setting_lines is_focused f =
     (let base = row_style is_focused
      in [[(row_prefix is_focused, base\<lparr>sy_fg := Some HEADER_TEXT\<rparr>),
           (if fs_value f then ''[x]'' else ''[ ]'', base\<lparr>sy_fg := Some (if fs_value f then STATUS_OK else HEADER_TEXT)\<rparr>),
           ('' '' @ fs_label f, base\<lparr>sy_fg := Some HEADER_TEXT\<rparr>)],
          [(''      '' @ fs_description f, fg_style HEADER_SEPARATOR)]])"

definition section_lines :: "setting_section option \<Rightarrow> setting_section \<Rightarrow> text_line list" where
  "section_lines current section =
     (if current = Some section then []
      else (if current \<noteq> None then [plain_line []] else [])
           @ [[(''  '' @ rule 2 @ '' '' @ section_label section @ '' '' @ rule 2, fg_style CLAUDE_ORANGE)]])"

fun settings_lines :: "nat \<Rightarrow> nat \<Rightarrow> setting_section option \<Rightarrow> field_snapshot list \<Rightarrow> text_line list" where
  "settings_lines focused i current [] = []"
| "settings_lines focused i current (f # fs) =
     section_lines current (fs_section f) @ setting_lines (i = focused) f
       @ settings_lines focused (Suc i) (Some (fs_section f)) fs"

definition settings_popup :: "settings_state \<Rightarrow> popup_dialog option" where
  "settings_popup s =
     (case s of
        SetHidden \<Rightarrow> None
      | SetVisible fs focused dirty confirm \<Rightarrow>
          Some ((new_popup (if dirty then ''Settings *'' else ''Settings'') (settings_lines focused 0 None fs))
                \<lparr>pd_min_width := 50,
                 pd_footer := Some (if confirm then ''Unsaved changes! Esc: Discard  Enter: Apply''
                                    else ''Space: Toggle  Enter: Apply  Esc: Cancel'')\<rparr>))"

section \<open>The backends\<close>

definition max_name_width :: "backend_info list \<Rightarrow> nat" where
  "max_name_width bs = fold (max \<circ> (char_count \<circ> bi_display_name)) bs 0"

definition pad_right :: "nat \<Rightarrow> string \<Rightarrow> string" where
  "pad_right w s = s @ replicate (w - char_count s) (CHR 0x20)"

definition status_of :: "backend_info \<Rightarrow> string \<times> color" where
  "status_of b = (if bi_is_active b then (''Active'', STATUS_OK) else if bi_is_configured b then (''Ready'', STATUS_OK)
                  else (''Missing'', STATUS_ERROR))"

definition numbered :: "bool \<Rightarrow> nat \<Rightarrow> string" where
  "numbered selected i = row_prefix selected @ show_nat (Suc i) @ ''. ''"

definition name_spans :: "bool \<Rightarrow> nat \<Rightarrow> nat \<Rightarrow> backend_info \<Rightarrow> text_line" where
  "name_spans selected i w b =
     [(numbered selected i, (row_style selected)\<lparr>sy_fg := Some HEADER_TEXT\<rparr>),
      (pad_right w (bi_display_name b), (row_style selected)\<lparr>sy_fg := Some HEADER_TEXT\<rparr>)]"

definition tag_spans :: "bool \<Rightarrow> string \<Rightarrow> color \<Rightarrow> text_line" where
  "tag_spans selected text c =
     [(''  ['', row_style selected), (text, (row_style selected)\<lparr>sy_fg := Some c\<rparr>), ('']'', row_style selected)]"

definition backend_row :: "bool \<Rightarrow> nat \<Rightarrow> nat \<Rightarrow> backend_info \<Rightarrow> text_line" where
  "backend_row selected i w b =
     name_spans selected i w b @ tag_spans selected (fst (status_of b)) (snd (status_of b))"

definition format_backend_list :: "backend_info list \<Rightarrow> nat \<Rightarrow> bool \<Rightarrow> text_line list" where
  "format_backend_list bs selected_idx active_section =
     (if bs = [] then [plain_line ''    No backends available.'']
      else map (\<lambda>(i, b). backend_row (active_section \<and> i = selected_idx) i (max_name_width bs) b) (enumerate 0 bs))"

definition disabled_row :: "bool \<Rightarrow> bool \<Rightarrow> text_line" where
  "disabled_row selected current =
     [(row_prefix selected @ ''Disabled (use active backend)'', (row_style selected)\<lparr>sy_fg := Some HEADER_TEXT\<rparr>)]
     @ (if current then tag_spans selected ''Active'' STATUS_OK else [])"

definition override_row :: "bool \<Rightarrow> bool \<Rightarrow> nat \<Rightarrow> nat \<Rightarrow> backend_info \<Rightarrow> text_line" where
  "override_row selected current i w b =
     name_spans selected i w b @ (if current then tag_spans selected ''Selected'' STATUS_OK else [])"

definition override_lines :: "backend_info list \<Rightarrow> nat \<Rightarrow> string option \<Rightarrow> bool \<Rightarrow> nat \<Rightarrow> text_line list" where
  "override_lines bs selection current in_section w =
     disabled_row (in_section \<and> selection = 0) (current = None)
     # map (\<lambda>(i, b). override_row (in_section \<and> selection = Suc i) (current = Some (bi_id b)) i w b) (enumerate 0 bs)"

definition section_title :: "bool \<Rightarrow> string \<Rightarrow> text_line list" where
  "section_title is_active title =
     [[((if is_active then [CHR 0xE2, CHR 0x96, CHR 0xB8] @ '' '' else ''  '') @ title, default_style\<lparr>sy_bold := True\<rparr>)],
      plain_line (''  '' @ rule 17)]"

definition switch_popup ::
    "backend_info list \<Rightarrow> string option \<Rightarrow> string option \<Rightarrow> string option \<Rightarrow> switch_state \<Rightarrow> popup_dialog option" where
  "switch_popup bs subagent teammate ipc_error s =
     (case s of
        SwHidden \<Rightarrow> None
      | SwVisible sec b su t n \<Rightarrow>
          Some ((new_popup ''Select Backend''
             (section_title (sec = SecActive) ''Active Backend'' @ format_backend_list bs b (sec = SecActive)
              @ [plain_line []]
              @ section_title (sec = SecSubagent) ''Subagent Backend''
              @ override_lines bs su subagent (sec = SecSubagent) (max_name_width bs)
              @ (case ipc_error of Some e \<Rightarrow> [plain_line [], plain_line (''    IPC error: '' @ e)] | None \<Rightarrow> [])
              @ [plain_line []]
              @ section_title (sec = SecTeammate) ''Teammate Backend''
              @ override_lines bs t teammate (sec = SecTeammate) (max_name_width bs)))
             \<lparr>pd_min_width := 60,
              pd_footer := Some ''Tab: Section  Up/Down: Move  Enter: Select  Del: Clear  Esc: Close''\<rparr>))"

section \<open>A frame\<close>

definition cursor_position :: "cursor_state \<Rightarrow> rect \<Rightarrow> u16 \<times> u16" where
  "cursor_position cu body =
     (rx body + min (cu_col cu) (sat_sub (rwidth body) 1), ry body + min (cu_row cu) (sat_sub (rheight body) 1))"

definition shows_cursor :: "cursor_state \<Rightarrow> rect \<Rightarrow> 'w app \<Rightarrow> bool" where
  "shows_cursor cu body a \<longleftrightarrow>
     pty_ready (lifecycle a) \<and> app_focus a = FocusTerminal
     \<and> (case app_pty a of Some h \<Rightarrow> ph_scrollback h | None \<Rightarrow> 0) = 0 \<and> 0 < rwidth body \<and> 0 < rheight body \<and> cu_visible cu"

record 'c drawn =
  dr_header :: "string list"
  dr_footer :: "string list"
  dr_buffer :: "'c buffer"
  dr_cursor :: "(u16 \<times> u16) option"
  dr_popup :: "(popup_dialog \<times> rect \<times> (u16 \<times> u16) list) option"

text \<open>The dialog of the focus and the area it is centred in.\<close>

definition current_popup :: "int \<Rightarrow> rect \<Rightarrow> rect \<Rightarrow> 'w app \<Rightarrow> (popup_dialog \<times> rect) option" where
  "current_popup local_offset area body a =
     (case popup_of a of
        None \<Rightarrow> None
      | Some PopHistory \<Rightarrow> map_option (\<lambda>p. (p, area)) (history_popup local_offset (store_state (history_store a)))
      | Some PopSettings \<Rightarrow> map_option (\<lambda>p. (p, body)) (settings_popup (store_state (settings_store a)))
      | Some PopBackendSwitch \<Rightarrow>
          map_option (\<lambda>p. (p, body))
            (switch_popup (app_backends a) (app_subagent a) (app_teammate a) (last_ipc_error a) (store_state (switch_store a))))"

record 'c draw_env =
  dw_put :: "string \<Rightarrow> style \<Rightarrow> 'c \<Rightarrow> 'c"
  dw_clear :: "'c \<Rightarrow> 'c"
  dw_width :: "text_line \<Rightarrow> nat"
  dw_lower :: "string \<Rightarrow> string"
  dw_version :: string
  dw_now :: nat
  dw_offset :: int
  dw_grid :: grid
  dw_cursor :: cursor_state

definition clear_area :: "('c \<Rightarrow> 'c) \<Rightarrow> rect \<Rightarrow> 'c buffer \<Rightarrow> 'c buffer" where
  "clear_area clr r b = b\<lparr>bf_cells := (\<lambda>p. if in_area r p then clr (bf_cells b p) else bf_cells b p)\<rparr>"

text \<open>\<open>draw\<close>; the buffer is the one before the popup is laid over it, and \<open>None\<close> a panic.\<close>

definition draw :: "'c draw_env \<Rightarrow> 'w app \<Rightarrow> 'c buffer \<Rightarrow> 'c drawn option" where
  "draw env a b =
     (let area = bf_area b; body = body_rect area;
          b1 = clear_area (dw_clear env) body b;
          b2 = (if app_pty a = None then b1 else render_body (dw_put env) (dw_grid env) (app_selection a) body b1);
          d = \<lparr>dr_header = header_spans (dw_lower env) (app_status a) (app_session_id a) (session_copied_flash (dw_now env) a)
                              (resolve_name a (app_subagent a)) (resolve_name a (app_teammate a)),
               dr_footer = footer_spans (dw_version env) (snd (snd (layout_regions area))), dr_buffer = b2,
               dr_cursor = (if app_pty a \<noteq> None \<and> shows_cursor (dw_cursor env) body a
                            then Some (cursor_position (dw_cursor env) body) else None),
               dr_popup = None\<rparr>
      in case current_popup (dw_offset env) area body a of
           None \<Rightarrow> Some d
         | Some (p, place) \<Rightarrow>
             map_option (\<lambda>(r, thumb). d\<lparr>dr_popup := Some (p, r, thumb)\<rparr>) (render_popup (dw_width env) area place p))"

end
