(* ===== verification/ScreenProps.thy ===== *)
theory ScreenProps
  imports Screen
begin

text \<open>
  What the user sees is what the input acts on: the cell under the mouse is the cell that is drawn there, and the
  marked row of the backend dialog is the one Enter takes.  The cursor and the popups stay in their areas, the scrollbar
  in its track, and the exact size of the window below which the long history panics.
\<close>

section \<open>The child's terminal\<close>

lemma cell_mut_area [simp]: "bf_area (cell_mut p f b) = bf_area b"
  by (simp add: cell_mut_def)

lemma cell_mut_cells:
  "bf_cells (cell_mut p f b) q = (if p = q \<and> in_area (bf_area b) p then f (bf_cells b q) else bf_cells b q)"
  by (auto simp: cell_mut_def)

lemma fold_cells_area [simp]: "bf_area (fold (\<lambda>p. cell_mut (pos p) (h p)) ps b) = bf_area b"
  by (induction ps arbitrary: b) simp_all

text \<open>A loop that writes every position at most once writes each cell once, from what was there before.\<close>

lemma fold_cells_other:
  "\<forall>p \<in> set ps. pos p \<noteq> q \<Longrightarrow> bf_cells (fold (\<lambda>p. cell_mut (pos p) (h p)) ps b) q = bf_cells b q"
  by (induction ps arbitrary: b) (simp_all add: cell_mut_cells)

lemma fold_cells_hit:
  assumes "p \<in> set ps" "distinct ps" "inj_on pos (set ps)" "in_area (bf_area b) (pos p)"
  shows "bf_cells (fold (\<lambda>p. cell_mut (pos p) (h p)) ps b) (pos p) = h p (bf_cells b (pos p))"
  using assms
proof (induction ps arbitrary: b)
  case (Cons x ps)
  show ?case
  proof (cases "x = p")
    case True
    then have "\<forall>y \<in> set ps. pos y \<noteq> pos p" using Cons.prems(2,3) by (auto simp: inj_on_def)
    then show ?thesis using True Cons.prems(4) by (simp add: fold_cells_other cell_mut_cells)
  next
    case False
    then have "pos x \<noteq> pos p" using Cons.prems(1,3) by (auto simp: inj_on_def)
    then show ?thesis using False Cons by (simp add: cell_mut_cells)
  qed
qed simp

lemma fold_product: "fold (\<lambda>r. fold (\<lambda>c. f r c) cs) rs b = fold (\<lambda>(r, c). f r c) (List.product rs cs) b"
proof (induction rs arbitrary: b)
  case (Cons r rs)
  have "fold (\<lambda>(r, c). f r c) (map (Pair r) cs) b = fold (\<lambda>c. f r c) cs b" by (simp add: fold_map comp_def)
  then show ?case using Cons by simp
qed simp

lemma fold_cells_outside:
  "\<not> in_area (bf_area b) q \<Longrightarrow> bf_cells (fold (\<lambda>p. cell_mut (pos p) (h p)) ps b) q = bf_cells b q"
  by (induction ps arbitrary: b) (auto simp: cell_mut_cells)

lemma of_nat_u16_inj: "i < 65536 \<Longrightarrow> j < 65536 \<Longrightarrow> (of_nat i :: u16) = of_nat j \<Longrightarrow> i = j"
  by (drule arg_cong[where f = unat]) (simp add: unat_of_nat)

lemma add_of_nat: "unat a + i < 65536 \<Longrightarrow> unat (a + of_nat i :: u16) = unat a + i"
  by (simp add: unat_word_ariths unat_of_nat)

lemma add_of_nat_diff: "unat a \<le> unat x \<Longrightarrow> a + of_nat (unat x - unat a) = (x :: u16)"
  by (simp add: of_nat_diff)

lemma body_pointwise:
  assumes "unat (rx area) + unat (rwidth area) < 65536" "unat (ry area) + unat (rheight area) < 65536"
  shows "bf_cells (render_body put g sel area b) (x, y)
       = (if in_area area (x, y) \<and> in_area (bf_area b) (x, y)
          then draw_cell put g sel (unat y - unat (ry area)) (unat x - unat (rx area)) (bf_cells b (x, y))
          else bf_cells b (x, y))"
proof -
  define pos where "pos = (\<lambda>(r, c). (rx area + of_nat c, ry area + of_nat r :: u16))"
  define h where "h = (\<lambda>(r, c). draw_cell put g sel r c)"
  define ps where "ps = List.product [0..<unat (rheight area)] [0..<unat (rwidth area)]"
  have rb: "render_body put g sel area b = fold (\<lambda>p. cell_mut (pos p) (h p)) ps b"
    unfolding render_body_def fold_product ps_def by (rule fold_cong) (auto simp: pos_def h_def)
  have set_ps: "set ps = {0..<unat (rheight area)} \<times> {0..<unat (rwidth area)}" by (simp add: ps_def)
  have inj: "inj_on pos (set ps)"
    using assms by (auto simp: set_ps inj_on_def pos_def dest!: of_nat_u16_inj[rotated 2])
  have at: "in_area area (pos p)" if "p \<in> set ps" for p
    using that assms by (auto simp: set_ps pos_def in_area_def add_of_nat)
  show ?thesis
  proof (cases "in_area area (x, y) \<and> in_area (bf_area b) (x, y)")
    case True
    let ?p = "(unat y - unat (ry area), unat x - unat (rx area))"
    have p: "?p \<in> set ps" using True by (auto simp: set_ps in_area_def)
    have q: "pos ?p = (x, y)" using True by (simp add: pos_def in_area_def add_of_nat_diff)
    have "distinct ps" by (simp add: ps_def distinct_product)
    from fold_cells_hit[OF p this inj, of b h] show ?thesis
      using True by (simp add: q rb h_def)
  next
    case False
    show ?thesis
    proof (cases "in_area (bf_area b) (x, y)")
      case True
      then have "\<forall>p \<in> set ps. pos p \<noteq> (x, y)" using False at by metis
      then show ?thesis using False by (auto simp: rb fold_cells_other)
    qed (auto simp: rb fold_cells_outside)
  qed
qed

lemma body_inside_screen: "in_area (body_rect (whole_screen cols rows)) q \<Longrightarrow> in_area (whole_screen cols rows) q"
  using body_whole_screen_unat[of cols rows]
  by (auto simp: in_area_def whole_screen_def[of cols rows])

lemma body_fits:
  "unat (rx (body_rect (whole_screen cols rows))) + unat (rwidth (body_rect (whole_screen cols rows))) < 65536"
  "unat (ry (body_rect (whole_screen cols rows))) + unat (rheight (body_rect (whole_screen cols rows))) < 65536"
proof -
  have "unat cols < 65536" "unat rows < 65536" using unsigned_less[of cols] unsigned_less[of rows] by simp_all
  then show "unat (rx (body_rect (whole_screen cols rows))) + unat (rwidth (body_rect (whole_screen cols rows))) < 65536"
    "unat (ry (body_rect (whole_screen cols rows))) + unat (rheight (body_rect (whole_screen cols rows))) < 65536"
    by (auto simp: body_whole_screen_unat min_def)
qed

lemma grid_in_body:
  "(screen_to_grid (Some (cols, rows)) x y = Some p) =
   (in_area (body_rect (whole_screen cols rows)) (x, y)
    \<and> p = GridPos (y - ry (body_rect (whole_screen cols rows))) (x - rx (body_rect (whole_screen cols rows))))"
proof -
  let ?b = "body_rect (whole_screen cols rows)"
  have lt: "unat (rx ?b) + unat (rwidth ?b) < 65536" "unat (ry ?b) + unat (rheight ?b) < 65536"
    by (rule body_fits)+
  have "(sat_add (rx ?b) (rwidth ?b) \<le> x) = (unat (rx ?b) + unat (rwidth ?b) \<le> unat x)"
    "(sat_add (ry ?b) (rheight ?b) \<le> y) = (unat (ry ?b) + unat (rheight ?b) \<le> unat y)"
    using lt by (auto simp: word_le_nat_alt unat_sat_add min_def)
  then show ?thesis
    by (auto simp: screen_to_grid_def Let_def in_area_def word_less_nat_alt)
qed

text \<open>C32: the cell of the frame at a position of the mouse shows exactly the cell of the child's terminal that the mouse
  means there; a position that means no cell is not touched by the child's output.\<close>

theorem click_hits_drawn_cell:
  assumes "bf_area b = whole_screen cols rows"
  shows "bf_cells (render_body put g sel (body_rect (bf_area b)) b) (x, y)
       = (case screen_to_grid (Some (cols, rows)) x y of
            Some p \<Rightarrow> draw_cell put g sel (unat (gp_row p)) (unat (gp_col p)) (bf_cells b (x, y))
          | None \<Rightarrow> bf_cells b (x, y))"
proof -
  let ?b = "body_rect (whole_screen cols rows)"
  have lt: "unat (rx ?b) + unat (rwidth ?b) < 65536" "unat (ry ?b) + unat (rheight ?b) < 65536"
    by (rule body_fits)+
  show ?thesis
  proof (cases "in_area ?b (x, y)")
    case True
    have "unat (x - rx ?b) = unat x - unat (rx ?b)" "unat (y - ry ?b) = unat y - unat (ry ?b)"
      using True by (auto simp: in_area_def unat_sub word_le_nat_alt)
    moreover have "screen_to_grid (Some (cols, rows)) x y = Some (GridPos (y - ry ?b) (x - rx ?b))"
      using True grid_in_body[of cols rows x y "GridPos (y - ry ?b) (x - rx ?b)"] by simp
    ultimately show ?thesis using True body_pointwise[OF lt, of put g sel b x y] body_inside_screen[OF True] assms by simp
  next
    case False
    then have "screen_to_grid (Some (cols, rows)) x y = None" using grid_in_body[of cols rows x y] by (metis option.exhaust)
    then show ?thesis using False body_pointwise[OF lt, of put g sel b x y] assms by simp
  qed
qed

theorem click_hits_drawn_cell_witness:
  "bf_cells (render_body (\<lambda>s _ _. s) (demo_grid [0x61, 0x62]) None (body_rect (whole_screen 10 10))
       \<lparr>bf_area = whole_screen 10 10, bf_cells = (\<lambda>_. [])\<rparr>) (2, 3) = ''b''"
proof -
  have g: "screen_to_grid (Some (10, 10)) 2 3 = Some (GridPos 0 1)"
    by (simp add: screen_to_grid_def body_whole_screen sat_sub_def sat_add_def Let_def)
  have "char_of (98::nat) = CHR ''b''" by code_simp
  then have d: "draw_cell (\<lambda>s _ _. s) (demo_grid [0x61, 0x62]) None 0 (Suc 0) [] = ''b''"
    by (simp add: draw_cell_def cell_def demo_grid_def cell_symbol_def utf8_encode_def Let_def)
  show ?thesis
    using click_hits_drawn_cell[of "\<lparr>bf_area = whole_screen 10 10, bf_cells = (\<lambda>_. [])\<rparr>" 10 10 "\<lambda>s _ _. s"
        "demo_grid [0x61, 0x62]" None 2 3]
    by (simp add: g d)
qed

section \<open>The cursor\<close>

text \<open>The cursor is drawn inside the body, and only for a running child at its live view that has the focus.\<close>

theorem cursor_in_body:
  assumes "bf_area b = whole_screen cols rows" "draw env a b = Some d" "dr_cursor d = Some q"
  shows "in_area (body_rect (whole_screen cols rows)) q \<and> pty_ready (lifecycle a) \<and> app_focus a = FocusTerminal"
proof -
  let ?b = "body_rect (whole_screen cols rows)"
  have q: "shows_cursor (dw_cursor env) ?b a" "q = cursor_position (dw_cursor env) ?b"
    using assms by (auto simp: draw_def Let_def split: option.splits if_splits)
  have add: "unat (a1 + min c (sat_sub w 1)) = unat a1 + min (unat c) (unat w - 1)"
    if "unat a1 + unat w < 65536" "0 < unat w" for a1 c w :: u16
  proof -
    have m: "unat (min c (sat_sub w 1)) = min (unat c) (unat w - 1)" by (simp add: unat_geometry)
    from that have "unat a1 + min (unat c) (unat w - 1) < 65536" by linarith
    then show ?thesis by (subst unat_add_small) (simp_all add: m)
  qed
  have "0 < unat (rwidth ?b)" "0 < unat (rheight ?b)" using q(1) by (simp_all add: shows_cursor_def word_less_nat_alt)
  then have "in_area ?b q"
    using add[OF body_fits(1)] add[OF body_fits(2)] by (auto simp: q(2) cursor_position_def in_area_def)
  then show ?thesis using q(1) by (simp add: shows_cursor_def)
qed

section \<open>The marked row\<close>

definition marked :: "text_line \<Rightarrow> bool" where
  "marked l \<longleftrightarrow> (\<exists>x \<in> set l. sy_bg (snd x) = Some ACTIVE_HIGHLIGHT)"

lemma row_style_bg: "sy_bg (row_style s) = (if s then Some ACTIVE_HIGHLIGHT else None)"
  by (simp add: row_style_def default_style_def)

lemma marked_rows [simp]:
  "marked (backend_row s i w b) = s" "marked (override_row s c i w b) = s" "marked (disabled_row s c) = s"
  by (auto simp: marked_def backend_row_def override_row_def disabled_row_def name_spans_def tag_spans_def row_style_bg)

lemma unmarked_lines [simp]: "\<not> marked (plain_line t)" "filter marked (section_title x t) = []"
  by (simp_all add: marked_def section_title_def plain_line_def default_style_def)

lemma filter_rows:
  "\<forall>i b. marked (f True i b) \<and> \<not> marked (f False i b) \<Longrightarrow>
   filter marked (map (\<lambda>(i, b). f (on \<and> i = k) i b) (enumerate n bs))
   = (if on \<and> n \<le> k \<and> k - n < length bs then [f True k (bs ! (k - n))] else [])"
proof (induction bs arbitrary: n)
  case (Cons b bs)
  have "(bs ! (k - Suc n)) = (b # bs) ! (k - n)" if "n < k" using that by (simp add: nth_Cons' Suc_diff_Suc)
  then show ?case using Cons by (cases "n = k") auto
qed simp

text \<open>The row a dialog has selected: none, the row that disables an override, or a backend.\<close>

definition choice :: "backend_info list \<Rightarrow> switch_state \<Rightarrow> (nat \<times> backend_info) option option" where
  "choice bs s =
     (let nth_row = (\<lambda>k. if k < length bs then Some (Some (k, bs ! k)) else None) in
      case s of
        SwHidden \<Rightarrow> None
      | SwVisible sec b su t n \<Rightarrow>
          (case sec of
             SecActive \<Rightarrow> nth_row b
           | SecSubagent \<Rightarrow> if su = 0 then Some None else nth_row (su - 1)
           | SecTeammate \<Rightarrow> if t = 0 then Some None else nth_row (t - 1)))"

definition chosen_row :: "backend_info list \<Rightarrow> string option \<Rightarrow> popup_section \<Rightarrow> (nat \<times> backend_info) option \<Rightarrow> text_line" where
  "chosen_row bs current sec x =
     (case x of
        None \<Rightarrow> disabled_row True (current = None)
      | Some (i, b) \<Rightarrow>
          if sec = SecActive then backend_row True i (max_name_width bs) b
          else override_row True (current = Some (bi_id b)) i (max_name_width bs) b)"

definition chosen_command :: "popup_section \<Rightarrow> (nat \<times> backend_info) option \<Rightarrow> ui_command list" where
  "chosen_command sec x =
     (case sec of
        SecActive \<Rightarrow> (case x of Some (_, b) \<Rightarrow> if bi_is_active b then [] else [UiSwitchBackend (bi_id b)] | None \<Rightarrow> [])
      | SecSubagent \<Rightarrow> [UiSetSubagent (map_option (bi_id \<circ> snd) x)]
      | SecTeammate \<Rightarrow> [UiSetTeammate (map_option (bi_id \<circ> snd) x)])"

lemma filter_backend_list:
  "filter marked (format_backend_list bs k on)
   = (if on \<and> k < length bs then [backend_row True k (max_name_width bs) (bs ! k)] else [])"
  using filter_rows[of "\<lambda>s i b. backend_row s i (max_name_width bs) b" on k 0 bs]
  by (cases on; cases "bs = []") (simp_all add: format_backend_list_def)

lemma filter_override_lines:
  "filter marked (override_lines bs k current on w)
   = (if \<not> on then [] else if k = 0 then [disabled_row True (current = None)]
      else if k - 1 < length bs
      then [override_row True (current = Some (bi_id (bs ! (k - 1)))) (k - 1) w (bs ! (k - 1))] else [])"
proof (cases k)
  case 0
  have "filter marked (map (\<lambda>(i, b). override_row False (current = Some (bi_id b)) i w b) (enumerate 0 bs)) = []"
    by (auto simp: filter_empty_conv)
  then show ?thesis using 0 by (simp add: override_lines_def)
next
  case (Suc j)
  have e: "(Suc j = Suc i) = (i = j)" for i by auto
  show ?thesis
    using filter_rows[of "\<lambda>s i b. override_row s (current = Some (bi_id b)) i w b" on j 0 bs]
    unfolding override_lines_def Suc e by simp
qed

definition sent :: "'w app \<Rightarrow> ui_command list" where
  "sent a = (case ipc_sender a of Some ch \<Rightarrow> ch_queue ch | None \<Rightarrow> [])"

definition has_room :: "'w app \<Rightarrow> bool" where
  "has_room a \<longleftrightarrow> (case ipc_sender a of Some ch \<Rightarrow> \<not> ch_closed ch \<and> length (ch_queue ch) < ch_capacity ch | None \<Rightarrow> False)"

lemma send_with_room:
  "has_room a \<Longrightarrow> fst (send_command c a) \<and> sent (snd (send_command c a)) = sent a @ [c]"
  by (auto simp: has_room_def send_command_def try_send_def sent_def split: option.splits)

lemma sent_close [simp]: "sent (close_backend_switch_dialog a) = sent a"
  by (simp add: sent_def close_backend_switch_dialog_def dispatch_switch_def)

lemma confirm_sends:
  assumes "has_room a" "store_state (switch_store a) = SwVisible sec b su t n"
  shows "sent (snd (handle_backend_confirm a))
       = sent a @ (case choice (app_backends a) (SwVisible sec b su t n) of None \<Rightarrow> [] | Some x \<Rightarrow> chosen_command sec x)"
proof (cases sec)
  case SecActive
  show ?thesis
  proof (cases "b < length (app_backends a) \<and> \<not> bi_is_active (app_backends a ! b)")
    case True
    obtain a' where s: "send_command (UiSwitchBackend (bi_id (app_backends a ! b))) a = (True, a')"
      "sent a' = sent a @ [UiSwitchBackend (bi_id (app_backends a ! b))]"
      using send_with_room[OF assms(1), of "UiSwitchBackend (bi_id (app_backends a ! b))"]
      by (cases "send_command (UiSwitchBackend (bi_id (app_backends a ! b))) a") auto
    show ?thesis using True SecActive assms(2) s
      by (simp add: handle_backend_confirm_def confirm_active_backend_def request_switch_backend_by_index_def
          nth_backend_def choice_def chosen_command_def)
  qed (use SecActive assms(2) in \<open>auto simp: handle_backend_confirm_def confirm_active_backend_def nth_backend_def
        choice_def chosen_command_def Let_def\<close>)
next
  case SecSubagent
  then show ?thesis using assms send_with_room[OF assms(1)]
    by (auto simp: handle_backend_confirm_def confirm_override_backend_def request_set_subagent_backend_def
        request_clear_subagent_backend_def nth_backend_def choice_def chosen_command_def Let_def)
next
  case SecTeammate
  then show ?thesis using assms send_with_room[OF assms(1)]
    by (auto simp: handle_backend_confirm_def confirm_override_backend_def request_set_teammate_backend_def
        request_clear_teammate_backend_def nth_backend_def choice_def chosen_command_def Let_def)
qed


definition demo_row_app :: "unit app" where
  "demo_row_app = (app_new 0 ModeClaude default_config)
     \<lparr>ipc_sender := Some \<lparr>ch_queue = [], ch_capacity = 1, ch_closed = False, ch_error = (\<lambda>_. [])\<rparr>,
      app_backends := [\<lparr>bi_id = ''a'', bi_display_name = ''A'', bi_is_active = True, bi_is_configured = True, bi_base_url = []\<rparr>,
                       \<lparr>bi_id = ''b'', bi_display_name = ''B'', bi_is_active = False, bi_is_configured = True, bi_base_url = []\<rparr>],
      switch_store := store_new (SwVisible SecSubagent 0 2 0 2)\<rparr>"


section \<open>The scrollbar\<close>

text \<open>The thumb has at least one row and stays in the track; it is at the top for the first page and reaches the bottom
  for the last.\<close>

theorem thumb_in_track:
  assumes "0 < visible" "visible < tot" "offset \<le> tot - visible" "scroll_thumb visible tot offset = (start, n)"
  shows "0 < n \<and> start + n \<le> visible \<and> (offset = 0 \<longrightarrow> start = 0) \<and> (offset = tot - visible \<longrightarrow> start + n = visible)"
proof -
  have n: "n = max (visible * visible div tot) 1" "start = offset * (visible - n) div (tot - visible)"
    using assms(2,4) by (auto simp: scroll_thumb_def Let_def)
  have "visible * visible div tot \<le> visible"
    using assms(1,2) by (metis div_le_mono div_mult_self_is_m le_less_trans less_imp_le_nat mult_le_mono2 not_gr_zero
        nonzero_mult_div_cancel_right div_le_mono2 order.trans)
  then have le: "n \<le> visible" using assms(1) n(1) by simp
  have "offset * (visible - n) div (tot - visible) \<le> (tot - visible) * (visible - n) div (tot - visible)"
    using assms(3) by (intro div_le_mono mult_le_mono1)
  also have "\<dots> = visible - n" using assms(2) by simp
  finally have s: "start \<le> visible - n" using n(2) by simp
  have e: "offset = tot - visible \<Longrightarrow> start = visible - n" and z: "offset = 0 \<Longrightarrow> start = 0" using n(2) assms(2) by simp_all
  have "0 < n" using n(1) by simp
  then show ?thesis using s le e z by (intro conjI impI) linarith+
qed

theorem thumb_in_track_witness: "fst (scroll_thumb 14 20 6) + snd (scroll_thumb 14 20 6) = 14"
  using thumb_in_track[of 14 20 6] by (cases "scroll_thumb 14 20 6") simp

text \<open>The history has a scrollbar as soon as it has more than one page, and looks up all its rows in the frame: it needs
  fifteen rows and two columns, and in a smaller window drawing it panics.\<close>

lemma history_visible_rows:
  assumes "history_inv (HistVisible es offset)" "MAX_VISIBLE_ROWS < length es"
    and "history_popup off (HistVisible es offset) = Some p"
  shows "length (pd_lines p) = 14" "pd_fixed_width p = Some 50" "pd_scrollbar p = Some (length es, offset)"
    "length (popup_content p) = 16"
proof -
  have "es \<noteq> []" using assms(2) by auto
  then show "length (pd_lines p) = 14" "pd_fixed_width p = Some 50" "pd_scrollbar p = Some (length es, offset)"
    "length (popup_content p) = 16"
    using assms by (auto simp: history_popup_def history_inv_def new_popup_def MAX_VISIBLE_ROWS_def dialog_width_def
        popup_content_def Let_def split: if_splits)
qed

lemma track_in_screen:
  "(\<forall>q \<in> set (track_cells r n). in_area (whole_screen cols rows) q)
   \<longleftrightarrow> (\<forall>i < n. unat (rx r + rwidth r - 2) < unat cols \<and> unat (ry r + 1 + of_nat i) < unat rows)"
  by (auto simp: track_cells_def in_area_def whole_screen_def)

theorem history_needs_fifteen_rows:
  assumes "history_inv (HistVisible es offset)" "MAX_VISIBLE_ROWS < length es"
    and "history_popup off (HistVisible es offset) = Some p"
  shows "render_popup width (whole_screen cols rows) (whole_screen cols rows) p = None \<longleftrightarrow> unat rows < 15 \<or> unat cols < 2"
proof -
  let ?a = "whole_screen cols rows"
  let ?r = "popup_rect width p ?a"
  note v = history_visible_rows[OF assms]
  have lt: "unat cols < 65536" "unat rows < 65536" using unsigned_less[of cols] unsigned_less[of rows] by simp_all
  have r: "?r = centered_rect_by_size ?a 50 18"
    using v by (simp add: popup_rect_def Let_def sat_add_def)
  have none: "render_popup width ?a ?a p = None \<longleftrightarrow> (\<exists>q \<in> set (track_cells ?r 14). \<not> in_area ?a q)"
    using v assms(2) by (simp add: render_popup_def show_scrollbar_def Let_def MAX_VISIBLE_ROWS_def)
  show ?thesis
  proof (cases "unat cols = 0 \<or> unat rows = 0")
    case True
    moreover have "\<exists>q::nat. q < 14" by (rule exI[of _ 0]) simp
    ultimately show ?thesis unfolding none by (auto simp: track_cells_def in_area_def whole_screen_def)
  next
    case False
    let ?x = "rx ?r + rwidth ?r - 2"
    have half: "unat ((sat_sub a m) div 2) = (unat a - unat m) div 2" for a m :: u16
      by (simp add: unat_div unat_sat_sub)
    have c: "?r = \<lparr>rx = sat_sub cols (min 50 cols) div 2, ry = sat_sub rows (min 18 rows) div 2, rwidth = min 50 cols,
        rheight = min 18 rows\<rparr>"
      using False unfolding r by (auto simp: centered_rect_by_size_def whole_screen_def Let_def unat_eq_0)
    have u: "unat (rx ?r) = (unat cols - min 50 (unat cols)) div 2" "unat (rwidth ?r) = min 50 (unat cols)"
      "unat (ry ?r) = (unat rows - min 18 (unat rows)) div 2"
      unfolding c by (simp_all add: half unat_min)
    have s: "unat (rx ?r + rwidth ?r) = unat (rx ?r) + unat (rwidth ?r)"
    proof (rule unat_add_small)
      have "(c - min 50 c) div 2 + min 50 c < 65536" if "c < 65536" for c :: nat using that by linarith
      from this[OF lt(1)] show "unat (rx ?r) + unat (rwidth ?r) < 2 ^ LENGTH(16)" by (simp only: u) simp
    qed
    have x: "unat ?x < unat cols \<longleftrightarrow> 2 \<le> unat cols"
    proof (cases "2 \<le> unat cols")
      case True
      then have "2 \<le> unat (rx ?r + rwidth ?r)" using s u by linarith
      then have "unat ?x = unat (rx ?r + rwidth ?r) - 2" by (simp add: unat_sub word_le_nat_alt)
      then show ?thesis using True s u by linarith
    next
      case small: False
      then have one: "unat cols = 1" using False by linarith
      then have "unat (rx ?r + rwidth ?r) = 1" using s u by simp
      then have "rx ?r + rwidth ?r = 1" by (metis unat_1 word_unat_eq_iff)
      then have "?x = - 1" by simp
      then show ?thesis using one by (simp add: unsigned_minus_1_eq_mask mask_eq_exp_minus_1)
    qed
    have y: "unat (ry ?r + 1 + of_nat i) = unat (ry ?r) + 1 + i" if "i < 14" for i
    proof -
      have "unat (ry ?r) + (1 + i) < 65536" using that u(3) lt(2) by (auto simp: min_def)
      from add_of_nat[OF this] show ?thesis by (simp add: add.assoc)
    qed
    have last: "(\<forall>i < 14. unat (ry ?r) + 1 + i < unat rows) \<longleftrightarrow> unat (ry ?r) + 14 < unat rows"
    proof
      assume "\<forall>i < 14. unat (ry ?r) + 1 + i < unat rows"
      from this[rule_format, of 13] show "unat (ry ?r) + 14 < unat rows" by simp
    qed auto
    have fifteen: "unat (ry ?r) + 14 < unat rows \<longleftrightarrow> 15 \<le> unat rows" unfolding u(3) by (auto simp: min_def)
    have "(\<forall>q \<in> set (track_cells ?r 14). in_area ?a q) \<longleftrightarrow> unat ?x < unat cols \<and> (\<forall>i < 14. unat (ry ?r) + 1 + i < unat rows)"
      unfolding track_in_screen by (auto simp: y dest: spec[of _ 0])
    then show ?thesis unfolding none using x last fifteen by auto
  qed
qed

definition long_history :: "history_entry list" where
  "long_history = replicate 15 \<lparr>he_timestamp = 0, from_backend = None, to_backend = ''a''\<rparr>"

theorem history_needs_fifteen_rows_witness:
  "\<exists>p. history_popup 0 (HistVisible long_history 1) = Some p
     \<and> render_popup (\<lambda>_. 0) (whole_screen 80 14) (whole_screen 80 14) p = None
     \<and> render_popup (\<lambda>_. 0) (whole_screen 80 24) (whole_screen 80 24) p \<noteq> None"
proof -
  have h: "history_inv (HistVisible long_history 1)" "MAX_VISIBLE_ROWS < length long_history"
    by (simp_all add: history_inv_def long_history_def MAX_VISIBLE_ROWS_def)
  obtain p where p: "history_popup 0 (HistVisible long_history 1) = Some p"
    by (simp add: history_popup_def long_history_def Let_def)
  show ?thesis
    using history_needs_fifteen_rows[OF h p, of "\<lambda>_. 0" 80 14] history_needs_fifteen_rows[OF h p, of "\<lambda>_. 0" 80 24] p
    by simp
qed

section \<open>Places and texts\<close>

text \<open>A popup never leaves the area it is centred in.\<close>

lemma popup_inside:
  assumes "unat (rx area) + unat (rwidth area) < 65536" "unat (ry area) + unat (rheight area) < 65536"
    and "in_area (popup_rect width p area) q"
  shows "in_area area q"
  using assms(3) centered_inside[OF assms(1,2)]
  by (auto simp: in_area_def popup_rect_def Let_def) (meson le_trans less_le_trans)+

text \<open>The time of an entry is the local time of day, in a text of eight characters.\<close>

lemma two_digits_length: "n < 100 \<Longrightarrow> length (two_digits n) = 2"
  by (auto simp: two_digits_def show_nat.simps[of n] show_nat.simps[of "n div 10"])

lemma format_time_parts:
  "\<exists>h m s. format_time off secs = two_digits h @ '':'' @ two_digits m @ '':'' @ two_digits s \<and> h < 24 \<and> m < 60 \<and> s < 60
     \<and> int (h * 3600 + m * 60 + s) = (int secs + off) mod 86400 \<and> length (format_time off secs) = 8"
proof -
  define t where "t = nat ((int secs + off) mod 86400)"
  have t: "t < 86400" "int t = (int secs + off) mod 86400" by (simp_all add: t_def nat_less_iff)
  have sum: "x * 60 + y = a \<Longrightarrow> a * 60 + z = t \<Longrightarrow> x * 3600 + y * 60 + z = t" for x y z a :: nat by linarith
  have h: "t div 3600 = t div 60 div 60" by (simp add: div_mult2_eq[symmetric])
  have total: "t div 3600 * 3600 + t div 60 mod 60 * 60 + t mod 60 = t"
    unfolding h by (rule sum[OF div_mult_mod_eq div_mult_mod_eq])
  have f: "format_time off secs = two_digits (t div 3600) @ '':'' @ two_digits (t div 60 mod 60) @ '':'' @ two_digits (t mod 60)"
    by (simp add: format_time_def t_def Let_def)
  have b: "t div 3600 < 24" "t div 60 mod 60 < 60" "t mod 60 < 60" using t(1) by (simp_all add: less_mult_imp_div_less)
  have "length (format_time off secs) = 8"
    using two_digits_length[of "t div 3600"] two_digits_length[of "t div 60 mod 60"] two_digits_length[of "t mod 60"] b
    unfolding f by simp
  then show ?thesis using f b total t(2) by metis
qed

theorem history_time_of_day:
  "\<exists>h m s. format_time off secs = two_digits h @ '':'' @ two_digits m @ '':'' @ two_digits s \<and> h < 24 \<and> m < 60 \<and> s < 60
     \<and> int (h * 3600 + m * 60 + s) = (int secs + off) mod 86400"
  using format_time_parts by blast

text \<open>A line of the history fills the inside of the dialog exactly, as long as its description leaves room; a longer one
  pushes the time out of it.\<close>

lemma char_count_spaces [simp]: "char_count (replicate n (CHR 0x20)) = n"
  by (simp add: char_count_def)

lemma char_count_ascii: "\<forall>c \<in> set s. code c < 0x80 \<Longrightarrow> char_count s = length s"
  by (induction s) auto

lemma format_time_chars: "char_count (format_time off secs) = 8"
proof -
  have "\<forall>c \<in> set (two_digits n). code c < 0x80" for n
    by (auto simp: two_digits_def dest: show_nat_digits)
  then have "\<forall>c \<in> set (format_time off secs). code c < 0x80"
    by (auto simp: format_time_def Let_def)
  moreover have "length (format_time off secs) = 8" using format_time_parts[of off secs] by blast
  ultimately show ?thesis by (simp add: char_count_ascii)
qed

theorem history_line_fills:
  assumes "char_count (describe_entry e) + 11 \<le> history_inner_width can_scroll"
  shows "(\<Sum>x\<leftarrow>history_line off can_scroll e. char_count (fst x)) = history_inner_width can_scroll"
proof -
  have l: "length (format_time off (he_timestamp e)) = 8" using format_time_parts by blast
  show ?thesis using assms by (cases can_scroll) (simp_all add: history_line_def Let_def format_time_chars l)
qed

theorem history_line_fills_witness:
  "(\<Sum>x\<leftarrow>history_line 0 True \<lparr>he_timestamp = 5, from_backend = None, to_backend = ''a''\<rparr>. char_count (fst x)) = 47"
proof -
  have w: "history_inner_width True = 47" by (simp add: history_inner_width_def dialog_width_def sat_sub_def)
  have "char_count (describe_entry \<lparr>he_timestamp = 5, from_backend = None, to_backend = ''a''\<rparr>) + 11 \<le> history_inner_width True"
    by (simp add: describe_entry_def w)
  from history_line_fills[OF this] show ?thesis by (simp add: w)
qed

end
