(* ===== verification/Emulator.thy ===== *)
theory Emulator
  imports PtySession Screen
begin

text \<open>
  The adapter between the program and the terminal emulator library (\<open>src/pty/emulator/alacritty_impl.rs\<close>): the sizes it
  passes on, the clipboard stores of the child (OSC 52) it collects while output is processed, the cursor and the mouse
  modes it reports; and the watcher that passes on the size of the window (\<open>src/pty/resize.rs\<close>).  The library's state
  and its functions are parameters.
\<close>

section \<open>Sizes\<close>

text \<open>Lines and columns, with a floor of one cell.\<close>

definition emu_dims :: "u16 \<Rightarrow> u16 \<Rightarrow> nat \<times> nat" where
  "emu_dims rows cols = (max (unat rows) 1, max (unat cols) 1)"

text \<open>The sizes given to the pseudo terminal and the emulator for a series of window changes, rows first.\<close>

definition watched_sizes :: "(u16 \<times> u16) option list \<Rightarrow> (u16 \<times> u16) list" where
  "watched_sizes answers =
     List.map_filter (\<lambda>a. case a of Some (cols, rows) \<Rightarrow> if cols = 0 \<or> rows = 0 then None else Some (rows, cols) | None \<Rightarrow> None) answers"

lemma watched_sizes_positive: "(rows, cols) \<in> set (watched_sizes answers) \<Longrightarrow> rows \<noteq> 0 \<and> cols \<noteq> 0"
  by (induction answers) (auto simp: watched_sizes_def List.map_filter_simps split: option.splits if_splits)

section \<open>Output and the clipboard\<close>

datatype lib_event = ClipboardStore string | OtherEvent

text \<open>\<open>CaptureListener::send_event\<close>.\<close>

definition capture_event :: "lib_event \<Rightarrow> string list \<Rightarrow> string list" where
  "capture_event e events =
     (case e of
        ClipboardStore text \<Rightarrow> (let trimmed = str_trim text in if trimmed \<noteq> [] then events @ [trimmed] else events)
      | OtherEvent \<Rightarrow> events)"

text \<open>\<open>em_clipboard\<close> is what was put on the system's clipboard, when there is one.\<close>

record 'l emulator =
  em_term :: 'l
  em_events :: "string list"
  em_clipboard :: "string list option"

definition new_emulator :: "(nat \<Rightarrow> nat \<times> nat \<Rightarrow> 'l) \<Rightarrow> bool \<Rightarrow> u16 \<Rightarrow> u16 \<Rightarrow> nat \<Rightarrow> 'l emulator" where
  "new_emulator mk_term has_clipboard rows cols scrollback =
     \<lparr>em_term = mk_term scrollback (emu_dims rows cols), em_events = [], em_clipboard = (if has_clipboard then Some [] else None)\<rparr>"

definition emu_set_size :: "(nat \<times> nat \<Rightarrow> 'l \<Rightarrow> 'l) \<Rightarrow> u16 \<Rightarrow> u16 \<Rightarrow> 'l emulator \<Rightarrow> 'l emulator" where
  "emu_set_size resize rows cols em = em\<lparr>em_term := resize (emu_dims rows cols) (em_term em)\<rparr>"

text \<open>\<open>accepts\<close> says whether the system takes a text.\<close>

definition emu_process ::
    "(u8 list \<Rightarrow> 'l \<Rightarrow> 'l \<times> lib_event list) \<Rightarrow> (string \<Rightarrow> bool) \<Rightarrow> u8 list \<Rightarrow> 'l emulator \<Rightarrow> 'l emulator" where
  "emu_process advance accepts bytes em =
     (case advance bytes (em_term em) of
        (t, es) \<Rightarrow>
          (let events = fold capture_event es (em_events em)
           in em\<lparr>em_term := t, em_events := [],
                 em_clipboard := map_option (\<lambda>cs. cs @ filter accepts events) (em_clipboard em)\<rparr>))"

section \<open>Cursor and modes\<close>

definition emu_cursor :: "32 word \<Rightarrow> nat \<Rightarrow> bool \<Rightarrow> cursor_state" where
  "emu_cursor line column show_cursor = \<lparr>cu_row = ucast line, cu_col = of_nat column, cu_visible = show_cursor\<rparr>"

definition emu_mouse_tracking :: "bool \<Rightarrow> bool \<Rightarrow> bool" where
  "emu_mouse_tracking mouse_mode mouse_motion \<longleftrightarrow> mouse_mode \<or> mouse_motion"

section \<open>What reaches the clipboard\<close>

fun lib_run :: "(u8 list \<Rightarrow> 'l \<Rightarrow> 'l \<times> lib_event list) \<Rightarrow> u8 list list \<Rightarrow> 'l \<Rightarrow> 'l \<times> lib_event list" where
  "lib_run advance [] t = (t, [])"
| "lib_run advance (bs # bss) t =
     (case advance bs t of (t1, es) \<Rightarrow> case lib_run advance bss t1 of (t2, es') \<Rightarrow> (t2, es @ es'))"

definition stored_texts :: "lib_event list \<Rightarrow> string list" where
  "stored_texts es = filter (\<lambda>s. s \<noteq> []) (List.map_filter (\<lambda>e. case e of ClipboardStore s \<Rightarrow> Some (str_trim s) | OtherEvent \<Rightarrow> None) es)"

lemma stored_texts_append: "stored_texts (a @ b) = stored_texts a @ stored_texts b"
  by (simp add: stored_texts_def List.map_filter_def)

lemma fold_capture: "fold capture_event es events = events @ stored_texts es"
proof (induction es arbitrary: events)
  case (Cons e es)
  then show ?case by (cases e) (auto simp: capture_event_def stored_texts_def List.map_filter_simps Let_def)
qed (simp add: stored_texts_def List.map_filter_simps)

lemma process_all:
  "em_events em = [] \<Longrightarrow> em_clipboard em = Some cs \<Longrightarrow>
   fold (emu_process advance accepts) bss em
   = em\<lparr>em_term := fst (lib_run advance bss (em_term em)),
        em_clipboard := Some (cs @ filter accepts (stored_texts (snd (lib_run advance bss (em_term em)))))\<rparr>"
proof (induction bss arbitrary: em cs)
  case Nil
  then show ?case by (simp add: stored_texts_def List.map_filter_simps)
next
  case (Cons bs bss)
  obtain t1 es where a: "advance bs (em_term em) = (t1, es)" by fastforce
  let ?em = "emu_process advance accepts bs em"
  have s: "?em = em\<lparr>em_term := t1, em_clipboard := Some (cs @ filter accepts (stored_texts es))\<rparr>"
    using Cons.prems a by (simp add: emu_process_def Let_def fold_capture)
  have "em_events ?em = []" "em_clipboard ?em = Some (cs @ filter accepts (stored_texts es))" using s Cons.prems by simp_all
  from Cons.IH[OF this] show ?case
    by (simp add: s a stored_texts_append split: prod.split)
qed

text \<open>Behind the thread that reads the child, the clipboard gets the texts the child stored, trimmed, the empty ones left
  out, in the order of the output and each once, and the emulator is where the library is after the whole output.\<close>

theorem clipboard_in_order:
  assumes "em = new_emulator mk_term True rows cols scrollback"
    and "lib_run advance (read_chunks xs) (em_term em) = (t, es)"
  shows "em_clipboard (po_screen (reader_loop (emu_process advance accepts) gen xs em)) = Some (filter accepts (stored_texts es))
       \<and> em_term (po_screen (reader_loop (emu_process advance accepts) gen xs em)) = t"
proof -
  have "po_screen (reader_loop (emu_process advance accepts) gen xs em) = fold (emu_process advance accepts) (read_chunks xs) em"
    using output_shape[of "new_output em" "emu_process advance accepts" gen xs] by (simp add: reader_loop_def new_output_def)
  then show ?thesis
    using process_all[of em "[]" advance accepts "read_chunks xs"] assms by (simp add: new_emulator_def)
qed

theorem clipboard_in_order_witness:
  "em_clipboard (po_screen (reader_loop (emu_process (\<lambda>bs n. (n + length bs, [ClipboardStore '' a '', OtherEvent])) (\<lambda>_. True)) 1
     [PtyChunk [1], PtyChunk [2, 3], PtyEof] (new_emulator (\<lambda>_ _. 0) True 0 0 0))) = Some [''a'', ''a'']"
proof -
  have t: "str_trim '' a '' = ''a''" by code_simp
  show ?thesis
    using clipboard_in_order[OF refl, of "\<lambda>bs n. (n + length bs, [ClipboardStore '' a '', OtherEvent])"
        "[PtyChunk [1], PtyChunk [2, 3], PtyEof]" "\<lambda>_ _. 0" 0 0 0 3 _ "\<lambda>_. True" 1]
    by (simp add: new_emulator_def stored_texts_def List.map_filter_simps t)
qed

end
