(* ===== verification/Startup.thy ===== *)
theory Startup
  imports Server LogFile WebApiProps WebAuthProps SpawnProps Runtime
begin

text \<open>
  The start of a session: \<open>ProxyServer::new\<close> in \<open>src/proxy/server.rs\<close> and the body of \<open>run\<close> in \<open>src/ui/runtime.rs\<close> up to
  the start of the event loop, as one function from the loaded configuration to the parts of the session: the
  configuration with the command line's override, the proxy's engine, the bound port and its address, the first child,
  the log's configuration, and the web server.  What the machine answers (which ports bind, whether an address parses,
  the shim's directory) is the record \<open>start_env\<close>.
\<close>

section \<open>The server\<close>

definition new_engine :: "nat \<Rightarrow> cli_mode \<Rightarrow> string option \<Rightarrow> config \<Rightarrow> backend_error + engine" where
  "new_engine now mode token c =
     (let p = profile mode c in
      case from_config now p of
        Inl e \<Rightarrow> Inl e
      | Inr s \<Rightarrow> Inr
          \<lparr>en_session_token = token,
           en_hooks = \<lparr>hk_backend_state = s, subagent_backend = Option.bind (agents p) subagent_backend_name,
                       teammate_backend = map_option teammate_backend_name (agents p), agent_reg = []\<rparr>,
           en_retry = retry_config_of (defaults p), en_thinking = new_registry, en_models = []\<rparr>)"

section \<open>The session\<close>

record start_env =
  su_mode :: cli_mode
  su_override :: "string option"
  su_raw :: "string list"
  su_host :: host
  su_jparse :: "string \<Rightarrow> json option"
  su_token :: string
  su_now :: nat
  su_addr_port :: "string \<Rightarrow> u16 option"
  su_bind :: "u16 \<Rightarrow> u16 option"
  su_shim :: "string option"
  su_web_bind :: "string \<Rightarrow> bool"
  su_config_path :: string
  su_config_file :: "string option"

datatype start_failure = StartConfig config_error | StartServer backend_error | StartBind string

record session =
  sn_config :: config
  sn_engine :: engine
  sn_port :: u16
  sn_url :: string
  sn_spawn :: spawn_params
  sn_log :: debug_logging_config
  sn_web :: "web_server option"

definition override_active :: "string \<Rightarrow> cli_profile \<Rightarrow> cli_profile" where
  "override_active b p = p\<lparr>defaults := (defaults p)\<lparr>active := b\<rparr>\<rparr>"

definition with_override :: "cli_mode \<Rightarrow> string option \<Rightarrow> config \<Rightarrow> config" where
  "with_override mode ovr c = (case ovr of Some b \<Rightarrow> profile_update mode (override_active b) c | None \<Rightarrow> c)"

definition active_is_passthrough :: "cli_profile \<Rightarrow> bool" where
  "active_is_passthrough p =
     (case List.find (\<lambda>b. name b = active (defaults p)) (backends p) of
        Some b \<Rightarrow> auth_type_of b = Passthrough | None \<Rightarrow> True)"

definition child_of :: "start_env \<Rightarrow> config \<Rightarrow> u16 \<Rightarrow> string \<Rightarrow> spawn_params" where
  "child_of en c port url =
     (let p = profile (su_mode en) c in
      first_spawn (su_jparse en) (su_host en) (su_raw en)
        \<lparr>rt_mode = su_mode en, rt_config_url = proxy_base_url (proxy c), rt_actual_url = url, rt_port = port,
         rt_token = su_token en, rt_settings = load_from_toml (claude_settings p) new_settings, rt_shim = su_shim en,
         rt_passthrough = active_is_passthrough p, rt_wire_api = active_wire_api c (su_mode en)\<rparr>)"

text \<open>The web server shares the backend state of the proxy and holds the store with the override in it; if its address
  cannot be bound the session runs without it.\<close>

definition web_of :: "start_env \<Rightarrow> config \<Rightarrow> engine \<Rightarrow> web_server option" where
  "web_of en c eng =
     (if su_web_bind en (webui_bind_addr (webui c))
      then Some (new_web_server (webui c)
             \<lparr>ww_store = new_store c (su_config_path en), ww_state = hk_backend_state (en_hooks eng), ww_models = en_models eng,
              ww_file = su_config_file en\<rparr>)
      else None)"

definition start_session :: "start_env \<Rightarrow> (config_error + config) \<Rightarrow> start_failure + session" where
  "start_session en loaded =
     (case loaded of
        Inl e \<Rightarrow> Inl (StartConfig e)
      | Inr c0 \<Rightarrow>
          (let c = with_override (su_mode en) (su_override en) c0;
               token = (if su_token en = [] then None else Some (su_token en))
           in case new_engine (su_now en) (su_mode en) token c of
                Inl e \<Rightarrow> Inl (StartServer e)
              | Inr eng \<Rightarrow>
                  (case su_addr_port en (bind_addr (proxy c)) of
                     None \<Rightarrow> Inl (StartBind (''Invalid bind address '' @ quoted (bind_addr (proxy c))))
                   | Some start \<Rightarrow>
                       (case try_bind (su_bind en) start (proxy_base_url (proxy c)) of
                          Inl e \<Rightarrow> Inl (StartBind e)
                        | Inr (port, url) \<Rightarrow>
                            (let sp = child_of en c port url in
                             Inr \<lparr>sn_config = c, sn_engine = eng, sn_port = port, sn_url = url, sn_spawn = sp,
                                  sn_log = session_debug_config (sp_session_id sp) (debug_logging c),
                                  sn_web = web_of en c eng\<rparr>)))))"

section \<open>What a started session has\<close>

lemma start_session_cases:
  assumes "start_session en (Inr c0) = Inr sn"
  obtains start where "sn_config sn = with_override (su_mode en) (su_override en) c0"
    "new_engine (su_now en) (su_mode en) (if su_token en = [] then None else Some (su_token en)) (sn_config sn) = Inr (sn_engine sn)"
    "try_bind (su_bind en) start (proxy_base_url (proxy (sn_config sn))) = Inr (sn_port sn, sn_url sn)"
    "sn_spawn sn = child_of en (sn_config sn) (sn_port sn) (sn_url sn)"
    "sn_web sn = web_of en (sn_config sn) (sn_engine sn)"
  using assms by (auto simp: start_session_def Let_def split: sum.splits option.splits)

lemma engine_state:
  "new_engine now mode token c = Inr eng \<Longrightarrow> from_config now (profile mode c) = Inr (hk_backend_state (en_hooks eng))
     \<and> en_session_token eng = token"
  by (auto simp: new_engine_def Let_def split: sum.splits)

lemma session_web_store:
  assumes "start_session en (Inr c0) = Inr sn" "sn_web sn = Some ws"
  shows "ww_store (sv_world ws) = new_store (with_override (su_mode en) (su_override en) c0) (su_config_path en)"
  using start_session_cases[OF assms(1)] assms(2)
  by (metis web_of_def new_web_server_def option.sel option.distinct(1) web_server.select_convs(3) web_world.select_convs(1)
      web_world.update_convs(1) web_world.surjective)


lemma profile_with_override: "profile m (with_override m (Some b) c) = override_active b (profile m c)"
  by (cases m) (simp_all add: with_override_def profile_def profile_update_def)

lemma has_backend_override [simp]: "has_backend n (override_active b p) = has_backend n p"
  by (simp add: has_backend_def override_active_def)

lemma from_config_override:
  "b \<noteq> [] \<Longrightarrow> from_config now (override_active b p)
   = (if backends p = [] then Inl ErrNoBackendsConfigured
      else if \<not> has_backend b p then Inl (ErrBackendNotFound b)
      else Inr \<lparr>active_backend = b, cfg = override_active b p,
                switch_log = [\<lparr>timestamp = now, old_backend = None, new_backend = b\<rparr>]\<rparr>)"
  using has_backend_override[of b b p] by (simp add: from_config_def Let_def override_active_def del: has_backend_override)

lemma override_started:
  assumes "start_session en (Inr c0) = Inr sn" "su_override en = Some b" "b \<noteq> []"
  shows "active_backend (hk_backend_state (en_hooks (sn_engine sn))) = b" "has_backend b (profile (su_mode en) c0)"
proof -
  from start_session_cases[OF assms(1)] obtain tok where
    "new_engine (su_now en) (su_mode en) tok (with_override (su_mode en) (Some b) c0) = Inr (sn_engine sn)"
    using assms(2) by metis
  from engine_state[OF this]
  have e: "from_config (su_now en) (override_active b (profile (su_mode en) c0)) = Inr (hk_backend_state (en_hooks (sn_engine sn)))"
    by (simp add: profile_with_override)
  let ?p = "profile (su_mode en) c0"
  show h: "has_backend b ?p"
  proof (rule ccontr)
    assume "\<not> has_backend b ?p"
    then show False using e[unfolded from_config_override[OF assms(3)]] by (cases "backends ?p = []") simp_all
  qed
  then have "backends ?p \<noteq> []" by (auto simp: has_backend_def)
  then have "hk_backend_state (en_hooks (sn_engine sn)) = \<lparr>active_backend = b, cfg = override_active b ?p,
      switch_log = [\<lparr>timestamp = su_now en, old_backend = None, new_backend = b\<rparr>]\<rparr>"
    using e[unfolded from_config_override[OF assms(3)]] h by (metis sum.inject(2))
  then show "active_backend (hk_backend_state (en_hooks (sn_engine sn))) = b" by simp
qed

text \<open>The session serves the backend asked for on the command line, or none: an override that the profile does not have ends the
  start.\<close>

theorem override_is_served:
  assumes "su_override en = Some b" "b \<noteq> []"
  shows "(\<forall>sn. start_session en (Inr c0) = Inr sn \<longrightarrow>
            active_backend (hk_backend_state (en_hooks (sn_engine sn))) = b \<and> has_backend b (profile (su_mode en) c0))
       \<and> (backends (profile (su_mode en) c0) \<noteq> [] \<and> \<not> has_backend b (profile (su_mode en) c0) \<longrightarrow>
            start_session en (Inr c0) = Inl (StartServer (ErrBackendNotFound b)))"
  using override_started[OF _ assms] assms
  by (auto simp: start_session_def Let_def new_engine_def profile_with_override from_config_override)

text \<open>The override is meant for the session, but the store that the web interface edits holds it: a copy of any
  backend, even into the other profile, writes it to the file as the new default.\<close>

theorem override_persists:
  assumes "start_session en (Inr c0) = Inr sn" "su_override en = Some b" "b \<noteq> []" "sn_web sn = Some ws"
    and "codec_good (we_codec env)" "we_load_io env = no_faults"
    and "post_copy_backend env q n rq (sv_world ws) = (r, w')" "wr_status r = 200"
  shows "\<exists>c'. load_from (we_codec env) (we_messages env) no_faults (su_config_path en) (ww_file w') = Inr c'
            \<and> active (defaults (profile (su_mode en) c')) = b"
proof -
  let ?c = "with_override (su_mode en) (Some b) c0"
  have ws: "ww_store (sv_world ws) = new_store ?c (su_config_path en)"
    using session_web_store[OF assms(1,4)] assms(2) by simp
  obtain m nb where c: "committed env m (profile_update m (add_backend nb) ?c) (sv_world ws) w'"
    by (rule copy_ok[OF assms(5-8)]) (use that ws in \<open>simp add: new_store_def store_get_def\<close>)
  have "active (defaults (profile (su_mode en) (profile_update m (add_backend nb) ?c))) = b"
  proof (cases "m = su_mode en")
    case True
    have "has_backend b (override_active b (profile m c0)\<lparr>backends := backends (profile m c0) @ [nb]\<rparr>)"
      using override_started(2)[OF assms(1-3)] True by (auto simp: has_backend_def)
    then show ?thesis using True
      by (simp add: profile_with_override add_backend_def self_heal_active_def) (simp add: override_active_def)
  qed (simp add: profile_update_other profile_with_override override_active_def)
  then show ?thesis using c by (simp add: committed_def ws new_store_def store_path_def profile_canon canon_profile_def)
qed

section \<open>Concrete instances\<close>

definition demo_start :: start_env where
  "demo_start = \<lparr>su_mode = ModeCopilot, su_override = Some ''k'', su_raw = [], su_host = bare_host, su_jparse = (\<lambda>_. None),
     su_token = ''tok'', su_now = 0, su_addr_port = (\<lambda>_. Some 47190), su_bind = (\<lambda>p. if p = 47190 then None else Some p),
     su_shim = None, su_web_bind = (\<lambda>_. True), su_config_path = ''c'', su_config_file = None\<rparr>"

lemma demo_started: "\<exists>sn. start_session demo_start (Inr web_config) = Inr sn \<and> sn_web sn \<noteq> None \<and> sn_port sn = 47191"
proof -
  have h: "has_backend ''k'' (profile ModeCopilot web_config)" "backends (profile ModeCopilot web_config) \<noteq> []"
    by (simp_all add: has_backend_def profile_def web_config_def key_backend_def)
  obtain eng where e: "new_engine 0 ModeCopilot (Some ''tok'') (with_override ModeCopilot (Some ''k'') web_config) = Inr eng"
    using h by (auto simp: new_engine_def profile_with_override from_config_override Let_def)
  have "port_range 47190 = 47190 # 47191 # map of_nat [47192..<47291]"
    by (simp add: port_range_def sat_add_def upt_rec[of 47190] upt_rec[of 47191])
  then show ?thesis using e
    by (simp add: start_session_def demo_start_def Let_def try_bind_def web_of_def)
qed


theorem override_is_served_witness:
  "\<exists>sn. start_session demo_start (Inr web_config) = Inr sn
      \<and> active_backend (hk_backend_state (en_hooks (sn_engine sn))) = ''k''"
proof -
  obtain sn where sn: "start_session demo_start (Inr web_config) = Inr sn" using demo_started by blast
  with override_is_served[of demo_start "''k''" web_config] show ?thesis by (simp add: demo_start_def)
qed

definition overridden_copy :: config where
  "overridden_copy = profile_update ModeClaude (add_backend (key_backend\<lparr>name := ''k2''\<rparr>))
                       (with_override ModeCopilot (Some ''k'') web_config)"

definition copilot_env :: web_env where
  "copilot_env = demo_env\<lparr>we_mode := ModeCopilot, we_codec := docs_codec (List.map_filter toml_of_config [overridden_copy])\<rparr>"

lemma overridden_copy_made:
  assumes "start_session demo_start (Inr web_config) = Inr sn" "sn_web sn = Some ws"
  shows "\<exists>r w'. post_copy_backend copilot_env None ''k''
      \<lparr>cr_target_profile = ''claude'', cr_new_name = ''k2'', cr_new_display_name = None\<rparr> (sv_world ws) = (r, w') \<and> wr_status r = 200"
proof -
  let ?c = "with_override ModeCopilot (Some ''k'') web_config"
  have ws: "ww_store (sv_world ws) = new_store ?c ''c''"
    using session_web_store[OF assms] by (simp add: demo_start_def)
  have v: "validate_for ModeClaude overridden_copy = Inr ()"
  proof -
    have "claude overridden_copy = claude copied_config"
      by (simp add: overridden_copy_def copied_config_def with_override_def profile_update_def)
    then show ?thesis using copied_config_valid by (simp add: validate_for_def profile_def)
  qed
  have f: "named_backend ''k'' (profile ModeCopilot ?c) = Some key_backend"
          "\<not> has_backend ''k2'' (profile ModeClaude ?c)"
    by (simp_all add: named_backend_def has_backend_def with_override_def override_active_def profile_def profile_update_def web_config_def
        key_backend_def default_config_def default_profile_def default_backend_def)
  have "\<exists>t. toml_of_config overridden_copy = Some t"
    by (intro with_backends_written) (auto simp: overridden_copy_def with_override_def override_active_def web_demo_defs)
  then obtain s where s: "config_to_str (we_codec copilot_env) overridden_copy = Some s"
    using docs_written[of overridden_copy "[overridden_copy]"] by (auto simp: copilot_env_def)
  then obtain w1 where w1: "persist copilot_env overridden_copy (sv_world ws) = (Inr (), w1)"
    by (auto simp: persist_def save_config_def write_file_def copilot_env_def demo_env_def)
  have m: "we_mode copilot_env = ModeCopilot" by (simp add: copilot_env_def)
  show ?thesis using v f w1 m
    by (auto simp: post_copy_backend_def resolve_profile_def copy_target_def Let_def commit_config_def hot_update_def ws
        new_store_def store_get_def demo_copy_request overridden_copy_def[symmetric] str_trim_all_graphic is_graphic_def)
qed

theorem override_persists_witness:
  "\<exists>f c'. load_from (we_codec copilot_env) demo_messages no_faults ''c'' f = Inr c' \<and> active (defaults (copilot c')) = ''k''
      \<and> active (defaults (copilot web_config)) \<noteq> ''k''"
proof -
  obtain sn ws where sn: "start_session demo_start (Inr web_config) = Inr sn" "sn_web sn = Some ws"
    using demo_started by blast
  obtain r w' where p: "post_copy_backend copilot_env None ''k''
      \<lparr>cr_target_profile = ''claude'', cr_new_name = ''k2'', cr_new_display_name = None\<rparr> (sv_world ws) = (r, w')" "wr_status r = 200"
    using overridden_copy_made[OF sn] by blast
  have e: "codec_good (we_codec copilot_env)" "we_load_io copilot_env = no_faults" "we_messages copilot_env = demo_messages"
      "su_override demo_start = Some ''k''" "su_mode demo_start = ModeCopilot" "su_config_path demo_start = ''c''"
    by (simp_all add: copilot_env_def demo_env_def demo_start_def)
  have "active (defaults (copilot web_config)) \<noteq> ''k''" by (simp add: web_config_def default_profile_def default_defaults_def)
  with override_persists[OF sn(1) e(4) _ sn(2) e(1,2) p] e(3,5,6) show ?thesis by (auto simp: profile_def)
qed

end
