(* ===== verification/Launch.thy ===== *)
theory Launch
  imports Startup RuntimeProps
begin

text \<open>
  From the started session to the event loop (\<open>run\<close> of \<open>src/ui/runtime.rs\<close>): the application with its channel, the
  provider of the history, the first requests, the warnings of the start, the first child and the size of the screen; and
  what holds from there on, whatever happens: the dialogs and the focus agree, and the overrides the interface
  shows are those the proxy serves.
\<close>

section \<open>The first state of the loop\<close>

text \<open>\<open>UI_COMMAND_BUFFER\<close>.\<close>

definition ui_command_buffer :: nat where
  "ui_command_buffer = 32"

definition ui_channel_new :: "(bool \<Rightarrow> string) \<Rightarrow> ui_channel" where
  "ui_channel_new show_error = \<lparr>ch_queue = [], ch_capacity = ui_command_buffer, ch_closed = False, ch_error = show_error\<rparr>"

text \<open>The provider reads the switch log of the shared backend state.\<close>

definition switch_history :: "backend_state \<Rightarrow> history_entry list" where
  "switch_history s =
     map (\<lambda>e. \<lparr>he_timestamp = timestamp e, from_backend = old_backend e, to_backend = new_backend e\<rparr>) (switch_log s)"

definition record_warnings :: "nat \<Rightarrow> string list \<Rightarrow> 'w app \<Rightarrow> 'w app" where
  "record_warnings now ws a = fold (\<lambda>w. app_record now SevWarning CatProcess w None) ws a"

definition wired_app :: "start_env \<Rightarrow> (bool \<Rightarrow> string) \<Rightarrow> session \<Rightarrow> backend_state app" where
  "wired_app en show_error sn =
     (let a = app_new (su_now en) (su_mode en) (sn_config sn)
      in a\<lparr>app_session_id := sp_session_id (sn_spawn sn), ipc_sender := Some (ui_channel_new show_error),
           history_provider := Some switch_history\<rparr>)"

definition first_runtime ::
    "start_env \<Rightarrow> (bool \<Rightarrow> string) \<Rightarrow> (u16 \<times> u16) option \<Rightarrow> bool \<Rightarrow> pty_handle \<Rightarrow> session \<Rightarrow> backend_state runtime" where
  "first_runtime en show_error sz has_clipboard h sn =
     (let a1 = request_backends_refresh (request_status_refresh (wired_app en show_error sn));
          a2 = record_warnings (su_now en) (sp_warnings (sn_spawn sn)) a1
      in \<lparr>ui_app = resize_to_screen sz (attach_pty h a2), can_retry = False, mouse_down_pos = None, last_click = None,
          clipboard = (if has_clipboard then Some [] else None), spawned = [sn_spawn sn],
          subagent_state = subagent_backend (en_hooks (sn_engine sn)),
          teammate_state = teammate_backend (en_hooks (sn_engine sn))\<rparr>)"

section \<open>What the events leave alone\<close>

definition agents_view :: "'w app \<Rightarrow> string option \<times> string option \<times> ('w \<Rightarrow> history_entry list) option" where
  "agents_view a = (app_subagent a, app_teammate a, history_provider a)"

lemma agents_view_simps [simp]:
  "agents_view (a\<lparr>app_focus := x1\<rparr>) = agents_view a" "agents_view (a\<lparr>app_size := x2\<rparr>) = agents_view a"
  "agents_view (a\<lparr>pty_store := x3\<rparr>) = agents_view a" "agents_view (a\<lparr>app_pty := x4\<rparr>) = agents_view a"
  "agents_view (a\<lparr>app_errors := x5\<rparr>) = agents_view a" "agents_view (a\<lparr>session_copied_until := x6\<rparr>) = agents_view a"
  "agents_view (a\<lparr>ipc_sender := x7\<rparr>) = agents_view a" "agents_view (a\<lparr>app_status := x8\<rparr>) = agents_view a"
  "agents_view (a\<lparr>app_backends := x9\<rparr>) = agents_view a" "agents_view (a\<lparr>last_ipc_error := y1\<rparr>) = agents_view a"
  "agents_view (a\<lparr>last_status_refresh := y2\<rparr>) = agents_view a" "agents_view (a\<lparr>history_store := y3\<rparr>) = agents_view a"
  "agents_view (a\<lparr>settings_store := y4\<rparr>) = agents_view a" "agents_view (a\<lparr>app_settings := y5\<rparr>) = agents_view a"
  "agents_view (a\<lparr>saved_snapshot := y6\<rparr>) = agents_view a" "agents_view (a\<lparr>pty_generation := y7\<rparr>) = agents_view a"
  "agents_view (a\<lparr>app_selection := y8\<rparr>) = agents_view a" "agents_view (a\<lparr>switch_store := y9\<rparr>) = agents_view a"
  "agents_view (a\<lparr>should_quit := z1\<rparr>) = agents_view a" "agents_view (a\<lparr>app_session_id := z2\<rparr>) = agents_view a"
  by (simp_all add: agents_view_def)

lemma send_agents [simp]: "agents_view (snd (send_command c a)) = agents_view a"
  by (cases c a rule: send_command_cases) simp_all

lemma send_pair: "send_command c a = (ok, b) \<Longrightarrow> agents_view b = agents_view a"
  using send_agents[of c a] by simp

lemma agents_pairs:
  "select_word_at g p a = (t, b) \<Longrightarrow> agents_view b = agents_view a"
  "finish_selection g a = (t, b) \<Longrightarrow> agents_view b = agents_view a"
  "request_switch_backend_by_index k a = (ok, b) \<Longrightarrow> agents_view b = agents_view a"
  by (auto simp: select_word_at_def finish_selection_def request_switch_backend_by_index_def Let_def dest: send_pair
      split: if_splits option.splits)

lemma dispatch_agents [simp]:
  "agents_view (dispatch_pty i a) = agents_view a" "agents_view (dispatch_history j a) = agents_view a"
  "agents_view (dispatch_settings k a) = agents_view a" "agents_view (dispatch_switch l a) = agents_view a"
  "agents_view (on_pty f a) = agents_view a"
  by (simp_all add: dispatch_pty_def dispatch_history_def dispatch_settings_def dispatch_switch_def on_pty_def)

lemma flush_agents [simp]: "agents_view (flush_effects es a) = agents_view a"
  by (induction es arbitrary: a) (simp_all add: flush_effects_def split: pty_effect.split)

lemma operation_agents [simp]:
  "agents_view (clear_selection a) = agents_view a" "agents_view (app_reset_scrollback scr a) = agents_view a"
  "agents_view (app_scroll_up scr n a) = agents_view a" "agents_view (app_scroll_down scr n a) = agents_view a"
  "agents_view (send_input bs a) = agents_view a" "agents_view (start_selection p a) = agents_view a"
  "agents_view (update_selection p a) = agents_view a" "agents_view (request_quit a) = agents_view a"
  "agents_view (on_resize c r a) = agents_view a" "agents_view (attach_pty h a) = agents_view a"
  "agents_view (detach_pty a) = agents_view a" "agents_view (app_record now sev cat m d a) = agents_view a"
  "agents_view (flash_session_copied now a) = agents_view a" "agents_view (snd (next_pty_generation a)) = agents_view a"
  "agents_view (request_status_refresh a) = agents_view a" "agents_view (request_backends_refresh a) = agents_view a"
  "agents_view (request_config_reload a) = agents_view a"
  "agents_view (request_set_subagent_backend k a) = agents_view a" "agents_view (request_clear_subagent_backend a) = agents_view a"
  "agents_view (request_set_teammate_backend k a) = agents_view a" "agents_view (request_clear_teammate_backend a) = agents_view a"
  "agents_view (close_backend_switch_dialog a) = agents_view a" "agents_view (close_settings_dialog a) = agents_view a"
  "agents_view (close_history_dialog a) = agents_view a" "agents_view (open_history_dialog w a) = agents_view a"
  "agents_view (open_settings_dialog a) = agents_view a" "agents_view (request_close_settings a) = agents_view a"
  by (simp_all add: clear_selection_def app_reset_scrollback_def app_scroll_up_def app_scroll_down_def send_input_def
      start_selection_def update_selection_def request_quit_def on_resize_def attach_pty_def detach_pty_def app_record_def
      flash_session_copied_def next_pty_generation_def request_status_refresh_def request_backends_refresh_def
      request_config_reload_def request_set_subagent_backend_def request_clear_subagent_backend_def
      request_set_teammate_backend_def request_clear_teammate_backend_def close_backend_switch_dialog_def
      close_settings_dialog_def close_history_dialog_def open_history_dialog_def open_settings_dialog_def
      request_close_settings_def Let_def)

lemma restart_agents [simp]: "agents_view (request_restart_claude a) = agents_view a"
  by (auto simp: request_restart_claude_def dest: send_pair split: prod.split bool.split)

lemma apply_agents [simp]: "agents_view (snd (apply_settings a)) = agents_view a"
  by (auto simp: apply_settings_def Let_def dest: send_pair split: settings_state.split prod.split bool.split)

lemma confirm_agents [simp]: "agents_view (snd (confirm_active_backend k a)) = agents_view a"
  by (auto simp: confirm_active_backend_def dest: agents_pairs split: option.split prod.split bool.split)

lemma toggle_agents: "toggle_popup k a = (ok, b) \<Longrightarrow> agents_view b = agents_view a"
  by (auto simp: toggle_popup_def open_backend_switch_dialog_def Let_def)

lemma resize_agents [simp]: "agents_view (resize_to_screen s a) = agents_view a"
  by (simp add: resize_to_screen_def split: option.split prod.split)

lemma output_agents: "on_pty_output v r a = (q, b) \<Longrightarrow> agents_view b = agents_view a"
  by (auto simp: on_pty_output_def Let_def split: if_splits option.splits prod.splits)

lemma history_key_agents: "agents_view (snd (handle_history_key key a)) = agents_view a"
  by (simp add: handle_history_key_def split: key_kind.split direction.split)

lemma settings_key_agents: "agents_view (snd (handle_settings_key key a)) = agents_view a"
  by (simp add: handle_settings_key_def split: key_kind.split direction.split)

lemma confirm_key_agents: "agents_view (snd (handle_backend_confirm a)) = agents_view a"
  by (simp add: handle_backend_confirm_def confirm_override_backend_def split: switch_state.split popup_section.split)

lemma delete_key_agents: "agents_view (snd (handle_backend_delete a)) = agents_view a"
  by (simp add: handle_backend_delete_def split: switch_state.split popup_section.split)

lemma digit_key_agents: "agents_view (snd (handle_backend_digit n a)) = agents_view a"
  by (auto simp: handle_backend_digit_def dest: agents_pairs
      split: switch_state.split popup_section.split option.split prod.split bool.split)

lemmas popup_key_agents = history_key_agents settings_key_agents confirm_key_agents delete_key_agents digit_key_agents

lemma classify_agents: "agents_view (snd (classify_key w key a)) = agents_view a"
proof -
  have "agents_view (snd (handle_backend_switch_key key a)) = agents_view a"
    by (auto simp: handle_backend_switch_key_def popup_key_agents split: key_kind.split direction.split nav_key.split)
  then have "agents_view (snd (handle_popup_key key a)) = agents_view a"
    by (auto simp: handle_popup_key_def popup_key_agents split: option.split popup_kind.split)
  then show ?thesis
    by (auto simp: classify_key_def dest: toggle_agents split: prod.split)
qed

definition in_step :: "backend_state runtime \<Rightarrow> bool" where
  "in_step rt \<longleftrightarrow> agents_view (ui_app rt) = (subagent_state rt, teammate_state rt, Some switch_history)"

lemma respawn_step: "in_step rt \<Longrightarrow> in_step (respawn_pty env p rt)"
  by (auto simp: in_step_def respawn_pty_def Let_def split: sum.split)

lemma copy_step [simp]:
  "subagent_state (copy_text env t rt) = subagent_state rt" "teammate_state (copy_text env t rt) = teammate_state rt"
  by (simp_all add: copy_text_def split: option.split)

lemma mouse_step: "in_step rt \<Longrightarrow> in_step (handle_mouse c env m rt)"
proof -
  assume a: "in_step rt"
  have "agents_view (ui_app (select_mouse env m rt)) = agents_view (ui_app rt)"
    by (auto simp: select_mouse_def on_app_def Let_def dest: agents_pairs
        split: mouse_event.splits mouse_button.splits option.splits prod.splits bool.splits)
  moreover have "subagent_state (select_mouse env m rt) = subagent_state rt" "teammate_state (select_mouse env m rt) = teammate_state rt"
    by (auto simp: select_mouse_def on_app_def Let_def
        split: mouse_event.splits mouse_button.splits option.splits prod.splits bool.splits)
  ultimately have s: "in_step (select_mouse env m rt)" using a by (simp add: in_step_def)
  have h: "in_step (header_click c env col rt)" for col
    using a by (auto simp: in_step_def header_click_def Let_def on_app_def split: prod.split)
  show ?thesis
    using a by (auto simp: handle_mouse_def s h) (auto simp: in_step_def on_app_def Let_def split: mouse_event.split)
qed

lemma exit_step: "in_step rt \<Longrightarrow> in_step (handle_process_exit c env g rt)"
  using respawn_step[of "rt\<lparr>can_retry := False\<rparr>" env "retry_params c (rt\<lparr>can_retry := False\<rparr>)"]
  by (auto simp: handle_process_exit_def Let_def on_app_def in_step_def)

lemma restart_step:
  "in_step rt \<Longrightarrow> in_step (handle_restart_claude c env rt)" "in_step rt \<Longrightarrow> in_step (handle_pty_restart c env vs xs rt)"
  using respawn_step[of "rt\<lparr>can_retry := True\<rparr>" env]
  by (auto simp: handle_restart_claude_def handle_pty_restart_def forget_failed_retry_def Let_def in_step_def)

lemma key_agents: "agents_view (handle_key env key a) = agents_view a"
proof -
  obtain act b where c: "classify_key (le_world env) key (clear_selection (app_reset_scrollback (le_scroll env) a)) = (act, b)"
    by fastforce
  show ?thesis
    using classify_agents[of "le_world env" key "clear_selection (app_reset_scrollback (le_scroll env) a)"]
    by (cases act) (simp_all add: handle_key_def c)
qed

lemma paste_agents: "agents_view (handle_paste t a) = agents_view a"
  by (simp add: handle_paste_def on_paste_def)

lemma tick_agents: "agents_view (handle_tick env a) = agents_view a"
  by (simp add: handle_tick_def should_refresh_status_def)

lemma on_app_step: "in_step rt \<Longrightarrow> agents_view (f (ui_app rt)) = agents_view (ui_app rt) \<Longrightarrow> in_step (on_app f rt)"
  by (simp add: in_step_def on_app_def)

lemma event_step: "in_step rt \<Longrightarrow> in_step (handle_event c env ev rt)"
proof (cases "ev = EvPtyOutput \<or> (\<exists>b. ev = EvSetSubagent b \<or> ev = EvSetTeammate b)")
  case True
  assume a: "in_step rt"
  obtain q b where o: "on_pty_output (le_cursor_visible env) (le_cursor_row env) (ui_app rt) = (q, b)" by fastforce
  show ?thesis using True a output_agents[OF o] by (auto simp: handle_event_def o in_step_def on_app_def agents_view_def)
next
  case False
  assume a: "in_step rt"
  show ?thesis
    using False a
    by (cases ev) (auto simp: handle_event_def mouse_step exit_step restart_step key_agents paste_agents tick_agents
        intro!: on_app_step)
qed

lemma loop_step: "in_step rt \<Longrightarrow> in_step (run_loop c es rt)"
  by (induction c es rt rule: run_loop.induct) (auto intro: event_step)

section \<open>From the start on\<close>

lemma warnings_agents [simp]: "agents_view (record_warnings now ws a) = agents_view a"
  by (induction ws arbitrary: a) (simp_all add: record_warnings_def)

lemma warnings_view [simp]: "dialog_view (record_warnings now ws a) = dialog_view a"
  by (induction ws arbitrary: a) (simp_all add: record_warnings_def)

lemma engine_overrides:
  "new_engine now mode token c = Inr eng \<Longrightarrow>
     subagent_backend (en_hooks eng) = Option.bind (agents (profile mode c)) subagent_backend_name
   \<and> teammate_backend (en_hooks eng) = map_option teammate_backend_name (agents (profile mode c))"
  by (auto simp: new_engine_def Let_def split: sum.splits)

lemma first_in_step:
  assumes "start_session en (Inr c0) = Inr sn"
  shows "in_step (first_runtime en show_error sz clip h sn)"
proof -
  from start_session_cases[OF assms] obtain tok where e: "new_engine (su_now en) (su_mode en) tok (sn_config sn) = Inr (sn_engine sn)"
    by metis
  have "agents_view (wired_app en show_error sn) = (subagent_backend (en_hooks (sn_engine sn)),
      teammate_backend (en_hooks (sn_engine sn)), Some switch_history)"
    using engine_overrides[OF e] by (simp add: wired_app_def app_new_def agents_view_def Let_def)
  then show ?thesis by (simp add: in_step_def first_runtime_def Let_def)
qed

lemma first_popup_ok: "popup_ok (ui_app (first_runtime en show_error sz clip h sn))"
proof -
  have "dialog_view (wired_app en show_error sn) = dialog_view (app_new (su_now en) (su_mode en) (sn_config sn) :: backend_state app)"
    by (simp add: wired_app_def dialog_view_def Let_def)
  then have "dialog_view (ui_app (first_runtime en show_error sz clip h sn))
      = dialog_view (app_new (su_now en) (su_mode en) (sn_config sn) :: backend_state app)"
    by (simp add: first_runtime_def Let_def)
  from popup_ok_view[OF this] show ?thesis using popup_ok_new by blast
qed

text \<open>C28: from the start of a session on, whatever keys, clicks, answers, exits and restarts follow: the subagent and teammate
  backends the interface shows are the ones the proxy's hooks serve, and a dialog is open exactly while it has the focus.\<close>

theorem interface_in_step:
  assumes "start_session en (Inr c0) = Inr sn" "rt = run_loop c es (first_runtime en show_error sz clip h sn)"
  shows "app_subagent (ui_app rt) = subagent_state rt \<and> app_teammate (ui_app rt) = teammate_state rt
    \<and> (history_visible (store_state (history_store (ui_app rt))) \<longleftrightarrow> app_focus (ui_app rt) = FocusPopup PopHistory)
    \<and> (settings_visible (store_state (settings_store (ui_app rt))) \<longleftrightarrow> app_focus (ui_app rt) = FocusPopup PopSettings)
    \<and> (switch_visible (store_state (switch_store (ui_app rt))) \<longleftrightarrow> app_focus (ui_app rt) = FocusPopup PopBackendSwitch)"
  using loop_step[OF first_in_step[OF assms(1)], of c es] popup_ok_run[OF first_popup_ok, of c es]
  by (auto simp: assms(2) in_step_def agents_view_def popup_ok_def split: focus.splits)

text \<open>The history that opens then is the switch log of the proxy at that moment, scrolled to its end, and its last entry
  is the active backend.\<close>

theorem history_is_the_log:
  assumes "start_session en (Inr c0) = Inr sn" "rt = run_loop c es (first_runtime en show_error sz clip h sn)"
    and "app_focus (ui_app rt) = FocusTerminal" "kind key = KeyControl 104" "log_ok (le_world env)"
  shows "\<exists>hs. store_state (history_store (ui_app (handle_event c env (EvKey key) rt))) = HistVisible hs (length hs - MAX_VISIBLE_ROWS)
     \<and> map to_backend hs = map new_backend (switch_log (le_world env)) \<and> hs \<noteq> []
     \<and> to_backend (last hs) = active_backend (le_world env)"
proof -
  have p: "history_provider (ui_app rt) = Some switch_history"
    using loop_step[OF first_in_step[OF assms(1)], of c es] by (simp add: assms(2) in_step_def agents_view_def)
  let ?b = "clear_selection (app_reset_scrollback (le_scroll env) (ui_app rt))"
  have b: "history_provider ?b = Some switch_history" "app_focus ?b = FocusTerminal"
    using p assms(3) by (simp_all add: clear_selection_def app_reset_scrollback_def on_pty_def)
  then have "classify_key (le_world env) key ?b = (ActNone, open_history_dialog (le_world env) ?b)"
    using assms(4) by (simp add: classify_key_def show_popup_def)
  then have "store_state (history_store (ui_app (handle_event c env (EvKey key) rt)))
      = HistVisible (switch_history (le_world env)) (length (switch_history (le_world env)) - MAX_VISIBLE_ROWS)"
    using b(1) by (simp add: handle_event_def on_app_def handle_key_def open_history_dialog_def dispatch_history_def
        dispatch_def dispatch_collect_def handle_history_def split: prod.split)
  moreover have "switch_log (le_world env) \<noteq> []" "new_backend (last (switch_log (le_world env))) = active_backend (le_world env)"
    using assms(5) by (simp_all add: log_ok_def)
  ultimately show ?thesis
    by (intro exI[of _ "switch_history (le_world env)"]) (auto simp: switch_history_def last_map comp_def)
qed

section \<open>Concrete instances\<close>

definition launch_handle :: pty_handle where
  "launch_handle = \<lparr>ph_written = [], ph_open = True, ph_broken = False, ph_scrollback = 0, ph_size = None\<rparr>"

definition launch_env :: "backend_state loop_env" where
  "launch_env = \<lparr>le_now = 0, le_world = demo_state, le_term_size = Some (80, 24), le_cursor_visible = False, le_cursor_row = 1,
     le_tracking = False, le_grid = \<lparr>screen_lines = 0, columns = 0, grid_cell = (\<lambda>r k. \<lparr>lc_char = 0x20, lc_zerowidth = [], lc_spacer = False, lc_look = plain_look\<rparr>)\<rparr>,
     le_scroll = (\<lambda>d n. 0), le_spawn = (\<lambda>p. Inl ''no''), le_clip_error = None\<rparr>"

theorem interface_in_step_witness:
  "\<exists>sn. start_session demo_start (Inr web_config) = Inr sn
      \<and> app_subagent (ui_app (run_loop demo_conf [] (first_runtime demo_start (\<lambda>_. ''full'') None False launch_handle sn)))
        = subagent_backend (en_hooks (sn_engine sn))"
proof -
  obtain sn where sn: "start_session demo_start (Inr web_config) = Inr sn" using demo_started by blast
  then show ?thesis using interface_in_step[OF sn refl, where es = "[]"] by (simp add: first_runtime_def Let_def)
qed

theorem history_is_the_log_witness:
  "\<exists>sn hs. start_session demo_start (Inr web_config) = Inr sn
      \<and> store_state (history_store (ui_app (handle_event demo_conf launch_env (EvKey (ctrl_key 104))
          (first_runtime demo_start (\<lambda>_. ''full'') None False launch_handle sn)))) = HistVisible hs (length hs - MAX_VISIBLE_ROWS)
      \<and> map to_backend hs = [''claude'']"
proof -
  obtain sn where sn: "start_session demo_start (Inr web_config) = Inr sn" using demo_started by blast
  let ?rt = "first_runtime demo_start (\<lambda>_. ''full'') None False launch_handle sn"
  have "dialog_view (ui_app ?rt) = dialog_view (wired_app demo_start (\<lambda>_. ''full'') sn)"
    by (simp add: first_runtime_def Let_def)
  then have f: "app_focus (ui_app ?rt) = FocusTerminal" by (simp add: wired_app_def app_new_def dialog_view_def Let_def)
  have l: "log_ok (le_world launch_env)" "kind (ctrl_key 104) = KeyControl 104"
    by (simp_all add: launch_env_def demo_state_def log_ok_def ctrl_key_def)
  have "switch_log (le_world launch_env) = [\<lparr>timestamp = 0, old_backend = None, new_backend = ''claude''\<rparr>]"
    by (simp add: launch_env_def demo_state_def)
  then show ?thesis
    using sn history_is_the_log[OF sn refl, where es = "[]" and c = demo_conf, unfolded run_loop.simps, OF f l(2,1)] by auto
qed

end
