(* ===== verification/TerminalGuard.thy ===== *)
theory TerminalGuard
  imports Prelude
begin

text \<open>
  Taking over the terminal and giving it back (\<open>src/ui/terminal_guard.rs\<close>).  The terminal is the set of modes that the
  commands switch; a command works, or fails with or without having taken effect.  The clean-up is a closure that is
  taken at most once, by the guard's drop or by the panic hook, which is one for all threads of the process.
\<close>

section \<open>The terminal\<close>

record term_modes =
  tm_raw :: bool
  tm_meta :: bool
  tm_alternate :: bool
  tm_paste :: bool
  tm_mouse :: bool
  tm_hidden :: bool

definition cooked :: term_modes where
  "cooked = \<lparr>tm_raw = False, tm_meta = False, tm_alternate = False, tm_paste = False, tm_mouse = False, tm_hidden = False\<rparr>"

definition taken_over :: term_modes where
  "taken_over = \<lparr>tm_raw = True, tm_meta = True, tm_alternate = True, tm_paste = True, tm_mouse = True, tm_hidden = True\<rparr>"

datatype term_cmd =
    RawOn | MetaOn | EnterAlternate | PasteOn | MouseOn | HideCursor
  | MouseOff | PasteOff | FlushOutput | FlushInput | RawOff | LeaveAlternate | MetaOff | ShowCursor

fun apply_cmd :: "term_cmd \<Rightarrow> term_modes \<Rightarrow> term_modes" where
  "apply_cmd RawOn m = m\<lparr>tm_raw := True\<rparr>"
| "apply_cmd MetaOn m = m\<lparr>tm_meta := True\<rparr>"
| "apply_cmd EnterAlternate m = m\<lparr>tm_alternate := True\<rparr>"
| "apply_cmd PasteOn m = m\<lparr>tm_paste := True\<rparr>"
| "apply_cmd MouseOn m = m\<lparr>tm_mouse := True\<rparr>"
| "apply_cmd HideCursor m = m\<lparr>tm_hidden := True\<rparr>"
| "apply_cmd MouseOff m = m\<lparr>tm_mouse := False\<rparr>"
| "apply_cmd PasteOff m = m\<lparr>tm_paste := False\<rparr>"
| "apply_cmd FlushOutput m = m"
| "apply_cmd FlushInput m = m"
| "apply_cmd RawOff m = m\<lparr>tm_raw := False\<rparr>"
| "apply_cmd LeaveAlternate m = m\<lparr>tm_alternate := False\<rparr>"
| "apply_cmd MetaOff m = m\<lparr>tm_meta := False\<rparr>"
| "apply_cmd ShowCursor m = m\<lparr>tm_hidden := False\<rparr>"

datatype outcome = Works | FailsBefore string | FailsAfter string

record tty_state =
  ts_modes :: term_modes
  ts_cmds :: "term_cmd list"

definition run_cmd :: "(term_cmd \<Rightarrow> outcome) \<Rightarrow> term_cmd \<Rightarrow> tty_state \<Rightarrow> (string + unit) \<times> tty_state" where
  "run_cmd out c t =
     (let done = t\<lparr>ts_modes := apply_cmd c (ts_modes t), ts_cmds := ts_cmds t @ [c]\<rparr> in
      case out c of Works \<Rightarrow> (Inr (), done) | FailsBefore e \<Rightarrow> (Inl e, t) | FailsAfter e \<Rightarrow> (Inl e, done))"

text \<open>A sequence of commands whose errors are ignored, and one where an error of a command marked so ends it.\<close>

definition run_ignoring :: "(term_cmd \<Rightarrow> outcome) \<Rightarrow> term_cmd list \<Rightarrow> tty_state \<Rightarrow> tty_state" where
  "run_ignoring out cs t = fold (\<lambda>c t. snd (run_cmd out c t)) cs t"

fun run_checked :: "(term_cmd \<Rightarrow> outcome) \<Rightarrow> (term_cmd \<times> bool) list \<Rightarrow> tty_state \<Rightarrow> (string + unit) \<times> tty_state" where
  "run_checked out [] t = (Inr (), t)"
| "run_checked out ((c, must) # cs) t =
     (case run_cmd out c t of
        (Inl e, t') \<Rightarrow> if must then (Inl e, t') else run_checked out cs t'
      | (Inr _, t') \<Rightarrow> run_checked out cs t')"

section \<open>The guard\<close>

definition cleanup_cmds :: "term_cmd list" where
  "cleanup_cmds = [MouseOff, PasteOff, FlushOutput, FlushInput, RawOff, LeaveAlternate, MetaOff, FlushOutput, ShowCursor]"

definition setup_cmds :: "(term_cmd \<times> bool) list" where
  "setup_cmds = [(RawOn, True), (MetaOn, False), (FlushOutput, False), (EnterAlternate, True), (PasteOn, True),
                 (MouseOn, True), (HideCursor, True)]"

record guarded =
  gd_tty :: tty_state
  gd_cleanup :: bool

text \<open>\<open>restore\<close>, and the same in the panic hook: the closure is taken before it runs.\<close>

definition restore :: "(term_cmd \<Rightarrow> outcome) \<Rightarrow> guarded \<Rightarrow> guarded" where
  "restore out g =
     (if gd_cleanup g then \<lparr>gd_tty = run_ignoring out cleanup_cmds (gd_tty g), gd_cleanup = False\<rparr> else g)"

definition zero_size_message :: "u16 \<Rightarrow> u16 \<Rightarrow> string" where
  "zero_size_message w h = ''terminal reports zero size ('' @ show_nat (unat w) @ ''x'' @ show_nat (unat h)
     @ ''); is stdout a real TTY? Try running without redirecting stdout (no pipes to tee/cat), inside a real terminal emulator with a sane TERM value.''"

text \<open>\<open>setup_terminal\<close>: the guard exists before anything is changed, and an error drops it.  The size is asked first; at the
  end the terminal of the drawing library is made.\<close>

definition setup_terminal ::
    "(term_cmd \<Rightarrow> outcome) \<Rightarrow> (string + u16 \<times> u16) \<Rightarrow> (string \<Rightarrow> string) \<Rightarrow> string option \<Rightarrow> tty_state
     \<Rightarrow> (string + unit) \<times> guarded" where
  "setup_terminal out size_of_tty query_message new_fails t =
     (let g = \<lparr>gd_tty = t, gd_cleanup = True\<rparr> in
      case size_of_tty of
        Inl e \<Rightarrow> (Inl (query_message e), restore out g)
      | Inr (w, h) \<Rightarrow>
          if w = 0 \<or> h = 0 then (Inl (zero_size_message w h), restore out g)
          else (case run_checked out setup_cmds t of
                  (Inl e, t') \<Rightarrow> (Inl e, restore out (g\<lparr>gd_tty := t'\<rparr>))
                | (Inr _, t') \<Rightarrow>
                    (case new_fails of
                       Some e \<Rightarrow> (Inl e, restore out (g\<lparr>gd_tty := t'\<rparr>))
                     | None \<Rightarrow> (Inr (), g\<lparr>gd_tty := t'\<rparr>))))"

datatype guard_event = ThreadPanics | GuardDropped

fun guard_step :: "(term_cmd \<Rightarrow> outcome) \<Rightarrow> guard_event \<Rightarrow> guarded \<Rightarrow> guarded" where
  "guard_step out ThreadPanics g = restore out g"
| "guard_step out GuardDropped g = restore out g"

section \<open>The terminal is given back\<close>

definition works_after :: "(term_cmd \<Rightarrow> outcome) \<Rightarrow> bool" where
  "works_after out \<longleftrightarrow> (\<forall>c \<in> set cleanup_cmds. out c = Works)"

lemma run_ignoring_works:
  "\<forall>c \<in> set cs. out c = Works \<Longrightarrow>
   run_ignoring out cs t = t\<lparr>ts_modes := fold apply_cmd cs (ts_modes t), ts_cmds := ts_cmds t @ cs\<rparr>"
  by (induction cs arbitrary: t) (simp_all add: run_ignoring_def run_cmd_def Let_def)

lemma cleanup_cooks: "fold apply_cmd cleanup_cmds m = cooked"
  by (cases m) (simp add: cleanup_cmds_def cooked_def)

lemma restore_cooks:
  "works_after out \<Longrightarrow> gd_cleanup g \<Longrightarrow>
   restore out g = \<lparr>gd_tty = \<lparr>ts_modes = cooked, ts_cmds = ts_cmds (gd_tty g) @ cleanup_cmds\<rparr>, gd_cleanup = False\<rparr>"
  by (simp add: restore_def works_after_def run_ignoring_works cleanup_cooks)

lemma guard_steps_spent: "\<not> gd_cleanup g \<Longrightarrow> fold (guard_step out) es g = g"
proof (induction es arbitrary: g)
  case (Cons e es)
  then show ?case by (cases e) (simp_all add: restore_def)
qed simp

lemma guard_steps:
  assumes "works_after out" "gd_cleanup g" "es \<noteq> []"
  shows "fold (guard_step out) es g
       = \<lparr>gd_tty = \<lparr>ts_modes = cooked, ts_cmds = ts_cmds (gd_tty g) @ cleanup_cmds\<rparr>, gd_cleanup = False\<rparr>"
proof -
  obtain e es' where es: "es = e # es'" using assms(3) by (cases es) auto
  have "guard_step out e g = \<lparr>gd_tty = \<lparr>ts_modes = cooked, ts_cmds = ts_cmds (gd_tty g) @ cleanup_cmds\<rparr>, gd_cleanup = False\<rparr>"
    using restore_cooks[OF assms(1,2)] by (cases e) simp_all
  then show ?thesis by (simp add: es guard_steps_spent)
qed

lemma checked_cmds: "run_checked out cs t = (r, t') \<Longrightarrow> \<exists>us. ts_cmds t' = ts_cmds t @ us \<and> set us \<subseteq> fst ` set cs"
proof (induction cs arbitrary: t)
  case (Cons p cs)
  obtain c must where p: "p = (c, must)" by fastforce
  obtain x t1 where x: "run_cmd out c t = (x, t1)" by fastforce
  then have t1: "ts_cmds t1 = ts_cmds t \<or> ts_cmds t1 = ts_cmds t @ [c]"
    by (auto simp: run_cmd_def Let_def split: outcome.splits)
  have "t' = t1 \<or> run_checked out cs t1 = (r, t')"
    using Cons.prems x by (cases x) (auto simp: p split: if_splits)
  then obtain us where us: "ts_cmds t' = ts_cmds t1 @ us" "set us \<subseteq> fst ` set cs"
    using Cons.IH[of t1] by fastforce
  show ?case using t1
  proof
    assume "ts_cmds t1 = ts_cmds t"
    then show ?thesis using us by (intro exI[of _ us]) auto
  next
    assume "ts_cmds t1 = ts_cmds t @ [c]"
    then show ?thesis using us by (intro exI[of _ "c # us"]) (auto simp: p)
  qed
qed simp

text \<open>Whatever fails while the terminal is taken over, or however the session ends: the terminal is back in its ordinary
  modes, the clean-up ran exactly once and the mouse was switched off before raw mode.\<close>

theorem terminal_given_back:
  assumes "works_after out" "setup_terminal out sz msg nf \<lparr>ts_modes = cooked, ts_cmds = []\<rparr> = (r, g)"
    and "g' = (if isl r then g else fold (guard_step out) (es @ [GuardDropped]) g)"
  shows "ts_modes (gd_tty g') = cooked \<and> \<not> gd_cleanup g'
       \<and> (\<exists>us. ts_cmds (gd_tty g') = us @ cleanup_cmds \<and> set us \<inter> {MouseOff, RawOff} = {})"
proof -
  let ?t = "\<lparr>ts_modes = cooked, ts_cmds = []\<rparr>"
  obtain x t1 where x: "run_checked out setup_cmds ?t = (x, t1)" by fastforce
  obtain us where us: "ts_cmds t1 = us" "set us \<subseteq> fst ` set setup_cmds" using checked_cmds[OF x] by auto
  have no: "set us \<inter> {MouseOff, RawOff} = {}" using us(2) by (auto simp: setup_cmds_def)
  have fin: "ts_modes (gd_tty h) = cooked \<and> \<not> gd_cleanup h
       \<and> (\<exists>us. ts_cmds (gd_tty h) = us @ cleanup_cmds \<and> set us \<inter> {MouseOff, RawOff} = {})"
    if "h = \<lparr>gd_tty = \<lparr>ts_modes = cooked, ts_cmds = us' @ cleanup_cmds\<rparr>, gd_cleanup = False\<rparr>" "us' = [] \<or> us' = us" for h us'
    using that no by auto
  have r0: "restore out \<lparr>gd_tty = t, gd_cleanup = True\<rparr>
      = \<lparr>gd_tty = \<lparr>ts_modes = cooked, ts_cmds = ts_cmds t @ cleanup_cmds\<rparr>, gd_cleanup = False\<rparr>" for t
    using restore_cooks[OF assms(1), of "\<lparr>gd_tty = t, gd_cleanup = True\<rparr>"] by simp
  show ?thesis
  proof (cases r)
    case (Inl e)
    then have g': "g' = g" using assms(3) by simp
    have "g = restore out \<lparr>gd_tty = ?t, gd_cleanup = True\<rparr> \<or> g = restore out \<lparr>gd_tty = t1, gd_cleanup = True\<rparr>"
      using assms(2) x Inl by (auto simp: setup_terminal_def Let_def split: sum.splits option.splits if_splits)
    then show ?thesis using fin[of g' "[]"] fin[of g' us] by (auto simp: g' r0 us(1))
  next
    case (Inr u)
    have "g = \<lparr>gd_tty = t1, gd_cleanup = True\<rparr>"
      using assms(2) x Inr by (auto simp: setup_terminal_def Let_def split: sum.splits option.splits if_splits)
    then have "g' = \<lparr>gd_tty = \<lparr>ts_modes = cooked, ts_cmds = us @ cleanup_cmds\<rparr>, gd_cleanup = False\<rparr>"
      using assms(3) Inr guard_steps[OF assms(1), of g "es @ [GuardDropped]"] us(1) by simp
    then show ?thesis using fin[of g' us] by simp
  qed
qed

lemma demo_setup:
  "setup_terminal (\<lambda>c. if c = MouseOn then FailsAfter ''io'' else Works) (Inr (80, 24)) (\<lambda>e. e) None \<lparr>ts_modes = cooked, ts_cmds = []\<rparr>
   = (Inl ''io'', \<lparr>gd_tty = \<lparr>ts_modes = cooked,
        ts_cmds = [RawOn, MetaOn, FlushOutput, EnterAlternate, PasteOn, MouseOn] @ cleanup_cmds\<rparr>, gd_cleanup = False\<rparr>)"
  by (simp add: setup_terminal_def setup_cmds_def run_cmd_def Let_def restore_def run_ignoring_def cleanup_cmds_def cooked_def)

theorem terminal_given_back_witness:
  "\<exists>us. [RawOn, MetaOn, FlushOutput, EnterAlternate, PasteOn, MouseOn] @ cleanup_cmds = us @ cleanup_cmds
      \<and> set us \<inter> {MouseOff, RawOff} = {}"
  using terminal_given_back[OF _ demo_setup, of _ "[]"] by (simp add: works_after_def cleanup_cmds_def)

text \<open>The hook belongs to the process, not to the thread of the interface: a panic in any thread, such as a task of
  the proxy whose panic its runtime catches, gives the terminal back under the running interface, and the
  guard has nothing left to do.\<close>

theorem background_panic_restores:
  assumes "works_after out" "gd_cleanup g"
  shows "ts_modes (gd_tty (guard_step out ThreadPanics g)) = cooked
       \<and> fold (guard_step out) es (guard_step out ThreadPanics g) = guard_step out ThreadPanics g"
  using restore_cooks[OF assms] by (simp add: guard_steps_spent)

theorem background_panic_restores_witness:
  "ts_modes (gd_tty (guard_step (\<lambda>_. Works) ThreadPanics \<lparr>gd_tty = \<lparr>ts_modes = taken_over, ts_cmds = []\<rparr>, gd_cleanup = True\<rparr>)) = cooked"
  using background_panic_restores[of "\<lambda>_. Works" "\<lparr>gd_tty = \<lparr>ts_modes = taken_over, ts_cmds = []\<rparr>, gd_cleanup = True\<rparr>" "[]"]
  by (simp add: works_after_def)

end
