(* ===== verification/Entry.thy ===== *)
theory Entry
  imports TerminalGuard Startup Shutdown PtySession Commands
begin

text \<open>
  The whole run of the program: \<open>main\<close> of \<open>src/main.rs\<close> around \<open>run_main\<close>, and \<open>run\<close> of \<open>src/ui/runtime.rs\<close> around the
  event loop, from taking over the terminal to the last step of the shutdown.  The event loop itself is the theory
  \<open>Runtime\<close>; here it is how it ended and what it left.  Times are milliseconds.
\<close>

section \<open>The end of a session\<close>

record ('n, 'f) closing =
  cg_notify :: "('n, 'f) notify_lib"
  cg_try_wait :: "nat \<Rightarrow> string + bool"
  cg_reader_done :: "nat \<Rightarrow> bool"
  cg_drain :: nat

record 'n open_session =
  os_coordinator :: "'n coordinator"
  os_manager :: "'n manager"
  os_pty :: pty_session
  os_guard :: guarded

text \<open>The steps after the loop, in their order; the last waits for the tasks of the runtime, two seconds at most.\<close>

definition end_session ::
    "(term_cmd \<Rightarrow> outcome) \<Rightarrow> ('n, 'f) closing \<Rightarrow> nat \<Rightarrow> 'n open_session \<Rightarrow> nat \<times> 'n open_session" where
  "end_session out cg now s =
     (let c1 = advance TerminatingChild (advance StoppingInput (signal (cg_notify cg) (os_coordinator s)));
          m1 = signal_shutdown (cg_notify cg) (os_manager s);
          (t, ps) = pty_drop (cg_try_wait cg) (cg_reader_done cg) now (os_pty s);
          g = restore out (os_guard s)
      in (t + min 2000 (cg_drain cg),
          \<lparr>os_coordinator = advance Complete (advance Cleanup c1), os_manager = m1, os_pty = ps, os_guard = g\<rparr>))"

text \<open>An error of the drawing library leaves \<open>run\<close> at once: the locals are dropped, the child before the guard.\<close>

definition abandon_session ::
    "(term_cmd \<Rightarrow> outcome) \<Rightarrow> ('n, 'f) closing \<Rightarrow> nat \<Rightarrow> 'n open_session \<Rightarrow> nat \<times> 'n open_session" where
  "abandon_session out cg now s =
     (let (t, ps) = pty_drop (cg_try_wait cg) (cg_reader_done cg) now (os_pty s)
      in (t, s\<lparr>os_pty := ps, os_guard := restore out (os_guard s)\<rparr>))"

section \<open>\<open>run\<close>\<close>

datatype 'n loop_end = LoopLeft nat "'n open_session" | DrawFailed string nat "'n open_session"

record ('n, 'f) ui_env =
  ue_size :: "string + u16 \<times> u16"
  ue_size_message :: "string \<Rightarrow> string"
  ue_new_fails :: "string option"
  ue_start :: start_env
  ue_loaded :: "config_error + config"
  ue_show_failure :: "start_failure \<Rightarrow> string"
  ue_spawn :: spawn_faults
  ue_closing :: "('n, 'f) closing"
  ue_loop :: "session \<Rightarrow> guarded \<Rightarrow> 'n loop_end"

definition ui_run :: "(term_cmd \<Rightarrow> outcome) \<Rightarrow> ('n, 'f) ui_env \<Rightarrow> tty_state \<Rightarrow> (string + unit) \<times> tty_state" where
  "ui_run out ue t =
     (case setup_terminal out (ue_size ue) (ue_size_message ue) (ue_new_fails ue) t of
        (Inl e, g) \<Rightarrow> (Inl e, gd_tty g)
      | (Inr _, g) \<Rightarrow>
          (case start_session (ue_start ue) (ue_loaded ue) of
             Inl f \<Rightarrow> (Inl (ue_show_failure ue f), gd_tty (restore out g))
           | Inr sn \<Rightarrow>
               (case pty_spawn (ue_spawn ue) of
                  (Inl e, _) \<Rightarrow> (Inl e, gd_tty (restore out g))
                | (Inr _, _) \<Rightarrow>
                    (case ue_loop ue sn g of
                       LoopLeft now s \<Rightarrow> (Inr (), gd_tty (os_guard (snd (end_session out (ue_closing ue) now s))))
                     | DrawFailed e now s \<Rightarrow> (Inl e, gd_tty (os_guard (snd (abandon_session out (ue_closing ue) now s))))))))"

section \<open>\<open>main\<close>\<close>

datatype run_end = RunOk | RunFailed string | RunExit nat

text \<open>The start without a subcommand.  Raw mode is entered first, to catch early input; the exits of \<open>run_main\<close> leave it
  themselves.\<close>

definition main_tui ::
    "(term_cmd \<Rightarrow> outcome) \<Rightarrow> bool \<Rightarrow> (config_error + config) \<Rightarrow> cli_mode \<Rightarrow> u32 \<Rightarrow> string option
     \<Rightarrow> (tty_state \<Rightarrow> (string + unit) \<times> tty_state) \<Rightarrow> machine \<Rightarrow> tty_state \<Rightarrow> run_end \<times> machine \<times> tty_state" where
  "main_tui out is_tty loaded mode pid override ui m t =
     (case (if is_tty then run_cmd out RawOn t else (Inr (), t)) of
        (Inl e, t1) \<Rightarrow> (RunFailed e, m, t1)
      | (Inr _, t1) \<Rightarrow>
          (case loaded of
             Inl _ \<Rightarrow> (RunExit 1, m, snd (run_cmd out RawOff t1))
           | Inr c \<Rightarrow>
               (case run_main mode pid override c m of
                  (ExitFail n, m1) \<Rightarrow> (RunExit n, m1, snd (run_cmd out RawOff t1))
                | (ExitOk, m1) \<Rightarrow>
                    (case ui t1 of
                       (Inr _, t2) \<Rightarrow> (RunOk, drop_pid_guard pid m1, t2)
                     | (Inl e, t2) \<Rightarrow>
                         (RunFailed e, drop_pid_guard pid m1, if is_tty then snd (run_cmd out RawOff t2) else t2)))))"

section \<open>What is left behind\<close>

text \<open>The loop gets the guard; what comes back is that guard after any number of panics in other threads.\<close>

definition keeps_guard :: "(term_cmd \<Rightarrow> outcome) \<Rightarrow> (session \<Rightarrow> guarded \<Rightarrow> 'n loop_end) \<Rightarrow> bool" where
  "keeps_guard out loop \<longleftrightarrow>
     (\<forall>sn g. \<exists>n. case loop sn g of
        LoopLeft now s \<Rightarrow> os_guard s = fold (guard_step out) (replicate n ThreadPanics) g
      | DrawFailed e now s \<Rightarrow> os_guard s = fold (guard_step out) (replicate n ThreadPanics) g)"

lemma restore_after_panics:
  assumes "works_after out" "gd_cleanup g"
  shows "ts_modes (gd_tty (restore out (fold (guard_step out) (replicate n ThreadPanics) g))) = cooked"
proof -
  have "fold (guard_step out) (replicate n ThreadPanics @ [GuardDropped]) g
      = restore out (fold (guard_step out) (replicate n ThreadPanics) g)" by simp
  then show ?thesis using guard_steps[OF assms, of "replicate n ThreadPanics @ [GuardDropped]"] by simp
qed

lemma setup_shape:
  assumes "works_after out" "setup_terminal out sz msg nf t = (r, g)"
  shows "(isl r \<longrightarrow> ts_modes (gd_tty g) = cooked) \<and> (\<not> isl r \<longrightarrow> gd_cleanup g)"
proof -
  obtain x t1 where x: "run_checked out setup_cmds t = (x, t1)" by fastforce
  show ?thesis
    using assms(2) x restore_cooks[OF assms(1)]
    by (cases x) (auto simp: setup_terminal_def Let_def split: sum.splits option.splits if_splits)
qed

lemma ui_run_cooked:
  assumes "works_after out" "keeps_guard out (ue_loop ue)"
  shows "ts_modes (snd (ui_run out ue t)) = cooked"
proof -
  obtain r g where g: "setup_terminal out (ue_size ue) (ue_size_message ue) (ue_new_fails ue) t = (r, g)" by fastforce
  note sh = setup_shape[OF assms(1) g]
  show ?thesis
  proof (cases r)
    case (Inl e)
    then show ?thesis using sh g by (simp add: ui_run_def)
  next
    case (Inr u)
    then have cl: "gd_cleanup g" using sh by simp
    have r0: "ts_modes (gd_tty (restore out g)) = cooked" using restore_cooks[OF assms(1) cl] by simp
    have "ts_modes (gd_tty (restore out (os_guard s))) = cooked"
      if "ue_loop ue sn g = LoopLeft now s \<or> ue_loop ue sn g = DrawFailed e now s" for sn now s e
    proof -
      obtain n where "case ue_loop ue sn g of
            LoopLeft now s \<Rightarrow> os_guard s = fold (guard_step out) (replicate n ThreadPanics) g
          | DrawFailed e now s \<Rightarrow> os_guard s = fold (guard_step out) (replicate n ThreadPanics) g"
        using assms(2) unfolding keeps_guard_def by blast
      then have "os_guard s = fold (guard_step out) (replicate n ThreadPanics) g" using that by auto
      then show ?thesis using restore_after_panics[OF assms(1) cl] by simp
    qed
    then show ?thesis using Inr g r0
      by (auto simp: ui_run_def end_session_def abandon_session_def Let_def case_prod_beta
          split: sum.split prod.split loop_end.split)
  qed
qed

lemma run_raw_off: "works_after out \<Longrightarrow> run_cmd out RawOff t = (Inr (), t\<lparr>ts_modes := (ts_modes t)\<lparr>tm_raw := False\<rparr>, ts_cmds := ts_cmds t @ [RawOff]\<rparr>)"
  by (simp add: run_cmd_def works_after_def cleanup_cmds_def Let_def)

text \<open>However the interface ends: with a configuration that does not load, a start that is refused, a terminal that cannot be
  taken over, a port that is not free, a child that does not start, an error while drawing or the regular
  end, and with panics of other threads in between: the terminal is in its ordinary modes again.\<close>

lemma main_tui_cooked:
  assumes "works_after out" "\<forall>e. out RawOn \<noteq> FailsAfter e" "keeps_guard out (ue_loop ue)"
    and "main_tui out is_tty loaded mode pid override (ui_run out ue) m \<lparr>ts_modes = cooked, ts_cmds = []\<rparr> = (r, m', t)"
  shows "ts_modes t = cooked"
proof -
  let ?t0 = "\<lparr>ts_modes = cooked, ts_cmds = []\<rparr>"
  obtain x t1 where x: "(if is_tty then run_cmd out RawOn ?t0 else (Inr (), ?t0)) = (x, t1)" by fastforce
  have t1: "ts_modes t1 = cooked \<or> ts_modes t1 = cooked\<lparr>tm_raw := True\<rparr>" "isl x \<Longrightarrow> ts_modes t1 = cooked"
    using x assms(2) by (auto simp: run_cmd_def Let_def split: if_splits outcome.splits)
  have off: "ts_modes (snd (run_cmd out RawOff t')) = cooked"
    if "ts_modes t' = cooked \<or> ts_modes t' = cooked\<lparr>tm_raw := True\<rparr>" for t'
    using that run_raw_off[OF assms(1)] by (auto simp: cooked_def)
  have ui: "ts_modes t2 = cooked" if "ui_run out ue t1 = (y, t2)" for y t2
    using ui_run_cooked[OF assms(1,3), of t1] that by simp
  show ?thesis
  proof (cases x)
    case (Inl e)
    then show ?thesis using assms(4) x t1(2) by (simp add: main_tui_def)
  next
    case (Inr u)
    note main = assms(4)[unfolded main_tui_def x Inr prod.case sum.case]
    show ?thesis
    proof (cases loaded)
      case (Inl e)
      then show ?thesis using main off[OF t1(1)] by simp
    next
      case (Inr c)
      obtain ex m1 where rm: "run_main mode pid override c m = (ex, m1)" by fastforce
      obtain y t2 where y: "ui_run out ue t1 = (y, t2)" by fastforce
      have "ts_modes t2 = cooked" "ts_modes (snd (run_cmd out RawOff t2)) = cooked" using ui[OF y] off by blast+
      then show ?thesis using main off[OF t1(1)] Inr rm y by (cases ex; cases y) (auto split: if_splits)
    qed
  qed
qed


section \<open>Concrete instances\<close>

definition demo_closing :: "(nat, nat) closing" where
  "demo_closing = \<lparr>cg_notify = count_notify, cg_try_wait = (\<lambda>_. Inr False), cg_reader_done = (\<lambda>_. False), cg_drain = 9000\<rparr>"

definition demo_open :: "guarded \<Rightarrow> nat open_session" where
  "demo_open g = \<lparr>os_coordinator = coordinator_new count_notify, os_manager = manager_new count_notify,
                  os_pty = idle_session, os_guard = g\<rparr>"

definition demo_ui :: "(nat, nat) ui_env" where
  "demo_ui = \<lparr>ue_size = Inr (80, 24), ue_size_message = (\<lambda>e. e), ue_new_fails = None, ue_start = demo_start,
     ue_loaded = Inr web_config, ue_show_failure = (\<lambda>_. []),
     ue_spawn = \<lparr>sf_openpty = None, sf_cwd = None, sf_spawn = None, sf_reader = None, sf_writer = None\<rparr>,
     ue_closing = demo_closing, ue_loop = (\<lambda>_ g. LoopLeft 0 (demo_open (guard_step (\<lambda>_. Works) ThreadPanics g)))\<rparr>"

definition idle_machine :: machine where
  "idle_machine = \<lparr>mc_instances = [], mc_webui_pid = None, mc_processes = [], mc_protected = [], mc_signalled = [], mc_claude_dirs = []\<rparr>"


end
