(* ===== verification/Cli.thy ===== *)
theory Cli
  imports CommandsProps ConfigFileProps Entry
begin

text \<open>
  \<open>main\<close> of \<open>src/main.rs\<close>: the subcommands, as clap hands them over, on one world of processes, files, installed
  programs and the terminal, and the start of the interface without a subcommand.  What the user types, what the
  system answers and what the pages of a foreground web server do to the files are a record of parameters.
\<close>

section \<open>The command line\<close>

datatype cli_command =
    CmdStatus
  | CmdLogs nat bool
  | CmdStop
  | CmdUninstall bool bool
  | CmdWebui "string option" bool bool
  | CmdBind string
  | CmdPasswd
  | CmdReset bool

datatype daemon_fault = LogNotOpened | NotSpawned | NumberNotWritten

record cli_env =
  ce_codec :: toml_codec
  ce_messages :: messages
  ce_load :: io_faults
  ce_save :: io_faults
  ce_home :: "string option"
  ce_mode :: cli_mode
  ce_answer :: string
  ce_user_line :: string
  ce_pass_line :: string
  ce_present :: "string \<Rightarrow> bool"
  ce_tail :: nat
  ce_daemon_fault :: "daemon_fault option"
  ce_child :: u32
  ce_command :: string
  ce_now :: nat
  ce_bindable :: "string \<Rightarrow> bool"
  ce_served :: "web_server \<Rightarrow> (string \<Rightarrow> string option) \<Rightarrow> (string \<Rightarrow> string option)"

record world =
  wd_machine :: machine
  wd_disk :: "string \<Rightarrow> string option"
  wd_install :: install
  wd_tty :: tty_state

definition load_in :: "cli_env \<Rightarrow> world \<Rightarrow> (config_error + config) \<times> world" where
  "load_in env w =
     (case config_load (ce_codec env) (ce_messages env) (ce_load env) (ce_home env) (wd_disk w) of
        (r, d) \<Rightarrow> (r, w\<lparr>wd_disk := d\<rparr>))"

definition on_machine :: "exit \<times> machine \<Rightarrow> world \<Rightarrow> exit \<times> world" where
  "on_machine r w = (fst r, w\<lparr>wd_machine := snd r\<rparr>)"

definition on_disk :: "exit \<times> (string \<Rightarrow> string option) \<Rightarrow> world \<Rightarrow> exit \<times> world" where
  "on_disk r w = (fst r, w\<lparr>wd_disk := snd r\<rparr>)"

text \<open>\<open>cmd_status\<close> loads the configuration only to print the address of a running daemon.\<close>

definition status_command :: "cli_env \<Rightarrow> world \<Rightarrow> exit \<times> world" where
  "status_command env w =
     (let m = wd_machine w;
          w1 = (case read_webui_pid m of
                  Some p \<Rightarrow> if is_process_running m p then snd (load_in env w) else w
                | None \<Rightarrow> w)
      in on_machine (cmd_status m) w1)"

definition logs_command :: "cli_env \<Rightarrow> nat \<Rightarrow> bool \<Rightarrow> world \<Rightarrow> exit \<times> world" where
  "logs_command env n follow w =
     (case load_in env w of
        (r, w1) \<Rightarrow>
          (case cmd_logs (ce_home env) r (ce_present env) n follow of
             NoLogFile _ \<Rightarrow> (ExitFail 1, w1)
           | Tail _ _ _ \<Rightarrow> (if ce_tail env = 0 then ExitOk else ExitFail (ce_tail env), w1)))"

text \<open>The child of \<open>webui --daemon\<close> runs on when its number cannot be written.\<close>

definition daemon_command :: "cli_env \<Rightarrow> world \<Rightarrow> exit \<times> world" where
  "daemon_command env w =
     (let m1 = snd (cmd_webui_daemon (ce_child env) (ce_command env) (wd_machine w)) in
      case ce_daemon_fault env of
        None \<Rightarrow> (ExitOk, w\<lparr>wd_machine := m1\<rparr>)
      | Some NumberNotWritten \<Rightarrow> (ExitFail 1, w\<lparr>wd_machine := m1\<lparr>mc_webui_pid := mc_webui_pid (wd_machine w)\<rparr>\<rparr>)
      | Some _ \<Rightarrow> (ExitFail 1, w))"

definition webui_command :: "cli_env \<Rightarrow> string option \<Rightarrow> bool \<Rightarrow> world \<Rightarrow> exit \<times> world" where
  "webui_command env override daemon w =
     (case load_in env w of
        (Inl _, w1) \<Rightarrow> (ExitFail 1, w1)
      | (Inr c, w1) \<Rightarrow>
          if daemon then daemon_command env w1
          else (let path = config_path (ce_home env) in
                case cmd_webui (ce_now env) (ce_mode env) path override (ce_bindable env) (wd_disk w1 path) (Inr c) of
                  WebuiFails e \<Rightarrow> (e, w1)
                | WebuiServes _ server \<Rightarrow> (ExitOk, w1\<lparr>wd_disk := ce_served env server (wd_disk w1)\<rparr>)))"

text \<open>The instances are files below the configuration's directory, and so is the daemon's.\<close>

definition uninstall_command :: "cli_env \<Rightarrow> bool \<Rightarrow> bool \<Rightarrow> world \<Rightarrow> exit \<times> world" where
  "uninstall_command env purge yes w =
     (if \<not> confirmed yes (ce_answer env) then (ExitOk, w)
      else let m = (wd_machine w)\<lparr>mc_instances := []\<rparr> in
           (ExitOk, w\<lparr>wd_install := cmd_uninstall purge yes (ce_answer env) (wd_install w),
                      wd_machine := (if purge then m\<lparr>mc_webui_pid := None\<rparr> else m),
                      wd_disk := (if purge then (wd_disk w)(config_path (ce_home env) := None) else wd_disk w)\<rparr>))"

fun cli_dispatch :: "cli_env \<Rightarrow> cli_command \<Rightarrow> world \<Rightarrow> exit \<times> world" where
  "cli_dispatch env CmdStatus w = status_command env w"
| "cli_dispatch env (CmdLogs n follow) w = logs_command env n follow w"
| "cli_dispatch env CmdStop w = on_machine (cmd_stop (wd_machine w)) w"
| "cli_dispatch env (CmdUninstall purge yes) w = uninstall_command env purge yes w"
| "cli_dispatch env (CmdWebui override daemon stop) w =
     (if stop then on_machine (cmd_webui_stop (wd_machine w)) w else webui_command env override daemon w)"
| "cli_dispatch env (CmdBind mode) w =
     on_disk (cmd_bind (ce_codec env) (ce_messages env) (ce_load env) (ce_save env) (ce_home env) mode (wd_disk w)) w"
| "cli_dispatch env CmdPasswd w =
     on_disk (cmd_passwd (ce_codec env) (ce_messages env) (ce_load env) (ce_save env) (ce_home env)
                (ce_user_line env) (ce_pass_line env) (wd_disk w)) w"
| "cli_dispatch env (CmdReset yes) w = on_machine (cmd_reset yes (ce_answer env) (wd_machine w)) w"

text \<open>\<open>run_main\<close> loads the configuration after raw mode has been entered, and \<open>run\<close> loads it again.\<close>

definition main_program ::
    "(term_cmd \<Rightarrow> outcome) \<Rightarrow> bool \<Rightarrow> cli_env \<Rightarrow> u32 \<Rightarrow> cli_command option \<Rightarrow> string option
     \<Rightarrow> (tty_state \<Rightarrow> (string + unit) \<times> tty_state) \<Rightarrow> world \<Rightarrow> run_end \<times> world" where
  "main_program out is_tty env pid command override ui w =
     (case command of
        Some c \<Rightarrow> (case cli_dispatch env c w of (ExitOk, w1) \<Rightarrow> (RunOk, w1) | (ExitFail n, w1) \<Rightarrow> (RunExit n, w1))
      | None \<Rightarrow>
          (case load_in env w of
             (r, w1) \<Rightarrow>
               (let w2 = (if is_tty \<and> isl (fst (run_cmd out RawOn (wd_tty w))) then w else w1) in
                case main_tui out is_tty r (ce_mode env) pid override ui (wd_machine w) (wd_tty w) of
                  (e, m, t) \<Rightarrow> (e, w2\<lparr>wd_machine := m, wd_tty := t\<rparr>))))"

section \<open>Who is signalled\<close>

definition listed :: "machine \<Rightarrow> u32 set" where
  "listed m = ii_pid ` set (fst (list_running_instances m))"

text \<open>The processes a command means to stop.\<close>

definition meant :: "cli_env \<Rightarrow> cli_command \<Rightarrow> machine \<Rightarrow> u32 set" where
  "meant env c m =
     (case c of
        CmdStop \<Rightarrow> listed m
      | CmdReset yes \<Rightarrow> if confirmed yes (ce_answer env) then listed m else {}
      | CmdWebui _ _ True \<Rightarrow> (case read_webui_pid m of Some p \<Rightarrow> if is_process_running m p then {p} else {} | None \<Rightarrow> {})
      | _ \<Rightarrow> {})"

lemma kill_term_set:
  "kill_term p m = (ok, m') \<Longrightarrow> set (mc_signalled m') = set (mc_signalled m) \<union> {q. q = p \<and> is_process_running m q \<and> q \<notin> set (mc_protected m)}
     \<and> mc_processes m' = mc_processes m \<and> mc_protected m' = mc_protected m"
  by (auto simp: kill_term_def split: if_splits)

lemma listed_running: "listed m = {p \<in> ii_pid ` set (List.map_filter read_instance (mc_instances m)). is_process_running m p}"
  by (auto simp: listed_def list_running_instances_def)

lemma signal_all_set:
  "signal_all is m = (n, m') \<Longrightarrow> set (mc_signalled m') = set (mc_signalled m)
     \<union> {p \<in> ii_pid ` set is. is_process_running m p \<and> p \<notin> set (mc_protected m)}"
proof (induction "is" arbitrary: m n)
  case (Cons i "is")
  obtain ok m1 where k: "kill_term (ii_pid i) m = (ok, m1)" by fastforce
  obtain n1 where r: "signal_all is m1 = (n1, m')" using Cons.prems k by (auto split: prod.splits)
  show ?case using kill_term_set[OF k] Cons.IH[OF r] by (auto simp: is_process_running_def)
qed simp

lemma stop_and_forget_set:
  "set (mc_signalled (stop_and_forget is m)) = set (mc_signalled m)
     \<union> {p \<in> ii_pid ` set is. is_process_running m p \<and> p \<notin> set (mc_protected m)}"
proof (induction "is" arbitrary: m)
  case (Cons i "is")
  obtain ok m1 where k: "kill_term (ii_pid i) m = (ok, m1)" by fastforce
  show ?case using kill_term_set[OF k] Cons.IH[of "if ok then drop_pid_guard (ii_pid i) m1 else m1"]
    by (auto simp: k is_process_running_def drop_pid_guard_def)
qed simp

lemma signalled_by_list:
  assumes "list_running_instances m = (is, m1)"
  shows "mc_signalled m1 = mc_signalled m" "is_process_running m1 = is_process_running m" "mc_protected m1 = mc_protected m"
    "{p \<in> ii_pid ` set is. is_process_running m1 p \<and> p \<notin> set (mc_protected m1)} = listed m - set (mc_protected m)"
  using assms by (auto simp: list_running_instances_def listed_def is_process_running_def fun_eq_iff)

lemma stop_signals: "set (mc_signalled (snd (cmd_stop m))) = set (mc_signalled m) \<union> (listed m - set (mc_protected m))"
proof -
  obtain ls m1 where l: "list_running_instances m = (ls, m1)" by fastforce
  obtain n m2 where s: "signal_all ls m1 = (n, m2)" by fastforce
  have "snd (cmd_stop m) = m2" using l s by (cases ls) (auto simp: cmd_stop_def)
  then show ?thesis using signal_all_set[OF s] signalled_by_list[OF l] by simp
qed

lemma reset_signals:
  "set (mc_signalled (snd (cmd_reset yes input m))) = set (mc_signalled m)
     \<union> (if confirmed yes input then listed m - set (mc_protected m) else {})"
proof -
  obtain ls m1 where l: "list_running_instances m = (ls, m1)" by fastforce
  show ?thesis using signalled_by_list[OF l] stop_and_forget_set[of ls m1] by (simp add: cmd_reset_def l Let_def)
qed

lemma cli_dispatch_tty: "wd_tty (snd (cli_dispatch env c w)) = wd_tty w"
  by (cases c) (auto simp: on_machine_def on_disk_def status_command_def load_in_def logs_command_def uninstall_command_def
      webui_command_def daemon_command_def Let_def
      split: option.splits sum.splits prod.splits logs_result.splits webui_start.splits daemon_fault.splits)


section \<open>What a command leaves\<close>


text \<open>A password that was set is the one the web server asks for when it is started next, whatever was configured before;
  it comes with a user name.\<close>

theorem set_password_guards_pages:
  assumes "codec_good (ce_codec env)" "ce_load env = no_faults" "cli_dispatch env CmdPasswd w = (ExitOk, w')"
    and "str_trim (ce_pass_line env) = p" "p \<noteq> []" "p \<noteq> ''-''"
  shows "\<exists>c u. load_in env w' = (Inr c, w')
     \<and> (\<forall>addr server. cmd_webui now mode path override bindable file (Inr c) = WebuiServes addr server
          \<longrightarrow> sv_credentials server = Some (u, p))"
proof -
  let ?path = "config_path (ce_home env)"
  obtain r d where l: "config_load (ce_codec env) (ce_messages env) (ce_load env) (ce_home env) (wd_disk w) = (r, d)" by fastforce
  obtain c0 where r: "r = Inr c0" using assms(3) l by (cases r) (auto simp: on_disk_def cmd_passwd_def edit_config_def)
  let ?f = "\<lambda>c. c\<lparr>webui := apply_passwd (ce_user_line env) (ce_pass_line env) (webui c)\<rparr>"
  obtain x file' where sv: "save_config (ce_codec env) (ce_messages env) (ce_save env) ?path (?f c0) (d ?path) = (x, file')"
    by fastforce
  have x: "x = Inr ()" and w': "wd_disk w' = d(?path := file')" "w' = w\<lparr>wd_disk := d(?path := file')\<rparr>"
    using assms(3) l r sv by (auto simp: on_disk_def cmd_passwd_def edit_config_def split: sum.splits)
  obtain s where s: "config_to_str (ce_codec env) (?f c0) = Some s" "file' = Some s"
    using save_config_ok[OF sv[unfolded x]] by auto
  have ld: "load_in env w' = (Inr (canon_config (?f c0)), w')"
    using load_written[OF assms(1) s(1)] s(2) w' by (simp add: load_in_def config_load_def assms(2) Let_def)
  have pw: "password (webui (canon_config (?f c0))) = Some p" "username (webui (canon_config (?f c0))) \<noteq> None"
    using assms(4-6) by (auto simp: canon_config_def apply_passwd_def Let_def)
  then obtain u where cr: "web_credentials (webui (canon_config (?f c0))) = Some (u, p)"
    by (auto simp: web_credentials_def)
  show ?thesis
    by (intro exI[of _ "canon_config (?f c0)"] exI[of _ u])
       (auto simp: ld cmd_webui_def new_web_server_def cr Let_def split: sum.splits if_splits)
qed

section \<open>Concrete instances\<close>

definition guarded_config :: config where
  "guarded_config = default_config\<lparr>webui := (webui default_config)\<lparr>username := Some ''root'', password := Some ''pw''\<rparr>\<rparr>"

definition demo_cli :: cli_env where
  "demo_cli = \<lparr>ce_codec = docs_codec [the (toml_of_config guarded_config)], ce_messages = demo_messages,
     ce_load = no_faults, ce_save = no_faults, ce_home = None, ce_mode = ModeCopilot, ce_answer = [], ce_user_line = ''root'',
     ce_pass_line = ''pw'', ce_present = (\<lambda>_. False), ce_tail = 0, ce_daemon_fault = None, ce_child = 9,
     ce_command = ''anycode'', ce_now = 0, ce_bindable = (\<lambda>_. True), ce_served = (\<lambda>_ d. d)\<rparr>"

definition demo_world :: world where
  "demo_world = \<lparr>wd_machine = idle_machine, wd_disk = (\<lambda>_. None),
     wd_install = \<lparr>in_dir = [], in_binary = ''anycode'', in_instances = True, in_config = True\<rparr>,
     wd_tty = \<lparr>ts_modes = cooked, ts_cmds = []\<rparr>\<rparr>"


lemma guarded_written: "config_to_str (ce_codec demo_cli) guarded_config = Some ''x''"
proof -
  have "\<exists>t. toml_of_config guarded_config = Some t"
    by (simp add: guarded_config_def toml_of_config_def toml_of_nat_def toml_of_debug_def toml_of_rotation_def toml_of_profile_def
        toml_of_defaults_def default_config_def default_debug_logging_def default_rotation_def default_defaults_def default_profile_def)
  then show ?thesis by (auto simp: config_to_str_def demo_cli_def docs_codec_def)
qed

theorem set_password_guards_pages_witness:
  "\<exists>c u. load_in demo_cli (snd (cli_dispatch demo_cli CmdPasswd demo_world)) = (Inr c, snd (cli_dispatch demo_cli CmdPasswd demo_world))
     \<and> (\<forall>addr server. cmd_webui 0 ModeCopilot ''c'' None (\<lambda>_. True) None (Inr c) = WebuiServes addr server
          \<longrightarrow> sv_credentials server = Some (u, ''pw''))"
proof -
  have t: "str_trim ''root'' = ''root''" "str_trim ''pw'' = ''pw''" by code_simp+
  have "default_config\<lparr>webui := apply_passwd ''root'' ''pw'' (webui default_config)\<rparr> = guarded_config"
    by (simp add: apply_passwd_def t guarded_config_def Let_def)
  then have d: "cli_dispatch demo_cli CmdPasswd demo_world = (ExitOk, snd (cli_dispatch demo_cli CmdPasswd demo_world))"
    using guarded_written
    by (simp add: on_disk_def cmd_passwd_def edit_config_def config_load_def load_from_def save_config_def write_file_def
        demo_world_def demo_cli_def Let_def)
  have "codec_good (ce_codec demo_cli)" "ce_load demo_cli = no_faults" "str_trim (ce_pass_line demo_cli) = ''pw''"
    by (simp_all add: demo_cli_def t)
  then show ?thesis using set_password_guards_pages[OF _ _ d, where now = 0 and mode = ModeCopilot and path = "''c''"] by simp
qed

end
