(* ===== verification/Spec2Isabelle.thy ===== *)
theory Spec2Isabelle
  imports InputParserProps ThinkingConcurrency SpawnProps MetricsProps RuntimeProps ObservedStream Server Shim Shutdown
    ConfigFileProps WebApiProps WebAuthProps LogProps CommandsProps TtyProps PtySession ScreenProps
    Emulator Launch Cli
begin

text \<open>
  A model of anycode, a terminal wrapper around a coding assistant that routes the assistant's API
  requests to interchangeable backends.  The program has four layers.  The terminal layer
  (\<open>crates/term_input\<close>) turns raw bytes into key, mouse and paste events.  The interface (\<open>src/ui\<close>) is an
  event loop over an application state with four small state machines (history, settings, backend
  switch, life cycle of the child); it starts the assistant in a pseudo terminal with arguments and an
  environment it assembles (\<open>src/args\<close>), and sends commands through a bridge to the proxy's IPC server
  (\<open>src/ipc\<close>).  The proxy (\<open>src/proxy\<close>) authenticates and routes each API request and takes it through
  seven stages: read and parse the body, choose the backend, open a thinking session, rewrite the body,
  rewrite the headers, send with retries, and handle the response, which is streamed to the client under
  observation.  Around it stand the shared state the stages read: the configuration and the
  active backend (\<open>src/config\<close>, \<open>src/backend\<close>), which a web interface edits while the session runs
  (\<open>src/proxy/webui\<close>), the registry of subagents and teammates filled by hooks
  (\<open>src/proxy/hooks.rs\<close>), the registry of thinking blocks (\<open>src/proxy/thinking\<close>), and the metrics
  (\<open>src/metrics\<close>).

  Theories and the code they model:
  \<^item> \<open>Prelude\<close>: saturating words, strings and their searches, insertion-ordered maps, and the locale
    \<open>id_store\<close> (a keyed store), interpreted on association lists here and on the subagent registry in
    \<open>BackendState\<close>.
  \<^item> \<open>Utf8\<close>: the standard library's UTF-8 validation, lossy decoding, encoding and char boundaries.
  \<^item> \<open>TermEvent\<close>, \<open>InputParser\<close>, \<open>InputParserProps\<close>: \<open>event.rs\<close> and \<open>parser.rs\<close> of \<open>crates/term_input\<close>;
    the parser state is a record with the collected bytes, the state machine's state and the queue,
    one definition per \<open>handle_*\<close> function, a step as a sum whose left side is a panic.
  \<^item> \<open>Json\<close>: JSON values and the accessors the code uses.  Strings are byte strings; parsing and
    printing JSON text belong to the serde library and are parameters (\<open>jparse\<close>, \<open>jprint\<close>).
  \<^item> \<open>Sse\<close>: \<open>src/sse.rs\<close>.
  \<^item> \<open>ThinkingRegistry\<close>, \<open>ThinkingProps\<close>, \<open>ThinkingConcurrency\<close>: \<open>src/proxy/thinking\<close>.  The hash function and
    the clock are parameters; the last theory is a step relation of requests, responses and switches
    in any order on the shared registry.
  \<^item> \<open>ConfigTypes\<close>, \<open>Credentials\<close>: \<open>src/config/types.rs\<close>, \<open>auth.rs\<close>, \<open>credentials.rs\<close>, \<open>src/cli_mode.rs\<close>.
  \<^item> \<open>BackendState\<close>: \<open>src/backend/state.rs\<close>.  \<open>ProxyError\<close>, \<open>Hooks\<close>: \<open>src/proxy/error.rs\<close>, \<open>hooks.rs\<close>.
  \<^item> \<open>Routing\<close>, \<open>Headers\<close>, \<open>UpstreamUrl\<close>, \<open>Transform\<close>, \<open>Forward\<close>, \<open>Retry400\<close>, \<open>ModelRewrite\<close>, \<open>Pipeline\<close>:
    \<open>src/proxy/pipeline\<close> and \<open>src/proxy/model_rewrite.rs\<close>, one theory per stage and their composition
    \<open>execute_pipeline\<close>.

  \<^item> \<open>Models\<close>, \<open>Server\<close>: \<open>src/proxy/models.rs\<close>, and \<open>router.rs\<close>, \<open>health.rs\<close> and the port search of
    \<open>server.rs\<close>; \<open>serve\<close> takes one HTTP request through authentication, the route table, the hooks and the
    pipeline.  \<open>Shim\<close>: the script of \<open>src/shim/tmux.rs\<close> from search path and arguments to the registration it
    sends and the program it becomes.  \<open>Shutdown\<close>: \<open>src/shutdown.rs\<close>, \<open>src/proxy/shutdown.rs\<close>, \<open>connection.rs\<close>; waiting is a sequence of
    atomic steps between which signals fall.
  \<^item> \<open>Args\<close>, \<open>ClaudeSettings\<close>, \<open>Spawn\<close>, \<open>SpawnProps\<close>: \<open>src/args\<close>, \<open>src/config/claude_settings.rs\<close> and the parts
    of \<open>src/ui/runtime.rs\<close> that assemble the child's command; the machine (home, files, environment) is a record.
  \<^item> \<open>Float64\<close>, \<open>BoundedRing\<close>, \<open>BodyAnalysis\<close>, \<open>Metrics\<close>, \<open>MetricsProps\<close>: \<open>src/metrics\<close>: rounding of quotients to
    double precision, the ring as a locale interpreted on its two implementations, the body analysers, spans,
    aggregation and the hub.  \<open>Redaction\<close>: \<open>redaction.rs\<close>.  \<open>ObservedStream\<close>: \<open>stream.rs\<close>, driven by a list of polls.
  \<^item> \<open>ErrorRegistry\<close>: \<open>src/error.rs\<close>.  \<open>Mvi\<close>, \<open>Dialogs\<close>: \<open>crates/mvi\<close> and the four state machines under \<open>src/ui\<close>.
  \<^item> \<open>Ipc\<close>: \<open>src/ipc\<close>, with the contract of a query as a locale.  \<open>Selection\<close>, \<open>Layout\<close>: \<open>selection.rs\<close>, \<open>layout.rs\<close>,
    \<open>header.rs\<close>, \<open>footer.rs\<close>.  \<open>PtyHandle\<close>: \<open>src/pty/handle.rs\<close>, \<open>hotkey.rs\<close> and the log tail of \<open>session.rs\<close>.
  \<^item> \<open>App\<close>, \<open>AppInput\<close>, \<open>Runtime\<close>, \<open>RuntimeProps\<close>: \<open>app.rs\<close>, \<open>input.rs\<close>, \<open>events.rs\<close> and the event loop and bridge of
    \<open>runtime.rs\<close>; one iteration is \<open>handle_event\<close> on the record of the loop's variables.
  \<^item> \<open>TtyReader\<close>, \<open>TtyProps\<close>: \<open>crates/term_input/src/reader.rs\<close> and the thread of \<open>EventHandler\<close> in \<open>events.rs\<close>, over what
    happens on the descriptor; a read that never returns has the value \<open>None\<close>.  \<open>PtySession\<close>: \<open>src/pty/session.rs\<close> and the
    pass-through of \<open>manager.rs\<close>.
  \<^item> \<open>ConfigToml\<close>, \<open>ConfigFile\<close>, \<open>ConfigFileProps\<close>: \<open>src/config/loader.rs\<close>, \<open>store.rs\<close> and the serde attributes of \<open>types.rs\<close>:
    every struct to and from a TOML value, the migration, loading and saving with each point of failure.
  \<^item> \<open>WebApi\<close>, \<open>WebApiProps\<close>: \<open>src/proxy/webui/api.rs\<close> over the file, the store and the backend state.  \<open>WebAuth\<close>,
    \<open>WebAuthProps\<close>: \<open>src/proxy/webui/mod.rs\<close>: sessions, cookies, the layer and the router.
  \<^item> \<open>DebugLog\<close>, \<open>LogFile\<close>, \<open>LogProps\<close>: \<open>src/metrics/debug_logger.rs\<close>: the channel, the line formats, the rotating file,
    pruning and the writer loop over a directory.
  \<^item> \<open>Commands\<close>, \<open>CommandsProps\<close>: the commands and the instance files of \<open>src/main.rs\<close>.  \<open>Startup\<close>: \<open>ProxyServer::new\<close> and
    \<open>run\<close> of \<open>runtime.rs\<close> up to the bound port and the first child; \<open>Launch\<close>: from there to the first state of the event loop,
    and what holds in every later one.  \<open>TerminalGuard\<close>: \<open>src/ui/terminal_guard.rs\<close>, on the modes its commands switch.
    \<open>Entry\<close>: \<open>run\<close> around the loop with the shutdown, and \<open>main\<close> around it; \<open>Cli\<close>: \<open>main\<close> with its subcommands on one world.
  \<^item> \<open>Screen\<close>, \<open>ScreenProps\<close>: drawing (\<open>render.rs\<close>, \<open>terminal.rs\<close>, \<open>theme.rs\<close>, \<open>components/popup.rs\<close>, the dialogs of
    \<open>backend_switch\<close> and \<open>history\<close>): \<open>draw\<close> gives the cells of the frame, the cursor and the dialog.  \<open>Emulator\<close>: the adapter
    \<open>src/pty/emulator/alacritty_impl.rs\<close> and the watcher \<open>src/pty/resize.rs\<close>.

  What the lemmas show.  Parser: no input panics it, feeding in pieces is feeding at once, no byte is
  lost or reordered outside mouse reports and pastes, and pastes, typed characters and mouse
  reports are read back as they were encoded.  Thinking: a request carries exactly the blocks
  registered under the current session, under any interleaving of requests, responses and switches;
  streamed and whole responses register the same list; the cache is cleaned as documented.  Routing:
  a resolved backend is configured, subagents stay with their birth backend, the marker round trips.
  Requests: no client credential reaches a backend with its own, a conversation keeps all thinking
  blocks or none, original bytes are only sent when nothing changed, the retry loop is exact and
  bounded, responses name the model the client asked for, every request's span finishes once.
  Server: without the token nothing is sent, a teammate stays with its birth backend from the command line
  the shim rewrites through hooks, router, routing and pipeline, and polling the stream of an answer, however it is cut and whenever it stops,
  amounts to what the pipeline says and is recorded once.  Metrics: the hub refines a log of finished
  requests.  Interface: the dialogs' selections stay in range, the focus is where the open dialog is, typed
  input reaches the child once and in order, and a backend chosen in the dialog becomes the active one
  through the channel, the bridge and the IPC server.  Shutdown: a task on a handle never misses the signal,
  and a child is gone within a bounded time.  Terminal: the events the loop gets are those of the parser on the bytes
  read, each once and in order, however the bytes are cut and delayed.  Configuration: what is written is read back, the migration loses
  nothing, saving a profile changes only it.  Web interface: without a login nothing is served or changed, an
  edit answered 200 is in the file, the store and the proxy, keys never leave it, and the proxy keeps a usable backend.  Log: events
  in order, bounded files.  Start: the child finds its proxy and the proxy knows its child, and from the first state of the
  loop on the interface shows the overrides the proxy serves.  Screen: a click means the cell that was drawn there, the
  marked row of a dialog is the one that is confirmed.  Program: however it is called and however it ends, the terminal is
  given back; after the regular end every task has been told within a bounded time; a command signals the processes it
  means to and no other.
  Theorems whose names end in \<open>_lost\<close>, \<open>_panics\<close>, \<open>_dangle\<close>, \<open>_differ\<close> or that say \<open>ignores\<close>, \<open>misses\<close>, \<open>cuts\<close>, \<open>wedges\<close>, \<open>drops\<close>, \<open>disarms\<close> \<open>forwarded\<close>,
  \<open>persists\<close>, \<open>blocks\<close>, \<open>leaves\<close>, \<open>empties\<close>, \<open>needs\<close> or \<open>recycled\<close> state
  behaviour of the code that is probably not meant; they are proved on the model like the others.

  Bounds.  Rust's \<open>u8\<close>, \<open>u16\<close>, \<open>u32\<close> and \<open>u64\<close> are words; \<open>usize\<close> is \<open>nat\<close> (lengths of data in
  memory), so counts of blocks carry the hypothesis that they fit in \<open>u32\<close>.  The retry loop recurs on a
  \<open>u32\<close> with a termination proof, the waits of a shutdown on the time left, the reader on the bytes left; no definition
  uses fuel.

  Not modelled: what the drawing library makes of a symbol, a style and a line; the emulator, the pseudo terminal and the
  system's clipboard, which are libraries; the parsing of the command line by clap and of HTTP by axum; the text of JSON and
  TOML documents (parameters with their documented laws); reading a secret with the echo off and what the commands only
  print; the log of the shell script that the shim installs.  Locks appear as the atomic steps they guard.
\<close>

end
